(* ===== verification/Go_Prelude.thy ===== *)
theory Go_Prelude
  imports Main "HOL-Library.Char_ord" "HOL-Library.List_Lexorder"
begin

text \<open>
  The parts of Go that every Scheduler component uses: error values, the string functions of
  package \<^verbatim>\<open>strings\<close>, and the effects of a database-backed Go function.

  A Go function that may fail and that talks to the database is a value of type
  \<open>('d, 'a) go\<close>: it takes the world (the database, the wall clock, the outcomes the
  database calls will have) and returns an error or a result, with the world after it.
  \<open>bindE\<close> is the idiom \<^verbatim>\<open>x, err := f(); if err != nil { return err }\<close>, \<open>attempt\<close> is a call
  whose error the caller inspects, and \<open>transaction\<close> is
  \<^verbatim>\<open>tx, err := BeginTx(); defer tx.Rollback(); ...; tx.Commit()\<close>.

  Strings are byte strings, ordered byte by byte, as Go's are.
\<close>

named_theorems go_unfold \<open>definitions of the effects\<close>
named_theorems go_elims \<open>decomposition of a call that returned a result\<close>

section \<open>Errors\<close>

text \<open>The error values the code compares with \<^verbatim>\<open>==\<close> or \<^verbatim>\<open>errors.Is\<close>.\<close>

datatype sentinel =
    ErrNoRows
  | ContextCanceled
  | ContextDeadlineExceeded
  | ErrTriggerBacklogFull
  | ErrScheduledPlanInvalid
  | ErrScheduledPlanConflict
  | ErrScheduledPlanNotFound
  | ErrScheduledPlanDeletionReadUnsupported
  | ErrDefinitionPublicationRequired
  | ErrDefinitionPublicationSessionMismatch
  | ErrDefinitionPublicationCapabilityRequired
  | ErrDefinitionSnapshotStale
  | ErrDefinitionSnapshotConflict
  | ErrDefinitionPublicationCAS
  | ErrServerClosed

datatype goerr =
    Sentinel sentinel
  | Errorf string          \<comment> \<open>\<^verbatim>\<open>fmt.Errorf\<close> or \<^verbatim>\<open>errors.New\<close> with this text\<close>
  | Wrapf string goerr     \<comment> \<open>\<^verbatim>\<open>fmt.Errorf("text%w", err)\<close>\<close>
  | Annotatef goerr string  \<comment> \<open>\<^verbatim>\<open>fmt.Errorf("%wtext", err)\<close>\<close>
  | DriverError string     \<comment> \<open>an error of the database driver, by its text\<close>

fun errorsIs :: "goerr \<Rightarrow> sentinel \<Rightarrow> bool" where
  "errorsIs (Sentinel y) x = (x = y)"
| "errorsIs (Wrapf m e) x = errorsIs e x"
| "errorsIs (Annotatef e m) x = errorsIs e x"
| "errorsIs (Errorf m) x = False"
| "errorsIs (DriverError m) x = False"

fun errText :: "(sentinel \<Rightarrow> string) \<Rightarrow> goerr \<Rightarrow> string" where
  "errText txt (Sentinel y) = txt y"
| "errText txt (Errorf m) = m"
| "errText txt (Wrapf m e) = m @ errText txt e"
| "errText txt (Annotatef e m) = errText txt e @ m"
| "errText txt (DriverError m) = m"

text \<open>How a database or context call can fail, and the error value it then returns.\<close>

datatype failure =
    Canceled
  | DeadlineExceeded
  | DriverFailure string

fun failureErr :: "failure \<Rightarrow> goerr" where
  "failureErr Canceled = Sentinel ContextCanceled"
| "failureErr DeadlineExceeded = Sentinel ContextDeadlineExceeded"
| "failureErr (DriverFailure m) = DriverError m"

section \<open>Strings\<close>

text \<open>The UTF-8 encodings of the runes for which \<^verbatim>\<open>unicode.IsSpace\<close> holds.\<close>

definition space_runes :: "string list" where
  "space_runes =
     [[CHR 0x09], [CHR 0x0A], [CHR 0x0B], [CHR 0x0C], [CHR 0x0D], [CHR 0x20],
      [CHR 0xC2, CHR 0x85], [CHR 0xC2, CHR 0xA0], [CHR 0xE1, CHR 0x9A, CHR 0x80],
      [CHR 0xE2, CHR 0x80, CHR 0x80], [CHR 0xE2, CHR 0x80, CHR 0x81],
      [CHR 0xE2, CHR 0x80, CHR 0x82], [CHR 0xE2, CHR 0x80, CHR 0x83],
      [CHR 0xE2, CHR 0x80, CHR 0x84], [CHR 0xE2, CHR 0x80, CHR 0x85],
      [CHR 0xE2, CHR 0x80, CHR 0x86], [CHR 0xE2, CHR 0x80, CHR 0x87],
      [CHR 0xE2, CHR 0x80, CHR 0x88], [CHR 0xE2, CHR 0x80, CHR 0x89],
      [CHR 0xE2, CHR 0x80, CHR 0x8A], [CHR 0xE2, CHR 0x80, CHR 0xA8],
      [CHR 0xE2, CHR 0x80, CHR 0xA9], [CHR 0xE2, CHR 0x80, CHR 0xAF],
      [CHR 0xE2, CHR 0x81, CHR 0x9F], [CHR 0xE3, CHR 0x80, CHR 0x80]]"

definition startsWith :: "string \<Rightarrow> string \<Rightarrow> bool" where
  "startsWith p s \<longleftrightarrow> take (length p) s = p"

definition leading :: "string list \<Rightarrow> string \<Rightarrow> string option" where
  "leading ps s = find (\<lambda>p. p \<noteq> [] \<and> startsWith p s) ps"

text \<open>Removes prefixes taken from the list until none of them matches.\<close>

function strip :: "string list \<Rightarrow> string \<Rightarrow> string" where
  "strip ps s = (case leading ps s of None \<Rightarrow> s | Some p \<Rightarrow> strip ps (drop (length p) s))"
  by pat_completeness auto
termination
proof (relation "measure (\<lambda>(ps, s). length s)")
  fix ps :: "string list" and s p :: string
  assume "leading ps s = Some p"
  then have "p \<noteq> []" "take (length p) s = p"
    by (auto simp: leading_def startsWith_def find_Some_iff)
  then show "((ps, drop (length p) s), (ps, s)) \<in> measure (\<lambda>(ps, s). length s)"
    by (cases s) auto
qed simp

declare strip.simps [simp del]

definition trimSpace :: "string \<Rightarrow> string" where
  "trimSpace s = rev (strip (map rev space_runes) (rev (strip space_runes s)))"

definition isBlank :: "string \<Rightarrow> bool" where
  "isBlank s \<longleftrightarrow> trimSpace s = []"

definition asciiLower :: "char \<Rightarrow> char" where
  "asciiLower c = (if CHR ''A'' \<le> c \<and> c \<le> CHR ''Z'' then char_of (of_char c + 32 :: nat) else c)"

text \<open>
  \<^verbatim>\<open>strings.ToLower\<close> as far as ASCII patterns can tell: the two runes outside ASCII whose lower
  case is ASCII are U+0130 (i) and U+212A (k).
\<close>

fun toLower :: "string \<Rightarrow> string" where
  "toLower [] = []"
| "toLower (a # s) =
     (if a = CHR 0xC4 \<and> take 1 s = [CHR 0xB0] then CHR ''i'' # toLower (drop 1 s)
      else if a = CHR 0xE2 \<and> take 2 s = [CHR 0x84, CHR 0xAA] then CHR ''k'' # toLower (drop 2 s)
      else asciiLower a # toLower s)"

text \<open>
  \<^verbatim>\<open>strings.EqualFold\<close> against a pattern without the letters k and s, the only ASCII letters with
  a case variant outside ASCII.
\<close>

definition equalFold :: "string \<Rightarrow> string \<Rightarrow> bool" where
  "equalFold a b \<longleftrightarrow> map asciiLower a = map asciiLower b"

fun containsStr :: "string \<Rightarrow> string \<Rightarrow> bool" where
  "containsStr [] p = (p = [])"
| "containsStr (c # s) p = (startsWith p (c # s) \<or> containsStr s p)"

text \<open>Decimal digits: \<^verbatim>\<open>strconv.FormatInt\<close> and the fixed-width fields of a time.\<close>

definition digit :: "nat \<Rightarrow> char" where
  "digit n = char_of (48 + n mod 10)"

fun pad :: "nat \<Rightarrow> nat \<Rightarrow> string" where
  "pad 0 n = []"
| "pad (Suc w) n = pad w (n div 10) @ [digit n]"

fun decimal :: "nat \<Rightarrow> string" where
  "decimal n = (if n < 10 then [digit n] else decimal (n div 10) @ [digit n])"

declare decimal.simps [simp del]

definition formatInt :: "int \<Rightarrow> string" where
  "formatInt i = (if i < 0 then CHR ''-'' # decimal (nat (- i)) else decimal (nat i))"

section \<open>Effects\<close>

text \<open>
  \<open>clock w n\<close> is what the \<open>n\<close>-th call of \<^verbatim>\<open>time.Now\<close> returns; \<open>fault w n\<close> is how the \<open>n\<close>-th
  database or context call fails instead of doing its work, if it does; \<open>entropy w n\<close> are the bytes of
  the \<open>n\<close>-th \<^verbatim>\<open>rand.Read\<close>. A failed call has no effect on the database.
\<close>

record 'd world =
  db :: 'd
  clock :: "nat \<Rightarrow> int"
  reads :: nat
  fault :: "nat \<Rightarrow> failure option"
  calls :: nat
  entropy :: "nat \<Rightarrow> string"
  draws :: nat

type_synonym ('d, 'a) go = "'d world \<Rightarrow> (goerr + 'a) \<times> 'd world"

definition healthy :: "'d world \<Rightarrow> bool" where
  "healthy w \<longleftrightarrow> (\<forall>n. fault w n = None)"

definition ret :: "'a \<Rightarrow> ('d, 'a) go" where
  "ret x w = (Inr x, w)"

definition fail :: "goerr \<Rightarrow> ('d, 'a) go" where
  "fail e w = (Inl e, w)"

definition bindE :: "('d, 'a) go \<Rightarrow> ('a \<Rightarrow> ('d, 'b) go) \<Rightarrow> ('d, 'b) go" where
  "bindE m f w = (case m w of (Inl e, w') \<Rightarrow> (Inl e, w') | (Inr x, w') \<Rightarrow> f x w')"

definition attempt :: "('d, 'a) go \<Rightarrow> (goerr + 'a \<Rightarrow> ('d, 'b) go) \<Rightarrow> ('d, 'b) go" where
  "attempt m f w = (case m w of (r, w') \<Rightarrow> f r w')"

definition liftE :: "goerr + 'a \<Rightarrow> ('d, 'a) go" where
  "liftE r w = (r, w)"

definition timeNow :: "('d, int) go" where
  "timeNow w = (Inr (clock w (reads w)), w\<lparr>reads := Suc (reads w)\<rparr>)"

definition randRead :: "('d, string) go" where
  "randRead w = (Inr (entropy w (draws w)), w\<lparr>draws := Suc (draws w)\<rparr>)"

text \<open>A call the environment may let fail: \<^verbatim>\<open>ctx.Err()\<close>, \<^verbatim>\<open>BeginTx\<close>, \<^verbatim>\<open>Commit\<close>, \<^verbatim>\<open>rows.Err()\<close>.\<close>

definition envCall :: "('d, unit) go" where
  "envCall w = (case fault w (calls w) of
      Some e \<Rightarrow> (Inl (failureErr e), w\<lparr>calls := Suc (calls w)\<rparr>)
    | None \<Rightarrow> (Inr (), w\<lparr>calls := Suc (calls w)\<rparr>))"

text \<open>One SQL statement: a function on the database that returns rows or a row count.\<close>

definition sqlCall :: "('d \<Rightarrow> (goerr + 'a) \<times> 'd) \<Rightarrow> ('d, 'a) go" where
  "sqlCall f = bindE envCall (\<lambda>_ w. case f (db w) of (r, d) \<Rightarrow> (r, w\<lparr>db := d\<rparr>))"

definition sqlQuery :: "('d \<Rightarrow> goerr + 'a) \<Rightarrow> ('d, 'a) go" where
  "sqlQuery q = sqlCall (\<lambda>d. (q d, d))"

datatype 'a txout = Commit 'a | Rollback 'a

text \<open>
  A transaction body ends by asking for \<^verbatim>\<open>Commit\<close>, by a deliberate rollback with a result, or by an
  error, which the deferred \<^verbatim>\<open>Rollback\<close> undoes.
\<close>

definition transaction :: "('d, 'a txout) go \<Rightarrow> ('d, 'a) go" where
  "transaction body = bindE envCall (\<lambda>_ w.
     case body w of
       (Inl e, w') \<Rightarrow> (Inl e, w'\<lparr>db := db w\<rparr>)
     | (Inr (Rollback x), w') \<Rightarrow> (Inr x, w'\<lparr>db := db w\<rparr>)
     | (Inr (Commit x), w') \<Rightarrow>
         (case envCall w' of
            (Inl e, w'') \<Rightarrow> (Inl e, w''\<lparr>db := db w\<rparr>)
          | (Inr _, w'') \<Rightarrow> (Inr x, w'')))"

text \<open>A loop over a slice that collects results, and one that only acts; both stop at an error.\<close>

primrec mapE :: "('a \<Rightarrow> ('d, 'b) go) \<Rightarrow> 'a list \<Rightarrow> ('d, 'b list) go" where
  "mapE f [] = ret []"
| "mapE f (x # xs) = bindE (f x) (\<lambda>y. bindE (mapE f xs) (\<lambda>ys. ret (y # ys)))"

primrec foldE :: "('a \<Rightarrow> 's \<Rightarrow> ('d, 's) go) \<Rightarrow> 'a list \<Rightarrow> 's \<Rightarrow> ('d, 's) go" where
  "foldE f [] s = ret s"
| "foldE f (x # xs) s = bindE (f x s) (foldE f xs)"

lemmas [go_unfold] = ret_def fail_def bindE_def attempt_def liftE_def timeNow_def randRead_def
  envCall_def sqlCall_def sqlQuery_def transaction_def

section \<open>Facts about strings\<close>

lemma startsWith_append: "startsWith p s \<Longrightarrow> startsWith p (s @ t)"
  by (simp add: startsWith_def) (metis append_Nil2 append_take_drop_id length_take
      min.cobounded1 order_antisym take_all_iff take_append take_eq_Nil diff_is_0_eq')

lemma leading_drop:
  assumes "leading ps s = Some p"
  shows "s = p @ drop (length p) s"
  using assms unfolding leading_def startsWith_def find_Some_iff
  by (metis append_take_drop_id)

lemma leading_strip: "leading ps (strip ps s) = None"
proof (induction ps s rule: strip.induct)
  case (1 ps s)
  then show ?case
    by (cases "leading ps s") (simp_all add: strip.simps [of ps s])
qed

lemma strip_id: "leading ps s = None \<Longrightarrow> strip ps s = s"
  by (simp add: strip.simps [of ps s])

lemma strip_suffix: "\<exists>u. s = u @ strip ps s"
proof (induction ps s rule: strip.induct)
  case (1 ps s)
  show ?case
  proof (cases "leading ps s")
    case None
    then show ?thesis by (simp add: strip_id)
  next
    case (Some p)
    with 1 obtain u where u: "drop (length p) s = u @ strip ps (drop (length p) s)"
      by blast
    have "s = (p @ u) @ strip ps (drop (length p) s)"
      using leading_drop [OF Some] u by simp
    moreover have "strip ps s = strip ps (drop (length p) s)"
      using Some by (simp add: strip.simps [of ps s])
    ultimately show ?thesis by metis
  qed
qed

lemma leading_None_prefix: "leading ps (s @ t) = None \<Longrightarrow> leading ps s = None"
  unfolding leading_def find_None_iff by (auto dest: startsWith_append)

text \<open>Trimming twice is trimming once: a stored, trimmed key is found again by its trimmed form.\<close>

lemma trimSpace_idem [simp]: "trimSpace (trimSpace s) = trimSpace s"
proof -
  define a where "a = strip space_runes s"
  define b where "b = strip (map rev space_runes) (rev a)"
  obtain u where "rev a = u @ b"
    using strip_suffix unfolding b_def by blast
  then have "a = rev b @ rev u"
    by (metis rev_append rev_rev_ident)
  moreover have "leading space_runes a = None"
    unfolding a_def by (rule leading_strip)
  ultimately have "leading space_runes (rev b) = None"
    by (metis leading_None_prefix)
  moreover have "leading (map rev space_runes) b = None"
    unfolding b_def by (rule leading_strip)
  ultimately have "trimSpace (rev b) = rev b"
    by (simp add: trimSpace_def strip_id)
  then show ?thesis
    by (simp add: trimSpace_def a_def b_def)
qed

lemma trimSpace_Nil [simp]: "trimSpace [] = []"
  by (simp add: trimSpace_def strip.simps leading_def space_runes_def startsWith_def)

text \<open>A text of printing ASCII characters has nothing to trim.\<close>

definition plainText :: "string \<Rightarrow> bool" where
  "plainText s \<longleftrightarrow> list_all (\<lambda>c. (32 :: nat) < of_char c \<and> of_char c < (128 :: nat)) s"

lemma leading_plain:
  assumes "plainText s" and "\<And>p. p \<in> set ps \<Longrightarrow> p \<noteq> [] \<and> \<not> plainText [hd p]"
  shows "leading ps s = None"
proof -
  have "\<not> startsWith p s" if "p \<in> set ps" for p
  proof
    assume "startsWith p s"
    moreover have "p \<noteq> []" using assms(2) [OF that] by blast
    ultimately have "s \<noteq> []" "hd s = hd p"
      by (cases p; cases s; auto simp: startsWith_def)+
    then have "plainText [hd p]" using assms(1) by (cases s) (auto simp: plainText_def)
    then show False using assms(2) [OF that] by blast
  qed
  then show ?thesis unfolding leading_def find_None_iff by blast
qed

lemma trimSpace_plain:
  assumes "plainText s"
  shows "trimSpace s = s"
proof -
  have 1: "list_all (\<lambda>p. p \<noteq> [] \<and> \<not> plainText [hd p]) space_runes"
    and 2: "list_all (\<lambda>p. p \<noteq> [] \<and> \<not> plainText [hd p]) (map rev space_runes)"
    by (simp_all add: space_runes_def plainText_def)
  have "leading space_runes s = None"
    using assms 1 by (intro leading_plain) (auto simp: list_all_iff)
  moreover have "plainText (rev s)" using assms by (simp add: plainText_def list_all_iff)
  then have "leading (map rev space_runes) (rev s) = None"
    using 2 by (intro leading_plain) (auto simp: list_all_iff)
  ultimately show ?thesis by (simp add: trimSpace_def strip_id)
qed

lemma length_pad [simp]: "length (pad w n) = w"
  by (induction w arbitrary: n) auto

section \<open>Facts about effects\<close>

lemma healthy_upd [simp]:
  "healthy (w\<lparr>db := d\<rparr>) = healthy w"
  "healthy (w\<lparr>calls := n\<rparr>) = healthy w"
  "healthy (w\<lparr>reads := n\<rparr>) = healthy w"
  "healthy (w\<lparr>draws := n\<rparr>) = healthy w"
  by (simp_all add: healthy_def)

lemma healthy_fault [simp]: "healthy w \<Longrightarrow> fault w n = None"
  by (simp add: healthy_def)

lemma bindE_ret [simp]: "bindE (ret x) f = f x"
  by (simp add: bindE_def ret_def fun_eq_iff)

lemma bindE_fail [simp]: "bindE (fail e) f = fail e"
  by (simp add: bindE_def fail_def fun_eq_iff)

lemma bindE_assoc: "bindE (bindE m f) g = bindE m (\<lambda>x. bindE (f x) g)"
  by (auto simp: bindE_def fun_eq_iff split: sum.splits prod.splits)

lemma bindE_attempt: "bindE m f = attempt m (\<lambda>r. case r of Inl e \<Rightarrow> fail e | Inr x \<Rightarrow> f x)"
  by (auto simp: bindE_def attempt_def fail_def fun_eq_iff split: sum.splits prod.splits)

lemma envCall_healthy: "healthy w \<Longrightarrow> envCall w = (Inr (), w\<lparr>calls := Suc (calls w)\<rparr>)"
  by (simp add: envCall_def)

lemma sqlCall_healthy:
  "healthy w \<Longrightarrow> sqlCall f w = (fst (f (db w)), w\<lparr>calls := Suc (calls w), db := snd (f (db w))\<rparr>)"
  by (simp add: sqlCall_def bindE_def envCall_def split: prod.splits)

lemma bindE_step: "m w = (Inr x, w') \<Longrightarrow> bindE m f w = f x w'"
  by (simp add: bindE_def)

lemma attempt_step: "m w = (q, w') \<Longrightarrow> attempt m f w = f q w'"
  by (simp add: attempt_def)

lemma transaction_healthy:
  assumes "healthy w" "body (w\<lparr>calls := Suc (calls w)\<rparr>) = (Inr (Commit x), w1)" "healthy w1"
  shows "transaction body w = (Inr x, w1\<lparr>calls := Suc (calls w1)\<rparr>)"
  using assms by (simp add: transaction_def bindE_def envCall_healthy)

lemma bindE_timeNow:
  "bindE timeNow f w = f (clock w (reads w)) (w\<lparr>reads := Suc (reads w)\<rparr>)"
  by (simp add: bindE_def timeNow_def)

lemma bindE_InrE [go_elims]:
  assumes "bindE m f w = (Inr y, w'')"
  obtains x w' where "m w = (Inr x, w')" "f x w' = (Inr y, w'')"
  using assms by (auto simp: bindE_def split: sum.splits prod.splits)

lemma bindE_InlE:
  assumes "bindE m f w = (Inl e, w'')"
  obtains "m w = (Inl e, w'')" | x w' where "m w = (Inr x, w')" "f x w' = (Inl e, w'')"
  using assms by (auto simp: bindE_def split: sum.splits prod.splits)

lemma envCall_db: "envCall w = (r, w') \<Longrightarrow> db w' = db w"
  by (auto simp: envCall_def split: option.splits)

lemma sqlCall_InrE [go_elims]:
  assumes "sqlCall f w = (Inr x, w')"
  obtains d where "f (db w) = (Inr x, d)" "db w' = d"
  using assms
  by (auto simp: sqlCall_def bindE_def envCall_def split: option.splits prod.splits sum.splits)

lemma sqlCall_resultE:
  assumes "sqlCall f w = (Inr x, w')"
  obtains "fst (f (db w)) = Inr x" "db w' = snd (f (db w))"
proof (rule that)
  show "fst (f (db w)) = Inr x" "db w' = snd (f (db w))"
    using assms by (auto elim!: sqlCall_InrE)
qed

lemma sqlCall_keeps:
  assumes "\<And>d. g (snd (f d)) = g d" "sqlCall f w = (q, w')"
  shows "g (db w') = g (db w)"
  using assms(2) assms(1) [of "db w"]
  by (auto simp: sqlCall_def bindE_def envCall_def split: option.splits prod.splits)

lemma sqlCall_refused:
  assumes "f (db w) = (Inl e, db w)"
  obtains e' w' where "sqlCall f w = (Inl e', w')" "db w' = db w"
proof -
  have "\<exists>e' w'. sqlCall f w = (Inl e', w') \<and> db w' = db w"
    using assms by (cases "fault w (calls w)") (simp_all add: sqlCall_def bindE_def envCall_def)
  then show thesis using that by blast
qed

lemma sqlQuery_db: "sqlQuery q w = (r, w') \<Longrightarrow> db w' = db w"
  by (auto simp: sqlQuery_def sqlCall_def bindE_def envCall_def
      split: option.splits prod.splits sum.splits)

lemma sqlQuery_InrE [go_elims]:
  assumes "sqlQuery q w = (Inr x, w')"
  obtains "q (db w) = Inr x" "db w' = db w"
proof -
  from assms obtain d where "(q (db w), db w) = (Inr x, d)" "db w' = d"
    unfolding sqlQuery_def by (rule sqlCall_InrE)
  then have "q (db w) = Inr x" "db w' = db w" by auto
  then show thesis by (rule that)
qed

lemma sqlQuery_missed:
  assumes "sqlQuery q w = (Inl (Sentinel ErrNoRows), w')"
  shows "q (db w) = Inl (Sentinel ErrNoRows)"
proof (cases "fault w (calls w)")
  case (Some e)
  then show ?thesis
    using assms by (cases e) (simp_all add: sqlQuery_def sqlCall_def bindE_def envCall_def)
next
  case None
  then show ?thesis using assms by (simp add: sqlQuery_def sqlCall_def bindE_def envCall_def)
qed

lemma timeNow_InrE [go_elims]:
  assumes "timeNow w = (Inr t, w')"
  obtains "t = clock w (reads w)" "db w' = db w"
  using assms by (auto simp: timeNow_def)

lemma ret_InrE:
  assumes "ret x w = (Inr y, w')"
  obtains "y = x" "w' = w"
  using assms by (auto simp: ret_def)

text \<open>What every call of a collecting loop guarantees holds of the collected list.\<close>

lemma mapE_map:
  assumes "mapE f xs w = (Inr ys, w')" "\<And>x w y w'. f x w = (Inr y, w') \<Longrightarrow> g y = h x"
  shows "map g ys = map h xs"
  using assms(1)
proof (induction xs arbitrary: w ys)
  case Nil
  then show ?case by (simp add: ret_def)
next
  case (Cons x xs)
  from Cons.prems obtain y w1 zs w2 where "f x w = (Inr y, w1)" "mapE f xs w1 = (Inr zs, w2)" "ys = y # zs" "w2 = w'"
    by (auto elim!: bindE_InrE ret_InrE)
  with Cons.IH assms(2) show ?case by simp
qed

text \<open>A transaction that reports an error leaves the database as it found it.\<close>

lemma transaction_error:
  assumes "transaction body w = (Inl e, w')"
  shows "db w' = db w"
proof -
  obtain b w1 where b: "envCall w = (b, w1)" by fastforce
  have d: "db w1 = db w" by (rule envCall_db [OF b])
  show ?thesis
  proof (cases b)
    case (Inl x)
    with assms b d show ?thesis by (simp add: transaction_def bindE_def)
  next
    case (Inr u)
    with assms b d show ?thesis
      by (auto simp: transaction_def bindE_def split: prod.splits sum.splits txout.splits)
  qed
qed

lemma transaction_InrE [go_elims]:
  assumes "transaction body w = (Inr x, w')"
  obtains
    (committed) w1 w2 where "db w1 = db w" "body w1 = (Inr (Commit x), w2)" "db w' = db w2"
  | (rolled_back) w1 w2 where "db w1 = db w" "body w1 = (Inr (Rollback x), w2)" "db w' = db w"
proof -
  from assms obtain w1 where w1: "envCall w = (Inr (), w1)"
    by (auto simp: transaction_def bindE_def split: prod.splits sum.splits)
  obtain r w2 where b: "body w1 = (r, w2)" by fastforce
  show thesis
  proof (cases r)
    case (Inl e)
    with assms w1 b show ?thesis by (simp add: transaction_def bindE_def)
  next
    case (Inr y)
    show ?thesis
    proof (cases y)
      case (Commit z)
      obtain c w3 where c: "envCall w2 = (c, w3)" by fastforce
      with assms w1 b Inr Commit have "z = x" "w' = w3"
        by (auto simp: transaction_def bindE_def split: sum.splits)
      with that(1) b Inr Commit envCall_db [OF w1] envCall_db [OF c] show ?thesis by simp
    next
      case (Rollback z)
      with assms w1 b Inr have "z = x" "db w' = db w1"
        by (auto simp: transaction_def bindE_def)
      with that(2) b Inr Rollback envCall_db [OF w1] show ?thesis by simp
    qed
  qed
qed

section \<open>How a function may move the database\<close>

text \<open>
  \<open>moves R P m\<close>: started on a database with \<open>P\<close>, \<open>m\<close> ends, whatever it returns and whichever of
  its calls fail, on a database related by \<open>R\<close> to the one it started on.
\<close>

definition moves :: "('d \<Rightarrow> 'd \<Rightarrow> bool) \<Rightarrow> ('d \<Rightarrow> bool) \<Rightarrow> ('d, 'a) go \<Rightarrow> bool" where
  "moves R P m \<longleftrightarrow> (\<forall>w. P (db w) \<longrightarrow> R (db w) (db (snd (m w))))"

lemma movesD: "moves R P m \<Longrightarrow> P (db w) \<Longrightarrow> m w = (r, w') \<Longrightarrow> R (db w) (db w')"
  by (metis moves_def snd_conv)

text \<open>The function returns what it read and leaves the database alone.\<close>

definition readonly :: "('d, 'a) go \<Rightarrow> bool" where
  "readonly m \<longleftrightarrow> (\<forall>w. db (snd (m w)) = db w)"

lemma readonlyD: "readonly m \<Longrightarrow> m w = (r, w') \<Longrightarrow> db w' = db w"
  by (metis readonly_def snd_conv)

named_theorems readonly_intros \<open>functions that only read\<close>

lemma readonly_basic [readonly_intros]:
  "readonly (ret x)" "readonly (fail e)" "readonly (liftE r)" "readonly timeNow"
  "readonly randRead" "readonly envCall" "readonly (sqlQuery q)"
  by (auto simp: readonly_def ret_def fail_def liftE_def timeNow_def randRead_def envCall_def
      sqlQuery_def sqlCall_def bindE_def split: option.splits prod.splits sum.splits)

lemma readonly_bindE [readonly_intros]:
  "readonly m \<Longrightarrow> (\<And>x. readonly (f x)) \<Longrightarrow> readonly (bindE m f)"
  unfolding readonly_def bindE_def by (auto split: prod.splits sum.splits) (metis snd_conv)+

lemma readonly_attempt [readonly_intros]:
  "readonly m \<Longrightarrow> (\<And>r. readonly (f r)) \<Longrightarrow> readonly (attempt m f)"
  unfolding readonly_def attempt_def by (auto split: prod.splits) (metis snd_conv)

lemma readonly_if [readonly_intros]:
  "(b \<Longrightarrow> readonly m) \<Longrightarrow> (\<not> b \<Longrightarrow> readonly n) \<Longrightarrow> readonly (if b then m else n)"
  by simp

lemma readonly_case_option [readonly_intros]:
  "(x = None \<Longrightarrow> readonly m) \<Longrightarrow> (\<And>y. x = Some y \<Longrightarrow> readonly (f y)) \<Longrightarrow>
   readonly (case x of None \<Rightarrow> m | Some y \<Rightarrow> f y)"
  by (cases x) auto

lemma readonly_case_sum [readonly_intros]:
  "(\<And>e. x = Inl e \<Longrightarrow> readonly (g e)) \<Longrightarrow> (\<And>y. x = Inr y \<Longrightarrow> readonly (f y)) \<Longrightarrow>
   readonly (case x of Inl e \<Rightarrow> g e | Inr y \<Rightarrow> f y)"
  by (cases x) auto

lemma readonly_let [readonly_intros]: "readonly (f x) \<Longrightarrow> readonly (Let x f)"
  by simp

lemma readonly_case_prod [readonly_intros]:
  "(\<And>a b. x = (a, b) \<Longrightarrow> readonly (f a b)) \<Longrightarrow> readonly (case x of (a, b) \<Rightarrow> f a b)"
  by (cases x) auto

lemma readonly_mapE [readonly_intros]: "(\<And>x. readonly (f x)) \<Longrightarrow> readonly (mapE f xs)"
  by (induction xs) (auto intro!: readonly_intros)

text \<open>
  The contract of a database order: any reflexive and transitive relation on databases, an
  invariant (\<open>J d \<longrightarrow> J d'\<close>) among them, passes through every way of composing effects.
\<close>

locale db_order =
  fixes R :: "'d \<Rightarrow> 'd \<Rightarrow> bool"
  assumes order_refl: "R d d"
    and order_trans: "R a b \<Longrightarrow> R b c \<Longrightarrow> R a c"
begin

lemma moves_readonly: "readonly m \<Longrightarrow> moves R P m"
  by (simp add: moves_def readonly_def order_refl)

lemma moves_attempt:
  assumes m: "moves R P m" and f: "\<And>r. moves R (\<lambda>_. True) (f r)"
  shows "moves R P (attempt m f)"
proof (unfold moves_def, intro allI impI)
  fix w :: "'d world"
  assume P: "P (db w)"
  obtain r w' where r: "m w = (r, w')" by fastforce
  have "R (db w) (db w')" using m P r by (rule movesD)
  moreover have "R (db w') (db (snd (f r w')))" using f by (simp add: moves_def)
  ultimately show "R (db w) (db (snd (attempt m f w)))"
    using r by (auto simp: attempt_def intro: order_trans)
qed

lemma moves_bindE:
  assumes m: "moves R P m" and f: "\<And>x. moves R (\<lambda>_. True) (f x)"
  shows "moves R P (bindE m f)"
proof -
  have "moves R P (attempt m (\<lambda>r. case r of Inl e \<Rightarrow> fail e | Inr x \<Rightarrow> f x))"
    using m f by (intro moves_attempt) (auto simp: moves_def fail_def order_refl split: sum.splits)
  then show ?thesis by (simp add: bindE_attempt)
qed

text \<open>What a read established is a precondition of what follows it.\<close>

lemma moves_attempt_read:
  assumes m: "readonly m" and f: "\<And>r. moves R (Q r) (f r)"
    and Q: "\<And>w r w'. P (db w) \<Longrightarrow> m w = (r, w') \<Longrightarrow> Q r (db w)"
  shows "moves R P (attempt m f)"
proof (unfold moves_def, intro allI impI)
  fix w :: "'d world"
  assume P: "P (db w)"
  obtain r w' where r: "m w = (r, w')" by fastforce
  have d: "db w' = db w" using m r by (rule readonlyD)
  have "R (db w') (db (snd (f r w')))"
    using f [unfolded moves_def, rule_format, of r w'] Q [OF P r] d by simp
  with r d show "R (db w) (db (snd (attempt m f w)))" by (simp add: attempt_def)
qed

lemma moves_bindE_read:
  assumes m: "readonly m" and f: "\<And>x. moves R (Q x) (f x)"
    and Q: "\<And>w x w'. P (db w) \<Longrightarrow> m w = (Inr x, w') \<Longrightarrow> Q x (db w)"
  shows "moves R P (bindE m f)"
proof -
  have "moves R P (attempt m (\<lambda>r. case r of Inl e \<Rightarrow> fail e | Inr x \<Rightarrow> f x))"
    using m f Q
    by (intro moves_attempt_read [where Q = "\<lambda>r. case r of Inl e \<Rightarrow> \<lambda>_. True | Inr x \<Rightarrow> Q x"])
      (auto simp: moves_def fail_def order_refl split: sum.splits)
  then show ?thesis by (simp add: bindE_attempt)
qed

lemma moves_bindE_keep: "readonly m \<Longrightarrow> (\<And>x. moves R P (f x)) \<Longrightarrow> moves R P (bindE m f)"
  by (rule moves_bindE_read [where Q = "\<lambda>_. P"]) auto

lemma moves_sqlCall:
  "(\<And>d r d'. P d \<Longrightarrow> f d = (r, d') \<Longrightarrow> R d d') \<Longrightarrow> moves R P (sqlCall f)"
  unfolding moves_def sqlCall_def bindE_def envCall_def
  by (auto split: prod.splits sum.splits option.splits simp: order_refl)

lemma moves_transaction:
  assumes b: "moves R P body"
  shows "moves R P (transaction body)"
proof (unfold moves_def, intro allI impI)
  fix w :: "'d world"
  assume P: "P (db w)"
  obtain r w' where r: "transaction body w = (r, w')" by fastforce
  have "R (db w) (db w')"
  proof (cases r)
    case (Inl e)
    with r show ?thesis by (simp add: transaction_error order_refl)
  next
    case (Inr x)
    with r have "transaction body w = (Inr x, w')" by simp
    then show ?thesis
    proof (cases rule: transaction_InrE)
      case (committed w1 w2)
      with b P show ?thesis by (metis movesD)
    qed (simp add: order_refl)
  qed
  with r show "R (db w) (db (snd (transaction body w)))" by simp
qed

lemma moves_weaken: "moves R P m \<Longrightarrow> (\<And>d. Q d \<Longrightarrow> P d) \<Longrightarrow> moves R Q m"
  by (auto simp: moves_def)

lemma moves_if:
  "(b \<Longrightarrow> moves R P m) \<Longrightarrow> (\<not> b \<Longrightarrow> moves R P n) \<Longrightarrow> moves R P (if b then m else n)"
  by simp

lemma moves_case_sum:
  "(\<And>e. x = Inl e \<Longrightarrow> moves R P (g e)) \<Longrightarrow> (\<And>y. x = Inr y \<Longrightarrow> moves R P (f y)) \<Longrightarrow>
   moves R P (case x of Inl e \<Rightarrow> g e | Inr y \<Rightarrow> f y)"
  by (cases x) auto

lemma moves_case_option:
  "(x = None \<Longrightarrow> moves R P m) \<Longrightarrow> (\<And>y. x = Some y \<Longrightarrow> moves R P (f y)) \<Longrightarrow>
   moves R P (case x of None \<Rightarrow> m | Some y \<Rightarrow> f y)"
  by (cases x) auto

lemma moves_case_prod:
  "(\<And>a b. x = (a, b) \<Longrightarrow> moves R P (f a b)) \<Longrightarrow> moves R P (case x of (a, b) \<Rightarrow> f a b)"
  by (cases x) auto

lemma moves_foldE: "(\<And>x s. moves R (\<lambda>_. True) (f x s)) \<Longrightarrow> moves R (\<lambda>_. True) (foldE f xs s)"
proof (induction xs arbitrary: s)
  case Nil
  then show ?case by (auto intro: moves_readonly readonly_intros)
next
  case (Cons x xs)
  then show ?case by (auto intro: moves_bindE)
qed

lemma moves_let: "moves R P (f x) \<Longrightarrow> moves R P (Let x f)"
  by simp

lemmas moves_intros =
  moves_bindE moves_attempt moves_transaction moves_if moves_case_sum moves_case_option
  moves_case_prod moves_let

end

end
