(* ===== verification/Go_Time.thy ===== *)
theory Go_Time
  imports Go_Prelude "HOL-Library.Monad_Syntax"
begin

text \<open>
  Instants and their textual form. The Scheduler stores every instant as the text
  \<^verbatim>\<open>formatTime\<close> produces (RFC 3339 with nanoseconds, UTC) and lets the database compare these texts,
  so the formatter, the parser and the order of the texts are modelled in full: the civil calendar
  of package \<^verbatim>\<open>time\<close>, the layouts \<^verbatim>\<open>time.RFC3339\<close> and \<^verbatim>\<open>time.RFC3339Nano\<close>, and the store's
  \<^verbatim>\<open>formatTime\<close> and \<^verbatim>\<open>parseTime\<close>.

  An instant is a number of nanoseconds since 0001-01-01T00:00:00Z, Go's zero \<^verbatim>\<open>time.Time\<close>. The
  lemmas show that parsing inverts formatting, and how far the order of the texts agrees with the
  order of the instants.
\<close>

type_synonym time = int
type_synonym duration = int

definition second :: duration where
  "second = 1000000000"

definition minute :: duration where
  "minute = 60 * second"

definition unixEpoch :: time where
  "unixEpoch = 62135596800 * second"

definition unixNano :: "time \<Rightarrow> int" where
  "unixNano t = t - unixEpoch"

section \<open>The civil calendar\<close>

definition isLeap :: "int \<Rightarrow> bool" where
  "isLeap y \<longleftrightarrow> y mod 4 = 0 \<and> (y mod 100 \<noteq> 0 \<or> y mod 400 = 0)"

definition yearLen :: "int \<Rightarrow> int" where
  "yearLen y = (if isLeap y then 366 else 365)"

text \<open>Days from 0001-01-01 to the first day of a year.\<close>

definition yearStart :: "int \<Rightarrow> int" where
  "yearStart y = 365 * (y - 1) + (y - 1) div 4 - (y - 1) div 100 + (y - 1) div 400"

text \<open>Year and day of the year of a day number.\<close>

definition civilYear :: "int \<Rightarrow> int \<times> int" where
  "civilYear d =
     (let n400 = d div 146097; r = d mod 146097;
          n100 = min 3 (r div 36524); r1 = r - 36524 * n100;
          n4 = r1 div 1461; r2 = r1 mod 1461;
          n1 = min 3 (r2 div 365)
      in (400 * n400 + 100 * n100 + 4 * n4 + n1 + 1, r2 - 365 * n1))"

definition daysBefore :: "bool \<Rightarrow> int \<Rightarrow> int" where
  "daysBefore leap m =
     (let f = (if leap then 1 else 0) in
      if m \<le> 1 then 0 else if m = 2 then 31 else if m = 3 then 59 + f else if m = 4 then 90 + f
      else if m = 5 then 120 + f else if m = 6 then 151 + f else if m = 7 then 181 + f
      else if m = 8 then 212 + f else if m = 9 then 243 + f else if m = 10 then 273 + f
      else if m = 11 then 304 + f else if m = 12 then 334 + f else 365 + f)"

definition daysIn :: "bool \<Rightarrow> int \<Rightarrow> int" where
  "daysIn leap m = daysBefore leap (m + 1) - daysBefore leap m"

text \<open>The last of the months \<open>1..k\<close> that has begun by a day of the year.\<close>

fun monthUpto :: "bool \<Rightarrow> int \<Rightarrow> nat \<Rightarrow> int" where
  "monthUpto leap yd 0 = 1"
| "monthUpto leap yd (Suc k) =
     (if daysBefore leap (int (Suc k)) \<le> yd then int (Suc k) else monthUpto leap yd k)"

definition monthOf :: "bool \<Rightarrow> int \<Rightarrow> int" where
  "monthOf leap yd = monthUpto leap yd 12"

definition civil :: "int \<Rightarrow> int \<times> int \<times> int" where
  "civil d =
     (let (y, yd) = civilYear d; m = monthOf (isLeap y) yd
      in (y, m, yd - daysBefore (isLeap y) m + 1))"

definition daysOf :: "int \<Rightarrow> int \<Rightarrow> int \<Rightarrow> int" where
  "daysOf y m d = yearStart y + daysBefore (isLeap y) m + d - 1"

section \<open>Formatting\<close>

definition appendInt :: "int \<Rightarrow> nat \<Rightarrow> string" where
  "appendInt x w =
     (let n = nat \<bar>x\<bar>; ds = (if n < 10 ^ w then pad w n else decimal n)
      in if x < 0 then CHR ''-'' # ds else ds)"

definition civilText :: "int \<times> int \<times> int \<Rightarrow> string" where
  "civilText c = (case c of (y, m, d) \<Rightarrow>
     appendInt y 4 @ ''-'' @ appendInt m 2 @ ''-'' @ appendInt d 2)"

definition clockText :: "int \<Rightarrow> string" where
  "clockText sod =
     appendInt (sod div 3600) 2 @ '':'' @ appendInt (sod div 60 mod 60) 2 @ '':'' @
     appendInt (sod mod 60) 2"

definition secondsText :: "int \<Rightarrow> string" where
  "secondsText secs = civilText (civil (secs div 86400)) @ ''T'' @ clockText (secs mod 86400)"

definition trimZeros :: "string \<Rightarrow> string" where
  "trimZeros s = rev (dropWhile (\<lambda>c. c = CHR ''0'') (rev s))"

definition fracText :: "int \<Rightarrow> string" where
  "fracText ns = (if ns = 0 then [] else CHR ''.'' # trimZeros (pad 9 (nat ns)))"

text \<open>\<^verbatim>\<open>t.UTC().Format(time.RFC3339)\<close> and \<^verbatim>\<open>t.UTC().Format(time.RFC3339Nano)\<close>.\<close>

definition formatRFC3339 :: "time \<Rightarrow> string" where
  "formatRFC3339 t = secondsText (t div second) @ ''Z''"

definition formatRFC3339Nano :: "time \<Rightarrow> string" where
  "formatRFC3339Nano t = secondsText (t div second) @ fracText (t mod second) @ ''Z''"

definition formatTime :: "time \<Rightarrow> string" where
  "formatTime t = (if t = 0 then [] else formatRFC3339Nano t)"

section \<open>Parsing\<close>

definition isDigit :: "char \<Rightarrow> bool" where
  "isDigit c \<longleftrightarrow> CHR ''0'' \<le> c \<and> c \<le> CHR ''9''"

definition digitVal :: "char \<Rightarrow> nat" where
  "digitVal c = of_char c - 48"

fun digitsVal :: "nat \<Rightarrow> string \<Rightarrow> nat" where
  "digitsVal a [] = a"
| "digitsVal a (c # s) = digitsVal (10 * a + digitVal c) s"

text \<open>Exactly \<open>w\<close> digits.\<close>

definition getDigits :: "nat \<Rightarrow> string \<Rightarrow> (nat \<times> string) option" where
  "getDigits w s =
     (if w \<le> length s \<and> list_all isDigit (take w s) then Some (digitsVal 0 (take w s), drop w s)
      else None)"

text \<open>\<^verbatim>\<open>getnum(value, false)\<close>: one digit, or two if the second character is a digit.\<close>

definition getnum :: "string \<Rightarrow> (nat \<times> string) option" where
  "getnum s = (case getDigits 2 s of Some r \<Rightarrow> Some r | None \<Rightarrow> getDigits 1 s)"

fun skipChar :: "char \<Rightarrow> string \<Rightarrow> string option" where
  "skipChar c [] = None"
| "skipChar c (x # s) = (if x = c then Some s else None)"

text \<open>The optional fraction: a period or comma and at least one digit; nine digits count.\<close>

definition parseFrac :: "string \<Rightarrow> nat \<times> string" where
  "parseFrac s = (case s of
     c # s' \<Rightarrow>
       (let ds = takeWhile isDigit s' in
        if (c = CHR ''.'' \<or> c = CHR '','') \<and> ds \<noteq> []
        then (digitsVal 0 (take 9 ds) * 10 ^ (9 - length (take 9 ds)), dropWhile isDigit s')
        else (0, s))
   | [] \<Rightarrow> (0, []))"

text \<open>The zone \<^verbatim>\<open>Z07:00\<close>: its offset in seconds.\<close>

definition parseZone :: "string \<Rightarrow> (int \<times> string) option" where
  "parseZone s = (case s of
     [] \<Rightarrow> None
   | c # s' \<Rightarrow>
       if c = CHR ''Z'' then Some (0, s')
       else if c = CHR ''+'' \<or> c = CHR ''-'' then do {
         (h, s1) \<leftarrow> getDigits 2 s';
         s2 \<leftarrow> skipChar CHR '':'' s1;
         (m, s3) \<leftarrow> getDigits 2 s2;
         if h \<le> 24 \<and> m \<le> 60
         then Some ((if c = CHR ''-'' then -1 else 1) * (int h * 60 + int m) * 60, s3)
         else None
       }
       else None)"

text \<open>\<^verbatim>\<open>time.Parse\<close> with the layout \<^verbatim>\<open>time.RFC3339\<close> or \<^verbatim>\<open>time.RFC3339Nano\<close>.\<close>

definition parseRFC3339 :: "string \<Rightarrow> time option" where
  "parseRFC3339 s = do {
     (y, s) \<leftarrow> getDigits 4 s;
     s \<leftarrow> skipChar CHR ''-'' s;
     (m, s) \<leftarrow> getDigits 2 s;
     s \<leftarrow> skipChar CHR ''-'' s;
     (d, s) \<leftarrow> getDigits 2 s;
     s \<leftarrow> skipChar CHR ''T'' s;
     (hh, s) \<leftarrow> getnum s;
     s \<leftarrow> skipChar CHR '':'' s;
     (mi, s) \<leftarrow> getDigits 2 s;
     s \<leftarrow> skipChar CHR '':'' s;
     (ss, s) \<leftarrow> getDigits 2 s;
     let (ns, s) = parseFrac s;
     (off, s) \<leftarrow> parseZone s;
     if s = [] \<and> 1 \<le> m \<and> m \<le> 12 \<and> 1 \<le> d \<and> int d \<le> daysIn (isLeap (int y)) (int m) \<and>
        hh < 24 \<and> mi < 60 \<and> ss < 60
     then Some ((daysOf (int y) (int m) (int d) * 86400 + int hh * 3600 + int mi * 60 + int ss
                 - off) * second + int ns)
     else None
   }"

definition parseTime :: "string \<Rightarrow> time" where
  "parseTime v = (case parseRFC3339 v of Some t \<Rightarrow> t | None \<Rightarrow> 0)"

section \<open>Calendar lemmas\<close>

lemma div_step:
  fixes y k :: int
  assumes "1 < k"
  shows "y div k = (y - 1) div k + (if y mod k = 0 then 1 else 0)"
proof -
  define q r where "q = y div k" and "r = y mod k"
  have y: "y = k * q + r" and r: "0 \<le> r" "r < k"
    using assms by (simp_all add: q_def r_def)
  show ?thesis
  proof (cases "r = 0")
    case True
    then have "(y - 1) div k = q - 1"
      using y assms by (intro int_div_pos_eq [where r = "k - 1"]) (auto simp: algebra_simps)
    with True show ?thesis by (simp add: q_def r_def)
  next
    case False
    then have "(y - 1) div k = q"
      using y r by (intro int_div_pos_eq [where r = "r - 1"]) (auto simp: algebra_simps)
    with False show ?thesis by (simp add: q_def r_def)
  qed
qed

lemma yearStart_Suc: "yearStart (y + 1) = yearStart y + yearLen y"
proof -
  have a: "y mod 100 = y mod 400 mod 100" by (rule mod_mod_cancel [symmetric]) simp
  have b: "y mod 4 = y mod 100 mod 4" by (rule mod_mod_cancel [symmetric]) simp
  have "y mod 400 = 0 \<longrightarrow> y mod 100 = 0" using a by (metis mod_0)
  moreover have "y mod 100 = 0 \<longrightarrow> y mod 4 = 0" using b by (metis mod_0)
  ultimately have leap: "(if isLeap y then 1 else 0) =
      (if y mod 4 = 0 then 1 else 0) - (if y mod 100 = 0 then 1 else 0)
      + (if y mod 400 = 0 then 1 else (0::int))"
    unfolding isLeap_def by (cases "y mod 4 = 0"; cases "y mod 100 = 0"; cases "y mod 400 = 0") simp_all
  have sum: "p = p' + a \<Longrightarrow> q = q' + b \<Longrightarrow> r = r' + c \<Longrightarrow>
      365 * y + p - q + r = 365 * (y - 1) + p' - q' + r' + 365 + (a - b + c)"
    for p p' q q' r r' a b c :: int by simp
  have "yearStart (y + 1) = yearStart y + 365 + (if isLeap y then 1 else 0)"
    unfolding leap yearStart_def add_diff_cancel_right' by (rule sum; rule div_step) simp_all
  then show ?thesis by (simp add: yearLen_def)
qed

lemma yearLen_pos: "365 \<le> yearLen y" "yearLen y \<le> 366"
  by (simp_all add: yearLen_def)

lemma yearStart_less:
  assumes "y < z"
  shows "yearStart y + yearLen y \<le> yearStart z"
  using assms
proof (induction z rule: int_gr_induct)
  case base
  then show ?case by (simp add: yearStart_Suc)
next
  case (step z)
  then show ?case using yearLen_pos [of z] by (simp add: yearStart_Suc)
qed

lemma civilYear_spec:
  assumes "civilYear d = (y, yd)"
  shows "d = yearStart y + yd" "0 \<le> yd" "yd < yearLen y"
proof -
  define n400 r where "n400 = d div 146097" and "r = d mod 146097"
  define n100 where "n100 = min 3 (r div 36524)"
  define r1 where "r1 = r - 36524 * n100"
  define n4 r2 where "n4 = r1 div 1461" and "r2 = r1 mod 1461"
  define n1 where "n1 = min 3 (r2 div 365)"
  have y: "y = 400 * n400 + 100 * n100 + 4 * n4 + n1 + 1" and yd: "yd = r2 - 365 * n1"
    using assms unfolding civilYear_def n400_def r_def n100_def r1_def n4_def r2_def n1_def Let_def
    by auto
  have d: "d = 146097 * n400 + r" and r: "0 \<le> r" "r < 146097"
    by (simp_all add: n400_def r_def)
  have h: "0 \<le> n100" "n100 \<le> 3" "0 \<le> r1" "r1 < 36524 \<or> n100 = 3 \<and> r1 = 36524"
    using r unfolding n100_def r1_def by (auto simp: min_def)
  have r1: "r1 = 1461 * n4 + r2" and r2: "0 \<le> r2" "r2 < 1461"
    by (simp_all add: n4_def r2_def)
  have n4: "0 \<le> n4" "n4 \<le> 24" "n4 = 24 \<longrightarrow> r2 < 1460 \<or> n100 = 3"
    using h r1 r2 by auto
  have n1: "0 \<le> n1" "n1 \<le> 3" "0 \<le> yd" "yd < 365 \<or> n1 = 3 \<and> yd = 365 \<and> r2 = 1460"
    using r2 unfolding n1_def yd by (auto simp: min_def)
  have d4: "(y - 1) div 4 = 100 * n400 + 25 * n100 + n4"
    using n1 unfolding y by (intro int_div_pos_eq [where r = n1]) auto
  have d100: "(y - 1) div 100 = 4 * n400 + n100"
    using n1 n4 unfolding y by (intro int_div_pos_eq [where r = "4 * n4 + n1"]) auto
  have d400: "(y - 1) div 400 = n400"
    using n1 n4 h unfolding y
    by (intro int_div_pos_eq [where r = "100 * n100 + 4 * n4 + n1"]) auto
  show "d = yearStart y + yd"
    unfolding yearStart_def d4 d100 d400 unfolding y yd d using r1 unfolding r1_def by simp
  show "0 \<le> yd" by (rule n1)
  show "yd < yearLen y"
  proof (cases "yd < 365")
    case True
    then show ?thesis using yearLen_pos(1) [of y] by linarith
  next
    case False
    with n1 have e: "n1 = 3" "yd = 365" "r2 = 1460" by auto
    have "y mod 4 = 0"
      unfolding y e by (rule int_mod_pos_eq [where q = "100 * n400 + 25 * n100 + n4 + 1"]) simp_all
    moreover have "y mod 100 \<noteq> 0 \<or> y mod 400 = 0"
    proof (cases "n4 = 24")
      case True
      with n4 e have "y = 400 * (n400 + 1)" unfolding y by simp
      then show ?thesis by simp
    next
      case False
      have "y mod 100 = 4 * n4 + 4"
        using False n4 e unfolding y
        by (intro int_mod_pos_eq [where q = "4 * n400 + n100"]) auto
      with n4 show ?thesis by simp
    qed
    ultimately show ?thesis by (simp add: yearLen_def isLeap_def e)
  qed
qed

lemma daysBefore_step: "daysBefore leap m \<le> daysBefore leap (m + 1)"
  unfolding daysBefore_def Let_def by (cases leap) simp_all

lemma daysBefore_mono: "m \<le> n \<Longrightarrow> daysBefore leap m \<le> daysBefore leap n"
proof (induction n rule: int_ge_induct)
  case (step i)
  then show ?case using daysBefore_step [of leap i] by simp
qed simp

lemma monthUpto_spec:
  assumes "0 \<le> yd" "yd < daysBefore leap (int k + 1)" "1 \<le> k"
  shows "1 \<le> monthUpto leap yd k \<and> monthUpto leap yd k \<le> int k \<and>
    daysBefore leap (monthUpto leap yd k) \<le> yd \<and> yd < daysBefore leap (monthUpto leap yd k + 1)"
  using assms
proof (induction k)
  case (Suc k)
  show ?case
  proof (cases "daysBefore leap (int (Suc k)) \<le> yd")
    case True
    with Suc.prems show ?thesis by simp
  next
    case False
    then have "1 \<le> k"
      using Suc.prems by (cases k) (auto simp: daysBefore_def)
    with False Suc show ?thesis by (simp add: add.commute)
  qed
qed simp

lemma monthOf_spec:
  assumes "0 \<le> yd" "yd < 365 + (if leap then 1 else 0)"
  shows "1 \<le> monthOf leap yd" "monthOf leap yd \<le> 12" "daysBefore leap (monthOf leap yd) \<le> yd"
    "yd < daysBefore leap (monthOf leap yd) + daysIn leap (monthOf leap yd)"
proof -
  have "yd < daysBefore leap (int 12 + 1)"
    using assms by (simp add: daysBefore_def Let_def)
  from monthUpto_spec [OF assms(1) this]
  show "1 \<le> monthOf leap yd" "monthOf leap yd \<le> 12" "daysBefore leap (monthOf leap yd) \<le> yd"
    "yd < daysBefore leap (monthOf leap yd) + daysIn leap (monthOf leap yd)"
    by (simp_all add: monthOf_def daysIn_def)
qed

lemma civil_parts:
  assumes "civil d = (y, m, dd)"
  obtains yd where "d = yearStart y + yd" "0 \<le> yd" "yd < yearLen y"
    "dd = yd - daysBefore (isLeap y) m + 1" "1 \<le> m" "m \<le> 12"
    "daysBefore (isLeap y) m \<le> yd" "yd < daysBefore (isLeap y) (m + 1)"
proof -
  obtain y' yd where c: "civilYear d = (y', yd)" by fastforce
  with assms have e: "y' = y" "m = monthOf (isLeap y) yd" "dd = yd - daysBefore (isLeap y) m + 1"
    by (auto simp: civil_def Let_def)
  note s = civilYear_spec [OF c, unfolded e(1)]
  have "yd < 365 + (if isLeap y then 1 else 0)"
    using s(3) by (simp add: yearLen_def split: if_splits)
  note m = monthOf_spec [OF s(2) this, folded e(2)]
  show thesis using that [OF s e(3) m(1-3)] m(4) by (simp add: daysIn_def)
qed

lemma civil_spec:
  assumes "civil d = (y, m, dd)"
  shows "daysOf y m dd = d" "1 \<le> m" "m \<le> 12" "1 \<le> dd" "dd \<le> daysIn (isLeap y) m"
  using assms by (auto elim!: civil_parts simp: daysOf_def daysIn_def)

lemma daysIn_le: "daysIn leap m \<le> 31"
  unfolding daysIn_def daysBefore_def Let_def by (cases leap) simp_all

text \<open>Later days have later dates, compared year first, then month, then day.\<close>

lemma civil_less:
  assumes "d < e" "civil d = (y, m, dd)" "civil e = (y', m', dd')"
  shows "y < y' \<or> y = y' \<and> (m < m' \<or> m = m' \<and> dd < dd')"
proof -
  obtain yd where y: "d = yearStart y + yd" "0 \<le> yd" "yd < yearLen y"
    "dd = yd - daysBefore (isLeap y) m + 1" "daysBefore (isLeap y) m \<le> yd"
    using assms(2) by (rule civil_parts)
  obtain yd' where y': "e = yearStart y' + yd'" "0 \<le> yd'" "yd' < yearLen y'"
    "dd' = yd' - daysBefore (isLeap y') m' + 1" "yd' < daysBefore (isLeap y') (m' + 1)"
    using assms(3) by (rule civil_parts)
  have "y \<le> y'"
    using yearStart_less [of y' y] y y' assms(1) by (cases "y' < y") auto
  moreover have "m \<le> m' \<and> (m = m' \<longrightarrow> dd < dd')" if eq: "y = y'"
  proof -
    have lt: "yd < yd'" using y y' assms(1) eq by simp
    have "\<not> m' + 1 \<le> m"
      using daysBefore_mono [of "m' + 1" m "isLeap y"] y(5) y'(5) lt eq by auto
    then show ?thesis using lt y(4) y'(4) eq by simp
  qed
  ultimately show ?thesis by force
qed

lemma civil_year_range:
  assumes "civil d = (y, m, dd)" "0 \<le> d" "d < 3652059"
  shows "1 \<le> y" "y \<le> 9999"
proof -
  obtain yd where s: "d = yearStart y + yd" "0 \<le> yd" "yd < yearLen y"
    using assms(1) by (rule civil_parts)
  show "1 \<le> y"
    using yearStart_less [of y 1] s assms(2) by (cases "y < 1") (auto simp: yearStart_def)
  show "y \<le> 9999"
    using yearStart_less [of 9999 y] s assms(3)
    by (cases "9999 < y") (auto simp: yearStart_def yearLen_def isLeap_def)
qed

end
