(* ===== verification/Go_Time_Order.thy ===== *)
theory Go_Time_Order
  imports Go_Time
begin

text \<open>
  What the time columns of the stores rest on: \<^verbatim>\<open>parseTime\<close> undoes \<^verbatim>\<open>formatTime\<close> on the instants of
  the years 1 to 9999, and the byte order of two texts follows the order of the instants as soon as
  these lie in different seconds. Inside one second it does not, because RFC3339Nano drops the
  trailing zeros of the fraction: a whole second sorts after every later instant of that second.
\<close>

section \<open>Digits\<close>

lemma of_char_digit [simp]: "of_char (digit n) = (48 + n mod 10 :: nat)"
  by (simp add: digit_def)

lemma char_eq_of_char: "(c = d) = ((of_char c :: nat) = of_char d)"
  by simp

lemma isDigit_iff: "isDigit c \<longleftrightarrow> 48 \<le> (of_char c :: nat) \<and> (of_char c :: nat) \<le> 57"
  by (simp add: isDigit_def less_eq_char_def)

lemma isDigit_digit [simp]: "isDigit (digit n)"
  using mod_less_divisor [of 10 n] by (simp add: isDigit_iff del: mod_less_divisor)

lemma digitVal_digit [simp]: "digitVal (digit n) = n mod 10"
  by (simp add: digitVal_def)

lemma digitsVal_append: "digitsVal a (s @ t) = digitsVal (digitsVal a s) t"
  by (induction s arbitrary: a) auto

lemma digitsVal_pad: "digitsVal 0 (pad w n) = n mod 10 ^ w"
proof (induction w arbitrary: n)
  case (Suc w)
  then show ?case
    by (simp add: digitsVal_append mod_mult2_eq)
qed simp

lemma list_all_isDigit_pad [simp]: "list_all isDigit (pad w n)"
  by (induction w arbitrary: n) auto

lemma getDigits_pad: "getDigits w (pad w n @ s) = Some (n mod 10 ^ w, s)"
  by (simp add: getDigits_def digitsVal_pad)

lemma getnum_pad: "getnum (pad 2 n @ s) = Some (n mod 100, s)"
  using getDigits_pad [of 2 n s] by (simp add: getnum_def)

lemma digitsVal_zeros: "digitsVal a (replicate k CHR ''0'') = a * 10 ^ k"
  by (induction k arbitrary: a) (auto simp: digitVal_def)

lemma trimZeros_append: "\<exists>k. s = trimZeros s @ replicate k CHR ''0''"
proof -
  have "rev s = takeWhile (\<lambda>c. c = CHR ''0'') (rev s) @ dropWhile (\<lambda>c. c = CHR ''0'') (rev s)"
    by simp
  then have "s = trimZeros s @ rev (takeWhile (\<lambda>c. c = CHR ''0'') (rev s))"
    unfolding trimZeros_def by (metis rev_append rev_rev_ident)
  moreover have "rev (takeWhile (\<lambda>c. c = CHR ''0'') (rev s)) =
      replicate (length (takeWhile (\<lambda>c. c = CHR ''0'') (rev s))) CHR ''0''"
    by (rule replicate_eqI) (auto dest: set_takeWhileD)
  ultimately show ?thesis by metis
qed

lemma trimZeros_pad:
  assumes "trimZeros (pad w n) = ds"
  shows "length ds \<le> w" "digitsVal 0 ds * 10 ^ (w - length ds) = n mod 10 ^ w"
    "list_all isDigit ds" "n mod 10 ^ w \<noteq> 0 \<Longrightarrow> ds \<noteq> []"
proof -
  obtain k where k: "pad w n = ds @ replicate k CHR ''0''"
    using trimZeros_append [of "pad w n"] assms by auto
  have l: "w = length ds + k" using arg_cong [OF k, of length] by simp
  show "length ds \<le> w" using l by simp
  show v: "digitsVal 0 ds * 10 ^ (w - length ds) = n mod 10 ^ w"
    using digitsVal_pad [of w n] l unfolding k by (simp add: digitsVal_append digitsVal_zeros)
  show "list_all isDigit ds"
    using list_all_isDigit_pad [of w n] unfolding k by simp
  show "n mod 10 ^ w \<noteq> 0 \<Longrightarrow> ds \<noteq> []" using v by auto
qed

lemma takeWhile_digits: "list_all isDigit ds \<Longrightarrow> \<not> isDigit c \<Longrightarrow> takeWhile isDigit (ds @ c # s) = ds"
  by (induction ds) auto

lemma dropWhile_digits: "list_all isDigit ds \<Longrightarrow> \<not> isDigit c \<Longrightarrow> dropWhile isDigit (ds @ c # s) = c # s"
  by (induction ds) auto

lemma parseFrac_fracText:
  assumes "0 \<le> ns" "ns < second"
  shows "parseFrac (fracText ns @ ''Z'') = (nat ns, ''Z'')"
proof (cases "ns = 0")
  case True
  then show ?thesis by (simp add: parseFrac_def fracText_def)
next
  case False
  define ds where "ds = trimZeros (pad 9 (nat ns))"
  have n: "nat ns mod 10 ^ 9 = nat ns" using assms by (simp add: second_def)
  note t = trimZeros_pad [OF ds_def [symmetric], unfolded n]
  have ne: "ds \<noteq> []" using t(4) assms False by simp
  have nz: "\<not> isDigit CHR ''Z''" by (simp add: isDigit_iff)
  have "fracText ns @ ''Z'' = CHR ''.'' # ds @ CHR ''Z'' # []"
    using False by (simp add: fracText_def ds_def)
  then show ?thesis
    using t(1,2) ne
    by (simp add: parseFrac_def Let_def takeWhile_digits [OF t(3) nz] dropWhile_digits [OF t(3) nz])
qed

lemma appendInt_pad: "0 \<le> x \<Longrightarrow> x < 10 ^ w \<Longrightarrow> appendInt x w = pad w (nat x)"
  by (simp add: appendInt_def nat_less_iff)

definition maxTime :: time where
  "maxTime = 3652059 * 86400 * second"

lemma civilText_pad:
  assumes "civil d = (y, m, dd)" "0 \<le> d" "d < 3652059"
  shows "civilText (civil d) = pad 4 (nat y) @ ''-'' @ pad 2 (nat m) @ ''-'' @ pad 2 (nat dd)"
proof -
  note s = civil_spec [OF assms(1)] civil_year_range [OF assms]
  have "dd \<le> 31" using s(5) daysIn_le [of "isLeap y" m] by simp
  with s show ?thesis unfolding assms(1) by (simp add: civilText_def appendInt_pad)
qed

lemma length_civilText:
  assumes "0 \<le> d" "d < 3652059"
  shows "length (civilText (civil d)) = 10"
proof -
  obtain y m dd where c: "civil d = (y, m, dd)" by (metis prod_cases3)
  show ?thesis by (simp add: civilText_pad [OF c assms])
qed

lemma clockText_pad:
  assumes "0 \<le> sod" "sod < 86400"
  shows "clockText sod = pad 2 (nat (sod div 3600)) @ '':'' @ pad 2 (nat (sod div 60 mod 60)) @
    '':'' @ pad 2 (nat (sod mod 60))"
proof -
  have "sod div 3600 < 10 ^ 2" using assms by simp
  moreover have "sod div 60 mod 60 < 10 ^ 2" "sod mod 60 < 10 ^ 2"
    using pos_mod_bound [of 60 "sod div 60"] pos_mod_bound [of 60 sod] by simp_all
  ultimately show ?thesis using assms by (simp add: clockText_def appendInt_pad)
qed

lemma parseRFC3339_shape:
  assumes "y < 10000" "1 \<le> m" "m \<le> 12" "1 \<le> d" "int d \<le> daysIn (isLeap (int y)) (int m)"
    and "hh < 24" "mi < 60" "ss < 60" and ns: "0 \<le> ns" "ns < second"
  shows "parseRFC3339 (pad 4 y @ CHR ''-'' # pad 2 m @ CHR ''-'' # pad 2 d @ CHR ''T'' #
      pad 2 hh @ CHR '':'' # pad 2 mi @ CHR '':'' # pad 2 ss @ fracText ns @ ''Z'') =
    Some ((daysOf (int y) (int m) (int d) * 86400 + int hh * 3600 + int mi * 60 + int ss) * second
      + ns)"
proof -
  have "d \<le> 31" using assms(5) daysIn_le [of "isLeap (int y)" "int m"] by linarith
  then have md: "y mod 10 ^ 4 = y" "m mod 10 ^ 2 = m" "d mod 10 ^ 2 = d" "hh mod 100 = hh"
    "mi mod 10 ^ 2 = mi" "ss mod 10 ^ 2 = ss"
    using assms by simp_all
  note g = getDigits_pad getnum_pad
  show ?thesis
    unfolding parseRFC3339_def
    using assms by (simp add: g md [simplified] parseFrac_fracText [OF ns] parseZone_def)
qed

lemma clock_sum:
  fixes sod :: int
  shows "sod div 3600 * 3600 + sod div 60 mod 60 * 60 + sod mod 60 = sod"
proof -
  have "sod div 3600 = sod div 60 div 60" by (simp add: zdiv_zmult2_eq [symmetric])
  then show ?thesis
    using div_mult_mod_eq [of sod 60] div_mult_mod_eq [of "sod div 60" 60] by linarith
qed

lemma parseRFC3339_format:
  assumes "0 \<le> t" "t < maxTime"
  shows "parseRFC3339 (formatRFC3339Nano t) = Some t"
proof -
  define secs ns where "secs = t div second" and "ns = t mod second"
  have t: "t = secs * second + ns" by (simp add: secs_def ns_def)
  have ns: "0 \<le> ns" "ns < second" by (simp_all add: ns_def second_def)
  define day sod where "day = secs div 86400" and "sod = secs mod 86400"
  have secs: "secs = day * 86400 + sod" by (simp add: day_def sod_def)
  have sod: "0 \<le> sod" "sod < 86400" by (simp_all add: sod_def)
  have day: "0 \<le> day" "day < 3652059"
    using assms by (auto simp: day_def secs_def maxTime_def second_def)
  obtain y m dd where c: "civil day = (y, m, dd)" by (metis prod_cases3)
  note s = civil_spec [OF c] civil_year_range [OF c day]
  define hh mi ss where "hh = sod div 3600" and "mi = sod div 60 mod 60" and "ss = sod mod 60"
  have r: "hh < 24" "0 \<le> hh" "mi < 60" "0 \<le> mi" "ss < 60" "0 \<le> ss"
    using sod by (auto simp: hh_def mi_def ss_def)
  have sum: "hh * 3600 + mi * 60 + ss = sod" unfolding hh_def mi_def ss_def by (rule clock_sum)
  have shape: "formatRFC3339Nano t =
      pad 4 (nat y) @ CHR ''-'' # pad 2 (nat m) @ CHR ''-'' # pad 2 (nat dd) @ CHR ''T'' #
      pad 2 (nat hh) @ CHR '':'' # pad 2 (nat mi) @ CHR '':'' # pad 2 (nat ss) @ fracText ns @ ''Z''"
    unfolding formatRFC3339Nano_def secondsText_def secs_def [symmetric] ns_def [symmetric]
      day_def [symmetric] sod_def [symmetric] civilText_pad [OF c day] clockText_pad [OF sod]
      hh_def mi_def ss_def
    by simp
  have "parseRFC3339 (formatRFC3339Nano t) =
      Some ((daysOf y m dd * 86400 + hh * 3600 + mi * 60 + ss) * second + ns)"
    unfolding shape
    using parseRFC3339_shape [of "nat y" "nat m" "nat dd" "nat hh" "nat mi" "nat ss" ns] s r ns
    by simp
  also have "daysOf y m dd * 86400 + hh * 3600 + mi * 60 + ss = secs"
    using s sum secs by simp
  finally show ?thesis using t by simp
qed

section \<open>The order of the texts\<close>

lemma append_less:
  fixes a b c d :: "'a :: linorder list"
  assumes "length a = length b"
  shows "a @ c < b @ d \<longleftrightarrow> a < b \<or> a = b \<and> c < d"
  using assms by (induction a b rule: list_induct2) auto

lemma append_le:
  fixes a b c d :: "'a :: linorder list"
  assumes "length a = length b"
  shows "a @ c \<le> b @ d \<longleftrightarrow> a < b \<or> a = b \<and> c \<le> d"
  using append_less [of b a d c] assms by (metis linorder_neqE not_le order_less_imp_le)

lemma div_mod_less:
  fixes x y k :: int
  assumes "x < y" "0 < k"
  shows "x div k < y div k \<or> x div k = y div k \<and> x mod k < y mod k"
proof (cases "x div k = y div k")
  case True
  then show ?thesis using assms(1) by (metis add_less_cancel_left div_mult_mod_eq)
next
  case False
  then show ?thesis using zdiv_mono1 [of x y k] assms by auto
qed

lemma digit_less: "digit m < digit n \<longleftrightarrow> m mod 10 < n mod 10"
  by (simp add: less_char_def)

lemma digit_eq: "digit m = digit n \<longleftrightarrow> m mod 10 = n mod 10"
  by (metis of_char_digit add_left_cancel digit_def mod_mod_trivial)

lemma pad_less: "m < n \<Longrightarrow> n < 10 ^ w \<Longrightarrow> pad w m < pad w n"
proof (induction w arbitrary: m n)
  case (Suc w)
  have lt: "n div 10 < 10 ^ w" using Suc.prems by (simp add: less_mult_imp_div_less)
  consider "m div 10 < n div 10" | "m div 10 = n div 10" "m mod 10 < n mod 10"
    using Suc.prems(1) by (metis div_le_mono div_mult_mod_eq le_neq_implies_less less_or_eq_imp_le
        nat_add_left_cancel_less)
  then show ?case
  proof cases
    case 1
    with Suc.IH [OF 1 lt] show ?thesis by (simp add: append_less)
  next
    case 2
    then show ?thesis by (simp add: append_less digit_less)
  qed
qed simp

lemma length_secondsText:
  assumes "0 \<le> secs" "secs < 3652059 * 86400"
  shows "length (secondsText secs) = 19"
proof -
  have day: "0 \<le> secs div 86400" "secs div 86400 < 3652059" using assms by auto
  obtain y m dd where c: "civil (secs div 86400) = (y, m, dd)" by (metis prod_cases3)
  show ?thesis
    unfolding secondsText_def
    by (simp add: civilText_pad [OF c day] clockText_pad)
qed

lemma pad_less_int: "0 \<le> a \<Longrightarrow> a < b \<Longrightarrow> b < 10 ^ w \<Longrightarrow> pad w (nat a) < pad w (nat b)"
  by (intro pad_less) (auto simp: nat_less_iff)

lemma clockText_less:
  assumes "0 \<le> s" "s < s'" "s' < 86400"
  shows "clockText s < clockText s'"
proof -
  have h: "s div 3600 = s div 60 div 60" "s' div 3600 = s' div 60 div 60"
    by (simp_all add: zdiv_zmult2_eq [symmetric])
  have b: "s' div 3600 < 10 ^ 2" "s' div 60 mod 60 < 10 ^ 2" "s' mod 60 < 10 ^ 2"
    using assms pos_mod_bound [of 60 "s' div 60"] pos_mod_bound [of 60 s'] by simp_all
  have p: "0 \<le> s div 3600" "0 \<le> s div 60 mod 60" "0 \<le> s mod 60"
    using assms by (simp_all add: pos_imp_zdiv_nonneg_iff)
  note shape = clockText_pad [OF assms(1) order_less_trans [OF assms(2,3)]]
    clockText_pad [OF order_trans [OF assms(1) order_less_imp_le [OF assms(2)]] assms(3)]
  consider "s div 3600 < s' div 3600"
    | "s div 3600 = s' div 3600" "s div 60 mod 60 < s' div 60 mod 60"
    | "s div 3600 = s' div 3600" "s div 60 mod 60 = s' div 60 mod 60" "s mod 60 < s' mod 60"
    using div_mod_less [OF assms(2), of 60] div_mod_less [of "s div 60" "s' div 60" 60]
    unfolding h by fastforce
  then show ?thesis
  proof cases
    case 1
    from pad_less_int [OF p(1) 1 b(1)] show ?thesis unfolding shape by (simp add: append_less)
  next
    case 2
    from pad_less_int [OF p(2) 2(2) b(2)] 2(1) show ?thesis
      unfolding shape by (simp add: append_less)
  next
    case 3
    from pad_less_int [OF p(3) 3(3) b(3)] 3(1,2) show ?thesis
      unfolding shape by (simp add: append_less)
  qed
qed

lemma civilText_less:
  assumes "0 \<le> d" "d < e" "e < 3652059"
  shows "civilText (civil d) < civilText (civil e)"
proof -
  obtain y m dd where c: "civil d = (y, m, dd)" by (metis prod_cases3)
  obtain y' m' dd' where c': "civil e = (y', m', dd')" by (metis prod_cases3)
  have d: "0 \<le> d" "d < 3652059" and e: "0 \<le> e" "e < 3652059" using assms by auto
  note s = civil_spec [OF c] civil_year_range [OF c d]
  note s' = civil_spec [OF c'] civil_year_range [OF c' e]
  have b: "y' < 10 ^ 4" "m' < 10 ^ 2" "dd' < 10 ^ 2"
    using s' daysIn_le [of "isLeap y'" m'] by simp_all
  have p: "0 \<le> y" "0 \<le> m" "0 \<le> dd" using s by simp_all
  note shape = civilText_pad [OF c d] civilText_pad [OF c' e]
  from civil_less [OF assms(2) c c'] consider "y < y'" | "y = y'" "m < m'"
    | "y = y'" "m = m'" "dd < dd'" by blast
  then show ?thesis
  proof cases
    case 1
    from pad_less_int [OF p(1) 1 b(1)] show ?thesis unfolding shape by (simp add: append_less)
  next
    case 2
    from pad_less_int [OF p(2) 2(2) b(2)] 2(1) show ?thesis
      unfolding shape by (simp add: append_less)
  next
    case 3
    from pad_less_int [OF p(3) 3(3) b(3)] 3(1,2) show ?thesis
      unfolding shape by (simp add: append_less)
  qed
qed

lemma secondsText_less:
  assumes "0 \<le> s" "s < s'" "s' < 3652059 * 86400"
  shows "secondsText s < secondsText s'"
proof -
  have d: "0 \<le> s div 86400" "s div 86400 < 3652059" "0 \<le> s' div 86400" "s' div 86400 < 3652059"
    using assms by auto
  consider "s div 86400 < s' div 86400" | "s div 86400 = s' div 86400" "s mod 86400 < s' mod 86400"
    using div_mod_less [OF assms(2), of 86400] by auto
  then show ?thesis
  proof cases
    case 1
    then show ?thesis
      using civilText_less [OF d(1) 1 d(4)] length_civilText d by (simp add: secondsText_def append_less)
  next
    case 2
    then show ?thesis
      using clockText_less [of "s mod 86400" "s' mod 86400"]
      by (simp add: secondsText_def append_less)
  qed
qed

lemma formatRFC3339Nano_less:
  assumes "0 \<le> s" "s div second < t div second" "t < maxTime"
  shows "formatRFC3339Nano s < formatRFC3339Nano t"
proof -
  have b: "0 \<le> s div second" "t div second < 3652059 * 86400"
    using assms by (auto simp: second_def maxTime_def)
  have "secondsText (s div second) < secondsText (t div second)"
    using b(1) assms(2) b(2) by (rule secondsText_less)
  moreover have "length (secondsText (s div second)) = length (secondsText (t div second))"
    using b assms(2) by (simp add: length_secondsText)
  ultimately show ?thesis by (simp add: formatRFC3339Nano_def append_less)
qed

lemma parseTime_formatTime:
  assumes "0 \<le> t" "t < maxTime"
  shows "parseTime (formatTime t) = t"
proof (cases "t = 0")
  case True
  then show ?thesis by (simp add: formatTime_def parseTime_def parseRFC3339_def getDigits_def)
next
  case False
  then show ?thesis using parseRFC3339_format [OF assms] by (simp add: formatTime_def parseTime_def)
qed

lemma formatTime_inj:
  assumes "0 \<le> s" "s < maxTime" "0 \<le> t" "t < maxTime" "formatTime s = formatTime t"
  shows "s = t"
  using parseTime_formatTime assms by metis

lemma formatTime_less:
  assumes "0 \<le> s" "s div second < t div second" "t < maxTime"
  shows "formatTime s < formatTime t"
proof -
  have "t \<noteq> 0" using assms by (auto simp: second_def)
  moreover have "formatRFC3339Nano t \<noteq> []" by (simp add: formatRFC3339Nano_def)
  ultimately show ?thesis
    using formatRFC3339Nano_less [OF assms]
    by (cases "formatRFC3339Nano t") (auto simp: formatTime_def)
qed

lemma formatTime_le_second:
  assumes "0 \<le> s" "s < maxTime" "0 \<le> t" "t < maxTime" "formatTime s \<le> formatTime t"
  shows "s < t + second"
proof (rule ccontr)
  assume "\<not> s < t + second"
  then have "(t + second) div second \<le> s div second"
    by (intro zdiv_mono1) (auto simp: second_def)
  then have "t div second < s div second" by (simp add: second_def)
  with formatTime_less [of t s] assms show False by auto
qed

lemma fracText_less_Z:
  assumes "0 < n"
  shows "fracText n @ ''Z'' < ''Z''"
  using assms by (simp add: fracText_def less_char_def)

lemma formatTime_same_second:
  assumes "0 < t" "t mod second = 0" "0 < n" "n < second"
  shows "formatTime (t + n) < formatTime t"
proof -
  have n: "(t + n) div second = t div second" "(t + n) mod second = n"
    using assms by (auto simp: div_add1_eq mod_add_eq [symmetric] second_def)
  have "fracText 0 = []" by (simp add: fracText_def)
  with fracText_less_Z [OF assms(3)] have
    "secondsText (t div second) @ fracText n @ ''Z'' < secondsText (t div second) @ fracText 0 @ ''Z''"
    by (simp add: append_less)
  moreover have "t + n \<noteq> 0" "t \<noteq> 0" using assms by simp_all
  ultimately show ?thesis using assms(2) n by (simp add: formatTime_def formatRFC3339Nano_def)
qed

text \<open>
  A stored time reads back as the instant that was written, for every instant from the zero time
  to the end of the year 9999.
\<close>

theorem time_text_roundtrip:
  "0 \<le> t \<Longrightarrow> t < maxTime \<Longrightarrow> parseTime (formatTime t) = t"
  by (rule parseTime_formatTime)

theorem time_text_roundtrip_witness:
  "parseTime (formatTime (unixEpoch + 1767225600 * second + 500000000)) =
    unixEpoch + 1767225600 * second + 500000000"
  by (rule time_text_roundtrip) (simp_all add: unixEpoch_def maxTime_def second_def)

text \<open>
  The stores compare time columns as text. An instant that is a second or more after another one
  always has the greater text, so a comparison \<^verbatim>\<open>column <= at\<close> is never wrong by a second or more.
\<close>

theorem time_text_order:
  "0 \<le> s \<Longrightarrow> s + second \<le> t \<Longrightarrow> t < maxTime \<Longrightarrow> formatTime s < formatTime t"
  by (rule formatTime_less) (auto simp: second_def)

theorem time_text_order_witness:
  "formatTime (unixEpoch + 1767225600 * second) < formatTime (unixEpoch + 1767225601 * second)"
  by (rule time_text_order) (simp_all add: unixEpoch_def maxTime_def second_def)

text \<open>
  C40. Inside one second the text order and the time order disagree: the text of a whole second is
  greater than the text of every later instant of the same second.
\<close>

theorem time_text_order_within_second:
  "0 < t \<Longrightarrow> t mod second = 0 \<Longrightarrow> 0 < n \<Longrightarrow> n < second \<Longrightarrow> formatTime (t + n) < formatTime t"
  by (rule formatTime_same_second)

theorem time_text_order_within_second_witness:
  "formatTime (unixEpoch + 1767225600 * second + 500000000) <
    formatTime (unixEpoch + 1767225600 * second)"
  by (rule time_text_order_within_second) (simp_all add: unixEpoch_def second_def)

end
