(* ===== verification/Go_Crypto.thy ===== *)
theory Go_Crypto
  imports Go_Prelude "HOL-Library.Word"
begin

text \<open>
  The digests and encodings the Scheduler derives its identifiers from: \<^verbatim>\<open>sha256.Sum256\<close> (FIPS
  180-4), \<^verbatim>\<open>hex.EncodeToString\<close> and \<^verbatim>\<open>base64.RawURLEncoding.EncodeToString\<close>, on byte strings.
\<close>

unbundle bit_operations_syntax

type_synonym word32 = "32 word"

section \<open>SHA-256\<close>

definition rotr :: "nat \<Rightarrow> word32 \<Rightarrow> word32" where
  "rotr n x = drop_bit n x OR push_bit (32 - n) x"

text \<open>
  The constants of the standard: the first 32 fractional bits of the cube roots of the first 64
  primes and of the square roots of the first 8, found bit by bit.
\<close>

fun searchBits :: "(int \<Rightarrow> bool) \<Rightarrow> nat \<Rightarrow> int \<Rightarrow> int" where
  "searchBits ok 0 r = r"
| "searchBits ok (Suc k) r = searchBits ok k (if ok (r + 2 ^ k) then r + 2 ^ k else r)"

definition smallPrimes :: "int list" where
  "smallPrimes = map int (filter (\<lambda>n. list_all (\<lambda>m. n mod m \<noteq> 0) [2..<n]) [2..<312])"

definition roundConstants :: "word32 list" where
  "roundConstants = map (\<lambda>p. word_of_int (searchBits (\<lambda>r. r ^ 3 \<le> p * 2 ^ 96) 36 0)) smallPrimes"

definition initialHash :: "word32 list" where
  "initialHash =
     map (\<lambda>p. word_of_int (searchBits (\<lambda>r. r ^ 2 \<le> p * 2 ^ 64) 36 0)) [2, 3, 5, 7, 11, 13, 17, 19]"

text \<open>The message schedule, grown one word at a time; the words are kept newest first.\<close>

definition scheduleStep :: "word32 list \<Rightarrow> word32 list" where
  "scheduleStep ws =
     (let a = ws ! 1; b = ws ! 14;
          s1 = rotr 17 a XOR rotr 19 a XOR drop_bit 10 a;
          s0 = rotr 7 b XOR rotr 18 b XOR drop_bit 3 b
      in (s1 + ws ! 6 + s0 + ws ! 15) # ws)"

definition messageSchedule :: "word32 list \<Rightarrow> word32 list" where
  "messageSchedule block = rev ((scheduleStep ^^ 48) (rev block))"

fun compressRound :: "word32 list \<Rightarrow> word32 \<times> word32 \<Rightarrow> word32 list" where
  "compressRound [a, b, c, d, e, f, g, h] (k, x) =
     (let s1 = rotr 6 e XOR rotr 11 e XOR rotr 25 e;
          ch = (e AND f) XOR (NOT e AND g);
          t1 = h + s1 + ch + k + x;
          s0 = rotr 2 a XOR rotr 13 a XOR rotr 22 a;
          maj = (a AND b) XOR (a AND c) XOR (b AND c)
      in [t1 + s0 + maj, a, b, c, d + t1, e, f, g])"
| "compressRound st kx = st"

definition compress :: "word32 list \<Rightarrow> word32 list \<Rightarrow> word32 list" where
  "compress block st =
     map2 (+) st (foldl compressRound st (zip roundConstants (messageSchedule block)))"

fun bigEndian :: "nat \<Rightarrow> int \<Rightarrow> string" where
  "bigEndian 0 n = []"
| "bigEndian (Suc w) n = bigEndian w (n div 256) @ [char_of n]"

definition padMessage :: "string \<Rightarrow> string" where
  "padMessage m =
     m @ char_of (128 :: int) # replicate ((119 - length m mod 64) mod 64) (char_of (0 :: int)) @
     bigEndian 8 (8 * int (length m))"

fun blockWords :: "string \<Rightarrow> word32 list" where
  "blockWords (a # b # c # d # s) =
     word_of_int (((of_char a * 256 + of_char b) * 256 + of_char c) * 256 + of_char d) # blockWords s"
| "blockWords s = []"

fun blocks :: "nat \<Rightarrow> 'a list \<Rightarrow> 'a list list" where
  "blocks 0 xs = []"
| "blocks (Suc k) xs = take 16 xs # blocks k (drop 16 xs)"

definition sha256 :: "string \<Rightarrow> string" where
  "sha256 m =
     (let p = padMessage m
      in concat (map (bigEndian 4 \<circ> uint)
           (fold compress (blocks (length p div 64) (blockWords p)) initialHash)))"

section \<open>Encodings\<close>

definition hexDigit :: "nat \<Rightarrow> char" where
  "hexDigit n = char_of (if n < 10 then 48 + n else 87 + n)"

definition hexEncode :: "string \<Rightarrow> string" where
  "hexEncode s = concat (map (\<lambda>c. [hexDigit (of_char c div 16), hexDigit (of_char c mod 16)]) s)"

definition sha256Hex :: "string \<Rightarrow> string" where
  "sha256Hex m = hexEncode (sha256 m)"

definition base64Digit :: "nat \<Rightarrow> char" where
  "base64Digit n =
     (if n < 26 then char_of (65 + n) else if n < 52 then char_of (71 + n)
      else if n < 62 then char_of (n - 4) else if n = 62 then CHR ''-'' else CHR ''_'')"

fun base64RawURL :: "string \<Rightarrow> string" where
  "base64RawURL (a # b # c # s) =
     (let n = (of_char a * 256 + of_char b) * 256 + of_char c
      in [base64Digit (n div 262144), base64Digit (n div 4096 mod 64),
          base64Digit (n div 64 mod 64), base64Digit (n mod 64)] @ base64RawURL s)"
| "base64RawURL [a, b] =
     (let n = (of_char a * 256 + of_char b) * 4
      in [base64Digit (n div 4096), base64Digit (n div 64 mod 64), base64Digit (n mod 64)])"
| "base64RawURL [a] =
     (let n = of_char a * 16 in [base64Digit (n div 64), base64Digit (n mod 64)])"
| "base64RawURL [] = []"

section \<open>Lengths\<close>

lemma length_bigEndian [simp]: "length (bigEndian w n) = w"
  by (induction w arbitrary: n) auto

lemma length_compressRound [simp]: "length (compressRound st kx) = length st"
  by (cases "(st, kx)" rule: compressRound.cases) (auto simp: Let_def)

lemma length_foldl_compressRound [simp]:
  "length (foldl compressRound st kxs) = length st"
  by (induction kxs arbitrary: st) auto

lemma length_fold_compress [simp]: "length (fold compress bs st) = length st"
  by (induction bs arbitrary: st) (auto simp: compress_def)

lemma length_concat_const: "(\<And>x. x \<in> set xs \<Longrightarrow> length (f x) = k) \<Longrightarrow>
  length (concat (map f xs)) = k * length xs"
  by (induction xs) auto

lemma length_sha256 [simp]: "length (sha256 m) = 32"
  unfolding sha256_def Let_def by (subst length_concat_const [where k = 4]) (auto simp: initialHash_def)

lemma length_hexEncode [simp]: "length (hexEncode s) = 2 * length s"
  unfolding hexEncode_def by (rule length_concat_const) simp

lemma length_sha256Hex [simp]: "length (sha256Hex m) = 64"
  by (simp add: sha256Hex_def)


lemma plainText_hexEncode: "plainText (hexEncode s)"
proof -
  have "plainText [hexDigit n]" if "n < 16" for n
    using that by (auto simp: plainText_def hexDigit_def)
  moreover have "(of_char c :: nat) div 16 < 16" for c
  proof -
    have "(of_char c :: nat) \<in> {0..<256}" unfolding range_nat_of_char [symmetric] by blast
    then show ?thesis by (simp add: less_mult_imp_div_less)
  qed
  ultimately show ?thesis by (induction s) (auto simp: hexEncode_def plainText_def)
qed

lemma trimSpace_sha256Hex [simp]: "trimSpace (sha256Hex m) = sha256Hex m"
  by (simp add: sha256Hex_def trimSpace_plain plainText_hexEncode)

end
