(* ===== verification/Scheduler_Types.thy ===== *)
theory Scheduler_Types
  imports Go_Time Go_Crypto
begin

text \<open>
  The values the Scheduler exchanges with its SDK (\<^verbatim>\<open>domainry-scheduler-sdk\<close>, a separate module):
  one record per SDK struct, with the fields the Scheduler's sources read or write, and one field
  \<open>...Rest\<close> for the fields they only pass on.

  The behaviour of the SDK is not part of this program. It is a parameter: a record \<open>Sdk\<close> of the
  functions the sources call (schedule arithmetic, normalisation and validation, the JSON encoding
  of SDK structs, the texts of its sentinel errors, the values of its constants) together with the error a database driver
  reports for a violated key. Every definition that depends on them takes such a record.
\<close>

section \<open>SDK structs\<close>

record Schedule =
  scheduleType :: string
  scheduleExpression :: string
  scheduleTimezone :: string
  scheduleTimeOfDay :: string
  scheduleDayOfWeek :: string
  scheduleIntervalSeconds :: int
  scheduleDayOfMonth :: int
  scheduleRest :: string

record Policy =
  policyMisfire :: string
  policyMisfireGrace :: duration
  policyMaxAttempts :: int
  policyRetryInitial :: duration
  policyRetryMax :: duration
  policyTimeout :: duration
  policyMaxCatchupWindows :: int
  policyRest :: string

record TargetRef =
  targetType :: string
  targetOwner :: string
  targetOperation :: string
  targetConnectionKey :: string
  targetDispatchMode :: string
  targetPayload :: string
  targetObjectKey :: string
  targetRunAsRole :: string
  targetRest :: string

record Definition =
  defKey :: string
  defName :: string
  defStatus :: string
  defRevision :: string
  defSchedule :: Schedule
  defPolicy :: Policy
  defTarget :: TargetRef
  defInitialNextRunAt :: time
  defDescription :: string
  defI18n :: "(string \<times> string) list"
  defRest :: string

record Trigger =
  trgRunID :: string
  trgDefinitionKey :: string
  trgDefinitionRev :: string
  trgScheduledFor :: time
  trgWindowKey :: string
  trgTarget :: TargetRef
  trgIdempotencyKey :: string
  trgAttempt :: int
  trgMetadata :: string

record Lease =
  leaseOwner :: string
  leaseToken :: int
  leaseExpiresAt :: time

record DownstreamReceipt =
  receiptID :: string
  receiptOwner :: string
  receiptStatus :: string
  receiptReplay :: bool
  receiptRest :: string

record Run =
  runTrigger :: Trigger
  runLease :: Lease
  runStatus :: string
  runReceipt :: DownstreamReceipt
  runLastError :: string
  runCreatedAt :: time
  runUpdatedAt :: time

record DeadLetter =
  dlRunID :: string
  dlDefinitionKey :: string
  dlStatus :: string
  dlReason :: string
  dlFailedAt :: time
  dlResolvedAt :: time

record TriggerBacklog =
  backlogPending :: int
  backlogLimit :: int

record DueTrigger =
  dueDefinition :: Definition
  dueScheduledFor :: time
  dueExpectedCursor :: time
  dueNextRunAt :: time
  dueMetadata :: string

record MisfireResolution =
  misfireWindows :: "time list"
  misfireCursorAfter :: time
  misfireDisable :: bool

record DefinitionPublisherFence =
  fenceGeneration :: int
  fenceSessionSHA256 :: string

record DefinitionPublisherSession =
  sessionGeneration :: int
  sessionNonce :: string

text \<open>\<^verbatim>\<open>DefinitionSnapshotCursor\<close>: the last published snapshot of one application.\<close>

record DefinitionSnapshotCursor =
  cursorRuntimeID :: string
  cursorFence :: DefinitionPublisherFence
  cursorRevision :: int
  cursorContentSHA256 :: string

text \<open>\<^verbatim>\<open>persistence.DefinitionSnapshot\<close>; a nil \<^verbatim>\<open>PublisherFence\<close> is \<open>None\<close>.\<close>

record DefinitionSnapshot =
  snapRevision :: int
  snapSchemaVersion :: string
  snapSchemaHash :: string
  snapSourceKind :: string
  snapSourceID :: string
  snapDefinitions :: "Definition list"
  snapFence :: "DefinitionPublisherFence option"
  snapContentSHA256 :: string

record ScheduledPlanOwner =
  ownerWorkspaceID :: string
  ownerUserID :: string
  ownerProductKey :: string

record ScheduledPlanTrigger =
  planTriggerType :: string
  planTriggerAt :: "time option"
  planTriggerSchedule :: "Schedule option"
  planTriggerPolicy :: Policy

record ScheduledPlan =
  planID :: string
  planName :: string
  planOwner :: ScheduledPlanOwner
  planTimezone :: string
  planTrigger :: ScheduledPlanTrigger
  planInput :: string
  planAllowedActions :: "string list"
  planTarget :: TargetRef
  planConversationID :: string
  planConversationRunID :: string
  planStatus :: string
  planRevision :: int
  planCreatedAt :: time
  planUpdatedAt :: time

record ScheduledPlanRecord =
  recordPlan :: ScheduledPlan
  recordClientID :: string
  recordRequestSHA256 :: string

record ScheduledPlanCreate =
  createClientID :: string
  createName :: string
  createOwner :: ScheduledPlanOwner
  createTimezone :: string
  createTrigger :: ScheduledPlanTrigger
  createInput :: string
  createAllowedActions :: "string list"
  createTarget :: TargetRef
  createConversationID :: string
  createConversationRunID :: string
  createStatus :: string

record ScheduledPlanUpdate =
  updatePlanID :: string
  updateExpectedRevision :: int
  updateOwner :: ScheduledPlanOwner
  updateName :: string
  updateTimezone :: string
  updateTrigger :: ScheduledPlanTrigger
  updateInput :: string
  updateAllowedActions :: "string list"
  updateTarget :: TargetRef
  updateConversationID :: string
  updateConversationRunID :: string

record ScheduledPlanStatusChange =
  changeOwner :: ScheduledPlanOwner
  changePlanID :: string
  changeExpectedRevision :: int

record ScheduledPlanReceipt =
  planReceiptPlan :: ScheduledPlan
  planReceiptReplay :: bool

record ScheduledPlanDeleteReceipt =
  deleteReceiptPlanID :: string
  deleteReceiptRevision :: int
  deleteReceiptDeleted :: bool
  deleteReceiptReplay :: bool

record ScheduledPlanList =
  listOwner :: ScheduledPlanOwner
  listStatus :: string
  listCursor :: string
  listLimit :: int

record ScheduledPlanPage =
  pageItems :: "ScheduledPlan list"
  pageNextCursor :: string

record ScheduledPlanDispatch =
  dispatchPlanID :: string
  dispatchOwner :: ScheduledPlanOwner
  dispatchInput :: string
  dispatchAllowedActions :: "string list"
  dispatchConversationID :: string
  dispatchConversationRunID :: string

text \<open>\<^verbatim>\<open>schedulersdk.DefinitionSnapshot\<close>, what a host publishes; a nil session is \<open>None\<close>.\<close>

record HostSnapshot =
  hostRevision :: int
  hostDefinitions :: "Definition list"
  hostSession :: "DefinitionPublisherSession option"

datatype DeploymentMode = DeploymentModeModule | DeploymentModeSaaS | DeploymentModeOther string

text \<open>What a Scheduler discloses of itself, and the SDK's names of its protocol and of the capabilities it may have.\<close>

record Descriptor =
  descProtocolVersion :: string
  descMode :: DeploymentMode
  descCapabilities :: "string list"

record ProtocolNames =
  protocolVersionV1 :: string
  capPublicationFencing :: string
  capPlanRecords :: string
  capPlanDeletionRead :: string
  capTriggerBacklog :: string

section \<open>SDK and driver behaviour\<close>

text \<open>
  A validation method returns \<open>None\<close> when it accepts. The decoders of \<^verbatim>\<open>TargetRef\<close> and
  \<^verbatim>\<open>DownstreamReceipt\<close> are called with the error ignored (\<^verbatim>\<open>_ = json.Unmarshal(...)\<close>), so they stand
  for the value the variable holds afterwards.
\<close>

record Sdk =
  sentinelText :: "sentinel \<Rightarrow> string"
  uniqueViolation :: "string \<Rightarrow> goerr"
  normalizeDefinition :: "Definition \<Rightarrow> Definition"
  validateDefinition :: "Definition \<Rightarrow> goerr option"
  validateSchedule :: "Schedule \<Rightarrow> goerr option"
  nextSchedule :: "Schedule \<Rightarrow> time \<Rightarrow> time"
  scheduleKind :: "Schedule \<Rightarrow> string"
  resolveMisfire :: "Schedule \<Rightarrow> Policy \<Rightarrow> time \<Rightarrow> time \<Rightarrow> int \<Rightarrow> MisfireResolution"
  validateFence :: "DefinitionPublisherFence \<Rightarrow> goerr option"
  validateCursor :: "DefinitionSnapshotCursor \<Rightarrow> goerr option"
  contentSHA256 :: "Definition list \<Rightarrow> goerr + string"
  marshalDefinition :: "Definition \<Rightarrow> goerr + string"
  unmarshalDefinition :: "string \<Rightarrow> goerr + Definition"
  marshalDefinitions :: "Definition list \<Rightarrow> goerr + string"
  marshalTarget :: "TargetRef \<Rightarrow> goerr + string"
  unmarshalTarget :: "string \<Rightarrow> goerr + TargetRef"
  targetAfterUnmarshal :: "string \<Rightarrow> TargetRef"
  marshalReceipt :: "DownstreamReceipt \<Rightarrow> goerr + string"
  receiptAfterUnmarshal :: "string \<Rightarrow> DownstreamReceipt"
  marshalPlanTrigger :: "ScheduledPlanTrigger \<Rightarrow> goerr + string"
  unmarshalPlanTrigger :: "string \<Rightarrow> goerr + ScheduledPlanTrigger"
  marshalActions :: "string list \<Rightarrow> goerr + string"
  unmarshalActions :: "string \<Rightarrow> goerr + string list"
  defaultMaxPendingTriggers :: int
  fenceEqual :: "DefinitionPublisherFence \<Rightarrow> DefinitionPublisherFence \<Rightarrow> bool"
  sessionFence :: "DefinitionPublisherSession \<Rightarrow> goerr + DefinitionPublisherFence"
  validateModuleSnapshot :: "HostSnapshot \<Rightarrow> goerr option"
  validateOwner :: "ScheduledPlanOwner \<Rightarrow> goerr option"
  validatePlanCreate :: "ScheduledPlanCreate \<Rightarrow> goerr option"
  normalizeTarget :: "TargetRef \<Rightarrow> TargetRef"
  marshalPlanCreate :: "ScheduledPlanCreate \<Rightarrow> goerr + string"
  marshalDispatch :: "ScheduledPlanDispatch \<Rightarrow> goerr + string"
  retryDelay :: "duration \<Rightarrow> duration \<Rightarrow> int \<Rightarrow> duration"
  planStatusEnabled :: string
  planStatusDisabled :: string
  planStatusPaused :: string
  planStatusDeleted :: string
  planTriggerOnce :: string
  planTriggerRecurring :: string
  planMisfireCatchOne :: string
  planMisfireSkip :: string

definition errorText :: "Sdk \<Rightarrow> goerr \<Rightarrow> string" where
  "errorText S e = errText (sentinelText S) e"

text \<open>\<^verbatim>\<open>isUnique\<close> of \<^verbatim>\<open>run_store.go\<close>: a driver's key violation is recognised by its text.\<close>

definition isUnique :: "Sdk \<Rightarrow> goerr \<Rightarrow> bool" where
  "isUnique S e =
     (let v = toLower (errorText S e)
      in containsStr v ''unique'' \<or> containsStr v ''duplicate'' \<or> containsStr v ''constraint'')"

text \<open>
  The value left by a marshal call whose error is ignored: a failing \<^verbatim>\<open>json.Marshal\<close> returns no bytes.
\<close>

definition bytesOf :: "goerr + string \<Rightarrow> string" where
  "bytesOf r = (case r of Inl _ \<Rightarrow> [] | Inr s \<Rightarrow> s)"

text \<open>\<^verbatim>\<open>%q\<close>: the escapes of \<^verbatim>\<open>strconv.Quote\<close> for ASCII; other bytes are kept as they are.\<close>

definition quoteChar :: "char \<Rightarrow> string" where
  "quoteChar c =
     (let n = (of_char c :: nat) in
      if c = CHR 0x22 then [CHR 0x5C, CHR 0x22] else if c = CHR 0x5C then [CHR 0x5C, CHR 0x5C]
      else if n = 7 then [CHR 0x5C, CHR ''a''] else if n = 8 then [CHR 0x5C, CHR ''b'']
      else if n = 12 then [CHR 0x5C, CHR ''f''] else if n = 10 then [CHR 0x5C, CHR ''n'']
      else if n = 13 then [CHR 0x5C, CHR ''r''] else if n = 9 then [CHR 0x5C, CHR ''t'']
      else if n = 11 then [CHR 0x5C, CHR ''v'']
      else if n < 32 \<or> n = 127 then [CHR 0x5C, CHR ''x'', hexDigit (n div 16), hexDigit (n mod 16)]
      else [c])"

definition quoted :: "string \<Rightarrow> string" where
  "quoted s = CHR 0x22 # concat (map quoteChar s) @ [CHR 0x22]"

text \<open>\<^verbatim>\<open>nullable\<close> of \<^verbatim>\<open>run_store.go\<close>, and what a \<^verbatim>\<open>sql.NullString\<close> holds in its \<^verbatim>\<open>String\<close>.\<close>

definition nullable :: "string \<Rightarrow> string option" where
  "nullable v = (if isBlank v then None else Some v)"

definition nullString :: "string option \<Rightarrow> string" where
  "nullString v = (case v of None \<Rightarrow> [] | Some s \<Rightarrow> s)"

lemma nullString_simps [simp]: "nullString None = []" "nullString (Some v) = v"
  by (simp_all add: nullString_def)

end
