(* ===== verification/Database.thy ===== *)
theory Database
  imports Scheduler_Types
begin

text \<open>
  The database the Scheduler's stores share: the tables of
  \<^verbatim>\<open>persistence/database/schema/migrations.go\<close> as one record of row lists, and the SQL statements the
  query builder produces as functions on it.

  A row is a record with one field per column; a nullable column is an option. A table keeps its
  rows in the order of insertion, which is the order of a query without \<^verbatim>\<open>ORDER BY\<close> and the order of
  equal rows in one with it. An \<^verbatim>\<open>UPDATE\<close> counts the rows its predicate matched; an \<^verbatim>\<open>INSERT\<close> of a
  row whose primary or unique key is taken fails with the driver's key violation and changes
  nothing; a comparison with \<^verbatim>\<open>NULL\<close> matches no row. Text is compared byte by byte.
\<close>

section \<open>Rows and tables\<close>

record definition_state_row =
  ds_runtime_id :: string
  ds_definition_key :: string
  ds_revision :: string
  ds_enabled :: bool
  ds_definition_json :: string
  ds_next_run_at :: string
  ds_last_run_at :: "string option"
  ds_last_run_status :: "string option"
  ds_snapshot_revision :: int
  ds_updated_at :: string
  ds_source_kind :: string

record run_row =
  r_runtime_id :: string
  r_run_id :: string
  r_definition_key :: string
  r_definition_revision :: string
  r_scheduled_for :: string
  r_window_key :: string
  r_target_json :: string
  r_metadata_json :: "string option"
  r_status :: string
  r_attempt :: int
  r_lease_owner :: "string option"
  r_lease_expires_at :: "string option"
  r_fencing_token :: int
  r_next_retry_at :: "string option"
  r_receipt_json :: "string option"
  r_last_error :: "string option"
  r_created_at :: string
  r_updated_at :: string

record event_row =
  ev_runtime_id :: string
  ev_event_id :: string
  ev_run_id :: string
  ev_event_type :: string
  ev_message :: "string option"
  ev_metadata_json :: "string option"
  ev_created_at :: string

record dead_letter_row =
  dl_runtime_id :: string
  dl_run_id :: string
  dl_definition_key :: string
  dl_reason :: string
  dl_failed_at :: string
  dl_resolved_at :: "string option"

record definition_row =
  df_id :: string
  df_resource_key :: string
  df_object_key :: string
  df_name :: string
  df_payload_json :: string
  df_schema_version :: string
  df_schema_hash :: string
  df_source_kind :: string
  df_source_id :: string
  df_disabled_at :: "string option"
  df_created_at :: string
  df_updated_at :: string

record command_receipt_row =
  cr_runtime_id :: string
  cr_idempotency_key :: string
  cr_action_key :: string
  cr_resource_key :: string
  cr_request_hash :: string
  cr_status :: string
  cr_http_status :: int
  cr_response_json :: "string option"
  cr_created_at :: string
  cr_updated_at :: string

record snapshot_row =
  sn_source_kind :: string
  sn_source_id :: string
  sn_revision :: int
  sn_schema_version :: string
  sn_schema_hash :: string
  sn_updated_at :: string

record publication_row =
  pb_source_kind :: string
  pb_source_id :: string
  pb_active_generation :: int
  pb_active_session_sha256 :: string
  pb_cursor_generation :: "int option"
  pb_cursor_session_sha256 :: "string option"
  pb_cursor_revision :: "int option"
  pb_cursor_content_sha256 :: "string option"
  pb_updated_at :: string

record plan_row =
  pl_runtime_id :: string
  pl_plan_id :: string
  pl_client_id :: string
  pl_request_sha256 :: string
  pl_workspace_id :: string
  pl_user_id :: string
  pl_product_key :: string
  pl_name :: string
  pl_timezone :: string
  pl_trigger_json :: string
  pl_input_json :: string
  pl_allowed_actions_json :: string
  pl_target_json :: string
  pl_source_conversation_id :: "string option"
  pl_source_run_id :: "string option"
  pl_status :: string
  pl_revision :: int
  pl_created_at :: string
  pl_updated_at :: string

record guard_row =
  cg_runtime_id :: string
  cg_revision :: int

record database =
  definition_states :: "definition_state_row list"
  runs :: "run_row list"
  run_events :: "event_row list"
  dead_letters :: "dead_letter_row list"
  definitions :: "definition_row list"
  command_receipts :: "command_receipt_row list"
  definition_snapshots :: "snapshot_row list"
  definition_publications :: "publication_row list"
  plans :: "plan_row list"
  capacity_guards :: "guard_row list"

type_synonym 'a dbop = "(database, 'a) go"
type_synonym 'a sql = "database \<Rightarrow> (goerr + 'a) \<times> database"

section \<open>Statements on one table\<close>

definition updateWhere :: "('r \<Rightarrow> bool) \<Rightarrow> ('r \<Rightarrow> 'r) \<Rightarrow> 'r list \<Rightarrow> 'r list" where
  "updateWhere p f rows = map (\<lambda>r. if p r then f r else r) rows"

definition matched :: "('r \<Rightarrow> bool) \<Rightarrow> 'r list \<Rightarrow> int" where
  "matched p rows = int (length (filter p rows))"

text \<open>\<^verbatim>\<open>QueryRowContext(...).Scan(...)\<close>: the first matching row, or \<^verbatim>\<open>sql.ErrNoRows\<close>.\<close>

definition selectRow :: "('r \<Rightarrow> bool) \<Rightarrow> 'r list \<Rightarrow> goerr + 'r" where
  "selectRow p rows = (case filter p rows of [] \<Rightarrow> Inl (Sentinel ErrNoRows) | r # _ \<Rightarrow> Inr r)"

definition ascending :: "('r \<Rightarrow> string) \<Rightarrow> 'r list \<Rightarrow> 'r list" where
  "ascending k rows = sort_key k rows"

definition descending :: "('r \<Rightarrow> string) \<Rightarrow> 'r list \<Rightarrow> 'r list" where
  "descending k rows = rev (sort_key k (rev rows))"

definition limitRows :: "int \<Rightarrow> 'r list \<Rightarrow> 'r list" where
  "limitRows n rows = take (nat n) rows"

definition nullLE :: "string option \<Rightarrow> string \<Rightarrow> bool" where
  "nullLE c v = (case c of None \<Rightarrow> False | Some x \<Rightarrow> x \<le> v)"

section \<open>Keys\<close>

definition definition_state_key :: "definition_state_row \<Rightarrow> string \<times> string" where
  "definition_state_key r = (ds_runtime_id r, ds_definition_key r)"

definition run_key :: "run_row \<Rightarrow> string \<times> string" where
  "run_key r = (r_runtime_id r, r_run_id r)"

definition run_window :: "run_row \<Rightarrow> string \<times> string \<times> string" where
  "run_window r = (r_runtime_id r, r_definition_key r, r_scheduled_for r)"

definition event_key :: "event_row \<Rightarrow> string \<times> string" where
  "event_key r = (ev_runtime_id r, ev_event_id r)"

definition dead_letter_key :: "dead_letter_row \<Rightarrow> string \<times> string" where
  "dead_letter_key r = (dl_runtime_id r, dl_run_id r)"

definition command_receipt_key :: "command_receipt_row \<Rightarrow> string \<times> string" where
  "command_receipt_key r = (cr_runtime_id r, cr_idempotency_key r)"

definition snapshot_key :: "snapshot_row \<Rightarrow> string \<times> string" where
  "snapshot_key r = (sn_source_kind r, sn_source_id r)"

definition publication_key :: "publication_row \<Rightarrow> string \<times> string" where
  "publication_key r = (pb_source_kind r, pb_source_id r)"

definition plan_key :: "plan_row \<Rightarrow> string \<times> string" where
  "plan_key r = (pl_runtime_id r, pl_plan_id r)"

text \<open>The primary and unique keys of the schema hold in every table.\<close>

definition keysOk :: "database \<Rightarrow> bool" where
  "keysOk d \<longleftrightarrow>
     distinct (map definition_state_key (definition_states d)) \<and>
     distinct (map run_key (runs d)) \<and> distinct (map run_window (runs d)) \<and>
     distinct (map event_key (run_events d)) \<and>
     distinct (map dead_letter_key (dead_letters d)) \<and>
     distinct (map df_id (definitions d)) \<and> distinct (map df_resource_key (definitions d)) \<and>
     distinct (map command_receipt_key (command_receipts d)) \<and>
     distinct (map snapshot_key (definition_snapshots d)) \<and>
     distinct (map publication_key (definition_publications d)) \<and>
     distinct (map plan_key (plans d)) \<and>
     distinct (map cg_runtime_id (capacity_guards d))"

section \<open>Statements on the database\<close>

definition update_definition_states ::
  "(definition_state_row \<Rightarrow> bool) \<Rightarrow> (definition_state_row \<Rightarrow> definition_state_row) \<Rightarrow> int sql" where
  "update_definition_states p f d =
     (Inr (matched p (definition_states d)),
      d\<lparr>definition_states := updateWhere p f (definition_states d)\<rparr>)"

definition update_runs :: "(run_row \<Rightarrow> bool) \<Rightarrow> (run_row \<Rightarrow> run_row) \<Rightarrow> int sql" where
  "update_runs p f d = (Inr (matched p (runs d)), d\<lparr>runs := updateWhere p f (runs d)\<rparr>)"

definition update_dead_letters ::
  "(dead_letter_row \<Rightarrow> bool) \<Rightarrow> (dead_letter_row \<Rightarrow> dead_letter_row) \<Rightarrow> int sql" where
  "update_dead_letters p f d =
     (Inr (matched p (dead_letters d)), d\<lparr>dead_letters := updateWhere p f (dead_letters d)\<rparr>)"

definition update_definitions ::
  "(definition_row \<Rightarrow> bool) \<Rightarrow> (definition_row \<Rightarrow> definition_row) \<Rightarrow> int sql" where
  "update_definitions p f d =
     (Inr (matched p (definitions d)), d\<lparr>definitions := updateWhere p f (definitions d)\<rparr>)"

definition update_command_receipts ::
  "(command_receipt_row \<Rightarrow> bool) \<Rightarrow> (command_receipt_row \<Rightarrow> command_receipt_row) \<Rightarrow> int sql" where
  "update_command_receipts p f d =
     (Inr (matched p (command_receipts d)),
      d\<lparr>command_receipts := updateWhere p f (command_receipts d)\<rparr>)"

definition update_definition_snapshots ::
  "(snapshot_row \<Rightarrow> bool) \<Rightarrow> (snapshot_row \<Rightarrow> snapshot_row) \<Rightarrow> int sql" where
  "update_definition_snapshots p f d =
     (Inr (matched p (definition_snapshots d)),
      d\<lparr>definition_snapshots := updateWhere p f (definition_snapshots d)\<rparr>)"

definition update_definition_publications ::
  "(publication_row \<Rightarrow> bool) \<Rightarrow> (publication_row \<Rightarrow> publication_row) \<Rightarrow> int sql" where
  "update_definition_publications p f d =
     (Inr (matched p (definition_publications d)),
      d\<lparr>definition_publications := updateWhere p f (definition_publications d)\<rparr>)"

definition update_plans :: "(plan_row \<Rightarrow> bool) \<Rightarrow> (plan_row \<Rightarrow> plan_row) \<Rightarrow> int sql" where
  "update_plans p f d = (Inr (matched p (plans d)), d\<lparr>plans := updateWhere p f (plans d)\<rparr>)"

definition update_capacity_guards ::
  "(guard_row \<Rightarrow> bool) \<Rightarrow> (guard_row \<Rightarrow> guard_row) \<Rightarrow> int sql" where
  "update_capacity_guards p f d =
     (Inr (matched p (capacity_guards d)),
      d\<lparr>capacity_guards := updateWhere p f (capacity_guards d)\<rparr>)"

definition insert_definition_states :: "Sdk \<Rightarrow> definition_state_row \<Rightarrow> int sql" where
  "insert_definition_states S r d =
     (if definition_state_key r \<in> set (map definition_state_key (definition_states d))
      then (Inl (uniqueViolation S ''_scheduler_definition_states''), d)
      else (Inr 1, d\<lparr>definition_states := definition_states d @ [r]\<rparr>))"

definition insert_runs :: "Sdk \<Rightarrow> run_row \<Rightarrow> int sql" where
  "insert_runs S r d =
     (if run_key r \<in> set (map run_key (runs d)) \<or> run_window r \<in> set (map run_window (runs d))
      then (Inl (uniqueViolation S ''_scheduler_runs''), d)
      else (Inr 1, d\<lparr>runs := runs d @ [r]\<rparr>))"

definition insert_run_events :: "Sdk \<Rightarrow> event_row \<Rightarrow> int sql" where
  "insert_run_events S r d =
     (if event_key r \<in> set (map event_key (run_events d))
      then (Inl (uniqueViolation S ''_scheduler_run_events''), d)
      else (Inr 1, d\<lparr>run_events := run_events d @ [r]\<rparr>))"

definition insert_dead_letters :: "Sdk \<Rightarrow> dead_letter_row \<Rightarrow> int sql" where
  "insert_dead_letters S r d =
     (if dead_letter_key r \<in> set (map dead_letter_key (dead_letters d))
      then (Inl (uniqueViolation S ''_scheduler_dead_letters''), d)
      else (Inr 1, d\<lparr>dead_letters := dead_letters d @ [r]\<rparr>))"

definition insert_definitions :: "Sdk \<Rightarrow> definition_row \<Rightarrow> int sql" where
  "insert_definitions S r d =
     (if df_id r \<in> set (map df_id (definitions d)) \<or>
         df_resource_key r \<in> set (map df_resource_key (definitions d))
      then (Inl (uniqueViolation S ''_scheduler_definitions''), d)
      else (Inr 1, d\<lparr>definitions := definitions d @ [r]\<rparr>))"

definition insert_command_receipts :: "Sdk \<Rightarrow> command_receipt_row \<Rightarrow> int sql" where
  "insert_command_receipts S r d =
     (if command_receipt_key r \<in> set (map command_receipt_key (command_receipts d))
      then (Inl (uniqueViolation S ''_scheduler_command_receipts''), d)
      else (Inr 1, d\<lparr>command_receipts := command_receipts d @ [r]\<rparr>))"

definition insert_definition_snapshots :: "Sdk \<Rightarrow> snapshot_row \<Rightarrow> int sql" where
  "insert_definition_snapshots S r d =
     (if snapshot_key r \<in> set (map snapshot_key (definition_snapshots d))
      then (Inl (uniqueViolation S ''_scheduler_definition_snapshots''), d)
      else (Inr 1, d\<lparr>definition_snapshots := definition_snapshots d @ [r]\<rparr>))"

text \<open>\<^verbatim>\<open>INSERT ... ON CONFLICT DO NOTHING\<close> on the primary key.\<close>

definition insert_ignore_publications :: "publication_row \<Rightarrow> int sql" where
  "insert_ignore_publications r d =
     (if publication_key r \<in> set (map publication_key (definition_publications d))
      then (Inr 0, d)
      else (Inr 1, d\<lparr>definition_publications := definition_publications d @ [r]\<rparr>))"

definition insert_ignore_plans :: "plan_row \<Rightarrow> int sql" where
  "insert_ignore_plans r d =
     (if plan_key r \<in> set (map plan_key (plans d)) then (Inr 0, d)
      else (Inr 1, d\<lparr>plans := plans d @ [r]\<rparr>))"

definition insert_ignore_capacity_guards :: "guard_row \<Rightarrow> int sql" where
  "insert_ignore_capacity_guards r d =
     (if cg_runtime_id r \<in> set (map cg_runtime_id (capacity_guards d)) then (Inr 0, d)
      else (Inr 1, d\<lparr>capacity_guards := capacity_guards d @ [r]\<rparr>))"

definition emptyDatabase :: database where
  "emptyDatabase = \<lparr>definition_states = [], runs = [], run_events = [], dead_letters = [],
     definitions = [], command_receipts = [], definition_snapshots = [],
     definition_publications = [], plans = [], capacity_guards = []\<rparr>"

section \<open>Facts about statements\<close>

named_theorems sql_unfold \<open>definitions of the statements on tables\<close>

lemmas [sql_unfold] =
  update_definition_states_def update_runs_def update_dead_letters_def update_definitions_def
  update_command_receipts_def update_definition_snapshots_def update_definition_publications_def
  update_plans_def update_capacity_guards_def insert_definition_states_def insert_runs_def
  insert_run_events_def insert_dead_letters_def insert_definitions_def insert_command_receipts_def
  insert_definition_snapshots_def insert_ignore_publications_def insert_ignore_plans_def
  insert_ignore_capacity_guards_def

lemma updateWhere_Nil [simp]: "updateWhere p f [] = []"
  by (simp add: updateWhere_def)

lemma updateWhere_Cons [simp]:
  "updateWhere p f (r # rs) = (if p r then f r else r) # updateWhere p f rs"
  by (simp add: updateWhere_def)

lemma length_updateWhere [simp]: "length (updateWhere p f rs) = length rs"
  by (simp add: updateWhere_def)

lemma nth_updateWhere [simp]:
  "i < length rs \<Longrightarrow> updateWhere p f rs ! i = (if p (rs ! i) then f (rs ! i) else rs ! i)"
  by (simp add: updateWhere_def)

lemma updateWhere_none: "(\<And>r. r \<in> set rs \<Longrightarrow> \<not> p r) \<Longrightarrow> updateWhere p f rs = rs"
  by (induction rs) auto

lemma updateWhere_id: "(\<And>r. p r \<Longrightarrow> f r = r) \<Longrightarrow> updateWhere p f rs = rs"
  by (induction rs) auto

lemma filter_updateWhere:
  "(\<And>r. p r \<Longrightarrow> \<not> q r \<and> \<not> q (f r)) \<Longrightarrow> filter q (updateWhere p f rs) = filter q rs"
  by (induction rs) auto

lemma map_updateWhere: "(\<And>r. p r \<Longrightarrow> g (f r) = g r) \<Longrightarrow> map g (updateWhere p f rs) = map g rs"
  by (induction rs) auto

lemma matched_zero: "matched p rs = 0 \<longleftrightarrow> (\<forall>r \<in> set rs. \<not> p r)"
  by (auto simp: matched_def filter_empty_conv)

lemma matched_nonneg [simp]: "0 \<le> matched p rs"
  by (simp add: matched_def)

lemma matched_pos: "0 < matched p rs \<longleftrightarrow> (\<exists>r \<in> set rs. p r)"
  by (auto simp: matched_def filter_empty_conv)

lemma matched_Nil [simp]: "matched p [] = 0"
  by (simp add: matched_def)

lemma matched_Cons [simp]: "matched p (r # rs) = (if p r then 1 else 0) + matched p rs"
  by (simp add: matched_def)

lemma matched_append [simp]: "matched p (rs @ qs) = matched p rs + matched p qs"
  by (simp add: matched_def)

text \<open>A predicate that fixes a key matches at most one row of a table that has the key.\<close>

lemma matched_le_one:
  assumes "distinct (map k rs)" "\<And>r. p r \<Longrightarrow> k r = x"
  shows "matched p rs \<le> 1"
  using assms(1)
proof (induction rs)
  case (Cons r rs)
  have "matched p rs = 0" if "p r"
    using Cons.prems that assms(2) unfolding matched_zero by (auto simp: image_iff)
  with Cons show ?case by auto
qed simp

lemma matched_one:
  assumes "distinct (map k rs)" "\<And>r. p r \<Longrightarrow> k r = x" "r \<in> set rs" "p r"
  shows "matched p rs = 1"
  using matched_le_one [of k rs p x] matched_pos [of p rs] assms by force

lemma selectRow_Inr: "selectRow p rs = Inr r \<Longrightarrow> r \<in> set rs \<and> p r"
proof -
  assume "selectRow p rs = Inr r"
  then obtain qs where "filter p rs = r # qs"
    by (auto simp: selectRow_def split: list.splits)
  then have "r \<in> set (filter p rs)" by simp
  then show ?thesis by simp
qed

lemma selectRow_Inl: "selectRow p rs = Inl e \<longleftrightarrow> e = Sentinel ErrNoRows \<and> (\<forall>r \<in> set rs. \<not> p r)"
  by (auto simp: selectRow_def filter_empty_conv split: list.splits) (metis filter_empty_conv list.simps(3))

lemma selectRow_unique:
  assumes "distinct (map k rs)" "\<And>r. p r \<Longrightarrow> k r = x" "r \<in> set rs" "p r"
  shows "selectRow p rs = Inr r"
proof (cases "selectRow p rs")
  case (Inl e)
  then show ?thesis using assms selectRow_Inl by fast
next
  case (Inr q)
  then have "q \<in> set rs" "p q" using selectRow_Inr by fast+
  then have "q = r" using assms by (auto simp: distinct_map inj_on_def)
  with Inr show ?thesis by simp
qed

lemma set_ascending [simp]: "set (ascending k rs) = set rs"
  by (simp add: ascending_def)

lemma set_descending [simp]: "set (descending k rs) = set rs"
  by (simp add: descending_def)

lemma length_limitRows: "0 \<le> n \<Longrightarrow> int (length (limitRows n rs)) \<le> n"
  by (simp add: limitRows_def)

lemma set_limitRows: "set (limitRows n rs) \<subseteq> set rs"
  by (auto simp: limitRows_def dest: in_set_takeD)

end
