(* ===== verification/Run_Store.thy ===== *)
theory Run_Store
  imports Database
begin

text \<open>
  The execution store, \<^verbatim>\<open>persistence/database/scheduler/run_store.go\<close>: the cursors of the published
  definitions, the runs with their leases, the run events and the dead letters of one Runtime.

  Every method of \<^verbatim>\<open>Store\<close> is one definition of the same name (\<^verbatim>\<open>get\<close> is \<open>getRun\<close>, \<^verbatim>\<open>definition\<close> is
  \<open>definitionByKey\<close>, \<^verbatim>\<open>New\<close> is \<open>newStore\<close>). An \<^verbatim>\<open>UPDATE\<close> or \<^verbatim>\<open>INSERT\<close> that decides who owns a run is
  a definition of its own, \<open>sql_...\<close>, and so is the body of every transaction, \<open>..._tx\<close>, because these
  are the blocks that the database executes atomically and that concurrent workers interleave.
\<close>

section \<open>The store\<close>

record Store =
  runtimeID :: string
  workerID :: string
  maxPendingTriggers :: int

definition definitionStateSourceRuntime :: string where
  "definitionStateSourceRuntime = ''runtime_definition''"

definition definitionStateSourcePlan :: string where
  "definitionStateSourcePlan = ''scheduled_plan''"

definition runtimeDefinitionSourceKind :: string where
  "runtimeDefinitionSourceKind = ''runtime_host''"

definition newStore :: "Sdk \<Rightarrow> bool \<Rightarrow> bool \<Rightarrow> string \<Rightarrow> string \<Rightarrow> goerr + Store" where
  "newStore S hasDB hasDialect runtime workerName =
     (if \<not> hasDB then Inl (Errorf ''Scheduler database is required'')
      else if \<not> hasDialect then Inl (Errorf ''Scheduler database dialect is required'')
      else let runtime = trimSpace runtime; workerName = trimSpace workerName in
        if runtime = [] \<or> workerName = []
        then Inl (Errorf ''Scheduler runtime and worker identity are required'')
        else Inr \<lparr>runtimeID = runtime, workerID = workerName,
                  maxPendingTriggers = defaultMaxPendingTriggers S\<rparr>)"

definition ConfigureTriggerBacklogLimit :: "Store \<Rightarrow> int \<Rightarrow> goerr + Store" where
  "ConfigureTriggerBacklogLimit s limit =
     (if limit < 1 \<or> limit > 1000000
      then Inl (Errorf ''Scheduler trigger backlog limit must be between 1 and 1000000'')
      else Inr (s\<lparr>maxPendingTriggers := limit\<rparr>))"

section \<open>Predicates and small helpers\<close>

definition definitionIdentity :: "Store \<Rightarrow> string \<Rightarrow> definition_state_row \<Rightarrow> bool" where
  "definitionIdentity s key r \<longleftrightarrow>
     ds_runtime_id r = runtimeID s \<and> ds_definition_key r = trimSpace key"

definition definitionSourceIdentity ::
  "Store \<Rightarrow> string \<Rightarrow> string \<Rightarrow> definition_state_row \<Rightarrow> bool" where
  "definitionSourceIdentity s key sourceKind r \<longleftrightarrow>
     definitionIdentity s key r \<and> ds_source_kind r = sourceKind"

definition liveLease :: "Store \<Rightarrow> Run \<Rightarrow> run_row \<Rightarrow> bool" where
  "liveLease s run r \<longleftrightarrow>
     r_runtime_id r = runtimeID s \<and> r_run_id r = trgRunID (runTrigger run) \<and>
     r_lease_owner r = Some (leaseOwner (runLease run)) \<and>
     r_fencing_token r = leaseToken (runLease run) \<and> r_status r = ''leased''"

definition runIdentity :: "Store \<Rightarrow> string \<Rightarrow> run_row \<Rightarrow> bool" where
  "runIdentity s ident r \<longleftrightarrow> r_runtime_id r = runtimeID s \<and> r_run_id r = ident"

definition runID :: "string \<Rightarrow> string \<Rightarrow> time \<Rightarrow> string" where
  "runID runtime key scheduled =
     ''run_'' @ hexEncode (take 16 (sha256 (runtime @ [CHR 0x00] @ key @ [CHR 0x00] @ formatTime scheduled)))"

definition pendingRun :: "string \<Rightarrow> run_row \<Rightarrow> bool" where
  "pendingRun runtime r \<longleftrightarrow>
     r_runtime_id r = runtime \<and> (r_status r = ''leased'' \<or> r_status r = ''retrying'')"

definition pendingTriggerCount :: "Store \<Rightarrow> int dbop" where
  "pendingTriggerCount s = sqlQuery (\<lambda>d. Inr (matched (pendingRun (runtimeID s)) (runs d)))"

definition TriggerBacklogOf :: "Store \<Rightarrow> TriggerBacklog dbop" where
  "TriggerBacklogOf s = bindE (pendingTriggerCount s) (\<lambda>pending.
     ret \<lparr>backlogPending = pending, backlogLimit = maxPendingTriggers s\<rparr>)"

definition lockTriggerCapacity :: "Store \<Rightarrow> unit dbop" where
  "lockTriggerCapacity s =
     bindE (sqlCall (insert_ignore_capacity_guards \<lparr>cg_runtime_id = runtimeID s, cg_revision = 1\<rparr>)) (\<lambda>_.
     bindE (sqlCall (update_capacity_guards (\<lambda>r. cg_runtime_id r = runtimeID s)
                       (\<lambda>r. r\<lparr>cg_revision := 1\<rparr>))) (\<lambda>_.
     ret ()))"

definition checkTriggerCapacity :: "Store \<Rightarrow> unit dbop" where
  "checkTriggerCapacity s = bindE (pendingTriggerCount s) (\<lambda>pending.
     if pending \<ge> maxPendingTriggers s then fail (Sentinel ErrTriggerBacklogFull) else ret ())"

definition eventWith :: "Sdk \<Rightarrow> Store \<Rightarrow> string \<Rightarrow> string \<Rightarrow> string \<Rightarrow> unit dbop" where
  "eventWith S s run kind message =
     bindE timeNow (\<lambda>t1. bindE timeNow (\<lambda>t2.
     bindE (sqlCall (insert_run_events S
       \<lparr>ev_runtime_id = runtimeID s,
        ev_event_id = run @ '':'' @ kind @ '':'' @ formatInt (unixNano t1),
        ev_run_id = run, ev_event_type = kind, ev_message = nullable message,
        ev_metadata_json = None, ev_created_at = formatTime t2\<rparr>)) (\<lambda>_.
     ret ())))"

section \<open>Cursors\<close>

definition sql_reconcileChanged ::
  "Store \<Rightarrow> Definition \<Rightarrow> string \<Rightarrow> time \<Rightarrow> string \<Rightarrow> bool \<Rightarrow> string \<Rightarrow> int sql" where
  "sql_reconcileChanged s d raw nxt sourceKind enabled now =
     update_definition_states
       (\<lambda>r. definitionSourceIdentity s (defKey d) sourceKind r \<and> ds_revision r \<noteq> defRevision d)
       (\<lambda>r. r\<lparr>ds_revision := defRevision d, ds_enabled := enabled, ds_definition_json := raw,
              ds_next_run_at := formatTime nxt, ds_updated_at := now\<rparr>)"

definition sql_reconcileStable ::
  "Store \<Rightarrow> Definition \<Rightarrow> string \<Rightarrow> string \<Rightarrow> bool \<Rightarrow> string \<Rightarrow> int sql" where
  "sql_reconcileStable s d raw sourceKind enabled now =
     update_definition_states (definitionSourceIdentity s (defKey d) sourceKind)
       (\<lambda>r. let r = r\<lparr>ds_definition_json := raw, ds_updated_at := now\<rparr>
            in if sourceKind \<noteq> definitionStateSourcePlan \<or> \<not> enabled then r\<lparr>ds_enabled := enabled\<rparr>
               else r)"

definition sql_reconcileInsert ::
  "Sdk \<Rightarrow> Store \<Rightarrow> Definition \<Rightarrow> string \<Rightarrow> time \<Rightarrow> string \<Rightarrow> bool \<Rightarrow> string \<Rightarrow> int sql" where
  "sql_reconcileInsert S s d raw nxt sourceKind enabled now =
     insert_definition_states S
       \<lparr>ds_runtime_id = runtimeID s, ds_definition_key = defKey d, ds_revision = defRevision d,
        ds_enabled = enabled, ds_definition_json = raw, ds_next_run_at = formatTime nxt,
        ds_last_run_at = None, ds_last_run_status = None, ds_snapshot_revision = 0,
        ds_updated_at = now, ds_source_kind = sourceKind\<rparr>"

text \<open>The three statements in turn: a changed revision, the same revision, a new row.\<close>

definition reconcileNew ::
  "Sdk \<Rightarrow> Store \<Rightarrow> Definition \<Rightarrow> string \<Rightarrow> time \<Rightarrow> string \<Rightarrow> bool \<Rightarrow> string \<Rightarrow> unit dbop" where
  "reconcileNew S s d raw nxt sourceKind enabled now =
     attempt (sqlCall (sql_reconcileInsert S s d raw nxt sourceKind enabled now)) (\<lambda>r. case r of
       Inr _ \<Rightarrow> ret ()
     | Inl e \<Rightarrow>
         if \<not> isUnique S e then fail e else
         bindE (sqlCall (sql_reconcileStable s d raw sourceKind enabled now)) (\<lambda>affected.
         if affected = 0
         then fail (Errorf (''Scheduler definition key '' @ quoted (defKey d) @
                            '' conflicts with another state source''))
         else ret ()))"

definition reconcileSame ::
  "Sdk \<Rightarrow> Store \<Rightarrow> Definition \<Rightarrow> string \<Rightarrow> time \<Rightarrow> string \<Rightarrow> bool \<Rightarrow> string \<Rightarrow> unit dbop" where
  "reconcileSame S s d raw nxt sourceKind enabled now =
     bindE (sqlCall (sql_reconcileStable s d raw sourceKind enabled now)) (\<lambda>affected.
     if affected > 0 then ret () else reconcileNew S s d raw nxt sourceKind enabled now)"

definition reconcileWith ::
  "Sdk \<Rightarrow> Store \<Rightarrow> Definition \<Rightarrow> time \<Rightarrow> string \<Rightarrow> bool \<Rightarrow> unit dbop" where
  "reconcileWith S s d nxt sourceKind enabled =
     bindE (liftE (marshalDefinition S d)) (\<lambda>raw.
     bindE timeNow (\<lambda>t. let now = formatTime t in
     bindE (sqlCall (sql_reconcileChanged s d raw nxt sourceKind enabled now)) (\<lambda>affected.
     if affected > 0 then ret () else reconcileSame S s d raw nxt sourceKind enabled now)))"

definition Reconcile :: "Sdk \<Rightarrow> Store \<Rightarrow> Definition \<Rightarrow> time \<Rightarrow> unit dbop" where
  "Reconcile S s d nxt = reconcileWith S s d nxt definitionStateSourceRuntime True"

definition ReconcileScheduledPlan :: "Sdk \<Rightarrow> Store \<Rightarrow> Definition \<Rightarrow> time \<Rightarrow> bool \<Rightarrow> unit dbop" where
  "ReconcileScheduledPlan S s d nxt enabled =
     reconcileWith S s d nxt definitionStateSourcePlan enabled"

definition disableMissingWith :: "Store \<Rightarrow> string list \<Rightarrow> int \<Rightarrow> unit dbop" where
  "disableMissingWith s active revision =
     bindE (sqlCall (update_definition_states
       (\<lambda>r. ds_runtime_id r = runtimeID s \<and> ds_source_kind r = definitionStateSourceRuntime)
       (\<lambda>r. r\<lparr>ds_enabled := False, ds_snapshot_revision := revision\<rparr>))) (\<lambda>_.
     if active = [] then ret () else
     bindE (sqlCall (update_definition_states
       (\<lambda>r. ds_runtime_id r = runtimeID s \<and> ds_source_kind r = definitionStateSourceRuntime \<and>
            ds_definition_key r \<in> set active)
       (\<lambda>r. r\<lparr>ds_enabled := True, ds_snapshot_revision := revision\<rparr>))) (\<lambda>_.
     ret ()))"

definition DisableMissing :: "Store \<Rightarrow> string list \<Rightarrow> int \<Rightarrow> unit dbop" where
  "DisableMissing s active revision = disableMissingWith s active revision"

text \<open>
  \<^verbatim>\<open>Scan\<close> into non-nullable Go variables: a \<^verbatim>\<open>NULL\<close> column, or a negative number for the \<^verbatim>\<open>uint64\<close>
  generation, is a conversion error.
\<close>

definition scanCursor :: "publication_row \<Rightarrow> goerr + (int \<times> string \<times> int \<times> string)" where
  "scanCursor r = (case (pb_cursor_generation r, pb_cursor_session_sha256 r,
                         pb_cursor_revision r, pb_cursor_content_sha256 r) of
      (Some g, Some h, Some v, Some c) \<Rightarrow>
        if g < 0 then Inl (DriverError ''sql: Scan error'') else Inr (g, h, v, c)
    | _ \<Rightarrow> Inl (DriverError ''sql: Scan error''))"

definition publicationIdentity :: "string \<Rightarrow> publication_row \<Rightarrow> bool" where
  "publicationIdentity source r \<longleftrightarrow>
     pb_source_kind r = runtimeDefinitionSourceKind \<and> pb_source_id r = source"

definition lockDefinitionSnapshotCursor ::
  "Store \<Rightarrow> DefinitionSnapshot \<Rightarrow> DefinitionPublisherFence \<Rightarrow> bool dbop" where
  "lockDefinitionSnapshotCursor s snapshot fence =
     bindE (sqlCall (update_definition_publications
       (\<lambda>r. publicationIdentity (runtimeID s) r \<and>
            pb_cursor_generation r = Some (fenceGeneration fence) \<and>
            pb_cursor_session_sha256 r = Some (fenceSessionSHA256 fence) \<and>
            pb_cursor_revision r = Some (snapRevision snapshot) \<and>
            pb_cursor_content_sha256 r = Some (snapContentSHA256 snapshot))
       (\<lambda>r. r\<lparr>pb_cursor_revision := Some (snapRevision snapshot)\<rparr>))) (\<lambda>_.
     attempt (sqlQuery (\<lambda>d. case selectRow (publicationIdentity (runtimeID s)) (definition_publications d) of
         Inl e \<Rightarrow> Inl e | Inr r \<Rightarrow> scanCursor r)) (\<lambda>q. case q of
       Inl e \<Rightarrow> if e = Sentinel ErrNoRows then ret False else fail e
     | Inr (g, h, v, c) \<Rightarrow>
         ret (g = fenceGeneration fence \<and> h = fenceSessionSHA256 fence \<and>
              v = snapRevision snapshot \<and> c = snapContentSHA256 snapshot)))"

definition enabledStatus :: "Definition \<Rightarrow> bool" where
  "enabledStatus d \<longleftrightarrow> equalFold (trimSpace (defStatus d)) ''enabled''"

definition initialCursor :: "Sdk \<Rightarrow> Definition \<Rightarrow> time \<Rightarrow> time" where
  "initialCursor S d now =
     (let nxt = nextSchedule S (defSchedule d) now
      in if defInitialNextRunAt d \<noteq> 0 \<and> defInitialNextRunAt d < nxt then defInitialNextRunAt d else nxt)"

text \<open>One round of the loop of \<^verbatim>\<open>ApplyDefinitionSnapshot\<close>; it carries the active keys.\<close>

definition applyDefinition ::
  "Sdk \<Rightarrow> Store \<Rightarrow> time \<Rightarrow> Definition \<Rightarrow> string list \<Rightarrow> string list dbop" where
  "applyDefinition S s now definition0 active =
     (let d = normalizeDefinition S definition0 in
      case validateDefinition S d of Some e \<Rightarrow> fail e | None \<Rightarrow>
      case validateSchedule S (defSchedule d) of
        Some e \<Rightarrow> fail (Wrapf (''scheduler definition '' @ defKey d @ '': '') e)
      | None \<Rightarrow>
          if \<not> enabledStatus d then ret active else
          bindE (reconcileWith S s d (initialCursor S d now) definitionStateSourceRuntime True) (\<lambda>_.
          ret (active @ [defKey d])))"

definition applySnapshot_tx ::
  "Sdk \<Rightarrow> Store \<Rightarrow> DefinitionSnapshot \<Rightarrow> DefinitionPublisherFence \<Rightarrow> time \<Rightarrow> bool txout dbop" where
  "applySnapshot_tx S s snapshot fence now =
     bindE (lockDefinitionSnapshotCursor s snapshot fence) (\<lambda>current.
     if \<not> current then ret (Rollback False) else
     bindE (foldE (applyDefinition S s now) (snapDefinitions snapshot) []) (\<lambda>active.
     bindE (disableMissingWith s active (snapRevision snapshot)) (\<lambda>_.
     ret (Commit True))))"

definition ApplyDefinitionSnapshot ::
  "Sdk \<Rightarrow> Store \<Rightarrow> DefinitionSnapshot \<Rightarrow> time \<Rightarrow> bool dbop" where
  "ApplyDefinitionSnapshot S s snapshot now =
     (case snapFence snapshot of
        None \<Rightarrow> fail (Errorf ''Scheduler fenced definition projection identity is required'')
      | Some fence \<Rightarrow>
          if snapRevision snapshot \<le> 0 \<or> isBlank (snapContentSHA256 snapshot)
          then fail (Errorf ''Scheduler fenced definition projection identity is required'') else
          case validateFence S fence of Some e \<Rightarrow> fail e | None \<Rightarrow>
          if trimSpace (snapSourceKind snapshot) \<noteq> runtimeDefinitionSourceKind \<or>
             trimSpace (snapSourceID snapshot) \<noteq> runtimeID s
          then fail (Errorf ''Scheduler fenced definition projection does not match the bound Runtime application'') else
          bindE (liftE (contentSHA256 S (snapDefinitions snapshot))) (\<lambda>contentHash.
          if contentHash \<noteq> snapContentSHA256 snapshot
          then fail (Errorf ''Scheduler fenced definition projection content hash is inconsistent'')
          else transaction (applySnapshot_tx S s snapshot fence now)))"

definition Reschedule :: "Store \<Rightarrow> string \<Rightarrow> time \<Rightarrow> unit dbop" where
  "Reschedule s key0 nxt =
     (let key = trimSpace key0 in
      if key = [] \<or> nxt = 0
      then fail (Errorf ''Scheduler definition key and next run time are required'') else
      bindE timeNow (\<lambda>t.
      bindE (sqlCall (update_definition_states
        (\<lambda>r. ds_runtime_id r = runtimeID s \<and> ds_definition_key r = key)
        (\<lambda>r. r\<lparr>ds_next_run_at := formatTime nxt, ds_updated_at := formatTime t\<rparr>))) (\<lambda>affected.
      if affected \<noteq> 1
      then fail (Errorf (''Scheduler definition '' @ quoted key @ '' is not reconciled''))
      else ret ())))"

definition fastForwardMisfire ::
  "Store \<Rightarrow> Definition \<Rightarrow> time \<Rightarrow> time \<Rightarrow> bool \<Rightarrow> time \<Rightarrow> bool dbop" where
  "fastForwardMisfire s d expected nxt0 disable now =
     (let nxt = (if nxt0 = 0 then expected else nxt0) in
      bindE (sqlCall (update_definition_states
        (\<lambda>r. definitionIdentity s (defKey d) r \<and> ds_enabled r \<and> ds_next_run_at r = formatTime expected)
        (\<lambda>r. let r = r\<lparr>ds_next_run_at := formatTime nxt, ds_last_run_at := Some (formatTime expected),
                       ds_last_run_status := Some ''misfire_skipped'', ds_updated_at := formatTime now\<rparr>
             in if disable then r\<lparr>ds_enabled := False\<rparr> else r))) (\<lambda>affected.
      ret (affected = 1)))"

definition advanceCursorWith ::
  "Sdk \<Rightarrow> Store \<Rightarrow> Definition \<Rightarrow> time \<Rightarrow> time \<Rightarrow> time \<Rightarrow> string \<Rightarrow> bool dbop" where
  "advanceCursorWith S s d scheduled nxt0 now status =
     (let disable = (scheduleKind S (defSchedule d) = ''once'');
          nxt1 = (if nxt0 = 0 \<and> \<not> disable then nextSchedule S (defSchedule d) scheduled else nxt0);
          nxt = (if nxt1 = 0 then scheduled else nxt1) in
      bindE (sqlCall (update_definition_states
        (\<lambda>r. definitionIdentity s (defKey d) r \<and> ds_enabled r \<and> ds_next_run_at r = formatTime scheduled)
        (\<lambda>r. let r = r\<lparr>ds_next_run_at := formatTime nxt, ds_last_run_at := Some (formatTime scheduled),
                       ds_last_run_status := Some status, ds_updated_at := formatTime now\<rparr>
             in if disable then r\<lparr>ds_enabled := False\<rparr> else r))) (\<lambda>affected.
      ret (affected = 1)))"

section \<open>Reading runs\<close>

definition definitionByKey :: "Sdk \<Rightarrow> Store \<Rightarrow> string \<Rightarrow> Definition option dbop" where
  "definitionByKey S s key =
     attempt (sqlQuery (\<lambda>d. selectRow (definitionIdentity s key) (definition_states d))) (\<lambda>q. case q of
       Inl e \<Rightarrow> if e = Sentinel ErrNoRows then ret None else fail e
     | Inr r \<Rightarrow> bindE (liftE (unmarshalDefinition S (ds_definition_json r))) (\<lambda>v. ret (Some v)))"

definition runOfRow :: "Sdk \<Rightarrow> string \<Rightarrow> run_row \<Rightarrow> Run" where
  "runOfRow S ident r =
     \<lparr>runTrigger = \<lparr>trgRunID = ident, trgDefinitionKey = r_definition_key r,
        trgDefinitionRev = r_definition_revision r, trgScheduledFor = parseTime (r_scheduled_for r),
        trgWindowKey = r_window_key r, trgTarget = targetAfterUnmarshal S (r_target_json r),
        trgIdempotencyKey = ident, trgAttempt = r_attempt r,
        trgMetadata = nullString (r_metadata_json r)\<rparr>,
      runLease = \<lparr>leaseOwner = nullString (r_lease_owner r), leaseToken = r_fencing_token r,
        leaseExpiresAt = parseTime (nullString (r_lease_expires_at r))\<rparr>,
      runStatus = r_status r, runReceipt = receiptAfterUnmarshal S (nullString (r_receipt_json r)),
      runLastError = nullString (r_last_error r), runCreatedAt = parseTime (r_created_at r),
      runUpdatedAt = parseTime (r_updated_at r)\<rparr>"

definition getRun :: "Sdk \<Rightarrow> Store \<Rightarrow> string \<Rightarrow> Run dbop" where
  "getRun S s ident =
     bindE (sqlQuery (\<lambda>d. selectRow (runIdentity s ident) (runs d))) (\<lambda>r. ret (runOfRow S ident r))"

definition GetRun :: "Sdk \<Rightarrow> Store \<Rightarrow> string \<Rightarrow> Run dbop" where
  "GetRun S s ident = getRun S s (trimSpace ident)"

definition ListRuns :: "Sdk \<Rightarrow> Store \<Rightarrow> int \<Rightarrow> Run list dbop" where
  "ListRuns S s limit0 =
     (let limit = (if limit0 \<le> 0 then 50 else limit0) in
      bindE (sqlQuery (\<lambda>d. Inr (map r_run_id (limitRows limit (descending r_created_at
        (filter (\<lambda>r. r_runtime_id r = runtimeID s) (runs d))))))) (\<lambda>ids.
      bindE envCall (\<lambda>_. mapE (getRun S s) ids)))"

section \<open>Due work\<close>

definition scanDueRow :: "Sdk \<Rightarrow> definition_state_row \<Rightarrow> (Definition \<times> time) dbop" where
  "scanDueRow S r = bindE (liftE (unmarshalDefinition S (ds_definition_json r))) (\<lambda>d.
     ret (d, parseTime (ds_next_run_at r)))"

definition dueStates :: "Sdk \<Rightarrow> Store \<Rightarrow> string \<Rightarrow> int \<Rightarrow> (Definition \<times> time) list dbop" where
  "dueStates S s at limit =
     bindE (sqlQuery (\<lambda>d. Inr (limitRows limit (ascending ds_next_run_at
       (filter (\<lambda>r. ds_runtime_id r = runtimeID s \<and> ds_enabled r \<and> ds_next_run_at r \<le> at)
         (definition_states d)))))) (\<lambda>rows.
     bindE (mapE (scanDueRow S) rows) (\<lambda>states.
     bindE envCall (\<lambda>_. ret states)))"

text \<open>The triggers of the windows of one definition; the last one carries the cursor to move to.\<close>

fun windowTriggers :: "Definition \<Rightarrow> time \<Rightarrow> time list \<Rightarrow> DueTrigger list" where
  "windowTriggers d cursorAfter [] = []"
| "windowTriggers d cursorAfter [w] =
     [\<lparr>dueDefinition = d, dueScheduledFor = w, dueExpectedCursor = w, dueNextRunAt = cursorAfter,
       dueMetadata = []\<rparr>]"
| "windowTriggers d cursorAfter (w # v # ws) =
     \<lparr>dueDefinition = d, dueScheduledFor = w, dueExpectedCursor = w, dueNextRunAt = 0,
      dueMetadata = []\<rparr> # windowTriggers d cursorAfter (v # ws)"

definition dueState ::
  "Sdk \<Rightarrow> Store \<Rightarrow> time \<Rightarrow> int \<Rightarrow> Definition \<times> time \<Rightarrow> DueTrigger list \<Rightarrow> DueTrigger list dbop" where
  "dueState S s now limit state result = (case state of (d, cursor) \<Rightarrow>
     let remaining = limit - int (length result) in
     if remaining \<le> 0 then ret result else
     let res = resolveMisfire S (defSchedule d) (defPolicy d) cursor now remaining in
     if misfireWindows res = [] then
       (if misfireCursorAfter res \<noteq> 0 \<or> misfireDisable res
        then bindE (fastForwardMisfire s d cursor (misfireCursorAfter res) (misfireDisable res) now)
               (\<lambda>_. ret result)
        else ret result)
     else ret (result @ windowTriggers d (misfireCursorAfter res) (misfireWindows res)))"

definition dueRetry :: "string \<Rightarrow> string \<Rightarrow> run_row \<Rightarrow> bool" where
  "dueRetry runtime at r \<longleftrightarrow> r_runtime_id r = runtime \<and>
     (r_status r = ''retrying'' \<and> nullLE (r_next_retry_at r) at \<or>
      r_status r = ''leased'' \<and> nullLE (r_lease_expires_at r) at)"

definition retryTrigger :: "Sdk \<Rightarrow> Store \<Rightarrow> string \<times> string \<Rightarrow> DueTrigger list \<Rightarrow> DueTrigger list dbop" where
  "retryTrigger S s row result = (case row of (key, scheduled) \<Rightarrow>
     bindE (definitionByKey S s key) (\<lambda>found. case found of
       None \<Rightarrow> ret result
     | Some d \<Rightarrow> ret (result @ [\<lparr>dueDefinition = d, dueScheduledFor = parseTime scheduled,
                                  dueExpectedCursor = 0, dueNextRunAt = 0, dueMetadata = []\<rparr>])))"

definition Due :: "Sdk \<Rightarrow> Store \<Rightarrow> time \<Rightarrow> int \<Rightarrow> DueTrigger list dbop" where
  "Due S s now limit0 =
     (let limit = (if limit0 \<le> 0 then 25 else limit0); at = formatTime now in
      bindE (dueStates S s at limit) (\<lambda>states.
      bindE (foldE (dueState S s now limit) states []) (\<lambda>result.
      let remaining = limit - int (length result) in
      if remaining \<le> 0 then ret result else
      bindE (sqlQuery (\<lambda>d. Inr (map (\<lambda>r. (r_definition_key r, r_scheduled_for r))
        (limitRows remaining (ascending r_scheduled_for
          (filter (dueRetry (runtimeID s) at) (runs d))))))) (\<lambda>rows.
      bindE (foldE (retryTrigger S s) rows result) (\<lambda>result.
      bindE envCall (\<lambda>_. ret result))))))"

section \<open>Claiming a run\<close>

definition runRow :: "Sdk \<Rightarrow> Store \<Rightarrow> DueTrigger \<Rightarrow> duration \<Rightarrow> time \<Rightarrow> run_row" where
  "runRow S s due ttl now =
     \<lparr>r_runtime_id = runtimeID s,
      r_run_id = runID (runtimeID s) (defKey (dueDefinition due)) (dueScheduledFor due),
      r_definition_key = defKey (dueDefinition due),
      r_definition_revision = defRevision (dueDefinition due),
      r_scheduled_for = formatTime (dueScheduledFor due),
      r_window_key = formatRFC3339 (dueScheduledFor due),
      r_target_json = bytesOf (marshalTarget S (defTarget (dueDefinition due))),
      r_metadata_json = nullable (dueMetadata due), r_status = ''leased'', r_attempt = 1,
      r_lease_owner = Some (workerID s), r_lease_expires_at = Some (formatTime (now + ttl)),
      r_fencing_token = 1, r_next_retry_at = None, r_receipt_json = None, r_last_error = None,
      r_created_at = formatTime now, r_updated_at = formatTime now\<rparr>"

definition expiredLease :: "Store \<Rightarrow> string \<Rightarrow> time \<Rightarrow> run_row \<Rightarrow> bool" where
  "expiredLease s ident now r \<longleftrightarrow> runIdentity s ident r \<and>
     (r_status r = ''leased'' \<and> nullLE (r_lease_expires_at r) (formatTime now) \<or>
      r_status r = ''retrying'' \<and> nullLE (r_next_retry_at r) (formatTime now))"

definition sql_takeExpired :: "Store \<Rightarrow> string \<Rightarrow> duration \<Rightarrow> time \<Rightarrow> int sql" where
  "sql_takeExpired s ident ttl now =
     update_runs (expiredLease s ident now)
       (\<lambda>r. r\<lparr>r_status := ''leased'', r_lease_owner := Some (workerID s),
              r_lease_expires_at := Some (formatTime (now + ttl)),
              r_fencing_token := r_fencing_token r + 1, r_attempt := r_attempt r + 1,
              r_updated_at := formatTime now\<rparr>)"

definition takeExpired :: "Sdk \<Rightarrow> Store \<Rightarrow> string \<Rightarrow> duration \<Rightarrow> time \<Rightarrow> Run option dbop" where
  "takeExpired S s ident ttl now =
     bindE (sqlCall (sql_takeExpired s ident ttl now)) (\<lambda>affected.
     if affected = 0 then ret None else
     bindE (getRun S s ident) (\<lambda>run. ret (Some run)))"

text \<open>How the transaction of \<^verbatim>\<open>Claim\<close> ends when it reports no error.\<close>

datatype claimEnd = LeaseAcquired | RunExists | CursorMoved

definition claimCursor :: "Sdk \<Rightarrow> Store \<Rightarrow> DueTrigger \<Rightarrow> time \<Rightarrow> bool dbop" where
  "claimCursor S s due now =
     (if dueExpectedCursor due \<noteq> 0
      then advanceCursorWith S s (dueDefinition due) (dueExpectedCursor due) (dueNextRunAt due) now
             ''leased''
      else ret True)"

definition claimInsert_tx :: "Sdk \<Rightarrow> Store \<Rightarrow> DueTrigger \<Rightarrow> duration \<Rightarrow> time \<Rightarrow> claimEnd txout dbop" where
  "claimInsert_tx S s due ttl now =
     attempt (sqlCall (insert_runs S (runRow S s due ttl now))) (\<lambda>q. case q of
       Inl e \<Rightarrow> if \<not> isUnique S e then fail e else ret (Rollback RunExists)
     | Inr _ \<Rightarrow>
         bindE (claimCursor S s due now) (\<lambda>advanced.
         if \<not> advanced then ret (Rollback CursorMoved) else
         bindE (eventWith S s (r_run_id (runRow S s due ttl now)) ''lease_acquired'' []) (\<lambda>_.
         ret (Commit LeaseAcquired))))"

definition claim_tx :: "Sdk \<Rightarrow> Store \<Rightarrow> DueTrigger \<Rightarrow> duration \<Rightarrow> time \<Rightarrow> claimEnd txout dbop" where
  "claim_tx S s due ttl now =
     bindE (lockTriggerCapacity s) (\<lambda>_.
     attempt (sqlQuery (\<lambda>d. selectRow (runIdentity s (r_run_id (runRow S s due ttl now))) (runs d))) (\<lambda>q.
     case q of
       Inr _ \<Rightarrow> ret (Rollback RunExists)
     | Inl e \<Rightarrow>
         if e \<noteq> Sentinel ErrNoRows then fail e else
         bindE (checkTriggerCapacity s) (\<lambda>_. claimInsert_tx S s due ttl now)))"

definition claimedRun :: "Store \<Rightarrow> DueTrigger \<Rightarrow> duration \<Rightarrow> time \<Rightarrow> Run" where
  "claimedRun s due ttl now =
     (let ident = runID (runtimeID s) (defKey (dueDefinition due)) (dueScheduledFor due) in
      \<lparr>runTrigger = \<lparr>trgRunID = ident, trgDefinitionKey = defKey (dueDefinition due),
         trgDefinitionRev = defRevision (dueDefinition due), trgScheduledFor = dueScheduledFor due,
         trgWindowKey = formatRFC3339 (dueScheduledFor due), trgTarget = defTarget (dueDefinition due),
         trgIdempotencyKey = ident, trgAttempt = 1, trgMetadata = dueMetadata due\<rparr>,
       runLease = \<lparr>leaseOwner = workerID s, leaseToken = 1, leaseExpiresAt = now + ttl\<rparr>,
       runStatus = ''leased'',
       runReceipt = \<lparr>receiptID = [], receiptOwner = [], receiptStatus = [], receiptReplay = False, receiptRest = []\<rparr>, runLastError = [],
       runCreatedAt = now, runUpdatedAt = now\<rparr>)"

text \<open>
  The result of \<^verbatim>\<open>Claim\<close>: a run with the flag \<^verbatim>\<open>claimed\<close>, or \<open>None\<close> for the zero \<^verbatim>\<open>Run\<close> with
  \<^verbatim>\<open>false\<close>, which it returns when the cursor has moved.
\<close>

definition Claim :: "Sdk \<Rightarrow> Store \<Rightarrow> DueTrigger \<Rightarrow> duration \<Rightarrow> (Run \<times> bool) option dbop" where
  "Claim S s due ttl0 =
     (let ttl = (if ttl0 \<le> 0 then 5 * minute else ttl0) in
      bindE timeNow (\<lambda>now.
      bindE (transaction (claim_tx S s due ttl now)) (\<lambda>end. case end of
        LeaseAcquired \<Rightarrow> ret (Some (claimedRun s due ttl now, True))
      | CursorMoved \<Rightarrow> ret None
      | RunExists \<Rightarrow>
          (let ident = runID (runtimeID s) (defKey (dueDefinition due)) (dueScheduledFor due) in
           bindE (takeExpired S s ident ttl now) (\<lambda>taken. case taken of
             Some run \<Rightarrow> ret (Some (run, True))
           | None \<Rightarrow> bindE (getRun S s ident) (\<lambda>run. ret (Some (run, False))))))))"

section \<open>The lease holder's operations\<close>

definition sql_renew :: "Store \<Rightarrow> Run \<Rightarrow> duration \<Rightarrow> time \<Rightarrow> int sql" where
  "sql_renew s run ttl now =
     update_runs (liveLease s run)
       (\<lambda>r. r\<lparr>r_lease_expires_at := Some (formatTime (now + ttl)), r_updated_at := formatTime now\<rparr>)"

definition Renew :: "Store \<Rightarrow> Run \<Rightarrow> duration \<Rightarrow> (Run \<times> bool) dbop" where
  "Renew s run ttl =
     bindE timeNow (\<lambda>now.
     bindE (sqlCall (sql_renew s run ttl now)) (\<lambda>n.
     if n = 0 then ret (run, False)
     else ret (run\<lparr>runLease := (runLease run)\<lparr>leaseExpiresAt := now + ttl\<rparr>, runUpdatedAt := now\<rparr>, True)))"

definition leaseLost :: "Run \<Rightarrow> goerr" where
  "leaseLost run = Errorf (''Scheduler lease lost for run '' @ trgRunID (runTrigger run))"

definition sql_finish :: "Store \<Rightarrow> Run \<Rightarrow> string \<Rightarrow> string \<Rightarrow> string \<Rightarrow> time \<Rightarrow> int sql" where
  "sql_finish s run status receipt lastError now =
     update_runs (liveLease s run)
       (\<lambda>r. r\<lparr>r_status := status, r_receipt_json := nullable receipt,
              r_last_error := nullable lastError, r_lease_owner := None, r_lease_expires_at := None,
              r_updated_at := formatTime now\<rparr>)"

definition finish_tx ::
  "Sdk \<Rightarrow> Store \<Rightarrow> Run \<Rightarrow> string \<Rightarrow> string \<Rightarrow> string \<Rightarrow> time \<Rightarrow> unit txout dbop" where
  "finish_tx S s run status receipt lastError now =
     bindE (sqlCall (sql_finish s run status receipt lastError now)) (\<lambda>n.
     if n \<noteq> 1 then fail (leaseLost run) else
     bindE (eventWith S s (trgRunID (runTrigger run)) ''state_changed'' status) (\<lambda>_.
     ret (Commit ())))"

definition finish :: "Sdk \<Rightarrow> Store \<Rightarrow> Run \<Rightarrow> string \<Rightarrow> string \<Rightarrow> string \<Rightarrow> unit dbop" where
  "finish S s run status receipt lastError =
     bindE timeNow (\<lambda>now. transaction (finish_tx S s run status receipt lastError now))"

definition Accept :: "Sdk \<Rightarrow> Store \<Rightarrow> Run \<Rightarrow> DownstreamReceipt \<Rightarrow> unit dbop" where
  "Accept S s run receipt =
     finish S s run ''succeeded'' (bytesOf (marshalReceipt S receipt)) []"

definition sql_fail :: "Store \<Rightarrow> Run \<Rightarrow> bool \<Rightarrow> string \<Rightarrow> time \<Rightarrow> time \<Rightarrow> int sql" where
  "sql_fail s run terminal failure retryAt now =
     update_runs (liveLease s run)
       (\<lambda>r. r\<lparr>r_status := (if terminal then ''dead_letter'' else ''retrying''),
              r_last_error := Some failure, r_lease_owner := None, r_lease_expires_at := None,
              r_updated_at := formatTime now,
              r_next_retry_at := (if terminal then None else Some (formatTime retryAt))\<rparr>)"

definition insertDeadLetter :: "Sdk \<Rightarrow> Store \<Rightarrow> Run \<Rightarrow> string \<Rightarrow> unit dbop" where
  "insertDeadLetter S s run failure =
     bindE timeNow (\<lambda>t.
     bindE (sqlCall (insert_dead_letters S
       \<lparr>dl_runtime_id = runtimeID s, dl_run_id = trgRunID (runTrigger run),
        dl_definition_key = trgDefinitionKey (runTrigger run), dl_reason = failure,
        dl_failed_at = formatTime t, dl_resolved_at = None\<rparr>)) (\<lambda>_.
     ret ()))"

definition fail_tx ::
  "Sdk \<Rightarrow> Store \<Rightarrow> Run \<Rightarrow> bool \<Rightarrow> string \<Rightarrow> time \<Rightarrow> time \<Rightarrow> unit txout dbop" where
  "fail_tx S s run terminal failure retryAt now =
     bindE (sqlCall (sql_fail s run terminal failure retryAt now)) (\<lambda>n.
     if n \<noteq> 1 then fail (leaseLost run) else
     bindE (if terminal then insertDeadLetter S s run failure else ret ()) (\<lambda>_.
     bindE (eventWith S s (trgRunID (runTrigger run))
              (if terminal then ''dead_lettered'' else ''retry_scheduled'') failure) (\<lambda>_.
     ret (Commit ()))))"

definition maxAttemptsOf :: "Definition option \<Rightarrow> int" where
  "maxAttemptsOf found = (case found of
      Some d \<Rightarrow> if policyMaxAttempts (defPolicy d) > 0 then policyMaxAttempts (defPolicy d) else 3
    | None \<Rightarrow> 3)"

definition Fail :: "Sdk \<Rightarrow> Store \<Rightarrow> Run \<Rightarrow> goerr \<Rightarrow> time \<Rightarrow> unit dbop" where
  "Fail S s run failure retryAt =
     bindE (definitionByKey S s (trgDefinitionKey (runTrigger run))) (\<lambda>found.
     bindE timeNow (\<lambda>now.
     transaction (fail_tx S s run (trgAttempt (runTrigger run) \<ge> maxAttemptsOf found)
       (errorText S failure) retryAt now)))"

section \<open>Operator commands\<close>

definition notRetryable :: "string \<Rightarrow> goerr" where
  "notRetryable ident = Errorf (''Scheduler run '' @ quoted ident @ '' is not retryable'')"

definition sql_retry :: "Store \<Rightarrow> string \<Rightarrow> time \<Rightarrow> int sql" where
  "sql_retry s ident now =
     update_runs (\<lambda>r. runIdentity s (trimSpace ident) r \<and>
                      (r_status r = ''failed'' \<or> r_status r = ''dead_letter''))
       (\<lambda>r. r\<lparr>r_status := ''retrying'', r_next_retry_at := Some (formatTime now),
              r_lease_owner := None, r_lease_expires_at := None, r_updated_at := formatTime now\<rparr>)"

definition sql_resolve :: "Store \<Rightarrow> string \<Rightarrow> time \<Rightarrow> int sql" where
  "sql_resolve s ident now =
     update_dead_letters
       (\<lambda>r. dl_runtime_id r = runtimeID s \<and> dl_run_id r = trimSpace ident \<and> dl_resolved_at r = None)
       (\<lambda>r. r\<lparr>dl_resolved_at := Some (formatTime now)\<rparr>)"

definition retry_tx :: "Sdk \<Rightarrow> Store \<Rightarrow> string \<Rightarrow> string \<Rightarrow> time \<Rightarrow> unit txout dbop" where
  "retry_tx S s ident reason now =
     bindE (lockTriggerCapacity s) (\<lambda>_.
     attempt (sqlQuery (\<lambda>d. selectRow (runIdentity s (trimSpace ident)) (runs d))) (\<lambda>q. case q of
       Inl _ \<Rightarrow> fail (notRetryable ident)
     | Inr row \<Rightarrow>
         if r_status row \<noteq> ''failed'' \<and> r_status row \<noteq> ''dead_letter''
         then fail (notRetryable ident) else
         bindE (checkTriggerCapacity s) (\<lambda>_.
         bindE (sqlCall (sql_retry s ident now)) (\<lambda>affected.
         if affected \<noteq> 1 then fail (notRetryable ident) else
         bindE (sqlCall (sql_resolve s ident now)) (\<lambda>_.
         bindE (eventWith S s ident ''retry_scheduled'' (trimSpace reason)) (\<lambda>_.
         ret (Commit ())))))))"

definition Retry :: "Sdk \<Rightarrow> Store \<Rightarrow> string \<Rightarrow> string \<Rightarrow> Run dbop" where
  "Retry S s ident reason =
     bindE timeNow (\<lambda>now.
     bindE (transaction (retry_tx S s ident reason now)) (\<lambda>_.
     getRun S s ident))"

definition sql_cancel :: "Store \<Rightarrow> string \<Rightarrow> time \<Rightarrow> int sql" where
  "sql_cancel s ident now =
     update_runs (\<lambda>r. runIdentity s (trimSpace ident) r \<and>
                      (r_status r = ''leased'' \<or> r_status r = ''retrying''))
       (\<lambda>r. r\<lparr>r_status := ''cancelled'', r_next_retry_at := None, r_lease_owner := None,
              r_lease_expires_at := None, r_fencing_token := r_fencing_token r + 1,
              r_updated_at := formatTime now\<rparr>)"

definition cancel_tx :: "Sdk \<Rightarrow> Store \<Rightarrow> string \<Rightarrow> string \<Rightarrow> time \<Rightarrow> unit txout dbop" where
  "cancel_tx S s ident reason now =
     bindE (sqlCall (sql_cancel s ident now)) (\<lambda>affected.
     if affected \<noteq> 1
     then fail (Errorf (''Scheduler run '' @ quoted ident @ '' is not cancellable'')) else
     bindE (eventWith S s ident ''cancelled'' (trimSpace reason)) (\<lambda>_.
     ret (Commit ())))"

definition Cancel :: "Sdk \<Rightarrow> Store \<Rightarrow> string \<Rightarrow> string \<Rightarrow> Run dbop" where
  "Cancel S s ident reason =
     bindE timeNow (\<lambda>now.
     bindE (transaction (cancel_tx S s ident reason now)) (\<lambda>_.
     getRun S s ident))"

definition deadLetterOfRow :: "string \<Rightarrow> dead_letter_row \<Rightarrow> DeadLetter" where
  "deadLetterOfRow run r =
     \<lparr>dlRunID = run, dlDefinitionKey = dl_definition_key r,
      dlStatus = (case dl_resolved_at r of None \<Rightarrow> ''open''
                  | Some v \<Rightarrow> if isBlank v then ''open'' else ''resolved''),
      dlReason = dl_reason r, dlFailedAt = parseTime (dl_failed_at r),
      dlResolvedAt = parseTime (nullString (dl_resolved_at r))\<rparr>"

definition getDeadLetter :: "Store \<Rightarrow> string \<Rightarrow> DeadLetter dbop" where
  "getDeadLetter s run =
     bindE (sqlQuery (\<lambda>d. selectRow
       (\<lambda>r. dl_runtime_id r = runtimeID s \<and> dl_run_id r = trimSpace run) (dead_letters d))) (\<lambda>r.
     ret (deadLetterOfRow (trimSpace run) r))"

definition DeadLetters :: "Store \<Rightarrow> int \<Rightarrow> DeadLetter list dbop" where
  "DeadLetters s limit0 =
     (let limit = (if limit0 \<le> 0 then 50 else limit0) in
      bindE (sqlQuery (\<lambda>d. Inr (map (\<lambda>r. deadLetterOfRow (dl_run_id r) r)
        (limitRows limit (descending dl_failed_at
          (filter (\<lambda>r. dl_runtime_id r = runtimeID s) (dead_letters d))))))) (\<lambda>items.
      bindE envCall (\<lambda>_. ret items)))"

definition resolve_tx :: "Sdk \<Rightarrow> Store \<Rightarrow> string \<Rightarrow> string \<Rightarrow> time \<Rightarrow> unit txout dbop" where
  "resolve_tx S s run reason now =
     bindE (sqlCall (sql_resolve s run now)) (\<lambda>affected.
     if affected \<noteq> 1
     then fail (Errorf (''Scheduler dead letter '' @ quoted run @ '' is not open'')) else
     bindE (eventWith S s run ''dead_letter_resolved'' (trimSpace reason)) (\<lambda>_.
     ret (Commit ())))"

definition ResolveDeadLetter :: "Sdk \<Rightarrow> Store \<Rightarrow> string \<Rightarrow> string \<Rightarrow> DeadLetter dbop" where
  "ResolveDeadLetter S s run reason =
     bindE timeNow (\<lambda>now.
     bindE (transaction (resolve_tx S s run reason now)) (\<lambda>_.
     getDeadLetter s run))"

definition RequeueDeadLetter :: "Sdk \<Rightarrow> Store \<Rightarrow> string \<Rightarrow> string \<Rightarrow> Run dbop" where
  "RequeueDeadLetter S s run reason =
     bindE (getDeadLetter s run) (\<lambda>_. Retry S s run reason)"

end
