(* ===== verification/Run_Steps.thy ===== *)
theory Run_Steps
  imports Run_Store
begin

text \<open>
  How the operations of the execution store change the table of runs.

  The statements that touch the table are few: the insert of a claim, and the updates of
  \<^verbatim>\<open>takeExpired\<close>, \<^verbatim>\<open>Renew\<close>, \<^verbatim>\<open>finish\<close>, \<^verbatim>\<open>Fail\<close>, \<^verbatim>\<open>Retry\<close> and \<^verbatim>\<open>Cancel\<close>. The locale \<open>run_order\<close> is the
  contract between these statements and an order on databases; under it every operation, whichever
  of its calls fail, moves the database along the order, and so does every interleaving of atomic
  blocks of any number of workers (\<open>store_step\<close>). Its interpretations follow in the theory of the
  run lifecycle.
\<close>

section \<open>What leaves the runs alone\<close>

definition keepsRuns :: "'a sql \<Rightarrow> bool" where
  "keepsRuns f \<longleftrightarrow> (\<forall>d. runs (snd (f d)) = runs d)"

lemma keepsRuns_statements:
  "keepsRuns (update_definition_states p f)" "keepsRuns (update_dead_letters q g)"
  "keepsRuns (update_capacity_guards pg h)" "keepsRuns (insert_definition_states S r)"
  "keepsRuns (insert_run_events S ev)" "keepsRuns (insert_dead_letters S dl)"
  "keepsRuns (insert_ignore_capacity_guards cg)" "keepsRuns (update_definition_publications pp fp)"
  by (simp_all add: keepsRuns_def sql_unfold)

lemma keepsRuns_named:
  "keepsRuns (sql_reconcileChanged s d raw nxt k en now)"
  "keepsRuns (sql_reconcileStable s d raw k en now)"
  "keepsRuns (sql_reconcileInsert S s d raw nxt k en now)"
  "keepsRuns (sql_resolve s ident at)"
  unfolding sql_reconcileChanged_def sql_reconcileStable_def sql_reconcileInsert_def sql_resolve_def
  by (rule keepsRuns_statements)+

lemma sqlCall_keepsRuns:
  fixes f :: "'a sql"
  assumes "keepsRuns f" "sqlCall f w = (q, w')"
  shows "runs (db w') = runs (db w)"
  using assms
  by (auto simp: keepsRuns_def sqlCall_def bindE_def envCall_def split: option.splits prod.splits)
    (metis snd_conv)

lemma eventWith_runs: "eventWith S s run kind message w = (q, w') \<Longrightarrow> runs (db w') = runs (db w)"
  by (auto simp: eventWith_def bindE_def timeNow_def ret_def split: prod.splits sum.splits
      dest!: sqlCall_keepsRuns [OF keepsRuns_statements(5)])

lemma claimCursor_runs: "claimCursor S s due now w = (q, w') \<Longrightarrow> runs (db w') = runs (db w)"
  by (auto simp: claimCursor_def advanceCursorWith_def Let_def bindE_def ret_def
      split: prod.splits sum.splits if_splits dest!: sqlCall_keepsRuns [OF keepsRuns_statements(1)])

lemma lockTriggerCapacity_runs: "lockTriggerCapacity s w = (q, w') \<Longrightarrow> runs (db w') = runs (db w)"
  by (auto simp: lockTriggerCapacity_def bindE_def ret_def split: prod.splits sum.splits
      dest!: sqlCall_keepsRuns [OF keepsRuns_statements(3)] sqlCall_keepsRuns [OF keepsRuns_statements(7)])

section \<open>Reads\<close>

lemma readonly_reads [readonly_intros]:
  "readonly (pendingTriggerCount s)" "readonly (checkTriggerCapacity s)"
  "readonly (definitionByKey S s key)" "readonly (getRun S s ident)" "readonly (getDeadLetter s ident)"
  "readonly (TriggerBacklogOf s)" "readonly (ListRuns S s n)" "readonly (DeadLetters s n)"
  "readonly (GetRun S s ident)"
  unfolding pendingTriggerCount_def checkTriggerCapacity_def definitionByKey_def getRun_def
    getDeadLetter_def TriggerBacklogOf_def ListRuns_def DeadLetters_def Let_def GetRun_def
  by (intro readonly_intros)+

lemma sqlQuery_ErrNoRows:
  assumes "sqlQuery (\<lambda>d. selectRow p (t d)) w = (Inl (Sentinel ErrNoRows), w')"
  shows "\<forall>r \<in> set (t (db w)). \<not> p r"
  using sqlQuery_missed [OF assms] by (simp add: selectRow_Inl)

lemma checkTriggerCapacity_Inr:
  assumes "checkTriggerCapacity s w = (Inr u, w')"
  shows "matched (pendingRun (runtimeID s)) (runs (db w)) < maxPendingTriggers s"
  using assms unfolding checkTriggerCapacity_def pendingTriggerCount_def
  by (auto elim!: bindE_InrE sqlQuery_InrE simp: fail_def split: if_splits)

section \<open>The contract of an order with the statements on runs\<close>

definition freshRun :: "Store \<Rightarrow> string \<Rightarrow> database \<Rightarrow> bool" where
  "freshRun s ident d \<longleftrightarrow> (\<forall>r \<in> set (runs d). \<not> runIdentity s ident r)"

definition capacityLeft :: "Store \<Rightarrow> database \<Rightarrow> bool" where
  "capacityLeft s d \<longleftrightarrow> matched (pendingRun (runtimeID s)) (runs d) < maxPendingTriggers s"

locale run_order = db_order R for R :: "database \<Rightarrow> database \<Rightarrow> bool" +
  fixes S :: Sdk and admissible :: "Store \<Rightarrow> bool"
  assumes frame: "runs d' = runs d \<Longrightarrow> R d d'"
    and ins: "admissible s \<Longrightarrow> freshRun s (r_run_id (runRow S s due ttl now)) d \<Longrightarrow> capacityLeft s d \<Longrightarrow>
      R d (snd (insert_runs S (runRow S s due ttl now) d))"
    and take_expired: "admissible s \<Longrightarrow> R d (snd (sql_takeExpired s ident ttl now d))"
    and renewed: "admissible s \<Longrightarrow> R d (snd (sql_renew s run ttl now d))"
    and finished: "admissible s \<Longrightarrow> R d (snd (sql_finish s run ''succeeded'' receipt lastError now d))"
    and failed: "admissible s \<Longrightarrow> R d (snd (sql_fail s run terminal failure retryAt now d))"
    and retried: "admissible s \<Longrightarrow> capacityLeft s d \<Longrightarrow> R d (snd (sql_retry s ident now d))"
    and cancelled: "admissible s \<Longrightarrow> R d (snd (sql_cancel s ident now d))"
begin

lemma moves_snd: "(\<And>d. P d \<Longrightarrow> R d (snd (f d))) \<Longrightarrow> moves R P (sqlCall f)"
  by (rule moves_sqlCall) (metis snd_conv)

lemma moves_keeps: "keepsRuns f \<Longrightarrow> moves R P (sqlCall f)"
  by (rule moves_snd) (simp add: keepsRuns_def frame)

lemmas moves_others = moves_keeps [OF keepsRuns_statements(1)] moves_keeps [OF keepsRuns_statements(2)]
  moves_keeps [OF keepsRuns_statements(3)] moves_keeps [OF keepsRuns_statements(4)]
  moves_keeps [OF keepsRuns_statements(5)] moves_keeps [OF keepsRuns_statements(6)]
  moves_keeps [OF keepsRuns_statements(7)] moves_keeps [OF keepsRuns_statements(8)]
  moves_keeps [OF keepsRuns_named(1)] moves_keeps [OF keepsRuns_named(2)]
  moves_keeps [OF keepsRuns_named(3)] moves_keeps [OF keepsRuns_named(4)]

lemma moves_pure: "moves R P (ret x)" "moves R P (fail e)" "moves R P (liftE q)" "moves R P timeNow"
  "moves R P envCall" "moves R P (sqlQuery qq)"
  by (intro moves_readonly readonly_intros)+

lemma moves_event: "moves R P (eventWith S' s run kind message)"
  unfolding eventWith_def by (intro moves_intros moves_pure moves_others)

lemma moves_lock: "moves R P (lockTriggerCapacity s)"
  unfolding lockTriggerCapacity_def by (intro moves_intros moves_pure moves_others)

lemma moves_advance: "moves R P (advanceCursorWith S' s d t1 t2 t3 status)"
  unfolding advanceCursorWith_def by (intro moves_intros moves_pure moves_others)

lemma moves_claimCursor: "moves R P (claimCursor S' s due now)"
  unfolding claimCursor_def by (intro moves_if moves_advance moves_pure)

lemma moves_reconcile: "moves R P (reconcileWith S' s d nxt k en)"
  unfolding reconcileWith_def reconcileSame_def reconcileNew_def
  by (intro moves_intros moves_pure moves_others)

lemma moves_disable: "moves R P (disableMissingWith s active revision)"
  unfolding disableMissingWith_def by (intro moves_intros moves_pure moves_others)

lemma moves_claimInsert:
  "admissible s \<Longrightarrow>
    moves R (\<lambda>d. freshRun s (r_run_id (runRow S s due ttl now)) d \<and> capacityLeft s d)
      (claimInsert_tx S s due ttl now)"
  unfolding claimInsert_tx_def
  by (intro moves_attempt moves_case_sum moves_if moves_bindE moves_pure moves_claimCursor moves_event
      moves_snd) (blast intro: ins)

lemma moves_claim_tx:
  assumes "admissible s"
  shows "moves R (\<lambda>_. True) (claim_tx S s due ttl now)"
proof -
  let ?id = "r_run_id (runRow S s due ttl now)"
  have insert: "moves R (freshRun s ?id) (bindE (checkTriggerCapacity s) (\<lambda>_. claimInsert_tx S s due ttl now))"
    by (rule moves_bindE_read [OF readonly_reads(2) moves_claimInsert [OF assms]])
      (auto simp: capacityLeft_def dest: checkTriggerCapacity_Inr)
  show ?thesis
    unfolding claim_tx_def
  proof (rule moves_bindE [OF moves_lock], rule moves_attempt_read)
    show "readonly (sqlQuery (\<lambda>d. selectRow (runIdentity s ?id) (runs d)))"
      by (intro readonly_intros)
    fix q
    show "moves R (\<lambda>d. q = Inl (Sentinel ErrNoRows) \<longrightarrow> freshRun s ?id d)
      (case q of Inl e \<Rightarrow>
         if e \<noteq> Sentinel ErrNoRows then fail e
         else bindE (checkTriggerCapacity s) (\<lambda>_. claimInsert_tx S s due ttl now)
       | Inr x \<Rightarrow> ret (Rollback RunExists))"
      by (auto split: sum.splits intro: moves_pure moves_weaken [OF insert])
  next
    fix w w' :: "database world" and q :: "goerr + run_row"
    assume "sqlQuery (\<lambda>d. selectRow (runIdentity s ?id) (runs d)) w = (q, w')"
    then show "q = Inl (Sentinel ErrNoRows) \<longrightarrow> freshRun s ?id (db w)"
      using sqlQuery_ErrNoRows unfolding freshRun_def by blast
  qed
qed

lemma moves_takeExpired: "admissible s \<Longrightarrow> moves R P (takeExpired S' s ident ttl now)"
  unfolding takeExpired_def
  by (intro moves_bindE moves_if moves_pure moves_snd take_expired moves_readonly readonly_intros)

lemma moves_claimExisting:
  "admissible s \<Longrightarrow> moves R P (bindE (takeExpired S' s ident ttl now) (\<lambda>taken. case taken of
     Some run \<Rightarrow> ret (Some (run, True))
   | None \<Rightarrow> bindE (getRun S' s ident) (\<lambda>run. ret (Some (run, False)))))"
  by (intro moves_bindE moves_takeExpired moves_case_option moves_pure moves_readonly [OF readonly_reads(4)])

lemma moves_Claim:
  assumes "admissible s"
  shows "moves R (\<lambda>_. True) (Claim S s due ttl)"
  unfolding Claim_def Let_def
proof (intro moves_bindE moves_pure moves_transaction moves_claim_tx assms)
  fix now outcome
  show "moves R (\<lambda>_. True) (case outcome of
        LeaseAcquired \<Rightarrow> ret (Some (claimedRun s due (if ttl \<le> 0 then 5 * minute else ttl) now, True))
      | RunExists \<Rightarrow>
          bindE (takeExpired S s (runID (runtimeID s) (defKey (dueDefinition due)) (dueScheduledFor due))
              (if ttl \<le> 0 then 5 * minute else ttl) now) (\<lambda>taken. case taken of
            None \<Rightarrow> bindE (getRun S s (runID (runtimeID s) (defKey (dueDefinition due))
                (dueScheduledFor due))) (\<lambda>run. ret (Some (run, False)))
          | Some run \<Rightarrow> ret (Some (run, True)))
      | CursorMoved \<Rightarrow> ret None)"
    by (cases outcome) (simp_all only: claimEnd.case moves_pure moves_claimExisting [OF assms])
qed

lemma moves_Renew: "admissible s \<Longrightarrow> moves R P (Renew s run ttl)"
  unfolding Renew_def by (intro moves_bindE moves_if moves_pure moves_snd renewed)

lemma moves_finish_tx: "admissible s \<Longrightarrow> moves R P (finish_tx S' s run ''succeeded'' receipt lastError now)"
  unfolding finish_tx_def by (intro moves_bindE moves_if moves_pure moves_event moves_snd finished)

lemma moves_Accept: "admissible s \<Longrightarrow> moves R P (Accept S' s run receipt)"
  unfolding Accept_def finish_def by (intro moves_bindE moves_pure moves_transaction moves_finish_tx)

lemma moves_insertDeadLetter: "moves R P (insertDeadLetter S' s run failure)"
  unfolding insertDeadLetter_def by (intro moves_intros moves_pure moves_others)

lemma moves_fail_tx: "admissible s \<Longrightarrow> moves R P (fail_tx S' s run terminal failure retryAt now)"
  unfolding fail_tx_def
  by (intro moves_bindE moves_if moves_pure moves_event moves_insertDeadLetter moves_snd failed)

lemma moves_Fail: "admissible s \<Longrightarrow> moves R P (Fail S' s run failure retryAt)"
  unfolding Fail_def
  by (intro moves_bindE moves_pure moves_transaction moves_fail_tx moves_readonly readonly_intros)

lemma moves_retry_tx:
  assumes "admissible s"
  shows "moves R P (retry_tx S' s ident reason now)"
proof -
  have inner: "moves R (\<lambda>_. True) (bindE (checkTriggerCapacity s) (\<lambda>_.
      bindE (sqlCall (sql_retry s ident now)) (\<lambda>affected.
      if affected \<noteq> 1 then fail (notRetryable ident) else
      bindE (sqlCall (sql_resolve s ident now)) (\<lambda>_.
      bindE (eventWith S' s ident ''retry_scheduled'' (trimSpace reason)) (\<lambda>_. ret (Commit ()))))))"
  proof (rule moves_bindE_read [where Q = "\<lambda>_. capacityLeft s", OF readonly_reads(2)])
    show "moves R (capacityLeft s) (bindE (sqlCall (sql_retry s ident now)) (\<lambda>affected.
      if affected \<noteq> 1 then fail (notRetryable ident) else
      bindE (sqlCall (sql_resolve s ident now)) (\<lambda>_.
      bindE (eventWith S' s ident ''retry_scheduled'' (trimSpace reason)) (\<lambda>_. ret (Commit ())))))"
      by (intro moves_bindE moves_if moves_pure moves_event moves_others moves_snd retried assms)
  qed (auto simp: capacityLeft_def dest: checkTriggerCapacity_Inr)
  show ?thesis
    unfolding retry_tx_def
    by (intro moves_bindE [OF moves_lock] moves_attempt moves_case_sum moves_if moves_pure inner)
qed

lemma moves_Retry: "admissible s \<Longrightarrow> moves R P (Retry S' s ident reason)"
  unfolding Retry_def
  by (intro moves_bindE moves_pure moves_transaction moves_retry_tx moves_readonly readonly_intros)

lemma moves_cancel_tx: "admissible s \<Longrightarrow> moves R P (cancel_tx S' s ident reason now)"
  unfolding cancel_tx_def by (intro moves_bindE moves_if moves_pure moves_event moves_snd cancelled)

lemma moves_Cancel: "admissible s \<Longrightarrow> moves R P (Cancel S' s ident reason)"
  unfolding Cancel_def
  by (intro moves_bindE moves_pure moves_transaction moves_cancel_tx moves_readonly readonly_intros)

lemma moves_RequeueDeadLetter: "admissible s \<Longrightarrow> moves R P (RequeueDeadLetter S' s ident reason)"
  unfolding RequeueDeadLetter_def by (intro moves_bindE moves_Retry moves_readonly readonly_intros)

lemma moves_ResolveDeadLetter: "moves R P (ResolveDeadLetter S' s ident reason)"
  unfolding ResolveDeadLetter_def resolve_tx_def
  by (intro moves_bindE moves_if moves_transaction moves_pure moves_event moves_others moves_readonly
      readonly_intros)

lemma moves_applySnapshot_tx: "moves R P (applySnapshot_tx S' s snapshot fence now)"
proof -
  have "moves R Q (lockDefinitionSnapshotCursor s snapshot fence)" for Q
    unfolding lockDefinitionSnapshotCursor_def
    by (intro moves_bindE moves_others moves_attempt moves_case_sum moves_case_prod moves_if moves_pure)
  moreover have "moves R Q (applyDefinition S' s now d active)" for Q d active
    unfolding applyDefinition_def
    by (intro moves_let moves_case_option moves_if moves_bindE moves_pure moves_reconcile)
  ultimately show ?thesis
    unfolding applySnapshot_tx_def
    by (intro moves_bindE moves_if moves_pure moves_foldE moves_disable)
qed

lemma moves_ApplyDefinitionSnapshot: "moves R P (ApplyDefinitionSnapshot S' s snapshot now)"
  unfolding ApplyDefinitionSnapshot_def
  by (intro moves_case_option moves_if moves_bindE moves_pure moves_transaction moves_applySnapshot_tx)

lemma moves_Reschedule: "moves R P (Reschedule s key nxt)"
  unfolding Reschedule_def by (intro moves_let moves_if moves_bindE moves_pure moves_others)

lemma moves_Due: "moves R P (Due S' s now limit)"
proof -
  have "moves R Q (fastForwardMisfire s d t1 t2 b now)" for Q d t1 t2 b
    unfolding fastForwardMisfire_def by (intro moves_let moves_bindE moves_pure moves_others)
  then have "moves R Q (dueState S' s now l state result)" for Q l state result
    unfolding dueState_def by (intro moves_case_prod moves_let moves_if moves_bindE moves_pure)
  moreover have "moves R Q (dueStates S' s at l)" for Q at l
    unfolding dueStates_def scanDueRow_def by (intro moves_readonly readonly_intros)
  moreover have "moves R Q (retryTrigger S' s row result)" for Q row result
    unfolding retryTrigger_def
    by (intro moves_readonly readonly_case_prod readonly_bindE readonly_case_option readonly_intros)
  ultimately show ?thesis
    unfolding Due_def by (intro moves_let moves_if moves_bindE moves_pure moves_foldE)
qed

end

section \<open>Interleavings of workers\<close>

text \<open>
  One atomic block of one worker: a transaction or a single statement of the execution store, run in
  any world (any clock, any failing calls) whose database is the current one. \<open>other\<close> stands for
  everything that leaves the runs alone: the cursors, and all the other stores.
\<close>

inductive store_step :: "Sdk \<Rightarrow> (Store \<Rightarrow> bool) \<Rightarrow> database \<Rightarrow> database \<Rightarrow> bool"
  for S :: Sdk and admissible :: "Store \<Rightarrow> bool" where
  claim: "admissible s \<Longrightarrow> transaction (claim_tx S s due ttl now) w = (q, w') \<Longrightarrow>
    store_step S admissible (db w) (db w')"
| take_expired: "admissible s \<Longrightarrow> sqlCall (sql_takeExpired s ident ttl now) w = (n, w') \<Longrightarrow>
    store_step S admissible (db w) (db w')"
| renew: "admissible s \<Longrightarrow> sqlCall (sql_renew s run ttl now) w = (n, w') \<Longrightarrow>
    store_step S admissible (db w) (db w')"
| accept: "admissible s \<Longrightarrow>
    transaction (finish_tx S s run ''succeeded'' receipt lastError now) w = (u, w') \<Longrightarrow>
    store_step S admissible (db w) (db w')"
| fails: "admissible s \<Longrightarrow> transaction (fail_tx S s run terminal failure retryAt now) w = (u, w') \<Longrightarrow>
    store_step S admissible (db w) (db w')"
| retry: "admissible s \<Longrightarrow> transaction (retry_tx S s ident reason now) w = (u, w') \<Longrightarrow>
    store_step S admissible (db w) (db w')"
| cancel: "admissible s \<Longrightarrow> transaction (cancel_tx S s ident reason now) w = (u, w') \<Longrightarrow>
    store_step S admissible (db w) (db w')"
| other: "runs d' = runs d \<Longrightarrow> store_step S admissible d d'"

abbreviation store_reach :: "Sdk \<Rightarrow> (Store \<Rightarrow> bool) \<Rightarrow> database \<Rightarrow> database \<Rightarrow> bool" where
  "store_reach S admissible \<equiv> (store_step S admissible)\<^sup>*\<^sup>*"

context run_order
begin

lemma step_moves: "store_step S admissible d d' \<Longrightarrow> R d d'"
proof (induction rule: store_step.induct)
  case (claim s due ttl now w q w')
  then show ?case using movesD [OF moves_transaction [OF moves_claim_tx]] by blast
next
  case (take_expired s ident ttl now w n w')
  then show ?case using movesD [OF moves_snd [where P = "\<lambda>_. True"]] run_order.take_expired run_order_axioms by blast
next
  case (renew s run ttl now w n w')
  then show ?case using movesD [OF moves_snd [where P = "\<lambda>_. True"]] renewed by blast
next
  case (accept s run receipt lastError now w u w')
  then show ?case using movesD [OF moves_transaction [OF moves_finish_tx [where P = "\<lambda>_. True"]]] by blast
next
  case (fails s run terminal failure retryAt now w u w')
  then show ?case using movesD [OF moves_transaction [OF moves_fail_tx [where P = "\<lambda>_. True"]]] by blast
next
  case (retry s ident reason now w u w')
  then show ?case using movesD [OF moves_transaction [OF moves_retry_tx [where P = "\<lambda>_. True"]]] by blast
next
  case (cancel s ident reason now w u w')
  then show ?case using movesD [OF moves_transaction [OF moves_cancel_tx [where P = "\<lambda>_. True"]]] by blast
qed (rule frame)

lemma reach_moves: "store_reach S admissible d d' \<Longrightarrow> R d d'"
  by (induction rule: rtranclp_induct) (auto intro: order_refl order_trans step_moves)

end


text \<open>Every operation of a worker is a sequence of such blocks.\<close>

interpretation reach: db_order "store_reach S admissible" for S admissible
  by unfold_locales auto

lemma reach_step:
  assumes "\<And>w q w'. m w = (q, w') \<Longrightarrow> store_step S admissible (db w) (db w')"
  shows "moves (store_reach S admissible) P m"
  using assms unfolding moves_def by (metis r_into_rtranclp prod.collapse)

lemma reach_blocks:
  assumes "admissible s"
  shows "moves (store_reach S admissible) P (transaction (claim_tx S s due ttl now))"
    and "moves (store_reach S admissible) P (sqlCall (sql_takeExpired s ident ttl now))"
    and "moves (store_reach S admissible) P (sqlCall (sql_renew s run ttl now))"
    and "moves (store_reach S admissible) P
      (transaction (finish_tx S s run ''succeeded'' receipt lastError now))"
    and "moves (store_reach S admissible) P (transaction (fail_tx S s run terminal failure retryAt now))"
    and "moves (store_reach S admissible) P (transaction (retry_tx S s ident reason now))"
    and "moves (store_reach S admissible) P (transaction (cancel_tx S s ident reason now))"
  by (rule reach_step, rule store_step.intros(1-7), rule assms, assumption)+

lemmas reach_intros = reach_blocks reach.moves_bindE reach.moves_if
  reach.moves_readonly [OF readonly_basic(1)] reach.moves_readonly [OF readonly_basic(4)]
  reach.moves_readonly [OF readonly_reads(3)] reach.moves_readonly [OF readonly_reads(4)]

lemma reach_takeExpired:
  "admissible s \<Longrightarrow> moves (store_reach S admissible) P (takeExpired S s ident ttl now)"
  unfolding takeExpired_def by (intro reach_intros)

lemma reach_Claim:
  assumes "admissible s"
  shows "moves (store_reach S admissible) (\<lambda>_. True) (Claim S s due ttl)"
  unfolding Claim_def Let_def
proof (intro reach_intros assms)
  fix now outcome
  show "moves (store_reach S admissible) (\<lambda>_. True) (case outcome of
        LeaseAcquired \<Rightarrow> ret (Some (claimedRun s due (if ttl \<le> 0 then 5 * minute else ttl) now, True))
      | RunExists \<Rightarrow>
          bindE (takeExpired S s (runID (runtimeID s) (defKey (dueDefinition due)) (dueScheduledFor due))
              (if ttl \<le> 0 then 5 * minute else ttl) now) (\<lambda>taken. case taken of
            None \<Rightarrow> bindE (getRun S s (runID (runtimeID s) (defKey (dueDefinition due))
                (dueScheduledFor due))) (\<lambda>run. ret (Some (run, False)))
          | Some run \<Rightarrow> ret (Some (run, True)))
      | CursorMoved \<Rightarrow> ret None)"
    by (cases outcome; simp only: claimEnd.case)
      (intro reach_intros reach_takeExpired reach.moves_case_option assms)+
qed

lemma reach_Renew: "admissible s \<Longrightarrow> moves (store_reach S admissible) P (Renew s run ttl)"
  unfolding Renew_def by (intro reach_intros)

lemma reach_Accept: "admissible s \<Longrightarrow> moves (store_reach S admissible) P (Accept S s run receipt)"
  unfolding Accept_def finish_def by (intro reach_intros)

lemma reach_Fail: "admissible s \<Longrightarrow> moves (store_reach S admissible) P (Fail S s run failure retryAt)"
  unfolding Fail_def by (intro reach_intros)

lemma reach_Retry: "admissible s \<Longrightarrow> moves (store_reach S admissible) P (Retry S s ident reason)"
  unfolding Retry_def by (intro reach_intros)

lemma reach_Cancel: "admissible s \<Longrightarrow> moves (store_reach S admissible) P (Cancel S s ident reason)"
  unfolding Cancel_def by (intro reach_intros)

lemmas reach_operations =
  reach_Claim reach_Renew reach_Accept reach_Fail reach_Retry reach_Cancel

end
