(* ===== verification/Run_Lifecycle.thy ===== *)
theory Run_Lifecycle
  imports Run_Steps
begin

text \<open>
  The promises of the execution store about runs.

  \<open>lifecycle\<close> is the abstract specification: the transitions one run may make. The store refines it:
  whatever workers do, in whatever interleaving, each stored run moves along these transitions and
  new runs start freshly leased. From the specification alone follow that a fencing token never
  decreases, that it identifies one lease, and that a finished run is never touched again; with the
  keys of the table these give mutual exclusion: a worker whose lease was taken over can no longer
  change the run. The second part is the capacity invariant.
\<close>

section \<open>The specification of one run\<close>

inductive lifecycle :: "run_row \<Rightarrow> run_row \<Rightarrow> bool" where
  acquire: "r_status r = ''leased'' \<or> r_status r = ''retrying'' \<Longrightarrow>
    lifecycle r (r\<lparr>r_status := ''leased'', r_lease_owner := Some owner, r_lease_expires_at := Some e,
      r_fencing_token := r_fencing_token r + 1, r_attempt := r_attempt r + 1, r_updated_at := u\<rparr>)"
| renew: "r_status r = ''leased'' \<Longrightarrow>
    lifecycle r (r\<lparr>r_lease_expires_at := Some e, r_updated_at := u\<rparr>)"
| succeed: "r_status r = ''leased'' \<Longrightarrow>
    lifecycle r (r\<lparr>r_status := ''succeeded'', r_receipt_json := rc, r_last_error := le,
      r_lease_owner := None, r_lease_expires_at := None, r_updated_at := u\<rparr>)"
| retry_later: "r_status r = ''leased'' \<Longrightarrow>
    lifecycle r (r\<lparr>r_status := ''retrying'', r_last_error := le, r_lease_owner := None,
      r_lease_expires_at := None, r_updated_at := u, r_next_retry_at := Some n\<rparr>)"
| dead_letter: "r_status r = ''leased'' \<Longrightarrow>
    lifecycle r (r\<lparr>r_status := ''dead_letter'', r_last_error := le, r_lease_owner := None,
      r_lease_expires_at := None, r_updated_at := u, r_next_retry_at := None\<rparr>)"
| requeue: "r_status r = ''failed'' \<or> r_status r = ''dead_letter'' \<Longrightarrow>
    lifecycle r (r\<lparr>r_status := ''retrying'', r_next_retry_at := Some n, r_lease_owner := None,
      r_lease_expires_at := None, r_updated_at := u\<rparr>)"
| cancel: "r_status r = ''leased'' \<or> r_status r = ''retrying'' \<Longrightarrow>
    lifecycle r (r\<lparr>r_status := ''cancelled'', r_next_retry_at := None, r_lease_owner := None,
      r_lease_expires_at := None, r_fencing_token := r_fencing_token r + 1, r_updated_at := u\<rparr>)"

definition initialRun :: "run_row \<Rightarrow> bool" where
  "initialRun r \<longleftrightarrow> r_status r = ''leased'' \<and> r_attempt r = 1 \<and> r_fencing_token r = 1 \<and>
     r_lease_owner r \<noteq> None \<and> r_next_retry_at r = None \<and> r_receipt_json r = None \<and>
     r_last_error r = None"

text \<open>The rows of the table made lifecycle moves, and the rows after them are new runs.\<close>

definition lifecycleRefined :: "database \<Rightarrow> database \<Rightarrow> bool" where
  "lifecycleRefined d d' \<longleftrightarrow> (\<exists>old new. runs d' = old @ new \<and>
     list_all2 lifecycle\<^sup>*\<^sup>* (runs d) old \<and> (\<forall>r \<in> set new. \<exists>r0. initialRun r0 \<and> lifecycle\<^sup>*\<^sup>* r0 r))"

subsection \<open>Consequences of the specification\<close>

text \<open>
  What a run keeps or only raises: its identity, its window and its payload; the token and the
  attempt; once finished, everything; and a lease is only ever entered with a new token.
\<close>

definition runAdvanced :: "run_row \<Rightarrow> run_row \<Rightarrow> bool" where
  "runAdvanced r r' \<longleftrightarrow>
     run_key r' = run_key r \<and> run_window r' = run_window r \<and> r_target_json r' = r_target_json r \<and>
     r_metadata_json r' = r_metadata_json r \<and>
     r_fencing_token r \<le> r_fencing_token r' \<and> r_attempt r \<le> r_attempt r' \<and>
     (r_status r = ''succeeded'' \<or> r_status r = ''cancelled'' \<longrightarrow> r' = r) \<and>
     (r_fencing_token r' = r_fencing_token r \<and> r_status r' = ''leased'' \<longrightarrow>
        r_status r = ''leased'' \<and> r_lease_owner r' = r_lease_owner r \<and> r_attempt r' = r_attempt r)"

lemma lifecycle_advanced: "lifecycle r r' \<Longrightarrow> runAdvanced r r'"
  by (induction rule: lifecycle.induct) (auto simp: runAdvanced_def run_key_def run_window_def)

lemma runAdvanced_finished:
  "runAdvanced r r' \<Longrightarrow> r_status r = ''succeeded'' \<or> r_status r = ''cancelled'' \<Longrightarrow> r' = r"
  unfolding runAdvanced_def by blast

lemma runAdvanced_lease:
  "runAdvanced r r' \<Longrightarrow> r_fencing_token r' = r_fencing_token r \<Longrightarrow> r_status r' = ''leased'' \<Longrightarrow>
    r_status r = ''leased'' \<and> r_lease_owner r' = r_lease_owner r \<and> r_attempt r' = r_attempt r"
  unfolding runAdvanced_def by blast

lemma runAdvanced_monotone:
  "runAdvanced r r' \<Longrightarrow> r_fencing_token r \<le> r_fencing_token r' \<and> r_attempt r \<le> r_attempt r'"
  unfolding runAdvanced_def by blast

lemma runAdvanced_identity:
  "runAdvanced r r' \<Longrightarrow> run_key r' = run_key r \<and> run_window r' = run_window r \<and>
    r_target_json r' = r_target_json r \<and> r_metadata_json r' = r_metadata_json r"
  unfolding runAdvanced_def by blast

lemma runAdvanced_refl: "runAdvanced r r"
  by (simp add: runAdvanced_def)

lemma runAdvanced_trans:
  assumes "runAdvanced a b" "runAdvanced b c"
  shows "runAdvanced a c"
proof -
  note tokens = runAdvanced_monotone [OF assms(1)] runAdvanced_monotone [OF assms(2)]
  have "c = a" if "r_status a = ''succeeded'' \<or> r_status a = ''cancelled''"
    using runAdvanced_finished [OF assms(1) that] runAdvanced_finished [OF assms(2)] that by simp
  moreover have "r_status a = ''leased'' \<and> r_lease_owner c = r_lease_owner a \<and> r_attempt c = r_attempt a"
    if "r_fencing_token c = r_fencing_token a" "r_status c = ''leased''"
    using runAdvanced_lease [OF assms(2)] runAdvanced_lease [OF assms(1)] that tokens by simp
  moreover have "r_fencing_token a \<le> r_fencing_token c" "r_attempt a \<le> r_attempt c"
    using tokens by linarith+
  moreover have "run_key c = run_key a" "run_window c = run_window a"
    "r_target_json c = r_target_json a" "r_metadata_json c = r_metadata_json a"
    using runAdvanced_identity [OF assms(1)] runAdvanced_identity [OF assms(2)] by simp_all
  ultimately show ?thesis
    unfolding runAdvanced_def by blast
qed

lemma lifecycle_star_advanced: "lifecycle\<^sup>*\<^sup>* r r' \<Longrightarrow> runAdvanced r r'"
  by (induction rule: rtranclp_induct)
    (auto intro: runAdvanced_refl runAdvanced_trans lifecycle_advanced)

section \<open>The store refines the specification\<close>

lemma lifecycleRefined_refl: "runs d' = runs d \<Longrightarrow> lifecycleRefined d d'"
  unfolding lifecycleRefined_def
  by (intro exI [of _ "runs d"] exI [of _ "[]"]) (auto intro: list_all2_refl)

lemma lifecycleRefined_trans:
  assumes "lifecycleRefined a b" "lifecycleRefined b c"
  shows "lifecycleRefined a c"
proof -
  obtain old new where 1: "runs b = old @ new" "list_all2 lifecycle\<^sup>*\<^sup>* (runs a) old"
    "\<forall>r \<in> set new. \<exists>r0. initialRun r0 \<and> lifecycle\<^sup>*\<^sup>* r0 r"
    using assms(1) by (auto simp: lifecycleRefined_def)
  obtain old' new' where 2: "runs c = old' @ new'" "list_all2 lifecycle\<^sup>*\<^sup>* (old @ new) old'"
    "\<forall>r \<in> set new'. \<exists>r0. initialRun r0 \<and> lifecycle\<^sup>*\<^sup>* r0 r"
    using assms(2) 1 by (auto simp: lifecycleRefined_def)
  obtain o1 o2 where 3: "old' = o1 @ o2" "list_all2 lifecycle\<^sup>*\<^sup>* old o1" "list_all2 lifecycle\<^sup>*\<^sup>* new o2"
    using 2(2) by (auto simp: list_all2_append1)
  have "list_all2 lifecycle\<^sup>*\<^sup>* (runs a) o1"
    using 1(2) 3(2) by (rule list_all2_trans [rotated]) auto
  moreover have "\<exists>r0. initialRun r0 \<and> lifecycle\<^sup>*\<^sup>* r0 r" if "r \<in> set o2" for r
  proof -
    from that obtain i where i: "i < length o2" "r = o2 ! i" by (auto simp: in_set_conv_nth)
    with 3(3) have "lifecycle\<^sup>*\<^sup>* (new ! i) r" "new ! i \<in> set new"
      by (auto simp: list_all2_conv_all_nth)
    with 1(3) show ?thesis by (meson rtranclp_trans)
  qed
  ultimately show ?thesis
    using 2 3 unfolding lifecycleRefined_def
    by (intro exI [of _ o1] exI [of _ "o2 @ new'"]) auto
qed

text \<open>
  The statements on runs are updates whose matched rows make a lifecycle move; all but the requeue
  match only runs that are pending.
\<close>

definition lifecycleUpdate :: "bool \<Rightarrow> int sql \<Rightarrow> bool" where
  "lifecycleUpdate live q \<longleftrightarrow> (\<exists>p f. q = update_runs p f \<and> (\<forall>r. p r \<longrightarrow> lifecycle r (f r)) \<and>
     (live \<longrightarrow> (\<forall>r. p r \<longrightarrow> r_status r = ''leased'' \<or> r_status r = ''retrying'')))"

lemma lifecycleUpdateI:
  assumes "\<And>r. p r \<Longrightarrow> lifecycle r (f r)"
    and "\<And>r. live \<Longrightarrow> p r \<Longrightarrow> r_status r = ''leased'' \<or> r_status r = ''retrying''"
  shows "lifecycleUpdate live (update_runs p f)"
  using assms unfolding lifecycleUpdate_def by blast

lemma lifecycle_statements:
  "lifecycleUpdate True (sql_takeExpired s ident ttl now)"
  "lifecycleUpdate True (sql_renew s run ttl now)"
  "lifecycleUpdate True (sql_finish s run ''succeeded'' receipt lastError now)"
  "lifecycleUpdate True (sql_fail s run terminal failure retryAt now)"
  "lifecycleUpdate False (sql_retry s ident now)"
  "lifecycleUpdate True (sql_cancel s ident now)"
  unfolding sql_takeExpired_def sql_renew_def sql_finish_def sql_fail_def sql_retry_def sql_cancel_def
  by (rule lifecycleUpdateI; auto simp: expiredLease_def liveLease_def intro: lifecycle.intros)+

lemma lifecycleRefined_update:
  assumes "lifecycleUpdate live q"
  shows "lifecycleRefined d (snd (q d))"
proof -
  obtain p f where q: "q = update_runs p f" and l: "\<And>r. p r \<Longrightarrow> lifecycle r (f r)"
    using assms by (auto simp: lifecycleUpdate_def)
  show ?thesis
    unfolding lifecycleRefined_def update_runs_def q
    by (intro exI [of _ "updateWhere p f (runs d)"] exI [of _ "[]"])
      (auto simp: list_all2_conv_all_nth l r_into_rtranclp)
qed

lemma lifecycleRefined_insert:
  assumes "initialRun r"
  shows "lifecycleRefined d (snd (insert_runs S r d))"
proof (cases "runs (snd (insert_runs S r d)) = runs d")
  case True
  then show ?thesis by (rule lifecycleRefined_refl)
next
  case False
  then have "runs (snd (insert_runs S r d)) = runs d @ [r]"
    by (simp add: insert_runs_def split: if_splits)
  with assms show ?thesis
    unfolding lifecycleRefined_def
    by (intro exI [of _ "runs d"] exI [of _ "[r]"]) (auto intro: list_all2_refl)
qed

lemma initialRun_runRow: "initialRun (runRow S s due ttl now)"
  by (simp add: initialRun_def runRow_def)

interpretation refine: run_order lifecycleRefined S admissible for S admissible
  by unfold_locales (auto intro: lifecycleRefined_refl lifecycleRefined_trans
      lifecycleRefined_insert initialRun_runRow lifecycleRefined_update lifecycle_statements)

lemma run_tracked:
  assumes "store_reach S admissible d d'" "r \<in> set (runs d)"
  obtains r' where "r' \<in> set (runs d')" "runAdvanced r r'"
proof -
  obtain old new where o: "runs d' = old @ new" "list_all2 lifecycle\<^sup>*\<^sup>* (runs d) old"
    using refine.reach_moves [OF assms(1)] by (auto simp: lifecycleRefined_def)
  obtain i where i: "i < length (runs d)" "r = runs d ! i"
    using assms(2) by (auto simp: in_set_conv_nth)
  with o(2) have "lifecycle\<^sup>*\<^sup>* r (old ! i)" "old ! i \<in> set old"
    by (auto simp: list_all2_conv_all_nth)
  with o(1) that [of "old ! i"] show thesis by (auto intro: lifecycle_star_advanced)
qed

section \<open>Keys and capacity\<close>

definition runKeysOk :: "database \<Rightarrow> bool" where
  "runKeysOk d \<longleftrightarrow> distinct (map run_key (runs d)) \<and> distinct (map run_window (runs d))"

definition withinCapacity :: "string \<Rightarrow> int \<Rightarrow> database \<Rightarrow> bool" where
  "withinCapacity runtime k d \<longleftrightarrow>
     runKeysOk d \<and> matched (pendingRun runtime) (runs d) \<le> k"

definition limitAtMost :: "string \<Rightarrow> int \<Rightarrow> Store \<Rightarrow> bool" where
  "limitAtMost runtime k s \<longleftrightarrow> (runtimeID s = runtime \<longrightarrow> maxPendingTriggers s \<le> k)"

lemma runKeysOk_update:
  assumes "lifecycleUpdate live q"
  shows "runKeysOk (snd (q d)) = runKeysOk d"
proof -
  obtain p f where q: "q = update_runs p f" and l: "\<And>r. p r \<Longrightarrow> lifecycle r (f r)"
    using assms by (auto simp: lifecycleUpdate_def)
  have "run_key (f r) = run_key r \<and> run_window (f r) = run_window r" if "p r" for r
    using runAdvanced_identity [OF lifecycle_advanced [OF l [OF that]]] by simp
  then show ?thesis by (simp add: runKeysOk_def update_runs_def map_updateWhere q)
qed

lemma runKeysOk_insert: "runKeysOk d \<Longrightarrow> runKeysOk (snd (insert_runs S r d))"
  by (auto simp: runKeysOk_def insert_runs_def)

interpretation keys: run_order "\<lambda>d d'. runKeysOk d \<longrightarrow> runKeysOk d'" S admissible for S admissible
  by unfold_locales (auto simp: runKeysOk_update [OF lifecycle_statements(1)]
      runKeysOk_update [OF lifecycle_statements(2)] runKeysOk_update [OF lifecycle_statements(3)]
      runKeysOk_update [OF lifecycle_statements(4)] runKeysOk_update [OF lifecycle_statements(5)]
      runKeysOk_update [OF lifecycle_statements(6)] intro: runKeysOk_insert,
      auto simp: runKeysOk_def)

lemma matched_update:
  "matched q (updateWhere p f rs) \<le> matched q rs + matched (\<lambda>r. p r \<and> q (f r) \<and> \<not> q r) rs"
  by (induction rs) auto

lemma pending_update:
  assumes "lifecycleUpdate True q"
  shows "matched (pendingRun runtime) (runs (snd (q d))) \<le> matched (pendingRun runtime) (runs d)"
proof -
  obtain p f where q: "q = update_runs p f" and l: "\<And>r. p r \<Longrightarrow> lifecycle r (f r)"
    and live: "\<And>r. p r \<Longrightarrow> r_status r = ''leased'' \<or> r_status r = ''retrying''"
    using assms by (auto simp: lifecycleUpdate_def)
  have "r_runtime_id (f r) = r_runtime_id r" if "p r" for r
    using runAdvanced_identity [OF lifecycle_advanced [OF l [OF that]]] by (simp add: run_key_def)
  with live have "matched (\<lambda>r. p r \<and> pendingRun runtime (f r) \<and> \<not> pendingRun runtime r) (runs d) = 0"
    by (auto simp: matched_zero pendingRun_def)
  then show ?thesis
    using matched_update [of "pendingRun runtime" p f "runs d"] by (simp add: q update_runs_def)
qed

lemma pending_retry:
  assumes "runKeysOk d"
  shows "matched (pendingRun runtime) (runs (snd (sql_retry s ident now d))) \<le>
    matched (pendingRun runtime) (runs d) + (if runtimeID s = runtime then 1 else 0)"
proof -
  let ?p = "\<lambda>r. runIdentity s (trimSpace ident) r \<and> (r_status r = ''failed'' \<or> r_status r = ''dead_letter'')"
  let ?f = "\<lambda>r :: run_row. r\<lparr>r_status := ''retrying'', r_next_retry_at := Some (formatTime now),
              r_lease_owner := None, r_lease_expires_at := None, r_updated_at := formatTime now\<rparr>"
  let ?g = "\<lambda>r. ?p r \<and> pendingRun runtime (?f r) \<and> \<not> pendingRun runtime r"
  have "matched ?g (runs d) \<le> 1"
    using assms unfolding runKeysOk_def
    by (intro matched_le_one [where k = run_key and x = "(runtimeID s, trimSpace ident)"])
      (auto simp: run_key_def runIdentity_def)
  moreover have "matched ?g (runs d) = 0" if "runtimeID s \<noteq> runtime"
    using that by (auto simp: matched_zero pendingRun_def runIdentity_def)
  ultimately show ?thesis
    using matched_update [of "pendingRun runtime" ?p ?f "runs d"]
    by (auto simp: sql_retry_def update_runs_def)
qed

interpretation capacity: run_order "\<lambda>d d'. withinCapacity runtime k d \<longrightarrow> withinCapacity runtime k d'"
  S "limitAtMost runtime k" for runtime k S
proof unfold_locales
  fix s d due ttl now
  assume "limitAtMost runtime k s" "capacityLeft s d"
  then show "withinCapacity runtime k d \<longrightarrow>
      withinCapacity runtime k (snd (insert_runs S (runRow S s due ttl now) d))"
    using runKeysOk_insert [of d S "runRow S s due ttl now"]
    by (auto simp: withinCapacity_def insert_runs_def limitAtMost_def capacityLeft_def pendingRun_def
        runRow_def)
next
  fix s d ident now
  assume "limitAtMost runtime k s" "capacityLeft s d"
  then show "withinCapacity runtime k d \<longrightarrow> withinCapacity runtime k (snd (sql_retry s ident now d))"
    using pending_retry [of d runtime s ident now]
    by (auto simp: withinCapacity_def limitAtMost_def capacityLeft_def
        runKeysOk_update [OF lifecycle_statements(5)] split: if_splits)
next
  fix d d' :: database
  assume "runs d' = runs d"
  then show "withinCapacity runtime k d \<longrightarrow> withinCapacity runtime k d'"
    by (simp add: withinCapacity_def runKeysOk_def)
qed (auto simp: withinCapacity_def runKeysOk_update [OF lifecycle_statements(1)]
    runKeysOk_update [OF lifecycle_statements(2)] runKeysOk_update [OF lifecycle_statements(3)]
    runKeysOk_update [OF lifecycle_statements(4)] runKeysOk_update [OF lifecycle_statements(6)]
    intro: order_trans [OF pending_update [OF lifecycle_statements(1)]]
      order_trans [OF pending_update [OF lifecycle_statements(2)]]
      order_trans [OF pending_update [OF lifecycle_statements(3)]]
      order_trans [OF pending_update [OF lifecycle_statements(4)]]
      order_trans [OF pending_update [OF lifecycle_statements(6)]])

end
