(* ===== verification/Run_Leases.thy ===== *)
theory Run_Leases
  imports Run_Lifecycle Go_Time_Order
begin

text \<open>
  Leases. What a worker that reports to the store must hold, what a successful \<^verbatim>\<open>Claim\<close> gives it, and
  why no two workers can hold the same run: every take-over raises the fencing token, and every
  report names the token it was given.
\<close>

section \<open>Reports without a live lease\<close>

lemma update_without_match:
  assumes "\<forall>r \<in> set (runs d). \<not> p r"
  shows "update_runs p f d = (Inr 0, d)"
  using assms by (simp add: update_runs_def updateWhere_none) (simp add: matched_def filter_empty_conv)

lemma transaction_never_commits:
  assumes "\<And>w1 x w2. db w1 = db w \<Longrightarrow> body w1 = (Inr x, w2) \<Longrightarrow> False"
    and "transaction body w = (q, w')"
  shows "(\<exists>e. q = Inl e) \<and> db w' = db w"
proof (cases q)
  case (Inl e)
  then show ?thesis using assms(2) by (auto dest: transaction_error)
next
  case (Inr x)
  with assms(2) have "transaction body w = (Inr x, w')" by simp
  then show ?thesis
    by (cases rule: transaction_InrE) (use assms(1) in blast)+
qed

lemma finish_without_lease:
  assumes lost: "\<forall>r \<in> set (runs (db w)). \<not> liveLease s run r"
    and "finish S s run status receipt lastError w = (q, w')"
  shows "(\<exists>e. q = Inl e) \<and> db w' = db w"
proof -
  define w1 where "w1 = w\<lparr>reads := Suc (reads w)\<rparr>"
  have w1: "db w1 = db w" by (simp add: w1_def)
  have t: "transaction (finish_tx S s run status receipt lastError (clock w (reads w))) w1 = (q, w')"
    using assms(2) by (simp add: finish_def bindE_timeNow w1_def)
  have False if "db w2 = db w1" "finish_tx S s run status receipt lastError now w2 = (Inr x, w3)"
    for w2 x w3 now
  proof -
    have "sql_finish s run status receipt lastError now (db w2) = (Inr 0, db w2)"
      unfolding sql_finish_def using lost w1 that(1) by (intro update_without_match) simp
    with that(2) show False
      unfolding finish_tx_def by (auto elim!: bindE_InrE sqlCall_InrE simp: fail_def)
  qed
  from transaction_never_commits [OF this t] w1 show ?thesis by simp
qed

lemma fail_without_lease:
  assumes lost: "\<forall>r \<in> set (runs (db w)). \<not> liveLease s run r"
    and "Fail S s run failure retryAt w = (q, w')"
  shows "(\<exists>e. q = Inl e) \<and> db w' = db w"
proof (cases "definitionByKey S s (trgDefinitionKey (runTrigger run)) w")
  case (Pair p w1)
  have d1: "db w1 = db w" using readonlyD [OF readonly_reads(3) Pair] .
  show ?thesis
  proof (cases p)
    case (Inl e)
    then show ?thesis using assms(2) Pair d1 by (auto simp: Fail_def bindE_def)
  next
    case (Inr found)
    define w2 where "w2 = w1\<lparr>reads := Suc (reads w1)\<rparr>"
    have w2: "db w2 = db w" by (simp add: w2_def d1)
    define terminal now
      where "terminal = (trgAttempt (runTrigger run) \<ge> maxAttemptsOf found)" and "now = clock w1 (reads w1)"
    have t: "transaction (fail_tx S s run terminal (errorText S failure) retryAt now) w2 = (q, w')"
      using assms(2) Pair Inr
      by (simp add: Fail_def bindE_def [of "definitionByKey _ _ _"] bindE_timeNow w2_def terminal_def now_def)
    have False if "db w3 = db w2" "fail_tx S s run terminal (errorText S failure) retryAt now w3 = (Inr x, w4)"
      for w3 x w4
    proof -
      have "sql_fail s run terminal (errorText S failure) retryAt now (db w3) = (Inr 0, db w3)"
        unfolding sql_fail_def using lost w2 that(1) by (intro update_without_match) simp
      with that(2) show False
        unfolding fail_tx_def by (auto elim!: bindE_InrE sqlCall_InrE simp: fail_def)
    qed
    from transaction_never_commits [OF this t] w2 show ?thesis by simp
  qed
qed

lemma renew_without_lease:
  assumes lost: "\<forall>r \<in> set (runs (db w)). \<not> liveLease s run r"
    and "Renew s run ttl w = (q, w')"
  shows "((\<exists>e. q = Inl e) \<or> q = Inr (run, False)) \<and> db w' = db w"
proof -
  have "sql_renew s run ttl now (db w) = (Inr 0, db w)" for now
    unfolding sql_renew_def using lost by (rule update_without_match)
  with assms(2) show ?thesis
    by (auto simp: Renew_def bindE_def timeNow_def sqlCall_def envCall_def ret_def
        split: option.splits)
qed

text \<open>A run whose token has moved on, or that is finished, has no live lease under the old token.\<close>

definition leaseSuperseded :: "Store \<Rightarrow> Run \<Rightarrow> database \<Rightarrow> bool" where
  "leaseSuperseded s run d \<longleftrightarrow> (\<exists>r \<in> set (runs d).
     run_key r = (runtimeID s, trgRunID (runTrigger run)) \<and>
     (leaseToken (runLease run) < r_fencing_token r \<or>
      r_status r = ''succeeded'' \<or> r_status r = ''cancelled''))"

lemma superseded_no_lease:
  assumes "store_reach S admissible d d'" "runKeysOk d" "leaseSuperseded s run d"
  shows "\<forall>r \<in> set (runs d'). \<not> liveLease s run r"
proof
  fix q assume q: "q \<in> set (runs d')"
  from assms(3) obtain r where r: "r \<in> set (runs d)"
    "run_key r = (runtimeID s, trgRunID (runTrigger run))"
    "leaseToken (runLease run) < r_fencing_token r \<or> r_status r = ''succeeded'' \<or> r_status r = ''cancelled''"
    by (auto simp: leaseSuperseded_def)
  obtain r' where r': "r' \<in> set (runs d')" "runAdvanced r r'"
    using assms(1) r(1) by (rule run_tracked)
  have keys: "distinct (map run_key (runs d'))"
    using keys.reach_moves [OF assms(1)] assms(2) by (simp add: runKeysOk_def)
  show "\<not> liveLease s run q"
  proof
    assume live: "liveLease s run q"
    then have "run_key q = run_key r'"
      using r(2) runAdvanced_identity [OF r'(2)] by (simp add: liveLease_def run_key_def)
    then have "q = r'" using keys q r'(1) by (auto simp: distinct_map inj_on_def)
    moreover have "r_fencing_token r \<le> r_fencing_token r'"
      using runAdvanced_monotone [OF r'(2)] by simp
    moreover have "r' = r" if "r_status r = ''succeeded'' \<or> r_status r = ''cancelled''"
      using runAdvanced_finished [OF r'(2) that] .
    ultimately show False using live r(3) by (auto simp: liveLease_def)
  qed
qed

section \<open>What Claim did\<close>

lemma insert_runs_Inr: "insert_runs S r d = (Inr n, d') \<Longrightarrow> runs d' = runs d @ [r]"
  by (auto simp: insert_runs_def split: if_splits)

lemma claimInsert_commit:
  assumes "claimInsert_tx S s due ttl now w = (Inr (Commit x), w')"
  shows "x = LeaseAcquired" "runs (db w') = runs (db w) @ [runRow S s due ttl now]"
proof -
  obtain q w1 where i: "sqlCall (insert_runs S (runRow S s due ttl now)) w = (q, w1)"
    by fastforce
  have row: "runs (db w1) = runs (db w) @ [runRow S s due ttl now]" if "q = Inr n" for n
    using i that by (auto elim!: sqlCall_InrE dest: insert_runs_Inr)
  show "x = LeaseAcquired" "runs (db w') = runs (db w) @ [runRow S s due ttl now]"
    using assms i unfolding claimInsert_tx_def attempt_def
    by (auto simp: bindE_def ret_def fail_def dest!: claimCursor_runs eventWith_runs row
        split: prod.splits sum.splits if_splits)
qed

lemma claimInsert_not_rolled_back: "claimInsert_tx S s due ttl now w \<noteq> (Inr (Rollback LeaseAcquired), w')"
  unfolding claimInsert_tx_def attempt_def
  by (auto simp: bindE_def ret_def fail_def split: prod.splits sum.splits if_splits)

text \<open>A committed claim found no run of this identity and added the leased one.\<close>

lemma claim_tx_acquired:
  assumes "transaction (claim_tx S s due ttl now) w = (Inr LeaseAcquired, w')"
  shows "freshRun s (r_run_id (runRow S s due ttl now)) (db w)"
    "capacityLeft s (db w)"
    "runs (db w') = runs (db w) @ [runRow S s due ttl now]"
proof -
  let ?id = "r_run_id (runRow S s due ttl now)"
  have body: "freshRun s ?id (db v) \<and> capacityLeft s (db v) \<and> out = Commit LeaseAcquired \<and>
      runs (db v') = runs (db v) @ [runRow S s due ttl now]"
    if b: "claim_tx S s due ttl now v = (Inr out, v')" and o: "out = Commit LeaseAcquired \<or> out = Rollback LeaseAcquired"
    for v out v'
  proof -
    from b obtain u v1 where l: "lockTriggerCapacity s v = (Inr u, v1)"
      and r: "attempt (sqlQuery (\<lambda>d. selectRow (runIdentity s ?id) (runs d))) (\<lambda>q. case q of
         Inr _ \<Rightarrow> ret (Rollback RunExists)
       | Inl e \<Rightarrow> if e \<noteq> Sentinel ErrNoRows then fail e else
           bindE (checkTriggerCapacity s) (\<lambda>_. claimInsert_tx S s due ttl now)) v1 = (Inr out, v')"
      unfolding claim_tx_def by (rule bindE_InrE)
    obtain q v2 where q: "sqlQuery (\<lambda>d. selectRow (runIdentity s ?id) (runs d)) v1 = (q, v2)"
      by fastforce
    have qe: "q = Inl (Sentinel ErrNoRows)"
      and c: "bindE (checkTriggerCapacity s) (\<lambda>_. claimInsert_tx S s due ttl now) v2 = (Inr out, v')"
      using r q o by (auto simp: attempt_def ret_def fail_def split: sum.splits if_splits)
    from c obtain x v3 where k: "checkTriggerCapacity s v2 = (Inr x, v3)"
      and i: "claimInsert_tx S s due ttl now v3 = (Inr out, v')"
      by (rule bindE_InrE)
    have same: "runs (db v1) = runs (db v)" "db v2 = db v1" "db v3 = db v2"
      using lockTriggerCapacity_runs [OF l] sqlQuery_db [OF q] readonlyD [OF readonly_reads(2) k]
      by simp_all
    have fr: "freshRun s ?id (db v)"
      using sqlQuery_ErrNoRows [OF q [unfolded qe]] same by (simp add: freshRun_def)
    have cap: "capacityLeft s (db v)"
      using checkTriggerCapacity_Inr [OF k] same by (simp add: capacityLeft_def)
    have oc: "out = Commit LeaseAcquired"
      using o i claimInsert_not_rolled_back by blast
    with claimInsert_commit(2) [OF i [unfolded oc]] same fr cap show ?thesis by simp
  qed
  from assms show "freshRun s ?id (db w)" "capacityLeft s (db w)"
    "runs (db w') = runs (db w) @ [runRow S s due ttl now]"
    by (cases rule: transaction_InrE; use body in force)+
qed

lemma transaction_claim_kept:
  assumes "transaction (claim_tx S s due ttl now) w = (Inr x, w')" "x \<noteq> LeaseAcquired"
  shows "db w' = db w"
  using assms(1)
proof (cases rule: transaction_InrE)
  case (committed w1 w2)
  then have False
    using assms(2) unfolding claim_tx_def
    by (auto simp: bindE_def attempt_def ret_def fail_def dest: claimInsert_commit(1)
        split: prod.splits sum.splits if_splits)
  then show ?thesis ..
qed

lemma getRun_Inr:
  assumes "getRun S s ident w = (Inr run, w')"
  obtains r where "r \<in> set (runs (db w))" "runIdentity s ident r" "run = runOfRow S ident r"
    "db w' = db w"
  using assms unfolding getRun_def
  by (auto elim!: bindE_InrE sqlQuery_InrE simp: ret_def dest!: selectRow_Inr)


lemma update_runs_result:
  "update_runs p f d = (Inr n, d') \<Longrightarrow> runs d' = updateWhere p f (runs d) \<and> n = matched p (runs d)"
  by (auto simp: update_runs_def)

lemma takeExpired_Some:
  assumes t: "takeExpired S s ident ttl now w = (Inr (Some run), w')" and keys: "runKeysOk (db w)"
  obtains r r' where "r \<in> set (runs (db w))" "expiredLease s ident now r"
    "r' \<in> set (runs (db w'))" "liveLease s run r'" "leaseOwner (runLease run) = workerID s"
    "trgRunID (runTrigger run) = ident" "leaseToken (runLease run) = r_fencing_token r + 1"
proof -
  from t obtain n w1 where u: "sqlCall (sql_takeExpired s ident ttl now) w = (Inr n, w1)"
    and n: "n \<noteq> 0" and g: "getRun S s ident w1 = (Inr run, w')"
    unfolding takeExpired_def by (auto elim!: bindE_InrE simp: ret_def split: if_splits)
  define f where "f = (\<lambda>r :: run_row. r\<lparr>r_status := ''leased'', r_lease_owner := Some (workerID s),
     r_lease_expires_at := Some (formatTime (now + ttl)), r_fencing_token := r_fencing_token r + 1,
     r_attempt := r_attempt r + 1, r_updated_at := formatTime now\<rparr>)"
  from u have d1: "sql_takeExpired s ident ttl now (db w) = (Inr n, db w1)"
    by (auto elim!: sqlCall_InrE)
  then have "update_runs (expiredLease s ident now) f (db w) = (Inr n, db w1)"
    unfolding sql_takeExpired_def f_def .
  from update_runs_result [OF this] have rows: "runs (db w1) = updateWhere (expiredLease s ident now) f (runs (db w))"
    and m: "n = matched (expiredLease s ident now) (runs (db w))"
    by simp_all
  have "0 < n" using n m matched_nonneg [of "expiredLease s ident now" "runs (db w)"] by linarith
  then obtain r where r: "r \<in> set (runs (db w))" "expiredLease s ident now r"
    using m by (auto simp: matched_pos)
  then have fr: "f r \<in> set (runs (db w1))" by (auto simp: rows updateWhere_def)
  from g obtain q where q: "q \<in> set (runs (db w1))" "runIdentity s ident q"
    "run = runOfRow S ident q" "db w' = db w1"
    by (rule getRun_Inr)
  have "runKeysOk (db w1)"
    using keys runKeysOk_update [OF lifecycle_statements(1), of s ident ttl now "db w"] d1 by simp
  moreover have "run_key q = run_key (f r)"
    using q(2) r(2) by (simp add: f_def run_key_def expiredLease_def runIdentity_def)
  ultimately have "q = f r"
    using q(1) fr by (auto simp: runKeysOk_def distinct_map inj_on_def)
  moreover have "runIdentity s ident r" using r(2) by (simp add: expiredLease_def)
  ultimately show thesis
    using that [of r q] r q by (simp add: runOfRow_def f_def liveLease_def runIdentity_def)
qed

lemma Claim_cases:
  assumes "Claim S s due ttl w = (Inr (Some (run, True)), w')"
  defines "now \<equiv> clock w (reads w)" and "t \<equiv> (if ttl \<le> 0 then 5 * minute else ttl)"
    and "ident \<equiv> runID (runtimeID s) (defKey (dueDefinition due)) (dueScheduledFor due)"
  obtains
    (acquired) w1 where "db w1 = db w"
      "transaction (claim_tx S s due t now) w1 = (Inr LeaseAcquired, w')" "run = claimedRun s due t now"
  | (taken) w1 where "db w1 = db w" "takeExpired S s ident t now w1 = (Inr (Some run), w')"
proof -
  define w0 where "w0 = w\<lparr>reads := Suc (reads w)\<rparr>"
  have d0: "db w0 = db w" by (simp add: w0_def)
  have "bindE (transaction (claim_tx S s due t now)) (\<lambda>end. case end of
        LeaseAcquired \<Rightarrow> ret (Some (claimedRun s due t now, True))
      | CursorMoved \<Rightarrow> ret None
      | RunExists \<Rightarrow> bindE (takeExpired S s ident t now) (\<lambda>taken. case taken of
             Some run \<Rightarrow> ret (Some (run, True))
           | None \<Rightarrow> bindE (getRun S s ident) (\<lambda>run. ret (Some (run, False))))) w0
      = (Inr (Some (run, True)), w')"
    using assms(1) unfolding Claim_def Let_def bindE_timeNow w0_def now_def t_def ident_def .
  then obtain x w1 where x: "transaction (claim_tx S s due t now) w0 = (Inr x, w1)"
    and rest: "(case x of
        LeaseAcquired \<Rightarrow> ret (Some (claimedRun s due t now, True))
      | CursorMoved \<Rightarrow> ret None
      | RunExists \<Rightarrow> bindE (takeExpired S s ident t now) (\<lambda>taken. case taken of
             Some run \<Rightarrow> ret (Some (run, True))
           | None \<Rightarrow> bindE (getRun S s ident) (\<lambda>run. ret (Some (run, False))))) w1
      = (Inr (Some (run, True)), w')"
    by (rule bindE_InrE)
  show thesis
  proof (cases x)
    case LeaseAcquired
    then show ?thesis using acquired [OF d0] x rest by (auto simp: ret_def)
  next
    case RunExists
    with rest have "takeExpired S s ident t now w1 = (Inr (Some run), w')"
      by (auto elim!: bindE_InrE simp: ret_def split: option.splits)
    moreover have "db w1 = db w"
      using transaction_claim_kept [OF x] RunExists d0 by simp
    ultimately show ?thesis using taken by blast
  qed (use rest in \<open>simp add: ret_def\<close>)
qed

text \<open>A claim gives the caller the live lease, under a token no earlier state of the run had.\<close>

lemma Claim_gives_lease:
  assumes c: "Claim S s due ttl w = (Inr (Some (run, True)), w')" and keys: "runKeysOk (db w)"
  shows "leaseOwner (runLease run) = workerID s"
    and "trgRunID (runTrigger run) =
      runID (runtimeID s) (defKey (dueDefinition due)) (dueScheduledFor due)"
    and "\<exists>r' \<in> set (runs (db w')). liveLease s run r'"
    and "\<forall>r \<in> set (runs (db w)). runIdentity s (trgRunID (runTrigger run)) r \<longrightarrow>
      r_fencing_token r < leaseToken (runLease run) \<and>
      expiredLease s (trgRunID (runTrigger run)) (clock w (reads w)) r"
proof -
  have "leaseOwner (runLease run) = workerID s \<and>
    trgRunID (runTrigger run) = runID (runtimeID s) (defKey (dueDefinition due)) (dueScheduledFor due) \<and>
    (\<exists>r' \<in> set (runs (db w')). liveLease s run r') \<and>
    (\<forall>r \<in> set (runs (db w)). runIdentity s (trgRunID (runTrigger run)) r \<longrightarrow>
      r_fencing_token r < leaseToken (runLease run) \<and>
      expiredLease s (trgRunID (runTrigger run)) (clock w (reads w)) r)"
    using c
  proof (cases rule: Claim_cases)
    case (acquired w1)
    note a = claim_tx_acquired [OF acquired(2)]
    show ?thesis
      using a(1,3) acquired(1,3)
      by (auto simp: claimedRun_def Let_def runRow_def liveLease_def freshRun_def)
  next
    case (taken w1)
    from taken(2) keys [folded taken(1)] obtain r r' where r: "r \<in> set (runs (db w1))"
      "expiredLease s (runID (runtimeID s) (defKey (dueDefinition due)) (dueScheduledFor due))
        (clock w (reads w)) r"
      "r' \<in> set (runs (db w'))" "liveLease s run r'" "leaseOwner (runLease run) = workerID s"
      "trgRunID (runTrigger run) = runID (runtimeID s) (defKey (dueDefinition due)) (dueScheduledFor due)"
      "leaseToken (runLease run) = r_fencing_token r + 1"
      by (rule takeExpired_Some)
    have "q = r" if "q \<in> set (runs (db w))" "runIdentity s (trgRunID (runTrigger run)) q" for q
    proof -
      have "run_key q = run_key r"
        using that(2) r(2,6) by (simp add: expiredLease_def runIdentity_def run_key_def)
      then show ?thesis
        using keys that(1) r(1) taken(1) by (auto simp: runKeysOk_def distinct_map inj_on_def)
    qed
    with r show ?thesis by auto
  qed
  then show "leaseOwner (runLease run) = workerID s"
    and "trgRunID (runTrigger run) =
      runID (runtimeID s) (defKey (dueDefinition due)) (dueScheduledFor due)"
    and "\<exists>r' \<in> set (runs (db w')). liveLease s run r'"
    and "\<forall>r \<in> set (runs (db w)). runIdentity s (trgRunID (runTrigger run)) r \<longrightarrow>
      r_fencing_token r < leaseToken (runLease run) \<and>
      expiredLease s (trgRunID (runTrigger run)) (clock w (reads w)) r"
    by blast+
qed

end
