(* ===== verification/Scheduler_Examples.thy ===== *)
theory Scheduler_Examples
  imports Run_Leases
begin

text \<open>
  Concrete instances the theorems are applied to: an SDK whose codecs and validators are the simplest
  functions that satisfy what the Scheduler relies on, two workers of one Runtime, one definition,
  and worlds in which every call works.
\<close>

definition exSchedule :: Schedule where
  "exSchedule = \<lparr>scheduleType = ''interval'', scheduleExpression = ''1h'', scheduleTimezone = ''UTC'',
     scheduleTimeOfDay = [], scheduleDayOfWeek = [], scheduleIntervalSeconds = 0, scheduleDayOfMonth = 0, scheduleRest = []\<rparr>"

definition exPolicy :: Policy where
  "exPolicy = \<lparr>policyMisfire = ''skip'', policyMisfireGrace = minute, policyMaxAttempts = 1,
     policyRetryInitial = 30 * second, policyRetryMax = 15 * minute, policyTimeout = 5 * minute,
     policyMaxCatchupWindows = 0, policyRest = []\<rparr>"

definition exTarget :: TargetRef where
  "exTarget = \<lparr>targetType = ''http'', targetOwner = ''billing'', targetOperation = ''close'',
     targetConnectionKey = [], targetDispatchMode = [], targetPayload = [], targetObjectKey = [], targetRunAsRole = [], targetRest = []\<rparr>"

definition exDefinition :: Definition where
  "exDefinition = \<lparr>defKey = ''nightly'', defName = ''Nightly'', defStatus = ''enabled'',
     defRevision = ''1'', defSchedule = exSchedule, defPolicy = exPolicy, defTarget = exTarget,
     defInitialNextRunAt = 0, defDescription = [], defI18n = [], defRest = []\<rparr>"

definition exReceipt :: DownstreamReceipt where
  "exReceipt = \<lparr>receiptID = ''rc-1'', receiptOwner = ''billing'', receiptStatus = ''accepted'', receiptReplay = False, receiptRest = []\<rparr>"

definition exSdk :: Sdk where
  "exSdk = \<lparr>sentinelText = (\<lambda>_. ''sentinel''),
     uniqueViolation = (\<lambda>t. DriverError (''UNIQUE constraint failed: '' @ t)),
     normalizeDefinition = (\<lambda>d. d), validateDefinition = (\<lambda>_. None), validateSchedule = (\<lambda>_. None),
     nextSchedule = (\<lambda>_ t. t + 3600 * second), scheduleKind = scheduleType,
     resolveMisfire = (\<lambda>_ _ c now _. \<lparr>misfireWindows = [c], misfireCursorAfter = now + 3600 * second,
        misfireDisable = False\<rparr>),
     validateFence = (\<lambda>_. None), validateCursor = (\<lambda>_. None), contentSHA256 = (\<lambda>_. Inr ''content''),
     marshalDefinition = (\<lambda>_. Inr ''definition''), unmarshalDefinition = (\<lambda>_. Inr exDefinition),
     marshalDefinitions = (\<lambda>_. Inr ''definitions''),
     marshalTarget = (\<lambda>_. Inr ''target''), unmarshalTarget = (\<lambda>_. Inr exTarget),
     targetAfterUnmarshal = (\<lambda>_. exTarget), marshalReceipt = (\<lambda>_. Inr ''receipt''),
     receiptAfterUnmarshal = (\<lambda>_. exReceipt),
     marshalPlanTrigger = (\<lambda>_. Inr ''trigger''),
     unmarshalPlanTrigger = (\<lambda>_. Inr \<lparr>planTriggerType = ''recurring'', planTriggerAt = None,
        planTriggerSchedule = Some exSchedule, planTriggerPolicy = exPolicy\<rparr>),
     marshalActions = (\<lambda>_. Inr ''actions''), unmarshalActions = (\<lambda>_. Inr []),
     defaultMaxPendingTriggers = 100, fenceEqual = (=),
     sessionFence = (\<lambda>p. Inr \<lparr>fenceGeneration = sessionGeneration p,
        fenceSessionSHA256 = sha256Hex (sessionNonce p)\<rparr>),
     validateModuleSnapshot = (\<lambda>_. None), validateOwner = (\<lambda>_. None), validatePlanCreate = (\<lambda>_. None),
     normalizeTarget = (\<lambda>t. t), marshalPlanCreate = (\<lambda>_. Inr ''create''),
     marshalDispatch = (\<lambda>_. Inr ''dispatch''), retryDelay = (\<lambda>base _ _. base),
     planStatusEnabled = ''enabled'', planStatusDisabled = ''disabled'', planStatusPaused = ''paused'',
     planStatusDeleted = ''deleted'', planTriggerOnce = ''once'', planTriggerRecurring = ''recurring'',
     planMisfireCatchOne = ''catch_one'', planMisfireSkip = ''skip''\<rparr>"

lemma exSdk_simps [simp]:
  "marshalDefinition exSdk d = Inr ''definition''" "validateFence exSdk f = None"
  "contentSHA256 exSdk ds = Inr ''content''" "normalizeDefinition exSdk d = d"
  "validateDefinition exSdk d = None" "validateSchedule exSdk sch = None"
  "unmarshalDefinition exSdk v = Inr exDefinition" "validateCursor exSdk c = None"
  by (simp_all add: exSdk_def)

definition exNoon :: time where
  "exNoon = unixEpoch + 1767268800 * second"

definition exStore :: "string \<Rightarrow> Store" where
  "exStore workerName = \<lparr>runtimeID = ''rt'', workerID = workerName, maxPendingTriggers = 2\<rparr>"

definition exWorld :: "database \<Rightarrow> time \<Rightarrow> database world" where
  "exWorld d t = \<lparr>db = d, clock = (\<lambda>_. t), reads = 0, fault = (\<lambda>_. None), calls = 0,
     entropy = (\<lambda>_. replicate 32 CHR ''x''), draws = 0\<rparr>"

definition exDue :: DueTrigger where
  "exDue = \<lparr>dueDefinition = exDefinition, dueScheduledFor = exNoon, dueExpectedCursor = 0,
     dueNextRunAt = 0, dueMetadata = []\<rparr>"

lemma healthy_exWorld [simp]: "healthy (exWorld d t)"
  by (simp add: healthy_def exWorld_def)

text \<open>The first worker's claim at noon, on an empty database.\<close>

definition exClaimed :: database where
  "exClaimed = db (snd (Claim exSdk (exStore ''a'') exDue minute (exWorld emptyDatabase exNoon)))"

lemma exClaim:
  "Claim exSdk (exStore ''a'') exDue minute (exWorld emptyDatabase exNoon) =
    (Inr (Some (claimedRun (exStore ''a'') exDue minute exNoon, True)),
     snd (Claim exSdk (exStore ''a'') exDue minute (exWorld emptyDatabase exNoon)))"
  "runs exClaimed = [runRow exSdk (exStore ''a'') exDue minute exNoon]"
  unfolding exClaimed_def
  by (simp_all add: Claim_def claim_tx_def claimInsert_tx_def lockTriggerCapacity_def
      checkTriggerCapacity_def pendingTriggerCount_def claimCursor_def eventWith_def go_unfold
      sql_unfold exWorld_def emptyDatabase_def selectRow_def exDue_def exStore_def minute_def second_def)


text \<open>The second worker's claim two minutes later, when the lease has expired.\<close>

lemma exExpired: "formatTime (exNoon + minute) \<le> formatTime (exNoon + 2 * minute)"
  by (rule less_imp_le, rule formatTime_less)
    (simp_all add: exNoon_def unixEpoch_def minute_def second_def maxTime_def)

definition exTaken :: Run where
  "exTaken = runOfRow exSdk (runID ''rt'' ''nightly'' exNoon)
     ((runRow exSdk (exStore ''a'') exDue minute exNoon)
        \<lparr>r_lease_owner := Some ''b'', r_lease_expires_at := Some (formatTime (exNoon + 2 * minute + minute)),
         r_fencing_token := 2, r_attempt := 2, r_updated_at := formatTime (exNoon + 2 * minute)\<rparr>)"

lemma exTakeover:
  "Claim exSdk (exStore ''b'') exDue minute (exWorld exClaimed (exNoon + 2 * minute)) =
    (Inr (Some (exTaken, True)),
     snd (Claim exSdk (exStore ''b'') exDue minute (exWorld exClaimed (exNoon + 2 * minute))))"
  using exExpired
  by (simp add: Claim_def claim_tx_def lockTriggerCapacity_def takeExpired_def sql_takeExpired_def
      getRun_def go_unfold sql_unfold exWorld_def exClaim(2) selectRow_def exDue_def exStore_def
      exTaken_def runRow_def exDefinition_def runIdentity_def expiredLease_def nullLE_def Let_def minute_def
      second_def)


text \<open>The leased run alone, and its reports. The policy of the example allows one attempt.\<close>

definition exRun :: Run where
  "exRun = claimedRun (exStore ''a'') exDue minute exNoon"

definition exStateRow :: definition_state_row where
  "exStateRow = \<lparr>ds_runtime_id = ''rt'', ds_definition_key = ''nightly'', ds_revision = ''1'',
     ds_enabled = True, ds_definition_json = ''definition'', ds_next_run_at = formatTime exNoon,
     ds_last_run_at = None, ds_last_run_status = None, ds_snapshot_revision = 0, ds_updated_at = [],
     ds_source_kind = definitionStateSourceRuntime\<rparr>"

definition exLeased :: database where
  "exLeased = emptyDatabase\<lparr>definition_states := [exStateRow],
     runs := [runRow exSdk (exStore ''a'') exDue minute exNoon]\<rparr>"

lemma exTrim [simp]: "trimSpace ''nightly'' = ''nightly''"
  by code_simp

lemma exDefinitionFound:
  "definitionByKey exSdk (exStore ''a'') ''nightly'' (exWorld (exLeased\<lparr>dead_letters := dls\<rparr>) t) =
    (Inr (Some exDefinition), (exWorld (exLeased\<lparr>dead_letters := dls\<rparr>) t)\<lparr>calls := 1\<rparr>)"
  by (simp add: definitionByKey_def go_unfold exWorld_def exLeased_def exStateRow_def selectRow_def
      definitionIdentity_def exStore_def exSdk_def)

lemma exLeased_dead_letters: "exLeased\<lparr>dead_letters := []\<rparr> = exLeased"
  by (simp add: exLeased_def emptyDatabase_def)

lemma exAccept:
  "Accept exSdk (exStore ''a'') exRun exReceipt (exWorld exLeased exNoon) =
    (Inr (), snd (Accept exSdk (exStore ''a'') exRun exReceipt (exWorld exLeased exNoon)))"
  by (simp add: Accept_def finish_def finish_tx_def eventWith_def sql_finish_def go_unfold sql_unfold
      exWorld_def exLeased_def emptyDatabase_def exRun_def claimedRun_def runRow_def liveLease_def
      exStore_def Let_def)

lemma exFail:
  "Fail exSdk (exStore ''a'') exRun (Errorf ''boom'') exNoon (exWorld exLeased exNoon) =
    (Inr (), snd (Fail exSdk (exStore ''a'') exRun (Errorf ''boom'') exNoon (exWorld exLeased exNoon)))"
proof -
  have key: "trgDefinitionKey (runTrigger exRun) = ''nightly''"
    by (simp add: exRun_def claimedRun_def Let_def exDue_def exDefinition_def)
  show ?thesis
    by (simp add: Fail_def key definitionByKey_def selectRow_def exStateRow_def definitionIdentity_def
        exSdk_def fail_tx_def insertDeadLetter_def
        eventWith_def sql_fail_def go_unfold sql_unfold exWorld_def exLeased_def emptyDatabase_def
        exRun_def claimedRun_def runRow_def liveLease_def exStore_def Let_def)
qed


section \<open>Cursors\<close>

lemma exReconcile:
  "Reconcile exSdk (exStore ''a'') exDefinition (exNoon + second) (exWorld exLeased exNoon) =
    (Inr (), snd (Reconcile exSdk (exStore ''a'') exDefinition (exNoon + second) (exWorld exLeased exNoon)))"
  by (simp add: Reconcile_def reconcileWith_def reconcileSame_def sql_reconcileChanged_def
      sql_reconcileStable_def go_unfold sql_unfold exWorld_def exLeased_def exStateRow_def
      definitionSourceIdentity_def definitionIdentity_def exDefinition_def exStore_def Let_def)

definition exFence :: DefinitionPublisherFence where
  "exFence = \<lparr>fenceGeneration = 3, fenceSessionSHA256 = ''session''\<rparr>"

definition exSnapshot :: DefinitionSnapshot where
  "exSnapshot = \<lparr>snapRevision = 4, snapSchemaVersion = ''4'', snapSchemaHash = ''content'',
     snapSourceKind = ''runtime_host'', snapSourceID = ''rt'', snapDefinitions = [exDefinition],
     snapFence = Some exFence, snapContentSHA256 = ''content''\<rparr>"

definition exPublicationRow :: publication_row where
  "exPublicationRow = \<lparr>pb_source_kind = ''runtime_host'', pb_source_id = ''rt'', pb_active_generation = 3,
     pb_active_session_sha256 = ''session'', pb_cursor_generation = Some 3,
     pb_cursor_session_sha256 = Some ''session'', pb_cursor_revision = Some 4,
     pb_cursor_content_sha256 = Some ''content'', pb_updated_at = []\<rparr>"

definition exPublished :: database where
  "exPublished = emptyDatabase\<lparr>definition_publications := [exPublicationRow]\<rparr>"

lemma exApply:
  "ApplyDefinitionSnapshot exSdk (exStore ''a'') exSnapshot exNoon (exWorld exPublished exNoon) =
    (Inr True, snd (ApplyDefinitionSnapshot exSdk (exStore ''a'') exSnapshot exNoon (exWorld exPublished exNoon)))"
proof -
  have t: "trimSpace ''runtime_host'' = ''runtime_host''" "trimSpace ''rt'' = ''rt''"
    "isBlank ''content'' = False" "equalFold (trimSpace ''enabled'') ''enabled''"
    by code_simp+
  have en: "enabledStatus exDefinition" using t(4) by (simp add: enabledStatus_def exDefinition_def)
  show ?thesis
    by (simp add: ApplyDefinitionSnapshot_def applySnapshot_tx_def lockDefinitionSnapshotCursor_def
        applyDefinition_def reconcileWith_def reconcileSame_def reconcileNew_def disableMissingWith_def
        sql_reconcileChanged_def sql_reconcileStable_def sql_reconcileInsert_def scanCursor_def en t
        go_unfold sql_unfold exWorld_def exPublished_def emptyDatabase_def exPublicationRow_def
        exSnapshot_def exFence_def publicationIdentity_def runtimeDefinitionSourceKind_def exStore_def Let_def
        selectRow_def)
qed

lemma exClaimWindow:
  "Claim exSdk (exStore ''a'') (exDue\<lparr>dueExpectedCursor := exNoon\<rparr>) minute
     (exWorld (emptyDatabase\<lparr>definition_states := [exStateRow]\<rparr>) exNoon) =
   (Inr (Some (claimedRun (exStore ''a'') (exDue\<lparr>dueExpectedCursor := exNoon\<rparr>) minute exNoon, True)),
    snd (Claim exSdk (exStore ''a'') (exDue\<lparr>dueExpectedCursor := exNoon\<rparr>) minute
     (exWorld (emptyDatabase\<lparr>definition_states := [exStateRow]\<rparr>) exNoon)))"
  by (simp add: Claim_def claim_tx_def claimInsert_tx_def lockTriggerCapacity_def
      checkTriggerCapacity_def pendingTriggerCount_def claimCursor_def advanceCursorWith_def eventWith_def
      go_unfold sql_unfold exWorld_def emptyDatabase_def selectRow_def exDue_def exStore_def minute_def
      second_def exStateRow_def definitionIdentity_def exDefinition_def Let_def)

lemma exClaimMoved:
  "Claim exSdk (exStore ''a'') (exDue\<lparr>dueExpectedCursor := exNoon\<rparr>) minute (exWorld emptyDatabase exNoon) =
   (Inr None, snd (Claim exSdk (exStore ''a'') (exDue\<lparr>dueExpectedCursor := exNoon\<rparr>) minute
     (exWorld emptyDatabase exNoon)))"
proof -
  have "exNoon \<noteq> 0" by (simp add: exNoon_def unixEpoch_def second_def)
  then show ?thesis
    by (simp add: Claim_def claim_tx_def claimInsert_tx_def lockTriggerCapacity_def
        checkTriggerCapacity_def pendingTriggerCount_def claimCursor_def advanceCursorWith_def
        go_unfold sql_unfold exWorld_def emptyDatabase_def selectRow_def exDue_def exStore_def minute_def
        second_def Let_def)
qed

end
