(* ===== verification/Run_Reports.thy ===== *)
theory Run_Reports
  imports Scheduler_Examples
begin

text \<open>
  The reports of a lease holder and the operator's commands, branch by branch: what \<^verbatim>\<open>Accept\<close>, \<^verbatim>\<open>Fail\<close>,
  \<^verbatim>\<open>Retry\<close> and \<^verbatim>\<open>Cancel\<close> do to the tables when they succeed, and that a report that returns an error
  left the database as it was.
\<close>

section \<open>Successful transactions\<close>

lemma nullable_simps [simp]:
  "nullable [] = None" "nullable ''succeeded'' = Some ''succeeded''"
  by (simp add: nullable_def isBlank_def) code_simp

definition eventOf :: "Store \<Rightarrow> string \<Rightarrow> string \<Rightarrow> string \<Rightarrow> time \<Rightarrow> time \<Rightarrow> event_row" where
  "eventOf s run kind message t1 t2 =
     \<lparr>ev_runtime_id = runtimeID s,
      ev_event_id = run @ '':'' @ kind @ '':'' @ formatInt (unixNano t1),
      ev_run_id = run, ev_event_type = kind, ev_message = nullable message,
      ev_metadata_json = None, ev_created_at = formatTime t2\<rparr>"

lemma eventWith_Inr:
  assumes "eventWith S s run kind message w = (Inr u, w')"
  shows "db w' = (db w)\<lparr>run_events := run_events (db w) @
      [eventOf s run kind message (clock w (reads w)) (clock w (Suc (reads w)))]\<rparr>"
  using assms unfolding eventWith_def bindE_timeNow eventOf_def
  by (auto elim!: bindE_InrE sqlCall_InrE simp: ret_def insert_run_events_def split: if_splits)

lemma transaction_Commit_only:
  assumes t: "transaction body w = (Inr x, w')"
    and no: "\<And>v y v'. body v \<noteq> (Inr (Rollback y), v')"
  obtains w1 w2 where "w1 = w\<lparr>calls := Suc (calls w)\<rparr>" "body w1 = (Inr (Commit x), w2)" "db w' = db w2"
  using t no
  by (auto simp: transaction_def bindE_def envCall_def split: option.splits prod.splits sum.splits
      txout.splits)

lemma finish_Inr:
  assumes "finish S s run status receipt lastError w = (Inr u, w')"
  shows "matched (liveLease s run) (runs (db w)) = 1"
    and "\<exists>e. ev_run_id e = trgRunID (runTrigger run) \<and> ev_event_type e = ''state_changed'' \<and>
      ev_message e = nullable status \<and>
      db w' = (db w)\<lparr>runs := updateWhere (liveLease s run)
         (\<lambda>r. r\<lparr>r_status := status, r_receipt_json := nullable receipt,
                r_last_error := nullable lastError, r_lease_owner := None, r_lease_expires_at := None,
                r_updated_at := formatTime (clock w (reads w))\<rparr>) (runs (db w)),
        run_events := run_events (db w) @ [e]\<rparr>"
proof -
  define v where "v = w\<lparr>reads := Suc (reads w)\<rparr>"
  have "transaction (finish_tx S s run status receipt lastError (clock w (reads w))) v = (Inr u, w')"
    using assms by (simp add: finish_def bindE_timeNow v_def)
  then obtain w1 w2 where w1: "w1 = v\<lparr>calls := Suc (calls v)\<rparr>"
    and b: "finish_tx S s run status receipt lastError (clock w (reads w)) w1 = (Inr (Commit u), w2)"
    and d: "db w' = db w2"
    by (rule transaction_Commit_only)
      (auto simp: finish_tx_def bindE_def fail_def ret_def split: prod.splits sum.splits if_splits)
  from b obtain n w3 u' w4 where q: "sql_finish s run status receipt lastError (clock w (reads w)) (db w1) = (Inr n, db w3)"
    and n: "n = 1" and e: "eventWith S s (trgRunID (runTrigger run)) ''state_changed'' status w3 = (Inr u', w2)"
    unfolding finish_tx_def
    by (auto elim!: bindE_InrE sqlCall_InrE simp: fail_def ret_def split: if_splits)
  have w: "db w1 = db w" by (simp add: w1 v_def)
  show "matched (liveLease s run) (runs (db w)) = 1"
    using q n w by (simp add: sql_finish_def update_runs_def)
  show "\<exists>e. ev_run_id e = trgRunID (runTrigger run) \<and> ev_event_type e = ''state_changed'' \<and>
      ev_message e = nullable status \<and>
      db w' = (db w)\<lparr>runs := updateWhere (liveLease s run)
         (\<lambda>r. r\<lparr>r_status := status, r_receipt_json := nullable receipt,
                r_last_error := nullable lastError, r_lease_owner := None, r_lease_expires_at := None,
                r_updated_at := formatTime (clock w (reads w))\<rparr>) (runs (db w)),
        run_events := run_events (db w) @ [e]\<rparr>"
    using q eventWith_Inr [OF e] d w
    by (intro exI conjI) (auto simp: sql_finish_def update_runs_def eventOf_def dest!: sym [of _ "db w3"])
qed


lemma insertDeadLetter_Inr:
  assumes "insertDeadLetter S s run failure w = (Inr u, w')"
  shows "(runtimeID s, trgRunID (runTrigger run)) \<notin> set (map dead_letter_key (dead_letters (db w)))"
    and "db w' = (db w)\<lparr>dead_letters := dead_letters (db w) @
      [\<lparr>dl_runtime_id = runtimeID s, dl_run_id = trgRunID (runTrigger run),
        dl_definition_key = trgDefinitionKey (runTrigger run), dl_reason = failure,
        dl_failed_at = formatTime (clock w (reads w)), dl_resolved_at = None\<rparr>]\<rparr>"
  using assms unfolding insertDeadLetter_def bindE_timeNow
  by (auto elim!: bindE_InrE sqlCall_InrE simp: ret_def insert_dead_letters_def dead_letter_key_def
      split: if_splits)

definition failedRow :: "bool \<Rightarrow> string \<Rightarrow> time \<Rightarrow> time \<Rightarrow> run_row \<Rightarrow> run_row" where
  "failedRow terminal failure retryAt now r =
     r\<lparr>r_status := (if terminal then ''dead_letter'' else ''retrying''), r_last_error := Some failure,
       r_lease_owner := None, r_lease_expires_at := None, r_updated_at := formatTime now,
       r_next_retry_at := (if terminal then None else Some (formatTime retryAt))\<rparr>"

lemma fail_tx_Inr:
  assumes "fail_tx S s run terminal failure retryAt now w = (Inr out, w')"
  shows "out = Commit ()"
    and "matched (liveLease s run) (runs (db w)) = 1"
    and "runs (db w') = updateWhere (liveLease s run) (failedRow terminal failure retryAt now) (runs (db w))"
    and "terminal \<Longrightarrow> (runtimeID s, trgRunID (runTrigger run)) \<notin> set (map dead_letter_key (dead_letters (db w)))"
    and "terminal \<Longrightarrow> \<exists>dl. dead_letters (db w') = dead_letters (db w) @ [dl] \<and>
      dead_letter_key dl = (runtimeID s, trgRunID (runTrigger run)) \<and> dl_reason dl = failure \<and>
      dl_resolved_at dl = None"
    and "\<not> terminal \<Longrightarrow> dead_letters (db w') = dead_letters (db w)"
    and "definition_states (db w') = definition_states (db w)"
proof -
  from assms obtain n w1 where c: "sqlCall (sql_fail s run terminal failure retryAt now) w = (Inr n, w1)"
    and rest: "(if n \<noteq> 1 then fail (leaseLost run) else
     bindE (if terminal then insertDeadLetter S s run failure else ret ()) (\<lambda>_.
     bindE (eventWith S s (trgRunID (runTrigger run))
              (if terminal then ''dead_lettered'' else ''retry_scheduled'') failure) (\<lambda>_.
     ret (Commit ())))) w1 = (Inr out, w')"
    unfolding fail_tx_def by (rule bindE_InrE)
  have q: "sql_fail s run terminal failure retryAt now (db w) = (Inr n, db w1)"
    using c by (auto elim: sqlCall_InrE)
  have n: "n = 1" using rest by (simp add: fail_def split: if_splits)
  with rest have "bindE (if terminal then insertDeadLetter S s run failure else ret ()) (\<lambda>_.
     bindE (eventWith S s (trgRunID (runTrigger run))
              (if terminal then ''dead_lettered'' else ''retry_scheduled'') failure) (\<lambda>_.
     ret (Commit ()))) w1 = (Inr out, w')" by simp
  then obtain u1 w2 where l: "(if terminal then insertDeadLetter S s run failure else ret ()) w1 = (Inr u1, w2)"
    and rest2: "bindE (eventWith S s (trgRunID (runTrigger run))
              (if terminal then ''dead_lettered'' else ''retry_scheduled'') failure) (\<lambda>_.
     ret (Commit ())) w2 = (Inr out, w')" by (rule bindE_InrE)
  from rest2 obtain u2 where e: "eventWith S s (trgRunID (runTrigger run))
      (if terminal then ''dead_lettered'' else ''retry_scheduled'') failure w2 = (Inr u2, w')"
    and out: "out = Commit ()"
    by (auto elim!: bindE_InrE simp: ret_def)
  have "db w1 = (db w)\<lparr>runs := updateWhere (liveLease s run) (failedRow terminal failure retryAt now) (runs (db w))\<rparr>"
    "matched (liveLease s run) (runs (db w)) = 1"
    using q n by (auto simp: sql_fail_def update_runs_def failedRow_def [abs_def])
  moreover have "db w2 = db w1" if "\<not> terminal" using l that by (simp add: ret_def)
  moreover have "insertDeadLetter S s run failure w1 = (Inr u1, w2)" if terminal using l that by simp
  note insertDeadLetter_Inr [OF this]
  moreover note out eventWith_Inr [OF e]
  ultimately show "out = Commit ()"
    and "matched (liveLease s run) (runs (db w)) = 1"
    and "runs (db w') = updateWhere (liveLease s run) (failedRow terminal failure retryAt now) (runs (db w))"
    and "terminal \<Longrightarrow> (runtimeID s, trgRunID (runTrigger run)) \<notin> set (map dead_letter_key (dead_letters (db w)))"
    and "terminal \<Longrightarrow> \<exists>dl. dead_letters (db w') = dead_letters (db w) @ [dl] \<and>
      dead_letter_key dl = (runtimeID s, trgRunID (runTrigger run)) \<and> dl_reason dl = failure \<and>
      dl_resolved_at dl = None"
    and "\<not> terminal \<Longrightarrow> dead_letters (db w') = dead_letters (db w)"
    and "definition_states (db w') = definition_states (db w)"
    by (cases terminal; simp add: dead_letter_key_def)+
qed

lemma Fail_split:
  assumes "Fail S s run failure retryAt w = (q, w')"
  obtains (unread) e where "q = Inl e" "db w' = db w"
  | (reported) found v where "definitionByKey S s (trgDefinitionKey (runTrigger run)) w = (Inr found, v)"
      "transaction (fail_tx S s run (trgAttempt (runTrigger run) \<ge> maxAttemptsOf found)
         (errorText S failure) retryAt (clock v (reads v))) (v\<lparr>reads := Suc (reads v)\<rparr>) = (q, w')"
      "db v = db w"
proof -
  obtain p v where p: "definitionByKey S s (trgDefinitionKey (runTrigger run)) w = (p, v)" by fastforce
  have d: "db v = db w" using readonlyD [OF readonly_reads(3) p] .
  show thesis
  proof (cases p)
    case (Inl e)
    then show ?thesis using unread [of e] assms p d by (simp add: Fail_def bindE_def)
  next
    case (Inr found)
    then show ?thesis
      using reported [of found v] assms p d
      by (simp add: Fail_def bindE_def [of "definitionByKey _ _ _"] bindE_timeNow)
  qed
qed


lemma eventWith_healthy:
  assumes "healthy w" "\<forall>e \<in> set (run_events (db w)). ev_event_id e \<noteq>
      run @ '':'' @ kind @ '':'' @ formatInt (unixNano (clock w (reads w)))"
  obtains w' where "eventWith S s run kind message w = (Inr (), w')" "healthy w'"
    "runs (db w') = runs (db w)"
proof -
  have "\<exists>w'. eventWith S s run kind message w = (Inr (), w') \<and> healthy w' \<and> runs (db w') = runs (db w)"
    using assms unfolding eventWith_def bindE_timeNow
    by (auto simp: bindE_def sqlCall_healthy insert_run_events_def event_key_def ret_def image_iff)
  then show thesis using that by blast
qed

section \<open>Requeueing\<close>

definition requeuedRow :: "time \<Rightarrow> run_row \<Rightarrow> run_row" where
  "requeuedRow now r = r\<lparr>r_status := ''retrying'', r_next_retry_at := Some (formatTime now),
     r_lease_owner := None, r_lease_expires_at := None, r_updated_at := formatTime now\<rparr>"

text \<open>A run that may be requeued: it exists, is dead, and the Runtime has room for one more.\<close>

definition requeueable :: "Store \<Rightarrow> string \<Rightarrow> database world \<Rightarrow> run_row \<Rightarrow> bool" where
  "requeueable s ident w r \<longleftrightarrow> healthy w \<and> runKeysOk (db w) \<and> r \<in> set (runs (db w)) \<and>
     runIdentity s (trimSpace ident) r \<and> (r_status r = ''dead_letter'' \<or> r_status r = ''failed'') \<and>
     capacityLeft s (db w) \<and>
     (\<forall>e \<in> set (run_events (db w)). ev_event_id e \<noteq>
        ident @ '':retry_scheduled:'' @ formatInt (unixNano (clock w (Suc (reads w)))))"

lemma capacity_lock_runs [simp]:
  "runs (snd (insert_ignore_capacity_guards g d)) = runs d"
  "runs (snd (update_capacity_guards p f d)) = runs d"
  "run_events (snd (insert_ignore_capacity_guards g d)) = run_events d"
  "run_events (snd (update_capacity_guards p f d)) = run_events d"
  "isl (fst (insert_ignore_capacity_guards g d)) = False"
  "isl (fst (update_capacity_guards p f d)) = False"
  by (simp_all add: sql_unfold)

lemma lockTriggerCapacity_healthy:
  assumes "healthy w"
  obtains w' where "lockTriggerCapacity s w = (Inr (), w')" "healthy w'" "runs (db w') = runs (db w)"
    "run_events (db w') = run_events (db w)" "clock w' = clock w" "reads w' = reads w"
proof -
  define w1 where "w1 = snd (sqlCall (insert_ignore_capacity_guards
    \<lparr>cg_runtime_id = runtimeID s, cg_revision = 1\<rparr>) w)"
  define w2 where "w2 = snd (sqlCall (update_capacity_guards (\<lambda>r. cg_runtime_id r = runtimeID s)
     (\<lambda>r. r\<lparr>cg_revision := 1\<rparr>)) w1)"
  have h1: "healthy w1" using assms by (simp add: w1_def sqlCall_healthy)
  have "lockTriggerCapacity s w = (Inr (), w2)"
    using assms h1
    by (auto simp: lockTriggerCapacity_def bindE_def w1_def w2_def sqlCall_healthy ret_def sql_unfold)
  then show thesis
    by (rule that) (use assms h1 in \<open>simp_all add: w1_def w2_def sqlCall_healthy\<close>)
qed

lemma Retry_requeues:
  assumes "requeueable s ident w r"
  shows "\<exists>w'. Retry S s ident reason w = getRun S s ident w' \<and> healthy w' \<and>
    runs (db w') = updateWhere (\<lambda>q. runIdentity s (trimSpace ident) q \<and>
       (r_status q = ''failed'' \<or> r_status q = ''dead_letter'')) (requeuedRow (clock w (reads w))) (runs (db w))"
proof -
  let ?p = "\<lambda>q. runIdentity s (trimSpace ident) q \<and> (r_status q = ''failed'' \<or> r_status q = ''dead_letter'')"
  have h: "healthy w" and k: "runKeysOk (db w)" and r: "r \<in> set (runs (db w))"
    "runIdentity s (trimSpace ident) r" "r_status r = ''dead_letter'' \<or> r_status r = ''failed''"
    and c: "capacityLeft s (db w)"
    and ev: "\<forall>e \<in> set (run_events (db w)). ev_event_id e \<noteq>
        ident @ '':retry_scheduled:'' @ formatInt (unixNano (clock w (Suc (reads w))))"
    using assms unfolding requeueable_def by blast+
  have one: "matched ?p (runs (db w)) = 1"
    using k r unfolding runKeysOk_def
    by (intro matched_one [where k = run_key and x = "(runtimeID s, trimSpace ident)"])
      (auto simp: run_key_def runIdentity_def)
  have sel: "selectRow (runIdentity s (trimSpace ident)) (runs (db w)) = Inr r"
    using k r unfolding runKeysOk_def
    by (intro selectRow_unique [where k = run_key and x = "(runtimeID s, trimSpace ident)"])
      (auto simp: run_key_def runIdentity_def)
  define v where "v = w\<lparr>reads := Suc (reads w), calls := Suc (calls w)\<rparr>"
  have hv: "healthy v" using h by (simp add: v_def)
  obtain v1 where v1: "lockTriggerCapacity s v = (Inr (), v1)" "healthy v1" "runs (db v1) = runs (db v)"
    "run_events (db v1) = run_events (db v)" "clock v1 = clock v" "reads v1 = reads v"
    using hv by (rule lockTriggerCapacity_healthy)
  define q1 where "q1 = v1\<lparr>calls := Suc (Suc (calls v1))\<rparr>"
  have sel1: "sqlQuery (\<lambda>d. selectRow (runIdentity s (trimSpace ident)) (runs d)) v1 =
      (Inr r, v1\<lparr>calls := Suc (calls v1)\<rparr>)"
    using v1(2,3) sel by (simp add: sqlQuery_def sqlCall_healthy v_def)
  have check: "checkTriggerCapacity s (v1\<lparr>calls := Suc (calls v1)\<rparr>) = (Inr (), q1)"
    using v1(2,3) c
    by (simp add: checkTriggerCapacity_def pendingTriggerCount_def sqlQuery_def bindE_def
        sqlCall_healthy capacityLeft_def v_def q1_def ret_def)
  define q2 where "q2 = q1\<lparr>calls := Suc (calls q1), db := (db q1)\<lparr>runs :=
    updateWhere ?p (requeuedRow (clock w (reads w))) (runs (db w))\<rparr>\<rparr>"
  have upd: "sqlCall (sql_retry s ident (clock w (reads w))) q1 = (Inr 1, q2)"
    using v1(2,3) one
    by (simp add: q1_def q2_def sqlCall_healthy sql_retry_def update_runs_def v_def requeuedRow_def [abs_def])
  define q3 where "q3 = snd (sqlCall (sql_resolve s ident (clock w (reads w))) q2)"
  obtain n where res: "sqlCall (sql_resolve s ident (clock w (reads w))) q2 = (Inr n, q3)"
    using v1(2) by (simp add: q3_def q2_def q1_def sqlCall_healthy sql_resolve_def update_dead_letters_def)
  have q3: "healthy q3" "runs (db q3) = updateWhere ?p (requeuedRow (clock w (reads w))) (runs (db w))"
    "run_events (db q3) = run_events (db w)" "clock q3 = clock w" "reads q3 = Suc (reads w)"
    using v1
    by (simp_all add: q3_def q2_def q1_def sqlCall_healthy sql_resolve_def update_dead_letters_def v_def)
  obtain v2 where e: "eventWith S s ident ''retry_scheduled'' (trimSpace reason) q3 = (Inr (), v2)"
    "healthy v2" "runs (db v2) = runs (db q3)"
    by (rule eventWith_healthy [of q3 ident "''retry_scheduled''" S s "trimSpace reason"]) (use q3 ev in auto)
  have st: "\<not> (r_status r \<noteq> ''failed'' \<and> r_status r \<noteq> ''dead_letter'')" using r(3) by auto
  have "retry_tx S s ident reason (clock w (reads w)) v = (Inr (Commit ()), v2)"
    using st by (auto simp: retry_tx_def bindE_def attempt_def v1(1) sel1 check upd res e(1) ret_def)
  with e q3 have "\<exists>v2. retry_tx S s ident reason (clock w (reads w)) v = (Inr (Commit ()), v2) \<and> healthy v2 \<and>
    runs (db v2) = updateWhere ?p (requeuedRow (clock w (reads w))) (runs (db w))"
    by auto
  then obtain v2 where v2: "retry_tx S s ident reason (clock w (reads w)) v = (Inr (Commit ()), v2)"
    "healthy v2" "runs (db v2) = updateWhere ?p (requeuedRow (clock w (reads w))) (runs (db w))"
    by blast
  have "transaction (retry_tx S s ident reason (clock w (reads w))) (w\<lparr>reads := Suc (reads w)\<rparr>) =
      (Inr (), v2\<lparr>calls := Suc (calls v2)\<rparr>)"
    by (rule transaction_healthy) (use h v2 in \<open>simp_all add: v_def\<close>)
  then have "Retry S s ident reason w = getRun S s ident (v2\<lparr>calls := Suc (calls v2)\<rparr>)"
    unfolding Retry_def bindE_timeNow by (simp add: bindE_def)
  with v2 show ?thesis by (intro exI [of _ "v2\<lparr>calls := Suc (calls v2)\<rparr>"]) simp
qed


section \<open>A dead run to requeue\<close>

definition exDeadRow :: run_row where
  "exDeadRow = \<lparr>r_runtime_id = ''rt'', r_run_id = ''nightly'', r_definition_key = ''nightly'',
     r_definition_revision = ''1'', r_scheduled_for = [], r_window_key = [], r_target_json = [],
     r_metadata_json = None, r_status = ''dead_letter'', r_attempt = 3, r_lease_owner = None,
     r_lease_expires_at = None, r_fencing_token = 3, r_next_retry_at = None, r_receipt_json = None,
     r_last_error = Some ''boom'', r_created_at = [], r_updated_at = []\<rparr>"

definition exDead :: database where
  "exDead = emptyDatabase\<lparr>runs := [exDeadRow]\<rparr>"

lemma exRequeueable:
  "requeueable (exStore ''a'') ''nightly'' (exWorld exDead exNoon) exDeadRow"
  "requeueable (exStore ''a'') '' nightly'' (exWorld exDead exNoon) exDeadRow"
proof -
  have trim: "trimSpace '' nightly'' = ''nightly''" by code_simp
  show "requeueable (exStore ''a'') ''nightly'' (exWorld exDead exNoon) exDeadRow"
    "requeueable (exStore ''a'') '' nightly'' (exWorld exDead exNoon) exDeadRow"
    by (simp_all add: requeueable_def trim, simp_all add: exWorld_def exDead_def emptyDatabase_def
        exDeadRow_def runKeysOk_def runIdentity_def capacityLeft_def pendingRun_def exStore_def)
qed

end
