(* ===== verification/Run_Properties.thy ===== *)
theory Run_Properties
  imports Run_Reports
begin

text \<open>
  The properties of the execution store, each applied to the example of the two workers.
\<close>

section \<open>Mutual exclusion\<close>

text \<open>
  C5. A worker whose run was claimed again by someone else is fenced off: the second claim has a
  greater fencing token, and in every later state of the store, whatever other workers did in
  between, the first worker's \<^verbatim>\<open>Accept\<close> and \<^verbatim>\<open>Fail\<close> report an error and its \<^verbatim>\<open>Renew\<close> does not succeed,
  and none of them changes the database.
\<close>

theorem takeover_fences_previous_owner:
  assumes keys: "runKeysOk (db w1)"
    and first: "Claim S s1 due1 ttl1 w1 = (Inr (Some (run1, True)), w1')"
    and between: "store_reach S admissible (db w1') (db w2)"
    and second: "Claim S s2 due2 ttl2 w2 = (Inr (Some (run2, True)), w2')"
    and same: "runtimeID s2 = runtimeID s1" "trgRunID (runTrigger run2) = trgRunID (runTrigger run1)"
    and later: "store_reach S admissible (db w2') (db w3)"
    and admissible: "admissible s1" "admissible s2"
  shows "leaseToken (runLease run1) < leaseToken (runLease run2) \<and>
    isl (fst (Accept S s1 run1 receipt w3)) \<and> db (snd (Accept S s1 run1 receipt w3)) = db w3 \<and>
    isl (fst (Fail S s1 run1 failure retryAt w3)) \<and> db (snd (Fail S s1 run1 failure retryAt w3)) = db w3 \<and>
    (isl (fst (Renew s1 run1 ttl w3)) \<or> fst (Renew s1 run1 ttl w3) = Inr (run1, False)) \<and>
    db (snd (Renew s1 run1 ttl w3)) = db w3"
proof -
  have k1: "runKeysOk (db w1')"
    using keys.moves_Claim [where admissible = admissible, OF admissible(1)] keys first
    by (auto dest: movesD)
  have k2: "runKeysOk (db w2)" using keys.reach_moves [OF between] k1 by simp
  have k2': "runKeysOk (db w2')"
    using keys.moves_Claim [where admissible = admissible, OF admissible(2)] k2 second
    by (auto dest: movesD)
  from Claim_gives_lease(3) [OF first keys] obtain r1 where r1: "r1 \<in> set (runs (db w1'))"
    "liveLease s1 run1 r1" by blast
  obtain r2 where r2: "r2 \<in> set (runs (db w2))" "runAdvanced r1 r2"
    using between r1(1) by (rule run_tracked)
  have "runIdentity s2 (trgRunID (runTrigger run2)) r2"
    using runAdvanced_identity [OF r2(2)] r1(2) same
    by (simp add: runIdentity_def liveLease_def run_key_def)
  then have "r_fencing_token r2 < leaseToken (runLease run2)"
    using Claim_gives_lease(4) [OF second k2] r2(1) by blast
  then have tok: "leaseToken (runLease run1) < leaseToken (runLease run2)"
    using runAdvanced_monotone [OF r2(2)] r1(2) by (simp add: liveLease_def)
  have "leaseSuperseded s1 run1 (db w2')"
    using Claim_gives_lease(3) [OF second k2] tok same
    by (auto simp: leaseSuperseded_def liveLease_def run_key_def)
  then have lost: "\<forall>r \<in> set (runs (db w3)). \<not> liveLease s1 run1 r"
    by (rule superseded_no_lease [OF later k2'])
  obtain q w' where q: "Accept S s1 run1 receipt w3 = (q, w')" by fastforce
  obtain p v where p: "Fail S s1 run1 failure retryAt w3 = (p, v)" by fastforce
  obtain o' u where o: "Renew s1 run1 ttl w3 = (o', u)" by fastforce
  show ?thesis
    using tok finish_without_lease [OF lost q [unfolded Accept_def]] fail_without_lease [OF lost p]
      renew_without_lease [OF lost o] q p o
    by auto
qed

theorem takeover_fences_previous_owner_witness:
  "let w3 = snd (Claim exSdk (exStore ''b'') exDue minute (exWorld exClaimed (exNoon + 2 * minute)));
       run1 = claimedRun (exStore ''a'') exDue minute exNoon
   in isl (fst (Accept exSdk (exStore ''a'') run1 exReceipt w3)) \<and>
      db (snd (Accept exSdk (exStore ''a'') run1 exReceipt w3)) = db w3"
proof -
  have "db (exWorld exClaimed (exNoon + 2 * minute)) = exClaimed" by (simp add: exWorld_def)
  then show ?thesis
    unfolding Let_def
    using takeover_fences_previous_owner [where admissible = "\<lambda>_. True", OF _ exClaim(1) _ exTakeover]
    by (auto simp: exStore_def exTaken_def claimedRun_def Let_def exDue_def exDefinition_def
        runOfRow_def runKeysOk_def exWorld_def emptyDatabase_def exClaimed_def)
qed


section \<open>The lifecycle of runs\<close>

text \<open>
  C6. The store refines the lifecycle specification: in every interleaving of atomic blocks of any
  workers, with any failing calls, each stored run makes lifecycle transitions only, no run is ever
  deleted, and runs that appear start as a freshly leased first attempt.
\<close>

theorem store_refines_lifecycle:
  "store_reach S admissible d d' \<Longrightarrow> lifecycleRefined d d'"
  by (rule refine.reach_moves)

theorem store_refines_lifecycle_witness:
  "lifecycleRefined emptyDatabase exClaimed"
proof (rule store_refines_lifecycle)
  have "moves (store_reach exSdk (\<lambda>_. True)) (\<lambda>_. True) (Claim exSdk (exStore ''a'') exDue minute)"
    by (rule reach_Claim) simp
  from movesD [OF this _ exClaim(1)] show "store_reach exSdk (\<lambda>_. True) emptyDatabase exClaimed"
    by (simp add: exWorld_def exClaimed_def)
qed

text \<open>
  A run keeps its identity, window and payload for ever; its fencing token and attempt never
  decrease; a succeeded or cancelled run never changes again; and a run that is leased under the
  same token is still leased to the same owner for the same attempt.
\<close>

theorem run_never_regresses:
  assumes "store_reach S admissible d d'" "r \<in> set (runs d)"
  shows "\<exists>r' \<in> set (runs d'). run_key r' = run_key r \<and> run_window r' = run_window r \<and>
    r_target_json r' = r_target_json r \<and> r_fencing_token r \<le> r_fencing_token r' \<and>
    r_attempt r \<le> r_attempt r' \<and>
    (r_status r = ''succeeded'' \<or> r_status r = ''cancelled'' \<longrightarrow> r' = r) \<and>
    (r_fencing_token r' = r_fencing_token r \<and> r_status r' = ''leased'' \<longrightarrow>
       r_status r = ''leased'' \<and> r_lease_owner r' = r_lease_owner r \<and> r_attempt r' = r_attempt r)"
proof -
  obtain r' where "r' \<in> set (runs d')" "runAdvanced r r'"
    using assms by (rule run_tracked)
  then show ?thesis unfolding runAdvanced_def by blast
qed

theorem run_never_regresses_witness:
  "\<exists>r' \<in> set (runs exClaimed). r_fencing_token (runRow exSdk (exStore ''a'') exDue minute exNoon) \<le>
     r_fencing_token r'"
  using run_never_regresses [where S = exSdk and admissible = "\<lambda>_. True", OF rtranclp.rtrancl_refl,
      of "runRow exSdk (exStore ''a'') exDue minute exNoon" exClaimed]
  by (auto simp: exClaim(2))

text \<open>
  C26. The table of runs stays within capacity. When every worker of a Runtime is configured with a
  backlog limit of at most \<open>k\<close>, the number of its leased and retrying runs never exceeds \<open>k\<close>, and
  there is never a second run for the same definition and window, in any interleaving.
\<close>

theorem backlog_within_capacity:
  "store_reach S (limitAtMost runtime k) d d' \<Longrightarrow> withinCapacity runtime k d \<Longrightarrow>
    withinCapacity runtime k d'"
  using capacity.reach_moves by blast

theorem backlog_within_capacity_witness: "withinCapacity ''rt'' 2 exClaimed"
proof (rule backlog_within_capacity)
  have "moves (store_reach exSdk (limitAtMost ''rt'' 2)) (\<lambda>_. True) (Claim exSdk (exStore ''a'') exDue minute)"
    by (rule reach_Claim) (simp add: limitAtMost_def exStore_def)
  from movesD [OF this _ exClaim(1)] show "store_reach exSdk (limitAtMost ''rt'' 2) emptyDatabase exClaimed"
    by (simp add: exWorld_def exClaimed_def)
  show "withinCapacity ''rt'' 2 emptyDatabase"
    by (simp add: withinCapacity_def runKeysOk_def emptyDatabase_def)
qed

section \<open>Claiming\<close>

text \<open>
  C31. A claim that succeeds gives the caller the live lease of the run of that definition and window,
  in its own name; a run that was there before had waited until its lease or its retry time, as
  text, was reached, and its old fencing token is smaller.
\<close>

theorem claim_gives_exclusive_lease:
  assumes "Claim S s due ttl w = (Inr (Some (run, True)), w')" "runKeysOk (db w)"
  shows "leaseOwner (runLease run) = workerID s \<and>
    trgRunID (runTrigger run) = runID (runtimeID s) (defKey (dueDefinition due)) (dueScheduledFor due) \<and>
    (\<exists>r' \<in> set (runs (db w')). liveLease s run r') \<and>
    (\<forall>r \<in> set (runs (db w)). runIdentity s (trgRunID (runTrigger run)) r \<longrightarrow>
       r_fencing_token r < leaseToken (runLease run) \<and>
       expiredLease s (trgRunID (runTrigger run)) (clock w (reads w)) r)"
  using Claim_gives_lease [OF assms] by blast

theorem claim_gives_exclusive_lease_witness:
  "\<exists>r' \<in> set (runs exClaimed). liveLease (exStore ''a'') (claimedRun (exStore ''a'') exDue minute exNoon) r'"
  using claim_gives_exclusive_lease [OF exClaim(1)]
  by (simp add: runKeysOk_def exWorld_def emptyDatabase_def exClaimed_def)

text \<open>
  No lease is taken away a second or more before it expires: if a claim takes over a leased run
  whose lease ends at the instant \<open>e\<close>, then \<open>e\<close> is less than one second after the claimer's clock.
\<close>

theorem lease_not_taken_early:
  assumes "Claim S s due ttl w = (Inr (Some (run, True)), w')" "runKeysOk (db w)"
    and "r \<in> set (runs (db w))" "runIdentity s (trgRunID (runTrigger run)) r" "r_status r = ''leased''"
    and "r_lease_expires_at r = Some (formatTime e)" "0 \<le> e" "e < maxTime"
    and "0 \<le> clock w (reads w)" "clock w (reads w) < maxTime"
  shows "e < clock w (reads w) + second"
proof -
  have "expiredLease s (trgRunID (runTrigger run)) (clock w (reads w)) r"
    using Claim_gives_lease(4) [OF assms(1,2)] assms(3,4) by blast
  then have "formatTime e \<le> formatTime (clock w (reads w))"
    using assms(5,6) by (auto simp: expiredLease_def nullLE_def)
  then show ?thesis using assms(7-10) by (intro formatTime_le_second) auto
qed

theorem lease_not_taken_early_witness:
  "exNoon + minute < exNoon + 2 * minute + second"
proof -
  let ?w = "exWorld exClaimed (exNoon + 2 * minute)"
  let ?r = "runRow exSdk (exStore ''a'') exDue minute exNoon"
  have "exNoon + minute < clock ?w (reads ?w) + second"
    by (rule lease_not_taken_early [OF exTakeover, of ?r])
      (simp_all add: exWorld_def exClaim(2) runKeysOk_def runIdentity_def exTaken_def runOfRow_def
        runRow_def exStore_def exDue_def exDefinition_def exNoon_def unixEpoch_def second_def minute_def
        maxTime_def)
  then show ?thesis by (simp add: exWorld_def)
qed


section \<open>Reports\<close>

text \<open>
  A report is all or nothing: if \<^verbatim>\<open>Accept\<close> or \<^verbatim>\<open>Fail\<close> returns an error, at whatever call it
  failed, the database is what it was before.
\<close>

theorem report_atomic:
  "(fst (Accept S s run receipt w) = Inr () \<or> db (snd (Accept S s run receipt w)) = db w) \<and>
   (fst (Fail S s run failure retryAt w) = Inr () \<or> db (snd (Fail S s run failure retryAt w)) = db w)"
proof
  show "fst (Accept S s run receipt w) = Inr () \<or> db (snd (Accept S s run receipt w)) = db w"
  proof (cases "Accept S s run receipt w")
    case (Pair q w')
    then have "transaction (finish_tx S s run ''succeeded'' (bytesOf (marshalReceipt S receipt)) []
        (clock w (reads w))) (w\<lparr>reads := Suc (reads w)\<rparr>) = (q, w')"
      by (simp add: Accept_def finish_def bindE_timeNow)
    then show ?thesis using Pair by (cases q) (auto dest: transaction_error)
  qed
  obtain q w' where q: "Fail S s run failure retryAt w = (q, w')" by fastforce
  then show "fst (Fail S s run failure retryAt w) = Inr () \<or> db (snd (Fail S s run failure retryAt w)) = db w"
  proof (cases rule: Fail_split)
    case (reported found v)
    then show ?thesis using q by (cases q) (auto dest: transaction_error)
  qed (use q in simp)
qed

text \<open>
  An accepted run was leased to the reporting worker under its token, in exactly one row. That row
  becomes succeeded with the receipt and without a lease, one event is added, and nothing else in
  the database changes.
\<close>

theorem accept_effect:
  assumes "Accept S s run receipt w = (Inr (), w')"
  shows "matched (liveLease s run) (runs (db w)) = 1 \<and>
    (\<exists>e. ev_run_id e = trgRunID (runTrigger run) \<and> ev_event_type e = ''state_changed'' \<and>
      ev_message e = Some ''succeeded'' \<and>
      db w' = (db w)\<lparr>runs := updateWhere (liveLease s run)
         (\<lambda>r. r\<lparr>r_status := ''succeeded'', r_receipt_json := nullable (bytesOf (marshalReceipt S receipt)),
                r_last_error := None, r_lease_owner := None, r_lease_expires_at := None,
                r_updated_at := formatTime (clock w (reads w))\<rparr>) (runs (db w)),
        run_events := run_events (db w) @ [e]\<rparr>)"
  using finish_Inr [OF assms [unfolded Accept_def]] by auto

theorem accept_effect_witness:
  "\<exists>e. db (snd (Accept exSdk (exStore ''a'') exRun exReceipt (exWorld exLeased exNoon))) =
     exLeased\<lparr>runs := [(runRow exSdk (exStore ''a'') exDue minute exNoon)\<lparr>r_status := ''succeeded'',
         r_receipt_json := Some ''receipt'', r_last_error := None, r_lease_owner := None,
         r_lease_expires_at := None, r_updated_at := formatTime exNoon\<rparr>],
       run_events := [e]\<rparr>"
proof -
  have n: "nullable ''receipt'' = Some ''receipt''" by code_simp
  have live: "liveLease (exStore ''a'') exRun (runRow exSdk (exStore ''a'') exDue minute exNoon)"
    by (simp add: liveLease_def exRun_def claimedRun_def runRow_def exStore_def Let_def)
  have r: "runs exLeased = [runRow exSdk (exStore ''a'') exDue minute exNoon]" "run_events exLeased = []"
    by (simp_all add: exLeased_def emptyDatabase_def)
  show ?thesis
    using accept_effect [OF exAccept] live
    by (simp add: exWorld_def r exSdk_def bytesOf_def n) blast
qed

text \<open>
  C32. When every call works and event identifiers are fresh, a worker that holds the live lease can
  always complete the run: its \<^verbatim>\<open>Accept\<close> succeeds, and it succeeds for no other worker.
\<close>

theorem accept_iff_lease_live:
  assumes "healthy w" "runKeysOk (db w)"
    and "\<forall>e \<in> set (run_events (db w)). ev_event_id e \<noteq> trgRunID (runTrigger run) @ '':state_changed:'' @
      formatInt (unixNano (clock w (Suc (reads w))))"
  shows "fst (Accept S s run receipt w) = Inr () \<longleftrightarrow> (\<exists>r \<in> set (runs (db w)). liveLease s run r)"
proof
  assume "fst (Accept S s run receipt w) = Inr ()"
  then obtain w' where "Accept S s run receipt w = (Inr (), w')" by (metis prod.collapse)
  from finish_Inr(1) [OF this [unfolded Accept_def]] show "\<exists>r \<in> set (runs (db w)). liveLease s run r"
    using matched_pos [of "liveLease s run" "runs (db w)"] by simp
next
  assume "\<exists>r \<in> set (runs (db w)). liveLease s run r"
  then have "matched (liveLease s run) (runs (db w)) = 1"
    using assms(2) unfolding runKeysOk_def
    by (auto intro!: matched_one [where k = run_key and x = "(runtimeID s, trgRunID (runTrigger run))"]
        simp: run_key_def liveLease_def)
  then show "fst (Accept S s run receipt w) = Inr ()"
    using assms(1,3)
    by (auto simp: Accept_def finish_def finish_tx_def bindE_timeNow transaction_def bindE_def
        envCall_healthy sqlCall_healthy sql_finish_def update_runs_def eventWith_def timeNow_def
        insert_run_events_def event_key_def ret_def image_iff split: sum.splits prod.splits)
qed

theorem accept_iff_lease_live_witness:
  "fst (Accept exSdk (exStore ''a'') exRun exReceipt (exWorld exLeased exNoon)) = Inr () \<longleftrightarrow>
    (\<exists>r \<in> set (runs exLeased). liveLease (exStore ''a'') exRun r)"
  using accept_iff_lease_live [of "exWorld exLeased exNoon" exRun exSdk "exStore ''a''" exReceipt]
  by (simp add: exWorld_def healthy_def runKeysOk_def exLeased_def emptyDatabase_def)

text \<open>
  A failure report with attempts left puts the run back for a retry at the given time; with the
  attempts used up it puts it into the dead letters, with one open dead letter that carries the
  reason. The report needs the live lease and does not touch the cursors.
\<close>

theorem fail_effect:
  assumes "Fail S s run failure retryAt w = (Inr (), w')"
  shows "matched (liveLease s run) (runs (db w)) = 1 \<and> definition_states (db w') = definition_states (db w) \<and>
    (\<exists>found now. fst (definitionByKey S s (trgDefinitionKey (runTrigger run)) w) = Inr found \<and>
      (if maxAttemptsOf found \<le> trgAttempt (runTrigger run)
       then runs (db w') = updateWhere (liveLease s run)
              (failedRow True (errorText S failure) retryAt now) (runs (db w)) \<and>
            (\<exists>dl. dead_letters (db w') = dead_letters (db w) @ [dl] \<and>
              dead_letter_key dl = (runtimeID s, trgRunID (runTrigger run)) \<and>
              dl_reason dl = errorText S failure \<and> dl_resolved_at dl = None)
       else runs (db w') = updateWhere (liveLease s run)
              (failedRow False (errorText S failure) retryAt now) (runs (db w)) \<and>
            dead_letters (db w') = dead_letters (db w)))"
  using assms
proof (cases rule: Fail_split)
  case (reported found v)
  let ?terminal = "maxAttemptsOf found \<le> trgAttempt (runTrigger run)"
  from reported(2) show ?thesis
  proof (cases rule: transaction_InrE)
    case (committed w1 w2)
    note f = fail_tx_Inr [OF committed(2)]
    have w1: "db w1 = db w" using committed(1) reported(3) by simp
    show ?thesis
      using f(2,3,5,6,7) committed(3) reported(1) unfolding w1 by (cases ?terminal) auto
  next
    case (rolled_back w1 w2)
    with fail_tx_Inr(1) [OF rolled_back(2)] show ?thesis by simp
  qed
qed simp

theorem fail_effect_witness:
  "\<exists>dl. dead_letters (db (snd (Fail exSdk (exStore ''a'') exRun (Errorf ''boom'') exNoon
     (exWorld exLeased exNoon)))) = [dl] \<and> dl_reason dl = ''boom''"
proof -
  have key: "trgDefinitionKey (runTrigger exRun) = ''nightly''" "trgAttempt (runTrigger exRun) = 1"
    by (simp_all add: exRun_def claimedRun_def Let_def exDue_def exDefinition_def)
  have "maxAttemptsOf (Some exDefinition) = 1"
    by (simp add: maxAttemptsOf_def exDefinition_def exPolicy_def)
  moreover have "dead_letters exLeased = []" by (simp add: exLeased_def emptyDatabase_def)
  ultimately show ?thesis
    using fail_effect [OF exFail] exDefinitionFound [of "[]" exNoon] unfolding exLeased_dead_letters key
    by (auto simp: errorText_def) (simp_all add: exWorld_def)
qed

text \<open>
  C38. A run that already has a dead letter, open or resolved, cannot be dead-lettered again: when its
  attempts are used up, \<^verbatim>\<open>Fail\<close> returns an error and leaves the database, and with it the lease, as it
  was. Requeueing keeps both the dead letter and the attempt count, so this is what every failure of
  a requeued run meets.
\<close>

theorem second_dead_letter_rejected:
  assumes "(runtimeID s, trgRunID (runTrigger run)) \<in> set (map dead_letter_key (dead_letters (db w)))"
    and "fst (definitionByKey S s (trgDefinitionKey (runTrigger run)) w) = Inr found"
    and "maxAttemptsOf found \<le> trgAttempt (runTrigger run)"
  shows "isl (fst (Fail S s run failure retryAt w)) \<and> db (snd (Fail S s run failure retryAt w)) = db w"
proof -
  obtain q w' where q: "Fail S s run failure retryAt w = (q, w')" by fastforce
  then have "(\<exists>e. q = Inl e) \<and> db w' = db w"
  proof (cases rule: Fail_split)
    case (reported found' v)
    have f: "found' = found" using reported(1) assms(2) by simp
    have False if "db w1 = db (v\<lparr>reads := Suc (reads v)\<rparr>)"
      "fail_tx S s run (maxAttemptsOf found' \<le> trgAttempt (runTrigger run)) (errorText S failure) retryAt
        (clock v (reads v)) w1 = (Inr x, w2)" for w1 x w2
      using fail_tx_Inr(4) [OF that(2)] that(1) assms(1,3) f reported(3) by simp
    from transaction_never_commits [OF this reported(2)] reported(3) show ?thesis by simp
  qed simp
  with q show ?thesis by auto
qed

theorem second_dead_letter_rejected_witness:
  "let w = exWorld (exLeased\<lparr>dead_letters := [\<lparr>dl_runtime_id = ''rt'',
         dl_run_id = runID ''rt'' ''nightly'' exNoon, dl_definition_key = ''nightly'',
         dl_reason = ''boom'', dl_failed_at = [], dl_resolved_at = Some (formatTime exNoon)\<rparr>]\<rparr>) exNoon;
       run = exRun\<lparr>runTrigger := (runTrigger exRun)\<lparr>trgAttempt := 4\<rparr>\<rparr>
   in isl (fst (Fail exSdk (exStore ''a'') run (Errorf ''boom'') exNoon w)) \<and>
      db (snd (Fail exSdk (exStore ''a'') run (Errorf ''boom'') exNoon w)) = db w"
proof -
  have key: "trgDefinitionKey (runTrigger exRun) = ''nightly''" "runtimeID (exStore ''a'') = ''rt''"
    "trgRunID (runTrigger exRun) = runID ''rt'' ''nightly'' exNoon"
    by (simp_all add: exRun_def claimedRun_def Let_def exDue_def exDefinition_def exStore_def)
  show ?thesis
    unfolding Let_def
    by (rule second_dead_letter_rejected [where found = "Some exDefinition"])
      (simp_all add: key exDefinitionFound, simp_all add: exWorld_def dead_letter_key_def maxAttemptsOf_def
        exDefinition_def exPolicy_def)
qed


section \<open>Requeueing\<close>

text \<open>
  When every call works, requeueing a dead or failed run of a Runtime below its backlog limit
  puts exactly that run back to retrying, due at once and without a lease, and returns it; its
  attempt count and fencing token are those it had.
\<close>

theorem retry_requeues:
  assumes "requeueable s ident w r" "trimSpace ident = ident"
  shows "fst (Retry S s ident reason w) = Inr (runOfRow S ident (requeuedRow (clock w (reads w)) r)) \<and>
    runs (db (snd (Retry S s ident reason w))) =
      updateWhere (\<lambda>q. q = r) (requeuedRow (clock w (reads w))) (runs (db w))"
proof -
  let ?p = "\<lambda>q. runIdentity s (trimSpace ident) q \<and> (r_status q = ''failed'' \<or> r_status q = ''dead_letter'')"
  have k: "distinct (map run_key (runs (db w)))" and r: "r \<in> set (runs (db w))" "?p r"
    using assms unfolding requeueable_def runKeysOk_def by auto
  have only: "?p q = (q = r)" if "q \<in> set (runs (db w))" for q
    using k r that by (auto simp: distinct_map inj_on_def run_key_def runIdentity_def)
  then have upd: "updateWhere ?p f (runs (db w)) = updateWhere (\<lambda>q. q = r) f (runs (db w))" for f
    by (simp add: updateWhere_def)
  obtain w' where w': "Retry S s ident reason w = getRun S s ident w'" "healthy w'"
    "runs (db w') = updateWhere ?p (requeuedRow (clock w (reads w))) (runs (db w))"
    using Retry_requeues [OF assms(1)] by blast
  have "distinct (map run_key (runs (db w')))"
    using k unfolding w'(3) by (subst map_updateWhere) (simp_all add: run_key_def requeuedRow_def)
  moreover have "requeuedRow (clock w (reads w)) r \<in> set (runs (db w'))"
    using r unfolding w'(3) by (auto simp: updateWhere_def)
  ultimately have "selectRow (runIdentity s ident) (runs (db w')) = Inr (requeuedRow (clock w (reads w)) r)"
    using r(2) assms(2)
    by (intro selectRow_unique [where k = run_key and x = "(runtimeID s, ident)"])
      (auto simp: run_key_def runIdentity_def requeuedRow_def)
  then show ?thesis
    using w' upd by (simp add: getRun_def bindE_def sqlQuery_def sqlCall_healthy ret_def)
qed

theorem retry_requeues_witness:
  "fst (Retry exSdk (exStore ''a'') ''nightly'' ''again'' (exWorld exDead exNoon)) =
    Inr (runOfRow exSdk ''nightly'' (requeuedRow exNoon exDeadRow))"
  using retry_requeues [of "exStore ''a''" "''nightly''" "exWorld exDead exNoon" exDeadRow exSdk "''again''"]
    exRequeueable exTrim by (simp add: exWorld_def)

text \<open>
  C39. An identifier with surrounding white space finds the run, requeues it and commits, and is then
  reported as not found: the change is made and the caller is told it failed.
\<close>

theorem padded_retry_commits_and_fails:
  assumes "requeueable s ident w r" "\<forall>q \<in> set (runs (db w)). r_run_id q \<noteq> ident"
  shows "fst (Retry S s ident reason w) = Inl (Sentinel ErrNoRows) \<and>
    requeuedRow (clock w (reads w)) r \<in> set (runs (db (snd (Retry S s ident reason w))))"
proof -
  obtain w' where w': "Retry S s ident reason w = getRun S s ident w'" "healthy w'"
    "runs (db w') = updateWhere (\<lambda>q. runIdentity s (trimSpace ident) q \<and>
       (r_status q = ''failed'' \<or> r_status q = ''dead_letter'')) (requeuedRow (clock w (reads w))) (runs (db w))"
    using Retry_requeues [OF assms(1)] by blast
  have "\<forall>q \<in> set (runs (db w')). \<not> runIdentity s ident q"
  proof
    fix q assume "q \<in> set (runs (db w'))"
    then have "r_run_id q \<in> set (map r_run_id (runs (db w')))" by simp
    also have "map r_run_id (runs (db w')) = map r_run_id (runs (db w))"
      unfolding w'(3) by (rule map_updateWhere) (simp add: requeuedRow_def)
    finally show "\<not> runIdentity s ident q"
      using assms(2) by (fastforce simp: runIdentity_def)
  qed
  then have "selectRow (runIdentity s ident) (runs (db w')) = Inl (Sentinel ErrNoRows)"
    by (simp add: selectRow_Inl)
  moreover have "requeuedRow (clock w (reads w)) r \<in> set (runs (db w'))"
    using assms(1) unfolding w'(3) by (auto simp: updateWhere_def requeueable_def)
  ultimately show ?thesis
    using w' by (simp add: getRun_def bindE_def sqlQuery_def sqlCall_healthy)
qed

theorem padded_retry_commits_and_fails_witness:
  "fst (Retry exSdk (exStore ''a'') '' nightly'' ''again'' (exWorld exDead exNoon)) = Inl (Sentinel ErrNoRows)"
proof -
  have "\<forall>q \<in> set (runs (db (exWorld exDead exNoon))). r_run_id q \<noteq> '' nightly''"
    by (simp add: exWorld_def exDead_def exDeadRow_def)
  from padded_retry_commits_and_fails [OF exRequeueable(2) this] show ?thesis by (rule conjunct1)
qed

end
