(* ===== verification/Cursor_Properties.thy ===== *)
theory Cursor_Properties
  imports Scheduler_Examples
begin

text \<open>
  The cursors of the published definitions: what \<^verbatim>\<open>Reconcile\<close>, \<^verbatim>\<open>DisableMissing\<close>,
  \<^verbatim>\<open>ApplyDefinitionSnapshot\<close>, \<^verbatim>\<open>Claim\<close> and \<^verbatim>\<open>Due\<close> do to the table of definition states.
\<close>

section \<open>Statements on definition states\<close>

lemma update_states_result:
  "update_definition_states p f d = (Inr n, d') \<Longrightarrow>
    n = matched p (definition_states d) \<and>
    d' = d\<lparr>definition_states := updateWhere p f (definition_states d)\<rparr>"
  by (auto simp: update_definition_states_def)

lemma sql_states_Inr:
  assumes "sqlCall (update_definition_states p f) w = (Inr n, w')"
  shows "n = matched p (definition_states (db w))"
    "db w' = (db w)\<lparr>definition_states := updateWhere p f (definition_states (db w))\<rparr>"
  using assms by (auto elim!: sqlCall_InrE dest: update_states_result)

section \<open>Reconciling one definition\<close>

definition changedState :: "Definition \<Rightarrow> string \<Rightarrow> time \<Rightarrow> bool \<Rightarrow> string \<Rightarrow> definition_state_row \<Rightarrow> definition_state_row" where
  "changedState d raw nxt enabled now r =
     r\<lparr>ds_revision := defRevision d, ds_enabled := enabled, ds_definition_json := raw,
       ds_next_run_at := formatTime nxt, ds_updated_at := now\<rparr>"

definition stableState :: "string \<Rightarrow> string \<Rightarrow> bool \<Rightarrow> string \<Rightarrow> definition_state_row \<Rightarrow> definition_state_row" where
  "stableState raw sourceKind enabled now r =
     r\<lparr>ds_definition_json := raw, ds_updated_at := now,
       ds_enabled := (if sourceKind \<noteq> definitionStateSourcePlan \<or> \<not> enabled then enabled else ds_enabled r)\<rparr>"

definition newState :: "Store \<Rightarrow> Definition \<Rightarrow> string \<Rightarrow> time \<Rightarrow> string \<Rightarrow> bool \<Rightarrow> string \<Rightarrow> definition_state_row" where
  "newState s d raw nxt sourceKind enabled now =
     \<lparr>ds_runtime_id = runtimeID s, ds_definition_key = defKey d, ds_revision = defRevision d,
      ds_enabled = enabled, ds_definition_json = raw, ds_next_run_at = formatTime nxt,
      ds_last_run_at = None, ds_last_run_status = None, ds_snapshot_revision = 0,
      ds_updated_at = now, ds_source_kind = sourceKind\<rparr>"

lemma stableState_eq:
  "stableState raw k en now = (\<lambda>r. let r = r\<lparr>ds_definition_json := raw, ds_updated_at := now\<rparr>
     in if k \<noteq> definitionStateSourcePlan \<or> \<not> en then r\<lparr>ds_enabled := en\<rparr> else r)"
proof
  fix r :: definition_state_row
  show "stableState raw k en now r = (let r = r\<lparr>ds_definition_json := raw, ds_updated_at := now\<rparr>
     in if k \<noteq> definitionStateSourcePlan \<or> \<not> en then r\<lparr>ds_enabled := en\<rparr> else r)"
    by (cases r) (simp add: stableState_def)
qed

lemma reconcile_statements:
  "sql_reconcileChanged s d raw nxt k en now = update_definition_states
     (\<lambda>r. definitionSourceIdentity s (defKey d) k r \<and> ds_revision r \<noteq> defRevision d) (changedState d raw nxt en now)"
  "sql_reconcileStable s d raw k en now = update_definition_states
     (definitionSourceIdentity s (defKey d) k) (stableState raw k en now)"
  "sql_reconcileInsert S s d raw nxt k en now = insert_definition_states S (newState s d raw nxt k en now)"
  unfolding sql_reconcileChanged_def sql_reconcileStable_def sql_reconcileInsert_def newState_def
    stableState_eq changedState_def [abs_def]
  by (rule refl)+

text \<open>What a reconcile that succeeds did: one of three things, by what it found.\<close>

definition reconciled ::
  "Store \<Rightarrow> Definition \<Rightarrow> string \<Rightarrow> time \<Rightarrow> string \<Rightarrow> bool \<Rightarrow> string \<Rightarrow>
   definition_state_row list \<Rightarrow> definition_state_row list \<Rightarrow> bool" where
  "reconciled s d raw nxt k en now st st' \<longleftrightarrow>
     (let own = definitionSourceIdentity s (defKey d) k;
          other = (\<lambda>r. own r \<and> ds_revision r \<noteq> defRevision d) in
      if \<exists>r \<in> set st. other r then st' = updateWhere other (changedState d raw nxt en now) st
      else if \<exists>r \<in> set st. own r then st' = updateWhere own (stableState raw k en now) st
      else (runtimeID s, defKey d) \<notin> set (map definition_state_key st) \<and>
           st' = st @ [newState s d raw nxt k en now])"

lemma reconcileNew_Inr:
  assumes r: "reconcileNew S s d raw nxt k en now w = (Inr u, w')"
    and no: "\<forall>r \<in> set (definition_states (db w)). \<not> definitionSourceIdentity s (defKey d) k r"
  shows "(runtimeID s, defKey d) \<notin> set (map definition_state_key (definition_states (db w))) \<and>
    db w' = (db w)\<lparr>definition_states := definition_states (db w) @ [newState s d raw nxt k en now]\<rparr>"
proof -
  obtain q w1 where i: "sqlCall (insert_definition_states S (newState s d raw nxt k en now)) w = (q, w1)"
    by fastforce
  show ?thesis
  proof (cases q)
    case (Inl e)
    have "db w1 = db w"
      using i Inl by (auto simp: sqlCall_def bindE_def envCall_def insert_definition_states_def
          split: option.splits if_splits)
    then have False
      using r i Inl no
      by (auto simp: reconcileNew_def attempt_def reconcile_statements fail_def matched_zero
          elim!: bindE_InrE split: if_splits dest!: sql_states_Inr(1))
    then show ?thesis ..
  next
    case (Inr x)
    then have "w' = w1"
      using r i by (simp add: reconcileNew_def attempt_def reconcile_statements ret_def)
    with i Inr show ?thesis
      by (auto elim!: sqlCall_InrE simp: insert_definition_states_def newState_def
          definition_state_key_def split: if_splits)
  qed
qed

lemma reconcileSame_Inr:
  assumes r: "reconcileSame S s d raw nxt k en now w = (Inr u, w')"
    and no: "\<forall>r \<in> set (definition_states (db w)).
      \<not> (definitionSourceIdentity s (defKey d) k r \<and> ds_revision r \<noteq> defRevision d)"
  shows "\<exists>st'. db w' = (db w)\<lparr>definition_states := st'\<rparr> \<and>
    reconciled s d raw nxt k en now (definition_states (db w)) st'"
proof -
  let ?own = "definitionSourceIdentity s (defKey d) k"
  from r obtain n w1 where b: "sqlCall (sql_reconcileStable s d raw k en now) w = (Inr n, w1)"
    and rest: "(if n > 0 then ret () else reconcileNew S s d raw nxt k en now) w1 = (Inr u, w')"
    unfolding reconcileSame_def by (rule bindE_InrE)
  note c = sql_states_Inr [OF b [unfolded reconcile_statements]]
  show ?thesis
  proof (cases "n > 0")
    case True
    then have "w' = w1" using rest by (simp add: ret_def)
    with c True no show ?thesis
      using matched_pos [of ?own "definition_states (db w)"]
      by (intro exI conjI) (auto simp: reconciled_def Let_def)
  next
    case False
    then have none: "\<forall>r \<in> set (definition_states (db w)). \<not> ?own r"
      using c(1) matched_pos [of ?own "definition_states (db w)"] by auto
    then have "db w1 = db w" using c(2) by (simp add: updateWhere_none)
    with rest False none reconcileNew_Inr [of S s d raw nxt k en now w1 u w'] show ?thesis
      by (intro exI conjI) (auto simp: reconciled_def Let_def)
  qed
qed

lemma reconcile_Inr:
  assumes r: "reconcileWith S s d nxt k en w = (Inr u, w')"
  shows "\<exists>raw st'. marshalDefinition S d = Inr raw \<and> db w' = (db w)\<lparr>definition_states := st'\<rparr> \<and>
    reconciled s d raw nxt k en (formatTime (clock w (reads w))) (definition_states (db w)) st'"
proof -
  let ?now = "formatTime (clock w (reads w))"
  obtain raw where raw: "marshalDefinition S d = Inr raw"
    using r by (cases "marshalDefinition S d") (auto simp: reconcileWith_def liftE_def bindE_def)
  have rest: "bindE (sqlCall (sql_reconcileChanged s d raw nxt k en ?now)) (\<lambda>affected.
     if affected > 0 then ret () else reconcileSame S s d raw nxt k en ?now)
     (w\<lparr>reads := Suc (reads w)\<rparr>) = (Inr u, w')"
    using r unfolding reconcileWith_def Let_def
    by (simp add: bindE_def [of "liftE _"] liftE_def raw bindE_timeNow)
  let ?other = "\<lambda>r. definitionSourceIdentity s (defKey d) k r \<and> ds_revision r \<noteq> defRevision d"
  from rest obtain n w1 where b: "sqlCall (sql_reconcileChanged s d raw nxt k en ?now)
      (w\<lparr>reads := Suc (reads w)\<rparr>) = (Inr n, w1)"
    and rest1: "(if n > 0 then ret () else reconcileSame S s d raw nxt k en ?now) w1 = (Inr u, w')"
    by (rule bindE_InrE)
  note c = sql_states_Inr [OF b [unfolded reconcile_statements]]
  show ?thesis
  proof (cases "n > 0")
    case True
    then have "w' = w1" using rest1 by (simp add: ret_def)
    with raw c True show ?thesis
      using matched_pos [of ?other "definition_states (db w)"]
      by (intro exI conjI) (auto simp: reconciled_def Let_def)
  next
    case False
    then have none: "\<forall>r \<in> set (definition_states (db w)). \<not> ?other r"
      using c(1) matched_pos [of ?other "definition_states (db w)"] by auto
    then have "db w1 = db w" using c(2) by (simp add: updateWhere_none)
    with raw rest1 False none reconcileSame_Inr [of S s d raw nxt k en ?now w1 u w'] show ?thesis by auto
  qed
qed


section \<open>Enabling exactly the active definitions\<close>

definition projectedState :: "Store \<Rightarrow> string list \<Rightarrow> int \<Rightarrow> definition_state_row \<Rightarrow> definition_state_row" where
  "projectedState s active revision r =
     (if ds_runtime_id r = runtimeID s \<and> ds_source_kind r = definitionStateSourceRuntime
      then r\<lparr>ds_enabled := (ds_definition_key r \<in> set active), ds_snapshot_revision := revision\<rparr> else r)"

lemma disableMissing_Inr:
  assumes "disableMissingWith s active revision w = (Inr u, w')"
  shows "db w' = (db w)\<lparr>definition_states := map (projectedState s active revision) (definition_states (db w))\<rparr>"
proof -
  let ?p = "\<lambda>r. ds_runtime_id r = runtimeID s \<and> ds_source_kind r = definitionStateSourceRuntime"
  from assms obtain n w1 where b: "sqlCall (update_definition_states ?p
       (\<lambda>r. r\<lparr>ds_enabled := False, ds_snapshot_revision := revision\<rparr>)) w = (Inr n, w1)"
    and rest: "(if active = [] then ret () else
     bindE (sqlCall (update_definition_states
       (\<lambda>r. ds_runtime_id r = runtimeID s \<and> ds_source_kind r = definitionStateSourceRuntime \<and>
            ds_definition_key r \<in> set active)
       (\<lambda>r. r\<lparr>ds_enabled := True, ds_snapshot_revision := revision\<rparr>))) (\<lambda>_.
     ret ())) w1 = (Inr u, w')"
    unfolding disableMissingWith_def by (rule bindE_InrE)
  note c = sql_states_Inr [OF b]
  show ?thesis
  proof (cases "active = []")
    case True
    then show ?thesis
      using rest c(2) by (simp add: ret_def projectedState_def [abs_def] updateWhere_def)
  next
    case False
    then show ?thesis
      using rest c(2)
      by (auto elim!: bindE_InrE dest!: sql_states_Inr(2)
          simp: ret_def projectedState_def [abs_def] updateWhere_def)
  qed
qed

section \<open>Applying a published snapshot\<close>

definition cursorMatches :: "Store \<Rightarrow> DefinitionSnapshot \<Rightarrow> DefinitionPublisherFence \<Rightarrow> database \<Rightarrow> bool" where
  "cursorMatches s snapshot fence d \<longleftrightarrow>
     (\<exists>r. selectRow (publicationIdentity (runtimeID s)) (definition_publications d) = Inr r \<and>
       scanCursor r = Inr (fenceGeneration fence, fenceSessionSHA256 fence, snapRevision snapshot,
         snapContentSHA256 snapshot))"

text \<open>The lock rewrites the cursor with the value it has; it reports whether the cursor is the snapshot's.\<close>

lemma lockCursor_Inr:
  assumes "lockDefinitionSnapshotCursor s snapshot fence w = (Inr current, w')"
  shows "current = cursorMatches s snapshot fence (db w)" "db w' = db w"
proof -
  let ?f = "\<lambda>r :: publication_row. r\<lparr>pb_cursor_revision := Some (snapRevision snapshot)\<rparr>"
  let ?p = "\<lambda>r. publicationIdentity (runtimeID s) r \<and>
            pb_cursor_generation r = Some (fenceGeneration fence) \<and>
            pb_cursor_session_sha256 r = Some (fenceSessionSHA256 fence) \<and>
            pb_cursor_revision r = Some (snapRevision snapshot) \<and>
            pb_cursor_content_sha256 r = Some (snapContentSHA256 snapshot)"
  let ?q = "\<lambda>d. case selectRow (publicationIdentity (runtimeID s)) (definition_publications d) of
         Inl e \<Rightarrow> Inl e | Inr r \<Rightarrow> scanCursor r"
  from assms obtain n w1 where b: "sqlCall (update_definition_publications ?p ?f) w = (Inr n, w1)"
    and rest: "attempt (sqlQuery ?q) (\<lambda>q. case q of
       Inl e \<Rightarrow> if e = Sentinel ErrNoRows then ret False else fail e
     | Inr (g, h, v, c) \<Rightarrow>
         ret (g = fenceGeneration fence \<and> h = fenceSessionSHA256 fence \<and>
              v = snapRevision snapshot \<and> c = snapContentSHA256 snapshot)) w1 = (Inr current, w')"
    unfolding lockDefinitionSnapshotCursor_def by (rule bindE_InrE)
  have "updateWhere ?p ?f (definition_publications (db w)) = definition_publications (db w)"
  proof (rule updateWhere_id)
    fix r assume "?p r"
    then show "?f r = r" by (cases r) simp
  qed
  with b have d1: "db w1 = db w"
    by (auto elim!: sqlCall_InrE simp: update_definition_publications_def)
  obtain q w2 where q: "sqlQuery ?q w1 = (q, w2)" by fastforce
  have d2: "db w2 = db w" using sqlQuery_db [OF q] d1 by simp
  show "db w' = db w"
    using rest q d2 by (auto simp: attempt_def ret_def fail_def split: sum.splits if_splits)
  show "current = cursorMatches s snapshot fence (db w)"
  proof (cases q)
    case (Inl e)
    with rest q have "e = Sentinel ErrNoRows" "\<not> current"
      by (auto simp: attempt_def ret_def fail_def split: if_splits)
    moreover have "?q (db w) = Inl (Sentinel ErrNoRows)" if "e = Sentinel ErrNoRows"
      using sqlQuery_missed [of ?q w1 w2] q Inl that d1 by simp
    ultimately show ?thesis
      by (auto simp: cursorMatches_def split: sum.splits)
  next
    case (Inr x)
    then have "?q (db w) = Inr x" using q d1 by (auto elim: sqlQuery_InrE)
    moreover obtain g h v c where x: "x = (g, h, v, c)" by (cases x)
    moreover have "current = (g = fenceGeneration fence \<and> h = fenceSessionSHA256 fence \<and>
              v = snapRevision snapshot \<and> c = snapContentSHA256 snapshot)"
      using rest q Inr x by (simp add: attempt_def ret_def)
    ultimately show ?thesis
      by (auto simp: cursorMatches_def split: sum.splits)
  qed
qed

lemma lockCursor_result:
  "lockDefinitionSnapshotCursor s snapshot fence w = (Inr current, w') \<Longrightarrow>
    current = cursorMatches s snapshot fence (db w) \<and> db w' = db w"
  using lockCursor_Inr by blast

text \<open>A snapshot that is not the published one is not applied, and nothing is written.\<close>

lemma apply_stale:
  assumes "\<not> cursorMatches s snapshot fence (db w)" "snapFence snapshot = Some fence"
    and "ApplyDefinitionSnapshot S s snapshot now w = (q, w')"
  shows "q \<noteq> Inr True \<and> db w' = db w"
proof -
  have body: "False" if "db w1 = db w" "applySnapshot_tx S s snapshot fence now w1 = (Inr (Commit x), w2)" for w1 x w2
    using that assms(1) unfolding applySnapshot_tx_def
    by (auto elim!: bindE_InrE simp: ret_def dest!: lockCursor_result split: if_splits)
  have rb: "\<not> x" if "applySnapshot_tx S s snapshot fence now w1 = (Inr (Rollback x), w2)" for w1 x w2
    using that unfolding applySnapshot_tx_def
    by (auto elim!: bindE_InrE simp: ret_def split: if_splits)
  have tx: "q \<noteq> Inr True \<and> db w' = db w"
    if "db v = db w" "transaction (applySnapshot_tx S s snapshot fence now) v = (q, w')" for v
  proof (cases q)
    case (Inl e)
    then show ?thesis using that by (auto dest: transaction_error)
  next
    case (Inr x)
    with that(2) have "transaction (applySnapshot_tx S s snapshot fence now) v = (Inr x, w')" by simp
    then show ?thesis
      by (cases rule: transaction_InrE) (use that(1) Inr body rb in fastforce)+
  qed
  show ?thesis
    using assms(2,3) tx unfolding ApplyDefinitionSnapshot_def
    by (auto simp: fail_def bindE_def liftE_def split: if_splits option.splits sum.splits)
qed


section \<open>The projection of a published snapshot\<close>

definition stateIdentity :: "definition_state_row \<Rightarrow> string \<times> string \<times> string" where
  "stateIdentity r = (ds_runtime_id r, ds_definition_key r, ds_source_kind r)"

definition foreignState :: "Store \<Rightarrow> definition_state_row \<Rightarrow> bool" where
  "foreignState s r \<longleftrightarrow> \<not> (ds_runtime_id r = runtimeID s \<and> ds_source_kind r = definitionStateSourceRuntime)"

lemma reconciled_identities:
  assumes "reconciled s d raw nxt k en now st st'"
  shows "set (map stateIdentity st) \<subseteq> set (map stateIdentity st')"
    and "trimSpace (defKey d) = defKey d \<Longrightarrow> (runtimeID s, defKey d, k) \<in> set (map stateIdentity st')"
proof -
  let ?own = "definitionSourceIdentity s (defKey d) k"
  have same: "map stateIdentity (updateWhere p (changedState d raw nxt en now) st) = map stateIdentity st"
    "map stateIdentity (updateWhere p (stableState raw k en now) st) = map stateIdentity st" for p
    by (intro map_updateWhere; simp add: stateIdentity_def changedState_def stableState_def)+
  have "map stateIdentity st' = map stateIdentity st \<or> (\<exists>r. st' = st @ [r])"
    using assms by (auto simp: reconciled_def Let_def same split: if_splits)
  then have grow: "set (map stateIdentity st) \<subseteq> set (map stateIdentity st')"
    by (metis Un_upper1 map_append order_refl set_append)
  have own: "(runtimeID s, defKey d, k) \<in> set (map stateIdentity st)"
    if "trimSpace (defKey d) = defKey d" "\<exists>r \<in> set st. ?own r"
    using that by (force simp: stateIdentity_def definitionSourceIdentity_def definitionIdentity_def)
  show "set (map stateIdentity st) \<subseteq> set (map stateIdentity st')"
    by (rule grow)
  show "(runtimeID s, defKey d, k) \<in> set (map stateIdentity st')"
    if "trimSpace (defKey d) = defKey d"
  proof (cases "\<exists>r \<in> set st. ?own r")
    case True
    then show ?thesis
      using own [OF that True] grow by blast
  next
    case False
    then have "st' = st @ [newState s d raw nxt k en now]"
      using assms by (auto simp: reconciled_def Let_def split: if_splits)
    then show ?thesis by (simp add: newState_def stateIdentity_def)
  qed
qed

lemma reconciled_foreign:
  assumes "reconciled s d raw nxt definitionStateSourceRuntime en now st st'"
  shows "filter (foreignState s) st' = filter (foreignState s) st"
proof -
  have keep: "filter (foreignState s) (updateWhere p f st) = filter (foreignState s) st"
    if "\<And>r. p r \<Longrightarrow> definitionSourceIdentity s (defKey d) definitionStateSourceRuntime r"
      "\<And>r. stateIdentity (f r) = stateIdentity r" for p f
    using that
    by (intro filter_updateWhere)
      (auto simp: foreignState_def stateIdentity_def definitionSourceIdentity_def definitionIdentity_def)
  have "\<not> foreignState s (newState s d raw nxt definitionStateSourceRuntime en now)"
    by (simp add: foreignState_def newState_def)
  then show ?thesis
    using assms
    by (auto simp: reconciled_def Let_def stateIdentity_def changedState_def stableState_def
        intro!: keep split: if_splits)
qed

definition activeKeys :: "Sdk \<Rightarrow> Definition list \<Rightarrow> string list" where
  "activeKeys S ds = map defKey (filter enabledStatus (map (normalizeDefinition S) ds))"

text \<open>What the loop over the definitions does to the states, for the keys it found active.\<close>

definition projected :: "Store \<Rightarrow> string list \<Rightarrow> definition_state_row list \<Rightarrow> definition_state_row list \<Rightarrow> bool" where
  "projected s ks st st' \<longleftrightarrow>
     filter (foreignState s) st' = filter (foreignState s) st \<and>
     set (map stateIdentity st) \<subseteq> set (map stateIdentity st') \<and>
     (\<forall>k \<in> set ks. trimSpace k = k \<longrightarrow>
        (runtimeID s, k, definitionStateSourceRuntime) \<in> set (map stateIdentity st'))"

lemma projected_trans:
  assumes "projected s ks a b" "projected s ls b c"
  shows "projected s (ks @ ls) a c"
proof -
  have sub: "set (map stateIdentity a) \<subseteq> set (map stateIdentity b)"
    "set (map stateIdentity b) \<subseteq> set (map stateIdentity c)"
    using assms unfolding projected_def by blast+
  have "(runtimeID s, k, definitionStateSourceRuntime) \<in> set (map stateIdentity c)"
    if "k \<in> set (ks @ ls)" "trimSpace k = k" for k
    using that assms sub(2) unfolding projected_def set_append by blast
  moreover have "filter (foreignState s) c = filter (foreignState s) a"
    using assms by (simp add: projected_def)
  ultimately show ?thesis
    unfolding projected_def using subset_trans [OF sub] by blast
qed

lemma applyDefinition_Inr:
  assumes "applyDefinition S s now d active w = (Inr active', w')"
  shows "active' = active @ activeKeys S [d] \<and>
    projected s (activeKeys S [d]) (definition_states (db w)) (definition_states (db w'))"
proof -
  let ?d = "normalizeDefinition S d"
  have valid: "validateDefinition S ?d = None" "validateSchedule S (defSchedule ?d) = None"
    using assms by (auto simp: applyDefinition_def Let_def fail_def split: option.splits)
  show ?thesis
  proof (cases "enabledStatus ?d")
    case False
    then show ?thesis
      using assms valid by (simp add: applyDefinition_def Let_def ret_def activeKeys_def projected_def)
  next
    case True
    with assms valid have "active' = active @ [defKey ?d]"
      and r: "reconcileWith S s ?d (initialCursor S ?d now) definitionStateSourceRuntime True w = (Inr (), w')"
      by (auto simp: applyDefinition_def Let_def ret_def elim!: bindE_InrE)
    moreover from reconcile_Inr [OF r] obtain raw st' where
      "db w' = (db w)\<lparr>definition_states := st'\<rparr>"
      "reconciled s ?d raw (initialCursor S ?d now) definitionStateSourceRuntime True
        (formatTime (clock w (reads w))) (definition_states (db w)) st'" by blast
    ultimately show ?thesis
      using True reconciled_identities reconciled_foreign by (auto simp: activeKeys_def projected_def)
  qed
qed

lemma applyDefinitions_Inr:
  "foldE (applyDefinition S s now) ds active w = (Inr active', w') \<Longrightarrow>
    active' = active @ activeKeys S ds \<and>
    projected s (activeKeys S ds) (definition_states (db w)) (definition_states (db w'))"
proof (induction ds arbitrary: active w)
  case Nil
  then show ?case by (simp add: ret_def activeKeys_def projected_def)
next
  case (Cons d ds)
  from Cons.prems obtain a1 w1 where 1: "applyDefinition S s now d active w = (Inr a1, w1)"
    and 2: "foldE (applyDefinition S s now) ds a1 w1 = (Inr active', w')"
    by (auto elim: bindE_InrE)
  have "activeKeys S (d # ds) = activeKeys S [d] @ activeKeys S ds" by (simp add: activeKeys_def)
  with applyDefinition_Inr [OF 1] Cons.IH [OF 2] show ?case by (auto intro: projected_trans)
qed

text \<open>The states after a projection: enabled exactly for the active keys, which all have a row.\<close>

lemma projected_states:
  fixes revision :: int
  assumes "projected s active st0 st"
  defines "st' \<equiv> map (projectedState s active revision) st"
  shows "\<forall>r \<in> set st'. foreignState s r \<or>
       ds_enabled r = (ds_definition_key r \<in> set active) \<and> ds_snapshot_revision r = revision"
    and "\<forall>k \<in> set active. trimSpace k = k \<longrightarrow> (\<exists>r \<in> set st'.
       stateIdentity r = (runtimeID s, k, definitionStateSourceRuntime) \<and> ds_enabled r)"
    and "filter (foreignState s) st' = filter (foreignState s) st0"
proof -
  let ?g = "projectedState s active revision"
  have fg: "foreignState s (?g r) = foreignState s r" "foreignState s r \<Longrightarrow> ?g r = r" for r
    by (auto simp: projectedState_def foreignState_def)
  have "filter (foreignState s) (map ?g st) = filter (foreignState s) st"
    by (induction st) (auto simp: fg)
  then show "filter (foreignState s) st' = filter (foreignState s) st0"
    using assms(1) by (simp add: st'_def projected_def)
  show "\<forall>r \<in> set st'. foreignState s r \<or>
       ds_enabled r = (ds_definition_key r \<in> set active) \<and> ds_snapshot_revision r = revision"
    by (auto simp: st'_def projectedState_def foreignState_def)
  have "\<exists>r \<in> set st'. stateIdentity r = (runtimeID s, k, definitionStateSourceRuntime) \<and> ds_enabled r"
    if "k \<in> set active" "trimSpace k = k" for k
  proof -
    have "(runtimeID s, k, definitionStateSourceRuntime) \<in> set (map stateIdentity st)"
      using assms(1) that unfolding projected_def by blast
    then obtain q where "q \<in> set st" "(runtimeID s, k, definitionStateSourceRuntime) = stateIdentity q"
      unfolding set_map by blast
    then have "?g q \<in> set st'"
      and "stateIdentity (?g q) = (runtimeID s, k, definitionStateSourceRuntime) \<and> ds_enabled (?g q)"
      using that(1) by (simp add: st'_def, simp add: stateIdentity_def projectedState_def)
    then show ?thesis by blast
  qed
  then show "\<forall>k \<in> set active. trimSpace k = k \<longrightarrow> (\<exists>r \<in> set st'.
       stateIdentity r = (runtimeID s, k, definitionStateSourceRuntime) \<and> ds_enabled r)" by blast
qed

lemma apply_Inr_True:
  assumes "ApplyDefinitionSnapshot S s snapshot now w = (Inr True, w')"
  obtains fence st where "snapFence snapshot = Some fence" "cursorMatches s snapshot fence (db w)"
    "projected s (activeKeys S (snapDefinitions snapshot)) (definition_states (db w)) st"
    "definition_states (db w') =
      map (projectedState s (activeKeys S (snapDefinitions snapshot)) (snapRevision snapshot)) st"
proof -
  obtain fence v where f: "snapFence snapshot = Some fence" and v: "db v = db w"
    and t: "transaction (applySnapshot_tx S s snapshot fence now) v = (Inr True, w')"
    using assms unfolding ApplyDefinitionSnapshot_def
    by (auto simp: fail_def bindE_def liftE_def split: if_splits option.splits sum.splits)
  from t show thesis
  proof (cases rule: transaction_InrE)
    case (committed w1 w2)
    from committed(2) obtain w3 active w4 u where
      l: "lockDefinitionSnapshotCursor s snapshot fence w1 = (Inr True, w3)"
      and a: "foldE (applyDefinition S s now) (snapDefinitions snapshot) [] w3 = (Inr active, w4)"
      and b: "disableMissingWith s active (snapRevision snapshot) w4 = (Inr u, w2)"
      unfolding applySnapshot_tx_def
      by (auto elim!: bindE_InrE simp: ret_def split: if_splits)
    note lr = lockCursor_result [OF l] and ar = applyDefinitions_Inr [OF a] and br = disableMissing_Inr [OF b]
    show thesis
      by (rule that [OF f, of "definition_states (db w4)"])
        (use lr ar br v committed(1,3) in auto)
  next
    case (rolled_back w1 w2)
    then have False
      unfolding applySnapshot_tx_def by (auto elim!: bindE_InrE simp: ret_def split: if_splits)
    then show thesis ..
  qed
qed


section \<open>Consuming a window\<close>

definition cursorAt :: "Store \<Rightarrow> DueTrigger \<Rightarrow> definition_state_row \<Rightarrow> bool" where
  "cursorAt s due r \<longleftrightarrow> definitionIdentity s (defKey (dueDefinition due)) r \<and> ds_enabled r \<and>
     ds_next_run_at r = formatTime (dueExpectedCursor due)"

definition nextCursor :: "Sdk \<Rightarrow> DueTrigger \<Rightarrow> time" where
  "nextCursor S due =
     (let n = (if dueNextRunAt due = 0 \<and> scheduleKind S (defSchedule (dueDefinition due)) \<noteq> ''once''
               then nextSchedule S (defSchedule (dueDefinition due)) (dueExpectedCursor due)
               else dueNextRunAt due)
      in if n = 0 then dueExpectedCursor due else n)"

definition consumedState :: "Sdk \<Rightarrow> DueTrigger \<Rightarrow> time \<Rightarrow> definition_state_row \<Rightarrow> definition_state_row" where
  "consumedState S due now r =
     r\<lparr>ds_next_run_at := formatTime (nextCursor S due),
       ds_last_run_at := Some (formatTime (dueExpectedCursor due)),
       ds_last_run_status := Some ''leased'', ds_updated_at := formatTime now,
       ds_enabled := (if scheduleKind S (defSchedule (dueDefinition due)) = ''once'' then False
                      else ds_enabled r)\<rparr>"

lemma claimCursor_statement:
  assumes "dueExpectedCursor due \<noteq> 0"
  shows "claimCursor S s due now = bindE (sqlCall (update_definition_states (cursorAt s due)
     (consumedState S due now))) (\<lambda>affected. ret (affected = 1))"
proof -
  have f: "(\<lambda>r. let r = r\<lparr>ds_next_run_at := formatTime (nextCursor S due),
        ds_last_run_at := Some (formatTime (dueExpectedCursor due)),
        ds_last_run_status := Some ''leased'', ds_updated_at := formatTime now\<rparr>
      in if scheduleKind S (defSchedule (dueDefinition due)) = ''once'' then r\<lparr>ds_enabled := False\<rparr> else r)
    = consumedState S due now" (is "?f = _")
  proof
    fix r :: definition_state_row
    show "?f r = consumedState S due now r"
      by (cases r) (simp add: consumedState_def)
  qed
  show ?thesis
    using assms unfolding claimCursor_def advanceCursorWith_def Let_def
    by (simp add: f [unfolded nextCursor_def Let_def, symmetric] cursorAt_def [abs_def])
qed

lemma statements_keep_states:
  "definition_states (snd (insert_runs S r d)) = definition_states d"
  "definition_states (snd (insert_run_events S ev d)) = definition_states d"
  "definition_states (snd (insert_ignore_capacity_guards g d)) = definition_states d"
  "definition_states (snd (update_capacity_guards p f d)) = definition_states d"
  by (simp_all add: sql_unfold)

lemmas keep_states = statements_keep_states [THEN sqlCall_keeps [where g = definition_states]]

lemma eventWith_states:
  "eventWith S s run kind message w = (q, w') \<Longrightarrow> definition_states (db w') = definition_states (db w)"
  by (auto simp: eventWith_def bindE_def timeNow_def ret_def split: prod.splits sum.splits
      dest!: keep_states(2))

lemma claimInsert_states:
  assumes "claimInsert_tx S s due ttl now w = (Inr (Commit x), w')" "dueExpectedCursor due \<noteq> 0"
  shows "matched (cursorAt s due) (definition_states (db w)) = 1"
    "definition_states (db w') = updateWhere (cursorAt s due) (consumedState S due now) (definition_states (db w))"
proof -
  obtain q w1 where i: "sqlCall (insert_runs S (runRow S s due ttl now)) w = (q, w1)" by fastforce
  obtain n where q: "q = Inr n"
    using assms(1) i by (cases q) (auto simp: claimInsert_tx_def attempt_def ret_def fail_def split: if_splits)
  have st1: "definition_states (db w1) = definition_states (db w)"
    using i by (rule keep_states(1))
  from assms(1) i q obtain b w2 u where c: "claimCursor S s due now w1 = (Inr b, w2)" and b: "b"
    and e: "eventWith S s (r_run_id (runRow S s due ttl now)) ''lease_acquired'' [] w2 = (Inr u, w')"
    by (auto simp: claimInsert_tx_def attempt_def ret_def elim!: bindE_InrE split: if_splits)
  from c obtain k where k: "sqlCall (update_definition_states (cursorAt s due) (consumedState S due now)) w1 = (Inr k, w2)"
    and "b = (k = 1)"
    unfolding claimCursor_statement [OF assms(2)] by (auto elim!: bindE_InrE simp: ret_def)
  note r = sql_states_Inr [OF k]
  have "definition_states (db w') = definition_states (db w2)"
    using e by (rule eventWith_states)
  with r st1 b \<open>b = (k = 1)\<close> show "matched (cursorAt s due) (definition_states (db w)) = 1"
    "definition_states (db w') = updateWhere (cursorAt s due) (consumedState S due now) (definition_states (db w))"
    by simp_all
qed


lemma claim_tx_states:
  assumes "transaction (claim_tx S s due ttl now) w = (Inr LeaseAcquired, w')" "dueExpectedCursor due \<noteq> 0"
  shows "matched (cursorAt s due) (definition_states (db w)) = 1 \<and>
    definition_states (db w') = updateWhere (cursorAt s due) (consumedState S due now) (definition_states (db w))"
  using assms(1)
proof (cases rule: transaction_InrE)
  case (committed w1 w2)
  from committed(2) obtain w3 w4 u where l: "lockTriggerCapacity s w1 = (Inr u, w3)"
    and i: "claimInsert_tx S s due ttl now w4 = (Inr (Commit LeaseAcquired), w2)" and d: "db w4 = db w3"
    unfolding claim_tx_def
    by (auto elim!: bindE_InrE simp: attempt_def ret_def fail_def split: prod.splits sum.splits if_splits
        dest!: sqlQuery_db readonlyD [OF readonly_reads(2)])
  have "definition_states (db w3) = definition_states (db w1)"
    using l by (auto simp: lockTriggerCapacity_def ret_def elim!: bindE_InrE
        dest!: keep_states(3) keep_states(4))
  with claimInsert_states [OF i assms(2)] d committed show ?thesis by simp
next
  case (rolled_back w1 w2)
  then have False
    unfolding claim_tx_def
    by (auto elim!: bindE_InrE simp: attempt_def ret_def fail_def claimInsert_not_rolled_back
        split: prod.splits sum.splits if_splits)
  then show ?thesis ..
qed

section \<open>The number of due triggers\<close>

lemma length_windowTriggers [simp]: "length (windowTriggers d c ws) = length ws"
  by (induction d c ws rule: windowTriggers.induct) auto

definition misfireBounded :: "Sdk \<Rightarrow> bool" where
  "misfireBounded S \<longleftrightarrow> (\<forall>sched pol c t n. 0 < n \<longrightarrow>
     int (length (misfireWindows (resolveMisfire S sched pol c t n))) \<le> n)"

lemma dueState_length:
  assumes "misfireBounded S" "dueState S s now limit state result w = (Inr result', w')"
    "int (length result) \<le> limit"
  shows "int (length result') \<le> limit"
proof (cases state)
  case (Pair d cursor)
  define n where "n = limit - int (length result)"
  have "int (length (misfireWindows (resolveMisfire S (defSchedule d) (defPolicy d) cursor now n))) \<le> n"
    if "0 < n" using assms(1) that by (simp add: misfireBounded_def)
  with assms(2,3) Pair n_def show ?thesis
    by (auto simp: dueState_def Let_def ret_def elim!: bindE_InrE split: if_splits)
qed

lemma dueStates_length:
  "misfireBounded S \<Longrightarrow> foldE (dueState S s now limit) states result w = (Inr result', w') \<Longrightarrow>
    int (length result) \<le> limit \<Longrightarrow> int (length result') \<le> limit"
proof (induction states arbitrary: result w)
  case (Cons state states)
  then show ?case by (auto elim!: bindE_InrE dest: dueState_length)
qed (simp add: ret_def)

lemma retryTriggers_length:
  "foldE (retryTrigger S s) rows result w = (Inr result', w') \<Longrightarrow>
    length result' \<le> length result + length rows"
proof (induction rows arbitrary: result w)
  case (Cons row rows)
  then obtain r1 w1 where "retryTrigger S s row result w = (Inr r1, w1)"
    and rest: "foldE (retryTrigger S s) rows r1 w1 = (Inr result', w')"
    by (auto elim: bindE_InrE)
  then have "length r1 \<le> Suc (length result)"
    by (auto simp: retryTrigger_def ret_def elim!: bindE_InrE split: prod.splits option.splits)
  with Cons.IH [OF rest] show ?case by simp
qed (simp add: ret_def)

section \<open>Properties\<close>

text \<open>
  Reconciling a definition whose stored revision is unchanged keeps its cursor and the record of
  its last run, and for a scheduled plan that is enabled also its enabled flag, so a completed
  one-time plan stays completed; a changed revision moves the cursor to the new time and sets the
  flag; rows of other definitions, Runtimes and sources are not touched.
\<close>

theorem reconcile_keeps_cursor:
  assumes "reconcileWith S s d nxt k en w = (Inr (), w')" "r \<in> set (definition_states (db w))"
  shows "\<exists>r' \<in> set (definition_states (db w')). definition_state_key r' = definition_state_key r \<and>
    ds_last_run_at r' = ds_last_run_at r \<and> ds_last_run_status r' = ds_last_run_status r \<and>
    (if \<not> definitionSourceIdentity s (defKey d) k r then r' = r
     else if ds_revision r \<noteq> defRevision d
       then ds_next_run_at r' = formatTime nxt \<and> ds_enabled r' = en \<and> ds_revision r' = defRevision d
     else ds_next_run_at r' = ds_next_run_at r \<and> ds_revision r' = ds_revision r \<and>
       (k = definitionStateSourcePlan \<and> en \<longrightarrow> ds_enabled r' = ds_enabled r))"
proof -
  from reconcile_Inr [OF assms(1)] obtain raw st' now where st: "definition_states (db w') = st'"
    and rec: "reconciled s d raw nxt k en now (definition_states (db w)) st'" by auto
  let ?own = "definitionSourceIdentity s (defKey d) k"
  let ?other = "\<lambda>r. ?own r \<and> ds_revision r \<noteq> defRevision d"
  have mem: "(if p r then f r else r) \<in> set (updateWhere p f (definition_states (db w)))" for p f
    using assms(2) by (auto simp: updateWhere_def)
  consider "st' = updateWhere ?other (changedState d raw nxt en now) (definition_states (db w))"
    | "st' = updateWhere ?own (stableState raw k en now) (definition_states (db w))" "\<not> ?other r"
    | "st' = definition_states (db w) @ [newState s d raw nxt k en now]" "\<not> ?own r"
    using rec assms(2) unfolding reconciled_def Let_def by (auto split: if_splits)
  then show ?thesis
  proof cases
    case 1
    then show ?thesis
      using mem [of ?other "changedState d raw nxt en now"] unfolding st
      by (intro bexI [where x = "if ?other r then changedState d raw nxt en now r else r"])
        (auto simp: changedState_def definition_state_key_def)
  next
    case 2
    then show ?thesis
      using mem [of ?own "stableState raw k en now"] unfolding st
      by (intro bexI [where x = "if ?own r then stableState raw k en now r else r"])
        (auto simp: stableState_def definition_state_key_def)
  next
    case 3
    then show ?thesis using assms(2) unfolding st by (intro bexI [of _ r]) auto
  qed
qed

theorem reconcile_keeps_cursor_witness:
  "\<exists>r' \<in> set (definition_states (db (snd (Reconcile exSdk (exStore ''a'') exDefinition (exNoon + second)
       (exWorld exLeased exNoon))))). ds_next_run_at r' = formatTime exNoon"
proof -
  have r: "exStateRow \<in> set (definition_states (db (exWorld exLeased exNoon)))"
    by (simp add: exWorld_def exLeased_def)
  have own: "definitionSourceIdentity (exStore ''a'') (defKey exDefinition) definitionStateSourceRuntime exStateRow"
    "ds_revision exStateRow = defRevision exDefinition" "ds_next_run_at exStateRow = formatTime exNoon"
    by (simp_all add: definitionSourceIdentity_def definitionIdentity_def exStateRow_def exDefinition_def exStore_def)
  from reconcile_keeps_cursor [OF exReconcile [unfolded Reconcile_def] r] own show ?thesis
    unfolding Reconcile_def by auto
qed

text \<open>
  \<^verbatim>\<open>DisableMissing\<close> leaves enabled exactly the active keys among the Runtime's own definitions,
  stamps them with the snapshot revision, and touches nothing else: no plan, no other Runtime.
\<close>

theorem disable_missing_exact:
  "DisableMissing s active revision w = (Inr (), w') \<Longrightarrow>
    db w' = (db w)\<lparr>definition_states := map (projectedState s active revision) (definition_states (db w))\<rparr>"
  unfolding DisableMissing_def by (rule disableMissing_Inr)

theorem disable_missing_exact_witness:
  "db (snd (DisableMissing (exStore ''a'') [] 7 (exWorld exLeased exNoon))) =
    exLeased\<lparr>definition_states := [exStateRow\<lparr>ds_enabled := False, ds_snapshot_revision := 7\<rparr>]\<rparr>"
proof -
  have "DisableMissing (exStore ''a'') [] 7 (exWorld exLeased exNoon) =
      (Inr (), snd (DisableMissing (exStore ''a'') [] 7 (exWorld exLeased exNoon)))"
    by (simp add: DisableMissing_def disableMissingWith_def go_unfold sql_unfold exWorld_def)
  from disable_missing_exact [OF this] show ?thesis
    by (simp add: exWorld_def exLeased_def projectedState_def exStateRow_def exStore_def)
qed

text \<open>
  A fenced snapshot that is not the published one (another generation, session, revision or
  content, or nothing published) is never applied, and the attempt writes nothing.
\<close>

theorem stale_snapshot_not_applied:
  assumes "snapFence snapshot = Some fence" "\<not> cursorMatches s snapshot fence (db w)"
  shows "fst (ApplyDefinitionSnapshot S s snapshot now w) \<noteq> Inr True \<and>
    db (snd (ApplyDefinitionSnapshot S s snapshot now w)) = db w"
  using apply_stale [OF assms(2,1)] by (metis prod.collapse)

theorem stale_snapshot_not_applied_witness:
  "fst (ApplyDefinitionSnapshot exSdk (exStore ''a'') exSnapshot exNoon (exWorld exLeased exNoon)) \<noteq> Inr True"
  using stale_snapshot_not_applied [of exSnapshot exFence "exStore ''a''" "exWorld exLeased exNoon" exSdk exNoon]
  by (simp add: exSnapshot_def cursorMatches_def exWorld_def exLeased_def emptyDatabase_def selectRow_def)

text \<open>
  C33. An applied snapshot is the published one. Afterwards a definition of this Runtime is enabled if
  and only if the snapshot has it enabled, all carry the snapshot's revision, every enabled
  definition of the snapshot has its row, and the rows of plans and of other Runtimes are the same,
  in the same order.
\<close>

theorem applied_snapshot_projects:
  assumes "ApplyDefinitionSnapshot S s snapshot now w = (Inr True, w')"
  defines "active \<equiv> activeKeys S (snapDefinitions snapshot)"
  shows "(\<exists>fence. snapFence snapshot = Some fence \<and> cursorMatches s snapshot fence (db w)) \<and>
    (\<forall>r \<in> set (definition_states (db w')). foreignState s r \<or>
       ds_enabled r = (ds_definition_key r \<in> set active) \<and> ds_snapshot_revision r = snapRevision snapshot) \<and>
    (\<forall>k \<in> set active. trimSpace k = k \<longrightarrow> (\<exists>r \<in> set (definition_states (db w')).
       stateIdentity r = (runtimeID s, k, definitionStateSourceRuntime) \<and> ds_enabled r)) \<and>
    filter (foreignState s) (definition_states (db w')) = filter (foreignState s) (definition_states (db w))"
proof -
  obtain fence st where "snapFence snapshot = Some fence" "cursorMatches s snapshot fence (db w)"
    and p: "projected s active (definition_states (db w)) st"
    and "definition_states (db w') = map (projectedState s active (snapRevision snapshot)) st"
    using assms(1) unfolding active_def by (rule apply_Inr_True)
  with projected_states [OF p, of "snapRevision snapshot"] show ?thesis by auto
qed

theorem applied_snapshot_projects_witness:
  "\<exists>r \<in> set (definition_states (db (snd (ApplyDefinitionSnapshot exSdk (exStore ''a'') exSnapshot exNoon
     (exWorld exPublished exNoon))))).
     stateIdentity r = (''rt'', ''nightly'', definitionStateSourceRuntime) \<and> ds_enabled r"
proof -
  have "equalFold (trimSpace ''enabled'') ''enabled''" by code_simp
  then have "activeKeys exSdk (snapDefinitions exSnapshot) = [''nightly'']"
    by (simp add: activeKeys_def exSnapshot_def enabledStatus_def exDefinition_def)
  moreover have "runtimeID (exStore ''a'') = ''rt''" by (simp add: exStore_def)
  ultimately show ?thesis
    using applied_snapshot_projects [OF exApply] by simp
qed

text \<open>
  A claim that starts a new run at an expected cursor consumes that window: exactly one enabled
  definition state stood at the cursor, and it moves to the next time (a one-time schedule is
  disabled instead of being scheduled again), in the same transaction that adds the run.
\<close>

theorem claim_consumes_window:
  assumes "Claim S s due ttl w = (Inr (Some (run, True)), w')" "dueExpectedCursor due \<noteq> 0"
    and "freshRun s (runID (runtimeID s) (defKey (dueDefinition due)) (dueScheduledFor due)) (db w)"
  shows "matched (cursorAt s due) (definition_states (db w)) = 1 \<and>
    definition_states (db w') = updateWhere (cursorAt s due) (consumedState S due (clock w (reads w)))
      (definition_states (db w)) \<and>
    (\<exists>t. runs (db w') = runs (db w) @ [runRow S s due t (clock w (reads w))])"
  using assms(1)
proof (cases rule: Claim_cases)
  case (acquired w1)
  with claim_tx_states [OF acquired(2) assms(2)] claim_tx_acquired(3) [OF acquired(2)] show ?thesis
    by auto
next
  case (taken w1)
  then obtain n w2 where "sqlCall (sql_takeExpired s
      (runID (runtimeID s) (defKey (dueDefinition due)) (dueScheduledFor due))
      (if ttl \<le> 0 then 5 * minute else ttl) (clock w (reads w))) w1 = (Inr n, w2)" "n \<noteq> 0"
    by (auto simp: takeExpired_def ret_def elim!: bindE_InrE split: if_splits)
  then have False
    using assms(3) taken(1)
    by (auto elim!: sqlCall_InrE simp: sql_takeExpired_def update_runs_def matched_def filter_empty_conv
        freshRun_def expiredLease_def)
  then show ?thesis ..
qed

theorem claim_consumes_window_witness:
  "definition_states (db (snd (Claim exSdk (exStore ''a'') (exDue\<lparr>dueExpectedCursor := exNoon\<rparr>) minute
     (exWorld (emptyDatabase\<lparr>definition_states := [exStateRow]\<rparr>) exNoon)))) =
   [consumedState exSdk (exDue\<lparr>dueExpectedCursor := exNoon\<rparr>) exNoon exStateRow]"
  using claim_consumes_window [OF exClaimWindow]
  by (simp add: freshRun_def exWorld_def emptyDatabase_def cursorAt_def definitionIdentity_def exStateRow_def
      exDue_def exDefinition_def exStore_def exNoon_def unixEpoch_def second_def)

text \<open>
  A claim that reports neither a run nor an error found the cursor moved, and changed nothing: no
  run without its window, no window without its run.
\<close>

theorem claim_cursor_moved_no_effect:
  assumes "Claim S s due ttl w = (Inr None, w')"
  shows "db w' = db w"
proof -
  let ?t = "if ttl \<le> 0 then 5 * minute else ttl"
  from assms have "transaction (claim_tx S s due ?t (clock w (reads w))) (w\<lparr>reads := Suc (reads w)\<rparr>) = (Inr CursorMoved, w')"
    unfolding Claim_def Let_def bindE_timeNow
    by (auto elim!: bindE_InrE simp: ret_def split: claimEnd.splits option.splits)
  from transaction_claim_kept [OF this] show ?thesis by simp
qed

theorem claim_cursor_moved_no_effect_witness:
  "db (snd (Claim exSdk (exStore ''a'') (exDue\<lparr>dueExpectedCursor := exNoon\<rparr>) minute
     (exWorld emptyDatabase exNoon))) = emptyDatabase"
  using claim_cursor_moved_no_effect [OF exClaimMoved] by (simp add: exWorld_def)

text \<open>
  \<^verbatim>\<open>Due\<close> returns at most the requested number of triggers (25 when none is requested), provided
  the SDK's misfire resolution honours the number it is asked for.
\<close>

lemma due_length:
  assumes "Due S s now limit w = (Inr triggers, w')" "misfireBounded S"
  shows "int (length triggers) \<le> (if limit \<le> 0 then 25 else limit)"
proof -
  define l where "l = (if limit \<le> 0 then 25 else limit)"
  have l: "0 \<le> l" by (simp add: l_def)
  from assms(1) obtain states w1 result w2 where
    f: "foldE (dueState S s now l) states [] w1 = (Inr result, w2)"
    and rest: "(let remaining = l - int (length result) in
      if remaining \<le> 0 then ret result else
      bindE (sqlQuery (\<lambda>d. Inr (map (\<lambda>r. (r_definition_key r, r_scheduled_for r))
        (limitRows remaining (ascending r_scheduled_for
          (filter (dueRetry (runtimeID s) (formatTime now)) (runs d))))))) (\<lambda>rows.
      bindE (foldE (retryTrigger S s) rows result) (\<lambda>result.
      bindE envCall (\<lambda>_. ret result)))) w2 = (Inr triggers, w')"
    unfolding Due_def Let_def l_def by (blast elim: bindE_InrE)
  have r: "int (length result) \<le> l"
    using dueStates_length [OF assms(2) f] l by simp
  show ?thesis
  proof (cases "l - int (length result) \<le> 0")
    case True
    then show ?thesis using rest r by (simp add: ret_def l_def)
  next
    case False
    with rest obtain w3 w4 where
      "foldE (retryTrigger S s) (map (\<lambda>r. (r_definition_key r, r_scheduled_for r))
        (limitRows (l - int (length result)) (ascending r_scheduled_for
          (filter (dueRetry (runtimeID s) (formatTime now)) (runs (db w2)))))) result w3 = (Inr triggers, w4)"
      by (auto simp: Let_def ret_def elim!: bindE_InrE sqlQuery_InrE)
    from retryTriggers_length [OF this] False show ?thesis
      using length_limitRows [of "l - int (length result)" "ascending r_scheduled_for
          (filter (dueRetry (runtimeID s) (formatTime now)) (runs (db w2)))"] r
      unfolding l_def by simp
  qed
qed

end
