(* ===== verification/Command_Receipts.thy ===== *)
theory Command_Receipts
  imports Database
begin

text \<open>
  Idempotent management commands: the receipt store, \<^verbatim>\<open>command_receipt_store.go\<close>, and the HTTP
  middleware that uses it, \<^verbatim>\<open>withCommandReceipt\<close> of \<^verbatim>\<open>transport/http/module/adapter.go\<close>.

  The middleware knows the store only through the interface \<^verbatim>\<open>CommandReceiptStore\<close>, so it takes the
  two operations as arguments. The locale \<open>command_receipts\<close> states what it relies on; at-most-once
  execution and the replay of the recorded response are proved there, and hold for the database
  store through its interpretation. The decoding and re-encoding of a JSON body is an argument of
  the request hash.
\<close>

section \<open>The store\<close>

record CommandReceipt =
  crIdempotencyKey :: string
  crActionKey :: string
  crResourceKey :: string
  crRequestHash :: string
  crStatus :: string
  crHTTPStatus :: int
  crResponseJSON :: string

definition CommandReceiptExecuting :: string where
  "CommandReceiptExecuting = ''executing''"

definition CommandReceiptCompleted :: string where
  "CommandReceiptCompleted = ''completed''"

record CommandReceiptStore =
  crRuntimeID :: string

definition NewCommandReceiptStore :: "bool \<Rightarrow> bool \<Rightarrow> string \<Rightarrow> goerr + CommandReceiptStore" where
  "NewCommandReceiptStore hasDB hasDialect runtime =
     (if \<not> hasDB then Inl (Errorf ''Scheduler command receipt database is required'')
      else if \<not> hasDialect then Inl (Errorf ''Scheduler command receipt dialect is required'')
      else let runtime = trimSpace runtime in
        if runtime = [] then Inl (Errorf ''Scheduler command receipt runtime identity is required'')
        else Inr \<lparr>crRuntimeID = runtime\<rparr>)"

definition receiptIdentity :: "CommandReceiptStore \<Rightarrow> string \<Rightarrow> command_receipt_row \<Rightarrow> bool" where
  "receiptIdentity s key r \<longleftrightarrow> cr_runtime_id r = crRuntimeID s \<and> cr_idempotency_key r = trimSpace key"

definition receiptOfRow :: "string \<Rightarrow> command_receipt_row \<Rightarrow> CommandReceipt" where
  "receiptOfRow key r =
     \<lparr>crIdempotencyKey = trimSpace key, crActionKey = cr_action_key r, crResourceKey = cr_resource_key r,
      crRequestHash = cr_request_hash r, crStatus = cr_status r, crHTTPStatus = cr_http_status r,
      crResponseJSON = nullString (cr_response_json r)\<rparr>"

definition commandReceipt :: "CommandReceiptStore \<Rightarrow> string \<Rightarrow> CommandReceipt dbop" where
  "commandReceipt s key =
     bindE (sqlQuery (\<lambda>d. selectRow (receiptIdentity s key) (command_receipts d))) (\<lambda>r.
     ret (receiptOfRow key r))"

definition trimReceipt :: "CommandReceipt \<Rightarrow> CommandReceipt" where
  "trimReceipt r = r\<lparr>crIdempotencyKey := trimSpace (crIdempotencyKey r),
     crActionKey := trimSpace (crActionKey r), crResourceKey := trimSpace (crResourceKey r),
     crRequestHash := trimSpace (crRequestHash r)\<rparr>"

definition claimRow :: "CommandReceiptStore \<Rightarrow> CommandReceipt \<Rightarrow> string \<Rightarrow> command_receipt_row" where
  "claimRow s receipt now =
     \<lparr>cr_runtime_id = crRuntimeID s, cr_idempotency_key = crIdempotencyKey receipt,
      cr_action_key = crActionKey receipt, cr_resource_key = crResourceKey receipt,
      cr_request_hash = crRequestHash receipt, cr_status = CommandReceiptExecuting,
      cr_http_status = 0, cr_response_json = None, cr_created_at = now, cr_updated_at = now\<rparr>"

definition ClaimCommand ::
  "Sdk \<Rightarrow> CommandReceiptStore \<Rightarrow> CommandReceipt \<Rightarrow> (CommandReceipt \<times> bool) dbop" where
  "ClaimCommand S s receipt0 =
     (let receipt = trimReceipt receipt0 in
      if crIdempotencyKey receipt = [] \<or> crActionKey receipt = [] \<or> crResourceKey receipt = [] \<or>
         crRequestHash receipt = []
      then fail (Errorf ''Scheduler command receipt identity is incomplete'') else
      bindE timeNow (\<lambda>t. let now = formatTime t in
      attempt (sqlCall (insert_command_receipts S (claimRow s receipt now))) (\<lambda>q.
      case q of
        Inr _ \<Rightarrow> ret (receipt\<lparr>crStatus := CommandReceiptExecuting\<rparr>, True)
      | Inl e \<Rightarrow>
          if \<not> isUnique S e then fail e else
          bindE (commandReceipt s (crIdempotencyKey receipt)) (\<lambda>existing. ret (existing, False)))))"

definition CompleteCommand ::
  "CommandReceiptStore \<Rightarrow> string \<Rightarrow> string \<Rightarrow> int \<Rightarrow> string \<Rightarrow> unit dbop" where
  "CompleteCommand s key requestHash httpStatus responseJSON =
     bindE timeNow (\<lambda>t.
     bindE (sqlCall (update_command_receipts
       (\<lambda>r. receiptIdentity s key r \<and> cr_request_hash r = trimSpace requestHash \<and>
            cr_status r = CommandReceiptExecuting)
       (\<lambda>r. r\<lparr>cr_status := CommandReceiptCompleted, cr_http_status := httpStatus,
              cr_response_json := Some responseJSON, cr_updated_at := formatTime t\<rparr>))) (\<lambda>affected.
     if affected \<noteq> 1
     then fail (Errorf (''Scheduler command receipt '' @ quoted key @ '' was not executing''))
     else ret ()))"

section \<open>The middleware\<close>

text \<open>
  A request, with the headers the middleware reads; \<open>reqBody\<close> is \<open>None\<close> for a nil body, and an error
  if reading it fails. A response has a status, its header lines and a body.
\<close>

record HTTPRequest =
  reqMethod :: string
  reqPath :: string
  reqIdempotencyKey :: string
  reqReason :: string
  reqConfirmation :: string
  reqBody :: "(goerr + string) option"

record HTTPResponse =
  respStatus :: int
  respHeader :: "(string \<times> string) list"
  respBody :: string

definition maxRequestBytes :: int where
  "maxRequestBytes = 2097152"

definition jsonHeader :: "(string \<times> string) list" where
  "jsonHeader = [(''Content-Type'', ''application/json''), (''Cache-Control'', ''no-store'')]"

text \<open>\<^verbatim>\<open>writeError\<close>: the encoder ends the object with a line feed; the codes need no escapes.\<close>

definition writeError :: "int \<Rightarrow> string \<Rightarrow> HTTPResponse" where
  "writeError status code =
     \<lparr>respStatus = status, respHeader = jsonHeader,
      respBody = ''{'' @ [CHR 0x22] @ ''code'' @ [CHR 0x22] @ '':'' @ [CHR 0x22] @ code @ [CHR 0x22] @
        ''}'' @ [CHR 0x0A]\<rparr>"

datatype hashError = RequestTooLarge | InvalidJSON

definition schedulerCommandRequestHash ::
  "(string \<Rightarrow> goerr + string) \<Rightarrow> HTTPRequest \<Rightarrow> string \<Rightarrow> hashError + string" where
  "schedulerCommandRequestHash canonical r actionKey =
     (let digest = (\<lambda>body. Inr (sha256Hex (trimSpace actionKey @ [CHR 0x0A] @ reqMethod r @ [CHR 0x0A] @
            trimSpace (reqPath r) @ [CHR 0x0A] @ trimSpace (reqReason r) @ [CHR 0x0A] @
            trimSpace (reqConfirmation r) @ [CHR 0x0A] @ body)));
          hash = (\<lambda>body. if body = [] then digest body else
            (case canonical body of Inl _ \<Rightarrow> Inl InvalidJSON | Inr c \<Rightarrow> digest c))
      in case reqBody r of
           None \<Rightarrow> hash []
         | Some (Inl _) \<Rightarrow> Inl InvalidJSON
         | Some (Inr v) \<Rightarrow>
             if int (length v) > maxRequestBytes then Inl RequestTooLarge else hash (trimSpace v))"

definition replayResponse :: "CommandReceipt \<Rightarrow> HTTPResponse" where
  "replayResponse receipt =
     \<lparr>respStatus = crHTTPStatus receipt, respHeader = jsonHeader @ [(''Idempotency-Replayed'', ''true'')],
      respBody = crResponseJSON receipt\<rparr>"

text \<open>What is answered when the key was claimed before.\<close>

definition answerHeld :: "string \<Rightarrow> string \<Rightarrow> string \<Rightarrow> CommandReceipt \<Rightarrow> HTTPResponse" where
  "answerHeld actionKey resourceKey requestHash receipt =
     (if crActionKey receipt \<noteq> actionKey \<or> crResourceKey receipt \<noteq> resourceKey \<or>
         crRequestHash receipt \<noteq> requestHash
      then writeError 409 ''backend.scheduler.idempotency_conflict''
      else if crStatus receipt \<noteq> CommandReceiptCompleted
      then writeError 409 ''backend.scheduler.operation_in_progress''
      else replayResponse receipt)"

definition withCommandReceipt ::
  "(CommandReceipt \<Rightarrow> (CommandReceipt \<times> bool) dbop) \<Rightarrow> (string \<Rightarrow> string \<Rightarrow> int \<Rightarrow> string \<Rightarrow> unit dbop) \<Rightarrow>
   (string \<Rightarrow> goerr + string) \<Rightarrow> string \<Rightarrow> (HTTPRequest \<Rightarrow> HTTPResponse dbop) \<Rightarrow> HTTPRequest \<Rightarrow> HTTPResponse dbop" where
  "withCommandReceipt claim complete canonical actionKey handler r =
     (let key = trimSpace (reqIdempotencyKey r) in
      if key = [] then ret (writeError 400 ''backend.scheduler.idempotency_key_required'')
      else if length key > 191 then ret (writeError 400 ''backend.scheduler.idempotency_key_invalid'')
      else case schedulerCommandRequestHash canonical r actionKey of
        Inl RequestTooLarge \<Rightarrow> ret (writeError 413 ''backend.request_body_too_large'')
      | Inl InvalidJSON \<Rightarrow> ret (writeError 400 ''backend.invalid_json'')
      | Inr requestHash \<Rightarrow>
          let resourceKey = trimSpace (reqPath r) in
          attempt (claim \<lparr>crIdempotencyKey = key, crActionKey = actionKey, crResourceKey = resourceKey,
                          crRequestHash = requestHash, crStatus = [], crHTTPStatus = 0,
                          crResponseJSON = []\<rparr>) (\<lambda>q. case q of
            Inl _ \<Rightarrow> ret (writeError 503 ''backend.scheduler.idempotency_unavailable'')
          | Inr (receipt, claimed) \<Rightarrow>
              if \<not> claimed then ret (answerHeld actionKey resourceKey requestHash receipt)
              else bindE (handler r) (\<lambda>response.
                attempt (complete key requestHash (respStatus response) (respBody response)) (\<lambda>c. case c of
                  Inl _ \<Rightarrow> ret (writeError 503 ''backend.scheduler.idempotency_unavailable'')
                | Inr _ \<Rightarrow> ret response))))"


section \<open>The interface\<close>

text \<open>
  \<open>held key c d\<close>: the store records the receipt \<open>c\<close> under the key. A claim of a held key never
  succeeds and changes nothing; a successful claim records an executing receipt; completing records
  the response.
\<close>

definition completedReceipt :: "int \<Rightarrow> string \<Rightarrow> CommandReceipt \<Rightarrow> CommandReceipt" where
  "completedReceipt httpStatus response c =
     c\<lparr>crStatus := CommandReceiptCompleted, crHTTPStatus := httpStatus, crResponseJSON := response\<rparr>"

locale command_receipt_interface =
  fixes claim :: "CommandReceipt \<Rightarrow> (CommandReceipt \<times> bool) dbop"
    and complete :: "string \<Rightarrow> string \<Rightarrow> int \<Rightarrow> string \<Rightarrow> unit dbop"
    and held :: "string \<Rightarrow> CommandReceipt \<Rightarrow> database \<Rightarrow> bool"
    and valid :: "database \<Rightarrow> bool"
  assumes claim_held: "valid (db w) \<Longrightarrow> held key c (db w) \<Longrightarrow> crIdempotencyKey r = key \<Longrightarrow>
      trimSpace key = key \<Longrightarrow> claim r w = (q, w') \<Longrightarrow> db w' = db w \<and> (isl q \<or> q = Inr (c, False))"
    and claim_new: "valid (db w) \<Longrightarrow> claim r w = (Inr (c, True), w') \<Longrightarrow>
      valid (db w') \<and> held (trimSpace (crIdempotencyKey r))
        ((trimReceipt r)\<lparr>crStatus := CommandReceiptExecuting, crHTTPStatus := 0, crResponseJSON := []\<rparr>) (db w')"
    and complete_held: "valid (db w) \<Longrightarrow> held key c (db w) \<Longrightarrow> trimSpace key = key \<Longrightarrow>
      complete key hash status response w = (Inr u, w') \<Longrightarrow>
      valid (db w') \<and> held key (completedReceipt status response c) (db w')"
    and complete_refused: "valid (db w) \<Longrightarrow> complete key hash status response w = (Inl e, w') \<Longrightarrow>
      valid (db w') \<and> (held k c (db w) \<longrightarrow> held k c (db w'))"
begin

lemma withReceipt_held:
  assumes "valid (db w)" "held (trimSpace (reqIdempotencyKey r)) c (db w)"
  shows "db (snd (withCommandReceipt claim complete canonical a h r w)) = db w"
    and "withCommandReceipt claim complete canonical a h r w = withCommandReceipt claim complete canonical a h' r w"
proof -
  let ?key = "trimSpace (reqIdempotencyKey r)"
  have "db (snd (withCommandReceipt claim complete canonical a h r w)) = db w \<and>
    withCommandReceipt claim complete canonical a h r w = withCommandReceipt claim complete canonical a h' r w"
  proof (cases "schedulerCommandRequestHash canonical r a")
    case (Inl e)
    then show ?thesis by (cases e) (auto simp: withCommandReceipt_def Let_def ret_def)
  next
    case (Inr hash)
    let ?c = "\<lparr>crIdempotencyKey = ?key, crActionKey = a, crResourceKey = trimSpace (reqPath r),
        crRequestHash = hash, crStatus = [], crHTTPStatus = 0, crResponseJSON = []\<rparr>"
    obtain q w' where q: "claim ?c w = (q, w')" by fastforce
    have "db w' = db w \<and> (isl q \<or> q = Inr (c, False))"
      by (rule claim_held [OF assms _ _ q]) simp_all
    with q Inr show ?thesis
      by (cases q) (auto simp: withCommandReceipt_def Let_def ret_def attempt_def)
  qed
  then show "db (snd (withCommandReceipt claim complete canonical a h r w)) = db w"
    and "withCommandReceipt claim complete canonical a h r w = withCommandReceipt claim complete canonical a h' r w"
    by blast+
qed

lemma withReceipt_replay:
  assumes "valid (db w)" "held (trimSpace (reqIdempotencyKey r)) c (db w)"
    and "schedulerCommandRequestHash canonical r a = Inr (crRequestHash c)"
    and "crActionKey c = a" "crResourceKey c = trimSpace (reqPath r)" "crStatus c = CommandReceiptCompleted"
    and "trimSpace (reqIdempotencyKey r) \<noteq> []" "length (trimSpace (reqIdempotencyKey r)) \<le> 191"
  shows "fst (withCommandReceipt claim complete canonical a h r w) =
      Inr (writeError 503 ''backend.scheduler.idempotency_unavailable'') \<or>
    fst (withCommandReceipt claim complete canonical a h r w) = Inr (replayResponse c)"
proof -
  let ?c = "\<lparr>crIdempotencyKey = trimSpace (reqIdempotencyKey r), crActionKey = a,
      crResourceKey = trimSpace (reqPath r), crRequestHash = crRequestHash c, crStatus = [],
      crHTTPStatus = 0, crResponseJSON = []\<rparr>"
  obtain q w' where q: "claim ?c w = (q, w')" by fastforce
  have "isl q \<or> q = Inr (c, False)"
    using claim_held [OF assms(1,2) _ _ q] by simp
  with q assms(3-8) show ?thesis
    by (cases q) (auto simp: withCommandReceipt_def Let_def ret_def attempt_def answerHeld_def)
qed

text \<open>A request that ran the handler and returned its response has recorded this response.\<close>

lemma withReceipt_executed:
  assumes "valid (db w)"
    and hash: "schedulerCommandRequestHash canonical r a = Inr hash"
    and key: "trimSpace (reqIdempotencyKey r) \<noteq> []" "length (trimSpace (reqIdempotencyKey r)) \<le> 191"
    and claimed: "claim \<lparr>crIdempotencyKey = trimSpace (reqIdempotencyKey r), crActionKey = a,
      crResourceKey = trimSpace (reqPath r), crRequestHash = hash, crStatus = [], crHTTPStatus = 0,
      crResponseJSON = []\<rparr> w = (Inr (c, True), w1)"
    and handled: "h r w1 = (Inr response, w2)"
    and kept: "\<And>k c. held k c (db w1) \<Longrightarrow> held k c (db w2)" "valid (db w1) \<Longrightarrow> valid (db w2)"
    and result: "withCommandReceipt claim complete canonical a h r w = (Inr response, w')"
    and distinct: "response \<noteq> writeError 503 ''backend.scheduler.idempotency_unavailable''"
  shows "valid (db w') \<and> held (trimSpace (reqIdempotencyKey r))
    (completedReceipt (respStatus response) (respBody response)
      \<lparr>crIdempotencyKey = trimSpace (reqIdempotencyKey r), crActionKey = trimSpace a,
       crResourceKey = trimSpace (reqPath r), crRequestHash = trimSpace hash,
       crStatus = CommandReceiptExecuting, crHTTPStatus = 0, crResponseJSON = []\<rparr>) (db w')"
proof -
  let ?key = "trimSpace (reqIdempotencyKey r)"
  note new = claim_new [OF assms(1) claimed]
  obtain q w3 where c: "complete ?key hash (respStatus response) (respBody response) w2 = (q, w3)"
    by fastforce
  have "isl q = False" "w' = w3"
    using result claimed handled c hash key distinct
    by (cases q; auto simp: withCommandReceipt_def Let_def attempt_def bindE_def ret_def)+
  then obtain u where u: "complete ?key hash (respStatus response) (respBody response) w2 = (Inr u, w')"
    using c by (cases q) auto
  show ?thesis
    by (rule complete_held [OF _ _ _ u]) (use new kept in \<open>auto simp: trimReceipt_def\<close>)
qed

text \<open>
  A request either does not depend on its handler, or it leaves its key held, provided the handler
  leaves the receipts alone.
\<close>

lemma withReceipt_runs_or_holds:
  assumes "valid (db w)"
    and kept: "\<And>w. valid (db w) \<Longrightarrow> valid (db (snd (h r w)))"
      "\<And>w k c. held k c (db w) \<Longrightarrow> held k c (db (snd (h r w)))"
    and result: "withCommandReceipt claim complete canonical a h r w = (q, w')"
  shows "(\<forall>h'. withCommandReceipt claim complete canonical a h' r w = (q, w')) \<or>
    valid (db w') \<and> (\<exists>c. held (trimSpace (reqIdempotencyKey r)) c (db w'))"
proof -
  let ?key = "trimSpace (reqIdempotencyKey r)"
  consider (early) "\<forall>h'. withCommandReceipt claim complete canonical a h' r w = (q, w')"
    | (claimed) hash c w1 where "?key \<noteq> []" "length ?key \<le> 191"
        "schedulerCommandRequestHash canonical r a = Inr hash"
        "claim \<lparr>crIdempotencyKey = ?key, crActionKey = a, crResourceKey = trimSpace (reqPath r),
          crRequestHash = hash, crStatus = [], crHTTPStatus = 0, crResponseJSON = []\<rparr> w = (Inr (c, True), w1)"
    using result
    by (auto simp: withCommandReceipt_def Let_def attempt_def
        split: if_splits sum.splits hashError.splits prod.splits)
  then show ?thesis
  proof cases
    case claimed
    have new: "valid (db w1)" "\<exists>c. held ?key c (db w1)"
      using claim_new [OF assms(1) claimed(4)] by auto
    obtain p w2 where p: "h r w1 = (p, w2)" by fastforce
    have held2: "valid (db w2)" "\<exists>c. held ?key c (db w2)"
      using new kept(1) [of w1] kept(2) [of _ _ w1] p by fastforce+
    show ?thesis
    proof (cases p)
      case (Inl e)
      with claimed p result have "w' = w2"
        by (simp add: withCommandReceipt_def Let_def attempt_def bindE_def)
      with held2 show ?thesis by blast
    next
      case (Inr response)
      obtain u w3 where u: "complete ?key hash (respStatus response) (respBody response) w2 = (u, w3)"
        by fastforce
      with claimed p result Inr have "w' = w3"
        by (auto simp: withCommandReceipt_def Let_def attempt_def bindE_def ret_def split: sum.splits)
      moreover have "valid (db w3) \<and> (\<exists>c. held ?key c (db w3))"
      proof (cases u)
        case (Inl e)
        then show ?thesis using complete_refused [OF held2(1) u [unfolded Inl]] held2(2) by blast
      next
        case (Inr x)
        then show ?thesis using complete_held [OF held2(1) _ _ u [unfolded Inr]] held2(2) by auto
      qed
      ultimately show ?thesis by blast
    qed
  qed blast
qed

end

section \<open>The database store implements the interface\<close>

definition heldReceipt :: "CommandReceiptStore \<Rightarrow> string \<Rightarrow> CommandReceipt \<Rightarrow> database \<Rightarrow> bool" where
  "heldReceipt s key c d \<longleftrightarrow>
     (case selectRow (receiptIdentity s key) (command_receipts d) of Inl _ \<Rightarrow> False | Inr r \<Rightarrow> receiptOfRow key r = c)"

definition receiptKeys :: "database \<Rightarrow> bool" where
  "receiptKeys d \<longleftrightarrow> distinct (map command_receipt_key (command_receipts d))"

lemma heldReceiptE:
  assumes "heldReceipt s key c d"
  obtains r where "r \<in> set (command_receipts d)" "receiptIdentity s key r" "receiptOfRow key r = c"
    "selectRow (receiptIdentity s key) (command_receipts d) = Inr r"
  using assms selectRow_Inr [of "receiptIdentity s key" "command_receipts d"]
  by (auto simp: heldReceipt_def split: sum.splits)

lemma receiptIdentity_key:
  "receiptIdentity s key r \<Longrightarrow> command_receipt_key r = (crRuntimeID s, trimSpace key)"
  by (simp add: receiptIdentity_def command_receipt_key_def)

lemma heldReceiptI:
  assumes "receiptKeys d" "r \<in> set (command_receipts d)" "receiptIdentity s key r" "receiptOfRow key r = c"
  shows "heldReceipt s key c d"
proof -
  have "selectRow (receiptIdentity s key) (command_receipts d) = Inr r"
    using assms(1-3) receiptIdentity_key unfolding receiptKeys_def
    by (intro selectRow_unique [where k = command_receipt_key and x = "(crRuntimeID s, trimSpace key)"]) auto
  with assms(4) show ?thesis by (simp add: heldReceipt_def)
qed

lemma commandReceipt_held:
  assumes "heldReceipt s key c (db w)" "commandReceipt s key w = (q, w')"
  shows "db w' = db w \<and> (isl q \<or> q = Inr c)"
proof -
  obtain r where r: "selectRow (receiptIdentity s key) (command_receipts (db w)) = Inr r"
      "receiptOfRow key r = c"
    using assms(1) by (rule heldReceiptE)
  with assms(2) show ?thesis
    by (auto simp: commandReceipt_def go_unfold split: option.splits)
qed

text \<open>What a claim does, by the outcome of its insert.\<close>

lemma ClaimCommand_cases:
  assumes "ClaimCommand S s r w = (q, w')"
  obtains (rejected) "isl q" "db w' = db w"
  | (claimed) u where "sqlCall (insert_command_receipts S
        (claimRow s (trimReceipt r) (formatTime (clock w (reads w))))) (w\<lparr>reads := Suc (reads w)\<rparr>) = (Inr u, w')"
      "q = Inr ((trimReceipt r)\<lparr>crStatus := CommandReceiptExecuting\<rparr>, True)"
  | (read) w1 p where "db w1 = db w" "commandReceipt s (trimSpace (crIdempotencyKey r)) w1 = (p, w')"
      "q = (case p of Inl e \<Rightarrow> Inl e | Inr c \<Rightarrow> Inr (c, False))"
proof -
  let ?x = "claimRow s (trimReceipt r) (formatTime (clock w (reads w)))"
  obtain p w1 where p: "sqlCall (insert_command_receipts S ?x) (w\<lparr>reads := Suc (reads w)\<rparr>) = (p, w1)"
    by fastforce
  have key: "crIdempotencyKey (trimReceipt r) = trimSpace (crIdempotencyKey r)"
    by (simp add: trimReceipt_def)
  have same: "db w1 = db w" if "isl p"
    using p that by (auto simp: go_unfold insert_command_receipts_def split: option.splits if_splits)
  show thesis
  proof (cases "crIdempotencyKey (trimReceipt r) = [] \<or> crActionKey (trimReceipt r) = [] \<or>
      crResourceKey (trimReceipt r) = [] \<or> crRequestHash (trimReceipt r) = []")
    case True
    with assms show ?thesis by (intro rejected) (auto simp: ClaimCommand_def Let_def fail_def)
  next
    case complete: False
    have claim: "(case p of
        Inr _ \<Rightarrow> ret ((trimReceipt r)\<lparr>crStatus := CommandReceiptExecuting\<rparr>, True)
      | Inl e \<Rightarrow> if \<not> isUnique S e then fail e else
          bindE (commandReceipt s (crIdempotencyKey (trimReceipt r))) (\<lambda>existing. ret (existing, False))) w1 = (q, w')"
      using assms complete p by (simp add: ClaimCommand_def Let_def bindE_timeNow attempt_def)
    show ?thesis
    proof (cases p)
      case (Inr u)
      with claim p show ?thesis by (intro claimed) (auto simp: ret_def)
    next
      case (Inl e)
      obtain c w2 where c: "commandReceipt s (trimSpace (crIdempotencyKey r)) w1 = (c, w2)" by fastforce
      show ?thesis
      proof (cases "isUnique S e")
        case True
        with claim Inl c same show ?thesis
          by (intro read [of w1 c]) (auto simp: key bindE_def ret_def split: sum.splits)
      next
        case False
        with claim Inl same show ?thesis by (intro rejected) (auto simp: fail_def)
      qed
    qed
  qed
qed

lemma ClaimCommand_held:
  assumes held: "heldReceipt s key c (db w)" and key: "crIdempotencyKey r = key" "trimSpace key = key"
    and claim: "ClaimCommand S s r w = (q, w')"
  shows "db w' = db w \<and> (isl q \<or> q = Inr (c, False))"
  using claim
proof (cases rule: ClaimCommand_cases)
  case (claimed u)
  obtain row where "row \<in> set (command_receipts (db w))" "receiptIdentity s key row"
    using held by (rule heldReceiptE)
  then have "(crRuntimeID s, key) \<in> command_receipt_key ` set (command_receipts (db w))"
    using key receiptIdentity_key by (metis image_eqI)
  then have "command_receipt_key (claimRow s (trimReceipt r) t) \<in>
      command_receipt_key ` set (command_receipts (db w))" for t
    using key by (simp add: claimRow_def command_receipt_key_def trimReceipt_def)
  with claimed(1) have False
    by (auto simp: go_unfold insert_command_receipts_def split: option.splits)
  then show ?thesis ..
next
  case (read w1 p)
  with commandReceipt_held [of s key c w1 p w'] held key show ?thesis
    by (auto split: sum.splits)
qed simp

lemma ClaimCommand_new:
  assumes "receiptKeys (db w)" "ClaimCommand S s r w = (Inr (c, True), w')"
  shows "receiptKeys (db w') \<and> heldReceipt s (trimSpace (crIdempotencyKey r))
      ((trimReceipt r)\<lparr>crStatus := CommandReceiptExecuting, crHTTPStatus := 0, crResponseJSON := []\<rparr>) (db w')"
  using assms(2)
proof (cases rule: ClaimCommand_cases)
  case (claimed u)
  let ?x = "claimRow s (trimReceipt r) (formatTime (clock w (reads w)))"
  from claimed(1) have db: "command_receipt_key ?x \<notin> command_receipt_key ` set (command_receipts (db w))"
      "command_receipts (db w') = command_receipts (db w) @ [?x]"
    by (auto simp: go_unfold insert_command_receipts_def split: option.splits if_splits)
  then have keys: "receiptKeys (db w')" using assms(1) by (simp add: receiptKeys_def)
  moreover have "heldReceipt s (trimSpace (crIdempotencyKey r))
      ((trimReceipt r)\<lparr>crStatus := CommandReceiptExecuting, crHTTPStatus := 0, crResponseJSON := []\<rparr>) (db w')"
    by (rule heldReceiptI [OF keys, of ?x])
      (simp_all add: db receiptIdentity_def receiptOfRow_def claimRow_def trimReceipt_def)
  ultimately show ?thesis by blast
next
  case (read w1 p)
  then show ?thesis by (auto split: sum.splits)
qed simp

lemma CompleteCommand_held:
  assumes keys: "receiptKeys (db w)" and held: "heldReceipt s key c (db w)"
    and completed: "CompleteCommand s key hash status response w = (Inr u, w')"
  shows "receiptKeys (db w') \<and> heldReceipt s key (completedReceipt status response c) (db w')"
proof -
  let ?p = "\<lambda>r. receiptIdentity s key r \<and> cr_request_hash r = trimSpace hash \<and> cr_status r = CommandReceiptExecuting"
  let ?f = "\<lambda>r. r\<lparr>cr_status := CommandReceiptCompleted, cr_http_status := status,
      cr_response_json := Some response, cr_updated_at := formatTime (clock w (reads w))\<rparr>"
  have completed': "matched ?p (command_receipts (db w)) = 1"
      "command_receipts (db w') = updateWhere ?p ?f (command_receipts (db w))"
    using completed by (auto simp: CompleteCommand_def go_unfold sql_unfold split: option.splits if_splits)
  obtain r where r: "r \<in> set (command_receipts (db w))" "receiptIdentity s key r" "receiptOfRow key r = c"
    using held by (rule heldReceiptE)
  obtain q where q: "q \<in> set (command_receipts (db w))" "?p q"
    using completed'(1) matched_pos [of ?p "command_receipts (db w)"] by auto
  then have "q = r"
    using r keys receiptIdentity_key [of s key] by (auto simp: receiptKeys_def distinct_map inj_on_def)
  have keys': "receiptKeys (db w')"
    using keys map_updateWhere [of ?p command_receipt_key ?f "command_receipts (db w)"] completed'(2)
    by (simp add: receiptKeys_def command_receipt_key_def)
  moreover have "?f r \<in> set (command_receipts (db w'))"
    using q \<open>q = r\<close> completed'(2) by (auto simp: updateWhere_def image_iff)
  ultimately have "heldReceipt s key (completedReceipt status response c) (db w')"
    using r by (intro heldReceiptI [where r = "?f r"])
      (auto simp: receiptIdentity_def receiptOfRow_def completedReceipt_def)
  with keys' show ?thesis by blast
qed

lemma CompleteCommand_error:
  assumes "CompleteCommand s key hash status response w = (Inl e, w')" "receiptKeys (db w)"
  shows "command_receipts (db w') = command_receipts (db w)"
proof -
  let ?p = "\<lambda>r. receiptIdentity s key r \<and> cr_request_hash r = trimSpace hash \<and> cr_status r = CommandReceiptExecuting"
  have "matched ?p (command_receipts (db w)) \<le> 1"
    using assms(2) receiptIdentity_key unfolding receiptKeys_def
    by (intro matched_le_one [where k = command_receipt_key]) auto
  then have "updateWhere ?p f (command_receipts (db w)) = command_receipts (db w)"
    if "matched ?p (command_receipts (db w)) \<noteq> 1" for f
    using that matched_nonneg [of ?p "command_receipts (db w)"] matched_zero [of ?p "command_receipts (db w)"]
    by (intro updateWhere_none) fastforce
  with assms(1) show ?thesis
    by (auto simp: CompleteCommand_def go_unfold sql_unfold split: option.splits if_splits)
qed

interpretation receipts: command_receipt_interface
  "ClaimCommand S s" "CompleteCommand s" "heldReceipt s" receiptKeys
proof (unfold_locales, goal_cases)
  case 1
  then show ?case using ClaimCommand_held [OF 1(2-5)] by blast
next
  case 2
  then show ?case using ClaimCommand_new [OF 2] by blast
next
  case 3
  then show ?case using CompleteCommand_held [OF 3(1,2,4)] by blast
next
  case 4
  then show ?case using CompleteCommand_error [OF 4(2,1)] by (simp add: receiptKeys_def heldReceipt_def)
qed

end
