(* ===== verification/Command_Properties.thy ===== *)
theory Command_Properties
  imports Command_Receipts Scheduler_Examples
begin

text \<open>
  What a caller of the management commands may rely on: a handler runs at most once per idempotency
  key, and a repeated request is answered with the recorded response. The theorems are about the
  middleware of \<^verbatim>\<open>adapter.go\<close> on the database store, for any handler that leaves the receipts alone.
\<close>

abbreviation receiptRequest ::
  "Sdk \<Rightarrow> CommandReceiptStore \<Rightarrow> (string \<Rightarrow> goerr + string) \<Rightarrow> string \<Rightarrow> (HTTPRequest \<Rightarrow> HTTPResponse dbop) \<Rightarrow>
   HTTPRequest \<Rightarrow> HTTPResponse dbop" where
  "receiptRequest S s \<equiv> withCommandReceipt (ClaimCommand S s) (CompleteCommand s)"

definition requestClaim :: "string \<Rightarrow> HTTPRequest \<Rightarrow> string \<Rightarrow> CommandReceipt" where
  "requestClaim a r hash =
     \<lparr>crIdempotencyKey = trimSpace (reqIdempotencyKey r), crActionKey = a, crResourceKey = trimSpace (reqPath r),
      crRequestHash = hash, crStatus = [], crHTTPStatus = 0, crResponseJSON = []\<rparr>"

section \<open>The store on a healthy database\<close>

lemma trimReceipt_requestClaim:
  "trimSpace a = a \<Longrightarrow> trimSpace hash = hash \<Longrightarrow> trimReceipt (requestClaim a r hash) = requestClaim a r hash"
  by (simp add: trimReceipt_def requestClaim_def)

lemma key_requestClaim:
  "command_receipt_key (claimRow s (requestClaim a r hash) now) = (crRuntimeID s, trimSpace (reqIdempotencyKey r))"
  by (simp add: claimRow_def requestClaim_def command_receipt_key_def)

lemma requestHash_trimmed:
  assumes "schedulerCommandRequestHash canonical r a = Inr hash"
  shows "trimSpace hash = hash" "hash \<noteq> []"
proof -
  obtain m where "hash = sha256Hex m"
    using assms by (auto simp: schedulerCommandRequestHash_def Let_def split: option.splits sum.splits if_splits)
  then have "trimSpace hash = hash" "length hash = 64" by simp_all
  then show "trimSpace hash = hash" "hash \<noteq> []" by auto
qed

lemma commandReceipt_healthy:
  assumes "healthy w" "heldReceipt s key c (db w)"
  shows "commandReceipt s key w = (Inr c, w\<lparr>calls := Suc (calls w)\<rparr>)"
proof -
  obtain r where r: "selectRow (receiptIdentity s key) (command_receipts (db w)) = Inr r"
      "receiptOfRow key r = c"
    using assms(2) by (rule heldReceiptE)
  with assms(1) show ?thesis by (simp add: commandReceipt_def go_unfold)
qed

lemma claim_request_held:
  assumes "healthy w" "heldReceipt s (trimSpace (reqIdempotencyKey r)) c (db w)"
    and "\<And>t. isUnique S (uniqueViolation S t)"
    and "trimSpace (reqIdempotencyKey r) \<noteq> []" "trimSpace a = a" "a \<noteq> []" "trimSpace (reqPath r) \<noteq> []"
    and "trimSpace hash = hash" "hash \<noteq> []"
  shows "\<exists>w'. ClaimCommand S s (requestClaim a r hash) w = (Inr (c, False), w') \<and> db w' = db w \<and> healthy w'"
proof -
  let ?key = "trimSpace (reqIdempotencyKey r)"
  let ?x = "claimRow s (requestClaim a r hash) (formatTime (clock w (reads w)))"
  obtain row where "row \<in> set (command_receipts (db w))" "receiptIdentity s ?key row"
    using assms(2) by (rule heldReceiptE)
  then have "command_receipt_key ?x \<in> command_receipt_key ` set (command_receipts (db w))"
    using receiptIdentity_key [of s ?key row] unfolding key_requestClaim by (metis image_eqI trimSpace_idem)
  then have "insert_command_receipts S ?x (db w) =
      (Inl (uniqueViolation S ''_scheduler_command_receipts''), db w)"
    by (simp add: insert_command_receipts_def)
  then have insert: "sqlCall (insert_command_receipts S ?x) (w\<lparr>reads := Suc (reads w)\<rparr>) =
      (Inl (uniqueViolation S ''_scheduler_command_receipts''), w\<lparr>reads := Suc (reads w), calls := Suc (calls w)\<rparr>)"
    using assms(1) by (subst sqlCall_healthy) simp_all
  have fields: "crIdempotencyKey (requestClaim a r hash) = ?key" "crActionKey (requestClaim a r hash) = a"
      "crResourceKey (requestClaim a r hash) = trimSpace (reqPath r)" "crRequestHash (requestClaim a r hash) = hash"
    by (simp_all add: requestClaim_def)
  have "commandReceipt s ?key (w\<lparr>reads := Suc (reads w), calls := Suc (calls w)\<rparr>) =
      (Inr c, w\<lparr>reads := Suc (reads w), calls := Suc (Suc (calls w))\<rparr>)"
    using assms(1,2) by (subst commandReceipt_healthy) simp_all
  then have "ClaimCommand S s (requestClaim a r hash) w =
      (Inr (c, False), w\<lparr>reads := Suc (reads w), calls := Suc (Suc (calls w))\<rparr>)"
    unfolding ClaimCommand_def
    by (simp add: Let_def trimReceipt_requestClaim assms fields bindE_timeNow attempt_def insert)
      (simp add: bindE_def ret_def)
  then show ?thesis using assms(1) by simp
qed

lemma claim_request_new:
  assumes "healthy w" "\<And>c. \<not> heldReceipt s (trimSpace (reqIdempotencyKey r)) c (db w)"
    and "trimSpace (reqIdempotencyKey r) \<noteq> []" "trimSpace a = a" "a \<noteq> []" "trimSpace (reqPath r) \<noteq> []"
    and "trimSpace hash = hash" "hash \<noteq> []"
  shows "\<exists>c w'. ClaimCommand S s (requestClaim a r hash) w = (Inr (c, True), w') \<and> healthy w'"
proof -
  let ?key = "trimSpace (reqIdempotencyKey r)"
  let ?x = "claimRow s (requestClaim a r hash) (formatTime (clock w (reads w)))"
  have "\<not> receiptIdentity s ?key row" if "row \<in> set (command_receipts (db w))" for row
    using assms(2) that
    by (cases "selectRow (receiptIdentity s ?key) (command_receipts (db w))")
      (auto simp: heldReceipt_def selectRow_Inl)
  then have "command_receipt_key ?x \<notin> command_receipt_key ` set (command_receipts (db w))"
    unfolding key_requestClaim by (force simp: command_receipt_key_def receiptIdentity_def)
  then have "insert_command_receipts S ?x (db w) =
      (Inr 1, (db w)\<lparr>command_receipts := command_receipts (db w) @ [?x]\<rparr>)"
    by (simp add: insert_command_receipts_def)
  then have insert: "sqlCall (insert_command_receipts S ?x) (w\<lparr>reads := Suc (reads w)\<rparr>) =
      (Inr 1, w\<lparr>reads := Suc (reads w), calls := Suc (calls w),
         db := (db w)\<lparr>command_receipts := command_receipts (db w) @ [?x]\<rparr>\<rparr>)"
    using assms(1) by (subst sqlCall_healthy) simp_all
  have fields: "crIdempotencyKey (requestClaim a r hash) = ?key" "crActionKey (requestClaim a r hash) = a"
      "crResourceKey (requestClaim a r hash) = trimSpace (reqPath r)" "crRequestHash (requestClaim a r hash) = hash"
    by (simp_all add: requestClaim_def)
  show ?thesis
    unfolding ClaimCommand_def using assms(1)
    by (simp add: Let_def trimReceipt_requestClaim assms(3-) fields bindE_timeNow attempt_def insert ret_def)
qed

lemma complete_request:
  assumes "healthy w" "receiptKeys (db w)" "heldReceipt s key c (db w)" "crStatus c = CommandReceiptExecuting"
    and "crRequestHash c = hash" "trimSpace hash = hash"
  shows "\<exists>w'. CompleteCommand s key hash status response w = (Inr (), w') \<and> healthy w'"
proof -
  let ?p = "\<lambda>r. receiptIdentity s key r \<and> cr_request_hash r = hash \<and> cr_status r = CommandReceiptExecuting"
  obtain r where "r \<in> set (command_receipts (db w))" "receiptIdentity s key r" "receiptOfRow key r = c"
    using assms(3) by (rule heldReceiptE)
  then have "matched ?p (command_receipts (db w)) = 1"
    using assms(2,4,5) receiptIdentity_key unfolding receiptKeys_def
    by (intro matched_one [where k = command_receipt_key and r = r]) (auto simp: receiptOfRow_def)
  then show ?thesis
    using assms(1,6) by (simp add: CompleteCommand_def go_unfold sql_unfold)
qed

section \<open>Requests\<close>

lemma withCommandReceipt_claim:
  assumes "trimSpace (reqIdempotencyKey r) \<noteq> []" "length (trimSpace (reqIdempotencyKey r)) \<le> 191"
    and "schedulerCommandRequestHash canonical r a = Inr hash"
    and "claim (requestClaim a r hash) w = (Inr (c, claimed), w')"
  shows "withCommandReceipt claim complete canonical a h r w =
    (if \<not> claimed then ret (answerHeld a (trimSpace (reqPath r)) hash c) else
       bindE (h r) (\<lambda>response.
         attempt (complete (trimSpace (reqIdempotencyKey r)) hash (respStatus response) (respBody response)) (\<lambda>q.
           case q of Inl _ \<Rightarrow> ret (writeError 503 ''backend.scheduler.idempotency_unavailable'')
           | Inr _ \<Rightarrow> ret response))) w'"
  using assms by (simp add: withCommandReceipt_def Let_def attempt_def requestClaim_def)

lemma held_request:
  assumes "healthy w" "heldReceipt s (trimSpace (reqIdempotencyKey r)) c (db w)"
    and "\<And>t. isUnique S (uniqueViolation S t)"
    and "trimSpace (reqIdempotencyKey r) \<noteq> []" "length (trimSpace (reqIdempotencyKey r)) \<le> 191"
    and "schedulerCommandRequestHash canonical r a = Inr hash"
    and "trimSpace a = a" "a \<noteq> []" "trimSpace (reqPath r) \<noteq> []"
  shows "\<exists>w'. receiptRequest S s canonical a h r w = (Inr (answerHeld a (trimSpace (reqPath r)) hash c), w') \<and>
    db w' = db w"
proof -
  obtain w' where w': "ClaimCommand S s (requestClaim a r hash) w = (Inr (c, False), w')" "db w' = db w"
    using claim_request_held [OF assms(1-4,7-9) requestHash_trimmed [OF assms(6)]] by blast
  show ?thesis
    unfolding withCommandReceipt_claim [where claim = "ClaimCommand S s", OF assms(4-6) w'(1)] using w'(2) by (simp add: ret_def)
qed

text \<open>
  C20. A repeated request is answered from the receipt and changes nothing, whatever its handler would
  do: with the recorded status and body when action, path, reason, confirmation and body are the ones
  of the completed request, with a conflict when one of them differs, and with
  \<^verbatim>\<open>operation_in_progress\<close> while the first request is still executing.
\<close>

theorem held_command_answered:
  assumes "healthy w" "heldReceipt s (trimSpace (reqIdempotencyKey r)) c (db w)"
    and "\<And>t. isUnique S (uniqueViolation S t)"
    and "trimSpace (reqIdempotencyKey r) \<noteq> []" "length (trimSpace (reqIdempotencyKey r)) \<le> 191"
    and "schedulerCommandRequestHash canonical r a = Inr hash"
    and "trimSpace a = a" "a \<noteq> []" "trimSpace (reqPath r) \<noteq> []"
  shows "db (snd (receiptRequest S s canonical a h r w)) = db w \<and>
    fst (receiptRequest S s canonical a h r w) = Inr
      (if crActionKey c \<noteq> a \<or> crResourceKey c \<noteq> trimSpace (reqPath r) \<or> crRequestHash c \<noteq> hash
       then writeError 409 ''backend.scheduler.idempotency_conflict''
       else if crStatus c \<noteq> CommandReceiptCompleted
       then writeError 409 ''backend.scheduler.operation_in_progress''
       else \<lparr>respStatus = crHTTPStatus c, respHeader = jsonHeader @ [(''Idempotency-Replayed'', ''true'')],
             respBody = crResponseJSON c\<rparr>)"
  using held_request [OF assms, of h] by (auto simp: answerHeld_def replayResponse_def)

text \<open>
  A handler runs at most once per idempotency key. If the first of two requests with one key
  depended on its handler at all, the second changes nothing and does not depend on its own, whatever
  calls fail and whatever happens to the other tables in between.
\<close>

theorem command_runs_at_most_once:
  assumes "receiptKeys (db w)"
    and handler: "\<And>w. command_receipts (db (snd (h r w))) = command_receipts (db w)"
    and first: "receiptRequest S s canonical a h r w = (q, w1)"
    and between: "command_receipts (db w2) = command_receipts (db w1)"
    and key: "trimSpace (reqIdempotencyKey r') = trimSpace (reqIdempotencyKey r)"
  shows "(\<forall>g. receiptRequest S s canonical a g r w = (q, w1)) \<or>
    db (snd (receiptRequest S s canonical a' h' r' w2)) = db w2 \<and>
    (\<forall>g. receiptRequest S s canonical a' g r' w2 = receiptRequest S s canonical a' h' r' w2)"
proof -
  have table: "receiptKeys d' = receiptKeys d" "heldReceipt s k c d' = heldReceipt s k c d"
    if "command_receipts d' = command_receipts d" for d d' k c
    using that by (simp_all add: receiptKeys_def heldReceipt_def)
  consider "\<forall>g. receiptRequest S s canonical a g r w = (q, w1)"
    | c where "receiptKeys (db w1)" "heldReceipt s (trimSpace (reqIdempotencyKey r)) c (db w1)"
    using receipts.withReceipt_runs_or_holds [OF assms(1) _ _ first] table [OF handler] by blast
  then show ?thesis
  proof cases
    case (2 c)
    then have "receiptKeys (db w2)" "heldReceipt s (trimSpace (reqIdempotencyKey r')) c (db w2)"
      using table [OF between] key by simp_all
    from receipts.withReceipt_held [OF this] show ?thesis by blast
  qed blast
qed


section \<open>Witnesses\<close>

text \<open>A command that cancels every run, sent with the key \<open>k-1\<close> and an empty body.\<close>

definition exRequest :: HTTPRequest where
  "exRequest = \<lparr>reqMethod = ''POST'', reqPath = ''/runs/cancel'', reqIdempotencyKey = ''k-1'', reqReason = ''why'',
     reqConfirmation = [], reqBody = None\<rparr>"

definition exResponse :: HTTPResponse where
  "exResponse = \<lparr>respStatus = 200, respHeader = jsonHeader, respBody = ''{}''\<rparr>"

definition exHandler :: "HTTPRequest \<Rightarrow> HTTPResponse dbop" where
  "exHandler r = bindE (sqlCall (update_runs (\<lambda>_. True) (\<lambda>q. q\<lparr>r_status := ''canceled''\<rparr>))) (\<lambda>_. ret exResponse)"

definition exReceipts :: CommandReceiptStore where
  "exReceipts = \<lparr>crRuntimeID = ''rt''\<rparr>"

definition exHash :: string where
  "exHash = sha256Hex (''cancel'' @ [CHR 0x0A] @ ''POST'' @ [CHR 0x0A] @ ''/runs/cancel'' @ [CHR 0x0A] @
     ''why'' @ [CHR 0x0A] @ [] @ [CHR 0x0A] @ [])"

definition exCompleted :: database where
  "exCompleted = emptyDatabase\<lparr>command_receipts := [\<lparr>cr_runtime_id = ''rt'', cr_idempotency_key = ''k-1'',
     cr_action_key = ''cancel'', cr_resource_key = ''/runs/cancel'', cr_request_hash = exHash,
     cr_status = CommandReceiptCompleted, cr_http_status = 200, cr_response_json = Some ''{}'',
     cr_created_at = ''t'', cr_updated_at = ''t''\<rparr>]\<rparr>"

lemma exRequest_trimmed [simp]:
  "trimSpace ''k-1'' = ''k-1''" "trimSpace ''cancel'' = ''cancel''" "trimSpace ''/runs/cancel'' = ''/runs/cancel''"
  "trimSpace ''why'' = ''why''"
  by (code_simp)+

lemma exRequest_simps [simp]:
  "reqIdempotencyKey exRequest = ''k-1''" "reqPath exRequest = ''/runs/cancel''"
  "schedulerCommandRequestHash canonical exRequest ''cancel'' = Inr exHash"
  by (simp_all add: exRequest_def schedulerCommandRequestHash_def exHash_def)

lemma exHash_trimmed [simp]: "trimSpace exHash = exHash" "exHash \<noteq> []"
  using requestHash_trimmed [OF exRequest_simps(3)] by simp_all

lemma exSdk_unique [simp]: "isUnique exSdk (uniqueViolation exSdk t)"
proof -
  have "containsStr (toLower (''UNIQUE constraint failed: '' @ t)) ''constraint''"
    by (simp add: asciiLower_def startsWith_def)
  then show ?thesis by (simp add: isUnique_def exSdk_def errorText_def)
qed

lemma exHandler_effect:
  "command_receipts (db (snd (exHandler r w))) = command_receipts (db w)"
  "healthy w \<Longrightarrow> fst (exHandler r w) = Inr exResponse \<and> healthy (snd (exHandler r w))"
  by (auto simp: exHandler_def go_unfold sql_unfold healthy_def split: option.splits)

lemma exReceipts_held:
  "heldReceipt exReceipts ''k-1'' c exCompleted \<longleftrightarrow>
    c = \<lparr>crIdempotencyKey = ''k-1'', crActionKey = ''cancel'', crResourceKey = ''/runs/cancel'',
      crRequestHash = exHash, crStatus = CommandReceiptCompleted, crHTTPStatus = 200, crResponseJSON = ''{}''\<rparr>"
  "\<not> heldReceipt exReceipts ''k-1'' c emptyDatabase" "receiptKeys emptyDatabase"
  by (auto simp: heldReceipt_def exCompleted_def exReceipts_def selectRow_def receiptIdentity_def
      receiptOfRow_def emptyDatabase_def receiptKeys_def)

theorem held_command_answered_witness:
  "fst (receiptRequest exSdk exReceipts (\<lambda>b. Inr b) ''cancel'' exHandler exRequest (exWorld exCompleted exNoon)) =
    Inr \<lparr>respStatus = 200, respHeader = jsonHeader @ [(''Idempotency-Replayed'', ''true'')], respBody = ''{}''\<rparr>"
  using held_command_answered [of "exWorld exCompleted exNoon" exReceipts exRequest
      "\<lparr>crIdempotencyKey = ''k-1'', crActionKey = ''cancel'', crResourceKey = ''/runs/cancel'',
        crRequestHash = exHash, crStatus = CommandReceiptCompleted, crHTTPStatus = 200, crResponseJSON = ''{}''\<rparr>"
      exSdk "\<lambda>b. Inr b" "''cancel''" exHash exHandler]
  by (simp add: exWorld_def exReceipts_held healthy_def)


theorem command_runs_at_most_once_witness:
  "let w1 = snd (receiptRequest exSdk exReceipts (\<lambda>b. Inr b) ''cancel'' exHandler exRequest (exWorld emptyDatabase exNoon))
   in db (snd (receiptRequest exSdk exReceipts (\<lambda>b. Inr b) ''cancel'' exHandler exRequest w1)) = db w1"
proof -
  let ?run = "\<lambda>h. receiptRequest exSdk exReceipts (\<lambda>b. Inr b) ''cancel'' h exRequest"
  let ?w = "exWorld emptyDatabase exNoon"
  have "(\<forall>g. ?run g ?w = (fst (?run exHandler ?w), snd (?run exHandler ?w))) \<or>
      db (snd (?run exHandler (snd (?run exHandler ?w)))) = db (snd (?run exHandler ?w)) \<and>
      (\<forall>g. ?run g (snd (?run exHandler ?w)) = ?run exHandler (snd (?run exHandler ?w)))"
    by (rule command_runs_at_most_once [where h = exHandler])
      (simp_all add: exHandler_effect exWorld_def exReceipts_held)
  moreover have "fst (?run (\<lambda>_. ret exResponse) ?w) = Inr exResponse"
      "fst (?run (\<lambda>_. ret (writeError 500 [])) ?w) = Inr (writeError 500 [])"
    by (simp_all add: withCommandReceipt_def ClaimCommand_def CompleteCommand_def go_unfold sql_unfold
        exReceipts_def exWorld_def emptyDatabase_def Let_def trimReceipt_def claimRow_def
        receiptIdentity_def)
  moreover have "exResponse \<noteq> writeError 500 []" by (simp add: exResponse_def writeError_def)
  ultimately show ?thesis unfolding Let_def by (metis Inr_inject fst_conv)
qed

end
