(* ===== verification/Definition_Store.thy ===== *)
theory Definition_Store
  imports Run_Store
begin

text \<open>
  The store of published definitions, \<^verbatim>\<open>definition_store.go\<close>. A publisher session is a generation and
  the digest of a secret nonce; a snapshot of definitions carries the fence of its session, and is
  accepted only from the active session and in the order of its revisions. The accepted position,
  the cursor, is kept beside the active session in one row per Runtime; definitions and the
  snapshot's identity are written in the same transaction.

  The retry loops take the number of rounds left as an argument; both are entered with 64 rounds.
\<close>

section \<open>State\<close>

text \<open>\<open>dsReady\<close>: the database and the dialect are set, which the zero value of the struct does not have.\<close>

record DefinitionStore =
  dsReady :: bool
  dsSourceID :: string
  dsMode :: DeploymentMode

definition maxDefinitionPublisherGeneration :: int where
  "maxDefinitionPublisherGeneration = 2 ^ 53 - 1"

record encodedDefinition =
  encDefinition :: Definition
  encRaw :: string
  encHash :: string
  encStorageKey :: string

datatype DefinitionSnapshotDisposition = DefinitionSnapshotReplay | DefinitionSnapshotApply

definition NewDefinitionStore ::
  "bool \<Rightarrow> bool \<Rightarrow> string \<Rightarrow> DeploymentMode \<Rightarrow> goerr + DefinitionStore" where
  "NewDefinitionStore hasDatabase hasDialect runtime0 mode =
     (let runtime = trimSpace runtime0 in
      if \<not> hasDatabase \<or> \<not> hasDialect
      then Inl (Errorf ''Scheduler definition store database and dialect are required'')
      else if runtime = [] then Inl (Errorf ''Scheduler definition store Runtime identity is required'')
      else if mode \<noteq> DeploymentModeModule \<and> mode \<noteq> DeploymentModeSaaS
      then Inl (Errorf ''Scheduler definition store deployment mode is required'')
      else Inr \<lparr>dsReady = True, dsSourceID = runtime, dsMode = mode\<rparr>)"

section \<open>Encoding\<close>

definition definitionStorageKey :: "string \<Rightarrow> string \<Rightarrow> string" where
  "definitionStorageKey runtime key =
     sha256Hex (runtimeDefinitionSourceKind @ [CHR 0x00] @ trimSpace runtime @ [CHR 0x00] @ trimSpace key)"

fun encodeEach ::
  "Sdk \<Rightarrow> DefinitionStore \<Rightarrow> string list \<Rightarrow> Definition list \<Rightarrow> goerr + encodedDefinition list" where
  "encodeEach S s seen [] = Inr []"
| "encodeEach S s seen (definition0 # rest) =
     (let d = normalizeDefinition S definition0 in
      case validateDefinition S d of Some e \<Rightarrow> Inl e | None \<Rightarrow>
      let key = trimSpace (defKey d) in
      if key \<in> set seen then Inl (Errorf (''Scheduler definition snapshot repeats '' @ quoted key)) else
      case marshalDefinition S d of Inl e \<Rightarrow> Inl e | Inr raw \<Rightarrow>
      case encodeEach S s (key # seen) rest of Inl e \<Rightarrow> Inl e | Inr values \<Rightarrow>
        Inr (\<lparr>encDefinition = d, encRaw = raw, encHash = sha256Hex raw,
              encStorageKey = definitionStorageKey (dsSourceID s) key\<rparr> # values))"

definition encodeDefinitions ::
  "Sdk \<Rightarrow> DefinitionStore \<Rightarrow> Definition list \<Rightarrow> goerr + (encodedDefinition list \<times> string)" where
  "encodeDefinitions S s ds =
     (case encodeEach S s [] ds of Inl e \<Rightarrow> Inl e | Inr unsorted \<Rightarrow>
      let values = sort_key (\<lambda>v. defKey (encDefinition v)) unsorted in
      case marshalDefinitions S (map encDefinition values) of Inl e \<Rightarrow> Inl e | Inr raw \<Rightarrow>
        Inr (values, sha256Hex raw))"

section \<open>The publication row\<close>

text \<open>
  The four nullable cursor columns are set together or not at all; \<^verbatim>\<open>definitionCursorFrom\<close> and
  \<^verbatim>\<open>acceptFencedSnapshot\<close> share this reading.
\<close>

definition cursorOfRow ::
  "DefinitionStore \<Rightarrow> publication_row \<Rightarrow> goerr + DefinitionSnapshotCursor option" where
  "cursorOfRow s r =
     (case (pb_cursor_generation r, pb_cursor_session_sha256 r, pb_cursor_revision r, pb_cursor_content_sha256 r) of
        (None, None, None, None) \<Rightarrow> Inr None
      | (Some g, Some h, Some v, Some c) \<Rightarrow>
          if g \<le> 0 then Inl (Errorf ''persisted Scheduler definition publication cursor is incomplete'')
          else Inr (Some \<lparr>cursorRuntimeID = dsSourceID s,
                          cursorFence = \<lparr>fenceGeneration = g, fenceSessionSHA256 = h\<rparr>,
                          cursorRevision = v, cursorContentSHA256 = c\<rparr>)
      | _ \<Rightarrow> Inl (Errorf ''persisted Scheduler definition publication cursor is incomplete''))"

text \<open>A negative generation does not scan into the \<^verbatim>\<open>uint64\<close>.\<close>

definition scanActive :: "publication_row \<Rightarrow> goerr + DefinitionPublisherFence" where
  "scanActive r =
     (if pb_active_generation r < 0 then Inl (DriverError ''sql: Scan error'')
      else Inr \<lparr>fenceGeneration = pb_active_generation r, fenceSessionSHA256 = pb_active_session_sha256 r\<rparr>)"

definition publicationRow :: "DefinitionStore \<Rightarrow> database \<Rightarrow> goerr + publication_row" where
  "publicationRow s d = selectRow (publicationIdentity (dsSourceID s)) (definition_publications d)"

definition ActiveDefinitionPublisherSession ::
  "Sdk \<Rightarrow> DefinitionStore \<Rightarrow> DefinitionPublisherFence option dbop" where
  "ActiveDefinitionPublisherSession S s =
     attempt (sqlQuery (\<lambda>d. case publicationRow s d of Inl e \<Rightarrow> Inl e | Inr r \<Rightarrow> scanActive r)) (\<lambda>q. case q of
       Inl e \<Rightarrow> if errorsIs e ErrNoRows then ret None else fail e
     | Inr fence \<Rightarrow>
         (case validateFence S fence of
            Some e \<Rightarrow> fail (Wrapf ''persisted Scheduler definition publisher fence: '' e)
          | None \<Rightarrow> ret (Some fence)))"

definition activeGeneration :: "Sdk \<Rightarrow> DefinitionStore \<Rightarrow> int option dbop" where
  "activeGeneration S s = bindE (ActiveDefinitionPublisherSession S s) (\<lambda>f. ret (map_option fenceGeneration f))"

definition definitionCursorFrom :: "DefinitionStore \<Rightarrow> DefinitionSnapshotCursor option dbop" where
  "definitionCursorFrom s =
     attempt (sqlQuery (publicationRow s)) (\<lambda>q. case q of
       Inl e \<Rightarrow> if errorsIs e ErrNoRows then ret None else fail e
     | Inr r \<Rightarrow> liftE (cursorOfRow s r))"

text \<open>The wait between two rounds ends early, with an error, when the context is done.\<close>

definition waitDefinitionPublicationRetry :: "unit dbop" where
  "waitDefinitionPublicationRetry = envCall"

section \<open>Sessions\<close>

definition newPublication :: "DefinitionStore \<Rightarrow> string \<Rightarrow> string \<Rightarrow> publication_row" where
  "newPublication s hash now =
     \<lparr>pb_source_kind = runtimeDefinitionSourceKind, pb_source_id = dsSourceID s, pb_active_generation = 1,
      pb_active_session_sha256 = hash, pb_cursor_generation = None, pb_cursor_session_sha256 = None,
      pb_cursor_revision = None, pb_cursor_content_sha256 = None, pb_updated_at = now\<rparr>"

definition sql_activateSession :: "DefinitionStore \<Rightarrow> int \<Rightarrow> string \<Rightarrow> string \<Rightarrow> int sql" where
  "sql_activateSession s generation hash now = update_definition_publications
     (\<lambda>r. publicationIdentity (dsSourceID s) r \<and> pb_active_generation r = generation)
     (\<lambda>r. r\<lparr>pb_active_generation := generation + 1, pb_active_session_sha256 := hash, pb_updated_at := now\<rparr>)"

text \<open>
  One round of the loop of \<^verbatim>\<open>BeginDefinitionPublisherSession\<close>: a session, or \<open>None\<close> when another
  publisher won the compare-and-swap.
\<close>

definition beginSessionOnce :: "Sdk \<Rightarrow> DefinitionStore \<Rightarrow> DefinitionPublisherSession option dbop" where
  "beginSessionOnce S s =
     bindE envCall (\<lambda>_.
     attempt (bindE envCall (\<lambda>_. randRead)) (\<lambda>q. case q of
       Inl e \<Rightarrow> fail (Wrapf ''generate Scheduler definition publisher nonce: '' e)
     | Inr raw \<Rightarrow>
     let nonce = base64RawURL raw; hash = sha256Hex nonce in
     bindE timeNow (\<lambda>t. let now = formatRFC3339Nano t in
     bindE (activeGeneration S s) (\<lambda>found. case found of
       None \<Rightarrow>
         bindE (sqlCall (insert_ignore_publications (newPublication s hash now))) (\<lambda>_.
         bindE (ActiveDefinitionPublisherSession S s) (\<lambda>active.
         ret (case active of
                Some fence \<Rightarrow>
                  if fenceGeneration fence = 1 \<and> fenceSessionSHA256 fence = hash
                  then Some \<lparr>sessionGeneration = 1, sessionNonce = nonce\<rparr> else None
              | None \<Rightarrow> None)))
     | Some generation \<Rightarrow>
         if generation \<ge> maxDefinitionPublisherGeneration
         then fail (Errorf ''Scheduler definition publisher generation exhausted'') else
         bindE (sqlCall (sql_activateSession s generation hash now)) (\<lambda>affected.
         ret (if affected = 1 then Some \<lparr>sessionGeneration = generation + 1, sessionNonce = nonce\<rparr> else None))))))"

fun beginSessionRounds :: "Sdk \<Rightarrow> DefinitionStore \<Rightarrow> nat \<Rightarrow> DefinitionPublisherSession dbop" where
  "beginSessionRounds S s 0 = fail (Sentinel ErrDefinitionPublicationCAS)"
| "beginSessionRounds S s (Suc n) =
     bindE (beginSessionOnce S s) (\<lambda>session. case session of
       Some p \<Rightarrow> ret p
     | None \<Rightarrow> bindE waitDefinitionPublicationRetry (\<lambda>_. beginSessionRounds S s n))"

definition BeginDefinitionPublisherSession :: "Sdk \<Rightarrow> DefinitionStore \<Rightarrow> DefinitionPublisherSession dbop" where
  "BeginDefinitionPublisherSession S s =
     (if dsMode s \<noteq> DeploymentModeSaaS
      then fail (Sentinel ErrDefinitionPublicationCapabilityRequired)
      else beginSessionRounds S s 64)"

section \<open>Accepting a fenced snapshot\<close>

text \<open>
  The ordering checks, from the active session and the current cursor to an error or the
  disposition of the snapshot.
\<close>

definition orderSnapshot ::
  "Sdk \<Rightarrow> DefinitionPublisherFence \<Rightarrow> DefinitionSnapshotCursor option \<Rightarrow> DefinitionPublisherFence \<Rightarrow> int \<Rightarrow> string \<Rightarrow>
   goerr + DefinitionSnapshotDisposition" where
  "orderSnapshot S active current incoming revision contentHash =
     (if revision \<le> 0 then Inl (Annotatef (Sentinel ErrDefinitionSnapshotConflict) '': revision must be positive'')
      else if \<not> fenceEqual S incoming active then
        (if fenceGeneration incoming < fenceGeneration active then Inl (Sentinel ErrDefinitionSnapshotStale)
         else Inl (Sentinel ErrDefinitionPublicationSessionMismatch))
      else case current of
        None \<Rightarrow> Inr DefinitionSnapshotApply
      | Some c \<Rightarrow>
          if fenceGeneration incoming < fenceGeneration (cursorFence c)
          then Inl (Sentinel ErrDefinitionSnapshotStale)
          else if fenceGeneration incoming = fenceGeneration (cursorFence c) then
            (if \<not> fenceEqual S incoming (cursorFence c) then Inl (Sentinel ErrDefinitionSnapshotConflict)
             else if revision < cursorRevision c then Inl (Sentinel ErrDefinitionSnapshotStale)
             else if revision = cursorRevision c then
               (if contentHash \<noteq> cursorContentSHA256 c then Inl (Sentinel ErrDefinitionSnapshotConflict)
                else Inr DefinitionSnapshotReplay)
             else Inr DefinitionSnapshotApply)
          else Inr DefinitionSnapshotApply)"

text \<open>The row still has the active session and the cursor that were read.\<close>

definition cursorUnmoved ::
  "DefinitionStore \<Rightarrow> DefinitionPublisherFence \<Rightarrow> DefinitionSnapshotCursor option \<Rightarrow> publication_row \<Rightarrow> bool" where
  "cursorUnmoved s active current r \<longleftrightarrow>
     publicationIdentity (dsSourceID s) r \<and> pb_active_generation r = fenceGeneration active \<and>
     pb_active_session_sha256 r = fenceSessionSHA256 active \<and>
     (case current of
        None \<Rightarrow> pb_cursor_generation r = None \<and> pb_cursor_session_sha256 r = None \<and>
                pb_cursor_revision r = None \<and> pb_cursor_content_sha256 r = None
      | Some c \<Rightarrow> pb_cursor_generation r = Some (fenceGeneration (cursorFence c)) \<and>
                  pb_cursor_session_sha256 r = Some (fenceSessionSHA256 (cursorFence c)) \<and>
                  pb_cursor_revision r = Some (cursorRevision c) \<and>
                  pb_cursor_content_sha256 r = Some (cursorContentSHA256 c))"

definition withCursor ::
  "DefinitionPublisherFence \<Rightarrow> int \<Rightarrow> string \<Rightarrow> string \<Rightarrow> publication_row \<Rightarrow> publication_row" where
  "withCursor incoming revision contentHash now r =
     r\<lparr>pb_cursor_generation := Some (fenceGeneration incoming),
       pb_cursor_session_sha256 := Some (fenceSessionSHA256 incoming),
       pb_cursor_revision := Some revision, pb_cursor_content_sha256 := Some contentHash,
       pb_updated_at := now\<rparr>"

definition sql_moveCursor ::
  "DefinitionStore \<Rightarrow> DefinitionPublisherFence \<Rightarrow> DefinitionSnapshotCursor option \<Rightarrow> DefinitionPublisherFence \<Rightarrow>
   int \<Rightarrow> string \<Rightarrow> string \<Rightarrow> int sql" where
  "sql_moveCursor s active current incoming revision contentHash now =
     update_definition_publications (cursorUnmoved s active current) (withCursor incoming revision contentHash now)"

text \<open>The persisted cursor, read and validated.\<close>

definition currentCursor ::
  "Sdk \<Rightarrow> DefinitionStore \<Rightarrow> publication_row \<Rightarrow> goerr + DefinitionSnapshotCursor option" where
  "currentCursor S s r =
     (case cursorOfRow s r of
        Inl e \<Rightarrow> Inl e
      | Inr None \<Rightarrow> Inr None
      | Inr (Some c) \<Rightarrow>
          (case validateCursor S c of
             Some e \<Rightarrow> Inl (Wrapf ''persisted Scheduler definition publication cursor: '' e)
           | None \<Rightarrow> Inr (Some c)))"

definition acceptFencedSnapshot ::
  "Sdk \<Rightarrow> DefinitionStore \<Rightarrow> DefinitionSnapshot \<Rightarrow> string \<Rightarrow> string \<Rightarrow> DefinitionSnapshotDisposition dbop" where
  "acceptFencedSnapshot S s snapshot contentHash now =
     (case snapFence snapshot of None \<Rightarrow> fail (Sentinel ErrDefinitionPublicationRequired) | Some incoming \<Rightarrow>
      case validateFence S incoming of Some e \<Rightarrow> fail e | None \<Rightarrow>
      attempt (sqlQuery (\<lambda>d. case publicationRow s d of Inl e \<Rightarrow> Inl e | Inr r \<Rightarrow>
          (case scanActive r of Inl e \<Rightarrow> Inl e | Inr fence \<Rightarrow> Inr (fence, r)))) (\<lambda>q. case q of
        Inl e \<Rightarrow> if errorsIs e ErrNoRows then fail (Sentinel ErrDefinitionPublicationRequired) else fail e
      | Inr (active, r) \<Rightarrow>
          (case validateFence S active of
             Some e \<Rightarrow> fail (Wrapf ''persisted Scheduler active definition publication fence: '' e)
           | None \<Rightarrow>
             bindE (liftE (currentCursor S s r)) (\<lambda>current.
             bindE (liftE (orderSnapshot S active current incoming (snapRevision snapshot) contentHash)) (\<lambda>disposition.
             if disposition = DefinitionSnapshotReplay then ret DefinitionSnapshotReplay else
             bindE (sqlCall (sql_moveCursor s active current incoming (snapRevision snapshot) contentHash now)) (\<lambda>updated.
             if updated \<noteq> 1 then fail (Sentinel ErrDefinitionPublicationCAS)
             else ret DefinitionSnapshotApply))))))"

section \<open>Writing a snapshot\<close>

definition snapshotIdentity :: "DefinitionStore \<Rightarrow> snapshot_row \<Rightarrow> bool" where
  "snapshotIdentity s r \<longleftrightarrow> sn_source_kind r = runtimeDefinitionSourceKind \<and> sn_source_id r = dsSourceID s"

definition writeSnapshotState ::
  "Sdk \<Rightarrow> DefinitionStore \<Rightarrow> DefinitionSnapshot \<Rightarrow> string \<Rightarrow> string \<Rightarrow> unit dbop" where
  "writeSnapshotState S s snapshot snapshotHash now =
     bindE (sqlCall (update_definition_snapshots (snapshotIdentity s)
       (\<lambda>r. r\<lparr>sn_revision := snapRevision snapshot, sn_schema_version := trimSpace (snapSchemaVersion snapshot),
              sn_schema_hash := snapshotHash, sn_updated_at := now\<rparr>))) (\<lambda>affected.
     if affected = 1 then ret () else
     bindE (sqlCall (insert_definition_snapshots S
       \<lparr>sn_source_kind = runtimeDefinitionSourceKind, sn_source_id = dsSourceID s,
        sn_revision = snapRevision snapshot, sn_schema_version = trimSpace (snapSchemaVersion snapshot),
        sn_schema_hash = snapshotHash, sn_updated_at = now\<rparr>)) (\<lambda>_. ret ()))"

definition definitionOwned :: "DefinitionStore \<Rightarrow> definition_row \<Rightarrow> bool" where
  "definitionOwned s r \<longleftrightarrow> df_source_kind r = runtimeDefinitionSourceKind \<and> df_source_id r = dsSourceID s"

definition sql_disableDefinitions :: "DefinitionStore \<Rightarrow> string \<Rightarrow> int sql" where
  "sql_disableDefinitions s now = update_definitions
     (\<lambda>r. definitionOwned s r \<and> df_disabled_at r = None) (\<lambda>r. r\<lparr>df_disabled_at := Some now\<rparr>)"

definition sql_updateDefinition ::
  "DefinitionStore \<Rightarrow> DefinitionSnapshot \<Rightarrow> string \<Rightarrow> encodedDefinition \<Rightarrow> int sql" where
  "sql_updateDefinition s snapshot now v = update_definitions
     (\<lambda>r. definitionOwned s r \<and> df_resource_key r = encStorageKey v)
     (\<lambda>r. r\<lparr>df_object_key := trimSpace (defKey (encDefinition v)), df_name := defName (encDefinition v),
            df_payload_json := encRaw v, df_schema_version := snapSchemaVersion snapshot,
            df_schema_hash := encHash v, df_disabled_at := None, df_updated_at := now\<rparr>)"

definition definitionRow ::
  "DefinitionStore \<Rightarrow> DefinitionSnapshot \<Rightarrow> string \<Rightarrow> encodedDefinition \<Rightarrow> definition_row" where
  "definitionRow s snapshot now v =
     \<lparr>df_id = ''scheduler:'' @ encStorageKey v, df_resource_key = encStorageKey v,
      df_object_key = trimSpace (defKey (encDefinition v)), df_name = defName (encDefinition v),
      df_payload_json = encRaw v, df_schema_version = snapSchemaVersion snapshot, df_schema_hash = encHash v,
      df_source_kind = runtimeDefinitionSourceKind, df_source_id = dsSourceID s, df_disabled_at = None,
      df_created_at = now, df_updated_at = now\<rparr>"

definition writeDefinition ::
  "Sdk \<Rightarrow> DefinitionStore \<Rightarrow> DefinitionSnapshot \<Rightarrow> string \<Rightarrow> encodedDefinition \<Rightarrow> unit \<Rightarrow> unit dbop" where
  "writeDefinition S s snapshot now v _ =
     bindE (sqlCall (sql_updateDefinition s snapshot now v)) (\<lambda>affected.
     if affected > 0 then ret () else
     bindE (sqlCall (insert_definitions S (definitionRow s snapshot now v))) (\<lambda>_. ret ()))"

definition writeSnapshot ::
  "Sdk \<Rightarrow> DefinitionStore \<Rightarrow> DefinitionSnapshot \<Rightarrow> encodedDefinition list \<Rightarrow> string \<Rightarrow> string \<Rightarrow> unit txout dbop" where
  "writeSnapshot S s snapshot encoded snapshotHash now =
     bindE (writeSnapshotState S s snapshot snapshotHash now) (\<lambda>_.
     bindE (sqlCall (sql_disableDefinitions s now)) (\<lambda>_.
     bindE (foldE (writeDefinition S s snapshot now) encoded ()) (\<lambda>_.
     ret (Commit ()))))"

definition syncDefinitionsOnce ::
  "Sdk \<Rightarrow> DefinitionStore \<Rightarrow> DefinitionSnapshot \<Rightarrow> encodedDefinition list \<Rightarrow> string \<Rightarrow> unit dbop" where
  "syncDefinitionsOnce S s snapshot encoded snapshotHash =
     transaction (bindE timeNow (\<lambda>t. let now = formatRFC3339Nano t in
       if snapFence snapshot \<noteq> None then
         bindE (acceptFencedSnapshot S s snapshot snapshotHash now) (\<lambda>disposition.
         if disposition = DefinitionSnapshotReplay then ret (Commit ())
         else writeSnapshot S s snapshot encoded snapshotHash now)
       else writeSnapshot S s snapshot encoded snapshotHash now))"

text \<open>The error returned after the last round is that round's; a loop of no rounds returns no error.\<close>

fun syncRounds ::
  "Sdk \<Rightarrow> DefinitionStore \<Rightarrow> DefinitionSnapshot \<Rightarrow> encodedDefinition list \<Rightarrow> string \<Rightarrow> nat \<Rightarrow> unit dbop" where
  "syncRounds S s snapshot encoded snapshotHash 0 = ret ()"
| "syncRounds S s snapshot encoded snapshotHash (Suc n) =
     attempt (syncDefinitionsOnce S s snapshot encoded snapshotHash) (\<lambda>q. case q of
       Inr u \<Rightarrow> ret u
     | Inl e \<Rightarrow>
         if \<not> errorsIs e ErrDefinitionPublicationCAS then fail e else
         bindE envCall (\<lambda>_.
         bindE waitDefinitionPublicationRetry (\<lambda>_.
         if n = 0 then fail e else syncRounds S s snapshot encoded snapshotHash n)))"

definition SyncDefinitions :: "Sdk \<Rightarrow> DefinitionStore \<Rightarrow> DefinitionSnapshot \<Rightarrow> unit dbop" where
  "SyncDefinitions S s snapshot =
     (if \<not> dsReady s then fail (Errorf ''Scheduler definition store is unavailable'')
      else if snapRevision snapshot \<le> 0 \<or> isBlank (snapSchemaVersion snapshot) \<or>
         isBlank (snapSourceKind snapshot) \<or> isBlank (snapSourceID snapshot)
      then fail (Errorf ''Scheduler definition snapshot identity is required'')
      else if trimSpace (snapSourceKind snapshot) \<noteq> runtimeDefinitionSourceKind \<or>
         trimSpace (snapSourceID snapshot) \<noteq> dsSourceID s
      then fail (Errorf ''Scheduler definition snapshot does not match the bound Runtime application'') else
      bindE (liftE (encodeDefinitions S s (snapDefinitions snapshot))) (\<lambda>(encoded, snapshotHash).
      if snapContentSHA256 snapshot \<noteq> [] \<and> snapContentSHA256 snapshot \<noteq> snapshotHash
      then fail (Errorf ''Scheduler definition snapshot content hash does not match its definitions'') else
      case dsMode s of
        DeploymentModeModule \<Rightarrow>
          if snapFence snapshot \<noteq> None
          then fail (Errorf ''Scheduler Module definition snapshot must not carry a publisher fence'')
          else syncRounds S s snapshot encoded snapshotHash 64
      | DeploymentModeSaaS \<Rightarrow>
          if snapFence snapshot = None then fail (Sentinel ErrDefinitionPublicationRequired)
          else syncRounds S s snapshot encoded snapshotHash 64
      | DeploymentModeOther _ \<Rightarrow> fail (Errorf ''Scheduler definition store deployment mode is invalid'')))"

section \<open>Reading the published snapshot\<close>

definition parseInt64 :: "string \<Rightarrow> int option" where
  "parseInt64 s =
     (let neg = (take 1 s = ''-''); ds = (if take 1 s = ''-'' \<or> take 1 s = ''+'' then drop 1 s else s);
          v = (if neg then - int (digitsVal 0 ds) else int (digitsVal 0 ds))
      in if ds = [] \<or> \<not> list_all isDigit ds \<or> v < - (2 ^ 63) \<or> 2 ^ 63 \<le> v then None else Some v)"

text \<open>
  The loop over the rows: it decodes the definitions and, when the snapshot's identity was not
  stored, takes the schema version of the rows.
\<close>

fun readDefinitions ::
  "Sdk \<Rightarrow> bool \<Rightarrow> string \<Rightarrow> definition_row list \<Rightarrow> goerr + (Definition list \<times> string)" where
  "readDefinitions S hasGeneration version [] = Inr ([], version)"
| "readDefinitions S hasGeneration version (r # rest) =
     (case unmarshalDefinition S (df_payload_json r) of Inl e \<Rightarrow> Inl e | Inr d \<Rightarrow>
      let schemaVersion = trimSpace (df_schema_version r) in
      if \<not> hasGeneration \<and> version \<noteq> [] \<and> version \<noteq> schemaVersion
      then Inl (Errorf ''legacy Scheduler definition snapshot has mixed schema versions'') else
      case readDefinitions S hasGeneration (if hasGeneration then version else schemaVersion) rest of
        Inl e \<Rightarrow> Inl e | Inr (ds, v) \<Rightarrow> Inr (d # ds, v))"

definition enabledRows :: "DefinitionStore \<Rightarrow> database \<Rightarrow> definition_row list" where
  "enabledRows s d =
     ascending df_object_key (filter (\<lambda>r. definitionOwned s r \<and> df_disabled_at r = None) (definitions d))"

text \<open>Revision and content digest of a snapshot whose identity was not stored.\<close>

definition legacyIdentity :: "Sdk \<Rightarrow> string \<Rightarrow> Definition list \<Rightarrow> goerr + (int \<times> string)" where
  "legacyIdentity S version ds =
     (if ds = [] then Inr (0, []) else
      case parseInt64 version of
        None \<Rightarrow> Inl (Errorf ''legacy Scheduler definition snapshot revision is invalid'')
      | Some revision \<Rightarrow>
          if revision < 0 then Inl (Errorf ''legacy Scheduler definition snapshot revision is invalid'') else
          (case marshalDefinitions S ds of Inl e \<Rightarrow> Inl e | Inr raw \<Rightarrow> Inr (revision, sha256Hex raw)))"

definition definitionSnapshotFrom :: "Sdk \<Rightarrow> DefinitionStore \<Rightarrow> DefinitionSnapshot dbop" where
  "definitionSnapshotFrom S s =
     attempt (sqlQuery (\<lambda>d. selectRow (snapshotIdentity s) (definition_snapshots d))) (\<lambda>q.
     bindE (case q of
         Inl e \<Rightarrow> if \<not> errorsIs e ErrNoRows then fail e else ret (False, 0, [], [])
       | Inr r \<Rightarrow> ret (True, sn_revision r, sn_schema_version r, sn_schema_hash r))
       (\<lambda>(hasGeneration, revision0, version0, hash0).
     bindE (sqlQuery (\<lambda>d. Inr (enabledRows s d))) (\<lambda>rows.
     bindE (liftE (readDefinitions S hasGeneration version0 rows)) (\<lambda>(unsorted, version).
     bindE envCall (\<lambda>_.
     bindE envCall (\<lambda>_.
     let ds = sort_key defKey unsorted in
     bindE (if hasGeneration then ret (revision0, hash0) else liftE (legacyIdentity S version ds))
       (\<lambda>(revision, schemaHash).
     bindE (liftE (encodeDefinitions S s ds)) (\<lambda>(_, contentHash).
     if hasGeneration \<and> schemaHash \<noteq> contentHash
     then fail (Errorf ''persisted Scheduler definition snapshot content is inconsistent'') else
     bindE (definitionCursorFrom s) (\<lambda>cursor.
     let result = \<lparr>snapRevision = revision, snapSchemaVersion = version, snapSchemaHash = schemaHash,
           snapSourceKind = runtimeDefinitionSourceKind, snapSourceID = dsSourceID s, snapDefinitions = ds,
           snapFence = None, snapContentSHA256 = []\<rparr>
     in case cursor of
          None \<Rightarrow> ret result
        | Some c \<Rightarrow>
            if cursorRevision c \<noteq> revision \<or> cursorContentSHA256 c \<noteq> contentHash
            then fail (Errorf ''persisted Scheduler fenced definition snapshot is inconsistent'')
            else ret (result\<lparr>snapFence := Some (cursorFence c), snapContentSHA256 := cursorContentSHA256 c\<rparr>))))))))))"

definition DefinitionSnapshotOf :: "Sdk \<Rightarrow> DefinitionStore \<Rightarrow> DefinitionSnapshot dbop" where
  "DefinitionSnapshotOf S s =
     (if \<not> dsReady s then fail (Errorf ''Scheduler definition store is unavailable'')
      else transaction (bindE (definitionSnapshotFrom S s) (\<lambda>result. ret (Commit result))))"

end
