(* ===== verification/Publication_Steps.thy ===== *)
theory Publication_Steps
  imports Definition_Store
begin

text \<open>
  How the operations of the definition store change the publication rows.

  Three statements touch them: the insert of a first session, the compare-and-swap to the next
  generation, and the compare-and-swap of the cursor behind the ordering checks. The locale
  \<open>publication_order\<close> is the contract between these statements and an order on databases; under it
  every operation, whichever of its calls fail, moves the database along the order, and so does every
  interleaving of any number of publishers (\<open>publish_step\<close>).
\<close>

section \<open>What leaves the publications alone\<close>

definition keepsPublications :: "'a sql \<Rightarrow> bool" where
  "keepsPublications f \<longleftrightarrow> (\<forall>d. definition_publications (snd (f d)) = definition_publications d)"

lemma keepsPublications_statements:
  "keepsPublications (update_definition_snapshots p f)" "keepsPublications (insert_definition_snapshots S r)"
  "keepsPublications (sql_disableDefinitions s now)" "keepsPublications (sql_updateDefinition s snapshot now v)"
  "keepsPublications (insert_definitions S dr)"
  by (simp_all add: keepsPublications_def sql_unfold sql_disableDefinitions_def sql_updateDefinition_def)

lemma readonly_publication [readonly_intros]:
  "readonly (ActiveDefinitionPublisherSession S s)" "readonly (activeGeneration S s)"
  "readonly (definitionCursorFrom s)" "readonly waitDefinitionPublicationRetry"
  unfolding ActiveDefinitionPublisherSession_def activeGeneration_def definitionCursorFrom_def
    waitDefinitionPublicationRetry_def
  by (intro readonly_intros)+

lemma readonly_transaction:
  assumes "readonly body"
  shows "readonly (transaction body)"
proof (unfold readonly_def, intro allI)
  fix w
  obtain r w' where r: "transaction body w = (r, w')" by fastforce
  have "db w' = db w"
  proof (cases r)
    case (Inl e)
    with r show ?thesis by (simp add: transaction_error)
  next
    case (Inr x)
    with r have "transaction body w = (Inr x, w')" by simp
    then show ?thesis by (cases rule: transaction_InrE) (use assms in \<open>auto dest: readonlyD\<close>)
  qed
  with r show "db (snd (transaction body w)) = db w" by simp
qed

lemma readonly_snapshot [readonly_intros]:
  "readonly (definitionSnapshotFrom S s)" "readonly (DefinitionSnapshotOf S s)"
proof -
  show *: "readonly (definitionSnapshotFrom S s)"
    unfolding definitionSnapshotFrom_def Let_def
    by (rule readonly_attempt readonly_bindE readonly_case_sum readonly_case_prod readonly_if
        readonly_case_option readonly_intros)+
  show "readonly (DefinitionSnapshotOf S s)"
    unfolding DefinitionSnapshotOf_def
    by (intro readonly_if readonly_transaction readonly_bindE * readonly_intros)
qed

lemma list_all2_set_left: "list_all2 P xs ys \<Longrightarrow> x \<in> set xs \<Longrightarrow> \<exists>y \<in> set ys. P x y"
  by (induction rule: list_all2_induct) auto

lemma list_all2_set_right: "list_all2 P xs ys \<Longrightarrow> y \<in> set ys \<Longrightarrow> \<exists>x \<in> set xs. P x y"
  by (induction rule: list_all2_induct) auto

section \<open>The contract of an order with the statements on publications\<close>

locale publication_order = db_order R for R :: "database \<Rightarrow> database \<Rightarrow> bool" +
  fixes S :: Sdk
  assumes frame: "definition_publications d' = definition_publications d \<Longrightarrow> R d d'"
    and first_session: "R d (snd (insert_ignore_publications (newPublication s hash now) d))"
    and next_session: "generation < maxDefinitionPublisherGeneration \<Longrightarrow>
      R d (snd (sql_activateSession s generation hash now d))"
    and cursor_moved: "orderSnapshot S active current incoming revision contentHash = Inr DefinitionSnapshotApply \<Longrightarrow>
      R d (snd (sql_moveCursor s active current incoming revision contentHash now d))"
begin

lemma moves_snd: "(\<And>d. P d \<Longrightarrow> R d (snd (f d))) \<Longrightarrow> moves R P (sqlCall f)"
  by (rule moves_sqlCall) (metis snd_conv)

lemma moves_keeps: "keepsPublications f \<Longrightarrow> moves R P (sqlCall f)"
  by (rule moves_snd) (simp add: keepsPublications_def frame)

lemmas moves_others = keepsPublications_statements [THEN moves_keeps]

lemma moves_pure: "moves R P (ret x)" "moves R P (fail e)" "moves R P (liftE q)" "moves R P timeNow"
  "moves R P envCall" "moves R P (sqlQuery qq)" "moves R P waitDefinitionPublicationRetry"
  by (intro moves_readonly readonly_intros)+

lemma moves_beginSessionOnce: "moves R P (beginSessionOnce S' s)"
  unfolding beginSessionOnce_def Let_def
  by (rule moves_bindE moves_attempt moves_case_sum moves_case_option moves_if moves_pure moves_snd
      first_session next_session moves_readonly readonly_intros | simp)+

lemma moves_beginSessionRounds: "moves R P (beginSessionRounds S' s n)"
  by (induction n arbitrary: P)
    (auto intro!: moves_bindE moves_beginSessionOnce moves_pure moves_case_option)

lemma moves_Begin: "moves R P (BeginDefinitionPublisherSession S' s)"
  unfolding BeginDefinitionPublisherSession_def by (intro moves_if moves_pure moves_beginSessionRounds)

lemma moves_order:
  "moves R P (bindE (liftE (orderSnapshot S active current incoming revision contentHash)) (\<lambda>disposition.
     if disposition = DefinitionSnapshotReplay then ret DefinitionSnapshotReplay else
     bindE (sqlCall (sql_moveCursor s active current incoming revision contentHash now)) (\<lambda>updated.
     if updated \<noteq> 1 then fail (Sentinel ErrDefinitionPublicationCAS) else ret DefinitionSnapshotApply)))"
proof (cases "orderSnapshot S active current incoming revision contentHash")
  case (Inl e)
  then show ?thesis by (simp add: moves_def bindE_def liftE_def order_refl)
next
  case (Inr disposition)
  have "moves R P (if disposition = DefinitionSnapshotReplay then ret DefinitionSnapshotReplay else
     bindE (sqlCall (sql_moveCursor s active current incoming revision contentHash now)) (\<lambda>updated.
     if updated \<noteq> 1 then fail (Sentinel ErrDefinitionPublicationCAS) else ret DefinitionSnapshotApply))"
    using Inr by (cases disposition) (auto intro!: moves_bindE moves_snd cursor_moved moves_pure)
  then show ?thesis using Inr by (simp add: moves_def bindE_def liftE_def)
qed

lemma moves_accept: "moves R P (acceptFencedSnapshot S s snapshot contentHash now)"
  unfolding acceptFencedSnapshot_def
  by (intro moves_case_option moves_attempt moves_case_sum moves_case_prod moves_if moves_bindE moves_pure moves_order)

lemma moves_writeSnapshot: "moves R P (writeSnapshot S' s snapshot encoded snapshotHash now)"
proof -
  have "moves R Q (writeDefinition S' s snapshot now v u)" for Q v u
    unfolding writeDefinition_def by (intro moves_bindE moves_if moves_pure moves_others)
  moreover have "moves R Q (writeSnapshotState S' s snapshot snapshotHash now)" for Q
    unfolding writeSnapshotState_def by (intro moves_bindE moves_if moves_pure moves_others)
  ultimately show ?thesis
    unfolding writeSnapshot_def by (intro moves_bindE moves_pure moves_others moves_foldE)
qed

lemma moves_syncOnce: "moves R P (syncDefinitionsOnce S s snapshot encoded snapshotHash)"
  unfolding syncDefinitionsOnce_def Let_def
  by (intro moves_transaction moves_bindE moves_if moves_pure moves_accept moves_writeSnapshot)

lemma moves_syncRounds: "moves R P (syncRounds S s snapshot encoded snapshotHash n)"
  by (induction n arbitrary: P)
    (auto intro!: moves_attempt moves_bindE moves_syncOnce moves_pure moves_case_sum moves_if)

lemma moves_SyncDefinitions: "moves R P (SyncDefinitions S s snapshot)"
proof -
  have "moves R P (case dsMode s of
      DeploymentModeModule \<Rightarrow> if a then fail e1 else syncRounds S s snapshot encoded hash 64
    | DeploymentModeSaaS \<Rightarrow> if b then fail e2 else syncRounds S s snapshot encoded hash 64
    | DeploymentModeOther x \<Rightarrow> fail e3)" for P a b e1 e2 e3 encoded hash
    by (cases "dsMode s") (auto intro: moves_pure moves_syncRounds)
  then show ?thesis
    unfolding SyncDefinitions_def by (intro moves_if moves_bindE moves_case_prod moves_pure)
qed

end

section \<open>Interleavings of publishers\<close>

text \<open>
  One atomic block of one publisher, run in any world whose database is the current one: a statement
  of \<^verbatim>\<open>BeginDefinitionPublisherSession\<close> or one transaction of \<^verbatim>\<open>syncDefinitionsOnce\<close>. \<open>other\<close> stands for
  everything that leaves the publications alone.
\<close>

inductive publish_step :: "Sdk \<Rightarrow> database \<Rightarrow> database \<Rightarrow> bool" for S :: Sdk where
  begin_first: "sqlCall (insert_ignore_publications (newPublication s hash now)) w = (n, w') \<Longrightarrow>
    publish_step S (db w) (db w')"
| begin_next: "generation < maxDefinitionPublisherGeneration \<Longrightarrow>
    sqlCall (sql_activateSession s generation hash now) w = (n, w') \<Longrightarrow> publish_step S (db w) (db w')"
| sync: "syncDefinitionsOnce S s snapshot encoded snapshotHash w = (u, w') \<Longrightarrow> publish_step S (db w) (db w')"
| other: "definition_publications d' = definition_publications d \<Longrightarrow> publish_step S d d'"

abbreviation publish_reach :: "Sdk \<Rightarrow> database \<Rightarrow> database \<Rightarrow> bool" where
  "publish_reach S \<equiv> (publish_step S)\<^sup>*\<^sup>*"

context publication_order
begin

lemma step_moves: "publish_step S d d' \<Longrightarrow> R d d'"
proof (induction rule: publish_step.induct)
  case (begin_first s hash now w n w')
  then show ?case using movesD [OF moves_snd [where P = "\<lambda>_. True"]] first_session by blast
next
  case (begin_next generation s hash now w n w')
  then show ?case using movesD [OF moves_snd [where P = "\<lambda>_. True"]] next_session by blast
next
  case (sync s snapshot encoded snapshotHash w u w')
  then show ?case using movesD [OF moves_syncOnce [where P = "\<lambda>_. True"]] by blast
qed (rule frame)

lemma reach_moves: "publish_reach S d d' \<Longrightarrow> R d d'"
  by (induction rule: rtranclp_induct) (auto intro: order_refl order_trans step_moves)

end

section \<open>The order of generations and revisions\<close>

text \<open>
  A publication row advances: its generation grows or its session stays; its cursor, once set, grows
  in the order of (generation, revision) or stays as it is.
\<close>

definition cursorPosition :: "publication_row \<Rightarrow> (int \<times> int) option" where
  "cursorPosition r = (case (pb_cursor_generation r, pb_cursor_revision r) of
     (Some g, Some v) \<Rightarrow> Some (g, v) | _ \<Rightarrow> None)"

definition positionLess :: "int \<times> int \<Rightarrow> int \<times> int \<Rightarrow> bool" where
  "positionLess p q \<longleftrightarrow> fst p < fst q \<or> fst p = fst q \<and> snd p < snd q"

definition cursorAdvances :: "publication_row \<Rightarrow> publication_row \<Rightarrow> bool" where
  "cursorAdvances r r' \<longleftrightarrow> (case cursorPosition r of None \<Rightarrow> True | Some p \<Rightarrow>
     (case cursorPosition r' of None \<Rightarrow> False | Some p' \<Rightarrow>
        positionLess p p' \<or>
        p' = p \<and> pb_cursor_session_sha256 r' = pb_cursor_session_sha256 r \<and>
        pb_cursor_content_sha256 r' = pb_cursor_content_sha256 r))"

definition sessionAdvances :: "publication_row \<Rightarrow> publication_row \<Rightarrow> bool" where
  "sessionAdvances r r' \<longleftrightarrow> pb_active_generation r < pb_active_generation r' \<or>
     pb_active_generation r' = pb_active_generation r \<and>
     pb_active_session_sha256 r' = pb_active_session_sha256 r"

definition rowAdvances :: "publication_row \<Rightarrow> publication_row \<Rightarrow> bool" where
  "rowAdvances r r' \<longleftrightarrow> publication_key r' = publication_key r \<and> sessionAdvances r r' \<and> cursorAdvances r r'"

definition publicationsAdvance :: "database \<Rightarrow> database \<Rightarrow> bool" where
  "publicationsAdvance d d' \<longleftrightarrow> (\<exists>old new. definition_publications d' = old @ new \<and>
     list_all2 rowAdvances (definition_publications d) old \<and> list_all (\<lambda>r. 1 \<le> pb_active_generation r) new)"

lemma rowAdvances_refl: "rowAdvances r r"
  by (auto simp: rowAdvances_def sessionAdvances_def cursorAdvances_def split: option.splits)

lemma rowAdvances_trans: "rowAdvances a b \<Longrightarrow> rowAdvances b c \<Longrightarrow> rowAdvances a c"
  by (auto simp: rowAdvances_def sessionAdvances_def cursorAdvances_def positionLess_def split: option.splits)

lemma publicationsAdvanceI:
  "definition_publications d' = old @ new \<Longrightarrow> list_all2 rowAdvances (definition_publications d) old \<Longrightarrow>
   list_all (\<lambda>r. 1 \<le> pb_active_generation r) new \<Longrightarrow> publicationsAdvance d d'"
  unfolding publicationsAdvance_def by blast

lemma publicationsAdvance_same:
  "definition_publications d' = definition_publications d \<Longrightarrow> publicationsAdvance d d'"
  by (rule publicationsAdvanceI [of _ "definition_publications d" "[]"])
    (auto simp: rowAdvances_refl intro: list_all2_refl)

lemma publicationsAdvance_trans:
  assumes "publicationsAdvance a b" "publicationsAdvance b c"
  shows "publicationsAdvance a c"
proof -
  obtain o1 n1 where 1: "definition_publications b = o1 @ n1" "list_all2 rowAdvances (definition_publications a) o1"
      "list_all (\<lambda>r. 1 \<le> pb_active_generation r) n1"
    using assms(1) by (auto simp: publicationsAdvance_def)
  obtain o2 n2 where 2: "definition_publications c = o2 @ n2" "list_all2 rowAdvances (o1 @ n1) o2"
      "list_all (\<lambda>r. 1 \<le> pb_active_generation r) n2"
    using assms(2) 1 by (auto simp: publicationsAdvance_def)
  then obtain p q where pq: "o2 = p @ q" "list_all2 rowAdvances o1 p" "list_all2 rowAdvances n1 q"
    by (auto simp: list_all2_append1)
  have "list_all2 rowAdvances (definition_publications a) p"
    by (rule list_all2_trans [OF rowAdvances_trans 1(2) pq(2)])
  moreover have "list_all (\<lambda>r. 1 \<le> pb_active_generation r) q"
    using pq(3) 1(3) by (induction rule: list_all2_induct) (auto simp: rowAdvances_def sessionAdvances_def)
  ultimately show ?thesis
    using 2(1,3) pq(1) by (intro publicationsAdvanceI [of _ p "q @ n2"]) simp_all
qed

lemma publicationsAdvance_update:
  assumes "\<And>r. p r \<Longrightarrow> rowAdvances r (f r)"
  shows "publicationsAdvance d (snd (update_definition_publications p f d))"
proof -
  have "list_all2 rowAdvances rs (updateWhere p f rs)" for rs
    by (induction rs) (auto simp: assms rowAdvances_refl)
  then show ?thesis
    by (intro publicationsAdvanceI [of _ "updateWhere p f (definition_publications d)" "[]"])
      (simp_all add: sql_unfold)
qed

lemma orderSnapshot_active:
  "orderSnapshot S active current incoming revision contentHash = Inr disposition \<Longrightarrow>
   0 < revision \<and> fenceEqual S incoming active"
  by (simp add: orderSnapshot_def split: if_splits)

lemma cursor_moved_advances:
  assumes "orderSnapshot S active current incoming revision contentHash = Inr DefinitionSnapshotApply"
  shows "publicationsAdvance d (snd (sql_moveCursor s active current incoming revision contentHash now d))"
  unfolding sql_moveCursor_def
proof (rule publicationsAdvance_update)
  fix r
  assume "cursorUnmoved s active current r"
  then show "rowAdvances r (withCursor incoming revision contentHash now r)"
    using assms
    by (cases current)
      (auto simp: cursorUnmoved_def withCursor_def orderSnapshot_def rowAdvances_def sessionAdvances_def
        cursorAdvances_def cursorPosition_def positionLess_def publication_key_def split: if_splits)
qed

interpretation advance: publication_order publicationsAdvance S for S
proof (unfold_locales, goal_cases)
  case (1 d)
  show ?case by (simp add: publicationsAdvance_same)
next
  case 2
  then show ?case by (rule publicationsAdvance_trans)
next
  case 3
  then show ?case by (rule publicationsAdvance_same)
next
  case (4 d s hash now)
  have "\<exists>new. definition_publications (snd (insert_ignore_publications (newPublication s hash now) d)) =
      definition_publications d @ new \<and> list_all (\<lambda>r. 1 \<le> pb_active_generation r) new"
    by (auto simp: sql_unfold newPublication_def)
  then show ?case
    by (auto intro!: publicationsAdvanceI [of _ "definition_publications d"] list_all2_refl rowAdvances_refl)
next
  case (5 generation d s hash now)
  show ?case
    unfolding sql_activateSession_def
    by (rule publicationsAdvance_update)
      (auto simp: rowAdvances_def sessionAdvances_def cursorAdvances_def cursorPosition_def
        publication_key_def split: option.splits)
next
  case 6
  then show ?case by (rule cursor_moved_advances)
qed

section \<open>Keys and bounds\<close>

definition publicationKeys :: "database \<Rightarrow> bool" where
  "publicationKeys d \<longleftrightarrow> distinct (map publication_key (definition_publications d))"

lemma publicationKeys_update:
  "(\<And>r. p r \<Longrightarrow> publication_key (f r) = publication_key r) \<Longrightarrow> publicationKeys d \<Longrightarrow>
   publicationKeys (snd (update_definition_publications p f d))"
  by (simp add: publicationKeys_def sql_unfold map_updateWhere)

interpretation publication_keys: publication_order "\<lambda>d d'. publicationKeys d \<longrightarrow> publicationKeys d'" S for S
proof (unfold_locales, goal_cases)
  case (4 d s hash now)
  show ?case by (auto simp: publicationKeys_def sql_unfold)
next
  case (5 generation d s hash now)
  show ?case unfolding sql_activateSession_def by (auto intro!: publicationKeys_update simp: publication_key_def)
next
  case (6 active current incoming revision contentHash d s now)
  show ?case unfolding sql_moveCursor_def by (auto intro!: publicationKeys_update simp: publication_key_def withCursor_def)
qed (auto simp: publicationKeys_def)

text \<open>
  Generations stay within the exact-integer range of JSON numbers, and the cursor never carries a
  generation that has not been active.
\<close>

definition generationOk :: "publication_row \<Rightarrow> bool" where
  "generationOk r \<longleftrightarrow> pb_active_generation r \<le> maxDefinitionPublisherGeneration \<and>
     (case pb_cursor_generation r of None \<Rightarrow> True | Some g \<Rightarrow> g \<le> pb_active_generation r)"

definition generationsOk :: "database \<Rightarrow> bool" where
  "generationsOk d \<longleftrightarrow> list_all generationOk (definition_publications d)"

lemma generationsOk_update:
  assumes "\<And>r. p r \<Longrightarrow> generationOk r \<Longrightarrow> generationOk (f r)" "generationsOk d"
  shows "generationsOk (snd (update_definition_publications p f d))"
  using assms by (auto simp: generationsOk_def list_all_iff sql_unfold updateWhere_def)

interpretation generations: publication_order
  "\<lambda>d d'. (\<forall>a b. fenceEqual S a b \<longrightarrow> a = b) \<longrightarrow> generationsOk d \<longrightarrow> generationsOk d'" S for S
proof (unfold_locales, goal_cases)
  case (4 d s hash now)
  show ?case
    by (auto simp: generationsOk_def sql_unfold newPublication_def generationOk_def
        maxDefinitionPublisherGeneration_def)
next
  case (5 generation d s hash now)
  then show ?case
    unfolding sql_activateSession_def
    by (auto intro!: generationsOk_update simp: generationOk_def split: option.splits)
next
  case (6 active current incoming revision contentHash d s now)
  then have "(\<forall>a b. fenceEqual S a b \<longrightarrow> a = b) \<Longrightarrow> incoming = active" by (blast dest: orderSnapshot_active)
  then show ?case
    unfolding sql_moveCursor_def
    by (auto intro!: generationsOk_update simp: generationOk_def cursorUnmoved_def withCursor_def)
qed (auto simp: generationsOk_def)

end
