(* ===== verification/Publication_Properties.thy ===== *)
theory Publication_Properties
  imports Publication_Steps Scheduler_Examples
begin

text \<open>
  What the publishers of definitions may rely on: sessions get strictly increasing generations, a
  superseded publisher can no longer write, revisions are applied in order, a repeated snapshot
  changes nothing, and a failed publication leaves the database as it was.
\<close>

section \<open>Sessions\<close>

lemma publicationIdentity_key:
  "publicationIdentity source r \<longleftrightarrow> publication_key r = (runtimeDefinitionSourceKind, source)"
  by (auto simp: publicationIdentity_def publication_key_def)

lemma publicationRow_unique:
  assumes "publicationKeys d" "r \<in> set (definition_publications d)" "publicationIdentity (dsSourceID s) r"
  shows "publicationRow s d = Inr r"
  using assms unfolding publicationRow_def publicationKeys_def
  by (intro selectRow_unique [where k = publication_key]) (auto simp: publicationIdentity_key)

lemma activeSession_Inr:
  assumes "ActiveDefinitionPublisherSession S s w = (Inr q, w')"
  shows "db w' = db w" and "q = None \<Longrightarrow> publicationRow s (db w) = Inl (Sentinel ErrNoRows)"
    and "q = Some fence \<Longrightarrow> \<exists>r. publicationRow s (db w) = Inr r \<and> scanActive r = Inr fence"
proof -
  show "db w' = db w" using assms by (rule readonlyD [OF readonly_publication(1)])
  have "q = None \<longrightarrow> publicationRow s (db w) = Inl (Sentinel ErrNoRows)"
  proof (cases "fault w (calls w)")
    case (Some e)
    with assms show ?thesis
      by (cases e) (auto simp: ActiveDefinitionPublisherSession_def go_unfold)
  next
    case None
    with assms show ?thesis
      by (cases "publicationRow s (db w)")
        (auto simp: ActiveDefinitionPublisherSession_def go_unfold publicationRow_def selectRow_Inl scanActive_def
          split: if_splits option.splits)
  qed
  then show "q = None \<Longrightarrow> publicationRow s (db w) = Inl (Sentinel ErrNoRows)" by blast
  show "\<exists>r. publicationRow s (db w) = Inr r \<and> scanActive r = Inr fence" if "q = Some fence"
  proof (cases "fault w (calls w)")
    case (Some e)
    with assms that show ?thesis
      by (cases e) (auto simp: ActiveDefinitionPublisherSession_def go_unfold)
  next
    case None
    with assms that show ?thesis
      by (cases "publicationRow s (db w)")
        (auto simp: ActiveDefinitionPublisherSession_def go_unfold publicationRow_def selectRow_Inl
          split: if_splits option.splits sum.splits)
  qed
qed

lemma activeGeneration_Inr:
  assumes "activeGeneration S s w = (Inr found, w')"
  obtains q where "ActiveDefinitionPublisherSession S s w = (Inr q, w')" "found = map_option fenceGeneration q"
  using assms by (auto simp: activeGeneration_def ret_def elim!: bindE_InrE)

text \<open>The row of a new session, and that no other row was touched.\<close>

definition sessionStarted :: "DefinitionStore \<Rightarrow> DefinitionPublisherSession \<Rightarrow> database \<Rightarrow> bool" where
  "sessionStarted s p d \<longleftrightarrow> (case publicationRow s d of Inl _ \<Rightarrow> False | Inr r \<Rightarrow>
     pb_active_generation r = sessionGeneration p \<and> pb_active_session_sha256 r = sha256Hex (sessionNonce p))"

definition activeBefore :: "DefinitionStore \<Rightarrow> database \<Rightarrow> int" where
  "activeBefore s d = (case publicationRow s d of Inl _ \<Rightarrow> 0 | Inr r \<Rightarrow> pb_active_generation r)"

lemma activate_started:
  assumes keys: "publicationKeys d" and "sql_activateSession s g hash now d = (Inr 1, d')"
  shows "activeBefore s d = g" and "publicationRow s d' = Inr r' \<Longrightarrow>
    pb_active_generation r' = g + 1 \<and> pb_active_session_sha256 r' = hash" and "\<exists>r'. publicationRow s d' = Inr r'"
proof -
  let ?p = "\<lambda>r. publicationIdentity (dsSourceID s) r \<and> pb_active_generation r = g"
  let ?f = "\<lambda>r. r\<lparr>pb_active_generation := g + 1, pb_active_session_sha256 := hash, pb_updated_at := now\<rparr>"
  have m: "matched ?p (definition_publications d) = 1"
      "definition_publications d' = updateWhere ?p ?f (definition_publications d)"
    using assms(2) by (auto simp: sql_activateSession_def sql_unfold)
  then obtain r where r: "r \<in> set (definition_publications d)" "?p r"
    using matched_pos [of ?p "definition_publications d"] by auto
  then show "activeBefore s d = g" using publicationRow_unique [OF keys r(1)] by (simp add: activeBefore_def)
  have "publicationKeys d'"
    using publicationKeys_update [of ?p ?f d] keys m(2)
    by (auto simp: publicationKeys_def sql_unfold publication_key_def)
  moreover have "?f r \<in> set (definition_publications d')"
    using r m(2) by (auto simp: updateWhere_def image_iff)
  ultimately have "publicationRow s d' = Inr (?f r)"
    using r(2) by (intro publicationRow_unique) (auto simp: publicationIdentity_def)
  then show "publicationRow s d' = Inr r' \<Longrightarrow> pb_active_generation r' = g + 1 \<and> pb_active_session_sha256 r' = hash"
    and "\<exists>r'. publicationRow s d' = Inr r'" by auto
qed

lemma insert_started:
  assumes "publicationKeys d" "publicationRow s d = Inl (Sentinel ErrNoRows)"
  shows "publicationRow s (snd (insert_ignore_publications (newPublication s hash now) d)) =
    Inr (newPublication s hash now)"
proof -
  have "publication_key (newPublication s hash now) \<notin> set (map publication_key (definition_publications d))"
    using assms(2) by (auto simp: publicationRow_def selectRow_Inl publicationIdentity_key newPublication_def
        publication_key_def)
  then have d': "definition_publications (snd (insert_ignore_publications (newPublication s hash now) d)) =
      definition_publications d @ [newPublication s hash now]"
    by (auto simp: sql_unfold)
  have "publicationKeys (snd (insert_ignore_publications (newPublication s hash now) d))"
    using assms(1) publication_keys.first_session [of d s hash now] by blast
  then show ?thesis
    by (rule publicationRow_unique) (simp add: d', simp add: publicationIdentity_def newPublication_def)
qed

lemma publicationRow_advances:
  assumes "publicationsAdvance d d'" "publicationKeys d'" "publicationRow s d = Inr r"
  obtains r' where "publicationRow s d' = Inr r'" "rowAdvances r r'"
proof -
  have r: "r \<in> set (definition_publications d)" "publicationIdentity (dsSourceID s) r"
    using assms(3) selectRow_Inr by (fastforce simp: publicationRow_def)+
  obtain old new where on: "definition_publications d' = old @ new" "list_all2 rowAdvances (definition_publications d) old"
    using assms(1) by (auto simp: publicationsAdvance_def)
  obtain r' where "r' \<in> set old" "rowAdvances r r'"
    using list_all2_set_left [OF on(2) r(1)] by blast
  moreover from this have "publicationRow s d' = Inr r'"
    using on(1) r(2) assms(2)
    by (intro publicationRow_unique) (auto simp: rowAdvances_def publicationIdentity_key)
  ultimately show thesis by (rule_tac that)
qed

lemma activeBefore_advances:
  assumes "publicationsAdvance d d'" "publicationKeys d" "publicationKeys d'"
  shows "activeBefore s d \<le> activeBefore s d'"
proof (cases "publicationRow s d")
  case (Inr r)
  obtain r' where "publicationRow s d' = Inr r'" "rowAdvances r r'"
    by (rule publicationRow_advances [OF assms(1,3) Inr])
  with Inr show ?thesis by (auto simp: activeBefore_def rowAdvances_def sessionAdvances_def)
next
  case (Inl e)
  then have none: "r \<in> set (definition_publications d) \<Longrightarrow> \<not> publicationIdentity (dsSourceID s) r" for r
    by (auto simp: publicationRow_def selectRow_Inl)
  obtain old new where on: "definition_publications d' = old @ new"
      "list_all2 rowAdvances (definition_publications d) old" "list_all (\<lambda>r. 1 \<le> pb_active_generation r) new"
    using assms(1) by (auto simp: publicationsAdvance_def)
  have "\<not> publicationIdentity (dsSourceID s) r'" if old: "r' \<in> set old" for r'
  proof -
    obtain r where "r \<in> set (definition_publications d)" "rowAdvances r r'"
      using list_all2_set_right [OF on(2) old] by blast
    then show ?thesis using none [of r] by (simp add: rowAdvances_def publicationIdentity_key)
  qed
  then have new: "1 \<le> pb_active_generation r'"
    if "r' \<in> set (definition_publications d')" "publicationIdentity (dsSourceID s) r'" for r'
    using on(1,3) that by (auto simp: list_all_iff)
  have "0 \<le> activeBefore s d'"
  proof (cases "publicationRow s d'")
    case (Inr r')
    then have "r' \<in> set (definition_publications d') \<and> publicationIdentity (dsSourceID s) r'"
      unfolding publicationRow_def by (rule selectRow_Inr)
    then have "1 \<le> pb_active_generation r'" using new by simp
    with Inr show ?thesis by (simp add: activeBefore_def)
  qed (simp add: activeBefore_def)
  with Inl show ?thesis by (simp add: activeBefore_def)
qed

text \<open>The outcome of one round that won, and of the loop.\<close>

lemma beginSessionOnce_Some:
  assumes keys: "publicationKeys (db w)" and once: "beginSessionOnce S s w = (Inr (Some p), w')"
  shows "sessionStarted s p (db w') \<and> activeBefore s (db w) < sessionGeneration p \<and>
    sessionGeneration p \<le> maxDefinitionPublisherGeneration"
proof -
  obtain raw t w1 found w2 where w1: "db w1 = db w" "activeGeneration S s w1 = (Inr found, w2)"
    and rest: "(case found of
       None \<Rightarrow>
         bindE (sqlCall (insert_ignore_publications (newPublication s (sha256Hex (base64RawURL raw)) (formatRFC3339Nano t)))) (\<lambda>_.
         bindE (ActiveDefinitionPublisherSession S s) (\<lambda>active.
         ret (case active of
                Some fence \<Rightarrow>
                  if fenceGeneration fence = 1 \<and> fenceSessionSHA256 fence = sha256Hex (base64RawURL raw)
                  then Some \<lparr>sessionGeneration = 1, sessionNonce = base64RawURL raw\<rparr> else None
              | None \<Rightarrow> None)))
     | Some generation \<Rightarrow>
         if generation \<ge> maxDefinitionPublisherGeneration
         then fail (Errorf ''Scheduler definition publisher generation exhausted'') else
         bindE (sqlCall (sql_activateSession s generation (sha256Hex (base64RawURL raw)) (formatRFC3339Nano t))) (\<lambda>affected.
         ret (if affected = 1 then Some \<lparr>sessionGeneration = generation + 1, sessionNonce = base64RawURL raw\<rparr>
              else None))) w2 = (Inr (Some p), w')"
    using once unfolding beginSessionOnce_def Let_def
    by (auto simp: attempt_def fail_def elim!: bindE_InrE timeNow_InrE split: prod.splits sum.splits
        dest!: envCall_db) (auto simp: randRead_def)
  show ?thesis
  proof (cases found)
    case None
    have active: "ActiveDefinitionPublisherSession S s w1 = (Inr None, w2)"
      by (rule activeGeneration_Inr [OF w1(2)]) (simp add: None)
    have none: "publicationRow s (db w) = Inl (Sentinel ErrNoRows)" "db w2 = db w"
      using activeSession_Inr(1,2) [OF active] w1(1) by simp_all
    obtain w3 fence w4 where w3: "db w3 = snd (insert_ignore_publications
          (newPublication s (sha256Hex (base64RawURL raw)) (formatRFC3339Nano t)) (db w))"
        "ActiveDefinitionPublisherSession S s w3 = (Inr (Some fence), w4)" "db w' = db w4"
        "fenceGeneration fence = 1" "fenceSessionSHA256 fence = sha256Hex (base64RawURL raw)"
        "p = \<lparr>sessionGeneration = 1, sessionNonce = base64RawURL raw\<rparr>"
      using rest None none(2)
      by (auto simp: ret_def elim!: bindE_InrE sqlCall_InrE split: option.splits if_splits)
    have "db w' = db w3" using w3(3) activeSession_Inr(1) [OF w3(2)] by simp
    then have "publicationRow s (db w') =
        Inr (newPublication s (sha256Hex (base64RawURL raw)) (formatRFC3339Nano t))"
      using insert_started [OF keys none(1)] w3(1) by simp
    with w3(6) none(1) show ?thesis
      by (simp add: sessionStarted_def activeBefore_def newPublication_def maxDefinitionPublisherGeneration_def)
  next
    case (Some g)
    have "db w2 = db w" using readonlyD [OF readonly_publication(2) w1(2)] w1(1) by simp
    then have act: "sql_activateSession s g (sha256Hex (base64RawURL raw)) (formatRFC3339Nano t) (db w) = (Inr 1, db w')"
        and p: "p = \<lparr>sessionGeneration = g + 1, sessionNonce = base64RawURL raw\<rparr>" "g < maxDefinitionPublisherGeneration"
      using rest Some by (auto simp: ret_def fail_def elim!: bindE_InrE sqlCall_InrE split: if_splits)
    show ?thesis
      using activate_started [OF keys act] p by (auto simp: sessionStarted_def)
  qed
qed

lemma beginSessionRounds_Inr:
  assumes "publicationKeys (db w)" "beginSessionRounds S s n w = (Inr p, w')"
  shows "sessionStarted s p (db w') \<and> activeBefore s (db w) < sessionGeneration p \<and>
    sessionGeneration p \<le> maxDefinitionPublisherGeneration"
  using assms
proof (induction n arbitrary: w)
  case (Suc n)
  from Suc.prems(2) obtain x w1 where x: "beginSessionOnce S s w = (Inr x, w1)"
    and rest: "(case x of Some p \<Rightarrow> ret p | None \<Rightarrow>
      bindE waitDefinitionPublicationRetry (\<lambda>_. beginSessionRounds S s n)) w1 = (Inr p, w')"
    by (auto elim: bindE_InrE)
  show ?case
  proof (cases x)
    case (Some q)
    with rest x beginSessionOnce_Some [OF Suc.prems(1)] show ?thesis by (auto simp: ret_def)
  next
    case None
    from rest None obtain u w2 where w2: "waitDefinitionPublicationRetry w1 = (Inr u, w2)"
        "beginSessionRounds S s n w2 = (Inr p, w')"
      by (auto elim: bindE_InrE)
    have d: "db w2 = db w1" using w2(1) readonlyD readonly_publication(4) by blast
    have k: "publicationKeys (db w1)"
      using movesD [OF publication_keys.moves_beginSessionOnce [where P = "\<lambda>_. True"] _ x] Suc.prems(1) by simp
    have "activeBefore s (db w) \<le> activeBefore s (db w1)"
      using movesD [OF advance.moves_beginSessionOnce [where P = "\<lambda>_. True"] _ x] Suc.prems(1) k
      by (simp add: activeBefore_advances)
    then show ?thesis using Suc.IH [of w2] k d w2(2) by auto
  qed
qed (simp add: fail_def)

lemma beginSessionRounds_positive:
  "beginSessionRounds S s n w = (Inr p, w') \<Longrightarrow> 0 < sessionGeneration p"
proof (induction n arbitrary: w)
  case (Suc n)
  have once: "0 < sessionGeneration q" if "beginSessionOnce S s w = (Inr (Some q), w1)" for q w1
  proof -
    have nonneg: "0 \<le> g" if "activeGeneration S s v = (Inr (Some g), v')" for g v v'
      using that
    proof (rule activeGeneration_Inr)
      fix q
      assume q: "ActiveDefinitionPublisherSession S s v = (Inr q, v')" "Some g = map_option fenceGeneration q"
      then obtain fence where "q = Some fence" "g = fenceGeneration fence" by (cases q) auto
      then show "0 \<le> g"
        using activeSession_Inr(3) [OF q(1), of fence] by (auto simp: scanActive_def split: if_splits)
    qed
    show ?thesis
      using that unfolding beginSessionOnce_def Let_def
      by (auto simp: attempt_def fail_def ret_def elim!: bindE_InrE dest!: nonneg
          split: prod.splits sum.splits option.splits if_splits)
  qed
  from Suc.prems obtain x w1 where x: "beginSessionOnce S s w = (Inr x, w1)"
    and rest: "(case x of Some p \<Rightarrow> ret p | None \<Rightarrow>
      bindE waitDefinitionPublicationRetry (\<lambda>_. beginSessionRounds S s n)) w1 = (Inr p, w')"
    by (auto elim: bindE_InrE)
  then show ?case using Suc.IH once by (cases x) (auto simp: ret_def elim!: bindE_InrE)
qed (simp add: fail_def)

section \<open>Rejected snapshots\<close>

text \<open>A publication that reports an error has changed nothing.\<close>

lemma syncRounds_Inl:
  assumes "syncRounds S s snapshot encoded snapshotHash n w = (Inl e, w')"
  shows "db w' = db w"
  using assms
proof (induction n arbitrary: w)
  case (Suc n)
  obtain q w1 where q: "syncDefinitionsOnce S s snapshot encoded snapshotHash w = (q, w1)" by fastforce
  show ?case
  proof (cases q)
    case (Inr u)
    with Suc.prems q show ?thesis by (simp add: attempt_def ret_def)
  next
    case (Inl e')
    then have d: "db w1 = db w" using q unfolding syncDefinitionsOnce_def by (auto dest: transaction_error)
    from Suc.prems q Inl have "(if \<not> errorsIs e' ErrDefinitionPublicationCAS then fail e' else
        bindE envCall (\<lambda>_. bindE waitDefinitionPublicationRetry (\<lambda>_.
          if n = 0 then fail e' else syncRounds S s snapshot encoded snapshotHash n))) w1 = (Inl e, w')"
      by (simp add: attempt_def)
    then show ?thesis
      using d Suc.IH
      by (auto simp: fail_def waitDefinitionPublicationRetry_def elim!: bindE_InlE dest!: envCall_db split: if_splits)
  qed
qed (simp add: ret_def)

lemma SyncDefinitions_split:
  assumes "SyncDefinitions S s snapshot w = (q, w')"
  obtains (rejected) "isl q" "db w' = db w"
  | (rounds) encoded snapshotHash where "encodeDefinitions S s (snapDefinitions snapshot) = Inr (encoded, snapshotHash)"
      "syncRounds S s snapshot encoded snapshotHash 64 w = (q, w')"
      "snapContentSHA256 snapshot = [] \<or> snapContentSHA256 snapshot = snapshotHash"
      "0 < snapRevision snapshot" "dsReady s"
      "(snapFence snapshot = None) = (dsMode s = DeploymentModeModule)"
proof -
  consider "fst (SyncDefinitions S s snapshot w) = q \<and> isl q \<and> w' = w"
    | encoded snapshotHash where "encodeDefinitions S s (snapDefinitions snapshot) = Inr (encoded, snapshotHash)"
      "syncRounds S s snapshot encoded snapshotHash 64 w = (q, w')"
      "snapContentSHA256 snapshot = [] \<or> snapContentSHA256 snapshot = snapshotHash"
      "0 < snapRevision snapshot" "dsReady s" "(snapFence snapshot = None) = (dsMode s = DeploymentModeModule)"
    using assms unfolding SyncDefinitions_def
    by (cases "encodeDefinitions S s (snapDefinitions snapshot)"; cases "dsMode s")
      (auto simp: fail_def bindE_def liftE_def not_le split: if_splits simp del: syncRounds.simps)
  then show thesis by cases (use that in auto)
qed

lemma acceptFenced_stale:
  assumes "acceptFencedSnapshot S s snapshot contentHash now w = (q, w')"
    and "snapFence snapshot = Some fence" "fenceGeneration fence < activeBefore s (db w)"
    and "\<And>a b. fenceEqual S a b \<Longrightarrow> a = b"
  shows "isl q"
proof -
  obtain p w1 where p: "sqlQuery (\<lambda>d. case publicationRow s d of Inl e \<Rightarrow> Inl e | Inr r \<Rightarrow>
          (case scanActive r of Inl e \<Rightarrow> Inl e | Inr fence \<Rightarrow> Inr (fence, r))) w = (p, w1)" by fastforce
  have "orderSnapshot S active current fence revision contentHash \<noteq> Inr disposition"
    if "p = Inr (active, r)" for active r current revision disposition
  proof
    assume "orderSnapshot S active current fence revision contentHash = Inr disposition"
    then have "fence = active" using orderSnapshot_active assms(4) by blast
    moreover have "publicationRow s (db w) = Inr r" "scanActive r = Inr active"
      using p that by (auto simp: go_unfold split: option.splits sum.splits)
    ultimately show False
      using assms(3) by (auto simp: activeBefore_def scanActive_def split: if_splits)
  qed
  then show ?thesis
    using assms(1,2) p
    by (cases p) (auto simp: acceptFencedSnapshot_def fail_def attempt_def bindE_def liftE_def
        split: option.splits if_splits sum.splits, metis sum.disc(1))
qed

lemma transaction_body_fails:
  assumes "transaction body w = (q, w')" "\<And>w1 x w2. db w1 = db w \<Longrightarrow> body w1 \<noteq> (Inr x, w2)"
  shows "isl q"
proof (cases q)
  case (Inr x)
  with assms(1) have "transaction body w = (Inr x, w')" by simp
  then show ?thesis by (cases rule: transaction_InrE) (use assms(2) in auto)
qed simp

lemma syncOnce_stale:
  assumes "syncDefinitionsOnce S s snapshot encoded snapshotHash w = (q, w')"
    and "snapFence snapshot = Some fence" "fenceGeneration fence < activeBefore s (db w)"
    and "\<And>a b. fenceEqual S a b \<Longrightarrow> a = b"
  shows "isl q \<and> db w' = db w"
proof -
  have "isl q"
    using assms(1) unfolding syncDefinitionsOnce_def
  proof (rule transaction_body_fails)
    fix w1 w2 :: "database world" and x :: "unit txout"
    assume d: "db w1 = db w"
    show "bindE timeNow (\<lambda>t. let now = formatRFC3339Nano t in
       if snapFence snapshot \<noteq> None then
         bindE (acceptFencedSnapshot S s snapshot snapshotHash now) (\<lambda>disposition.
         if disposition = DefinitionSnapshotReplay then ret (Commit ())
         else writeSnapshot S s snapshot encoded snapshotHash now)
       else writeSnapshot S s snapshot encoded snapshotHash now) w1 \<noteq> (Inr x, w2)"
      using assms(2,3) d acceptFenced_stale [OF _ assms(2) _ assms(4)]
      by (auto simp: bindE_timeNow Let_def elim!: bindE_InrE) (metis isl_def sum.distinct(1) world.select_convs(1)
          world.surjective world.update_convs(3))
  qed
  then show ?thesis
    using assms(1) unfolding syncDefinitionsOnce_def by (cases q) (auto dest: transaction_error)
qed

lemma syncRounds_stale:
  assumes "syncRounds S s snapshot encoded snapshotHash n w = (q, w')" "0 < n"
    and "snapFence snapshot = Some fence" "fenceGeneration fence < activeBefore s (db w)"
    and "\<And>a b. fenceEqual S a b \<Longrightarrow> a = b"
  shows "isl q \<and> db w' = db w"
  using assms(1,2,4)
proof (induction n arbitrary: w)
  case (Suc n)
  obtain p w1 where p: "syncDefinitionsOnce S s snapshot encoded snapshotHash w = (p, w1)" by fastforce
  then obtain e where e: "p = Inl e" "db w1 = db w"
    using syncOnce_stale [OF p assms(3) Suc.prems(3) assms(5)] by (auto simp: isl_def)
  have "isl q"
  proof (cases "errorsIs e ErrDefinitionPublicationCAS")
    case False
    with Suc.prems(1) p e show ?thesis by (auto simp: attempt_def fail_def)
  next
    case True
    show ?thesis
    proof (rule ccontr)
      assume "\<not> isl q"
      then obtain u where "q = Inr u" by (cases q) auto
      with Suc.prems(1) p e True have "bindE envCall (\<lambda>_. bindE waitDefinitionPublicationRetry (\<lambda>_.
          if n = 0 then fail e else syncRounds S s snapshot encoded snapshotHash n)) w1 = (Inr u, w')"
        by (simp add: attempt_def)
      then obtain w2 where w2: "db w2 = db w1"
          "(if n = 0 then fail e else syncRounds S s snapshot encoded snapshotHash n) w2 = (Inr u, w')"
        by (auto simp: waitDefinitionPublicationRetry_def elim!: bindE_InrE dest!: envCall_db)
      with Suc.IH [of w2] Suc.prems(3) e(2) \<open>q = Inr u\<close> show False
        by (auto simp: fail_def split: if_splits)
    qed
  qed
  then obtain a where "q = Inl a" by (cases q) auto
  then have "syncRounds S s snapshot encoded snapshotHash (Suc n) w = (Inl a, w')" using Suc.prems(1) by simp
  then have "db w' = db w" by (rule syncRounds_Inl)
  with \<open>isl q\<close> show ?case by blast
qed simp

section \<open>Properties\<close>

text \<open>
  C8. However the publishers of any Runtimes interleave, and whichever calls fail, no publication row
  is lost, its generation never decreases, its session changes only with its generation, and its
  cursor moves only forward in the order of (generation, revision): a position that was published is
  never published again with another content or another session.
\<close>

theorem publication_never_regresses:
  assumes "publish_reach S d d'" "publicationKeys d" "publicationRow s d = Inr r"
  shows "publicationKeys d' \<and> (\<exists>r'. publicationRow s d' = Inr r' \<and>
    pb_active_generation r \<le> pb_active_generation r' \<and>
    (pb_active_generation r' = pb_active_generation r \<longrightarrow>
       pb_active_session_sha256 r' = pb_active_session_sha256 r) \<and>
    (\<forall>g v. pb_cursor_generation r = Some g \<longrightarrow> pb_cursor_revision r = Some v \<longrightarrow>
       (\<exists>g' v'. pb_cursor_generation r' = Some g' \<and> pb_cursor_revision r' = Some v' \<and>
          (g < g' \<or> g = g' \<and> v < v' \<or>
           g = g' \<and> v = v' \<and> pb_cursor_session_sha256 r' = pb_cursor_session_sha256 r \<and>
             pb_cursor_content_sha256 r' = pb_cursor_content_sha256 r))))"
proof -
  have keys: "publicationKeys d'" using publication_keys.reach_moves [OF assms(1)] assms(2) by blast
  obtain r' where r': "publicationRow s d' = Inr r'" "rowAdvances r r'"
    by (rule publicationRow_advances [OF advance.reach_moves [OF assms(1)] keys assms(3)])
  have "cursorAdvances r r'" "sessionAdvances r r'" using r'(2) by (simp_all add: rowAdvances_def)
  then show ?thesis
    using keys r'(1)
    by (auto simp: cursorAdvances_def sessionAdvances_def cursorPosition_def positionLess_def split: option.splits)
qed

text \<open>A session that has begun is the active one, and its generation is above the one before.\<close>

lemma session_begun:
  assumes "publicationKeys (db w)" "BeginDefinitionPublisherSession S s w = (Inr p, w1)"
  shows "publicationKeys (db w1)" "activeBefore s (db w1) = sessionGeneration p" "activeBefore s (db w) < sessionGeneration p"
    "0 < sessionGeneration p" "sessionGeneration p \<le> 2 ^ 53 - 1" "sessionStarted s p (db w1)"
proof -
  have b: "beginSessionRounds S s 64 w = (Inr p, w1)"
    using assms(2)
    by (auto simp: BeginDefinitionPublisherSession_def fail_def simp del: beginSessionRounds.simps split: if_splits)
  note started = beginSessionRounds_Inr [OF assms(1) b]
  show "publicationKeys (db w1)"
    using movesD [OF publication_keys.moves_beginSessionRounds [where P = "\<lambda>_. True"] _ b] assms(1) by simp
  show "activeBefore s (db w1) = sessionGeneration p"
    using started by (auto simp: sessionStarted_def activeBefore_def split: sum.splits)
  show "activeBefore s (db w) < sessionGeneration p" "sessionStarted s p (db w1)" "sessionGeneration p \<le> 2 ^ 53 - 1"
    using started by (simp_all add: maxDefinitionPublisherGeneration_def)
  show "0 < sessionGeneration p" using beginSessionRounds_positive [OF b] .
qed

lemma active_kept:
  assumes "publish_reach S d d'" "publicationKeys d"
  shows "publicationKeys d'" "activeBefore s d \<le> activeBefore s d'"
proof -
  show "publicationKeys d'" using publication_keys.reach_moves [OF assms(1)] assms(2) by blast
  then show "activeBefore s d \<le> activeBefore s d'"
    by (rule activeBefore_advances [OF advance.reach_moves [OF assms(1)] assms(2)])
qed

lemma stale_sync_refused:
  assumes "snapFence snapshot = Some fence" "fenceGeneration fence < activeBefore s (db w)"
    and "\<And>a b. fenceEqual S a b \<Longrightarrow> a = b" "SyncDefinitions S s snapshot w = (q, w')"
  shows "isl q" "db w' = db w"
proof -
  from assms(4) have "isl q \<and> db w' = db w"
  proof (cases rule: SyncDefinitions_split)
    case (rounds encoded snapshotHash)
    then show ?thesis using syncRounds_stale [OF rounds(2) _ assms(1,2,3)] by simp
  qed simp
  then show "isl q" "db w' = db w" by simp_all
qed

text \<open>
  Sessions are totally ordered: a publisher that begins a session gets a generation above every
  generation given out before for its Runtime, within the exact-integer range of JSON numbers, and
  the active session is then its own.
\<close>

theorem sessions_increase:
  assumes keys: "publicationKeys (db w)"
    and first: "BeginDefinitionPublisherSession S s w = (Inr p, w1)"
    and between: "publish_reach S (db w1) (db w2)"
    and second: "BeginDefinitionPublisherSession S s w2 = (Inr p', w3)"
  shows "sessionGeneration p < sessionGeneration p' \<and> 0 < sessionGeneration p' \<and>
    sessionGeneration p' \<le> 2 ^ 53 - 1 \<and> sessionStarted s p' (db w3)"
proof -
  note p = session_begun [OF keys first]
  note k = active_kept [OF between p(1)]
  note p' = session_begun [OF k(1) second]
  have "sessionGeneration p < sessionGeneration p'" using p(2) k(2) [of s] p'(3) by linarith
  with p'(4-6) show ?thesis by blast
qed

text \<open>
  C9. A superseded publisher is fenced off: once a session has begun, a snapshot that carries the
  fence of an older generation is refused, and nothing is written, however much later it arrives,
  whichever calls fail, and however often the store retries.
\<close>

theorem superseded_publisher_fenced:
  assumes keys: "publicationKeys (db w)"
    and later: "BeginDefinitionPublisherSession S s w = (Inr p, w1)"
    and between: "publish_reach S (db w1) (db w2)"
    and old: "snapFence snapshot = Some fence" "fenceGeneration fence < sessionGeneration p"
    and equal: "\<And>a b. fenceEqual S a b \<Longrightarrow> a = b"
  shows "isl (fst (SyncDefinitions S s snapshot w2)) \<and> db (snd (SyncDefinitions S s snapshot w2)) = db w2"
proof -
  note p = session_begun [OF keys later]
  have "fenceGeneration fence < activeBefore s (db w2)"
    using p(2) active_kept(2) [OF between p(1), of s] old(2) by linarith
  from stale_sync_refused [OF old(1) this equal prod.collapse [symmetric]] show ?thesis by blast
qed

text \<open>A publication that reports an error has left the database as it was.\<close>

theorem publication_atomic:
  assumes "SyncDefinitions S s snapshot w = (Inl e, w')"
  shows "db w' = db w"
  using assms by (cases rule: SyncDefinitions_split) (auto dest: syncRounds_Inl)

section \<open>Witnesses\<close>

definition exPublisher :: DefinitionStore where
  "exPublisher = \<lparr>dsReady = True, dsSourceID = ''rt'', dsMode = DeploymentModeSaaS\<rparr>"

definition exNonce :: string where
  "exNonce = base64RawURL (replicate 32 CHR ''x'')"

definition exSessionRow :: "int \<Rightarrow> publication_row" where
  "exSessionRow g = \<lparr>pb_source_kind = runtimeDefinitionSourceKind, pb_source_id = ''rt'', pb_active_generation = g,
     pb_active_session_sha256 = sha256Hex exNonce, pb_cursor_generation = None, pb_cursor_session_sha256 = None,
     pb_cursor_revision = None, pb_cursor_content_sha256 = None, pb_updated_at = formatRFC3339Nano exNoon\<rparr>"

definition exSession :: "int \<Rightarrow> database" where
  "exSession g = emptyDatabase\<lparr>definition_publications := [exSessionRow g]\<rparr>"

lemma exWorld_simps [simp]:
  "db (exWorld d t) = d" "fault (exWorld d t) n = None" "clock (exWorld d t) n = t"
  "entropy (exWorld d t) n = replicate 32 CHR ''x''" "reads (exWorld d t) = 0" "calls (exWorld d t) = 0"
  "draws (exWorld d t) = 0"
  by (simp_all add: exWorld_def)

lemma exSession_row: "publicationRow exPublisher (exSession g) = Inr (exSessionRow g)"
  by (simp add: publicationRow_def selectRow_def exSession_def exSessionRow_def publicationIdentity_def exPublisher_def)

lemma exSession_keys: "publicationKeys emptyDatabase" "publicationKeys (exSession g)"
  by (simp_all add: publicationKeys_def emptyDatabase_def exSession_def)

lemma Begin_first_round:
  assumes "beginSessionOnce S s w = (Inr (Some p), w1)" "dsMode s = DeploymentModeSaaS"
  shows "BeginDefinitionPublisherSession S s w = (Inr p, w1)"
proof -
  have "beginSessionRounds S s (Suc n) w = (Inr p, w1)" for n
    using assms(1) by (simp add: bindE_def ret_def)
  from this [of 63] show ?thesis using assms(2) by (simp add: BeginDefinitionPublisherSession_def)
qed

lemma syncRounds_first_round:
  assumes "syncDefinitionsOnce S s snapshot encoded snapshotHash w = (q, w1)"
    and "\<And>e. q = Inl e \<Longrightarrow> \<not> errorsIs e ErrDefinitionPublicationCAS"
  shows "syncRounds S s snapshot encoded snapshotHash 64 w = (q, w1)"
proof -
  have "syncRounds S s snapshot encoded snapshotHash (Suc n) w = (q, w1)" for n
    using assms by (cases q) (simp_all add: attempt_def ret_def fail_def)
  from this [of 63] show ?thesis by simp
qed

lemma exBegin_first:
  "\<exists>w1. BeginDefinitionPublisherSession exSdk exPublisher (exWorld emptyDatabase exNoon) =
      (Inr \<lparr>sessionGeneration = 1, sessionNonce = exNonce\<rparr>, w1) \<and> db w1 = exSession 1"
proof -
  have "\<exists>w1. beginSessionOnce exSdk exPublisher (exWorld emptyDatabase exNoon) =
      (Inr (Some \<lparr>sessionGeneration = 1, sessionNonce = exNonce\<rparr>), w1) \<and> db w1 = exSession 1"
    by (simp add: exPublisher_def beginSessionOnce_def Let_def
      activeGeneration_def ActiveDefinitionPublisherSession_def publicationRow_def selectRow_def go_unfold
      sql_unfold emptyDatabase_def newPublication_def publicationIdentity_def scanActive_def exNonce_def
      exSession_def exSessionRow_def)
  then show ?thesis using Begin_first_round [of exSdk exPublisher] by (auto simp: exPublisher_def)
qed

lemma exBegin_second:
  "\<exists>w1. BeginDefinitionPublisherSession exSdk exPublisher (exWorld (exSession 1) exNoon) =
      (Inr \<lparr>sessionGeneration = 2, sessionNonce = exNonce\<rparr>, w1) \<and> db w1 = exSession 2"
proof -
  have "\<exists>w1. beginSessionOnce exSdk exPublisher (exWorld (exSession 1) exNoon) =
      (Inr (Some \<lparr>sessionGeneration = 2, sessionNonce = exNonce\<rparr>), w1) \<and> db w1 = exSession 2"
    by (simp add: exPublisher_def beginSessionOnce_def Let_def
      activeGeneration_def ActiveDefinitionPublisherSession_def publicationRow_def selectRow_def go_unfold
      sql_unfold publicationIdentity_def scanActive_def exNonce_def maxDefinitionPublisherGeneration_def
      sql_activateSession_def exSession_def exSessionRow_def emptyDatabase_def)
  then show ?thesis using Begin_first_round [of exSdk exPublisher] by (auto simp: exPublisher_def)
qed

theorem sessions_increase_witness:
  "\<exists>p w1 p' w3. BeginDefinitionPublisherSession exSdk exPublisher (exWorld emptyDatabase exNoon) = (Inr p, w1) \<and>
    BeginDefinitionPublisherSession exSdk exPublisher (exWorld (db w1) exNoon) = (Inr p', w3) \<and>
    sessionGeneration p < sessionGeneration p' \<and> sessionStarted exPublisher p' (db w3)"
proof -
  obtain w1 where w1: "BeginDefinitionPublisherSession exSdk exPublisher (exWorld emptyDatabase exNoon) =
      (Inr \<lparr>sessionGeneration = 1, sessionNonce = exNonce\<rparr>, w1)" "db w1 = exSession 1"
    using exBegin_first by blast
  obtain w3 where w3: "BeginDefinitionPublisherSession exSdk exPublisher (exWorld (exSession 1) exNoon) =
      (Inr \<lparr>sessionGeneration = 2, sessionNonce = exNonce\<rparr>, w3)"
    using exBegin_second by blast
  have "publish_reach exSdk (db w1) (db (exWorld (exSession 1) exNoon))" using w1(2) by simp
  from sessions_increase [OF _ w1(1) this w3] w1 w3 show ?thesis by (auto simp: exSession_keys)
qed

definition exPublication :: DefinitionSnapshot where
  "exPublication = \<lparr>snapRevision = 1, snapSchemaVersion = ''1'', snapSchemaHash = [],
     snapSourceKind = runtimeDefinitionSourceKind, snapSourceID = ''rt'', snapDefinitions = [],
     snapFence = Some \<lparr>fenceGeneration = 1, fenceSessionSHA256 = sha256Hex exNonce\<rparr>, snapContentSHA256 = []\<rparr>"

theorem superseded_publisher_fenced_witness:
  "isl (fst (SyncDefinitions exSdk exPublisher exPublication (exWorld (exSession 2) exNoon))) \<and>
   db (snd (SyncDefinitions exSdk exPublisher exPublication (exWorld (exSession 2) exNoon))) = exSession 2"
proof -
  obtain w1 where w1: "BeginDefinitionPublisherSession exSdk exPublisher (exWorld (exSession 1) exNoon) =
      (Inr \<lparr>sessionGeneration = 2, sessionNonce = exNonce\<rparr>, w1)" "db w1 = exSession 2"
    using exBegin_second by blast
  have "publish_reach exSdk (db w1) (db (exWorld (exSession 2) exNoon))" using w1(2) by simp
  from superseded_publisher_fenced [OF _ w1(1) this, of exPublication
      "\<lparr>fenceGeneration = 1, fenceSessionSHA256 = sha256Hex exNonce\<rparr>"]
  show ?thesis by (simp add: exSession_keys exPublication_def exSdk_def)
qed

theorem publication_never_regresses_witness:
  "\<exists>r'. publicationRow exPublisher (exSession 2) = Inr r' \<and> 1 \<le> pb_active_generation r'"
proof -
  have "sqlCall (sql_activateSession exPublisher 1 (sha256Hex exNonce) (formatRFC3339Nano exNoon))
      (exWorld (exSession 1) exNoon) = (Inr 1, (exWorld (exSession 1) exNoon)\<lparr>calls := 1, db := exSession 2\<rparr>)"
    by (simp add: sqlCall_healthy sql_activateSession_def sql_unfold exSession_def exSessionRow_def exPublisher_def
        publicationIdentity_def)
  from publish_step.begin_next [OF _ this, where S = exSdk]
  have "publish_reach exSdk (exSession 1) (exSession 2)"
    by (simp add: maxDefinitionPublisherGeneration_def r_into_rtranclp)
  from publication_never_regresses [OF this exSession_keys(2) exSession_row] show ?thesis
    by (auto simp: exSessionRow_def)
qed

lemma exPublication_trimmed:
  "trimSpace ''runtime_host'' = ''runtime_host''" "trimSpace ''rt'' = ''rt''" "trimSpace ''1'' = ''1''"
  by code_simp+

theorem publication_atomic_witness:
  "db (snd (SyncDefinitions exSdk exPublisher exPublication (exWorld emptyDatabase exNoon))) = emptyDatabase"
proof -
  have "\<exists>e w'. syncDefinitionsOnce exSdk exPublisher exPublication [] h (exWorld emptyDatabase exNoon) = (Inl e, w') \<and>
      \<not> errorsIs e ErrDefinitionPublicationCAS" for h
    by (simp add: exPublication_def syncDefinitionsOnce_def acceptFencedSnapshot_def publicationRow_def selectRow_def
        go_unfold emptyDatabase_def Let_def)
  then have "\<exists>e w'. syncRounds exSdk exPublisher exPublication [] h 64 (exWorld emptyDatabase exNoon) = (Inl e, w')" for h
    using syncRounds_first_round by (metis sum.inject(1))
  then have "\<exists>e w'. SyncDefinitions exSdk exPublisher exPublication (exWorld emptyDatabase exNoon) = (Inl e, w')"
    by (simp add: SyncDefinitions_def exPublisher_def exPublication_def encodeDefinitions_def exSdk_def
        isBlank_def runtimeDefinitionSourceKind_def exPublication_trimmed Let_def bindE_def liftE_def
        del: syncRounds.simps)
  then obtain e w' where "SyncDefinitions exSdk exPublisher exPublication (exWorld emptyDatabase exNoon) = (Inl e, w')"
    by blast
  from publication_atomic [OF this] this show ?thesis by simp
qed

end
