(* ===== verification/Publication_Readback.thy ===== *)
theory Publication_Readback
  imports Publication_Properties
begin

text \<open>
  What a publication writes, and that \<^verbatim>\<open>DefinitionSnapshot\<close> reads it back: the enabled rows of the
  Runtime are the encoded definitions, the stored identity is the snapshot's, and the reader's
  consistency checks pass.

  The storage key of a definition is a digest, so two keys of one snapshot are assumed to have
  different digests.
\<close>

section \<open>Writing the definitions\<close>

definition definitionKeys :: "database \<Rightarrow> bool" where
  "definitionKeys d \<longleftrightarrow> distinct (map df_resource_key (definitions d)) \<and>
     distinct (map snapshot_key (definition_snapshots d))"

definition enabledOwned :: "DefinitionStore \<Rightarrow> definition_row \<Rightarrow> bool" where
  "enabledOwned s r \<longleftrightarrow> definitionOwned s r \<and> df_disabled_at r = None"

text \<open>Storage key and payload of the enabled rows.\<close>

definition enabledPayloads :: "DefinitionStore \<Rightarrow> database \<Rightarrow> (string \<times> string) set" where
  "enabledPayloads s d = (\<lambda>r. (df_resource_key r, df_payload_json r)) ` {r \<in> set (definitions d). enabledOwned s r}"

definition encodedPayload :: "encodedDefinition \<Rightarrow> string \<times> string" where
  "encodedPayload v = (encStorageKey v, encRaw v)"

lemma disable_payloads:
  "enabledPayloads s (snd (sql_disableDefinitions s now d)) = {}"
  by (auto simp: enabledPayloads_def sql_disableDefinitions_def sql_unfold updateWhere_def enabledOwned_def
      definitionOwned_def)

lemma updateDefinition_payloads:
  assumes "0 < matched (\<lambda>r. definitionOwned s r \<and> df_resource_key r = encStorageKey v) (definitions d)"
    and "encStorageKey v \<notin> fst ` enabledPayloads s d"
  shows "enabledPayloads s (snd (sql_updateDefinition s snapshot now v d)) =
    insert (encodedPayload v) (enabledPayloads s d)"
proof -
  obtain r where r: "r \<in> set (definitions d)" "definitionOwned s r" "df_resource_key r = encStorageKey v"
    using assms(1) unfolding matched_pos by blast
  have fresh: "\<not> enabledOwned s q" if "q \<in> set (definitions d)" "df_resource_key q = encStorageKey v" for q
    using assms(2) that by (force simp: enabledPayloads_def)
  show ?thesis
  proof (rule set_eqI)
    fix x
    show "x \<in> enabledPayloads s (snd (sql_updateDefinition s snapshot now v d)) \<longleftrightarrow>
        x \<in> insert (encodedPayload v) (enabledPayloads s d)"
      using r fresh
      by (auto simp: enabledPayloads_def sql_updateDefinition_def sql_unfold updateWhere_def enabledOwned_def
          definitionOwned_def encodedPayload_def image_iff) (force simp: definitionOwned_def)+
  qed
qed

lemma insertDefinition_payloads:
  assumes "insert_definitions S (definitionRow s snapshot now v) d = (Inr n, d')"
  shows "enabledPayloads s d' = insert (encodedPayload v) (enabledPayloads s d)"
proof -
  have "definitions d' = definitions d @ [definitionRow s snapshot now v]"
    using assms by (auto simp: sql_unfold split: if_splits)
  moreover have "enabledOwned s (definitionRow s snapshot now v)"
    by (simp add: enabledOwned_def definitionOwned_def definitionRow_def)
  moreover have "(df_resource_key (definitionRow s snapshot now v), df_payload_json (definitionRow s snapshot now v)) =
      encodedPayload v"
    by (simp add: encodedPayload_def definitionRow_def)
  ultimately have "{r \<in> set (definitions d'). enabledOwned s r} =
      insert (definitionRow s snapshot now v) {r \<in> set (definitions d). enabledOwned s r}" by auto
  then show ?thesis
    unfolding enabledPayloads_def by (simp only: image_insert \<open>(_, _) = encodedPayload v\<close>)
qed

lemma writeDefinition_Inr:
  assumes "writeDefinition S s snapshot now v u w = (Inr u', w')" "definitionKeys (db w)"
    and "encStorageKey v \<notin> fst ` enabledPayloads s (db w)"
  shows "enabledPayloads s (db w') = insert (encodedPayload v) (enabledPayloads s (db w)) \<and>
    definitionKeys (db w') \<and> definition_snapshots (db w') = definition_snapshots (db w) \<and>
    definition_publications (db w') = definition_publications (db w)"
proof -
  obtain affected w1 where w1: "sqlCall (sql_updateDefinition s snapshot now v) w = (Inr affected, w1)"
    and rest: "(if affected > 0 then ret () else
      bindE (sqlCall (insert_definitions S (definitionRow s snapshot now v))) (\<lambda>_. ret ())) w1 = (Inr u', w')"
    using assms(1) unfolding writeDefinition_def by (rule bindE_InrE)
  have d1: "db w1 = snd (sql_updateDefinition s snapshot now v (db w))"
      "affected = matched (\<lambda>r. definitionOwned s r \<and> df_resource_key r = encStorageKey v) (definitions (db w))"
    using w1 by (auto simp: sql_updateDefinition_def sql_unfold elim!: sqlCall_InrE)
  have keys: "definitionKeys (db w1)" "definition_snapshots (db w1) = definition_snapshots (db w)"
      "definition_publications (db w1) = definition_publications (db w)"
    using assms(2) d1(1)
    by (auto simp: definitionKeys_def sql_updateDefinition_def sql_unfold map_updateWhere)
  show ?thesis
  proof (cases "affected > 0")
    case True
    then have "w' = w1" using rest by (simp add: ret_def)
    then show ?thesis
      using updateDefinition_payloads [OF _ assms(3)] True d1 keys by auto
  next
    case False
    then have none: "\<forall>r \<in> set (definitions (db w)). \<not> (definitionOwned s r \<and> df_resource_key r = encStorageKey v)"
      using d1(2) matched_pos [of "\<lambda>r. definitionOwned s r \<and> df_resource_key r = encStorageKey v" "definitions (db w)"]
      by simp
    then have same: "definitions (db w1) = definitions (db w)"
      using d1(1) by (simp add: sql_updateDefinition_def sql_unfold updateWhere_none)
    obtain n where n: "insert_definitions S (definitionRow s snapshot now v) (db w1) = (Inr n, db w')"
      using rest False by (auto simp: ret_def elim!: bindE_InrE sqlCall_InrE)
    have "enabledPayloads s (db w1) = enabledPayloads s (db w)" using same by (simp add: enabledPayloads_def)
    moreover have "db w' = (db w1)\<lparr>definitions := definitions (db w1) @ [definitionRow s snapshot now v]\<rparr>"
        "df_resource_key (definitionRow s snapshot now v) \<notin> df_resource_key ` set (definitions (db w1))"
      using n by (simp_all add: sql_unfold split: if_splits)
    ultimately show ?thesis
      using insertDefinition_payloads [OF n] keys by (simp add: definitionKeys_def)
  qed
qed

lemma writeDefinitions_Inr:
  assumes "foldE (writeDefinition S s snapshot now) vs u w = (Inr u', w')" "definitionKeys (db w)"
    and "distinct (map encStorageKey vs)" "encStorageKey ` set vs \<inter> fst ` enabledPayloads s (db w) = {}"
  shows "enabledPayloads s (db w') = encodedPayload ` set vs \<union> enabledPayloads s (db w) \<and>
    definitionKeys (db w') \<and> definition_snapshots (db w') = definition_snapshots (db w) \<and>
    definition_publications (db w') = definition_publications (db w)"
  using assms
proof (induction vs arbitrary: u w)
  case (Cons v vs)
  from Cons.prems(1) obtain u1 w1 where w1: "writeDefinition S s snapshot now v u w = (Inr u1, w1)"
      "foldE (writeDefinition S s snapshot now) vs u1 w1 = (Inr u', w')"
    by (auto elim: bindE_InrE)
  note once = writeDefinition_Inr [OF w1(1) Cons.prems(2)]
  have "encStorageKey v \<notin> fst ` enabledPayloads s (db w)" using Cons.prems(4) by auto
  with once Cons.prems(3,4) have "encStorageKey ` set vs \<inter> fst ` enabledPayloads s (db w1) = {}"
    by (auto simp: encodedPayload_def)
  with Cons.IH [OF w1(2)] once Cons.prems(3,4) \<open>encStorageKey v \<notin> _\<close> show ?case by auto
qed (simp add: ret_def)

lemma writeSnapshotState_Inr:
  assumes "writeSnapshotState S s snapshot hash now w = (Inr u, w')" "definitionKeys (db w)"
  shows "\<exists>r. selectRow (snapshotIdentity s) (definition_snapshots (db w')) = Inr r \<and>
      sn_revision r = snapRevision snapshot \<and> sn_schema_version r = trimSpace (snapSchemaVersion snapshot) \<and>
      sn_schema_hash r = hash"
    and "definitionKeys (db w')" and "definitions (db w') = definitions (db w)"
    and "definition_publications (db w') = definition_publications (db w)"
proof -
  let ?f = "\<lambda>r. r\<lparr>sn_revision := snapRevision snapshot, sn_schema_version := trimSpace (snapSchemaVersion snapshot),
              sn_schema_hash := hash, sn_updated_at := now\<rparr>"
  let ?new = "\<lparr>sn_source_kind = runtimeDefinitionSourceKind, sn_source_id = dsSourceID s,
        sn_revision = snapRevision snapshot, sn_schema_version = trimSpace (snapSchemaVersion snapshot),
        sn_schema_hash = hash, sn_updated_at = now\<rparr>"
  have key: "snapshotIdentity s r \<Longrightarrow> snapshot_key r = (runtimeDefinitionSourceKind, dsSourceID s)" for r
    by (simp add: snapshotIdentity_def snapshot_key_def)
  have upd: "map snapshot_key (updateWhere (snapshotIdentity s) ?f rs) = map snapshot_key rs" for rs
    by (rule map_updateWhere) (simp add: snapshot_key_def)
  have fields: "definitions (db w') = definitions (db w) \<and>
      definition_publications (db w') = definition_publications (db w) \<and>
      (matched (snapshotIdentity s) (definition_snapshots (db w)) = 1 \<and>
         definition_snapshots (db w') = updateWhere (snapshotIdentity s) ?f (definition_snapshots (db w)) \<or>
       snapshot_key ?new \<notin> snapshot_key ` set (updateWhere (snapshotIdentity s) ?f (definition_snapshots (db w))) \<and>
         definition_snapshots (db w') = updateWhere (snapshotIdentity s) ?f (definition_snapshots (db w)) @ [?new])"
    using assms(1) unfolding writeSnapshotState_def
    by (auto simp: ret_def sql_unfold elim!: bindE_InrE sqlCall_resultE split: if_splits)
  then show "definitions (db w') = definitions (db w)" "definition_publications (db w') = definition_publications (db w)"
    by blast+
  show keys: "definitionKeys (db w')"
    using fields assms(2) upd [of "definition_snapshots (db w)"]
    by (auto simp: definitionKeys_def simp flip: set_map)
  have "\<exists>r \<in> set (definition_snapshots (db w')). snapshotIdentity s r \<and> sn_revision r = snapRevision snapshot \<and>
      sn_schema_version r = trimSpace (snapSchemaVersion snapshot) \<and> sn_schema_hash r = hash"
  proof -
    consider "matched (snapshotIdentity s) (definition_snapshots (db w)) = 1 \<and>
         definition_snapshots (db w') = updateWhere (snapshotIdentity s) ?f (definition_snapshots (db w))"
      | "?new \<in> set (definition_snapshots (db w'))" using fields by auto
    then show ?thesis
    proof cases
      case 1
      then obtain r where "r \<in> set (definition_snapshots (db w))" "snapshotIdentity s r"
        using matched_pos [of "snapshotIdentity s" "definition_snapshots (db w)"] by auto
      then have "?f r \<in> set (definition_snapshots (db w'))" using 1 by (auto simp: updateWhere_def)
      then show ?thesis using \<open>snapshotIdentity s r\<close> by (intro bexI [of _ "?f r"]) (auto simp: snapshotIdentity_def)
    next
      case 2
      then show ?thesis by (intro bexI [of _ ?new]) (auto simp: snapshotIdentity_def)
    qed
  qed
  then obtain r where r: "r \<in> set (definition_snapshots (db w'))" "snapshotIdentity s r"
      "sn_revision r = snapRevision snapshot" "sn_schema_version r = trimSpace (snapSchemaVersion snapshot)"
      "sn_schema_hash r = hash" by blast
  have "selectRow (snapshotIdentity s) (definition_snapshots (db w')) = Inr r"
    using keys r key unfolding definitionKeys_def
    by (intro selectRow_unique [where k = snapshot_key]) auto
  with r show "\<exists>r. selectRow (snapshotIdentity s) (definition_snapshots (db w')) = Inr r \<and>
      sn_revision r = snapRevision snapshot \<and> sn_schema_version r = trimSpace (snapSchemaVersion snapshot) \<and>
      sn_schema_hash r = hash" by blast
qed

section \<open>Encoding\<close>

definition wellEncoded :: "Sdk \<Rightarrow> DefinitionStore \<Rightarrow> encodedDefinition \<Rightarrow> bool" where
  "wellEncoded S s v \<longleftrightarrow> (\<exists>d. encDefinition v = normalizeDefinition S d) \<and>
     validateDefinition S (encDefinition v) = None \<and> marshalDefinition S (encDefinition v) = Inr (encRaw v) \<and>
     encHash v = sha256Hex (encRaw v) \<and>
     encStorageKey v = definitionStorageKey (dsSourceID s) (trimSpace (defKey (encDefinition v)))"

abbreviation encKey :: "encodedDefinition \<Rightarrow> string" where
  "encKey v \<equiv> trimSpace (defKey (encDefinition v))"

lemma encodeEach_Inr:
  "encodeEach S s seen ds = Inr vs \<Longrightarrow>
   list_all (wellEncoded S s) vs \<and> distinct (map encKey vs) \<and> encKey ` set vs \<inter> set seen = {} \<and>
   map encDefinition vs = map (normalizeDefinition S) ds"
proof (induction S s seen ds arbitrary: vs rule: encodeEach.induct)
  case (2 S s seen d ds)
  let ?d = "normalizeDefinition S d"
  from 2(2) obtain raw us where r: "validateDefinition S ?d = None" "trimSpace (defKey ?d) \<notin> set seen"
      "marshalDefinition S ?d = Inr raw" "encodeEach S s (trimSpace (defKey ?d) # seen) ds = Inr us"
      "vs = \<lparr>encDefinition = ?d, encRaw = raw, encHash = sha256Hex raw,
              encStorageKey = definitionStorageKey (dsSourceID s) (trimSpace (defKey ?d))\<rparr> # us"
    by (auto simp: Let_def split: option.splits if_splits sum.splits)
  have "list_all (wellEncoded S s) us \<and> distinct (map encKey us) \<and>
      encKey ` set us \<inter> set (trimSpace (defKey ?d) # seen) = {} \<and> map encDefinition us = map (normalizeDefinition S) ds"
    by (rule 2(1)) (use r in simp_all)
  moreover have "wellEncoded S s (hd vs)" using r by (auto simp: wellEncoded_def)
  ultimately show ?case using r by auto
qed simp

lemma encodeEach_again:
  assumes "\<And>d. normalizeDefinition S (normalizeDefinition S d) = normalizeDefinition S d"
    and "list_all (wellEncoded S s) vs" "distinct (map encKey vs)" "encKey ` set vs \<inter> set seen = {}"
  shows "encodeEach S s seen (map encDefinition vs) = Inr vs"
  using assms(2-)
proof (induction vs arbitrary: seen)
  case (Cons v vs)
  have v: "normalizeDefinition S (encDefinition v) = encDefinition v" "wellEncoded S s v"
    using Cons.prems(1) assms(1) by (auto simp: wellEncoded_def)
  have "encodeEach S s (encKey v # seen) (map encDefinition vs) = Inr vs"
    using Cons.prems by (intro Cons.IH) auto
  with v Cons.prems show ?case by (cases v) (auto simp: wellEncoded_def Let_def)
qed simp

lemma encodeDefinitions_Inr:
  assumes "encodeDefinitions S s ds = Inr (values, hash)"
  shows "list_all (wellEncoded S s) values" "distinct (map encKey values)"
    "sorted (map (\<lambda>v. defKey (encDefinition v)) values)"
    "set (map encDefinition values) = normalizeDefinition S ` set ds"
    "(\<And>d. normalizeDefinition S (normalizeDefinition S d) = normalizeDefinition S d) \<Longrightarrow>
      encodeDefinitions S s (map encDefinition values) = Inr (values, hash)"
proof -
  obtain vs raw where vs: "encodeEach S s [] ds = Inr vs" "values = sort_key (\<lambda>v. defKey (encDefinition v)) vs"
      "marshalDefinitions S (map encDefinition values) = Inr raw" "hash = sha256Hex raw"
    using assms by (auto simp: encodeDefinitions_def Let_def split: sum.splits)
  note e = encodeEach_Inr [OF vs(1)]
  have distinct: "distinct (map encKey xs) \<longleftrightarrow> distinct xs \<and> inj_on encKey (set xs)" for xs
    by (rule distinct_map)
  show w: "list_all (wellEncoded S s) values" and d: "distinct (map encKey values)"
    using e unfolding distinct by (auto simp: vs(2) list_all_iff)
  show sorted: "sorted (map (\<lambda>v. defKey (encDefinition v)) values)" by (simp add: vs(2))
  show "set (map encDefinition values) = normalizeDefinition S ` set ds"
    using e by (metis set_map vs(2) set_sort)
  assume "\<And>d. normalizeDefinition S (normalizeDefinition S d) = normalizeDefinition S d"
  from encodeEach_again [OF this w d, of "[]"]
  show "encodeDefinitions S s (map encDefinition values) = Inr (values, hash)"
    using vs sorted by (simp add: encodeDefinitions_def sort_key_id_if_sorted)
qed

section \<open>Reading the definitions\<close>

lemma readDefinitions_stored:
  assumes "\<And>r. r \<in> set rows \<Longrightarrow> unmarshalDefinition S (df_payload_json r) = Inr (decode r)"
  shows "readDefinitions S True version rows = Inr (map decode rows, version)"
  using assms by (induction rows) (auto simp: Let_def)

lemma stored_definitions:
  assumes keys: "definitionKeys d" and payloads: "enabledPayloads s d = encodedPayload ` set values"
    and "list_all (wellEncoded S s) values" "distinct (map encKey values)"
    and sorted: "sorted (map (\<lambda>v. defKey (encDefinition v)) values)"
    and storage: "distinct (map encStorageKey values)"
    and codec: "\<And>v. v \<in> set values \<Longrightarrow> unmarshalDefinition S (encRaw v) = Inr (encDefinition v)"
  shows "\<exists>unsorted. readDefinitions S True version (enabledRows s d) = Inr (unsorted, version) \<and>
    sort_key defKey unsorted = map encDefinition values"
proof -
  let ?rows = "enabledRows s d"
  define decode where "decode r = projr (unmarshalDefinition S (df_payload_json r))" for r :: definition_row
  have rows: "set ?rows = {r \<in> set (definitions d). enabledOwned s r}"
    by (auto simp: enabledRows_def enabledOwned_def)
  have row: "\<exists>v \<in> set values. df_resource_key r = encStorageKey v \<and> df_payload_json r = encRaw v"
    if "r \<in> set ?rows" for r
    using that payloads unfolding rows enabledPayloads_def encodedPayload_def by (auto simp: set_eq_iff image_iff)
  have dec: "unmarshalDefinition S (df_payload_json r) = Inr (decode r)"
      "df_resource_key r = definitionStorageKey (dsSourceID s) (trimSpace (defKey (decode r)))"
      "decode r \<in> set (map encDefinition values)" if r: "r \<in> set ?rows" for r
  proof -
    obtain v where v: "v \<in> set values" "df_resource_key r = encStorageKey v" "df_payload_json r = encRaw v"
      using row [OF r] by blast
    moreover have "wellEncoded S s v" using assms(3) v(1) by (simp add: list_all_iff)
    ultimately show "unmarshalDefinition S (df_payload_json r) = Inr (decode r)"
      "df_resource_key r = definitionStorageKey (dsSourceID s) (trimSpace (defKey (decode r)))"
      "decode r \<in> set (map encDefinition values)"
      using codec [OF v(1)] by (auto simp: decode_def wellEncoded_def)
  qed
  have read: "readDefinitions S True version ?rows = Inr (map decode ?rows, version)"
    by (rule readDefinitions_stored) (rule dec(1))
  have "distinct (map df_resource_key (definitions d))" using keys by (simp add: definitionKeys_def)
  then have "distinct (map df_resource_key ?rows)"
    by (auto simp: enabledRows_def ascending_def distinct_map intro: inj_on_subset)
  moreover have "map df_resource_key ?rows =
      map (\<lambda>k. definitionStorageKey (dsSourceID s) (trimSpace k)) (map (defKey \<circ> decode) ?rows)"
    using dec(2) by simp
  ultimately have "distinct (map (\<lambda>k. definitionStorageKey (dsSourceID s) (trimSpace k)) (map (defKey \<circ> decode) ?rows))"
    by metis
  then have "distinct (map (defKey \<circ> decode) ?rows)" by (rule distinct_map [THEN iffD1, THEN conjunct1])
  then have distinct: "distinct (map defKey (map decode ?rows))" by simp
  have "encDefinition v \<in> decode ` set ?rows" if v: "v \<in> set values" for v
  proof -
    have "encodedPayload v \<in> enabledPayloads s d" using payloads v by blast
    then obtain r where "r \<in> set ?rows" "df_payload_json r = encRaw v"
      unfolding enabledPayloads_def rows by (auto simp: encodedPayload_def)
    then show ?thesis using codec [OF v] by (force simp: decode_def)
  qed
  then have set: "set (map decode ?rows) = set (map encDefinition values)" using dec(3) by auto
  let ?l = "sort_key defKey (map decode ?rows)"
  have keys_eq: "map defKey ?l = map defKey (map encDefinition values)"
  proof (rule sorted_distinct_set_unique)
    show "sorted (map defKey ?l)" by simp
    show "distinct (map defKey ?l)" using distinct unfolding distinct_map [of defKey] by simp
    show "sorted (map defKey (map encDefinition values))" using sorted by (simp add: comp_def)
    have "distinct (map trimSpace (map (defKey \<circ> encDefinition) values))" using assms(4) by (simp add: comp_def)
    then have "distinct (map (defKey \<circ> encDefinition) values)" by (rule distinct_map [THEN iffD1, THEN conjunct1])
    then show "distinct (map defKey (map encDefinition values))" by simp
    show "set (map defKey ?l) = set (map defKey (map encDefinition values))"
      using set by (metis set_map set_sort)
  qed
  moreover have "inj_on defKey (set ?l \<union> set (map encDefinition values))"
    using distinct set unfolding distinct_map [of defKey] by simp
  ultimately have "?l = map encDefinition values" by (rule map_inj_on)
  with read show ?thesis by blast
qed

section \<open>Accepting and writing\<close>

text \<open>
  An accepted snapshot is either the published one again, which changes nothing, or the cursor is
  then at its position; the other tables are not touched.
\<close>

lemma acceptFenced_Inr:
  assumes keys: "publicationKeys (db w)"
    and accept: "acceptFencedSnapshot S s snapshot hash now w = (Inr disposition, w')"
  obtains (replayed) r where "disposition = DefinitionSnapshotReplay" "db w' = db w"
      "publicationRow s (db w) = Inr r" "pb_cursor_revision r = Some (snapRevision snapshot)"
      "pb_cursor_generation r = map_option fenceGeneration (snapFence snapshot)"
      "pb_cursor_content_sha256 r = Some hash"
  | (moved) fence r where "disposition = DefinitionSnapshotApply" "snapFence snapshot = Some fence"
      "publicationRow s (db w') = Inr r" "pb_cursor_generation r = Some (fenceGeneration fence)"
      "pb_cursor_session_sha256 r = Some (fenceSessionSHA256 fence)"
      "pb_cursor_revision r = Some (snapRevision snapshot)" "pb_cursor_content_sha256 r = Some hash"
      "definitions (db w') = definitions (db w)" "definition_snapshots (db w') = definition_snapshots (db w)"
proof -
  obtain fence where f: "snapFence snapshot = Some fence"
    using accept by (cases "snapFence snapshot") (auto simp: acceptFencedSnapshot_def fail_def)
  obtain p w1 where p: "sqlQuery (\<lambda>d. case publicationRow s d of Inl e \<Rightarrow> Inl e | Inr r \<Rightarrow>
          (case scanActive r of Inl e \<Rightarrow> Inl e | Inr fence \<Rightarrow> Inr (fence, r))) w = (p, w1)" by fastforce
  have d1: "db w1 = db w" using p by (rule sqlQuery_db)
  obtain active r where ar: "p = Inr (active, r)"
    using accept p f
    by (cases p) (auto simp: acceptFencedSnapshot_def fail_def attempt_def split: option.splits if_splits)
  have r: "publicationRow s (db w) = Inr r"
    using p ar by (auto simp: go_unfold split: option.splits sum.splits)
  obtain current where c: "currentCursor S s r = Inr current"
      "orderSnapshot S active current fence (snapRevision snapshot) hash = Inr disposition"
      "(if disposition = DefinitionSnapshotReplay then ret DefinitionSnapshotReplay else
        bindE (sqlCall (sql_moveCursor s active current fence (snapRevision snapshot) hash now)) (\<lambda>updated.
        if updated \<noteq> 1 then fail (Sentinel ErrDefinitionPublicationCAS) else ret DefinitionSnapshotApply)) w1 =
        (Inr disposition, w')"
    using accept p f ar
    by (auto simp: acceptFencedSnapshot_def fail_def attempt_def bindE_def liftE_def ret_def
        split: option.splits if_splits sum.splits prod.splits)
      (metis DefinitionSnapshotDisposition.exhaust)
  show thesis
  proof (cases disposition)
    case DefinitionSnapshotReplay
    have pos: "current = Some x \<Longrightarrow> pb_cursor_generation r = Some (fenceGeneration (cursorFence x)) \<and>
        pb_cursor_revision r = Some (cursorRevision x) \<and> pb_cursor_content_sha256 r = Some (cursorContentSHA256 x)" for x
      using c(1) by (auto simp: currentCursor_def cursorOfRow_def split: sum.splits option.splits if_splits)
    obtain x where x: "current = Some x" "fenceGeneration (cursorFence x) = fenceGeneration fence"
        "cursorRevision x = snapRevision snapshot" "cursorContentSHA256 x = hash"
      using c(2) DefinitionSnapshotReplay
      by (cases current) (auto simp: orderSnapshot_def split: if_splits)
    show ?thesis
      using replayed [OF DefinitionSnapshotReplay _ r] c(3) d1 x pos f DefinitionSnapshotReplay
      by (simp add: ret_def)
  next
    case DefinitionSnapshotApply
    let ?p = "cursorUnmoved s active current" and ?g = "withCursor fence (snapRevision snapshot) hash now"
    have once: "matched ?p (definition_publications (db w)) = 1"
      and d': "db w' = (db w)\<lparr>definition_publications := updateWhere ?p ?g (definition_publications (db w))\<rparr>"
      using c(3) DefinitionSnapshotApply d1 unfolding sql_moveCursor_def
      by (auto simp: ret_def fail_def sql_unfold elim!: bindE_InrE sqlCall_resultE split: if_splits)
    obtain q where q: "q \<in> set (definition_publications (db w))" "?p q"
      using once matched_pos [of ?p "definition_publications (db w)"] by auto
    have "publicationKeys (db w')"
      using keys d' by (simp add: publicationKeys_def map_updateWhere withCursor_def publication_key_def)
    moreover have "?g q \<in> set (definition_publications (db w'))"
      using q d' by (auto simp: updateWhere_def)
    ultimately have "publicationRow s (db w') = Inr (?g q)"
      using q(2) by (intro publicationRow_unique) (simp_all add: withCursor_def cursorUnmoved_def publicationIdentity_def)
    then show ?thesis
      using moved [OF DefinitionSnapshotApply f] d' by (simp add: withCursor_def)
  qed
qed

lemma writeSnapshot_Inr:
  assumes "writeSnapshot S s snapshot values hash now w = (Inr x, w')" "definitionKeys (db w)"
    and "distinct (map encStorageKey values)"
  shows "enabledPayloads s (db w') = encodedPayload ` set values" "definitionKeys (db w')"
    "definition_publications (db w') = definition_publications (db w)" "x = Commit ()"
    "\<exists>r. selectRow (snapshotIdentity s) (definition_snapshots (db w')) = Inr r \<and>
      sn_revision r = snapRevision snapshot \<and> sn_schema_version r = trimSpace (snapSchemaVersion snapshot) \<and>
      sn_schema_hash r = hash"
proof -
  obtain w1 n w2 u where w1: "writeSnapshotState S s snapshot hash now w = (Inr (), w1)"
    and w2: "sqlCall (sql_disableDefinitions s now) w1 = (Inr n, w2)"
    and w3: "foldE (writeDefinition S s snapshot now) values () w2 = (Inr u, w')" "x = Commit ()"
    using assms(1) unfolding writeSnapshot_def by (auto simp: ret_def elim!: bindE_InrE)
  note state = writeSnapshotState_Inr [OF w1 assms(2)]
  have d2: "db w2 = snd (sql_disableDefinitions s now (db w1))" using w2 by (rule sqlCall_resultE)
  have keys2: "definitionKeys (db w2)" "definition_snapshots (db w2) = definition_snapshots (db w1)"
      "definition_publications (db w2) = definition_publications (db w1)"
    using state(2) by (simp_all add: d2 definitionKeys_def sql_disableDefinitions_def sql_unfold map_updateWhere)
  have "enabledPayloads s (db w2) = {}" by (simp add: d2 disable_payloads)
  then show "enabledPayloads s (db w') = encodedPayload ` set values" "definitionKeys (db w')"
    "definition_publications (db w') = definition_publications (db w)" "x = Commit ()"
    "\<exists>r. selectRow (snapshotIdentity s) (definition_snapshots (db w')) = Inr r \<and>
      sn_revision r = snapRevision snapshot \<and> sn_schema_version r = trimSpace (snapSchemaVersion snapshot) \<and>
      sn_schema_hash r = hash"
    using writeDefinitions_Inr [OF w3(1) keys2(1) assms(3)] keys2 state w3(2) by simp_all
qed

lemma syncRounds_Inr:
  assumes "syncRounds S s snapshot values hash n w = (Inr u, w')" "0 < n"
  shows "\<exists>w0. db w0 = db w \<and> syncDefinitionsOnce S s snapshot values hash w0 = (Inr u, w')"
  using assms
proof (induction n arbitrary: w)
  case (Suc n)
  obtain q w1 where q: "syncDefinitionsOnce S s snapshot values hash w = (q, w1)" by fastforce
  show ?case
  proof (cases q)
    case (Inr x)
    with Suc.prems q show ?thesis by (auto simp: attempt_def ret_def)
  next
    case (Inl e)
    then have d: "db w1 = db w" using q unfolding syncDefinitionsOnce_def by (auto dest: transaction_error)
    from Suc.prems(1) q Inl obtain w2 where w2: "db w2 = db w1"
        "(if n = 0 then fail e else syncRounds S s snapshot values hash n) w2 = (Inr u, w')"
      by (auto simp: attempt_def fail_def waitDefinitionPublicationRetry_def elim!: bindE_InrE dest!: envCall_db
          split: if_splits)
    with Suc.IH [of w2] d show ?thesis by (auto simp: fail_def split: if_splits)
  qed
qed simp

section \<open>The round trip\<close>

lemma sqlQuery_healthy: "healthy w \<Longrightarrow> sqlQuery q w = (q (db w), w\<lparr>calls := Suc (calls w)\<rparr>)"
  by (simp add: sqlQuery_def sqlCall_healthy)

lemma syncOnce_applied:
  assumes once: "syncDefinitionsOnce S s snapshot values hash w = (Inr u, w')"
    and keys: "publicationKeys (db w)" "definitionKeys (db w)" and fence: "snapFence snapshot = Some fence"
    and storage: "distinct (map encStorageKey values)"
    and new: "\<And>r. publicationRow s (db w) = Inr r \<Longrightarrow>
      cursorPosition r \<noteq> Some (fenceGeneration fence, snapRevision snapshot)"
  obtains r q where "publicationRow s (db w') = Inr r" "pb_cursor_generation r = Some (fenceGeneration fence)"
      "pb_cursor_session_sha256 r = Some (fenceSessionSHA256 fence)"
      "pb_cursor_revision r = Some (snapRevision snapshot)" "pb_cursor_content_sha256 r = Some hash"
      "enabledPayloads s (db w') = encodedPayload ` set values" "definitionKeys (db w')"
      "selectRow (snapshotIdentity s) (definition_snapshots (db w')) = Inr q"
      "sn_revision q = snapRevision snapshot" "sn_schema_version q = trimSpace (snapSchemaVersion snapshot)"
      "sn_schema_hash q = hash"
proof -
  obtain w1 x w2 where body: "db w1 = db w" "bindE timeNow (\<lambda>t. let now = formatRFC3339Nano t in
       if snapFence snapshot \<noteq> None then
         bindE (acceptFencedSnapshot S s snapshot hash now) (\<lambda>disposition.
         if disposition = DefinitionSnapshotReplay then ret (Commit ())
         else writeSnapshot S s snapshot values hash now)
       else writeSnapshot S s snapshot values hash now) w1 = (Inr x, w2)" "x = Commit u \<Longrightarrow> db w' = db w2"
      "x = Commit u \<or> x = Rollback u"
    using once unfolding syncDefinitionsOnce_def by (rule transaction_InrE) blast+
  obtain t w3 disposition w4 where w4: "db w3 = db w"
      "acceptFencedSnapshot S s snapshot hash (formatRFC3339Nano t) w3 = (Inr disposition, w4)"
      "(if disposition = DefinitionSnapshotReplay then ret (Commit ())
        else writeSnapshot S s snapshot values hash (formatRFC3339Nano t)) w4 = (Inr x, w2)"
    using body(1,2) fence by (auto simp: Let_def elim!: bindE_InrE timeNow_InrE)
  have "publicationKeys (db w3)" using keys(1) w4(1) by simp
  then show thesis
    using w4(2)
  proof (cases rule: acceptFenced_Inr)
    case (replayed r)
    with new [of r] w4(1) fence show ?thesis by (simp add: cursorPosition_def)
  next
    case (moved f r)
    then have written: "writeSnapshot S s snapshot values hash (formatRFC3339Nano t) w4 = (Inr x, w2)" "f = fence"
      using w4(3) fence by simp_all
    have k4: "definitionKeys (db w4)" using keys(2) moved(8,9) w4(1) by (simp add: definitionKeys_def)
    note wr = writeSnapshot_Inr [OF written(1) k4 storage]
    have same: "db w' = db w2" using body(3) wr(4) by simp
    with wr(5) obtain q where "selectRow (snapshotIdentity s) (definition_snapshots (db w')) = Inr q"
        "sn_revision q = snapRevision snapshot" "sn_schema_version q = trimSpace (snapSchemaVersion snapshot)"
        "sn_schema_hash q = hash" by auto
    moreover have "publicationRow s (db w') = Inr r"
      using moved(3) wr(3) same by (simp add: publicationRow_def)
    ultimately show ?thesis
      using that [of r q] moved wr(1,2) same written(2) by simp
  qed
qed


section \<open>Witness\<close>

text \<open>A codec that keeps the key of a definition, and one definition published by the first session.\<close>

definition keySdk :: Sdk where
  "keySdk = exSdk\<lparr>normalizeDefinition := (\<lambda>d. exDefinition\<lparr>defKey := defKey d\<rparr>),
     marshalDefinition := (\<lambda>d. Inr (defKey d)), unmarshalDefinition := (\<lambda>k. Inr (exDefinition\<lparr>defKey := k\<rparr>))\<rparr>"

definition exNightly :: DefinitionSnapshot where
  "exNightly = exPublication\<lparr>snapDefinitions := [exDefinition]\<rparr>"

definition exEncoded :: encodedDefinition where
  "exEncoded = \<lparr>encDefinition = exDefinition, encRaw = ''nightly'', encHash = sha256Hex ''nightly'',
     encStorageKey = definitionStorageKey ''rt'' ''nightly''\<rparr>"

lemma exNightly_encoded:
  "encodeDefinitions keySdk exPublisher [exDefinition] = Inr ([exEncoded], sha256Hex ''definitions'')"
proof -
  have "trimSpace ''nightly'' = ''nightly''" by code_simp
  then show ?thesis
    by (simp add: encodeDefinitions_def keySdk_def exSdk_def exDefinition_def exPublisher_def exEncoded_def)
qed

lemma exNightly_published:
  "\<exists>w1. SyncDefinitions keySdk exPublisher exNightly (exWorld (exSession 1) exNoon) = (Inr (), w1)"
proof -
  have "\<exists>w1. syncDefinitionsOnce keySdk exPublisher exNightly [exEncoded] h (exWorld (exSession 1) exNoon) = (Inr (), w1)" for h
    by (simp add: syncDefinitionsOnce_def exNightly_def exPublication_def acceptFencedSnapshot_def exSession_row
        go_unfold Let_def keySdk_def exSdk_def scanActive_def currentCursor_def cursorOfRow_def orderSnapshot_def
        exSessionRow_def exSession_def emptyDatabase_def sql_moveCursor_def sql_unfold cursorUnmoved_def withCursor_def
        publicationRow_def selectRow_def publicationIdentity_def exPublisher_def writeSnapshot_def writeSnapshotState_def
        sql_disableDefinitions_def writeDefinition_def sql_updateDefinition_def)
  then obtain w1 where "syncDefinitionsOnce keySdk exPublisher exNightly [exEncoded] (sha256Hex ''definitions'')
      (exWorld (exSession 1) exNoon) = (Inr (), w1)" by blast
  then have "syncRounds keySdk exPublisher exNightly [exEncoded] (sha256Hex ''definitions'') 64
      (exWorld (exSession 1) exNoon) = (Inr (), w1)" by (rule syncRounds_first_round) simp
  then show ?thesis
    using exNightly_encoded
    by (simp add: SyncDefinitions_def exNightly_def exPublication_def exPublisher_def isBlank_def
        runtimeDefinitionSourceKind_def exPublication_trimmed bindE_def liftE_def)
qed


end
