(* ===== verification/Publication_Digest.thy ===== *)
theory Publication_Digest
  imports Publication_Readback "HOL-Library.Multiset"
begin

text \<open>
  The encoding of a snapshot against a specification, and its independence of the order in which the
  host lists its definitions.
\<close>

definition definitionKeyOf :: "Sdk \<Rightarrow> Definition \<Rightarrow> string" where
  "definitionKeyOf S d = trimSpace (defKey (normalizeDefinition S d))"

definition encodedOf :: "Sdk \<Rightarrow> DefinitionStore \<Rightarrow> Definition \<Rightarrow> encodedDefinition" where
  "encodedOf S s d = (let n = normalizeDefinition S d; raw = bytesOf (marshalDefinition S n) in
     \<lparr>encDefinition = n, encRaw = raw, encHash = sha256Hex raw,
      encStorageKey = definitionStorageKey (dsSourceID s) (definitionKeyOf S d)\<rparr>)"

definition encodable :: "Sdk \<Rightarrow> Definition \<Rightarrow> bool" where
  "encodable S d \<longleftrightarrow> validateDefinition S (normalizeDefinition S d) = None \<and>
     \<not> isl (marshalDefinition S (normalizeDefinition S d))"

lemma encodeEach_iff:
  "encodeEach S s seen ds = Inr vs \<longleftrightarrow>
     list_all (encodable S) ds \<and> distinct (map (definitionKeyOf S) ds) \<and>
     definitionKeyOf S ` set ds \<inter> set seen = {} \<and> vs = map (encodedOf S s) ds"
proof (induction S s seen ds arbitrary: vs rule: encodeEach.induct)
  case (2 S s seen d ds)
  let ?n = "normalizeDefinition S d"
  show ?case
  proof (cases "encodable S d \<and> definitionKeyOf S d \<notin> set seen")
    case False
    then show ?thesis
      by (auto simp: encodable_def definitionKeyOf_def Let_def split: option.splits sum.splits)
  next
    case True
    then obtain raw where raw: "validateDefinition S ?n = None" "marshalDefinition S ?n = Inr raw"
        "trimSpace (defKey ?n) \<notin> set seen"
      by (cases "marshalDefinition S ?n") (auto simp: encodable_def definitionKeyOf_def)
    have IH: "encodeEach S s (definitionKeyOf S d # seen) ds = Inr us \<longleftrightarrow>
        list_all (encodable S) ds \<and> distinct (map (definitionKeyOf S) ds) \<and>
        definitionKeyOf S ` set ds \<inter> set (definitionKeyOf S d # seen) = {} \<and> us = map (encodedOf S s) ds" for us
      unfolding definitionKeyOf_def [of S d] using raw by (intro 2) simp_all
    have "encodeEach S s seen (d # ds) = Inr vs \<longleftrightarrow>
        (\<exists>us. encodeEach S s (definitionKeyOf S d # seen) ds = Inr us \<and> vs = encodedOf S s d # us)"
      using raw by (auto simp: Let_def encodedOf_def bytesOf_def definitionKeyOf_def split: sum.splits)
    also have "\<dots> \<longleftrightarrow> list_all (encodable S) (d # ds) \<and> distinct (map (definitionKeyOf S) (d # ds)) \<and>
        definitionKeyOf S ` set (d # ds) \<inter> set seen = {} \<and> vs = map (encodedOf S s) (d # ds)"
      unfolding IH using True by auto
    finally show ?thesis .
  qed
qed auto

lemma encodeDefinitions_perm:
  assumes "mset ds' = mset ds" "encodeDefinitions S s ds = Inr v"
  shows "encodeDefinitions S s ds' = Inr v"
proof -
  let ?key = "\<lambda>v. defKey (encDefinition v)"
  obtain vs where vs: "encodeEach S s [] ds = Inr vs"
    using assms(2) by (auto simp: encodeDefinitions_def split: sum.splits)
  then have ok: "list_all (encodable S) ds" "distinct (map (definitionKeyOf S) ds)" "vs = map (encodedOf S s) ds"
    by (simp_all add: encodeEach_iff)
  have set: "set ds' = set ds" using assms(1) by (rule mset_eq_setD)
  have "distinct (map (definitionKeyOf S) ds')"
    using ok(2) assms(1) by (metis mset_eq_imp_distinct_iff mset_map)
  then have each: "encodeEach S s [] ds' = Inr (map (encodedOf S s) ds')"
    using ok(1) set by (simp add: encodeEach_iff list_all_iff)
  have "inj_on (\<lambda>d. trimSpace (?key (encodedOf S s d))) (set ds)"
    using ok(2) by (simp add: distinct_map encodedOf_def definitionKeyOf_def [abs_def] Let_def)
  then have "inj_on ?key (set (map (encodedOf S s) ds))" by (auto simp: inj_on_def)
  then have "sort_key ?key (map (encodedOf S s) ds') = sort_key ?key (map (encodedOf S s) ds)"
    using assms(1) set by (intro sort_key_inj_key_eq) auto
  then show ?thesis
    using assms(2) vs ok(3) each by (simp add: encodeDefinitions_def)
qed

lemma reordered_fields:
  "snapRevision (snapshot\<lparr>snapDefinitions := ds\<rparr>) = snapRevision snapshot"
  "snapFence (snapshot\<lparr>snapDefinitions := ds\<rparr>) = snapFence snapshot"
  "snapSchemaVersion (snapshot\<lparr>snapDefinitions := ds\<rparr>) = snapSchemaVersion snapshot"
  "snapSourceKind (snapshot\<lparr>snapDefinitions := ds\<rparr>) = snapSourceKind snapshot"
  "snapSourceID (snapshot\<lparr>snapDefinitions := ds\<rparr>) = snapSourceID snapshot"
  "snapContentSHA256 (snapshot\<lparr>snapDefinitions := ds\<rparr>) = snapContentSHA256 snapshot"
  "snapDefinitions (snapshot\<lparr>snapDefinitions := ds\<rparr>) = ds"
  by simp_all

lemma snapDefinitions_irrelevant:
  "acceptFencedSnapshot S s (snapshot\<lparr>snapDefinitions := ds\<rparr>) hash now = acceptFencedSnapshot S s snapshot hash now"
  "writeSnapshot S s (snapshot\<lparr>snapDefinitions := ds\<rparr>) encoded hash now = writeSnapshot S s snapshot encoded hash now"
  "syncDefinitionsOnce S s (snapshot\<lparr>snapDefinitions := ds\<rparr>) encoded hash = syncDefinitionsOnce S s snapshot encoded hash"
proof -
  show accept: "acceptFencedSnapshot S s (snapshot\<lparr>snapDefinitions := ds\<rparr>) hash now = acceptFencedSnapshot S s snapshot hash now" for now
    unfolding acceptFencedSnapshot_def reordered_fields by (rule refl)
  have "writeDefinition S s (snapshot\<lparr>snapDefinitions := ds\<rparr>) now = writeDefinition S s snapshot now" for now
    by (intro ext) (unfold writeDefinition_def sql_updateDefinition_def definitionRow_def reordered_fields, rule refl)
  moreover have "writeSnapshotState S s (snapshot\<lparr>snapDefinitions := ds\<rparr>) hash now = writeSnapshotState S s snapshot hash now" for now
    unfolding writeSnapshotState_def reordered_fields by (rule refl)
  ultimately show written: "writeSnapshot S s (snapshot\<lparr>snapDefinitions := ds\<rparr>) encoded hash now =
      writeSnapshot S s snapshot encoded hash now" for now
    by (simp add: writeSnapshot_def)
  show "syncDefinitionsOnce S s (snapshot\<lparr>snapDefinitions := ds\<rparr>) encoded hash = syncDefinitionsOnce S s snapshot encoded hash"
    unfolding syncDefinitionsOnce_def accept written by simp
qed

lemma syncRounds_irrelevant:
  "syncRounds S s (snapshot\<lparr>snapDefinitions := ds\<rparr>) encoded hash n = syncRounds S s snapshot encoded hash n"
proof (induction n)
  case (Suc n)
  show ?case unfolding syncRounds.simps snapDefinitions_irrelevant Suc.IH by (rule refl)
qed simp

text \<open>
  C29. A publication does not depend on the order in which the host lists its definitions: a snapshot
  that can be encoded and any reordering of it have the same digest, and publishing one is, on every
  database and with every failure, the same as publishing the other. So a publisher that repeats its
  snapshot with the definitions in another order gets a replay and not a conflict.
\<close>

theorem publication_order_free:
  assumes "mset ds' = mset (snapDefinitions snapshot)" "encodeDefinitions S s (snapDefinitions snapshot) = Inr v"
  shows "encodeDefinitions S s ds' = Inr v \<and>
    SyncDefinitions S s (snapshot\<lparr>snapDefinitions := ds'\<rparr>) = SyncDefinitions S s snapshot"
proof -
  have same: "encodeDefinitions S s ds' = Inr v" using assms by (rule encodeDefinitions_perm)
  moreover have "SyncDefinitions S s (snapshot\<lparr>snapDefinitions := ds'\<rparr>) = SyncDefinitions S s snapshot"
    unfolding SyncDefinitions_def reordered_fields syncRounds_irrelevant same assms(2) by (rule refl)
  ultimately show ?thesis by simp
qed

definition exDaily :: Definition where
  "exDaily = exDefinition\<lparr>defKey := ''daily''\<rparr>"

definition exBoth :: DefinitionSnapshot where
  "exBoth = exPublication\<lparr>snapDefinitions := [exDefinition, exDaily]\<rparr>"

lemma exBoth_encoded: "\<exists>v. encodeDefinitions exSdk exPublisher (snapDefinitions exBoth) = Inr v"
proof -
  have "trimSpace ''daily'' = ''daily''" by code_simp
  then have "\<exists>vs. encodeEach exSdk exPublisher [] [exDefinition, exDaily] = Inr vs"
    by (simp add: exDaily_def exDefinition_def Let_def)
  then show ?thesis by (auto simp: encodeDefinitions_def exBoth_def exSdk_def Let_def)
qed

theorem publication_order_free_witness:
  "SyncDefinitions exSdk exPublisher (exBoth\<lparr>snapDefinitions := [exDaily, exDefinition]\<rparr>) (exWorld (exSession 1) exNoon) =
   SyncDefinitions exSdk exPublisher exBoth (exWorld (exSession 1) exNoon)"
proof -
  obtain v where v: "encodeDefinitions exSdk exPublisher (snapDefinitions exBoth) = Inr v" using exBoth_encoded by blast
  have "mset [exDaily, exDefinition] = mset (snapDefinitions exBoth)" by (simp add: exBoth_def)
  from publication_order_free [OF this v] show ?thesis by simp
qed

end
