(* ===== verification/Plan_Store.thy ===== *)
theory Plan_Store
  imports Database
begin

text \<open>
  The store of scheduled plans, \<^verbatim>\<open>scheduled_plan_store.go\<close>. A plan is keyed by Runtime and identifier,
  belongs to an owner (workspace, user, product), and is replaced by compare-and-swap on its
  revision. Every read and write of one plan carries the owner in its predicate.
\<close>

section \<open>State and rows\<close>

record ScheduledPlanStore =
  psRuntimeID :: string

definition NewScheduledPlanStore :: "bool \<Rightarrow> bool \<Rightarrow> string \<Rightarrow> goerr + ScheduledPlanStore" where
  "NewScheduledPlanStore hasDatabase hasDialect runtime0 =
     (let runtime = trimSpace runtime0 in
      if \<not> hasDatabase \<or> \<not> hasDialect \<or> runtime = []
      then Inl (Errorf ''Scheduler plan store database, dialect, and Runtime identity are required'')
      else Inr \<lparr>psRuntimeID = runtime\<rparr>)"

definition scheduledPlanJSON :: "Sdk \<Rightarrow> ScheduledPlan \<Rightarrow> goerr + (string \<times> string \<times> string)" where
  "scheduledPlanJSON S plan =
     (case marshalPlanTrigger S (planTrigger plan) of Inl e \<Rightarrow> Inl e | Inr trigger \<Rightarrow>
      case marshalActions S (planAllowedActions plan) of Inl e \<Rightarrow> Inl e | Inr actions \<Rightarrow>
      case marshalTarget S (planTarget plan) of Inl e \<Rightarrow> Inl e | Inr target \<Rightarrow>
        Inr (trigger, actions, target))"

definition planRow ::
  "ScheduledPlanStore \<Rightarrow> ScheduledPlanRecord \<Rightarrow> string \<times> string \<times> string \<Rightarrow> plan_row" where
  "planRow s record json = (case json of (trigger, actions, target) \<Rightarrow> let plan = recordPlan record in
     \<lparr>pl_runtime_id = psRuntimeID s, pl_plan_id = planID plan, pl_client_id = recordClientID record,
      pl_request_sha256 = recordRequestSHA256 record, pl_workspace_id = ownerWorkspaceID (planOwner plan),
      pl_user_id = ownerUserID (planOwner plan), pl_product_key = ownerProductKey (planOwner plan),
      pl_name = planName plan, pl_timezone = planTimezone plan, pl_trigger_json = trigger,
      pl_input_json = planInput plan, pl_allowed_actions_json = actions, pl_target_json = target,
      pl_source_conversation_id = nullable (planConversationID plan),
      pl_source_run_id = nullable (planConversationRunID plan), pl_status = planStatus plan,
      pl_revision = planRevision plan, pl_created_at = formatTime (planCreatedAt plan),
      pl_updated_at = formatTime (planUpdatedAt plan)\<rparr>)"

definition ownedBy :: "ScheduledPlanOwner \<Rightarrow> plan_row \<Rightarrow> bool" where
  "ownedBy owner r \<longleftrightarrow> pl_workspace_id r = ownerWorkspaceID owner \<and> pl_user_id r = ownerUserID owner \<and>
     pl_product_key r = ownerProductKey owner"

definition planIdentity :: "ScheduledPlanStore \<Rightarrow> ScheduledPlanOwner \<Rightarrow> string \<Rightarrow> plan_row \<Rightarrow> bool" where
  "planIdentity s owner ident r \<longleftrightarrow> pl_runtime_id r = psRuntimeID s \<and> pl_plan_id r = ident \<and> ownedBy owner r"

definition planOfRow ::
  "Sdk \<Rightarrow> ScheduledPlanOwner \<Rightarrow> string \<Rightarrow> plan_row \<Rightarrow> goerr + (ScheduledPlan \<times> string \<times> string)" where
  "planOfRow S owner ident r =
     (case unmarshalPlanTrigger S (pl_trigger_json r) of Inl e \<Rightarrow> Inl e | Inr trigger \<Rightarrow>
      case unmarshalActions S (pl_allowed_actions_json r) of Inl e \<Rightarrow> Inl e | Inr actions \<Rightarrow>
      case unmarshalTarget S (pl_target_json r) of Inl e \<Rightarrow> Inl e | Inr target \<Rightarrow>
        Inr (\<lparr>planID = ident, planName = pl_name r, planOwner = owner, planTimezone = pl_timezone r,
              planTrigger = trigger, planInput = pl_input_json r, planAllowedActions = actions,
              planTarget = target, planConversationID = nullString (pl_source_conversation_id r),
              planConversationRunID = nullString (pl_source_run_id r), planStatus = pl_status r,
              planRevision = pl_revision r, planCreatedAt = parseTime (pl_created_at r),
              planUpdatedAt = parseTime (pl_updated_at r)\<rparr>, pl_client_id r, pl_request_sha256 r))"

section \<open>Operations\<close>

definition getScheduledPlan ::
  "Sdk \<Rightarrow> ScheduledPlanStore \<Rightarrow> ScheduledPlanOwner \<Rightarrow> string \<Rightarrow> (ScheduledPlan \<times> string \<times> string) dbop" where
  "getScheduledPlan S s owner ident =
     attempt (sqlQuery (\<lambda>d. selectRow (planIdentity s owner ident) (plans d))) (\<lambda>q. case q of
       Inl e \<Rightarrow> if errorsIs e ErrNoRows then fail (Sentinel ErrScheduledPlanNotFound) else fail e
     | Inr r \<Rightarrow> liftE (planOfRow S owner ident r))"

definition storeCreateScheduledPlan ::
  "Sdk \<Rightarrow> ScheduledPlanStore \<Rightarrow> ScheduledPlanRecord \<Rightarrow> (ScheduledPlan \<times> bool) dbop" where
  "storeCreateScheduledPlan S s record =
     (let plan = recordPlan record in
      bindE (liftE (scheduledPlanJSON S plan)) (\<lambda>json.
      attempt (sqlCall (insert_ignore_plans (planRow s record json))) (\<lambda>q.
      let after = (\<lambda>affected :: int.
        bindE (getScheduledPlan S s (planOwner plan) (planID plan)) (\<lambda>(stored, client, request).
        if client \<noteq> recordClientID record \<or> request \<noteq> recordRequestSHA256 record
        then fail (Sentinel ErrScheduledPlanConflict) else ret (stored, affected = 0)))
      in case q of
           Inl e \<Rightarrow> if \<not> isUnique S e then fail e else after 0
         | Inr affected \<Rightarrow> after affected)))"

definition storeGetScheduledPlan ::
  "Sdk \<Rightarrow> ScheduledPlanStore \<Rightarrow> ScheduledPlanOwner \<Rightarrow> string \<Rightarrow> ScheduledPlan dbop" where
  "storeGetScheduledPlan S s owner ident =
     bindE (getScheduledPlan S s owner (trimSpace ident)) (\<lambda>(plan, _, _). ret plan)"

definition pageLimit :: "int \<Rightarrow> int" where
  "pageLimit limit = (if limit \<le> 0 \<or> limit > 100 then 50 else limit)"

definition listed :: "Sdk \<Rightarrow> ScheduledPlanStore \<Rightarrow> ScheduledPlanList \<Rightarrow> plan_row \<Rightarrow> bool" where
  "listed S s inp r \<longleftrightarrow> pl_runtime_id r = psRuntimeID s \<and> ownedBy (listOwner inp) r \<and>
     pl_status r \<noteq> planStatusDeleted S \<and>
     (listStatus inp = [] \<or> pl_status r = listStatus inp) \<and>
     (listCursor inp = [] \<or> pl_plan_id r > listCursor inp)"

text \<open>The identifiers a page query returns: one more than the page holds, to see whether there is a next page.\<close>

definition pageIDs :: "Sdk \<Rightarrow> ScheduledPlanStore \<Rightarrow> ScheduledPlanList \<Rightarrow> int \<Rightarrow> database \<Rightarrow> string list" where
  "pageIDs S s inp limit d =
     map pl_plan_id (limitRows (limit + 1) (ascending pl_plan_id (filter (listed S s inp) (plans d))))"

definition storeListScheduledPlans ::
  "Sdk \<Rightarrow> ScheduledPlanStore \<Rightarrow> ScheduledPlanList \<Rightarrow> ScheduledPlanPage dbop" where
  "storeListScheduledPlans S s inp =
     (let limit = pageLimit (listLimit inp) in
      bindE (sqlQuery (\<lambda>d. Inr (pageIDs S s inp limit d))) (\<lambda>ids.
      bindE envCall (\<lambda>_.
      let more = int (length ids) > limit;
          page = (if more then take (nat limit) ids else ids)
      in bindE (mapE (\<lambda>ident. bindE (getScheduledPlan S s (listOwner inp) ident) (\<lambda>(plan, _, _). ret plan)) page) (\<lambda>items.
         ret \<lparr>pageItems = items, pageNextCursor = (if more then last page else [])\<rparr>))))"

definition replaced :: "ScheduledPlan \<Rightarrow> string \<times> string \<times> string \<Rightarrow> plan_row \<Rightarrow> plan_row" where
  "replaced plan json r = (case json of (trigger, actions, target) \<Rightarrow>
     r\<lparr>pl_name := planName plan, pl_timezone := planTimezone plan, pl_trigger_json := trigger,
       pl_input_json := planInput plan, pl_allowed_actions_json := actions, pl_target_json := target,
       pl_source_conversation_id := nullable (planConversationID plan),
       pl_source_run_id := nullable (planConversationRunID plan), pl_status := planStatus plan,
       pl_revision := planRevision plan, pl_updated_at := formatTime (planUpdatedAt plan)\<rparr>)"

definition sql_replacePlan ::
  "ScheduledPlanStore \<Rightarrow> ScheduledPlan \<Rightarrow> string \<times> string \<times> string \<Rightarrow> int \<Rightarrow> int sql" where
  "sql_replacePlan s plan json expected = update_plans
     (\<lambda>r. planIdentity s (planOwner plan) (planID plan) r \<and> pl_revision r = expected) (replaced plan json)"

definition storeReplaceScheduledPlan ::
  "Sdk \<Rightarrow> ScheduledPlanStore \<Rightarrow> ScheduledPlan \<Rightarrow> int \<Rightarrow> ScheduledPlan dbop" where
  "storeReplaceScheduledPlan S s plan expected =
     bindE (liftE (scheduledPlanJSON S plan)) (\<lambda>json.
     bindE (sqlCall (sql_replacePlan s plan json expected)) (\<lambda>affected.
     if affected \<noteq> 1 then
       bindE (getScheduledPlan S s (planOwner plan) (planID plan)) (\<lambda>_.
       fail (Sentinel ErrScheduledPlanConflict))
     else
       bindE (getScheduledPlan S s (planOwner plan) (planID plan)) (\<lambda>(stored, _, _). ret stored)))"

definition rowOwner :: "plan_row \<Rightarrow> ScheduledPlanOwner" where
  "rowOwner r = \<lparr>ownerWorkspaceID = pl_workspace_id r, ownerUserID = pl_user_id r, ownerProductKey = pl_product_key r\<rparr>"

definition recoveryLimit :: "int \<Rightarrow> int" where
  "recoveryLimit limit = (if limit \<le> 0 \<or> limit > 500 then 200 else limit)"

definition recoveryRows :: "ScheduledPlanStore \<Rightarrow> string \<Rightarrow> int \<Rightarrow> database \<Rightarrow> plan_row list" where
  "recoveryRows s after limit d =
     limitRows limit (ascending pl_plan_id
       (filter (\<lambda>r. pl_runtime_id r = psRuntimeID s \<and> (after = [] \<or> pl_plan_id r > after)) (plans d)))"

definition ListScheduledPlansForRecovery ::
  "Sdk \<Rightarrow> ScheduledPlanStore \<Rightarrow> string \<Rightarrow> int \<Rightarrow> ScheduledPlan list dbop" where
  "ListScheduledPlansForRecovery S s after limit =
     bindE (sqlQuery (\<lambda>d. Inr (recoveryRows s (trimSpace after) (recoveryLimit limit) d))) (\<lambda>rows.
     bindE envCall (\<lambda>_.
     mapE (\<lambda>r. bindE (getScheduledPlan S s (rowOwner r) (pl_plan_id r)) (\<lambda>(plan, _, _). ret plan)) rows))"

section \<open>Keys\<close>

definition planKeys :: "database \<Rightarrow> bool" where
  "planKeys d \<longleftrightarrow> distinct (map plan_key (plans d))"

lemma planIdentity_key: "planIdentity s owner ident r \<Longrightarrow> plan_key r = (psRuntimeID s, ident)"
  by (simp add: planIdentity_def plan_key_def)

lemma planRow_unique:
  assumes "planKeys d" "r \<in> set (plans d)" "planIdentity s owner ident r"
  shows "selectRow (planIdentity s owner ident) (plans d) = Inr r"
  using assms planIdentity_key unfolding planKeys_def
  by (intro selectRow_unique [where k = plan_key]) auto

lemma readonly_getScheduledPlan [readonly_intros]: "readonly (getScheduledPlan S s owner ident)"
  unfolding getScheduledPlan_def by (intro readonly_intros)

lemma getScheduledPlan_Inr:
  assumes "getScheduledPlan S s owner ident w = (Inr x, w')"
  obtains r where "selectRow (planIdentity s owner ident) (plans (db w)) = Inr r" "planOfRow S owner ident r = Inr x"
    "db w' = db w"
proof -
  have d: "db w' = db w" using assms by (rule readonlyD [OF readonly_getScheduledPlan])
  obtain q w1 where q: "sqlQuery (\<lambda>d. selectRow (planIdentity s owner ident) (plans d)) w = (q, w1)" by fastforce
  from assms q obtain r where "q = Inr r" "planOfRow S owner ident r = Inr x"
    by (cases q) (auto simp: getScheduledPlan_def attempt_def fail_def liftE_def split: if_splits)
  moreover from this q have "selectRow (planIdentity s owner ident) (plans (db w)) = Inr r"
    by (auto elim: sqlQuery_InrE)
  ultimately show thesis using d by (rule_tac that)
qed

lemma getScheduledPlan_healthy:
  assumes "healthy w"
  shows "getScheduledPlan S s owner ident w =
    (case selectRow (planIdentity s owner ident) (plans (db w)) of
       Inl _ \<Rightarrow> Inl (Sentinel ErrScheduledPlanNotFound) | Inr r \<Rightarrow> planOfRow S owner ident r,
     w\<lparr>calls := Suc (calls w)\<rparr>)"
proof (cases "selectRow (planIdentity s owner ident) (plans (db w))")
  case (Inl e)
  then have "e = Sentinel ErrNoRows" by (simp add: selectRow_Inl)
  with Inl assms show ?thesis by (simp add: getScheduledPlan_def go_unfold)
next
  case (Inr r)
  with assms show ?thesis by (simp add: getScheduledPlan_def go_unfold)
qed

end
