(* ===== verification/Plan_Properties.thy ===== *)
theory Plan_Properties
  imports Plan_Store Scheduler_Examples
begin

text \<open>
  The contract of the plan store: creation is idempotent, an update needs the revision it was based
  on, no operation reaches a plan of another owner, and following the page cursors lists every plan
  once.
\<close>

section \<open>Replacing a plan\<close>

text \<open>The plan stored under an owner and an identifier, when its columns decode.\<close>

definition storedPlan :: "Sdk \<Rightarrow> ScheduledPlanStore \<Rightarrow> database \<Rightarrow> ScheduledPlanOwner \<Rightarrow> string \<Rightarrow> ScheduledPlan option" where
  "storedPlan S s d owner ident =
     (case selectRow (planIdentity s owner ident) (plans d) of Inl _ \<Rightarrow> None | Inr r \<Rightarrow>
      case planOfRow S owner ident r of Inl _ \<Rightarrow> None | Inr (plan, _, _) \<Rightarrow> Some plan)"

lemma planOfRow_fields:
  assumes "planOfRow S owner ident r = Inr (plan, client, request)"
  shows "planID plan = ident" "planOwner plan = owner" "planRevision plan = pl_revision r"
    "planStatus plan = pl_status r" "client = pl_client_id r" "request = pl_request_sha256 r"
  using assms by (auto simp: planOfRow_def split: sum.splits)

lemma storedPlanE:
  assumes "storedPlan S s d owner ident = Some plan"
  obtains r client request where "r \<in> set (plans d)" "planIdentity s owner ident r"
    "selectRow (planIdentity s owner ident) (plans d) = Inr r" "planOfRow S owner ident r = Inr (plan, client, request)"
  using assms selectRow_Inr [of "planIdentity s owner ident" "plans d"]
  by (auto simp: storedPlan_def split: sum.splits)

lemma replaced_fields [simp]:
  "pl_runtime_id (replaced p j r) = pl_runtime_id r" "pl_plan_id (replaced p j r) = pl_plan_id r"
  "pl_workspace_id (replaced p j r) = pl_workspace_id r" "pl_user_id (replaced p j r) = pl_user_id r"
  "pl_product_key (replaced p j r) = pl_product_key r" "pl_revision (replaced p j r) = planRevision p"
  "pl_status (replaced p j r) = planStatus p" "pl_client_id (replaced p j r) = pl_client_id r"
  "pl_request_sha256 (replaced p j r) = pl_request_sha256 r" "pl_created_at (replaced p j r) = pl_created_at r"
  by (simp_all add: replaced_def split: prod.splits)

lemma replaced_identity [simp]:
  "planIdentity s owner ident (replaced p j r) = planIdentity s owner ident r"
  "plan_key (replaced p j r) = plan_key r" "ownedBy owner (replaced p j r) = ownedBy owner r"
  by (simp_all add: planIdentity_def ownedBy_def plan_key_def)

definition replaceable :: "ScheduledPlanStore \<Rightarrow> ScheduledPlan \<Rightarrow> int \<Rightarrow> plan_row \<Rightarrow> bool" where
  "replaceable s plan expected r \<longleftrightarrow> planIdentity s (planOwner plan) (planID plan) r \<and> pl_revision r = expected"

lemma sql_replacePlan_eq:
  "sql_replacePlan s plan json expected = update_plans (replaceable s plan expected) (replaced plan json)"
  by (simp add: sql_replacePlan_def replaceable_def [abs_def])

lemma replaceable_le_one: "planKeys d \<Longrightarrow> matched (replaceable s plan expected) (plans d) \<le> 1"
  unfolding planKeys_def
  by (rule matched_le_one [where k = plan_key and x = "(psRuntimeID s, planID plan)"])
    (auto simp: replaceable_def dest: planIdentity_key)

text \<open>The outcomes of a replacement.\<close>

lemma storeReplace_cases:
  assumes keys: "planKeys (db w)" and replace: "storeReplaceScheduledPlan S s plan expected w = (q, w')"
  obtains (unchanged) "isl q" "db w' = db w"
  | (written) r json where "r \<in> set (plans (db w))" "replaceable s plan expected r"
      "scheduledPlanJSON S plan = Inr json"
      "db w' = (db w)\<lparr>plans := updateWhere (replaceable s plan expected) (replaced plan json) (plans (db w))\<rparr>"
      "\<And>stored. q = Inr stored \<Longrightarrow> storedPlan S s (db w') (planOwner plan) (planID plan) = Some stored"
proof (cases "scheduledPlanJSON S plan")
  case (Inl e)
  with replace show ?thesis
    by (intro unchanged) (auto simp: storeReplaceScheduledPlan_def bindE_def liftE_def)
next
  case (Inr json)
  obtain n w1 where n: "sqlCall (sql_replacePlan s plan json expected) w = (n, w1)" by fastforce
  show ?thesis
  proof (cases n)
    case (Inl e)
    with n have "db w1 = db w"
      by (auto simp: sql_replacePlan_eq go_unfold sql_unfold split: option.splits)
    with replace n Inl Inr show ?thesis
      by (intro unchanged) (auto simp: storeReplaceScheduledPlan_def bindE_def liftE_def)
  next
    case (Inr affected)
    then have d1: "affected = matched (replaceable s plan expected) (plans (db w))"
        "db w1 = (db w)\<lparr>plans := updateWhere (replaceable s plan expected) (replaced plan json) (plans (db w))\<rparr>"
      using n unfolding sql_replacePlan_eq by (auto simp: sql_unfold elim!: sqlCall_resultE)
    obtain g w2 where g: "getScheduledPlan S s (planOwner plan) (planID plan) w1 = (g, w2)" by fastforce
    have d2: "db w2 = db w1" using g by (rule readonlyD [OF readonly_getScheduledPlan])
    have result: "w' = w2" "affected \<noteq> 1 \<Longrightarrow> isl q"
        "affected = 1 \<Longrightarrow> q = (case g of Inl e \<Rightarrow> Inl e | Inr (p, _, _) \<Rightarrow> Inr p)"
      using replace n g Inr \<open>scheduledPlanJSON S plan = Inr json\<close>
      by (auto simp: storeReplaceScheduledPlan_def bindE_def liftE_def fail_def ret_def split: if_splits sum.splits prod.splits)
    show ?thesis
    proof (cases "affected = 1")
      case True
      then obtain r where "r \<in> set (plans (db w))" "replaceable s plan expected r"
        using d1(1) matched_pos [of "replaceable s plan expected" "plans (db w)"] by auto
      moreover have "storedPlan S s (db w') (planOwner plan) (planID plan) = Some stored" if qs: "q = Inr stored" for stored
      proof -
        obtain client request where "g = Inr (stored, client, request)"
          using result(3) [OF True] qs by (auto split: sum.splits)
        with g have "getScheduledPlan S s (planOwner plan) (planID plan) w1 = (Inr (stored, client, request), w2)" by simp
        then show ?thesis
          by (rule getScheduledPlan_Inr) (simp add: storedPlan_def result(1) d2)
      qed
      ultimately show ?thesis
        using written [of r json] \<open>scheduledPlanJSON S plan = Inr json\<close> result(1) d1(2) d2 by simp
    next
      case False
      then have "updateWhere (replaceable s plan expected) (replaced plan json) (plans (db w)) = plans (db w)"
        using d1(1) replaceable_le_one [OF keys, of s plan expected]
          matched_pos [of "replaceable s plan expected" "plans (db w)"]
        by (intro updateWhere_none) fastforce
      then show ?thesis using unchanged result(1) result(2) [OF False] d1(2) d2 by simp
    qed
  qed
qed

lemma written_row:
  assumes "planKeys d" "r \<in> set (plans d)" "replaceable s plan expected r"
    and "plans d' = updateWhere (replaceable s plan expected) (replaced plan json) (plans d)"
  shows "selectRow (planIdentity s (planOwner plan) (planID plan)) (plans d') = Inr (replaced plan json r)" "planKeys d'"
proof -
  show "planKeys d'" using assms(1,4) by (simp add: planKeys_def map_updateWhere)
  moreover have "replaced plan json r \<in> set (plans d')" using assms(2-4) by (auto simp: updateWhere_def)
  ultimately show "selectRow (planIdentity s (planOwner plan) (planID plan)) (plans d') = Inr (replaced plan json r)"
    using assms(3) by (intro planRow_unique) (simp_all add: replaceable_def)
qed

section \<open>Creating a plan\<close>

lemma planRow_identity:
  "planIdentity s (planOwner (recordPlan record)) (planID (recordPlan record)) (planRow s record json)"
  by (simp add: planIdentity_def planRow_def ownedBy_def Let_def split: prod.splits)

lemma planRow_key: "plan_key (planRow s record json) = (psRuntimeID s, planID (recordPlan record))"
  by (simp add: planRow_def plan_key_def Let_def split: prod.splits)

lemma storeCreate_stored:
  assumes "storeCreateScheduledPlan S s record w = (Inr (plan, replay), w')"
  obtains r where
    "selectRow (planIdentity s (planOwner (recordPlan record)) (planID (recordPlan record))) (plans (db w')) = Inr r"
    "planOfRow S (planOwner (recordPlan record)) (planID (recordPlan record)) r =
       Inr (plan, recordClientID record, recordRequestSHA256 record)"
proof -
  define owner where "owner = planOwner (recordPlan record)"
  define ident where "ident = planID (recordPlan record)"
  obtain w1 client request where g: "getScheduledPlan S s owner ident w1 = (Inr (plan, client, request), w')"
      and same: "client = recordClientID record" "request = recordRequestSHA256 record"
    using assms unfolding owner_def ident_def storeCreateScheduledPlan_def
    by (auto simp: Let_def attempt_def fail_def ret_def
        elim!: bindE_InrE split: prod.splits sum.splits if_splits)
  obtain r where r: "selectRow (planIdentity s owner ident) (plans (db w1)) = Inr r"
      "planOfRow S owner ident r = Inr (plan, client, request)" "db w' = db w1"
    using g by (rule getScheduledPlan_Inr)
  show thesis
    using r same unfolding owner_def ident_def by (intro that [of r]) simp_all
qed

lemma storeCreate_taken:
  assumes "healthy w" "scheduledPlanJSON S (recordPlan record) = Inr json"
    and "selectRow (planIdentity s (planOwner (recordPlan record)) (planID (recordPlan record))) (plans (db w)) = Inr r"
    and "planOfRow S (planOwner (recordPlan record)) (planID (recordPlan record)) r = Inr (plan, client, request)"
  shows "storeCreateScheduledPlan S s record w =
    (if client = recordClientID record \<and> request = recordRequestSHA256 record then Inr (plan, True)
     else Inl (Sentinel ErrScheduledPlanConflict), w\<lparr>calls := calls w + 2\<rparr>)"
proof -
  have "r \<in> set (plans (db w))" "plan_key r = (psRuntimeID s, planID (recordPlan record))"
    using selectRow_Inr [OF assms(3)] planIdentity_key by auto
  then have "plan_key (planRow s record json) \<in> set (map plan_key (plans (db w)))"
    by (auto simp: planRow_key intro: rev_image_eqI)
  then have "sqlCall (insert_ignore_plans (planRow s record json)) w = (Inr 0, w\<lparr>calls := Suc (calls w)\<rparr>)"
    using assms(1) by (simp add: sqlCall_healthy insert_ignore_plans_def)
  then show ?thesis
    using assms by (simp add: storeCreateScheduledPlan_def Let_def getScheduledPlan_healthy bindE_def liftE_def
        attempt_def fail_def ret_def)
qed

definition exOwner :: ScheduledPlanOwner where
  "exOwner = \<lparr>ownerWorkspaceID = ''w1'', ownerUserID = ''u1'', ownerProductKey = ''p1''\<rparr>"

definition exPlanTrigger :: ScheduledPlanTrigger where
  "exPlanTrigger = \<lparr>planTriggerType = ''recurring'', planTriggerAt = None,
     planTriggerSchedule = Some exSchedule, planTriggerPolicy = exPolicy\<rparr>"

definition exPlan :: "string \<Rightarrow> ScheduledPlan" where
  "exPlan ident = \<lparr>planID = ident, planName = ''Report'', planOwner = exOwner, planTimezone = ''UTC'',
     planTrigger = exPlanTrigger, planInput = ''{}'', planAllowedActions = [], planTarget = exTarget,
     planConversationID = [], planConversationRunID = [], planStatus = ''enabled'', planRevision = 1,
     planCreatedAt = exNoon, planUpdatedAt = exNoon\<rparr>"

definition exRecord :: "string \<Rightarrow> string \<Rightarrow> ScheduledPlanRecord" where
  "exRecord ident digest = \<lparr>recordPlan = exPlan ident, recordClientID = ''c1'', recordRequestSHA256 = digest\<rparr>"

definition exPlanStore :: ScheduledPlanStore where
  "exPlanStore = \<lparr>psRuntimeID = ''rt''\<rparr>"

definition exPlanRow :: "string \<Rightarrow> plan_row" where
  "exPlanRow ident = planRow exPlanStore (exRecord ident ''d1'') (''trigger'', ''actions'', ''target'')"

definition exPlanned :: database where
  "exPlanned = emptyDatabase\<lparr>plans := [exPlanRow ''plan_1'']\<rparr>"

lemma exRecord_simps [simp]:
  "recordPlan (exRecord ident digest) = exPlan ident" "recordClientID (exRecord ident digest) = ''c1''"
  "recordRequestSHA256 (exRecord ident digest) = digest" "planOwner (exPlan ident) = exOwner"
  "planID (exPlan ident) = ident" "planRevision (exPlan ident) = 1"
  by (simp_all add: exRecord_def exPlan_def)

lemma exPlanJSON [simp]: "scheduledPlanJSON exSdk plan = Inr (''trigger'', ''actions'', ''target'')"
  by (simp add: scheduledPlanJSON_def exSdk_def)

lemma exParse [simp]: "parseTime (formatTime exNoon) = exNoon"
  by (rule parseTime_formatTime) (simp_all add: exNoon_def unixEpoch_def second_def maxTime_def)

lemma exPlanOfRow: "planOfRow exSdk exOwner ident (exPlanRow ident) = Inr (exPlan ident, ''c1'', ''d1'')"
  by (simp add: planOfRow_def exPlanRow_def planRow_def exRecord_def exPlan_def exSdk_def exPlanTrigger_def
      nullable_def isBlank_def Let_def)

lemma exPlanStored:
  "selectRow (planIdentity exPlanStore exOwner ''plan_1'') (plans exPlanned) = Inr (exPlanRow ''plan_1'')"
  by (simp add: exPlanned_def selectRow_def exPlanRow_def planRow_def exRecord_def exPlan_def planIdentity_def
      ownedBy_def Let_def)

lemma exCreate:
  "storeCreateScheduledPlan exSdk exPlanStore (exRecord ''plan_1'' ''d1'') (exWorld emptyDatabase exNoon) =
    (Inr (exPlan ''plan_1'', False), (exWorld exPlanned exNoon)\<lparr>calls := 2\<rparr>)"
proof -
  have "sqlCall (insert_ignore_plans (exPlanRow ''plan_1'')) (exWorld emptyDatabase exNoon) =
      (Inr 1, (exWorld exPlanned exNoon)\<lparr>calls := 1\<rparr>)"
    by (simp add: go_unfold sql_unfold exWorld_def emptyDatabase_def exPlanned_def)
  moreover have "getScheduledPlan exSdk exPlanStore exOwner ''plan_1'' ((exWorld exPlanned exNoon)\<lparr>calls := 1\<rparr>) =
      (Inr (exPlan ''plan_1'', ''c1'', ''d1''), (exWorld exPlanned exNoon)\<lparr>calls := 2\<rparr>)"
    using exPlanStored exPlanOfRow by (simp add: getScheduledPlan_healthy) (simp add: exWorld_def)
  ultimately show ?thesis
    by (simp add: storeCreateScheduledPlan_def exPlanRow_def [symmetric] Let_def bindE_def liftE_def
        attempt_def fail_def ret_def)
qed

text \<open>
  Creating a scheduled plan is idempotent in the store. Once a creation has succeeded, and as long
  as the plan is not changed, a second creation of the same plan of the same owner returns the stored
  plan with the replay flag when it comes from the same client request (same client identifier and
  request digest) and is refused as a conflict otherwise; it never writes.
\<close>

theorem plan_created_once:
  assumes "storeCreateScheduledPlan S s record w = (Inr (plan, replay), w1)"
    and "plans (db w2) = plans (db w1)" "healthy w2"
    and "planOwner (recordPlan again) = planOwner (recordPlan record)" "planID (recordPlan again) = planID (recordPlan record)"
    and "scheduledPlanJSON S (recordPlan again) = Inr json"
  shows "storeCreateScheduledPlan S s again w2 =
    (if recordClientID again = recordClientID record \<and> recordRequestSHA256 again = recordRequestSHA256 record
     then Inr (plan, True) else Inl (Sentinel ErrScheduledPlanConflict), w2\<lparr>calls := calls w2 + 2\<rparr>)"
proof -
  obtain r where
    "selectRow (planIdentity s (planOwner (recordPlan record)) (planID (recordPlan record))) (plans (db w1)) = Inr r"
    "planOfRow S (planOwner (recordPlan record)) (planID (recordPlan record)) r =
       Inr (plan, recordClientID record, recordRequestSHA256 record)"
    using assms(1) by (rule storeCreate_stored)
  with assms show ?thesis by (auto simp: storeCreate_taken)
qed

theorem plan_created_once_witness:
  "storeCreateScheduledPlan exSdk exPlanStore (exRecord ''plan_1'' ''d1'') (exWorld exPlanned 5) =
     (Inr (exPlan ''plan_1'', True), (exWorld exPlanned 5)\<lparr>calls := 2\<rparr>) \<and>
   storeCreateScheduledPlan exSdk exPlanStore (exRecord ''plan_1'' ''d2'') (exWorld exPlanned 5) =
     (Inl (Sentinel ErrScheduledPlanConflict), (exWorld exPlanned 5)\<lparr>calls := 2\<rparr>)"
proof -
  have db: "plans (db (exWorld exPlanned 5)) = plans (db ((exWorld exPlanned exNoon)\<lparr>calls := 2\<rparr>))"
    and calls: "calls (exWorld exPlanned 5) = 0"
    by (simp_all add: exWorld_def)
  show ?thesis
    using plan_created_once [OF exCreate db, of "exRecord ''plan_1'' ''d1''"]
      plan_created_once [OF exCreate db, of "exRecord ''plan_1'' ''d2''"] calls
    by simp
qed

section \<open>Updating by compare-and-swap\<close>

lemma replaceable_moved:
  fixes d' :: database
  assumes keys: "planKeys d" and r: "r \<in> set (plans d)" "replaceable s plan expected r"
    and moved: "plans d' = updateWhere (replaceable s plan expected) (replaced plan json) (plans d)"
    and new: "planRevision plan \<noteq> expected" "planOwner plan' = planOwner plan" "planID plan' = planID plan"
    and q: "q \<in> set (plans d')"
  shows "\<not> replaceable s plan' expected q"
proof
  assume again: "replaceable s plan' expected q"
  note row = written_row [OF keys r moved]
  have "selectRow (planIdentity s (planOwner plan) (planID plan)) (plans d') = Inr q"
    using row(2) q again new by (intro planRow_unique) (simp_all add: replaceable_def)
  with row(1) have "q = replaced plan json r" by simp
  with again new show False by (simp add: replaceable_def)
qed

lemma storeReplace_stale:
  assumes stale: "\<And>r. r \<in> set (plans (db w)) \<Longrightarrow> \<not> replaceable s plan expected r"
    and replace: "storeReplaceScheduledPlan S s plan expected w = (q, w')"
  shows "isl q" "db w' = db w"
proof -
  have "updateWhere (replaceable s plan expected) (replaced plan json) (plans (db w)) = plans (db w)"
      "matched (replaceable s plan expected) (plans (db w)) = 0" for json
    using stale by (auto simp: updateWhere_none matched_zero)
  then have none: "sql_replacePlan s plan json expected (db w) = (Inr 0, db w)" for json
    by (simp add: sql_replacePlan_eq sql_unfold)
  obtain j where j: "scheduledPlanJSON S plan = j" by simp
  have "isl q \<and> db w' = db w"
  proof (cases j)
    case (Inl e)
    with replace j show ?thesis by (auto simp: storeReplaceScheduledPlan_def bindE_def liftE_def)
  next
    case (Inr json)
    obtain n w1 where n: "sqlCall (sql_replacePlan s plan json expected) w = (n, w1)" by fastforce
    have d1: "db w1 = db w" "\<And>k. n = Inr k \<Longrightarrow> k = 0"
      using n none by (auto simp: sqlCall_def bindE_def envCall_def split: option.splits)
    obtain g w2 where g: "getScheduledPlan S s (planOwner plan) (planID plan) w1 = (g, w2)" by fastforce
    then have d2: "db w2 = db w1" by (rule readonlyD [OF readonly_getScheduledPlan])
    show ?thesis
      using replace j Inr n d1 g d2
      by (cases n) (auto simp: storeReplaceScheduledPlan_def bindE_def liftE_def fail_def ret_def split: sum.splits)
  qed
  then show "isl q" "db w' = db w" by auto
qed

lemma storeReplace_healthy_stale:
  assumes "healthy w" "scheduledPlanJSON S plan = Inr json"
    and stale: "\<And>r. r \<in> set (plans (db w)) \<Longrightarrow> \<not> replaceable s plan expected r"
    and "storedPlan S s (db w) (planOwner plan) (planID plan) = Some current"
  shows "storeReplaceScheduledPlan S s plan expected w =
    (Inl (Sentinel ErrScheduledPlanConflict), w\<lparr>calls := calls w + 2\<rparr>)"
proof -
  have "updateWhere (replaceable s plan expected) (replaced plan json) (plans (db w)) = plans (db w)"
      "matched (replaceable s plan expected) (plans (db w)) = 0"
    using stale by (auto simp: updateWhere_none matched_zero)
  then have "sqlCall (sql_replacePlan s plan json expected) w = (Inr 0, w\<lparr>calls := Suc (calls w)\<rparr>)"
    using assms(1) by (simp add: sqlCall_healthy sql_replacePlan_eq sql_unfold)
  moreover from assms(4) obtain r client request where
      "selectRow (planIdentity s (planOwner plan) (planID plan)) (plans (db w)) = Inr r"
      "planOfRow S (planOwner plan) (planID plan) r = Inr (current, client, request)"
    by (rule storedPlanE)
  ultimately show ?thesis
    using assms(1,2) by (simp add: storeReplaceScheduledPlan_def bindE_def liftE_def getScheduledPlan_healthy fail_def)
qed


text \<open>The example plan renamed, and what the update leaves.\<close>

definition exRenamed :: "string \<Rightarrow> ScheduledPlan" where
  "exRenamed name = (exPlan ''plan_1'')\<lparr>planName := name, planRevision := 2\<rparr>"

definition exRenamedRow :: plan_row where
  "exRenamedRow = replaced (exRenamed ''Renamed'') (''trigger'', ''actions'', ''target'') (exPlanRow ''plan_1'')"

definition exUpdated :: database where
  "exUpdated = exPlanned\<lparr>plans := [exRenamedRow]\<rparr>"

lemma exPlanRow_fields [simp]:
  "pl_runtime_id (exPlanRow ident) = ''rt''" "pl_plan_id (exPlanRow ident) = ident"
  "pl_revision (exPlanRow ident) = 1" "pl_status (exPlanRow ident) = ''enabled''"
  "ownedBy exOwner (exPlanRow ident)"
  by (simp_all add: exPlanRow_def planRow_def exRecord_def exPlan_def exPlanStore_def ownedBy_def Let_def)

lemma exRenamed_simps [simp]:
  "planOwner (exRenamed name) = exOwner" "planID (exRenamed name) = ''plan_1''" "planRevision (exRenamed name) = 2"
  by (simp_all add: exRenamed_def)

lemma exRenamedStored:
  "selectRow (planIdentity exPlanStore exOwner ''plan_1'') (plans exUpdated) = Inr exRenamedRow"
  "planOfRow exSdk exOwner ''plan_1'' exRenamedRow = Inr (exRenamed ''Renamed'', ''c1'', ''d1'')"
proof -
  show "selectRow (planIdentity exPlanStore exOwner ''plan_1'') (plans exUpdated) = Inr exRenamedRow"
    by (simp add: exUpdated_def selectRow_def exRenamedRow_def planIdentity_def exPlanStore_def)
  show "planOfRow exSdk exOwner ''plan_1'' exRenamedRow = Inr (exRenamed ''Renamed'', ''c1'', ''d1'')"
    by (simp add: planOfRow_def exRenamedRow_def replaced_def exRenamed_def exPlanRow_def planRow_def exRecord_def
        exPlan_def exSdk_def exPlanTrigger_def nullable_def isBlank_def Let_def)
qed

lemma exReplace:
  "storeReplaceScheduledPlan exSdk exPlanStore (exRenamed ''Renamed'') 1 (exWorld exPlanned exNoon) =
    (Inr (exRenamed ''Renamed''), (exWorld exUpdated exNoon)\<lparr>calls := 2\<rparr>)"
proof -
  have "replaceable exPlanStore (exRenamed ''Renamed'') 1 (exPlanRow ''plan_1'')"
    by (simp add: replaceable_def planIdentity_def exPlanStore_def)
  then have "sqlCall (sql_replacePlan exPlanStore (exRenamed ''Renamed'') (''trigger'', ''actions'', ''target'') 1)
      (exWorld exPlanned exNoon) = (Inr 1, (exWorld exUpdated exNoon)\<lparr>calls := 1\<rparr>)"
    by (simp add: sqlCall_healthy sql_replacePlan_eq sql_unfold) (simp add: exWorld_def exPlanned_def exUpdated_def exRenamedRow_def)
  moreover have "getScheduledPlan exSdk exPlanStore exOwner ''plan_1'' ((exWorld exUpdated exNoon)\<lparr>calls := 1\<rparr>) =
      (Inr (exRenamed ''Renamed'', ''c1'', ''d1''), (exWorld exUpdated exNoon)\<lparr>calls := 2\<rparr>)"
    using exRenamedStored by (simp add: getScheduledPlan_healthy) (simp add: exWorld_def)
  ultimately show ?thesis
    by (simp add: storeReplaceScheduledPlan_def bindE_def liftE_def ret_def)
qed


section \<open>Owners\<close>

text \<open>The plans of everybody else, and every other table, in a database.\<close>

definition foreignPlans :: "ScheduledPlanStore \<Rightarrow> ScheduledPlanOwner \<Rightarrow> database \<Rightarrow> plan_row list" where
  "foreignPlans s owner d = filter (\<lambda>r. \<not> (pl_runtime_id r = psRuntimeID s \<and> ownedBy owner r)) (plans d)"

definition ownerOnly :: "ScheduledPlanStore \<Rightarrow> ScheduledPlanOwner \<Rightarrow> database \<Rightarrow> database \<Rightarrow> bool" where
  "ownerOnly s owner d d' \<longleftrightarrow> foreignPlans s owner d' = foreignPlans s owner d \<and> d' = d\<lparr>plans := plans d'\<rparr>"

lemma ownerOnly_trans: "ownerOnly s owner a b \<Longrightarrow> ownerOnly s owner b c \<Longrightarrow> ownerOnly s owner a c"
  by (cases a; cases b; cases c) (simp add: ownerOnly_def)

interpretation owners: db_order "ownerOnly s owner" for s owner
proof
  fix a b c :: database
  show "ownerOnly s owner a a" by (simp add: ownerOnly_def)
  show "ownerOnly s owner a b \<Longrightarrow> ownerOnly s owner b c \<Longrightarrow> ownerOnly s owner a c"
    by (rule ownerOnly_trans)
qed

lemma ownerOnly_create:
  "moves (ownerOnly s (planOwner (recordPlan record))) P (sqlCall (insert_ignore_plans (planRow s record json)))"
proof (rule owners.moves_sqlCall)
  fix d d' :: database and r
  assume "insert_ignore_plans (planRow s record json) d = (r, d')"
  then show "ownerOnly s (planOwner (recordPlan record)) d d'"
    using planRow_identity [of s "record" json]
    by (auto simp: sql_unfold ownerOnly_def foreignPlans_def planIdentity_def split: if_splits)
qed

lemma ownerOnly_replace:
  "moves (ownerOnly s (planOwner plan)) P (sqlCall (sql_replacePlan s plan json expected))"
proof (rule owners.moves_sqlCall)
  fix d d' :: database and r
  assume "sql_replacePlan s plan json expected d = (r, d')"
  then have "d' = d\<lparr>plans := updateWhere (replaceable s plan expected) (replaced plan json) (plans d)\<rparr>"
    by (auto simp: sql_replacePlan_eq sql_unfold)
  moreover have "filter (\<lambda>r. \<not> (pl_runtime_id r = psRuntimeID s \<and> ownedBy (planOwner plan) r))
      (updateWhere (replaceable s plan expected) (replaced plan json) (plans d)) = foreignPlans s (planOwner plan) d"
    unfolding foreignPlans_def by (rule filter_updateWhere) (auto simp: replaceable_def planIdentity_def)
  ultimately show "ownerOnly s (planOwner plan) d d'"
    by (simp add: ownerOnly_def) (simp add: foreignPlans_def)
qed

text \<open>
  Neither creating nor replacing a plan reaches a plan of another owner or of another Runtime, nor
  any other table: whatever the calls answer, the rows of everybody but the plan's owner are the same
  afterwards, in the same order.
\<close>

theorem plan_writes_stay_with_owner:
  "ownerOnly s (planOwner (recordPlan record)) (db w) (db (snd (storeCreateScheduledPlan S s record w))) \<and>
   ownerOnly s (planOwner plan) (db w) (db (snd (storeReplaceScheduledPlan S s plan expected w)))"
proof -
  have "moves (ownerOnly s (planOwner (recordPlan record))) (\<lambda>_. True) (storeCreateScheduledPlan S s record)"
    unfolding storeCreateScheduledPlan_def Let_def
    by (intro owners.moves_intros ownerOnly_create owners.moves_readonly readonly_intros)
  moreover have "moves (ownerOnly s (planOwner plan)) (\<lambda>_. True) (storeReplaceScheduledPlan S s plan expected)"
    unfolding storeReplaceScheduledPlan_def
    by (intro owners.moves_intros ownerOnly_replace owners.moves_readonly readonly_intros)
  ultimately show ?thesis by (simp add: moves_def)
qed

section \<open>Pages\<close>

text \<open>The identifiers of all plans a query asks for, from its cursor on, in order.\<close>

definition listedIDs :: "Sdk \<Rightarrow> ScheduledPlanStore \<Rightarrow> ScheduledPlanList \<Rightarrow> database \<Rightarrow> string list" where
  "listedIDs S s inp d = map pl_plan_id (ascending pl_plan_id (filter (listed S s inp) (plans d)))"

lemma listedIDs_set: "set (listedIDs S s inp d) = pl_plan_id ` {r \<in> set (plans d). listed S s inp r}"
  by (simp add: listedIDs_def)

lemma listedIDs_strict:
  assumes "planKeys d"
  shows "sorted_wrt (<) (listedIDs S s inp d)"
proof -
  have "distinct (map pl_plan_id (filter (listed S s inp) (plans d)))"
    using assms distinct_map [of plan_key "plans d"]
    by (auto simp: planKeys_def distinct_map inj_on_def plan_key_def listed_def)
  then have "distinct (listedIDs S s inp d)"
    by (simp add: listedIDs_def ascending_def distinct_map inj_on_def)
  then show ?thesis
    by (simp add: listedIDs_def ascending_def strict_sorted_iff)
qed

lemma pageIDs_take: "0 \<le> limit \<Longrightarrow> pageIDs S s inp limit d = take (Suc (nat limit)) (listedIDs S s inp d)"
  by (simp add: pageIDs_def listedIDs_def limitRows_def take_map nat_add_distrib)

lemma strict_sorted_greater:
  fixes y :: "'a :: linorder"
  assumes "sorted_wrt (<) (xs @ y # ys)"
  shows "filter (\<lambda>z. y < z) (xs @ y # ys) = ys"
  using assms by (auto simp: sorted_wrt_append filter_empty_conv filter_id_conv order_less_not_sym)

text \<open>The identifiers after one of them are what the query with that cursor lists.\<close>

lemma listedIDs_after:
  assumes keys: "planKeys d" and ids: "listedIDs S s inp d = xs @ y # ys" and "y \<noteq> []"
  shows "listedIDs S s (inp\<lparr>listCursor := y\<rparr>) d = ys"
proof (rule strict_sorted_equal)
  show "sorted_wrt (<) (listedIDs S s (inp\<lparr>listCursor := y\<rparr>) d)" using keys by (rule listedIDs_strict)
  have sorted: "sorted_wrt (<) (xs @ y # ys)" using listedIDs_strict [OF keys, of S s inp] ids by simp
  then show "sorted_wrt (<) ys" by (simp add: sorted_wrt_append)
  have "y \<in> set (listedIDs S s inp d)" using ids by simp
  then have "listCursor inp = [] \<or> listCursor inp < y" by (auto simp: listedIDs_set listed_def)
  then have "set (listedIDs S s (inp\<lparr>listCursor := y\<rparr>) d) = {z \<in> set (listedIDs S s inp d). y < z}"
    using \<open>y \<noteq> []\<close> by (auto simp: listedIDs_set listed_def)
  also have "\<dots> = set ys"
    using strict_sorted_greater [OF sorted] unfolding ids by (metis set_filter)
  finally show "set (listedIDs S s (inp\<lparr>listCursor := y\<rparr>) d) = set ys" .
qed

lemma mapE_getScheduledPlan:
  assumes "mapE (\<lambda>ident. bindE (getScheduledPlan S s owner ident) (\<lambda>(plan, _, _). ret plan)) ids w = (Inr items, w')"
  shows "map planID items = ids"
proof -
  have "map planID items = map (\<lambda>ident. ident) ids"
    using assms
    by (rule mapE_map) (auto elim!: bindE_InrE ret_InrE getScheduledPlan_Inr dest: planOfRow_fields(1) split: prod.splits)
  then show ?thesis by simp
qed

lemma pageLimit_bounds: "1 \<le> pageLimit n" "pageLimit n \<le> 100"
  by (simp_all add: pageLimit_def)

text \<open>
  C30. Following the page cursors lists every plan of the query exactly once, in the order of the
  identifiers: what a page returns, followed by what the query returns from the page's next cursor on
  (nothing when there is none), is what the query asked for. A page holds at most the limit and never
  more than 100 plans, and it is full when there is a next one.
\<close>

theorem pages_list_every_plan:
  assumes "planKeys (db w)" "[] \<notin> pl_plan_id ` set (plans (db w))"
    and "storeListScheduledPlans S s inp w = (Inr page, w')"
  shows "listedIDs S s inp (db w) = map planID (pageItems page) @
      (if pageNextCursor page = [] then [] else listedIDs S s (inp\<lparr>listCursor := pageNextCursor page\<rparr>) (db w)) \<and>
    sorted_wrt (<) (listedIDs S s inp (db w)) \<and> int (length (pageItems page)) \<le> pageLimit (listLimit inp) \<and>
    pageLimit (listLimit inp) \<le> 100 \<and>
    (pageNextCursor page \<noteq> [] \<longrightarrow> int (length (pageItems page)) = pageLimit (listLimit inp))"
proof -
  define all where "all = listedIDs S s inp (db w)"
  define n where "n = nat (pageLimit (listLimit inp))"
  have n: "0 < n" "int n = pageLimit (listLimit inp)" using pageLimit_bounds [of "listLimit inp"] by (auto simp: n_def)
  define ids where "ids = take n all"
  have query: "pageIDs S s inp (pageLimit (listLimit inp)) (db w) = take (Suc n) all"
    using pageIDs_take [of "pageLimit (listLimit inp)" S s inp "db w"] n by (simp add: all_def n_def)
  have more: "pageLimit (listLimit inp) < int (length (take (Suc n) all)) \<longleftrightarrow> n < length all"
    using n(2) by (auto simp: min_def)
  have page: "map planID (pageItems page) = ids" "pageNextCursor page = (if n < length all then last ids else [])"
    using assms(3) n(2) unfolding storeListScheduledPlans_def Let_def
    by (auto simp: query more ids_def n_def [symmetric] dest: mapE_getScheduledPlan
        elim!: bindE_InrE sqlQuery_InrE ret_InrE split: if_splits)
  have full: "length (pageItems page) = min n (length all)"
    using arg_cong [OF page(1), of length] by (simp add: ids_def)
  then have len: "int (length (pageItems page)) \<le> pageLimit (listLimit inp)" using n by simp
  show ?thesis
  proof (cases "n < length all")
    case True
    then have split: "all = butlast ids @ last ids # drop n all"
      using n(1) ids_def by (metis append_butlast_last_id append_Cons append_assoc append_take_drop_id
          append_self_conv2 length_greater_0_conv length_take min_less_iff_conj order_less_trans)
    have "last ids \<in> set all" by (subst split) simp
    then have cursor: "last ids \<noteq> []" using assms(2) by (auto simp: all_def listedIDs_set)
    have "listedIDs S s (inp\<lparr>listCursor := last ids\<rparr>) (db w) = drop n all"
      using listedIDs_after [OF assms(1) split [unfolded all_def] cursor] by (simp add: all_def)
    then show ?thesis
      using True cursor page ids_def len pageLimit_bounds(2) listedIDs_strict [OF assms(1), of S s inp] n full
      by (simp add: all_def)
  next
    case False
    then show ?thesis
      using page ids_def len pageLimit_bounds(2) listedIDs_strict [OF assms(1), of S s inp] by (simp add: all_def)
  qed
qed

definition exTwoPlans :: database where
  "exTwoPlans = emptyDatabase\<lparr>plans := [exPlanRow ''plan_2'', exPlanRow ''plan_1'']\<rparr>"

definition exQuery :: ScheduledPlanList where
  "exQuery = \<lparr>listOwner = exOwner, listStatus = [], listCursor = [], listLimit = 1\<rparr>"

lemma exIDs: "listedIDs exSdk exPlanStore exQuery exTwoPlans = [''plan_1'', ''plan_2'']"
  by (simp add: listedIDs_def exTwoPlans_def listed_def exQuery_def exPlanStore_def ascending_def exSdk_def)

lemma exPage:
  "storeListScheduledPlans exSdk exPlanStore exQuery (exWorld exTwoPlans exNoon) =
    (Inr \<lparr>pageItems = [exPlan ''plan_1''], pageNextCursor = ''plan_1''\<rparr>, (exWorld exTwoPlans exNoon)\<lparr>calls := 3\<rparr>)"
proof -
  have "selectRow (planIdentity exPlanStore exOwner ''plan_1'') (plans exTwoPlans) = Inr (exPlanRow ''plan_1'')"
    by (simp add: exTwoPlans_def selectRow_def planIdentity_def exPlanStore_def)
  then have "getScheduledPlan exSdk exPlanStore exOwner ''plan_1'' ((exWorld exTwoPlans exNoon)\<lparr>calls := 2\<rparr>) =
      (Inr (exPlan ''plan_1'', ''c1'', ''d1''), (exWorld exTwoPlans exNoon)\<lparr>calls := 3\<rparr>)"
    using exPlanOfRow [of "''plan_1''"] by (simp add: getScheduledPlan_healthy) (simp add: exWorld_def)
  moreover have "pageIDs exSdk exPlanStore exQuery 1 exTwoPlans = [''plan_1'', ''plan_2'']"
    using pageIDs_take [of 1 exSdk exPlanStore exQuery exTwoPlans] exIDs by simp
  moreover have "pageLimit (listLimit exQuery) = 1" "listOwner exQuery = exOwner"
    by (simp_all add: pageLimit_def exQuery_def)
  ultimately show ?thesis
    by (simp add: storeListScheduledPlans_def go_unfold) (simp add: exWorld_def bindE_def ret_def numeral_2_eq_2)
qed

theorem pages_list_every_plan_witness:
  "listedIDs exSdk exPlanStore exQuery exTwoPlans =
    [''plan_1''] @ listedIDs exSdk exPlanStore (exQuery\<lparr>listCursor := ''plan_1''\<rparr>) exTwoPlans"
proof -
  have "db (exWorld exTwoPlans exNoon) = exTwoPlans" by (simp add: exWorld_def)
  moreover have "planKeys exTwoPlans" "[] \<notin> pl_plan_id ` set (plans exTwoPlans)"
    by (simp_all add: planKeys_def exTwoPlans_def plan_key_def)
  ultimately show ?thesis
    using pages_list_every_plan [OF _ _ exPage] by simp
qed

end
