(* ===== verification/Scheduled_Plans.thy ===== *)
theory Scheduled_Plans
  imports Plan_Store Run_Store
begin

text \<open>
  The application service of scheduled plans, \<^verbatim>\<open>scheduled_plans.go\<close> and \<^verbatim>\<open>scheduled_plan_receipt.go\<close>:
  it normalises and validates what callers send, stores plans through the interface
  \<^verbatim>\<open>ScheduledPlanRepository\<close>, and projects every stored plan to a definition state of the run store,
  through the interface \<^verbatim>\<open>scheduledPlanRunProjector\<close>.

  The two interfaces are records of operations; \<open>planService\<close> fills them with the database stores.
  A nil repository, and a run store without the projector, are \<open>None\<close>. Decoding a JSON object and
  encoding it again (with numbers kept as they are) is the argument \<open>canonicalObject\<close>.
\<close>

section \<open>Interfaces\<close>

record PlanRepository =
  repoCreate :: "ScheduledPlanRecord \<Rightarrow> (ScheduledPlan \<times> bool) dbop"
  repoGet :: "ScheduledPlanOwner \<Rightarrow> string \<Rightarrow> ScheduledPlan dbop"
  repoList :: "ScheduledPlanList \<Rightarrow> ScheduledPlanPage dbop"
  repoReplace :: "ScheduledPlan \<Rightarrow> int \<Rightarrow> ScheduledPlan dbop"

record PlanService =
  svcRuntimeID :: string
  svcPlans :: "PlanRepository option"
  svcRecovery :: "(string \<Rightarrow> int \<Rightarrow> ScheduledPlan list dbop) option"
  svcProjector :: "(Definition \<Rightarrow> time \<Rightarrow> bool \<Rightarrow> unit dbop) option"

definition planRepository :: "Sdk \<Rightarrow> ScheduledPlanStore \<Rightarrow> PlanRepository" where
  "planRepository S s = \<lparr>repoCreate = storeCreateScheduledPlan S s, repoGet = storeGetScheduledPlan S s,
     repoList = storeListScheduledPlans S s, repoReplace = storeReplaceScheduledPlan S s\<rparr>"

definition planService :: "Sdk \<Rightarrow> ScheduledPlanStore \<Rightarrow> Store \<Rightarrow> string \<Rightarrow> PlanService" where
  "planService S s runStore runtime = \<lparr>svcRuntimeID = runtime, svcPlans = Some (planRepository S s),
     svcRecovery = Some (ListScheduledPlansForRecovery S s), svcProjector = Some (ReconcileScheduledPlan S runStore)\<rparr>"

section \<open>Normalisation\<close>

definition scheduledPlanDefinitionPrefix :: string where
  "scheduledPlanDefinitionPrefix = ''scheduled-plan:''"

definition normalizeScheduledPlanOwner :: "ScheduledPlanOwner \<Rightarrow> ScheduledPlanOwner" where
  "normalizeScheduledPlanOwner v =
     \<lparr>ownerWorkspaceID = trimSpace (ownerWorkspaceID v), ownerUserID = trimSpace (ownerUserID v),
      ownerProductKey = trimSpace (ownerProductKey v)\<rparr>"

definition scheduledPlanID :: "string \<Rightarrow> ScheduledPlanOwner \<Rightarrow> string \<Rightarrow> string" where
  "scheduledPlanID runtime owner client =
     ''plan_'' @ hexEncode (take 16 (sha256 (trimSpace runtime @ [CHR 0x00] @ ownerWorkspaceID owner @ [CHR 0x00] @
       ownerUserID owner @ [CHR 0x00] @ ownerProductKey owner @ [CHR 0x00] @ trimSpace client)))"

text \<open>
  The bytes of a key. The runes a byte below 0x21 or equal to 0x7F stands for are the ASCII ones, so
  the loop over runes is a loop over bytes.
\<close>

definition scheduledPlanManagementKey :: "string \<Rightarrow> bool" where
  "scheduledPlanManagementKey value \<longleftrightarrow>
     value \<noteq> [] \<and> length value \<le> 191 \<and> trimSpace value = value \<and>
     list_all (\<lambda>c. (0x21 :: nat) \<le> of_char c \<and> of_char c \<noteq> (0x7F :: nat)) value"

definition normalizeScheduledPlanPolicy :: "Sdk \<Rightarrow> string \<Rightarrow> Policy \<Rightarrow> Policy" where
  "normalizeScheduledPlanPolicy S triggerType p =
     p\<lparr>policyMisfire := (let m = trimSpace (policyMisfire p) in
          if m \<noteq> [] then m else if triggerType = planTriggerOnce S then planMisfireCatchOne S else planMisfireSkip S),
       policyMisfireGrace := (if policyMisfireGrace p = 0 then minute else policyMisfireGrace p),
       policyMaxAttempts := (if policyMaxAttempts p = 0 then 3 else policyMaxAttempts p),
       policyRetryInitial := (if policyRetryInitial p = 0 then 30 * second else policyRetryInitial p),
       policyRetryMax := (if policyRetryMax p = 0 then 15 * minute else policyRetryMax p),
       policyTimeout := (if policyTimeout p = 0 then 5 * minute else policyTimeout p)\<rparr>"

definition normalizePlanSchedule :: "string \<Rightarrow> Schedule \<Rightarrow> Schedule" where
  "normalizePlanSchedule timezone rule =
     rule\<lparr>scheduleType := trimSpace (scheduleType rule), scheduleExpression := trimSpace (scheduleExpression rule),
          scheduleTimezone := trimSpace (if isBlank (scheduleTimezone rule) then timezone else scheduleTimezone rule),
          scheduleTimeOfDay := trimSpace (scheduleTimeOfDay rule),
          scheduleDayOfWeek := trimSpace (scheduleDayOfWeek rule)\<rparr>"

definition normalizePlanTarget :: "Sdk \<Rightarrow> TargetRef \<Rightarrow> TargetRef" where
  "normalizePlanTarget S target0 =
     (let t = normalizeTarget S target0 in
      t\<lparr>targetOwner := trimSpace (targetOwner t), targetOperation := trimSpace (targetOperation t),
        targetConnectionKey := trimSpace (targetConnectionKey t),
        targetDispatchMode := trimSpace (targetDispatchMode t)\<rparr>)"

definition normalizeScheduledPlanCreate ::
  "Sdk \<Rightarrow> (string \<Rightarrow> goerr + string) \<Rightarrow> ScheduledPlanCreate \<Rightarrow> goerr + ScheduledPlanCreate" where
  "normalizeScheduledPlanCreate S canonicalObject v =
     (let timezone = trimSpace (createTimezone v); trigger = createTrigger v;
          triggerType = trimSpace (planTriggerType trigger);
          status = trimSpace (createStatus v)
      in case canonicalObject (createInput v) of Inl e \<Rightarrow> Inl e | Inr inp \<Rightarrow>
      Inr \<lparr>createClientID = trimSpace (createClientID v), createName = trimSpace (createName v),
           createOwner = normalizeScheduledPlanOwner (createOwner v), createTimezone = timezone,
           createTrigger = \<lparr>planTriggerType = triggerType, planTriggerAt = planTriggerAt trigger,
             planTriggerSchedule = map_option (normalizePlanSchedule timezone) (planTriggerSchedule trigger),
             planTriggerPolicy = normalizeScheduledPlanPolicy S triggerType (planTriggerPolicy trigger)\<rparr>,
           createInput = inp, createAllowedActions = sort (map trimSpace (createAllowedActions v)),
           createTarget = normalizePlanTarget S (createTarget v),
           createConversationID = trimSpace (createConversationID v),
           createConversationRunID = trimSpace (createConversationRunID v),
           createStatus = (if status = [] then planStatusEnabled S else status)\<rparr>)"

definition normalizeScheduledPlanMutation ::
  "Sdk \<Rightarrow> ScheduledPlanOwner \<Rightarrow> string \<Rightarrow> int \<Rightarrow> goerr + (ScheduledPlanOwner \<times> string)" where
  "normalizeScheduledPlanMutation S owner0 ident0 revision =
     (let owner = normalizeScheduledPlanOwner owner0; ident = trimSpace ident0 in
      case validateOwner S owner of Some e \<Rightarrow> Inl e | None \<Rightarrow>
      if \<not> scheduledPlanManagementKey ident \<or> revision < 1
      then Inl (Annotatef (Sentinel ErrScheduledPlanInvalid) '': plan ID and positive expected revision are required'')
      else Inr (owner, ident))"

definition scheduledPlanMutableEqual :: "ScheduledPlan \<Rightarrow> ScheduledPlan \<Rightarrow> bool" where
  "scheduledPlanMutableEqual l r \<longleftrightarrow>
     planName l = planName r \<and> planTimezone l = planTimezone r \<and> planTrigger l = planTrigger r \<and>
     planInput l = planInput r \<and> planAllowedActions l = planAllowedActions r \<and> planTarget l = planTarget r \<and>
     planConversationID l = planConversationID r \<and> planConversationRunID l = planConversationRunID r \<and>
     planStatus l = planStatus r"

section \<open>Projection\<close>

text \<open>The definition a plan is projected to, and its first instant.\<close>

definition planDefinition :: "Sdk \<Rightarrow> ScheduledPlan \<Rightarrow> string \<Rightarrow> Schedule \<Rightarrow> Definition" where
  "planDefinition S plan payload rule =
     \<lparr>defKey = scheduledPlanDefinitionPrefix @ planID plan, defName = planName plan, defStatus = planStatus plan,
      defRevision = formatInt (planRevision plan), defSchedule = rule,
      defPolicy = normalizeScheduledPlanPolicy S (planTriggerType (planTrigger plan)) (planTriggerPolicy (planTrigger plan)),
      defTarget = (normalizeTarget S (planTarget plan))\<lparr>targetPayload := payload\<rparr>,
      defInitialNextRunAt = 0, defDescription = [], defI18n = [], defRest = []\<rparr>"

definition planSchedule :: "Sdk \<Rightarrow> ScheduledPlan \<Rightarrow> goerr + (Schedule \<times> time)" where
  "planSchedule S plan =
     (let trigger = planTrigger plan in
      if planTriggerType trigger = planTriggerOnce S then
        (case planTriggerAt trigger of
           None \<Rightarrow> Inl (Errorf (''project scheduled plan '' @ planID plan @ '': missing one-time instant''))
         | Some at \<Rightarrow> Inr (\<lparr>scheduleType = ''once'', scheduleExpression = formatRFC3339Nano at,
             scheduleTimezone = planTimezone plan, scheduleTimeOfDay = [], scheduleDayOfWeek = [],
             scheduleIntervalSeconds = 0, scheduleDayOfMonth = 0, scheduleRest = []\<rparr>, at))
      else if planTriggerType trigger = planTriggerRecurring S then
        (case planTriggerSchedule trigger of
           None \<Rightarrow> Inl (Errorf (''project scheduled plan '' @ planID plan @ '': missing recurring schedule''))
         | Some rule \<Rightarrow>
             let anchor = (if planRevision plan > 1 \<and> planUpdatedAt plan \<noteq> 0 then planUpdatedAt plan else planCreatedAt plan)
             in Inr (rule, nextSchedule S rule anchor))
      else Inl (Errorf (''project scheduled plan '' @ planID plan @ '': invalid trigger type'')))"

definition planDispatch :: "ScheduledPlan \<Rightarrow> ScheduledPlanDispatch" where
  "planDispatch plan =
     \<lparr>dispatchPlanID = planID plan, dispatchOwner = planOwner plan, dispatchInput = planInput plan,
      dispatchAllowedActions = planAllowedActions plan, dispatchConversationID = planConversationID plan,
      dispatchConversationRunID = planConversationRunID plan\<rparr>"

definition projectScheduledPlan :: "Sdk \<Rightarrow> PlanService \<Rightarrow> ScheduledPlan \<Rightarrow> unit dbop" where
  "projectScheduledPlan S b plan =
     (case svcProjector b of None \<Rightarrow> fail (Errorf ''Scheduler run store cannot project scheduled plans'')
      | Some project \<Rightarrow>
        bindE (liftE (marshalDispatch S (planDispatch plan))) (\<lambda>payload.
        bindE (liftE (planSchedule S plan)) (\<lambda>(rule, nxt).
        attempt (project (planDefinition S plan payload rule) nxt (planStatus plan = planStatusEnabled S)) (\<lambda>q.
        case q of
          Inl e \<Rightarrow> fail (Wrapf (''project scheduled plan '' @ planID plan @ '': '') e)
        | Inr _ \<Rightarrow> ret ()))))"

section \<open>Operations\<close>

definition plansUnavailable :: goerr where
  "plansUnavailable = Errorf ''Scheduler plan repository is unavailable''"

definition newPlan :: "string \<Rightarrow> ScheduledPlanCreate \<Rightarrow> time \<Rightarrow> ScheduledPlan" where
  "newPlan runtime v now =
     \<lparr>planID = scheduledPlanID runtime (createOwner v) (createClientID v), planName = createName v,
      planOwner = createOwner v, planTimezone = createTimezone v, planTrigger = createTrigger v,
      planInput = createInput v, planAllowedActions = createAllowedActions v, planTarget = createTarget v,
      planConversationID = createConversationID v, planConversationRunID = createConversationRunID v,
      planStatus = createStatus v, planRevision = 1, planCreatedAt = now, planUpdatedAt = now\<rparr>"

definition CreateScheduledPlan ::
  "Sdk \<Rightarrow> (string \<Rightarrow> goerr + string) \<Rightarrow> PlanService \<Rightarrow> ScheduledPlanCreate \<Rightarrow> ScheduledPlanReceipt dbop" where
  "CreateScheduledPlan S canonicalObject b inp =
     (case svcPlans b of None \<Rightarrow> fail plansUnavailable | Some repo \<Rightarrow>
      case normalizeScheduledPlanCreate S canonicalObject inp of
        Inl e \<Rightarrow> fail (Annotatef (Sentinel ErrScheduledPlanInvalid) ('': normalize input: '' @ errorText S e))
      | Inr v \<Rightarrow>
      case validatePlanCreate S v of Some e \<Rightarrow> fail e | None \<Rightarrow>
      bindE (liftE (marshalPlanCreate S v)) (\<lambda>request.
      bindE timeNow (\<lambda>now.
      bindE (repoCreate repo \<lparr>recordPlan = newPlan (svcRuntimeID b) v now, recordClientID = createClientID v,
               recordRequestSHA256 = sha256Hex request\<rparr>) (\<lambda>(created, replay).
      bindE (projectScheduledPlan S b created) (\<lambda>_.
      ret \<lparr>planReceiptPlan = created, planReceiptReplay = replay\<rparr>)))))"

definition GetScheduledPlan :: "Sdk \<Rightarrow> PlanService \<Rightarrow> ScheduledPlanOwner \<Rightarrow> string \<Rightarrow> ScheduledPlan dbop" where
  "GetScheduledPlan S b owner ident0 =
     (case svcPlans b of None \<Rightarrow> fail plansUnavailable | Some repo \<Rightarrow>
      case validateOwner S owner of Some e \<Rightarrow> fail e | None \<Rightarrow>
      let ident = trimSpace ident0 in
      if ident = [] then fail (Annotatef (Sentinel ErrScheduledPlanInvalid) '': plan ID is required'') else
      bindE (repoGet repo (normalizeScheduledPlanOwner owner) ident) (\<lambda>plan.
      if planStatus plan = planStatusDeleted S then fail (Sentinel ErrScheduledPlanNotFound) else ret plan))"

definition ListScheduledPlans :: "Sdk \<Rightarrow> PlanService \<Rightarrow> ScheduledPlanList \<Rightarrow> ScheduledPlanPage dbop" where
  "ListScheduledPlans S b inp0 =
     (case svcPlans b of None \<Rightarrow> fail plansUnavailable | Some repo \<Rightarrow>
      let inp = inp0\<lparr>listOwner := normalizeScheduledPlanOwner (listOwner inp0),
                     listStatus := trimSpace (listStatus inp0), listCursor := trimSpace (listCursor inp0)\<rparr> in
      case validateOwner S (listOwner inp) of Some e \<Rightarrow> fail e | None \<Rightarrow>
      if listLimit inp < 0 \<or> listLimit inp > 100
      then fail (Annotatef (Sentinel ErrScheduledPlanInvalid) '': list limit must be between 1 and 100 when set'')
      else if listCursor inp \<noteq> [] \<and> \<not> scheduledPlanManagementKey (listCursor inp)
      then fail (Annotatef (Sentinel ErrScheduledPlanInvalid) '': list cursor is invalid'')
      else if listStatus inp \<notin> {[], planStatusEnabled S, planStatusDisabled S, planStatusPaused S}
      then fail (Annotatef (Sentinel ErrScheduledPlanInvalid) '': list status is invalid'')
      else repoList repo (if listLimit inp = 0 then inp\<lparr>listLimit := 50\<rparr> else inp))"

definition scheduledPlanForMutation ::
  "Sdk \<Rightarrow> PlanService \<Rightarrow> ScheduledPlanOwner \<Rightarrow> string \<Rightarrow> int \<Rightarrow> (PlanRepository \<times> ScheduledPlan) dbop" where
  "scheduledPlanForMutation S b owner0 ident0 revision =
     (case svcPlans b of None \<Rightarrow> fail plansUnavailable | Some repo \<Rightarrow>
      bindE (liftE (normalizeScheduledPlanMutation S owner0 ident0 revision)) (\<lambda>(owner, ident).
      bindE (repoGet repo owner ident) (\<lambda>plan.
      if planStatus plan = planStatusDeleted S then fail (Sentinel ErrScheduledPlanNotFound) else ret (repo, plan))))"

text \<open>Storing the next revision of a plan, and projecting what was stored.\<close>

definition storePlan :: "Sdk \<Rightarrow> PlanService \<Rightarrow> PlanRepository \<Rightarrow> ScheduledPlan \<Rightarrow> int \<Rightarrow> ScheduledPlan dbop" where
  "storePlan S b repo plan expected =
     bindE (repoReplace repo plan expected) (\<lambda>stored.
     bindE (projectScheduledPlan S b stored) (\<lambda>_. ret stored))"

definition updateCreate :: "ScheduledPlanUpdate \<Rightarrow> string \<Rightarrow> ScheduledPlanCreate" where
  "updateCreate inp status =
     \<lparr>createClientID = ''management-update'', createName = updateName inp, createOwner = updateOwner inp,
      createTimezone = updateTimezone inp, createTrigger = updateTrigger inp, createInput = updateInput inp,
      createAllowedActions = updateAllowedActions inp, createTarget = updateTarget inp,
      createConversationID = updateConversationID inp, createConversationRunID = updateConversationRunID inp,
      createStatus = status\<rparr>"

definition UpdateScheduledPlan ::
  "Sdk \<Rightarrow> (string \<Rightarrow> goerr + string) \<Rightarrow> PlanService \<Rightarrow> ScheduledPlanUpdate \<Rightarrow> ScheduledPlanReceipt dbop" where
  "UpdateScheduledPlan S canonicalObject b inp =
     bindE (scheduledPlanForMutation S b (updateOwner inp) (updatePlanID inp) (updateExpectedRevision inp))
       (\<lambda>(repo, current).
     case normalizeScheduledPlanCreate S canonicalObject (updateCreate inp (planStatus current)) of
       Inl e \<Rightarrow> fail (Annotatef (Sentinel ErrScheduledPlanInvalid) ('': normalize update: '' @ errorText S e))
     | Inr v \<Rightarrow>
     case validatePlanCreate S v of Some e \<Rightarrow> fail e | None \<Rightarrow>
     let desired = \<lparr>planID = planID current, planName = createName v, planOwner = planOwner current,
           planTimezone = createTimezone v, planTrigger = createTrigger v, planInput = createInput v,
           planAllowedActions = createAllowedActions v, planTarget = createTarget v,
           planConversationID = createConversationID v, planConversationRunID = createConversationRunID v,
           planStatus = planStatus current, planRevision = updateExpectedRevision inp + 1,
           planCreatedAt = planCreatedAt current, planUpdatedAt = 0\<rparr>
     in if planRevision current = planRevision desired \<and> scheduledPlanMutableEqual current desired then
          bindE (projectScheduledPlan S b current) (\<lambda>_.
          ret \<lparr>planReceiptPlan = current, planReceiptReplay = True\<rparr>)
        else if planRevision current \<noteq> updateExpectedRevision inp then fail (Sentinel ErrScheduledPlanConflict)
        else bindE timeNow (\<lambda>now.
          bindE (storePlan S b repo (desired\<lparr>planUpdatedAt := now\<rparr>) (updateExpectedRevision inp)) (\<lambda>stored.
          ret \<lparr>planReceiptPlan = stored, planReceiptReplay = False\<rparr>)))"

text \<open>The status changes the service refuses.\<close>

definition statusRefused :: "Sdk \<Rightarrow> string \<Rightarrow> string \<Rightarrow> bool" where
  "statusRefused S current desired \<longleftrightarrow>
     desired = planStatusPaused S \<and> current \<noteq> planStatusEnabled S \<or>
     desired = planStatusEnabled S \<and> current \<noteq> planStatusPaused S \<and> current \<noteq> planStatusDisabled S"

definition changeScheduledPlanStatus ::
  "Sdk \<Rightarrow> PlanService \<Rightarrow> ScheduledPlanStatusChange \<Rightarrow> string \<Rightarrow> ScheduledPlanReceipt dbop" where
  "changeScheduledPlanStatus S b inp desired =
     bindE (scheduledPlanForMutation S b (changeOwner inp) (changePlanID inp) (changeExpectedRevision inp))
       (\<lambda>(repo, current).
     if planRevision current = changeExpectedRevision inp + 1 \<and> planStatus current = desired then
       bindE (projectScheduledPlan S b current) (\<lambda>_.
       ret \<lparr>planReceiptPlan = current, planReceiptReplay = True\<rparr>)
     else if planRevision current \<noteq> changeExpectedRevision inp then fail (Sentinel ErrScheduledPlanConflict)
     else if planStatus current = desired then ret \<lparr>planReceiptPlan = current, planReceiptReplay = True\<rparr>
     else if statusRefused S (planStatus current) desired then fail (Sentinel ErrScheduledPlanConflict)
     else bindE timeNow (\<lambda>now.
       bindE (storePlan S b repo
         (current\<lparr>planStatus := desired, planRevision := planRevision current + 1, planUpdatedAt := now\<rparr>)
         (planRevision current)) (\<lambda>stored.
       ret \<lparr>planReceiptPlan = stored, planReceiptReplay = False\<rparr>)))"

definition PauseScheduledPlan :: "Sdk \<Rightarrow> PlanService \<Rightarrow> ScheduledPlanStatusChange \<Rightarrow> ScheduledPlanReceipt dbop" where
  "PauseScheduledPlan S b inp = changeScheduledPlanStatus S b inp (planStatusPaused S)"

definition ResumeScheduledPlan :: "Sdk \<Rightarrow> PlanService \<Rightarrow> ScheduledPlanStatusChange \<Rightarrow> ScheduledPlanReceipt dbop" where
  "ResumeScheduledPlan S b inp = changeScheduledPlanStatus S b inp (planStatusEnabled S)"

definition deleteReceipt :: "ScheduledPlan \<Rightarrow> bool \<Rightarrow> ScheduledPlanDeleteReceipt" where
  "deleteReceipt plan replay = \<lparr>deleteReceiptPlanID = planID plan, deleteReceiptRevision = planRevision plan,
     deleteReceiptDeleted = True, deleteReceiptReplay = replay\<rparr>"

definition DeleteScheduledPlan ::
  "Sdk \<Rightarrow> PlanService \<Rightarrow> ScheduledPlanStatusChange \<Rightarrow> ScheduledPlanDeleteReceipt dbop" where
  "DeleteScheduledPlan S b inp =
     (case svcPlans b of None \<Rightarrow> fail plansUnavailable | Some repo \<Rightarrow>
      bindE (liftE (normalizeScheduledPlanMutation S (changeOwner inp) (changePlanID inp) (changeExpectedRevision inp)))
        (\<lambda>(owner, ident).
      bindE (repoGet repo owner ident) (\<lambda>current.
      if planStatus current = planStatusDeleted S then
        (if planRevision current = changeExpectedRevision inp + 1 then
           bindE (projectScheduledPlan S b current) (\<lambda>_. ret (deleteReceipt current True))
         else fail (Sentinel ErrScheduledPlanNotFound))
      else if planRevision current \<noteq> changeExpectedRevision inp then fail (Sentinel ErrScheduledPlanConflict)
      else bindE timeNow (\<lambda>now.
        bindE (storePlan S b repo
          (current\<lparr>planStatus := planStatusDeleted S, planRevision := planRevision current + 1, planUpdatedAt := now\<rparr>)
          (planRevision current)) (\<lambda>stored.
        ret (deleteReceipt stored False))))))"

definition ReadScheduledPlanDeletion ::
  "Sdk \<Rightarrow> PlanService \<Rightarrow> ScheduledPlanOwner \<Rightarrow> string \<Rightarrow> ScheduledPlanDeleteReceipt dbop" where
  "ReadScheduledPlanDeletion S b owner0 ident0 =
     bindE envCall (\<lambda>_.
     case svcPlans b of None \<Rightarrow> fail (Sentinel ErrScheduledPlanDeletionReadUnsupported) | Some repo \<Rightarrow>
     let owner = normalizeScheduledPlanOwner owner0; ident = trimSpace ident0 in
     if validateOwner S owner \<noteq> None \<or> \<not> scheduledPlanManagementKey ident
     then fail (Sentinel ErrScheduledPlanInvalid) else
     bindE (repoGet repo owner ident) (\<lambda>plan.
     if planID plan \<noteq> ident \<or> planOwner plan \<noteq> owner \<or> planStatus plan \<noteq> planStatusDeleted S \<or> planRevision plan < 2
     then fail (Sentinel ErrScheduledPlanNotFound)
     else bindE envCall (\<lambda>_. ret (deleteReceipt plan False))))"

section \<open>Recovery\<close>

text \<open>
  The recovery loop over pages of plans, with a bound on its rounds; \<open>None\<close> means the bound was
  reached.
\<close>

fun hydrateRounds ::
  "Sdk \<Rightarrow> PlanService \<Rightarrow> (string \<Rightarrow> int \<Rightarrow> ScheduledPlan list dbop) \<Rightarrow> nat \<Rightarrow> string \<Rightarrow> bool \<Rightarrow> bool option dbop" where
  "hydrateRounds S b recover 0 after found = ret None"
| "hydrateRounds S b recover (Suc n) after found =
     attempt (recover after 200) (\<lambda>q. case q of
       Inl e \<Rightarrow> fail (Wrapf ''load scheduled plans for recovery: '' e)
     | Inr ps \<Rightarrow>
         bindE (foldE (\<lambda>plan _. projectScheduledPlan S b plan) ps ()) (\<lambda>_.
         let found' = (found \<or> ps \<noteq> []) in
         if length ps < 200 then ret (Some found')
         else let nxt = planID (last ps) in
              if nxt \<le> after then fail (Errorf ''scheduled plan recovery cursor did not advance'')
              else hydrateRounds S b recover n nxt found'))"

definition hydrateScheduledPlans :: "Sdk \<Rightarrow> PlanService \<Rightarrow> nat \<Rightarrow> bool option dbop" where
  "hydrateScheduledPlans S b bound =
     (case svcRecovery b of None \<Rightarrow> ret (Some False) | Some recover \<Rightarrow> hydrateRounds S b recover bound [] False)"

end
