(* ===== verification/Plan_Steps.thy ===== *)
theory Plan_Steps
  imports Plan_Properties Scheduled_Plans
begin

text \<open>
  The life of a scheduled plan: an abstract machine on status and revision, the sequences of store
  calls that concurrent services can produce, and the proof that the rows of the plan table follow
  the machine. A replacement is a read followed, any number of other calls later, by the
  compare-and-swap on the revision that was read.
\<close>

section \<open>The life of a plan\<close>

inductive plan_life :: "Sdk \<Rightarrow> string \<times> int \<Rightarrow> string \<times> int \<Rightarrow> bool" for S where
  pause: "plan_life S (planStatusEnabled S, v) (planStatusPaused S, v + 1)"
| resume: "st \<in> {planStatusPaused S, planStatusDisabled S} \<Longrightarrow> plan_life S (st, v) (planStatusEnabled S, v + 1)"
| update: "st \<noteq> planStatusDeleted S \<Longrightarrow> plan_life S (st, v) (st, v + 1)"
| delete: "st \<noteq> planStatusDeleted S \<Longrightarrow> plan_life S (st, v) (planStatusDeleted S, v + 1)"

inductive_cases plan_lifeE [elim]: "plan_life S a b"

lemma plan_life_revision: "plan_life S a b \<Longrightarrow> snd b = snd a + 1"
  by (auto elim: plan_life.cases)

lemma plan_life_star_revision: "(plan_life S)\<^sup>*\<^sup>* a b \<Longrightarrow> snd a \<le> snd b"
  by (induction rule: rtranclp_induct) (auto dest: plan_life_revision)

text \<open>The four states of the SDK are different constants.\<close>

definition planStatusesDiffer :: "Sdk \<Rightarrow> bool" where
  "planStatusesDiffer S \<longleftrightarrow>
     distinct [planStatusEnabled S, planStatusDisabled S, planStatusPaused S, planStatusDeleted S]"

lemma plan_life_deleted: "planStatusesDiffer S \<Longrightarrow> \<not> plan_life S (planStatusDeleted S, v) b"
  by (auto simp: planStatusesDiffer_def elim!: plan_life.cases)

section \<open>Rows\<close>

definition lifeOf :: "plan_row \<Rightarrow> string \<times> int" where
  "lifeOf r = (pl_status r, pl_revision r)"

definition planMoves :: "Sdk \<Rightarrow> plan_row \<Rightarrow> plan_row \<Rightarrow> bool" where
  "planMoves S r r' \<longleftrightarrow> plan_key r' = plan_key r \<and> rowOwner r' = rowOwner r \<and>
     pl_client_id r' = pl_client_id r \<and> pl_request_sha256 r' = pl_request_sha256 r \<and>
     pl_created_at r' = pl_created_at r \<and> (plan_life S)\<^sup>*\<^sup>* (lifeOf r) (lifeOf r') \<and>
     (pl_revision r' = pl_revision r \<longrightarrow> r' = r)"

lemma planMoves_refl: "planMoves S r r"
  by (simp add: planMoves_def)

lemma planMoves_trans:
  assumes "planMoves S a b" "planMoves S b c"
  shows "planMoves S a c"
proof -
  have "pl_revision a \<le> pl_revision b" "pl_revision b \<le> pl_revision c"
    using assms plan_life_star_revision by (fastforce simp: planMoves_def lifeOf_def)+
  with assms show ?thesis
    by (auto simp: planMoves_def intro: rtranclp_trans)
qed

definition plansMove :: "Sdk \<Rightarrow> database \<Rightarrow> database \<Rightarrow> bool" where
  "plansMove S d d' \<longleftrightarrow> (\<forall>r \<in> set (plans d). \<exists>r' \<in> set (plans d'). planMoves S r r')"

lemma plansMove_refl: "plans d' = plans d \<Longrightarrow> plansMove S d d'"
  by (auto simp: plansMove_def intro: planMoves_refl)

lemma plansMove_trans: "plansMove S a b \<Longrightarrow> plansMove S b c \<Longrightarrow> plansMove S a c"
  by (meson plansMove_def planMoves_trans)

section \<open>Sequences of store calls\<close>

text \<open>The next revision of a plan, as the service computes it from the plan it read.\<close>

definition planChange :: "Sdk \<Rightarrow> ScheduledPlan \<Rightarrow> ScheduledPlan \<Rightarrow> bool" where
  "planChange S current plan \<longleftrightarrow> planID plan = planID current \<and> planOwner plan = planOwner current \<and>
     plan_life S (planStatus current, planRevision current) (planStatus plan, planRevision plan)"

inductive plan_reach :: "Sdk \<Rightarrow> database \<Rightarrow> database \<Rightarrow> bool" for S where
  start: "plan_reach S d d"
| elsewhere: "plan_reach S d e \<Longrightarrow> plans f = plans e \<Longrightarrow> plan_reach S d f"
| create: "plan_reach S d (db w) \<Longrightarrow> plan_reach S d (db (snd (storeCreateScheduledPlan S s record w)))"
| replace: "plan_reach S d e \<Longrightarrow> storedPlan S s e owner ident = Some current \<Longrightarrow> planChange S current plan \<Longrightarrow>
    plan_reach S e (db w) \<Longrightarrow>
    plan_reach S d (db (snd (storeReplaceScheduledPlan S s plan (planRevision current) w)))"

lemma plan_reach_trans:
  assumes "plan_reach S e f" "plan_reach S d e"
  shows "plan_reach S d f"
  using assms
proof (induction arbitrary: d rule: plan_reach.induct)
  case (replace d0 e s owner ident current plan w)
  from replace.IH(1) [OF replace.prems] replace.hyps(2,3,4) show ?case by (rule plan_reach.replace)
qed (auto intro: plan_reach.intros)

interpretation plan_order: db_order "plan_reach S" for S
proof
  show "plan_reach S d d" for d by (rule plan_reach.start)
  show "plan_reach S a b \<Longrightarrow> plan_reach S b c \<Longrightarrow> plan_reach S a c" for a b c
    using plan_reach_trans by blast
qed

section \<open>The rows follow the machine\<close>

text \<open>An insertion keeps the rows there are, and the key.\<close>

definition plansGrow :: "database \<Rightarrow> database \<Rightarrow> bool" where
  "plansGrow d d' \<longleftrightarrow> planKeys d \<longrightarrow> planKeys d' \<and> set (plans d) \<subseteq> set (plans d')"

interpretation grow: db_order plansGrow
  by unfold_locales (auto simp: plansGrow_def)

lemma create_grows: "moves plansGrow P (storeCreateScheduledPlan S s record)"
  unfolding storeCreateScheduledPlan_def Let_def
  by (intro grow.moves_intros grow.moves_readonly readonly_intros grow.moves_sqlCall)
    (auto simp: insert_ignore_plans_def plansGrow_def planKeys_def split: if_splits)

text \<open>
  A row that moved since the plan was read has another revision, so a compare-and-swap that finds
  the revision has found the row that was read.
\<close>

lemma replace_found_read_row:
  assumes moved: "plansMove S e d" and keys: "planKeys d"
    and read: "storedPlan S s e owner ident = Some current" and change: "planChange S current plan"
    and q: "q \<in> set (plans d)" "replaceable s plan (planRevision current) q"
  shows "lifeOf q = (planStatus current, planRevision current)" "rowOwner q = owner"
proof -
  obtain r client request where r: "r \<in> set (plans e)" "planIdentity s owner ident r"
      "planOfRow S owner ident r = Inr (current, client, request)"
    using read by (rule storedPlanE)
  note current = planOfRow_fields [OF r(3)]
  obtain r1 where r1: "r1 \<in> set (plans d)" "planMoves S r r1"
    using moved r(1) by (auto simp: plansMove_def)
  have "plan_key q = plan_key r1"
    using q(2) r(2) r1(2) change current
    by (auto simp: replaceable_def planMoves_def planChange_def dest!: planIdentity_key)
  then have "q = r1" using keys q(1) r1(1) by (auto simp: planKeys_def distinct_map inj_on_def)
  then have "q = r" using q(2) r1(2) current by (auto simp: replaceable_def planMoves_def)
  then show "lifeOf q = (planStatus current, planRevision current)" "rowOwner q = owner"
    using current r(2) by (auto simp: lifeOf_def rowOwner_def planIdentity_def ownedBy_def)
qed

lemma replace_moves:
  assumes moved: "plansMove S e (db w)" and keys: "planKeys (db w)"
    and read: "storedPlan S s e owner ident = Some current" and change: "planChange S current plan"
    and result: "storeReplaceScheduledPlan S s plan (planRevision current) w = (q, w')"
  shows "planKeys (db w') \<and> plansMove S (db w) (db w')"
  using keys result
proof (cases rule: storeReplace_cases)
  case unchanged
  with keys show ?thesis by (simp add: plansMove_refl)
next
  case (written r json)
  let ?p = "replaceable s plan (planRevision current)"
  have row: "planMoves S x (if ?p x then replaced plan json x else x)" if "x \<in> set (plans (db w))" for x
  proof (cases "?p x")
    case True
    have life: "lifeOf x = (planStatus current, planRevision current)"
      using replace_found_read_row [OF moved keys read change that True] by simp
    have "plan_life S (lifeOf x) (planStatus plan, planRevision plan)"
      using life change by (simp add: planChange_def)
    moreover have "planRevision plan \<noteq> pl_revision x"
      using calculation plan_life_revision by (fastforce simp: lifeOf_def)
    ultimately show ?thesis
      using True by (auto simp: planMoves_def lifeOf_def rowOwner_def)
  qed (simp add: planMoves_refl)
  then have "\<forall>x \<in> set (plans (db w)). \<exists>r' \<in> (\<lambda>x. if ?p x then replaced plan json x else x) ` set (plans (db w)).
      planMoves S x r'" by blast
  moreover have "set (plans (db w')) = (\<lambda>x. if ?p x then replaced plan json x else x) ` set (plans (db w))"
    by (auto simp: written(4) updateWhere_def)
  ultimately have "plansMove S (db w) (db w')"
    by (simp only: plansMove_def)
  moreover have "planKeys (db w')"
    using keys written(4) by (simp add: planKeys_def map_updateWhere)
  ultimately show ?thesis by simp
qed

lemma plan_reach_moves:
  assumes "plan_reach S d d'" "planKeys d"
  shows "planKeys d' \<and> plansMove S d d'"
  using assms
proof (induction rule: plan_reach.induct)
  case (start d)
  then show ?case by (simp add: plansMove_refl)
next
  case (elsewhere d e f)
  then have "plansMove S d e" "plansMove S e f" "planKeys e" by (auto intro: plansMove_refl)
  with elsewhere.hyps(2) show ?case by (auto simp: planKeys_def intro: plansMove_trans)
next
  case (create d w s "record")
  obtain q w' where q: "storeCreateScheduledPlan S s record w = (q, w')" by fastforce
  have "planKeys (db w')" "set (plans (db w)) \<subseteq> set (plans (db w'))"
    using movesD [OF create_grows _ q, of "\<lambda>_. True"] create.IH [OF create.prems] by (auto simp: plansGrow_def)
  then have "plansMove S (db w) (db w')" by (auto simp: plansMove_def intro: planMoves_refl)
  with create q \<open>planKeys (db w')\<close> show ?case by (auto intro: plansMove_trans)
next
  case (replace d e s owner ident current plan w)
  obtain q w' where q: "storeReplaceScheduledPlan S s plan (planRevision current) w = (q, w')" by fastforce
  have e: "planKeys e" "plansMove S d e" using replace.IH(1) [OF replace.prems] by auto
  then have w: "planKeys (db w)" "plansMove S e (db w)" using replace.IH(2) by auto
  from replace_moves [OF w(2,1) replace.hyps(2,3) q] e(2) w(2) q show ?case
    by (auto intro: plansMove_trans)
qed

section \<open>The service\<close>

text \<open>The calls a service takes, and the world after one of them.\<close>

datatype plan_call =
    CallCreate ScheduledPlanCreate
  | CallUpdate ScheduledPlanUpdate
  | CallPause ScheduledPlanStatusChange
  | CallResume ScheduledPlanStatusChange
  | CallDelete ScheduledPlanStatusChange
  | CallHydrate nat

fun planCall ::
  "Sdk \<Rightarrow> (string \<Rightarrow> goerr + string) \<Rightarrow> PlanService \<Rightarrow> plan_call \<Rightarrow> database world \<Rightarrow> database world" where
  "planCall S canonicalObject b (CallCreate inp) w = snd (CreateScheduledPlan S canonicalObject b inp w)"
| "planCall S canonicalObject b (CallUpdate inp) w = snd (UpdateScheduledPlan S canonicalObject b inp w)"
| "planCall S canonicalObject b (CallPause inp) w = snd (PauseScheduledPlan S b inp w)"
| "planCall S canonicalObject b (CallResume inp) w = snd (ResumeScheduledPlan S b inp w)"
| "planCall S canonicalObject b (CallDelete inp) w = snd (DeleteScheduledPlan S b inp w)"
| "planCall S canonicalObject b (CallHydrate n) w = snd (hydrateScheduledPlans S b n w)"

lemma planService_simps [simp]:
  "svcPlans (planService S s rs rt) = Some (planRepository S s)"
  "svcProjector (planService S s rs rt) = Some (ReconcileScheduledPlan S rs)"
  "svcRecovery (planService S s rs rt) = Some (ListScheduledPlansForRecovery S s)"
  "svcRuntimeID (planService S s rs rt) = rt"
  "repoCreate (planRepository S s) = storeCreateScheduledPlan S s"
  "repoGet (planRepository S s) = storeGetScheduledPlan S s"
  "repoList (planRepository S s) = storeListScheduledPlans S s"
  "repoReplace (planRepository S s) = storeReplaceScheduledPlan S s"
  by (simp_all add: planService_def planRepository_def)

text \<open>Projection and reading leave the plans alone.\<close>

definition samePlans :: "database \<Rightarrow> database \<Rightarrow> bool" where
  "samePlans d d' \<longleftrightarrow> plans d' = plans d"

interpretation same_plans: db_order samePlans
  by unfold_locales (auto simp: samePlans_def)

lemma reconcile_samePlans:
  "moves samePlans (\<lambda>_. True) (reconcileWith S rs d nxt kind enabled)"
  unfolding reconcileWith_def reconcileSame_def reconcileNew_def sql_reconcileChanged_def sql_reconcileStable_def
    sql_reconcileInsert_def Let_def
  by (intro same_plans.moves_intros same_plans.moves_readonly readonly_intros same_plans.moves_sqlCall)
    (auto simp: samePlans_def sql_unfold split: if_splits)

lemma project_samePlans: "moves samePlans (\<lambda>_. True) (projectScheduledPlan S (planService S s rs rt) plan)"
  unfolding projectScheduledPlan_def planService_simps option.case ReconcileScheduledPlan_def
  by (intro same_plans.moves_intros same_plans.moves_readonly readonly_intros reconcile_samePlans)

lemma moves_elsewhere: "moves samePlans P m \<Longrightarrow> moves (plan_reach S) P m"
  unfolding moves_def samePlans_def using plan_reach.elsewhere [OF plan_reach.start] by blast

lemmas project_elsewhere = moves_elsewhere [OF project_samePlans]

lemma readonly_storeReads [readonly_intros]:
  "readonly (storeGetScheduledPlan S s owner ident)" "readonly (ListScheduledPlansForRecovery S s after limit)"
  unfolding storeGetScheduledPlan_def ListScheduledPlansForRecovery_def by (intro readonly_intros)+

lemma storeGet_stored:
  assumes "storeGetScheduledPlan S s owner ident w = (Inr plan, w')"
  shows "storedPlan S s (db w) owner (trimSpace ident) = Some plan"
  using assms by (auto simp: storeGetScheduledPlan_def storedPlan_def elim!: bindE_InrE ret_InrE getScheduledPlan_Inr)

lemma readonly_forMutation [readonly_intros]:
  "readonly (scheduledPlanForMutation S (planService S s rs rt) owner ident v)"
  unfolding scheduledPlanForMutation_def planService_simps option.case by (intro readonly_intros)

lemma forMutation_stored:
  assumes "scheduledPlanForMutation S (planService S s rs rt) owner0 ident0 v w = (Inr (repo, plan), w')"
  shows "repo = planRepository S s \<and> planStatus plan \<noteq> planStatusDeleted S \<and>
    (\<exists>owner ident. storedPlan S s (db w) owner ident = Some plan)"
  using assms unfolding scheduledPlanForMutation_def planService_simps option.case
  by (auto simp: liftE_def fail_def elim!: bindE_InrE ret_InrE split: prod.splits if_splits)
    (blast dest: storeGet_stored)

text \<open>A plan stored in the database is replaced by its next revision.\<close>

definition readable :: "Sdk \<Rightarrow> ScheduledPlanStore \<Rightarrow> ScheduledPlan \<Rightarrow> database \<Rightarrow> bool" where
  "readable S s current d \<longleftrightarrow> (\<exists>owner ident. storedPlan S s d owner ident = Some current)"

lemma replace_reaches:
  assumes "planChange S current plan"
  shows "moves (plan_reach S) (readable S s current) (storeReplaceScheduledPlan S s plan (planRevision current))"
  using assms plan_reach.replace [OF plan_reach.start _ _ plan_reach.start]
  by (auto simp: moves_def readable_def)

lemma storePlan_reaches:
  assumes "planChange S current plan" "expected = planRevision current"
  shows "moves (plan_reach S) (readable S s current)
    (storePlan S (planService S s rs rt) (planRepository S s) plan expected)"
  unfolding storePlan_def planService_simps assms(2)
  by (intro plan_order.moves_intros replace_reaches [OF assms(1)] project_elsewhere plan_order.moves_readonly readonly_intros)

lemma forMutation_readable:
  assumes "scheduledPlanForMutation S (planService S s rs rt) owner0 ident0 v w = (Inr x, w')"
  shows "fst x = planRepository S s \<and> planStatus (snd x) \<noteq> planStatusDeleted S \<and> readable S s (snd x) (db w)"
  using forMutation_stored [of S s rs rt owner0 ident0 v w "fst x" "snd x" w'] assms by (simp add: readable_def)

lemma create_reaches: "moves (plan_reach S) P (storeCreateScheduledPlan S s record)"
  using plan_reach.create [OF plan_reach.start] by (auto simp: moves_def)

lemma CreateScheduledPlan_reaches:
  "moves (plan_reach S) (\<lambda>_. True) (CreateScheduledPlan S canonicalObject (planService S s rs rt) inp)"
  unfolding CreateScheduledPlan_def planService_simps option.case
  by (intro plan_order.moves_intros create_reaches project_elsewhere plan_order.moves_readonly readonly_intros)

text \<open>The rest of a mutation starts from the plan it read.\<close>

lemma mutation_reaches:
  assumes "\<And>current. planStatus current \<noteq> planStatusDeleted S \<Longrightarrow>
    moves (plan_reach S) (readable S s current) (f (planRepository S s) current)"
  shows "moves (plan_reach S) (\<lambda>_. True)
    (bindE (scheduledPlanForMutation S (planService S s rs rt) owner ident v) (\<lambda>(repo, current). f repo current))"
proof (rule plan_order.moves_bindE_read [where Q = "\<lambda>x d. fst x = planRepository S s \<and>
      planStatus (snd x) \<noteq> planStatusDeleted S \<and> readable S s (snd x) d"])
  fix x
  show "moves (plan_reach S) (\<lambda>d. fst x = planRepository S s \<and> planStatus (snd x) \<noteq> planStatusDeleted S \<and>
      readable S s (snd x) d) (case x of (repo, current) \<Rightarrow> f repo current)"
    using assms [of "snd x"] by (cases x) (auto simp: moves_def)
qed (use forMutation_readable in \<open>auto intro: readonly_intros\<close>)

lemma UpdateScheduledPlan_reaches:
  "moves (plan_reach S) (\<lambda>_. True) (UpdateScheduledPlan S canonicalObject (planService S s rs rt) inp)"
  unfolding UpdateScheduledPlan_def
proof (rule mutation_reaches, unfold Let_def, goal_cases)
  case (1 current)
  show ?case
    by (intro plan_order.moves_case_sum plan_order.moves_case_option plan_order.moves_if plan_order.moves_bindE_keep
        plan_order.moves_bindE [OF storePlan_reaches] plan_order.moves_bindE [OF project_elsewhere [THEN plan_order.moves_weaken]]
        plan_order.moves_readonly readonly_intros)
      (use 1 in \<open>auto simp: planChange_def intro: plan_life.update\<close>)
qed

lemma changeScheduledPlanStatus_reaches:
  assumes "desired = planStatusPaused S \<or> desired = planStatusEnabled S"
  shows "moves (plan_reach S) (\<lambda>_. True) (changeScheduledPlanStatus S (planService S s rs rt) inp desired)"
  unfolding changeScheduledPlanStatus_def
proof (rule mutation_reaches, goal_cases)
  case (1 current)
  show ?case
    by (intro plan_order.moves_if plan_order.moves_bindE_keep
        plan_order.moves_bindE [OF storePlan_reaches] plan_order.moves_bindE [OF project_elsewhere [THEN plan_order.moves_weaken]]
        plan_order.moves_readonly readonly_intros)
      (use 1 assms in \<open>auto simp: planChange_def statusRefused_def intro: plan_life.intros\<close>)
qed

lemma DeleteScheduledPlan_reaches:
  "moves (plan_reach S) (\<lambda>_. True) (DeleteScheduledPlan S (planService S s rs rt) inp)"
proof -
  have read: "readable S s plan (db w)" if "storeGetScheduledPlan S s owner ident w = (Inr plan, w')" for owner ident plan w w'
    using storeGet_stored [OF that] by (auto simp: readable_def)
  show ?thesis
    unfolding DeleteScheduledPlan_def planService_simps option.case
    by (intro plan_order.moves_case_prod plan_order.moves_bindE [OF plan_order.moves_readonly [of "liftE _"]]
        plan_order.moves_bindE_read [where Q = "readable S s", OF readonly_storeReads(1) _ read]
        plan_order.moves_if plan_order.moves_bindE_keep [of timeNow] plan_order.moves_bindE [OF storePlan_reaches]
        plan_order.moves_bindE [OF project_elsewhere [THEN plan_order.moves_weaken]]
        plan_order.moves_readonly readonly_intros)
      (auto simp: planChange_def intro: plan_life.delete)
qed

lemma hydrateRounds_samePlans:
  "moves samePlans (\<lambda>_. True)
    (hydrateRounds S (planService S s rs rt) (ListScheduledPlansForRecovery S s) n after found)"
proof (induction n arbitrary: after found)
  case 0
  show ?case by (simp add: same_plans.moves_readonly readonly_intros)
next
  case (Suc n)
  show ?case
    unfolding hydrateRounds.simps Let_def
    by (intro Suc.IH same_plans.moves_intros same_plans.moves_foldE project_samePlans same_plans.moves_readonly readonly_intros)
qed

lemma planCall_reaches: "plan_reach S (db w) (db (planCall S canonicalObject (planService S s rs rt) c w))"
proof -
  have "moves (plan_reach S) (\<lambda>_. True) (hydrateScheduledPlans S (planService S s rs rt) n)" for n
    unfolding hydrateScheduledPlans_def planService_simps option.case
    by (rule moves_elsewhere [OF hydrateRounds_samePlans])
  then show ?thesis
    using CreateScheduledPlan_reaches [of S canonicalObject s rs rt] UpdateScheduledPlan_reaches [of S canonicalObject s rs rt]
      changeScheduledPlanStatus_reaches [of "planStatusPaused S" S s rs rt] DeleteScheduledPlan_reaches [of S s rs rt]
      changeScheduledPlanStatus_reaches [of "planStatusEnabled S" S s rs rt]
    by (cases c) (simp_all add: moves_def PauseScheduledPlan_def ResumeScheduledPlan_def)
qed

text \<open>
  C15. The life of a scheduled plan. Start from any database, let services of any Runtimes create and
  change plans, their reads and compare-and-swaps interleaved in any order and with any calls failing,
  and end with one more call of the service. Every plan row that was there is still there, with the
  same key, owner, client, request digest and creation time; its status and revision have moved along
  the machine \<open>plan_life\<close>: enabled to paused, paused or disabled to enabled, any but deleted to deleted or
  to an updated plan of the same status, each step raising the revision by one. A revision has one
  content, and a deleted plan never changes again.
\<close>

theorem plan_lifecycle:
  assumes "planKeys d" "plan_reach S d (db w)" "r \<in> set (plans d)" "planStatusesDiffer S"
  shows "planKeys (db (planCall S canonicalObject (planService S s rs rt) c w)) \<and>
    (\<exists>r' \<in> set (plans (db (planCall S canonicalObject (planService S s rs rt) c w))).
       plan_key r' = plan_key r \<and> rowOwner r' = rowOwner r \<and> pl_client_id r' = pl_client_id r \<and>
       pl_request_sha256 r' = pl_request_sha256 r \<and> pl_created_at r' = pl_created_at r \<and>
       (plan_life S)\<^sup>*\<^sup>* (pl_status r, pl_revision r) (pl_status r', pl_revision r') \<and>
       (pl_revision r' = pl_revision r \<longrightarrow> r' = r) \<and> (pl_status r = planStatusDeleted S \<longrightarrow> r' = r))"
proof -
  let ?d = "db (planCall S canonicalObject (planService S s rs rt) c w)"
  have "plan_reach S d ?d" using plan_reach_trans [OF planCall_reaches assms(2)] .
  then have keys: "planKeys ?d" and "plansMove S d ?d" using plan_reach_moves assms(1) by blast+
  then obtain r' where r': "r' \<in> set (plans ?d)" "planMoves S r r'" using assms(3) by (auto simp: plansMove_def)
  have "r' = r" if "pl_status r = planStatusDeleted S"
  proof -
    have "(plan_life S)\<^sup>*\<^sup>* (planStatusDeleted S, pl_revision r) (lifeOf r')"
      using r'(2) that by (simp add: planMoves_def lifeOf_def)
    then have "lifeOf r' = (planStatusDeleted S, pl_revision r)"
      by (cases rule: converse_rtranclpE) (use plan_life_deleted [OF assms(4)] in auto)
    with r'(2) show ?thesis by (simp add: planMoves_def lifeOf_def)
  qed
  with keys r' show ?thesis by (auto simp: planMoves_def lifeOf_def)
qed

definition exPlanService :: PlanService where
  "exPlanService = planService exSdk exPlanStore (exStore ''a'') ''rt''"

definition exChange :: ScheduledPlanStatusChange where
  "exChange = \<lparr>changeOwner = exOwner, changePlanID = ''plan_1'', changeExpectedRevision = 1\<rparr>"

theorem plan_lifecycle_witness:
  "planKeys (db (planCall exSdk Inr exPlanService (CallPause exChange) (exWorld exPlanned exNoon))) \<and>
   (\<exists>r' \<in> set (plans (db (planCall exSdk Inr exPlanService (CallPause exChange) (exWorld exPlanned exNoon)))).
      plan_key r' = (''rt'', ''plan_1'') \<and> (plan_life exSdk)\<^sup>*\<^sup>* (''enabled'', 1) (pl_status r', pl_revision r'))"
proof -
  have start: "plan_reach exSdk exPlanned (db (exWorld exPlanned exNoon))"
    by (simp add: exWorld_def plan_reach.start)
  have ok: "planKeys exPlanned" "exPlanRow ''plan_1'' \<in> set (plans exPlanned)" "planStatusesDiffer exSdk"
    by (simp_all add: planKeys_def exPlanned_def planStatusesDiffer_def exSdk_def)
  show ?thesis
    using plan_lifecycle [OF ok(1) start ok(2,3), of Inr exPlanStore "exStore ''a''" "''rt''" "CallPause exChange"]
    unfolding exPlanService_def [symmetric] by (auto simp: plan_key_def)
qed

end
