(* ===== verification/Plan_Projection.thy ===== *)
theory Plan_Projection
  imports Plan_Steps Cursor_Properties
begin

text \<open>
  Plans and the run store: a plan that was stopped has no enabled definition state, so no window of
  it becomes due, and the recovery loop that projects all plans at start-up ends.
\<close>

section \<open>Stopping a plan\<close>

lemma storeReplace_Inr:
  assumes keys: "planKeys (db w)" and replace: "storeReplaceScheduledPlan S s plan expected w = (Inr stored, w')"
  shows "planID stored = planID plan" "planStatus stored = planStatus plan" "planRevision stored = planRevision plan"
    "definition_states (db w') = definition_states (db w)"
proof -
  have "planID stored = planID plan \<and> planStatus stored = planStatus plan \<and> planRevision stored = planRevision plan \<and>
      definition_states (db w') = definition_states (db w)"
    using keys replace
  proof (cases rule: storeReplace_cases)
    case (written r json)
    have "selectRow (planIdentity s (planOwner plan) (planID plan)) (plans (db w')) = Inr (replaced plan json r)"
      using written_row(1) [OF keys written(1,2), of "db w'" json] written(4) by simp
    moreover have "storedPlan S s (db w') (planOwner plan) (planID plan) = Some stored"
      using written(5) by simp
    ultimately obtain client request where
      "planOfRow S (planOwner plan) (planID plan) (replaced plan json r) = Inr (stored, client, request)"
      by (auto simp: storedPlan_def split: sum.splits)
    then show ?thesis using planOfRow_fields written(4) by fastforce
  qed simp
  then show "planID stored = planID plan" "planStatus stored = planStatus plan" "planRevision stored = planRevision plan"
    "definition_states (db w') = definition_states (db w)" by auto
qed

definition stateKeys :: "database \<Rightarrow> bool" where
  "stateKeys d \<longleftrightarrow> distinct (map definition_state_key (definition_states d))"

text \<open>No definition state of the plan is enabled.\<close>

definition planStopped :: "Store \<Rightarrow> string \<Rightarrow> database \<Rightarrow> bool" where
  "planStopped rs ident d \<longleftrightarrow> (\<forall>r \<in> set (definition_states d).
     definitionSourceIdentity rs (scheduledPlanDefinitionPrefix @ ident) definitionStateSourcePlan r \<longrightarrow> \<not> ds_enabled r)"

lemma reconciled_disabled:
  assumes keys: "distinct (map definition_state_key st)" and rec: "reconciled s d raw nxt k False now st st'"
    and r: "r \<in> set st'" "definitionSourceIdentity s (defKey d) k r"
  shows "\<not> ds_enabled r"
proof -
  let ?own = "definitionSourceIdentity s (defKey d) k"
  let ?other = "\<lambda>r. ?own r \<and> ds_revision r \<noteq> defRevision d"
  have unique: "x = y" if "x \<in> set st" "y \<in> set st" "?own x" "?own y" for x y
    using keys that
    by (auto simp: distinct_map inj_on_def definition_state_key_def definitionSourceIdentity_def definitionIdentity_def)
  have own: "?own (changedState d raw nxt False now x) = ?own x" "?own (stableState raw k False now x) = ?own x" for x
    by (simp_all add: definitionSourceIdentity_def definitionIdentity_def changedState_def stableState_def)
  consider x where "x \<in> set st" "?other x" "st' = updateWhere ?other (changedState d raw nxt False now) st"
    | "st' = updateWhere ?own (stableState raw k False now) st"
    | "\<forall>x \<in> set st. \<not> ?own x" "st' = st @ [newState s d raw nxt k False now]"
    using rec unfolding reconciled_def Let_def by (auto split: if_splits)
  then show ?thesis
  proof cases
    case 1
    then show ?thesis
      using r unique [OF _ 1(1)] own by (auto simp: updateWhere_def changedState_def)
  next
    case 2
    then show ?thesis using r own by (auto simp: updateWhere_def stableState_def)
  next
    case 3
    then show ?thesis using r by (auto simp: newState_def)
  qed
qed

lemma project_stopped:
  assumes keys: "stateKeys (db w)" and status: "planStatus plan \<noteq> planStatusEnabled S"
    and project: "projectScheduledPlan S (planService S s rs rt) plan w = (Inr u, w')"
  shows "planStopped rs (planID plan) (db w')"
proof -
  obtain payload rule nxt w1 where
    "reconcileWith S rs (planDefinition S plan payload rule) nxt definitionStateSourcePlan False w = (Inr (), w1)" "db w' = db w1"
    using project status
    by (auto simp: projectScheduledPlan_def ReconcileScheduledPlan_def liftE_def attempt_def fail_def ret_def
        elim!: bindE_InrE split: prod.splits sum.splits)
  moreover have "defKey (planDefinition S plan payload rule) = scheduledPlanDefinitionPrefix @ planID plan"
    by (simp add: planDefinition_def)
  ultimately show ?thesis
    using reconcile_Inr [of S rs "planDefinition S plan payload rule" nxt definitionStateSourcePlan False w "()" w1]
      keys reconciled_disabled
    by (fastforce simp: planStopped_def stateKeys_def)
qed

lemma storePlan_stopped:
  assumes "planKeys (db w)" "stateKeys (db w)" "planStatus plan \<noteq> planStatusEnabled S"
    and "storePlan S (planService S s rs rt) (planRepository S s) plan expected w = (Inr stored, w')"
  shows "planStopped rs (planID plan) (db w')" "planRevision stored = planRevision plan"
proof -
  obtain w1 u w2 where "storeReplaceScheduledPlan S s plan expected w = (Inr stored, w1)"
      and project: "projectScheduledPlan S (planService S s rs rt) stored w1 = (Inr u, w2)" "w' = w2"
    using assms(4) by (auto simp: storePlan_def elim!: bindE_InrE ret_InrE)
  note stored = storeReplace_Inr [OF assms(1) this(1)]
  show "planRevision stored = planRevision plan" by (rule stored)
  show "planStopped rs (planID plan) (db w')"
    using project_stopped [OF _ _ project(1)] assms(2,3) stored project(2) by (simp add: stateKeys_def)
qed

lemma normalizeMutation_Inr:
  "normalizeScheduledPlanMutation S owner0 ident0 v = Inr (owner, ident) \<Longrightarrow> ident = trimSpace ident0"
  by (auto simp: normalizeScheduledPlanMutation_def Let_def split: option.splits if_splits)

lemma storedPlan_ID: "storedPlan S s d owner ident = Some plan \<Longrightarrow> planID plan = ident"
  by (auto elim!: storedPlanE dest: planOfRow_fields(1))

lemma storeGet_ID:
  "storeGetScheduledPlan S s owner ident w = (Inr plan, w') \<Longrightarrow> planID plan = trimSpace ident \<and> db w' = db w"
  using storeGet_stored storedPlan_ID readonlyD [OF readonly_storeReads(1)] by blast

lemma forMutation_ID:
  assumes "scheduledPlanForMutation S (planService S s rs rt) owner0 ident0 v w = (Inr (repo, plan), w')"
  shows "repo = planRepository S s" "planID plan = trimSpace ident0" "db w' = db w"
proof -
  show "repo = planRepository S s" using forMutation_stored [OF assms] by simp
  show "db w' = db w" using assms by (rule readonlyD [OF readonly_forMutation])
  show "planID plan = trimSpace ident0"
    using assms unfolding scheduledPlanForMutation_def planService_simps option.case
    by (auto simp: liftE_def fail_def elim!: bindE_InrE ret_InrE split: prod.splits if_splits
        dest!: normalizeMutation_Inr storeGet_ID)
qed

lemma pause_stopped:
  assumes keys: "planKeys (db w)" "stateKeys (db w)" and differ: "planStatusesDiffer S"
    and pause: "PauseScheduledPlan S (planService S s rs rt) inp w = (Inr receipt, w')"
      "planRevision (planReceiptPlan receipt) = changeExpectedRevision inp + 1"
  shows "planStopped rs (trimSpace (changePlanID inp)) (db w')"
proof -
  have status: "planStatusPaused S \<noteq> planStatusEnabled S" using differ by (auto simp: planStatusesDiffer_def)
  obtain repo current w1 where m: "scheduledPlanForMutation S (planService S s rs rt) (changeOwner inp)
      (changePlanID inp) (changeExpectedRevision inp) w = (Inr (repo, current), w1)"
    and rest: "(if planRevision current = changeExpectedRevision inp + 1 \<and> planStatus current = planStatusPaused S then
       bindE (projectScheduledPlan S (planService S s rs rt) current) (\<lambda>_.
       ret \<lparr>planReceiptPlan = current, planReceiptReplay = True\<rparr>)
     else if planRevision current \<noteq> changeExpectedRevision inp then fail (Sentinel ErrScheduledPlanConflict)
     else if planStatus current = planStatusPaused S then ret \<lparr>planReceiptPlan = current, planReceiptReplay = True\<rparr>
     else if statusRefused S (planStatus current) (planStatusPaused S) then fail (Sentinel ErrScheduledPlanConflict)
     else bindE timeNow (\<lambda>now.
       bindE (storePlan S (planService S s rs rt) repo
         (current\<lparr>planStatus := planStatusPaused S, planRevision := planRevision current + 1, planUpdatedAt := now\<rparr>)
         (planRevision current)) (\<lambda>stored.
       ret \<lparr>planReceiptPlan = stored, planReceiptReplay = False\<rparr>))) w1 = (Inr receipt, w')"
    using pause(1) by (auto simp: PauseScheduledPlan_def changeScheduledPlanStatus_def elim!: bindE_InrE)
  note read = forMutation_ID [OF m]
  consider (replay) u w2 where "projectScheduledPlan S (planService S s rs rt) current w1 = (Inr u, w2)" "w' = w2"
      "planStatus current = planStatusPaused S"
    | (kept) "planReceiptPlan receipt = current" "planRevision current = changeExpectedRevision inp"
    | (stored) now stored w2 w3 where "db w2 = db w1" "w' = w3"
        "storePlan S (planService S s rs rt) repo (current\<lparr>planStatus := planStatusPaused S,
           planRevision := planRevision current + 1, planUpdatedAt := now\<rparr>) (planRevision current) w2 = (Inr stored, w3)"
    using rest by (auto simp: fail_def elim!: bindE_InrE ret_InrE timeNow_InrE split: if_splits)
  then show ?thesis
  proof cases
    case replay
    then show ?thesis using project_stopped [OF _ _ replay(1)] keys(2) read status by simp
  next
    case kept
    then show ?thesis using pause(2) by simp
  next
    case stored
    then show ?thesis
      using storePlan_stopped(1) [OF _ _ _ stored(3) [unfolded read(1)]] keys read status by simp
  qed
qed

lemma delete_stopped:
  assumes keys: "planKeys (db w)" "stateKeys (db w)" and differ: "planStatusesDiffer S"
    and delete: "DeleteScheduledPlan S (planService S s rs rt) inp w = (Inr receipt, w')"
  shows "planStopped rs (trimSpace (changePlanID inp)) (db w')"
proof -
  have status: "planStatusDeleted S \<noteq> planStatusEnabled S" using differ by (auto simp: planStatusesDiffer_def)
  obtain owner ident current w1 where
      normalized: "normalizeScheduledPlanMutation S (changeOwner inp) (changePlanID inp) (changeExpectedRevision inp) =
        Inr (owner, ident)"
    and get: "storeGetScheduledPlan S s owner ident w = (Inr current, w1)"
    and rest: "(if planStatus current = planStatusDeleted S then
        (if planRevision current = changeExpectedRevision inp + 1 then
           bindE (projectScheduledPlan S (planService S s rs rt) current) (\<lambda>_. ret (deleteReceipt current True))
         else fail (Sentinel ErrScheduledPlanNotFound))
      else if planRevision current \<noteq> changeExpectedRevision inp then fail (Sentinel ErrScheduledPlanConflict)
      else bindE timeNow (\<lambda>now.
        bindE (storePlan S (planService S s rs rt) (planRepository S s)
          (current\<lparr>planStatus := planStatusDeleted S, planRevision := planRevision current + 1, planUpdatedAt := now\<rparr>)
          (planRevision current)) (\<lambda>stored.
        ret (deleteReceipt stored False)))) w1 = (Inr receipt, w')"
    using delete unfolding DeleteScheduledPlan_def planService_simps option.case
    by (auto simp: liftE_def elim!: bindE_InrE)
  have current: "planID current = trimSpace (changePlanID inp)" "db w1 = db w"
    using storeGet_ID [OF get] normalizeMutation_Inr [OF normalized] by simp_all
  consider (replay) u w2 where "projectScheduledPlan S (planService S s rs rt) current w1 = (Inr u, w2)" "w' = w2"
      "planStatus current = planStatusDeleted S"
    | (stored) now stored w2 w3 where "db w2 = db w1" "w' = w3"
        "storePlan S (planService S s rs rt) (planRepository S s) (current\<lparr>planStatus := planStatusDeleted S,
           planRevision := planRevision current + 1, planUpdatedAt := now\<rparr>) (planRevision current) w2 = (Inr stored, w3)"
    using rest by (auto simp: fail_def elim!: bindE_InrE ret_InrE timeNow_InrE split: if_splits)
  then show ?thesis
  proof cases
    case replay
    then show ?thesis using project_stopped [OF _ _ replay(1)] keys(2) current status by simp
  next
    case stored
    then show ?thesis using storePlan_stopped(1) [OF _ _ _ stored(3)] keys current status by simp
  qed
qed


text \<open>The example plan, running, and its pause.\<close>

definition exPlanState :: definition_state_row where
  "exPlanState = exStateRow\<lparr>ds_definition_key := ''scheduled-plan:plan_1'', ds_source_kind := definitionStateSourcePlan\<rparr>"

definition exRunning :: database where
  "exRunning = exPlanned\<lparr>definition_states := [exPlanState]\<rparr>"

definition exPaused :: ScheduledPlan where
  "exPaused = (exPlan ''plan_1'')\<lparr>planStatus := ''paused'', planRevision := 2, planUpdatedAt := exNoon\<rparr>"

definition exPausedRow :: plan_row where
  "exPausedRow = replaced exPaused (''trigger'', ''actions'', ''target'') (exPlanRow ''plan_1'')"

definition exPausedState :: definition_state_row where
  "exPausedState = exPlanState\<lparr>ds_revision := ''2'', ds_enabled := False, ds_definition_json := ''definition'',
     ds_next_run_at := formatTime (exNoon + 3600 * second), ds_updated_at := formatTime exNoon\<rparr>"

lemma exTrimmed [simp]:
  "trimSpace ''w1'' = ''w1''" "trimSpace ''u1'' = ''u1''" "trimSpace ''p1'' = ''p1''" "trimSpace ''plan_1'' = ''plan_1''"
  "trimSpace ''scheduled-plan:plan_1'' = ''scheduled-plan:plan_1''" "scheduledPlanManagementKey ''plan_1''"
  by code_simp+

lemma exNormalized: "normalizeScheduledPlanMutation exSdk exOwner ''plan_1'' 1 = Inr (exOwner, ''plan_1'')"
  by (simp add: normalizeScheduledPlanMutation_def normalizeScheduledPlanOwner_def exOwner_def exSdk_def)

lemma exForMutation:
  "scheduledPlanForMutation exSdk exPlanService exOwner ''plan_1'' 1 (exWorld exRunning exNoon) =
    (Inr (planRepository exSdk exPlanStore, exPlan ''plan_1''), (exWorld exRunning exNoon)\<lparr>calls := 1\<rparr>)"
proof -
  have "selectRow (planIdentity exPlanStore exOwner ''plan_1'') (plans (db (exWorld exRunning exNoon))) = Inr (exPlanRow ''plan_1'')"
    using exPlanStored by (simp add: exRunning_def exWorld_def)
  then have "getScheduledPlan exSdk exPlanStore exOwner ''plan_1'' (exWorld exRunning exNoon) =
      (Inr (exPlan ''plan_1'', ''c1'', ''d1''), (exWorld exRunning exNoon)\<lparr>calls := 1\<rparr>)"
    using exPlanOfRow by (simp add: getScheduledPlan_healthy) (simp add: exWorld_def)
  then have "storeGetScheduledPlan exSdk exPlanStore exOwner ''plan_1'' (exWorld exRunning exNoon) =
      (Inr (exPlan ''plan_1''), (exWorld exRunning exNoon)\<lparr>calls := 1\<rparr>)"
    by (simp add: storeGetScheduledPlan_def bindE_def ret_def)
  moreover have "planStatus (exPlan ''plan_1'') \<noteq> planStatusDeleted exSdk" by (simp add: exPlan_def exSdk_def)
  ultimately show ?thesis
    by (simp add: scheduledPlanForMutation_def exPlanService_def exNormalized bindE_def liftE_def ret_def)
qed

definition exStoppedDb :: "plan_row list \<Rightarrow> database" where
  "exStoppedDb ps = exRunning\<lparr>plans := ps, definition_states := [exPausedState]\<rparr>"

lemma exPausedStored:
  "selectRow (planIdentity exPlanStore exOwner ''plan_1'') [exPausedRow] = Inr exPausedRow"
  "planOfRow exSdk exOwner ''plan_1'' exPausedRow = Inr (exPaused, ''c1'', ''d1'')"
proof -
  show "selectRow (planIdentity exPlanStore exOwner ''plan_1'') [exPausedRow] = Inr exPausedRow"
    by (simp add: selectRow_def exPausedRow_def planIdentity_def exPlanStore_def)
  show "planOfRow exSdk exOwner ''plan_1'' exPausedRow = Inr (exPaused, ''c1'', ''d1'')"
    by (simp add: planOfRow_def exPausedRow_def replaced_def exPaused_def exPlanRow_def planRow_def exRecord_def
        exPlan_def exSdk_def exPlanTrigger_def nullable_def isBlank_def Let_def)
qed

lemma exPausedReplace:
  "storeReplaceScheduledPlan exSdk exPlanStore exPaused 1 ((exWorld exRunning exNoon)\<lparr>calls := 1, reads := 1\<rparr>) =
    (Inr exPaused, (exWorld (exRunning\<lparr>plans := [exPausedRow]\<rparr>) exNoon)\<lparr>calls := 3, reads := 1\<rparr>)"
proof -
  have plan: "planOwner exPaused = exOwner" "planID exPaused = ''plan_1''" by (simp_all add: exPaused_def)
  then have "replaceable exPlanStore exPaused 1 (exPlanRow ''plan_1'')"
    by (simp add: replaceable_def planIdentity_def exPlanStore_def)
  then have "sqlCall (sql_replacePlan exPlanStore exPaused (''trigger'', ''actions'', ''target'') 1)
      ((exWorld exRunning exNoon)\<lparr>calls := 1, reads := 1\<rparr>) =
      (Inr 1, (exWorld (exRunning\<lparr>plans := [exPausedRow]\<rparr>) exNoon)\<lparr>calls := 2, reads := 1\<rparr>)"
    by (simp add: sqlCall_healthy sql_replacePlan_eq sql_unfold)
      (simp add: exWorld_def exRunning_def exPlanned_def exPausedRow_def)
  moreover have "getScheduledPlan exSdk exPlanStore exOwner ''plan_1''
      ((exWorld (exRunning\<lparr>plans := [exPausedRow]\<rparr>) exNoon)\<lparr>calls := 2, reads := 1\<rparr>) =
      (Inr (exPaused, ''c1'', ''d1''), (exWorld (exRunning\<lparr>plans := [exPausedRow]\<rparr>) exNoon)\<lparr>calls := 3, reads := 1\<rparr>)"
    using exPausedStored by (simp add: getScheduledPlan_healthy) (simp add: exWorld_def)
  ultimately show ?thesis
    using plan by (simp add: storeReplaceScheduledPlan_def bindE_def liftE_def ret_def)
qed

lemma exRevisionText: "formatInt 2 = ''2''"
  by code_simp

lemma exPausedProject:
  "projectScheduledPlan exSdk exPlanService exPaused
     ((exWorld (exRunning\<lparr>plans := [exPausedRow]\<rparr>) exNoon)\<lparr>calls := 3, reads := 1\<rparr>) =
    (Inr (), (exWorld (exStoppedDb [exPausedRow]) exNoon)\<lparr>calls := 4, reads := 2\<rparr>)"
proof -
  define d where "d = planDefinition exSdk exPaused ''dispatch'' exSchedule"
  have d: "defKey d = ''scheduled-plan:plan_1''" "defRevision d = ''2''"
    by (simp_all add: d_def planDefinition_def scheduledPlanDefinitionPrefix_def exPaused_def exRevisionText)
  have "definitionSourceIdentity (exStore ''a'') (defKey d) definitionStateSourcePlan exPlanState" "ds_revision exPlanState \<noteq> defRevision d"
    by (simp_all add: d definitionSourceIdentity_def definitionIdentity_def exPlanState_def exStateRow_def exStore_def)
  then have "reconcileWith exSdk (exStore ''a'') d (exNoon + 3600 * second) definitionStateSourcePlan False
      ((exWorld (exRunning\<lparr>plans := [exPausedRow]\<rparr>) exNoon)\<lparr>calls := 3, reads := 1\<rparr>) =
      (Inr (), (exWorld (exStoppedDb [exPausedRow]) exNoon)\<lparr>calls := 4, reads := 2\<rparr>)"
    by (simp add: reconcileWith_def sql_reconcileChanged_def go_unfold sql_unfold exWorld_def exRunning_def exStoppedDb_def
        exPausedState_def d Let_def)
  moreover have "planSchedule exSdk exPaused = Inr (exSchedule, exNoon + 3600 * second)"
      "marshalDispatch exSdk (planDispatch exPaused) = Inr ''dispatch''" "planStatus exPaused \<noteq> planStatusEnabled exSdk"
    by (simp_all add: planSchedule_def exSdk_def exPaused_def exPlan_def exPlanTrigger_def exNoon_def unixEpoch_def second_def)
  ultimately show ?thesis
    by (simp add: projectScheduledPlan_def exPlanService_def ReconcileScheduledPlan_def d_def bindE_def liftE_def attempt_def ret_def)
qed

lemma exPause:
  "PauseScheduledPlan exSdk exPlanService exChange (exWorld exRunning exNoon) =
    (Inr \<lparr>planReceiptPlan = exPaused, planReceiptReplay = False\<rparr>,
     (exWorld (exStoppedDb [exPausedRow]) exNoon)\<lparr>calls := 4, reads := 2\<rparr>)"
proof -
  have status: "planStatusPaused exSdk = ''paused''" "planStatusEnabled exSdk = ''enabled''"
      "planStatus (exPlan ''plan_1'') = ''enabled''"
    by (simp_all add: exSdk_def exPlan_def)
  have paused: "(exPlan ''plan_1'')\<lparr>planStatus := ''paused'', planRevision := 2, planUpdatedAt := exNoon\<rparr> = exPaused"
    by (simp add: exPaused_def)
  have "timeNow ((exWorld exRunning exNoon)\<lparr>calls := 1\<rparr>) = (Inr exNoon, (exWorld exRunning exNoon)\<lparr>calls := 1, reads := 1\<rparr>)"
    by (simp add: timeNow_def exWorld_def)
  then show ?thesis
    using exForMutation exPausedReplace exPausedProject status
    by (simp add: PauseScheduledPlan_def changeScheduledPlanStatus_def exChange_def statusRefused_def storePlan_def
        bindE_def ret_def paused)
qed


section \<open>Recovery\<close>

text \<open>A page of recovery holds the plans of its rows.\<close>

lemma recoveryPage:
  assumes "ListScheduledPlansForRecovery S s after limit w = (Inr ps, w')"
  shows "map planID ps = map pl_plan_id (recoveryRows s (trimSpace after) (recoveryLimit limit) (db w))" "db w' = db w"
proof -
  show "db w' = db w" using assms by (rule readonlyD [OF readonly_storeReads(2)])
  obtain w1 where "mapE (\<lambda>r. bindE (getScheduledPlan S s (rowOwner r) (pl_plan_id r)) (\<lambda>(plan, _, _). ret plan))
      (recoveryRows s (trimSpace after) (recoveryLimit limit) (db w)) w1 = (Inr ps, w')"
    using assms by (auto simp: ListScheduledPlansForRecovery_def elim!: bindE_InrE sqlQuery_InrE)
  then show "map planID ps = map pl_plan_id (recoveryRows s (trimSpace after) (recoveryLimit limit) (db w))"
    by (rule mapE_map)
      (auto elim!: bindE_InrE ret_InrE getScheduledPlan_Inr dest: planOfRow_fields(1) split: prod.splits)
qed

lemma recoveryRows_set: "set (recoveryRows s after limit d) \<subseteq> set (plans d)"
  using set_limitRows by (fastforce simp: recoveryRows_def)

definition idsAfter :: "database \<Rightarrow> string \<Rightarrow> string set" where
  "idsAfter d after = {i \<in> pl_plan_id ` set (plans d). after < i}"

lemma foldE_project_plans:
  assumes "foldE (\<lambda>plan _. projectScheduledPlan S (planService S s rs rt) plan) ps () w = (q, w')"
  shows "plans (db w') = plans (db w)"
  using movesD [OF same_plans.moves_foldE [OF project_samePlans] _ assms] by (simp add: samePlans_def)

lemma hydrateRounds_end:
  assumes "card (idsAfter (db w) after) < n"
  shows "fst (hydrateRounds S (planService S s rs rt) (ListScheduledPlansForRecovery S s) n after found w) \<noteq> Inr None"
  using assms
proof (induction n arbitrary: after found w)
  case (Suc n)
  obtain q w1 where q: "ListScheduledPlansForRecovery S s after 200 w = (q, w1)" by fastforce
  show ?case
  proof (cases q)
    case (Inl e)
    with q show ?thesis by (simp add: attempt_def fail_def)
  next
    case (Inr ps)
    obtain u w2 where u: "foldE (\<lambda>plan _. projectScheduledPlan S (planService S s rs rt) plan) ps () w1 = (u, w2)" by fastforce
    have plans: "plans (db w2) = plans (db w)" using foldE_project_plans [OF u] recoveryPage(2) q Inr by simp
    have "fst (hydrateRounds S (planService S s rs rt) (ListScheduledPlansForRecovery S s) n (planID (last ps)) found' w2) \<noteq> Inr None"
      if full: "\<not> length ps < 200" and next_id: "\<not> planID (last ps) \<le> after" for found'
    proof (rule Suc.IH)
      have "planID (last ps) \<in> set (map planID ps)" using full by (cases ps) auto
      then have mem: "planID (last ps) \<in> pl_plan_id ` set (plans (db w))"
        using recoveryPage(1) [of S s after 200 w ps w1] q Inr recoveryRows_set by fastforce
      have "idsAfter (db w2) (planID (last ps)) \<subset> idsAfter (db w) after"
        using mem next_id plans by (auto simp: idsAfter_def)
      then have "card (idsAfter (db w2) (planID (last ps))) < card (idsAfter (db w) after)"
        by (rule psubset_card_mono [rotated]) (simp add: idsAfter_def)
      then show "card (idsAfter (db w2) (planID (last ps))) < n" using Suc.prems by simp
    qed
    with q Inr u show ?thesis
      by (cases u) (auto simp: attempt_def bindE_def fail_def ret_def Let_def)
  qed
qed simp

lemma hydrateRounds_found:
  assumes "hydrateRounds S b recover n after True w = (Inr (Some found), w')"
  shows found
  using assms
proof (induction n arbitrary: after w)
  case (Suc n)
  then show ?case
    by (auto simp: attempt_def fail_def Let_def elim!: bindE_InrE ret_InrE split: prod.splits sum.splits if_splits)
qed (simp add: ret_def)

text \<open>
  C28. The recovery of scheduled plans ends: with more rounds than there are plans the loop never runs
  out of rounds, whichever calls fail, because its cursor grows from page to page. When it succeeds it
  reports whether the Runtime has a plan at all.
\<close>

theorem plan_recovery_terminates:
  assumes "length (plans (db w)) < n" "hydrateScheduledPlans S (planService S s rs rt) n w = (q, w')"
  shows "q \<noteq> Inr None \<and> plans (db w') = plans (db w) \<and>
    (\<forall>found. q = Inr (Some found) \<longrightarrow> found = (\<exists>r \<in> set (plans (db w)). pl_runtime_id r = psRuntimeID s))"
proof -
  have run: "hydrateRounds S (planService S s rs rt) (ListScheduledPlansForRecovery S s) n [] False w = (q, w')"
    using assms(2) by (simp add: hydrateScheduledPlans_def)
  have "idsAfter (db w) [] \<subseteq> pl_plan_id ` set (plans (db w))" by (auto simp: idsAfter_def)
  then have "card (idsAfter (db w) []) \<le> length (plans (db w))"
    using card_mono [of "pl_plan_id ` set (plans (db w))" "idsAfter (db w) []"]
      card_length [of "map pl_plan_id (plans (db w))"] by simp
  then have ends: "q \<noteq> Inr None" using hydrateRounds_end [of w "[]" n S s rs rt False] assms(1) run by simp
  have same: "plans (db w') = plans (db w)"
    using movesD [OF hydrateRounds_samePlans _ run] by (simp add: samePlans_def)
  obtain m where n: "n = Suc m" using assms(1) by (cases n) auto
  have "found = (\<exists>r \<in> set (plans (db w)). pl_runtime_id r = psRuntimeID s)" if found: "q = Inr (Some found)" for found
  proof -
    obtain ps w1 where ps: "ListScheduledPlansForRecovery S s [] 200 w = (Inr ps, w1)"
      using run found n by (auto simp: attempt_def fail_def split: prod.splits sum.splits)
    have "ps = [] \<longleftrightarrow> recoveryRows s [] 200 (db w) = []"
      using arg_cong [OF recoveryPage(1) [OF ps], of length] by (auto simp: recoveryLimit_def)
    also have "\<dots> \<longleftrightarrow> length (filter (\<lambda>r. pl_runtime_id r = psRuntimeID s) (plans (db w))) = 0"
      by (auto simp: recoveryRows_def limitRows_def ascending_def min_def split: if_splits simp flip: length_0_conv)
    also have "\<dots> \<longleftrightarrow> (\<forall>r \<in> set (plans (db w)). pl_runtime_id r \<noteq> psRuntimeID s)"
      by (simp add: filter_empty_conv)
    finally have page: "ps \<noteq> [] \<longleftrightarrow> (\<exists>r \<in> set (plans (db w)). pl_runtime_id r = psRuntimeID s)" by blast
    have "found = (ps \<noteq> [])"
      using run found n ps hydrateRounds_found
      by (auto simp: attempt_def fail_def Let_def elim!: bindE_InrE ret_InrE split: if_splits)
    with page show ?thesis by simp
  qed
  with ends same show ?thesis by blast
qed

section \<open>Identifiers\<close>

lemma hexEncode_printable:
  "list_all (\<lambda>c. (0x21 :: nat) \<le> of_char c \<and> of_char c \<noteq> (0x7F :: nat)) (hexEncode s)"
proof -
  have "(0x21 :: nat) \<le> of_char (hexDigit n) \<and> of_char (hexDigit n) \<noteq> (0x7F :: nat)" if "n < 16" for n
    using that by (auto simp: hexDigit_def)
  moreover have "(of_char c :: nat) div 16 < 16" for c
  proof -
    have "(of_char c :: nat) \<in> {0..<256}" unfolding range_nat_of_char [symmetric] by blast
    then show ?thesis by (simp add: less_mult_imp_div_less)
  qed
  ultimately show ?thesis by (auto simp: hexEncode_def list_all_iff)
qed

text \<open>
  Every plan the service creates can be addressed: the identifier it computes is a well-formed
  management key of 37 bytes, so an operation on it is refused only by the owner's validation or for a
  revision below one.
\<close>

theorem created_plan_addressable:
  "scheduledPlanManagementKey (scheduledPlanID runtime owner client) \<and>
   length (scheduledPlanID runtime owner client) = 37 \<and>
   normalizeScheduledPlanMutation S owner' (scheduledPlanID runtime owner client) v =
     (case validateOwner S (normalizeScheduledPlanOwner owner') of Some e \<Rightarrow> Inl e | None \<Rightarrow>
      if v < 1
      then Inl (Annotatef (Sentinel ErrScheduledPlanInvalid) '': plan ID and positive expected revision are required'')
      else Inr (normalizeScheduledPlanOwner owner', scheduledPlanID runtime owner client))"
proof -
  let ?id = "scheduledPlanID runtime owner client"
  have len: "length ?id = 37" by (simp add: scheduledPlanID_def)
  have "plainText ?id"
    using plainText_hexEncode by (simp add: scheduledPlanID_def plainText_def)
  then have trim: "trimSpace ?id = ?id" by (rule trimSpace_plain)
  have "scheduledPlanManagementKey ?id"
    using len trim hexEncode_printable
    by (auto simp: scheduledPlanManagementKey_def scheduledPlanID_def)
  with len trim show ?thesis by (simp add: normalizeScheduledPlanMutation_def split: option.splits)
qed

theorem plan_recovery_terminates_witness:
  "fst (hydrateScheduledPlans exSdk exPlanService 2 (exWorld exRunning exNoon)) \<noteq> Inr None \<and>
   plans (db (snd (hydrateScheduledPlans exSdk exPlanService 2 (exWorld exRunning exNoon)))) = [exPlanRow ''plan_1'']"
proof -
  obtain q w' where q: "hydrateScheduledPlans exSdk exPlanService 2 (exWorld exRunning exNoon) = (q, w')" by fastforce
  have rows: "plans (db (exWorld exRunning exNoon)) = [exPlanRow ''plan_1'']"
    by (simp add: exWorld_def exRunning_def exPlanned_def)
  show ?thesis
    using plan_recovery_terminates [OF _ q [unfolded exPlanService_def]] q rows by simp
qed

end
