(* ===== verification/Go_Process.thy ===== *)
theory Go_Process
  imports Database
begin

text \<open>
  A Go process: the values a struct keeps in memory, beside the database its stores write. An
  operation of such a struct has the same effects as one of a store, on the larger state; \<open>zoom\<close> runs an
  operation on a part of the state.
\<close>

definition withState :: "'e \<Rightarrow> 'd world \<Rightarrow> 'e world" where
  "withState d w = \<lparr>db = d, clock = clock w, reads = reads w, fault = fault w, calls = calls w,
     entropy = entropy w, draws = draws w\<rparr>"

definition zoom :: "('d \<Rightarrow> 'e) \<Rightarrow> ('e \<Rightarrow> 'd \<Rightarrow> 'd) \<Rightarrow> ('e, 'a) go \<Rightarrow> ('d, 'a) go" where
  "zoom get put m w =
     (case m (withState (get (db w)) w) of (r, w') \<Rightarrow> (r, withState (put (db w') (db w)) w'))"

record 'm process =
  memory :: 'm
  tables :: database

type_synonym ('m, 'a) procop = "('m process, 'a) go"

definition onTables :: "'a dbop \<Rightarrow> ('m, 'a) procop" where
  "onTables = zoom tables (\<lambda>d p. p\<lparr>tables := d\<rparr>)"

definition getMemory :: "('m, 'm) procop" where
  "getMemory w = (Inr (memory (db w)), w)"

definition modifyMemory :: "('m \<Rightarrow> 'm) \<Rightarrow> ('m, unit) procop" where
  "modifyMemory f w = (Inr (), w\<lparr>db := (db w)\<lparr>memory := f (memory (db w))\<rparr>\<rparr>)"

section \<open>Facts\<close>

lemma withState_simps [simp]:
  "db (withState d w) = d" "clock (withState d w) = clock w" "reads (withState d w) = reads w"
  "fault (withState d w) = fault w" "calls (withState d w) = calls w"
  "healthy (withState d w) = healthy w"
  "withState d (withState e w) = withState d w"
  by (simp_all add: withState_def healthy_def)

lemma withState_same: "withState (db w) w = w"
  by (simp add: withState_def)

lemma onTables_eq:
  "onTables m w = (case m (withState (tables (db w)) w) of
     (r, w') \<Rightarrow> (r, withState ((db w)\<lparr>tables := db w'\<rparr>) w'))"
  by (simp add: onTables_def zoom_def)

lemma onTables_step:
  "m (withState (tables (db w)) w) = (r, w') \<Longrightarrow> onTables m w = (r, withState ((db w)\<lparr>tables := db w'\<rparr>) w')"
  by (simp add: onTables_eq)

lemma onTables_E:
  assumes "onTables m w = (r, w')"
  obtains v where "m (withState (tables (db w)) w) = (r, v)" "tables (db w') = db v"
    "memory (db w') = memory (db w)"
proof -
  obtain q v where "m (withState (tables (db w)) w) = (q, v)" by fastforce
  with assms that [of v] show thesis by (auto simp: onTables_eq)
qed

lemma bindE_getMemory [simp]: "bindE getMemory f w = f (memory (db w)) w"
  by (simp add: bindE_def getMemory_def)

text \<open>The order of a database, on processes.\<close>

definition tablesOrder :: "(database \<Rightarrow> database \<Rightarrow> bool) \<Rightarrow> 'm process \<Rightarrow> 'm process \<Rightarrow> bool" where
  "tablesOrder R p p' \<longleftrightarrow> R (tables p) (tables p')"

lemma moves_onTables:
  "moves R P m \<Longrightarrow> moves (tablesOrder R) (\<lambda>p. P (tables p)) (onTables m)"
  unfolding moves_def tablesOrder_def onTables_eq
  by (auto split: prod.splits) (metis snd_conv withState_simps(1))

lemma readonly_onTables [readonly_intros]: "readonly m \<Longrightarrow> readonly (onTables m)"
  unfolding readonly_def onTables_eq by (auto split: prod.splits) (metis snd_conv withState_simps(1) process.surjective process.update_convs(2))

lemma readonly_getMemory [readonly_intros]: "readonly getMemory"
  by (simp add: readonly_def getMemory_def)

text \<open>A call whose error is wrapped.\<close>

lemma attempt_wrapped:
  assumes "attempt m (\<lambda>q. case q of Inl e \<Rightarrow> fail (g e) | Inr x \<Rightarrow> f x) w = (Inr y, w')"
  obtains x v where "m w = (Inr x, v)" "f x v = (Inr y, w')"
proof -
  obtain q v where q: "m w = (q, v)" by fastforce
  then show thesis using assms that by (cases q) (simp_all add: attempt_def fail_def)
qed

end
