(* ===== verification/Go_JSON.thy ===== *)
theory Go_JSON
  imports Go_Crypto
begin

text \<open>
  The string encoder of \<^verbatim>\<open>encoding/json\<close>, as \<^verbatim>\<open>json.Marshal\<close> uses it: the escapes of ASCII characters
  (HTML characters included), the replacement of invalid UTF-8, and the two line separators. A Go map is
  encoded with its keys in order.
\<close>

section \<open>UTF-8\<close>

text \<open>The length of the well-formed UTF-8 sequence at the head of a string; 0 when there is none.\<close>

definition continuation :: "nat \<Rightarrow> nat \<Rightarrow> char \<Rightarrow> bool" where
  "continuation lo hi c \<longleftrightarrow> lo \<le> of_char c \<and> of_char c \<le> (hi :: nat)"

definition utf8Tail :: "(nat \<times> nat) list \<Rightarrow> string \<Rightarrow> nat" where
  "utf8Tail ranges s =
     (if length ranges \<le> length s \<and> list_all2 (\<lambda>(lo, hi) c. continuation lo hi c) ranges (take (length ranges) s)
      then Suc (length ranges) else 0)"

fun utf8Length :: "string \<Rightarrow> nat" where
  "utf8Length [] = 0"
| "utf8Length (c # s) =
     (let b = (of_char c :: nat) in
      if b < 0x80 then 1
      else if b < 0xC2 then 0
      else if b < 0xE0 then utf8Tail [(0x80, 0xBF)] s
      else if b = 0xE0 then utf8Tail [(0xA0, 0xBF), (0x80, 0xBF)] s
      else if b = 0xED then utf8Tail [(0x80, 0x9F), (0x80, 0xBF)] s
      else if b < 0xF0 then utf8Tail [(0x80, 0xBF), (0x80, 0xBF)] s
      else if b = 0xF0 then utf8Tail [(0x90, 0xBF), (0x80, 0xBF), (0x80, 0xBF)] s
      else if b < 0xF4 then utf8Tail [(0x80, 0xBF), (0x80, 0xBF), (0x80, 0xBF)] s
      else if b = 0xF4 then utf8Tail [(0x80, 0x8F), (0x80, 0xBF), (0x80, 0xBF)] s
      else 0)"

section \<open>Strings\<close>

definition unicodeEscape :: "nat \<Rightarrow> string" where
  "unicodeEscape n = [CHR 0x5C, CHR ''u'', hexDigit (n div 4096 mod 16), hexDigit (n div 256 mod 16),
     hexDigit (n div 16 mod 16), hexDigit (n mod 16)]"

definition jsonASCII :: "char \<Rightarrow> string" where
  "jsonASCII c =
     (let n = (of_char c :: nat) in
      if c = CHR 0x22 \<or> c = CHR 0x5C then [CHR 0x5C, c]
      else if n = 8 then [CHR 0x5C, CHR ''b''] else if n = 12 then [CHR 0x5C, CHR ''f'']
      else if n = 10 then [CHR 0x5C, CHR ''n''] else if n = 13 then [CHR 0x5C, CHR ''r'']
      else if n = 9 then [CHR 0x5C, CHR ''t'']
      else if n < 32 \<or> c = CHR ''<'' \<or> c = CHR ''>'' \<or> c = CHR ''&'' then unicodeEscape n
      else [c])"

text \<open>One step of the encoder: what is written for the head of the string, and how much it consumes.\<close>

definition jsonRune :: "string \<Rightarrow> string \<times> nat" where
  "jsonRune s =
     (let n = utf8Length s in
      if n = 0 then (unicodeEscape 0xFFFD, 1)
      else if n = 1 then (jsonASCII (hd s), 1)
      else if take 3 s = [CHR 0xE2, CHR 0x80, CHR 0xA8] then (unicodeEscape 0x2028, 3)
      else if take 3 s = [CHR 0xE2, CHR 0x80, CHR 0xA9] then (unicodeEscape 0x2029, 3)
      else (take n s, n))"

lemma jsonRune_consumes: "0 < snd (jsonRune s)"
  by (simp add: jsonRune_def Let_def)

function jsonBody :: "string \<Rightarrow> string" where
  "jsonBody s = (if s = [] then [] else fst (jsonRune s) @ jsonBody (drop (snd (jsonRune s)) s))"
  by pat_completeness auto
termination
  by (relation "measure length") (auto simp: jsonRune_consumes)

declare jsonBody.simps [simp del]

definition jsonString :: "string \<Rightarrow> string" where
  "jsonString s = CHR 0x22 # jsonBody s @ [CHR 0x22]"

text \<open>An object with string values; a Go map is given with its keys in order.\<close>

definition jsonField :: "string \<times> string \<Rightarrow> string" where
  "jsonField kv = jsonString (fst kv) @ '':'' @ snd kv"

fun jsonJoin :: "string list \<Rightarrow> string" where
  "jsonJoin [] = []"
| "jsonJoin [x] = x"
| "jsonJoin (x # y # xs) = x @ '','' @ jsonJoin (y # xs)"

definition jsonObject :: "(string \<times> string) list \<Rightarrow> string" where
  "jsonObject kvs = ''{'' @ jsonJoin (map jsonField kvs) @ ''}''"

end
