(* ===== verification/Scheduler_Service.thy ===== *)
theory Scheduler_Service
  imports Scheduled_Plans Definition_Store Go_Process Go_JSON "HOL-Library.Signed_Division"
begin

text \<open>
  The application service, \<^verbatim>\<open>service.go\<close>, and the retry policy, \<^verbatim>\<open>retry_policy.go\<close>: it publishes the
  definitions of a host and projects them, dispatches due triggers to their downstream owners and reports
  the outcome, answers operators, and owns the background worker.

  The fixed fields of \<^verbatim>\<open>Service\<close> are the record \<open>Service\<close>; the fields that change are the record \<open>Memory\<close>,
  the memory of a process whose tables are the database. \<^verbatim>\<open>definitionRepository\<close> is a record of operations
  that may be missing (nil); \<^verbatim>\<open>runs\<close> is the store of \<open>Run_Store\<close>, which has the two optional interfaces the
  service asks for. The host and the packages the service only calls are the records \<open>Host\<close> and
  \<open>Platform\<close>. An operation of the host is any function on the database, so nothing is assumed of it here.
  The heartbeat of the foundation runs the work it is given, renews the lease beside it, and returns the
  result of the work with the error \<^verbatim>\<open>stopHeartbeat\<close> reports.
\<close>

section \<open>The service and what it calls\<close>

record WorkerConfig =
  cfgEnabled :: bool
  cfgPollInterval :: duration
  cfgBatchSize :: int
  cfgLeaseTTL :: duration
  cfgDispatchTimeout :: duration
  cfgMaxPendingTriggers :: int

type_synonym Dispatcher = "duration \<Rightarrow> Trigger \<Rightarrow> DownstreamReceipt dbop"

record Host =
  hostSnapshot :: "HostSnapshot dbop"
  hostDispatch :: Dispatcher

record Platform =
  withHeartbeat :: "duration \<Rightarrow> unit dbop \<Rightarrow> DownstreamReceipt dbop \<Rightarrow> ((goerr + DownstreamReceipt) \<times> goerr option) dbop"
  leaseValid :: "Lease \<Rightarrow> bool"
  normalizeWorkerConfig :: "WorkerConfig \<Rightarrow> WorkerConfig"
  previewSchedule :: "Schedule \<Rightarrow> time \<Rightarrow> int \<Rightarrow> time list dbop"

record DefinitionRepository =
  repoSyncDefinitions :: "DefinitionSnapshot \<Rightarrow> unit dbop"
  repoDefinitionSnapshot :: "DefinitionSnapshot dbop"

definition definitionRepository :: "Sdk \<Rightarrow> DefinitionStore \<Rightarrow> DefinitionRepository" where
  "definitionRepository S s =
     \<lparr>repoSyncDefinitions = SyncDefinitions S s, repoDefinitionSnapshot = DefinitionSnapshotOf S s\<rparr>"

record Service =
  serviceRuntimeID :: string
  serviceMode :: DeploymentMode
  serviceHost :: Host
  serviceDirectHTTP :: Dispatcher
  serviceDefinitions :: "DefinitionRepository option"
  servicePlans :: PlanService
  servicePlatform :: Platform

definition Descriptor_of :: "ProtocolNames \<Rightarrow> Service \<Rightarrow> Descriptor" where
  "Descriptor_of N b =
     (let capabilities = [''configuration_reconcile'', ''schedule_preview'', ''durable_trigger'', ''manual_trigger'', ''run_evidence'',
            capPlanRecords N, capPlanDeletionRead N, capTriggerBacklog N] in
      \<lparr>descProtocolVersion = protocolVersionV1 N, descMode = serviceMode b,
       descCapabilities = (if serviceMode b = DeploymentModeSaaS then capabilities @ [capPublicationFencing N] else capabilities)\<rparr>)"

text \<open>
  \<open>memChannels\<close> counts the completion channels made so far; \<open>memWorkers\<close> are those whose worker
  goroutine has not returned. \<open>memCanceled\<close> is \<^verbatim>\<open>b.ctx.Err() != nil\<close>.
\<close>

record Memory =
  memRuns :: Store
  memDefinitions :: "string \<rightharpoonup> Definition"
  memGeneration :: "64 word"
  memLeaseTTL :: duration
  memDispatchTimeout :: duration
  memWorkerDone :: "nat option"
  memClosed :: bool
  memCanceled :: bool
  memChannels :: nat
  memWorkers :: "nat set"

type_synonym 'a svcop = "(Memory, 'a) procop"

definition emptyWorkerConfig :: WorkerConfig where
  "emptyWorkerConfig = \<lparr>cfgEnabled = False, cfgPollInterval = 0, cfgBatchSize = 0, cfgLeaseTTL = 0,
     cfgDispatchTimeout = 0, cfgMaxPendingTriggers = 0\<rparr>"

text \<open>\<^verbatim>\<open>NewService\<close>: an error of the first backlog configuration is ignored.\<close>

definition NewService :: "Platform \<Rightarrow> Store \<Rightarrow> bool \<Rightarrow> Memory" where
  "NewService P store canceled =
     (let defaults = normalizeWorkerConfig P emptyWorkerConfig in
      \<lparr>memRuns = (case ConfigureTriggerBacklogLimit store (cfgMaxPendingTriggers defaults) of
          Inl _ \<Rightarrow> store | Inr s \<Rightarrow> s),
       memDefinitions = Map.empty, memGeneration = 0, memLeaseTTL = cfgLeaseTTL defaults,
       memDispatchTimeout = cfgDispatchTimeout defaults, memWorkerDone = None, memClosed = False,
       memCanceled = canceled, memChannels = 0, memWorkers = {}\<rparr>)"

section \<open>Publishing and projecting definitions\<close>

definition repositoryUnavailable :: goerr where
  "repositoryUnavailable = Errorf ''Scheduler definition repository is unavailable''"

definition reservedKey :: "string \<Rightarrow> bool" where
  "reservedKey key \<longleftrightarrow> startsWith scheduledPlanDefinitionPrefix key"

text \<open>The checks on one definition, made before publishing and again before projecting.\<close>

definition checkDefinition :: "Sdk \<Rightarrow> Definition \<Rightarrow> goerr + Definition" where
  "checkDefinition S definition0 =
     (let d = normalizeDefinition S definition0 in
      if reservedKey (defKey d)
      then Inl (Errorf (''scheduler definition key '' @ quoted (defKey d) @ '' uses the reserved plan namespace''))
      else case validateDefinition S d of Some e \<Rightarrow> Inl e | None \<Rightarrow>
      case validateSchedule S (defSchedule d) of
        Some e \<Rightarrow> Inl (Wrapf (''scheduler definition '' @ defKey d @ '': '') e)
      | None \<Rightarrow> Inr d)"

text \<open>One round of the loop of \<^verbatim>\<open>applyPersistedDefinitions\<close>; it carries the next map and the active keys.\<close>

definition applyPersistedDefinition ::
  "Sdk \<Rightarrow> Store \<Rightarrow> bool \<Rightarrow> time \<Rightarrow> Definition \<Rightarrow> (string \<rightharpoonup> Definition) \<times> string list \<Rightarrow>
   ((string \<rightharpoonup> Definition) \<times> string list) dbop" where
  "applyPersistedDefinition S s fenced now definition0 = (\<lambda>(nxt, active).
     bindE (liftE (checkDefinition S definition0)) (\<lambda>d.
     if \<not> fenced \<and> enabledStatus d then
       attempt (Reconcile S s d (initialCursor S d now)) (\<lambda>q. case q of
         Inl e \<Rightarrow> fail (Wrapf (''reconcile Scheduler definition '' @ defKey d @ '': '') e)
       | Inr _ \<Rightarrow> ret (nxt(defKey d \<mapsto> d), active @ [defKey d]))
     else ret (nxt(defKey d \<mapsto> d), active)))"

definition projectDefinitions ::
  "Sdk \<Rightarrow> Store \<Rightarrow> DefinitionSnapshot \<Rightarrow> (string \<rightharpoonup> Definition) option dbop" where
  "projectDefinitions S s persisted =
     bindE timeNow (\<lambda>now.
     bindE (foldE (applyPersistedDefinition S s (snapFence persisted \<noteq> None) now)
              (snapDefinitions persisted) (Map.empty, [])) (\<lambda>(nxt, active).
     if snapFence persisted \<noteq> None then
       attempt (ApplyDefinitionSnapshot S s persisted now) (\<lambda>q. case q of
         Inl e \<Rightarrow> fail (Wrapf ''apply fenced Scheduler definition projection: '' e)
       | Inr applied \<Rightarrow> ret (if applied then Some nxt else None))
     else
       attempt (DisableMissing s (sort active) (snapRevision persisted)) (\<lambda>q. case q of
         Inl e \<Rightarrow> fail (Wrapf ''disable removed Scheduler definitions: '' e)
       | Inr _ \<Rightarrow> ret (Some nxt))))"

definition applyPersistedDefinitions :: "Sdk \<Rightarrow> DefinitionSnapshot \<Rightarrow> bool svcop" where
  "applyPersistedDefinitions S persisted =
     bindE getMemory (\<lambda>m.
     bindE (onTables (projectDefinitions S (memRuns m) persisted)) (\<lambda>projected. case projected of
       None \<Rightarrow> ret False
     | Some nxt \<Rightarrow> bindE (modifyMemory (\<lambda>m. m\<lparr>memDefinitions := nxt\<rparr>)) (\<lambda>_. ret True)))"

fun convergeRounds :: "Sdk \<Rightarrow> DefinitionRepository \<Rightarrow> nat \<Rightarrow> bool svcop" where
  "convergeRounds S repo 0 =
     fail (Errorf ''Scheduler definition projection did not converge on the canonical snapshot'')"
| "convergeRounds S repo (Suc n) =
     attempt (onTables (repoDefinitionSnapshot repo)) (\<lambda>q. case q of
       Inl e \<Rightarrow> fail (Wrapf ''load Scheduler definitions: '' e)
     | Inr persisted \<Rightarrow>
         if isBlank (snapSchemaVersion persisted) then ret False else
         bindE (applyPersistedDefinitions S persisted) (\<lambda>applied.
         if applied then ret True else
         bindE (onTables envCall) (\<lambda>_. convergeRounds S repo n)))"

definition convergePersistedDefinitions :: "Sdk \<Rightarrow> Service \<Rightarrow> bool svcop" where
  "convergePersistedDefinitions S b =
     (case serviceDefinitions b of None \<Rightarrow> fail repositoryUnavailable | Some repo \<Rightarrow> convergeRounds S repo 64)"

text \<open>The switch over the deployment mode: what is persisted, or why nothing is.\<close>

definition persistedSnapshot :: "Sdk \<Rightarrow> Service \<Rightarrow> HostSnapshot \<Rightarrow> goerr + DefinitionSnapshot" where
  "persistedSnapshot S b snapshot =
     (let persisted = \<lparr>snapRevision = hostRevision snapshot, snapSchemaVersion = formatInt (hostRevision snapshot),
            snapSchemaHash = [], snapSourceKind = ''runtime_host'', snapSourceID = serviceRuntimeID b,
            snapDefinitions = hostDefinitions snapshot, snapFence = None, snapContentSHA256 = []\<rparr>
      in case serviceMode b of
           DeploymentModeModule \<Rightarrow>
             (case validateModuleSnapshot S snapshot of Some e \<Rightarrow> Inl e | None \<Rightarrow> Inr persisted)
         | DeploymentModeSaaS \<Rightarrow>
             (case hostSession snapshot of
                None \<Rightarrow> Inl (Sentinel ErrDefinitionPublicationRequired)
              | Some session \<Rightarrow>
                  (case sessionFence S session of Inl e \<Rightarrow> Inl e | Inr fence \<Rightarrow>
                   case contentSHA256 S (hostDefinitions snapshot) of Inl e \<Rightarrow> Inl e | Inr contentHash \<Rightarrow>
                   Inr (persisted\<lparr>snapFence := Some fence, snapContentSHA256 := contentHash\<rparr>)))
         | DeploymentModeOther mode \<Rightarrow>
             Inl (Errorf (''Scheduler deployment mode '' @ quoted mode @ '' is unsupported'')))"

definition reconcileSnapshot :: "Sdk \<Rightarrow> Service \<Rightarrow> HostSnapshot \<Rightarrow> unit svcop" where
  "reconcileSnapshot S b snapshot =
     (case serviceDefinitions b of None \<Rightarrow> fail repositoryUnavailable | Some repo \<Rightarrow>
      bindE (mapE (\<lambda>d. liftE (checkDefinition S d)) (hostDefinitions snapshot)) (\<lambda>_.
      bindE (liftE (persistedSnapshot S b snapshot)) (\<lambda>persisted.
      attempt (onTables (repoSyncDefinitions repo persisted)) (\<lambda>q. case q of
        Inl e \<Rightarrow> fail (Wrapf ''persist Scheduler definitions: '' e)
      | Inr _ \<Rightarrow>
          bindE (convergePersistedDefinitions S b) (\<lambda>found.
          if found then ret ()
          else fail (Errorf ''Scheduler persisted definition snapshot is unavailable after reconcile''))))))"

text \<open>
  \<^verbatim>\<open>Reconcile\<close> claims a generation, waits for the lock, and then runs only when no newer call has
  claimed one. The two halves are separate, because other calls may claim in between.
\<close>

definition claimGeneration :: "(64 word) svcop" where
  "claimGeneration =
     bindE (modifyMemory (\<lambda>m. m\<lparr>memGeneration := memGeneration m + 1\<rparr>)) (\<lambda>_.
     bindE getMemory (\<lambda>m. ret (memGeneration m)))"

definition reconcileLocked :: "Sdk \<Rightarrow> Service \<Rightarrow> 64 word \<Rightarrow> unit svcop" where
  "reconcileLocked S b generation =
     bindE getMemory (\<lambda>m.
     if generation \<noteq> memGeneration m then ret () else
     attempt (onTables (hostSnapshot (serviceHost b))) (\<lambda>q. case q of
       Inl e \<Rightarrow> fail (Wrapf ''read Scheduler definitions: '' e)
     | Inr snapshot \<Rightarrow> reconcileSnapshot S b snapshot))"

definition serviceReconcile :: "Sdk \<Rightarrow> Service \<Rightarrow> unit svcop" where
  "serviceReconcile S b = bindE claimGeneration (\<lambda>generation. reconcileLocked S b generation)"

definition ReconcileSnapshot :: "Sdk \<Rightarrow> Service \<Rightarrow> HostSnapshot \<Rightarrow> unit svcop" where
  "ReconcileSnapshot S b snapshot = reconcileSnapshot S b snapshot"

definition hydrateLocked :: "Sdk \<Rightarrow> Service \<Rightarrow> nat \<Rightarrow> 64 word \<Rightarrow> bool option svcop" where
  "hydrateLocked S b bound generation =
     bindE getMemory (\<lambda>m.
     if generation \<noteq> memGeneration m then ret (Some False) else
     bindE (convergePersistedDefinitions S b) (\<lambda>definitions.
     bindE (onTables (hydrateScheduledPlans S (servicePlans b) bound)) (\<lambda>plans.
     ret (map_option (\<lambda>found. definitions \<or> found) plans))))"

definition HydrateDefinitions :: "Sdk \<Rightarrow> Service \<Rightarrow> nat \<Rightarrow> bool option svcop" where
  "HydrateDefinitions S b bound = bindE claimGeneration (\<lambda>generation. hydrateLocked S b bound generation)"

section \<open>Dispatching\<close>

definition Preview :: "Platform \<Rightarrow> Schedule \<Rightarrow> time \<Rightarrow> int \<Rightarrow> time list dbop" where
  "Preview P value after count0 =
     bindE envCall (\<lambda>_.
     let count1 = (if count0 \<le> 0 then 5 else count0); count = (if count1 > 100 then 100 else count1) in
     bindE (if after = 0 then timeNow else ret after) (\<lambda>from.
     previewSchedule P value from count))"

definition NextRetry :: "Sdk \<Rightarrow> Policy \<Rightarrow> int \<Rightarrow> time \<Rightarrow> time" where
  "NextRetry S policy attempts now =
     (let baseDelay = (if policyRetryInitial policy \<le> 0 then 30 * second else policyRetryInitial policy)
      in now + retryDelay S baseDelay (policyRetryMax policy) attempts)"

definition dispatchTimeoutFor :: "Memory \<Rightarrow> Definition \<Rightarrow> duration" where
  "dispatchTimeoutFor m d =
     (let t = policyTimeout (defPolicy d) in
      if t > 0 \<and> t < memDispatchTimeout m then t else memDispatchTimeout m)"

definition dispatcherFor :: "Service \<Rightarrow> Trigger \<Rightarrow> Dispatcher" where
  "dispatcherFor b trigger =
     (if targetType (trgTarget trigger) = ''http'' \<and> equalFold (trimSpace (targetDispatchMode (trgTarget trigger))) ''direct''
      then serviceDirectHTTP b else hostDispatch (serviceHost b))"

definition heartbeat :: "Memory \<Rightarrow> Run \<Rightarrow> unit dbop" where
  "heartbeat m run =
     bindE (Renew (memRuns m) run (memLeaseTTL m)) (\<lambda>(_, owned).
     if owned then ret ()
     else fail (Errorf (''Scheduler run '' @ quoted (trgRunID (runTrigger run)) @ '' lease lost'')))"

text \<open>The dispatch under the heartbeat: the dispatcher's result and the error of the heartbeat.\<close>

definition dispatchWork :: "Service \<Rightarrow> Memory \<Rightarrow> Run \<Rightarrow> Definition \<Rightarrow> ((goerr + DownstreamReceipt) \<times> goerr option) dbop" where
  "dispatchWork b m run definition0 =
     (let work = dispatcherFor b (runTrigger run) (dispatchTimeoutFor m definition0) (runTrigger run) in
      if leaseValid (servicePlatform b) (runLease run)
      then withHeartbeat (servicePlatform b) (memLeaseTTL m sdiv 3) (heartbeat m run) work
      else attempt work (\<lambda>q. ret (q, None)))"

definition noReceipt :: goerr where
  "noReceipt = Errorf ''downstream owner returned no durable receipt''"

text \<open>A failed dispatch is reported; an error of the report itself is dropped.\<close>

definition reportFailure :: "Sdk \<Rightarrow> Memory \<Rightarrow> Run \<Rightarrow> Definition \<Rightarrow> goerr \<Rightarrow> unit dbop" where
  "reportFailure S m run definition0 e =
     bindE timeNow (\<lambda>now.
     attempt (Fail S (memRuns m) run e (NextRetry S (defPolicy definition0) (trgAttempt (runTrigger run)) now))
       (\<lambda>_. fail e))"

definition dispatchClaimed :: "Sdk \<Rightarrow> Service \<Rightarrow> Memory \<Rightarrow> Run \<Rightarrow> Definition \<Rightarrow> unit dbop" where
  "dispatchClaimed S b m run definition0 =
     bindE (dispatchWork b m run definition0) (\<lambda>(q, leaseErr).
     case leaseErr of Some e \<Rightarrow> fail e | None \<Rightarrow>
     case q of
       Inl e \<Rightarrow> reportFailure S m run definition0 e
     | Inr receipt \<Rightarrow>
         if isBlank (receiptID receipt) then reportFailure S m run definition0 noReceipt
         else Accept S (memRuns m) run receipt)"

definition dispatch :: "Sdk \<Rightarrow> Service \<Rightarrow> Memory \<Rightarrow> DueTrigger \<Rightarrow> unit dbop" where
  "dispatch S b m item =
     bindE (Claim S (memRuns m) item (memLeaseTTL m)) (\<lambda>claim. case claim of
       Some (run, True) \<Rightarrow> dispatchClaimed S b m run (dueDefinition item)
     | _ \<Rightarrow> ret ())"

text \<open>The loop of \<^verbatim>\<open>Tick\<close>: the number of triggers dispatched without an error, and the first error.\<close>

definition tickItem :: "Sdk \<Rightarrow> Service \<Rightarrow> Memory \<Rightarrow> DueTrigger \<Rightarrow> int \<times> goerr option \<Rightarrow> (int \<times> goerr option) dbop" where
  "tickItem S b m item = (\<lambda>(processed, firstErr).
     attempt (dispatch S b m item) (\<lambda>q. case q of
       Inl e \<Rightarrow> ret (processed, if firstErr = None then Some e else firstErr)
     | Inr _ \<Rightarrow> ret (processed + 1, firstErr)))"

definition Tick :: "Sdk \<Rightarrow> Service \<Rightarrow> Memory \<Rightarrow> time \<Rightarrow> int \<Rightarrow> (int \<times> goerr option) dbop" where
  "Tick S b m now0 limit0 =
     bindE (if now0 = 0 then timeNow else ret now0) (\<lambda>now.
     let limit = (if limit0 \<le> 0 then 25 else limit0) in
     bindE (Due S (memRuns m) now limit) (\<lambda>due.
     foldE (tickItem S b m) due (0, None)))"

section \<open>Operators\<close>

definition publishedDefinition :: "Sdk \<Rightarrow> Service \<Rightarrow> Memory \<Rightarrow> string \<Rightarrow> Definition option dbop" where
  "publishedDefinition S b m key =
     (if serviceMode b = DeploymentModeSaaS then
        (case serviceDefinitions b of None \<Rightarrow> fail repositoryUnavailable | Some repo \<Rightarrow>
         attempt (repoDefinitionSnapshot repo) (\<lambda>q. case q of
           Inl e \<Rightarrow> fail (Wrapf ''load Scheduler definitions: '' e)
         | Inr snapshot \<Rightarrow>
             ret (map_option (normalizeDefinition S)
               (find (\<lambda>d. trimSpace (defKey d) = key) (snapDefinitions snapshot)))))
      else ret (memDefinitions m key))"

definition manualMetadata :: "string \<Rightarrow> string" where
  "manualMetadata reason = jsonObject [(''reason'', jsonString (trimSpace reason)), (''trigger'', jsonString ''manual'')]"

text \<open>
  The result of \<^verbatim>\<open>TriggerNow\<close>: the run (\<open>None\<close> for the zero \<^verbatim>\<open>Run\<close>) with the error of its dispatch. An
  error before the claim ended returns the zero \<^verbatim>\<open>Run\<close>.
\<close>

definition TriggerNow :: "Sdk \<Rightarrow> Service \<Rightarrow> Memory \<Rightarrow> string \<Rightarrow> string \<Rightarrow> (Run option \<times> goerr option) dbop" where
  "TriggerNow S b m key0 reason =
     (let key = trimSpace key0 in
      bindE (publishedDefinition S b m key) (\<lambda>found. case found of
        None \<Rightarrow> fail (Errorf (''scheduler definition '' @ quoted key @ '' is not published''))
      | Some d \<Rightarrow>
          bindE timeNow (\<lambda>now.
          bindE (Claim S (memRuns m) \<lparr>dueDefinition = d, dueScheduledFor = now, dueExpectedCursor = 0,
                   dueNextRunAt = 0, dueMetadata = manualMetadata reason\<rparr> (memLeaseTTL m)) (\<lambda>claim. case claim of
            None \<Rightarrow> ret (None, None)
          | Some (run, claimed) \<Rightarrow>
              if \<not> claimed then ret (Some run, None) else
              attempt (dispatchClaimed S b m run d) (\<lambda>q. case q of
                Inl e \<Rightarrow> ret (Some run, Some e)
              | Inr _ \<Rightarrow> ret (Some run, None))))))"

text \<open>\<^verbatim>\<open>Reschedule\<close> of the store takes no reason: it is not recorded.\<close>

definition serviceReschedule :: "Memory \<Rightarrow> string \<Rightarrow> time \<Rightarrow> unit dbop" where
  "serviceReschedule m key nxt = Reschedule (memRuns m) (trimSpace key) nxt"

definition serviceTriggerBacklog :: "Memory \<Rightarrow> TriggerBacklog dbop" where
  "serviceTriggerBacklog m = TriggerBacklogOf (memRuns m)"

definition Runs :: "Sdk \<Rightarrow> Memory \<Rightarrow> int \<Rightarrow> Run list dbop" where
  "Runs S m limit = ListRuns S (memRuns m) limit"

definition RunOf :: "Sdk \<Rightarrow> Memory \<Rightarrow> string \<Rightarrow> Run dbop" where
  "RunOf S m ident = GetRun S (memRuns m) ident"

definition RetryRun :: "Sdk \<Rightarrow> Memory \<Rightarrow> string \<Rightarrow> string \<Rightarrow> Run dbop" where
  "RetryRun S m ident reason = Retry S (memRuns m) ident reason"

definition CancelRun :: "Sdk \<Rightarrow> Memory \<Rightarrow> string \<Rightarrow> string \<Rightarrow> Run dbop" where
  "CancelRun S m ident reason = Cancel S (memRuns m) ident reason"

definition serviceDeadLetters :: "Memory \<Rightarrow> int \<Rightarrow> DeadLetter list dbop" where
  "serviceDeadLetters m limit = DeadLetters (memRuns m) limit"

definition serviceDeadLetter :: "Memory \<Rightarrow> string \<Rightarrow> DeadLetter dbop" where
  "serviceDeadLetter m ident = getDeadLetter (memRuns m) ident"

definition serviceResolveDeadLetter :: "Sdk \<Rightarrow> Memory \<Rightarrow> string \<Rightarrow> string \<Rightarrow> DeadLetter dbop" where
  "serviceResolveDeadLetter S m ident reason = ResolveDeadLetter S (memRuns m) ident reason"

definition serviceRequeueDeadLetter :: "Sdk \<Rightarrow> Memory \<Rightarrow> string \<Rightarrow> string \<Rightarrow> Run dbop" where
  "serviceRequeueDeadLetter S m ident reason = RequeueDeadLetter S (memRuns m) ident reason"

section \<open>The background worker\<close>

text \<open>
  The channel \<^verbatim>\<open>Start\<close> returns: one that is closed already, or the completion channel of a worker.
  \<open>ctxLive\<close> is \<^verbatim>\<open>ctx != nil && ctx.Err() == nil\<close> of the caller's context.
\<close>

datatype doneChannel = ClosedChannel | WorkerChannel nat

definition Start :: "Platform \<Rightarrow> bool \<Rightarrow> WorkerConfig \<Rightarrow> Memory \<Rightarrow> doneChannel \<times> Memory" where
  "Start P ctxLive config0 m =
     (let config = normalizeWorkerConfig P config0 in
      if \<not> cfgEnabled config \<or> \<not> ctxLive \<or> memClosed m \<or> memCanceled m then (ClosedChannel, m) else
      case memWorkerDone m of
        Some c \<Rightarrow> (WorkerChannel c, m)
      | None \<Rightarrow>
          (case ConfigureTriggerBacklogLimit (memRuns m) (cfgMaxPendingTriggers config) of
             Inl _ \<Rightarrow> (ClosedChannel, m)
           | Inr s \<Rightarrow>
               (WorkerChannel (memChannels m),
                m\<lparr>memRuns := s, memLeaseTTL := cfgLeaseTTL config, memDispatchTimeout := cfgDispatchTimeout config,
                  memWorkerDone := Some (memChannels m), memChannels := Suc (memChannels m),
                  memWorkers := insert (memChannels m) (memWorkers m)\<rparr>)))"

text \<open>What the worker does before its loop, and the deferred function that ends it.\<close>

definition workerBegin :: "Sdk \<Rightarrow> Service \<Rightarrow> nat \<Rightarrow> unit svcop" where
  "workerBegin S b bound =
     (if serviceMode b = DeploymentModeModule then
        attempt (serviceReconcile S b) (\<lambda>_.
        attempt (onTables (hydrateScheduledPlans S (servicePlans b) bound)) (\<lambda>_. ret ()))
      else ret ())"

definition workerEnd :: "nat \<Rightarrow> Memory \<Rightarrow> Memory" where
  "workerEnd c m =
     m\<lparr>memWorkerDone := (if memWorkerDone m = Some c then None else memWorkerDone m),
       memWorkers := memWorkers m - {c}\<rparr>"

text \<open>\<^verbatim>\<open>Close\<close>: the channel it waits for, if any, and the state it leaves.\<close>

definition Close :: "Memory \<Rightarrow> nat option \<times> Memory" where
  "Close m = (memWorkerDone m, m\<lparr>memClosed := True, memCanceled := memCanceled m \<or> \<not> memClosed m\<rparr>)"

end
