(* ===== verification/Service_Dispatch.thy ===== *)
theory Service_Dispatch
  imports Scheduler_Service Run_Reports Cursor_Properties
begin

text \<open>
  Dispatching. The operations of the service act on the runs only through the store, so that every order
  of \<open>run_order\<close> passes through them; \<open>Tick\<close> is compared with a reference that dispatches every trigger
  and looks at the outcomes afterwards; and a dispatch settles its run as the downstream owner answered.

  Two hypotheses on code outside this repository: dispatchers do not write the table of runs, and the
  heartbeat of the foundation does nothing to the database but renew the lease and do the work.
\<close>

section \<open>What the service relies on\<close>

definition dispatchersOutside :: "Service \<Rightarrow> bool" where
  "dispatchersOutside b \<longleftrightarrow> (\<forall>timeout trigger.
     moves (\<lambda>d d'. runs d' = runs d) (\<lambda>_. True) (hostDispatch (serviceHost b) timeout trigger) \<and>
     moves (\<lambda>d d'. runs d' = runs d) (\<lambda>_. True) (serviceDirectHTTP b timeout trigger))"

definition heartbeatRuns :: "Service \<Rightarrow> bool" where
  "heartbeatRuns b \<longleftrightarrow> (\<forall>R interval beat work. db_order R \<longrightarrow> moves R (\<lambda>_. True) beat \<longrightarrow>
     moves R (\<lambda>_. True) work \<longrightarrow> moves R (\<lambda>_. True) (withHeartbeat (servicePlatform b) interval beat work))"

section \<open>Every operation moves the runs through the store\<close>

context run_order
begin

lemma moves_dispatcher:
  assumes "dispatchersOutside b"
  shows "moves R (\<lambda>_. True) (dispatcherFor b trigger timeout trigger')"
proof -
  have "moves R (\<lambda>_. True) (hostDispatch (serviceHost b) timeout trigger')"
    "moves R (\<lambda>_. True) (serviceDirectHTTP b timeout trigger')"
    using assms by (auto simp: dispatchersOutside_def moves_def intro: frame)
  then show ?thesis by (simp add: dispatcherFor_def)
qed

lemma moves_dispatchWork:
  assumes "admissible (memRuns m)" "dispatchersOutside b" "heartbeatRuns b"
  shows "moves R (\<lambda>_. True) (dispatchWork b m run d)"
proof -
  have "moves R (\<lambda>_. True) (heartbeat m run)"
    unfolding heartbeat_def by (intro moves_bindE moves_Renew assms moves_case_prod moves_if moves_pure)
  moreover have "db_order R" by (rule db_order_axioms)
  ultimately show ?thesis
    using assms(3) moves_dispatcher [OF assms(2)]
    unfolding dispatchWork_def heartbeatRuns_def
    by (intro moves_let moves_if moves_attempt moves_pure) auto
qed

lemma moves_dispatchClaimed:
  assumes "admissible (memRuns m)" "dispatchersOutside b" "heartbeatRuns b"
  shows "moves R (\<lambda>_. True) (dispatchClaimed S' b m run d)"
proof -
  have "moves R (\<lambda>_. True) (reportFailure S' m run d e)" for e
    unfolding reportFailure_def by (intro moves_bindE moves_attempt moves_pure moves_Fail assms(1))
  then show ?thesis
    unfolding dispatchClaimed_def
    by (intro moves_bindE moves_dispatchWork assms moves_case_prod moves_case_option moves_case_sum moves_if
        moves_pure moves_Accept)
qed

lemma moves_dispatch:
  assumes "admissible (memRuns m)" "dispatchersOutside b" "heartbeatRuns b"
  shows "moves R (\<lambda>_. True) (dispatch S b m item)"
  unfolding dispatch_def
proof (intro moves_bindE moves_Claim assms)
  fix claim :: "(Run \<times> bool) option"
  show "moves R (\<lambda>_. True) (case claim of None \<Rightarrow> ret () | Some (run, True) \<Rightarrow>
      dispatchClaimed S b m run (dueDefinition item) | Some (run, False) \<Rightarrow> ret ())"
    using moves_dispatchClaimed [OF assms] moves_pure(1) by (auto split: option.split bool.split)
qed

lemma moves_Tick:
  assumes "admissible (memRuns m)" "dispatchersOutside b" "heartbeatRuns b"
  shows "moves R (\<lambda>_. True) (Tick S b m now limit)"
proof -
  have "moves R (\<lambda>_. True) (tickItem S b m item acc)" for item acc
    unfolding tickItem_def
    by (intro moves_case_prod moves_attempt moves_dispatch assms moves_case_sum moves_pure)
  then show ?thesis
    unfolding Tick_def by (intro moves_bindE moves_if moves_pure moves_let moves_Due moves_foldE)
qed

lemma moves_TriggerNow:
  assumes "admissible (memRuns m)" "dispatchersOutside b" "heartbeatRuns b"
    and "\<And>key. moves R (\<lambda>_. True) (publishedDefinition S b m key)"
  shows "moves R (\<lambda>_. True) (TriggerNow S b m key reason)"
  unfolding TriggerNow_def
  by (intro moves_let moves_bindE assms moves_case_option moves_case_prod moves_pure moves_Claim moves_if
      moves_attempt moves_dispatchClaimed moves_case_sum)

end

section \<open>The loop over the due triggers\<close>

text \<open>The reference: dispatch every trigger, whatever happened to the earlier ones, and keep the outcomes.\<close>

primrec dispatchAll :: "Sdk \<Rightarrow> Service \<Rightarrow> Memory \<Rightarrow> DueTrigger list \<Rightarrow> database world \<Rightarrow> (goerr + unit) list \<times> database world" where
  "dispatchAll S b m [] w = ([], w)"
| "dispatchAll S b m (item # due) w =
     (case dispatch S b m item w of (q, w1) \<Rightarrow> case dispatchAll S b m due w1 of (qs, w2) \<Rightarrow> (q # qs, w2))"

definition firstError :: "(goerr + unit) list \<Rightarrow> goerr option" where
  "firstError qs = map_option projl (find isl qs)"

lemma length_dispatchAll: "length (fst (dispatchAll S b m due w)) = length due"
  by (induction due arbitrary: w) (auto split: prod.splits, metis fst_conv)

lemma tick_loop:
  "foldE (tickItem S b m) due (n, e) w =
    (case dispatchAll S b m due w of (qs, w') \<Rightarrow>
      (Inr (n + int (length (filter (Not \<circ> isl) qs)), case e of None \<Rightarrow> firstError qs | Some x \<Rightarrow> Some x), w'))"
proof (induction due arbitrary: n e w)
  case Nil
  then show ?case by (simp add: ret_def firstError_def split: option.split)
next
  case (Cons item due)
  obtain q w1 where q: "dispatch S b m item w = (q, w1)" by fastforce
  obtain qs w2 where qs: "dispatchAll S b m due w1 = (qs, w2)" by fastforce
  have "tickItem S b m item (n, e) w = (Inr (case q of
      Inl x \<Rightarrow> (n, if e = None then Some x else e) | Inr _ \<Rightarrow> (n + 1, e)), w1)"
    by (cases q) (simp_all add: q tickItem_def attempt_def ret_def)
  then show ?case
    by (cases q) (simp_all add: q qs bindE_def Cons.IH firstError_def split: option.split)
qed

section \<open>The outcome of one dispatch\<close>

text \<open>A report of a failure has an error; what it did to the database is what \<^verbatim>\<open>Fail\<close> did.\<close>

lemma reportFailure_eq:
  "reportFailure S m run d e w =
    (Inl e, snd (Fail S (memRuns m) run e
      (NextRetry S (defPolicy d) (trgAttempt (runTrigger run)) (clock w (reads w))) (w\<lparr>reads := Suc (reads w)\<rparr>)))"
  by (simp add: reportFailure_def bindE_timeNow attempt_def fail_def split: prod.splits)

lemma Fail_never_succeeds:
  assumes "Fail S s run failure retryAt w = (q, w')" "r \<in> set (runs (db w'))" "r_status r = ''succeeded''"
  shows "r \<in> set (runs (db w))"
  using assms(1)
proof (cases rule: Fail_split)
  case (unread e)
  then show ?thesis using assms(2) by simp
next
  case (reported found v)
  show ?thesis
  proof (cases q)
    case (Inl e)
    with transaction_error [OF reported(2) [unfolded Inl]] reported(3) assms(2) show ?thesis by simp
  next
    case (Inr u)
    from reported(2) [unfolded Inr] show ?thesis
    proof (cases rule: transaction_InrE)
      case (committed w1 w2)
      from fail_tx_Inr(3) [OF committed(2)] committed(1,3) reported(3) assms(2,3) show ?thesis
        by (auto simp: updateWhere_def failedRow_def split: if_splits)
    qed (use reported(3) assms(2) in simp)
  qed
qed

text \<open>With every call working, the holder of the lease can always report a failure that leaves attempts.\<close>

lemma Fail_reported:
  assumes h: "healthy w" and one: "matched (liveLease s run) (runs (db w)) = 1"
    and found: "definitionByKey S s (trgDefinitionKey (runTrigger run)) w = (Inr found, v)"
    and left: "trgAttempt (runTrigger run) < maxAttemptsOf found"
    and fresh: "\<forall>e \<in> set (run_events (db w)). ev_event_id e \<noteq> trgRunID (runTrigger run) @ '':retry_scheduled:'' @
      formatInt (unixNano (clock w (Suc (reads w))))"
  shows "fst (Fail S s run failure retryAt w) = Inr () \<and>
    runs (db (snd (Fail S s run failure retryAt w))) = updateWhere (liveLease s run)
      (failedRow False (errorText S failure) retryAt (clock w (reads w))) (runs (db w))"
proof -
  have v: "v = w\<lparr>calls := Suc (calls w)\<rparr>"
    using found h by (auto simp: definitionByKey_def attempt_def sqlQuery_def sqlCall_healthy ret_def fail_def
        bindE_def liftE_def split: sum.splits prod.splits if_splits)
  have f: "definitionByKey S s (trgDefinitionKey (runTrigger run)) w = (Inr found, w\<lparr>calls := Suc (calls w)\<rparr>)"
    using found v by simp
  show ?thesis
    using h one left fresh
    by (auto simp: Fail_def f bindE_def fail_tx_def transaction_def
        envCall_healthy sqlCall_healthy sql_fail_def update_runs_def eventWith_def timeNow_def
        insert_run_events_def event_key_def ret_def image_iff failedRow_def [abs_def] split: sum.splits prod.splits)
qed

end
