(* ===== verification/Service_Properties.thy ===== *)
theory Service_Properties
  imports Service_Dispatch
begin

text \<open>
  The properties of dispatching, each applied to a service whose host answers with a durable receipt, or
  refuses, and whose heartbeat renews the lease once after the work.
\<close>

section \<open>Examples\<close>

definition exPlatform :: Platform where
  "exPlatform = \<lparr>withHeartbeat = (\<lambda>_ beat work. attempt work (\<lambda>q. attempt beat (\<lambda>r.
        ret (q, case r of Inl e \<Rightarrow> Some e | Inr _ \<Rightarrow> None)))),
     leaseValid = (\<lambda>l. leaseOwner l \<noteq> []), normalizeWorkerConfig = (\<lambda>c. c),
     previewSchedule = (\<lambda>_ t n. ret (replicate (nat n) t))\<rparr>"

definition exPlans :: PlanService where
  "exPlans = \<lparr>svcRuntimeID = ''rt'', svcPlans = None, svcRecovery = None, svcProjector = None\<rparr>"

definition exService :: "(goerr + DownstreamReceipt) \<Rightarrow> Service" where
  "exService answer = \<lparr>serviceRuntimeID = ''rt'', serviceMode = DeploymentModeModule,
     serviceHost = \<lparr>hostSnapshot = fail (Errorf ''no snapshot''), hostDispatch = (\<lambda>_ _. liftE answer)\<rparr>,
     serviceDirectHTTP = (\<lambda>_ _. liftE answer), serviceDefinitions = None, servicePlans = exPlans,
     servicePlatform = exPlatform\<rparr>"

definition exMemory :: Memory where
  "exMemory = \<lparr>memRuns = exStore ''a'', memDefinitions = Map.empty, memGeneration = 0, memLeaseTTL = minute,
     memDispatchTimeout = minute, memWorkerDone = None, memClosed = False, memCanceled = False,
     memChannels = 0, memWorkers = {}\<rparr>"

lemma exMemory_simps [simp]:
  "memRuns exMemory = exStore ''a''" "memLeaseTTL exMemory = minute" "memDispatchTimeout exMemory = minute"
  by (simp_all add: exMemory_def)

lemma exService_outside: "dispatchersOutside (exService answer)"
  by (simp add: dispatchersOutside_def exService_def moves_def liftE_def)

lemma exService_heartbeat: "heartbeatRuns (exService answer)"
  unfolding heartbeatRuns_def
proof (intro allI impI)
  fix R :: "database \<Rightarrow> database \<Rightarrow> bool" and interval :: duration
    and beat :: "unit dbop" and work :: "DownstreamReceipt dbop"
  assume R: "db_order R" and b: "moves R (\<lambda>_. True) beat" and w: "moves R (\<lambda>_. True) work"
  show "moves R (\<lambda>_. True) (withHeartbeat (servicePlatform (exService answer)) interval beat work)"
    unfolding exService_def exPlatform_def Service.simps Platform.simps
    by (rule db_order.moves_attempt [OF R w], rule db_order.moves_attempt [OF R b],
        rule db_order.moves_readonly [OF R], rule readonly_basic)
qed

text \<open>The run the example worker holds, dispatched at noon by a host that answers \<open>answer\<close>.\<close>

lemma exWork:
  "dispatchWork (exService answer) exMemory exRun exDefinition (exWorld (exLeased\<lparr>definition_states := st\<rparr>) exNoon) =
    (Inr (answer, None), (exWorld (exLeased\<lparr>definition_states := st\<rparr>) exNoon)\<lparr>reads := 1, calls := 1\<rparr>)"
proof -
  have d: "equalFold (trimSpace []) ''direct'' = False" by code_simp
  have "leaseOwner (runLease exRun) \<noteq> []" by (simp add: exRun_def claimedRun_def Let_def exStore_def)
  then show ?thesis
    by (simp add: dispatchWork_def exService_def exPlatform_def dispatcherFor_def heartbeat_def Renew_def
        sql_renew_def go_unfold sql_unfold exWorld_def exLeased_def emptyDatabase_def liveLease_def
        exRun_def claimedRun_def runRow_def exStore_def Let_def)
qed

lemma exLeased_states: "exLeased\<lparr>definition_states := [exStateRow]\<rparr> = exLeased"
  by (simp add: exLeased_def)

lemma exLeased_parts [simp]:
  "runs exLeased = [runRow exSdk (exStore ''a'') exDue minute exNoon]" "run_events exLeased = []"
  by (simp_all add: exLeased_def emptyDatabase_def)

lemma exLive: "liveLease (exStore ''a'') exRun (runRow exSdk (exStore ''a'') exDue minute exNoon)"
  by (simp add: liveLease_def exRun_def claimedRun_def runRow_def exStore_def Let_def)

section \<open>Dispatching\<close>

text \<open>
  C4. A run succeeds only with a durable receipt. If \<^verbatim>\<open>dispatchClaimed\<close> reports no error, the dispatcher
  returned a receipt with an identifier, the lease was still held, and exactly the rows under that lease
  became succeeded with this receipt; if it reports an error, whether the dispatch, the heartbeat or a
  report failed, no run became succeeded by it.
\<close>

theorem run_succeeds_only_with_receipt:
  assumes "dispatchClaimed S b m run d w = (q, w')" "dispatchWork b m run d w = (Inr (out, leaseErr), w1)"
  shows "(q = Inr () \<longrightarrow> leaseErr = None \<and> (\<exists>receipt now. out = Inr receipt \<and> \<not> isBlank (receiptID receipt) \<and>
      matched (liveLease (memRuns m) run) (runs (db w1)) = 1 \<and>
      runs (db w') = updateWhere (liveLease (memRuns m) run)
        (\<lambda>r. r\<lparr>r_status := ''succeeded'', r_receipt_json := nullable (bytesOf (marshalReceipt S receipt)),
               r_last_error := None, r_lease_owner := None, r_lease_expires_at := None,
               r_updated_at := formatTime now\<rparr>) (runs (db w1)))) \<and>
    (isl q \<longrightarrow> (\<forall>r \<in> set (runs (db w')). r_status r = ''succeeded'' \<longrightarrow> r \<in> set (runs (db w1))))"
proof (cases "leaseErr = None \<and> (\<exists>receipt. out = Inr receipt \<and> \<not> isBlank (receiptID receipt))")
  case True
  then obtain receipt where r: "out = Inr receipt" "\<not> isBlank (receiptID receipt)" and l: "leaseErr = None" by blast
  have a: "Accept S (memRuns m) run receipt w1 = (q, w')"
    using assms r l by (simp add: dispatchClaimed_def bindE_def)
  show ?thesis
  proof (cases q)
    case (Inl e)
    then show ?thesis
      using a by (auto simp: Accept_def finish_def bindE_timeNow dest!: transaction_error)
  next
    case (Inr u)
    from finish_Inr [OF a [unfolded Inr Accept_def]] Inr r l show ?thesis by auto
  qed
next
  case False
  have "(\<exists>e. q = Inl e) \<and> (db w' = db w1 \<or> (\<exists>e t p v. Fail S (memRuns m) run e t v = (p, w') \<and> db v = db w1))"
    using assms False
    by (auto simp: dispatchClaimed_def bindE_def fail_def reportFailure_eq split: option.splits sum.splits if_splits)
      (metis prod.collapse world.select_convs(1) world.surjective world.update_convs(3))+
  then show ?thesis using Fail_never_succeeds by fastforce
qed

lemma exDispatched:
  "dispatchClaimed exSdk (exService (Inr exReceipt)) exMemory exRun exDefinition (exWorld exLeased exNoon) =
    (Inr (), snd (dispatchClaimed exSdk (exService (Inr exReceipt)) exMemory exRun exDefinition (exWorld exLeased exNoon)))"
proof -
  have "isBlank ''rc-1'' = False" by code_simp
  then show ?thesis
    using exWork [of "Inr exReceipt" "[exStateRow]", unfolded exLeased_states] exLive
    by (simp add: dispatchClaimed_def bindE_step exReceipt_def Accept_def finish_def finish_tx_def eventWith_def
        sql_finish_def go_unfold sql_unfold) (simp add: exWorld_def)
qed

theorem run_succeeds_only_with_receipt_witness:
  "\<exists>r \<in> set (runs (db (snd (dispatchClaimed exSdk (exService (Inr exReceipt)) exMemory exRun exDefinition
     (exWorld exLeased exNoon))))). r_status r = ''succeeded'' \<and> r_receipt_json r = Some ''receipt''"
proof -
  have "nullable ''receipt'' = Some ''receipt''" by code_simp
  with run_succeeds_only_with_receipt [OF exDispatched exWork [of _ "[exStateRow]", unfolded exLeased_states]] exLive
  show ?thesis by (auto simp: exSdk_def bytesOf_def updateWhere_def exWorld_def)
qed

text \<open>
  C23. A failed dispatch is retried. When every call of the report works, the lease is still held and the
  policy of the stored definition leaves attempts, the run is put back as retrying, at the time the
  retry policy gives and with the error of the dispatch, and the error is returned.
\<close>

theorem failed_dispatch_retried:
  assumes "dispatchWork b m run d w = (Inr (Inl e, None), w1)" "healthy w1"
    and "matched (liveLease (memRuns m) run) (runs (db w1)) = 1"
    and "definitionByKey S (memRuns m) (trgDefinitionKey (runTrigger run)) (w1\<lparr>reads := Suc (reads w1)\<rparr>) = (Inr found, v)"
    and "trgAttempt (runTrigger run) < maxAttemptsOf found"
    and "\<forall>ev \<in> set (run_events (db w1)). ev_event_id ev \<noteq> trgRunID (runTrigger run) @ '':retry_scheduled:'' @
      formatInt (unixNano (clock w1 (Suc (Suc (reads w1)))))"
  shows "fst (dispatchClaimed S b m run d w) = Inl e \<and>
    runs (db (snd (dispatchClaimed S b m run d w))) = updateWhere (liveLease (memRuns m) run)
      (failedRow False (errorText S e) (NextRetry S (defPolicy d) (trgAttempt (runTrigger run)) (clock w1 (reads w1)))
         (clock w1 (Suc (reads w1)))) (runs (db w1))"
proof -
  have "dispatchClaimed S b m run d w = reportFailure S m run d e w1"
    using assms(1) by (simp add: dispatchClaimed_def bindE_def)
  moreover have "runs (db (snd (Fail S (memRuns m) run e
      (NextRetry S (defPolicy d) (trgAttempt (runTrigger run)) (clock w1 (reads w1))) (w1\<lparr>reads := Suc (reads w1)\<rparr>)))) =
    updateWhere (liveLease (memRuns m) run)
      (failedRow False (errorText S e) (NextRetry S (defPolicy d) (trgAttempt (runTrigger run)) (clock w1 (reads w1)))
         (clock w1 (Suc (reads w1)))) (runs (db w1))"
    using Fail_reported [OF _ _ assms(4,5), where failure = e] assms(2,3,6) by simp
  ultimately show ?thesis by (simp add: reportFailure_eq)
qed

theorem failed_dispatch_retried_witness:
  "\<exists>r \<in> set (runs (db (snd (dispatchClaimed exSdk (exService (Inl (Errorf ''down''))) exMemory exRun exDefinition
     (exWorld (exLeased\<lparr>definition_states := []\<rparr>) exNoon))))).
     r_status r = ''retrying'' \<and> r_next_retry_at r = Some (formatTime (exNoon + 30 * second))"
proof -
  let ?w1 = "(exWorld (exLeased\<lparr>definition_states := []\<rparr>) exNoon)\<lparr>reads := 1, calls := 1\<rparr>"
  have "definitionByKey exSdk (memRuns exMemory) (trgDefinitionKey (runTrigger exRun)) (?w1\<lparr>reads := Suc (reads ?w1)\<rparr>) =
     (Inr None, (exWorld (exLeased\<lparr>definition_states := []\<rparr>) exNoon)\<lparr>reads := 2, calls := 2\<rparr>)"
    by (simp add: definitionByKey_def go_unfold exWorld_def selectRow_def)
  note r = failed_dispatch_retried [OF exWork [of "Inl (Errorf ''down'')" "[]"] _ _ this]
  have m: "matched (liveLease (memRuns exMemory) exRun) (runs (db ?w1)) = 1"
    using exLive by (simp add: exWorld_def matched_def)
  have "trgAttempt (runTrigger exRun) = 1" by (simp add: exRun_def claimedRun_def Let_def)
  then have "runs (db (snd (dispatchClaimed exSdk (exService (Inl (Errorf ''down''))) exMemory exRun exDefinition
     (exWorld (exLeased\<lparr>definition_states := []\<rparr>) exNoon)))) = updateWhere (liveLease (exStore ''a'') exRun)
      (failedRow False ''down'' (exNoon + 30 * second) exNoon) (runs exLeased)"
    using r m by (simp add: exWorld_def maxAttemptsOf_def NextRetry_def exDefinition_def exPolicy_def exSdk_def
        second_def errorText_def healthy_def)
  then show ?thesis using exLive by (simp add: failedRow_def)
qed

text \<open>
  C22. \<^verbatim>\<open>Tick\<close> dispatches every due trigger, whatever happens to the others: it is the reference that
  dispatches them all and then counts the dispatches without an error and picks the first error. It
  fails as a whole only when reading the due triggers fails, and it dispatches no more than it is asked to.
\<close>

theorem tick_dispatches_every_trigger:
  assumes "Due S (memRuns m) now (if limit \<le> 0 then 25 else limit) w = (Inr due, w1)" "now \<noteq> 0"
    and "dispatchAll S b m due w1 = (outcomes, w')"
  shows "Tick S b m now limit w =
      (Inr (int (length (filter (Not \<circ> isl) outcomes)), firstError outcomes), w') \<and>
    length outcomes = length due \<and>
    (misfireBounded S \<longrightarrow> int (length due) \<le> (if limit \<le> 0 then 25 else limit))"
  using assms tick_loop [of S b m due 0 None w1] length_dispatchAll [of S b m due w1]
    due_length [OF assms(1)]
  by (auto simp: Tick_def bindE_def Let_def split: if_splits)

definition exDueWorld :: "database world" where
  "exDueWorld = exWorld (emptyDatabase\<lparr>definition_states := [exStateRow]\<rparr>) exNoon"

lemma exDueNoon:
  "\<exists>item w1. Due exSdk (memRuns exMemory) exNoon 5 exDueWorld = (Inr [item], w1)"
by (simp add: Due_def dueStates_def scanDueRow_def dueState_def exDueWorld_def go_unfold exWorld_def emptyDatabase_def
        limitRows_def ascending_def Let_def exStateRow_def exStore_def exSdk_def)

theorem tick_dispatches_every_trigger_witness:
  "\<exists>q w'. Tick exSdk (exService (Inl (Errorf ''down''))) exMemory exNoon 5 exDueWorld =
     (Inr (int (length (filter (Not \<circ> isl) [q])), firstError [q]), w')"
proof -
  obtain item w1 where d: "Due exSdk (memRuns exMemory) exNoon 5 exDueWorld = (Inr [item], w1)"
    using exDueNoon by blast
  obtain q w2 where "dispatch exSdk (exService (Inl (Errorf ''down''))) exMemory item w1 = (q, w2)" by fastforce
  then have q: "dispatchAll exSdk (exService (Inl (Errorf ''down''))) exMemory [item] w1 = ([q], w2)" by simp
  have "exNoon \<noteq> 0" by (simp add: exNoon_def unixEpoch_def second_def)
  then show ?thesis
    using tick_dispatches_every_trigger [OF _ _ q, where now = exNoon and limit = 5] d by auto
qed

text \<open>
  What the service does to the runs it does through the store: whatever its host answers and
  whichever calls fail, a \<^verbatim>\<open>Tick\<close> makes lifecycle transitions of stored runs only, and it keeps the
  backlog within the limit its store is configured with.
\<close>

theorem tick_refines_lifecycle:
  assumes "Tick S b m now limit w = (q, w')" "dispatchersOutside b" "heartbeatRuns b"
    and "limitAtMost runtime k (memRuns m)"
  shows "lifecycleRefined (db w) (db w') \<and> (withinCapacity runtime k (db w) \<longrightarrow> withinCapacity runtime k (db w'))"
  using movesD [OF refine.moves_Tick [where admissible = "\<lambda>_. True", OF _ assms(2,3)] _ assms(1)]
    movesD [OF capacity.moves_Tick [OF assms(4,2,3)] _ assms(1)]
  by blast

theorem tick_refines_lifecycle_witness:
  "withinCapacity ''rt'' 2 (db (snd (Tick exSdk (exService (Inr exReceipt)) exMemory exNoon 5 exDueWorld)))"
proof -
  have "withinCapacity ''rt'' 2 (db exDueWorld)"
    by (simp add: withinCapacity_def exDueWorld_def exWorld_def emptyDatabase_def runKeysOk_def matched_def)
  moreover have "limitAtMost ''rt'' 2 (memRuns exMemory)" by (simp add: limitAtMost_def exStore_def)
  ultimately show ?thesis
    using tick_refines_lifecycle [OF prod.collapse [symmetric] exService_outside exService_heartbeat] by blast
qed

end
