(* ===== verification/Service_Reconcile.thy ===== *)
theory Service_Reconcile
  imports Service_Properties Publication_Readback
begin

text \<open>
  Publishing and projecting definitions: what one projection does, by its loop over the persisted
  definitions; that the retry loop ends with the memory of the service and the definition states of the
  database in agreement; that a snapshot that is refused has no effect; and that a superseded
  reconciliation does nothing.
\<close>

section \<open>One projection\<close>

definition definitionMap :: "Sdk \<Rightarrow> Definition list \<Rightarrow> string \<rightharpoonup> Definition" where
  "definitionMap S ds = map_of (rev (map (\<lambda>d. (defKey (normalizeDefinition S d), normalizeDefinition S d)) ds))"

lemma definitionMap_Cons:
  "definitionMap S (d # ds) = [defKey (normalizeDefinition S d) \<mapsto> normalizeDefinition S d] ++ definitionMap S ds"
  by (simp add: definitionMap_def)

lemma checkDefinition_Inr:
  "checkDefinition S d = Inr d' \<longleftrightarrow> d' = normalizeDefinition S d \<and> \<not> reservedKey (defKey d') \<and>
     validateDefinition S d' = None \<and> validateSchedule S (defSchedule d') = None"
  by (auto simp: checkDefinition_def Let_def split: option.splits)

lemma applyPersisted_Inr:
  assumes "applyPersistedDefinition S s fenced now d (nxt, active) w = (Inr (nxt', active'), w')"
  shows "checkDefinition S d = Inr (normalizeDefinition S d)"
    and "nxt' = nxt(defKey (normalizeDefinition S d) \<mapsto> normalizeDefinition S d)"
    and "fenced \<Longrightarrow> active' = active \<and> db w' = db w"
    and "\<not> fenced \<Longrightarrow> active' = active @ activeKeys S [d] \<and>
      projected s (activeKeys S [d]) (definition_states (db w)) (definition_states (db w'))"
proof -
  let ?d = "normalizeDefinition S d"
  from assms obtain d' where c: "checkDefinition S d = Inr d'"
    by (auto simp: applyPersistedDefinition_def bindE_def liftE_def split: sum.splits)
  then have d': "d' = ?d" by (simp add: checkDefinition_Inr)
  with c show "checkDefinition S d = Inr ?d" by simp
  have r: "(if \<not> fenced \<and> enabledStatus ?d then
       attempt (Reconcile S s ?d (initialCursor S ?d now)) (\<lambda>q. case q of
         Inl e \<Rightarrow> fail (Wrapf (''reconcile Scheduler definition '' @ defKey ?d @ '': '') e)
       | Inr _ \<Rightarrow> ret (nxt(defKey ?d \<mapsto> ?d), active @ [defKey ?d]))
     else ret (nxt(defKey ?d \<mapsto> ?d), active)) w = (Inr (nxt', active'), w')"
    using assms c d' by (simp add: applyPersistedDefinition_def bindE_def liftE_def)
  then show "nxt' = nxt(defKey ?d \<mapsto> ?d)"
    and "fenced \<Longrightarrow> active' = active \<and> db w' = db w"
    by (auto simp: ret_def attempt_def fail_def split: if_splits prod.splits sum.splits)
  show "active' = active @ activeKeys S [d] \<and>
      projected s (activeKeys S [d]) (definition_states (db w)) (definition_states (db w'))" if "\<not> fenced"
  proof (cases "enabledStatus ?d")
    case False
    with r show ?thesis by (auto simp: ret_def activeKeys_def projected_def)
  next
    case True
    with r that have "active' = active @ [defKey ?d]"
      and rec: "reconcileWith S s ?d (initialCursor S ?d now) definitionStateSourceRuntime True w = (Inr (), w')"
      by (auto simp: ret_def attempt_def fail_def Reconcile_def split: prod.splits sum.splits)
    moreover from reconcile_Inr [OF rec] obtain raw st' where
      "db w' = (db w)\<lparr>definition_states := st'\<rparr>"
      "reconciled s ?d raw (initialCursor S ?d now) definitionStateSourceRuntime True
        (formatTime (clock w (reads w))) (definition_states (db w)) st'" by blast
    ultimately show ?thesis
      using True reconciled_identities reconciled_foreign by (auto simp: activeKeys_def projected_def)
  qed
qed

lemma applyPersisted_loop:
  "foldE (applyPersistedDefinition S s fenced now) ds (nxt, active) w = (Inr (nxt', active'), w') \<Longrightarrow>
   (\<forall>d \<in> set ds. checkDefinition S d = Inr (normalizeDefinition S d)) \<and>
   nxt' = nxt ++ definitionMap S ds \<and>
   (fenced \<longrightarrow> active' = active \<and> db w' = db w) \<and>
   (\<not> fenced \<longrightarrow> active' = active @ activeKeys S ds \<and>
      projected s (activeKeys S ds) (definition_states (db w)) (definition_states (db w')))"
proof (induction ds arbitrary: nxt active w)
  case Nil
  then show ?case by (simp add: ret_def definitionMap_def activeKeys_def projected_def)
next
  case (Cons d ds)
  from Cons.prems obtain n1 a1 w1 where
    1: "applyPersistedDefinition S s fenced now d (nxt, active) w = (Inr (n1, a1), w1)"
    and 2: "foldE (applyPersistedDefinition S s fenced now) ds (n1, a1) w1 = (Inr (nxt', active'), w')"
    by (auto elim: bindE_InrE)
  have "activeKeys S (d # ds) = activeKeys S [d] @ activeKeys S ds" by (simp add: activeKeys_def)
  moreover have "n1 ++ definitionMap S ds = nxt ++ definitionMap S (d # ds)"
    unfolding definitionMap_Cons applyPersisted_Inr(2) [OF 1] by simp
  ultimately show ?case
    using applyPersisted_Inr(1,3,4) [OF 1] Cons.IH [OF 2] by (auto intro: projected_trans)
qed

text \<open>What a projection leaves behind, when it was made for these definitions.\<close>

definition projectionOf :: "Sdk \<Rightarrow> Store \<Rightarrow> DefinitionSnapshot \<Rightarrow> database \<Rightarrow> database \<Rightarrow> bool" where
  "projectionOf S s p d d' \<longleftrightarrow>
     (\<forall>x \<in> set (snapDefinitions p). checkDefinition S x = Inr (normalizeDefinition S x)) \<and>
     (\<exists>st. projected s (activeKeys S (snapDefinitions p)) (definition_states d) st \<and>
        definition_states d' = map (projectedState s (activeKeys S (snapDefinitions p)) (snapRevision p)) st)"

lemma projectDefinitions_Inr:
  assumes "projectDefinitions S s p w = (Inr res, w')"
  shows "res = Some nxt \<Longrightarrow> nxt = definitionMap S (snapDefinitions p) \<and> projectionOf S s p (db w) (db w')"
    and "res = None \<Longrightarrow> db w' = db w"
proof -
  let ?fenced = "snapFence p \<noteq> None" and ?now = "clock w (reads w)" and ?w1 = "w\<lparr>reads := Suc (reads w)\<rparr>"
  obtain x w2 where x: "foldE (applyPersistedDefinition S s ?fenced ?now) (snapDefinitions p) (Map.empty, []) ?w1 = (Inr x, w2)"
    and rest0: "(case x of (nxt, active) \<Rightarrow> if ?fenced then
       attempt (ApplyDefinitionSnapshot S s p ?now) (\<lambda>q. case q of
         Inl e \<Rightarrow> fail (Wrapf ''apply fenced Scheduler definition projection: '' e)
       | Inr applied \<Rightarrow> ret (if applied then Some nxt else None))
     else
       attempt (DisableMissing s (sort active) (snapRevision p)) (\<lambda>q. case q of
         Inl e \<Rightarrow> fail (Wrapf ''disable removed Scheduler definitions: '' e)
       | Inr _ \<Rightarrow> ret (Some nxt))) w2 = (Inr res, w')"
    using assms unfolding projectDefinitions_def bindE_timeNow by (rule bindE_InrE)
  obtain m active where m: "x = (m, active)" by fastforce
  note loop = x [unfolded m] and rest = rest0 [unfolded m prod.case]
  note l = applyPersisted_loop [OF loop]
  have fenced: "\<exists>applied. ApplyDefinitionSnapshot S s p ?now w2 = (Inr applied, w') \<and> res = (if applied then Some m else None)"
    if ?fenced using rest unfolding if_P [OF that] by (rule attempt_wrapped) (blast elim: ret_InrE)
  have plain: "DisableMissing s (sort active) (snapRevision p) w2 = (Inr (), w') \<and> res = Some m" if "\<not> ?fenced"
    using rest unfolding if_not_P [OF that] by (rule attempt_wrapped) (auto elim!: ret_InrE)
  show "nxt = definitionMap S (snapDefinitions p) \<and> projectionOf S s p (db w) (db w')" if "res = Some nxt"
  proof (cases ?fenced)
    case True
    with fenced that have a: "ApplyDefinitionSnapshot S s p ?now w2 = (Inr True, w')" and m: "m = nxt"
      by (auto split: if_splits)
    from a show ?thesis
      by (rule apply_Inr_True) (use l True m in \<open>auto simp: projectionOf_def\<close>)
  next
    case False
    from plain [OF False] have dm: "disableMissingWith s (sort active) (snapRevision p) w2 = (Inr (), w')"
      and m: "res = Some m" by (simp_all add: DisableMissing_def)
    have "projectedState s (sort active) (snapRevision p) = projectedState s active (snapRevision p)"
      unfolding projectedState_def [abs_def] set_sort by (rule refl)
    with disableMissing_Inr [OF dm] l False m that show ?thesis by (auto simp: projectionOf_def)
  qed
  show "db w' = db w" if "res = None"
  proof -
    have f: ?fenced using plain that by auto
    then obtain fence where fence: "snapFence p = Some fence" by blast
    from fenced [OF f] that have a: "ApplyDefinitionSnapshot S s p ?now w2 = (Inr False, w')"
      by (auto split: if_splits)
    have "db w' = db w2"
      using a fence unfolding ApplyDefinitionSnapshot_def
      by (auto simp: fail_def bindE_def liftE_def applySnapshot_tx_def ret_def elim!: transaction_InrE
          split: if_splits option.splits sum.splits prod.splits)
    with l f show ?thesis by simp
  qed
qed

section \<open>The loop that converges on the canonical snapshot\<close>

lemma applyPersistedDefinitions_Inr:
  assumes "applyPersistedDefinitions S p w = (Inr applied, w')"
  defines "s \<equiv> memRuns (memory (db w))"
  shows "applied \<Longrightarrow> memory (db w') = (memory (db w))\<lparr>memDefinitions := definitionMap S (snapDefinitions p)\<rparr> \<and>
      projectionOf S s p (tables (db w)) (tables (db w'))"
    and "\<not> applied \<Longrightarrow> db w' = db w"
proof -
  obtain res v where p: "onTables (projectDefinitions S s p) w = (Inr res, v)"
    and rest: "(case res of None \<Rightarrow> ret False
     | Some nxt \<Rightarrow> bindE (modifyMemory (\<lambda>m. m\<lparr>memDefinitions := nxt\<rparr>)) (\<lambda>_. ret True)) v = (Inr applied, w')"
    using assms(1) unfolding applyPersistedDefinitions_def bindE_getMemory s_def by (rule bindE_InrE)
  from p obtain u where u: "projectDefinitions S s p (withState (tables (db w)) w) = (Inr res, u)"
    "tables (db v) = db u" "memory (db v) = memory (db w)" by (rule onTables_E)
  note r = projectDefinitions_Inr [OF u(1)]
  show "memory (db w') = (memory (db w))\<lparr>memDefinitions := definitionMap S (snapDefinitions p)\<rparr> \<and>
      projectionOf S s p (tables (db w)) (tables (db w'))" if applied
  proof (cases res)
    case None
    then show ?thesis using rest that by (simp add: ret_def)
  next
    case (Some nxt)
    with rest u(2,3) r(1) [OF Some] show ?thesis
      by (auto simp: bindE_def modifyMemory_def ret_def)
  qed
  show "db w' = db w" if "\<not> applied"
  proof (cases res)
    case None
    with rest u(2,3) r(2) show ?thesis by (auto simp: ret_def intro: process.equality)
  next
    case (Some nxt)
    then show ?thesis using rest that by (simp add: bindE_def modifyMemory_def ret_def)
  qed
qed

text \<open>The snapshot a successful convergence ended with was read from the repository.\<close>

lemma convergeRounds_True:
  assumes "convergeRounds S repo n w = (Inr True, w')" "readonly (repoDefinitionSnapshot repo)"
  shows "\<exists>p v v'. repoDefinitionSnapshot repo v = (Inr p, v') \<and> db v = tables (db w) \<and>
    memory (db w') = (memory (db w))\<lparr>memDefinitions := definitionMap S (snapDefinitions p)\<rparr> \<and>
    projectionOf S (memRuns (memory (db w))) p (tables (db w)) (tables (db w'))"
  using assms(1)
proof (induction n arbitrary: w)
  case 0
  then show ?case by (simp add: fail_def)
next
  case (Suc n)
  from Suc.prems obtain p v where read: "onTables (repoDefinitionSnapshot repo) w = (Inr p, v)"
    and rest: "(if isBlank (snapSchemaVersion p) then ret False else
         bindE (applyPersistedDefinitions S p) (\<lambda>applied.
         if applied then ret True else
         bindE (onTables envCall) (\<lambda>_. convergeRounds S repo n))) v = (Inr True, w')"
    unfolding convergeRounds.simps by (rule attempt_wrapped)
  have v: "db v = db w"
    using readonlyD [OF readonly_onTables [OF assms(2)] read] .
  have nb: "\<not> isBlank (snapSchemaVersion p)" using rest by (auto simp: ret_def split: if_splits)
  obtain applied v2 where a: "applyPersistedDefinitions S p v = (Inr applied, v2)"
    and rest2: "(if applied then ret True else bindE (onTables envCall) (\<lambda>_. convergeRounds S repo n)) v2 = (Inr True, w')"
    using rest unfolding if_not_P [OF nb] by (rule bindE_InrE)
  show ?case
  proof (cases applied)
    case True
    then have "w' = v2" using rest2 by (simp add: ret_def)
    moreover from read obtain u where "repoDefinitionSnapshot repo (withState (tables (db w)) w) = (Inr p, u)"
      by (rule onTables_E)
    ultimately show ?thesis
      using applyPersistedDefinitions_Inr(1) [OF a True] v
      by (intro exI [of _ p] exI [of _ "withState (tables (db w)) w"] exI [of _ u]) simp
  next
    case False
    obtain u1 v3 where e: "onTables envCall v2 = (Inr u1, v3)" and c: "convergeRounds S repo n v3 = (Inr True, w')"
      using rest2 unfolding if_not_P [OF False] by (rule bindE_InrE)
    have "db v3 = db w"
      using readonlyD [OF readonly_onTables [OF readonly_basic(6)] e] applyPersistedDefinitions_Inr(2) [OF a False] v
      by simp
    with Suc.IH [OF c] show ?thesis by simp
  qed
qed

section \<open>What the repository returns\<close>

lemma snapshot_encoded:
  assumes "DefinitionSnapshotOf S ds v = (Inr p, v')"
  obtains x where "encodeDefinitions S ds (snapDefinitions p) = Inr x"
proof -
  have ready: "dsReady ds" using assms by (simp add: DefinitionSnapshotOf_def fail_def split: if_splits)
  then have "transaction (bindE (definitionSnapshotFrom S ds) (\<lambda>result. ret (Commit result))) v = (Inr p, v')"
    using assms by (simp add: DefinitionSnapshotOf_def)
  then obtain v1 v2 where f: "definitionSnapshotFrom S ds v1 = (Inr p, v2)"
    by (cases rule: transaction_InrE) (auto elim!: bindE_InrE ret_InrE)
  have "\<exists>x. encodeDefinitions S ds (snapDefinitions p) = Inr x"
    using f unfolding definitionSnapshotFrom_def Let_def
    by (auto simp: attempt_def liftE_def ret_def fail_def elim!: bindE_InrE split: prod.splits sum.splits if_splits option.splits)
  then show thesis using that by blast
qed

lemma encoded_distinct:
  assumes "encodeDefinitions S ds defs = Inr x"
    and trimmed: "\<And>d. trimSpace (defKey (normalizeDefinition S d)) = defKey (normalizeDefinition S d)"
  shows "distinct (map (\<lambda>d. defKey (normalizeDefinition S d)) defs)"
proof -
  obtain vs where "encodeEach S ds [] defs = Inr vs"
    using assms(1) by (auto simp: encodeDefinitions_def split: sum.splits)
  from encodeEach_Inr [OF this] have "distinct (map encKey vs)"
    and m: "map encDefinition vs = map (normalizeDefinition S) defs" by blast+
  moreover have "map encKey vs = map (trimSpace \<circ> defKey) (map encDefinition vs)" by simp
  ultimately have "distinct (map (trimSpace \<circ> defKey) (map (normalizeDefinition S) defs))" by metis
  then show ?thesis using trimmed by (simp add: comp_def)
qed

lemma definitionMap_Some:
  assumes "distinct (map (\<lambda>d. defKey (normalizeDefinition S d)) defs)"
  shows "definitionMap S defs k = Some d \<longleftrightarrow> d \<in> normalizeDefinition S ` set defs \<and> defKey d = k"
proof -
  have "distinct (map fst (rev (map (\<lambda>d. (defKey (normalizeDefinition S d), normalizeDefinition S d)) defs)))"
    using assms by (simp add: rev_map [symmetric] comp_def)
  from map_of_eq_Some_iff [OF this, of k d] show ?thesis
    unfolding definitionMap_def by auto
qed

section \<open>Properties\<close>

text \<open>
  C11. After a successful convergence the service's memory and the database agree: a definition state of
  this Runtime is enabled exactly when the service holds an enabled definition under its key, every
  enabled definition it holds has an enabled state, what it holds is well-formed and outside the namespace of plans,
  and the states of plans and of other Runtimes are as before. Keys are trimmed by the SDK's normalisation.
\<close>

theorem memory_matches_projection:
  assumes "convergePersistedDefinitions S b w = (Inr True, w')"
    and "serviceDefinitions b = Some (definitionRepository S ds)"
    and "\<And>d. trimSpace (defKey (normalizeDefinition S d)) = defKey (normalizeDefinition S d)"
  defines "s \<equiv> memRuns (memory (db w))" and "held \<equiv> memDefinitions (memory (db w'))"
  shows "(\<forall>r \<in> set (definition_states (tables (db w'))). foreignState s r \<or>
       ds_enabled r = (\<exists>d. held (ds_definition_key r) = Some d \<and> enabledStatus d)) \<and>
    (\<forall>k d. held k = Some d \<longrightarrow> defKey d = k \<and> \<not> reservedKey k \<and> validateDefinition S d = None \<and>
       validateSchedule S (defSchedule d) = None \<and>
       (enabledStatus d \<longrightarrow> (\<exists>r \<in> set (definition_states (tables (db w'))).
          stateIdentity r = (runtimeID s, k, definitionStateSourceRuntime) \<and> ds_enabled r))) \<and>
    filter (foreignState s) (definition_states (tables (db w'))) =
      filter (foreignState s) (definition_states (tables (db w)))"
proof -
  have "convergeRounds S (definitionRepository S ds) 64 w = (Inr True, w')"
    using assms(1,2) by (simp add: convergePersistedDefinitions_def)
  moreover have "readonly (repoDefinitionSnapshot (definitionRepository S ds))"
    by (simp add: definitionRepository_def readonly_snapshot)
  ultimately obtain p v v' where read: "repoDefinitionSnapshot (definitionRepository S ds) v = (Inr p, v')"
    and mem: "memory (db w') = (memory (db w))\<lparr>memDefinitions := definitionMap S (snapDefinitions p)\<rparr>"
    and proj: "projectionOf S s p (tables (db w)) (tables (db w'))"
    unfolding s_def using convergeRounds_True by blast
  have "DefinitionSnapshotOf S ds v = (Inr p, v')" using read by (simp add: definitionRepository_def)
  then obtain x where "encodeDefinitions S ds (snapDefinitions p) = Inr x" by (rule snapshot_encoded)
  from encoded_distinct [OF this assms(3)]
  have held: "held k = Some d \<longleftrightarrow> d \<in> normalizeDefinition S ` set (snapDefinitions p) \<and> defKey d = k" for k d
    unfolding held_def mem by (simp add: definitionMap_Some)
  have active: "k \<in> set (activeKeys S (snapDefinitions p)) \<longleftrightarrow> (\<exists>d. held k = Some d \<and> enabledStatus d)" for k
    unfolding held by (auto simp: activeKeys_def)
  have trimmed: "trimSpace k = k" if "held k = Some d" for k d
    using that assms(3) unfolding held by blast
  obtain st where pr: "projected s (activeKeys S (snapDefinitions p)) (definition_states (tables (db w))) st"
    and st: "definition_states (tables (db w')) =
      map (projectedState s (activeKeys S (snapDefinitions p)) (snapRevision p)) st"
    and ok: "\<forall>x \<in> set (snapDefinitions p). checkDefinition S x = Inr (normalizeDefinition S x)"
    using proj unfolding projectionOf_def by blast
  note ps = projected_states [OF pr, of "snapRevision p", folded st]
  have "defKey d = k \<and> \<not> reservedKey k \<and> validateDefinition S d = None \<and> validateSchedule S (defSchedule d) = None"
    if "held k = Some d" for k d
    using that ok unfolding held checkDefinition_Inr by auto
  moreover have "\<exists>r \<in> set (definition_states (tables (db w'))).
      stateIdentity r = (runtimeID s, k, definitionStateSourceRuntime) \<and> ds_enabled r"
    if "held k = Some d" "enabledStatus d" for k d
    using ps(2) active trimmed [OF that(1)] that by blast
  ultimately show ?thesis using ps(1,3) active by blast
qed

definition trimSdk :: Sdk where
  "trimSdk = exSdk\<lparr>normalizeDefinition := (\<lambda>d. exDefinition\<lparr>defKey := trimSpace (defKey d)\<rparr>)\<rparr>"

definition exStored :: database where
  "exStored = emptyDatabase\<lparr>
     definition_snapshots := [\<lparr>sn_source_kind = runtimeDefinitionSourceKind, sn_source_id = ''rt'', sn_revision = 1,
       sn_schema_version = ''1'', sn_schema_hash = sha256Hex ''definitions'', sn_updated_at = []\<rparr>],
     definitions := [\<lparr>df_id = ''d'', df_resource_key = ''d'', df_object_key = ''nightly'', df_name = ''Nightly'',
       df_payload_json = ''definition'', df_schema_version = ''1'', df_schema_hash = ''h'',
       df_source_kind = runtimeDefinitionSourceKind, df_source_id = ''rt'', df_disabled_at = None,
       df_created_at = [], df_updated_at = []\<rparr>]\<rparr>"

definition exProcess :: "database \<Rightarrow> Memory process world" where
  "exProcess d = withState \<lparr>memory = exMemory, tables = d\<rparr> (exWorld emptyDatabase exNoon)"

definition exDefinitionService :: Service where
  "exDefinitionService = (exService (Inr exReceipt))\<lparr>serviceDefinitions := Some (definitionRepository trimSdk exPublisher)\<rparr>"

lemma exStored_read:
  "\<exists>p. DefinitionSnapshotOf trimSdk exPublisher (exWorld exStored exNoon) =
      (Inr p, (exWorld exStored exNoon)\<lparr>calls := 7\<rparr>) \<and>
    snapSchemaVersion p = ''1'' \<and> snapFence p = None \<and> snapDefinitions p = [exDefinition]"
proof -
  have "trimSpace ''1'' = ''1''" by code_simp
  then show ?thesis
    by (simp add: DefinitionSnapshotOf_def definitionSnapshotFrom_def definitionCursorFrom_def go_unfold exWorld_def
        exStored_def emptyDatabase_def exPublisher_def snapshotIdentity_def selectRow_def enabledRows_def ascending_def
        definitionOwned_def trimSdk_def exSdk_def encodeDefinitions_def Let_def exDefinition_def publicationRow_def)
qed

lemma exProjected:
  assumes "snapFence p = None" "snapDefinitions p = [exDefinition]"
  shows "\<exists>nxt w'. projectDefinitions trimSdk (exStore ''a'') p ((exWorld exStored exNoon)\<lparr>calls := 7\<rparr>) = (Inr (Some nxt), w')"
proof -
  have n: "normalizeDefinition trimSdk exDefinition = exDefinition"
    by (simp add: trimSdk_def exDefinition_def)
  have c: "checkDefinition trimSdk exDefinition = Inr exDefinition"
    by (simp add: checkDefinition_Inr n) (simp add: trimSdk_def exSdk_def reservedKey_def startsWith_def
        scheduledPlanDefinitionPrefix_def exDefinition_def)
  have "equalFold (trimSpace ''enabled'') ''enabled''" by code_simp
  then have e: "enabledStatus exDefinition" by (simp add: enabledStatus_def exDefinition_def)
  have "\<exists>w'. Reconcile trimSdk (exStore ''a'') exDefinition nxt v = (Inr (), w') \<and> healthy w'"
    if "healthy v" "definition_states (db v) = []" for nxt v
    using that by (simp add: Reconcile_def reconcileWith_def reconcileSame_def reconcileNew_def sql_reconcileChanged_def
        sql_reconcileStable_def sql_reconcileInsert_def trimSdk_def exSdk_def go_unfold sql_unfold Let_def)
  from this [of "((exWorld exStored exNoon)\<lparr>calls := 7\<rparr>)\<lparr>reads := Suc 0\<rparr>" "initialCursor trimSdk exDefinition exNoon"]
  obtain v where v: "Reconcile trimSdk (exStore ''a'') exDefinition (initialCursor trimSdk exDefinition exNoon)
      (((exWorld exStored exNoon)\<lparr>calls := 7\<rparr>)\<lparr>reads := Suc 0\<rparr>) = (Inr (), v)" "healthy v"
    by (auto simp: exStored_def emptyDatabase_def)
  obtain w' where "DisableMissing (exStore ''a'') [defKey exDefinition] (snapRevision p) v = (Inr (), w')"
    using v(2) by (simp add: DisableMissing_def disableMissingWith_def go_unfold sql_unfold)
  with v(1) show ?thesis
    using assms unfolding projectDefinitions_def bindE_timeNow
    by (simp add: applyPersistedDefinition_def bindE_def liftE_def attempt_def ret_def c e)
qed

theorem memory_matches_projection_witness:
  "\<exists>w'. convergePersistedDefinitions trimSdk exDefinitionService (exProcess exStored) = (Inr True, w') \<and>
     (\<exists>r \<in> set (definition_states (tables (db w'))).
        stateIdentity r = (''rt'', ''nightly'', definitionStateSourceRuntime) \<and> ds_enabled r)"
proof -
  obtain p where p: "DefinitionSnapshotOf trimSdk exPublisher (exWorld exStored exNoon) =
      (Inr p, (exWorld exStored exNoon)\<lparr>calls := 7\<rparr>)"
    "snapSchemaVersion p = ''1''" "snapFence p = None" "snapDefinitions p = [exDefinition]"
    using exStored_read by blast
  obtain nxt v where v: "projectDefinitions trimSdk (exStore ''a'') p ((exWorld exStored exNoon)\<lparr>calls := 7\<rparr>) = (Inr (Some nxt), v)"
    using exProjected [OF p(3,4)] by blast
  have nb: "isBlank ''1'' = False" by code_simp
  have ws: "withState exStored (exWorld emptyDatabase exNoon) = exWorld exStored exNoon"
    "withState exStored ((exWorld exStored exNoon)\<lparr>calls := 7\<rparr>) = (exWorld exStored exNoon)\<lparr>calls := 7\<rparr>"
    by (simp_all add: withState_def exWorld_def)
  have "\<exists>w'. convergeRounds trimSdk (definitionRepository trimSdk exPublisher) (Suc n) (exProcess exStored) = (Inr True, w') \<and>
      memDefinitions (memory (db w')) = nxt" for n
    using p v by (simp add: attempt_def onTables_eq definitionRepository_def ws nb applyPersistedDefinitions_def
        bindE_def ret_def modifyMemory_def exProcess_def getMemory_def)
  from this [of 63] obtain w' where w': "convergePersistedDefinitions trimSdk exDefinitionService (exProcess exStored) = (Inr True, w')"
    and m: "memDefinitions (memory (db w')) = nxt"
    by (auto simp: convergePersistedDefinitions_def exDefinitionService_def)
  have t: "trimSpace (defKey (normalizeDefinition trimSdk d)) = defKey (normalizeDefinition trimSdk d)" for d
    by (simp add: trimSdk_def)
  have s: "serviceDefinitions exDefinitionService = Some (definitionRepository trimSdk exPublisher)"
    by (simp add: exDefinitionService_def)
  have "nxt ''nightly'' = Some exDefinition"
    using projectDefinitions_Inr(1) [OF v refl] p(4) by (simp add: definitionMap_def trimSdk_def exDefinition_def)
  moreover have "equalFold (trimSpace ''enabled'') ''enabled''" by code_simp
  then have "enabledStatus exDefinition" by (simp add: enabledStatus_def exDefinition_def)
  ultimately show ?thesis
    using memory_matches_projection [OF w' s t] w' m by (force simp: exProcess_def exStore_def)
qed

text \<open>
  C25. A snapshot with a definition whose key, once normalised, lies in the namespace of scheduled plans, or that the
  SDK finds invalid, is refused before anything is written: the whole process is left as it was. No host can take
  over the projection of a plan.
\<close>

theorem invalid_snapshot_refused:
  assumes "d \<in> set (hostDefinitions snapshot)"
    and "reservedKey (defKey (normalizeDefinition S d)) \<or> validateDefinition S (normalizeDefinition S d) \<noteq> None \<or>
      validateSchedule S (defSchedule (normalizeDefinition S d)) \<noteq> None"
  shows "\<exists>e. reconcileSnapshot S b snapshot w = (Inl e, w)"
proof -
  have check: "\<exists>e. mapE (\<lambda>d. liftE (checkDefinition S d)) ds w = (Inl e, w)"
    if "d \<in> set ds" for ds :: "Definition list" and w :: "Memory process world"
    using that
  proof (induction ds)
    case (Cons x xs)
    show ?case
    proof (cases "checkDefinition S x")
      case (Inl e)
      then show ?thesis by (simp add: bindE_def liftE_def)
    next
      case (Inr y)
      then have "x \<noteq> d" using assms(2) by (auto simp: checkDefinition_Inr)
      with Cons Inr show ?thesis by (auto simp: bindE_def liftE_def)
    qed
  qed simp
  from check [OF assms(1), of w] show ?thesis
    by (cases "serviceDefinitions b") (auto simp: reconcileSnapshot_def fail_def bindE_def)
qed

theorem invalid_snapshot_refused_witness:
  "\<exists>e. reconcileSnapshot exSdk exDefinitionService \<lparr>hostRevision = 1,
      hostDefinitions = [exDefinition\<lparr>defKey := ''scheduled-plan:x''\<rparr>], hostSession = None\<rparr> (exProcess exStored) =
    (Inl e, exProcess exStored)"
  by (rule invalid_snapshot_refused [of "exDefinition\<lparr>defKey := ''scheduled-plan:x''\<rparr>"])
    (simp_all add: reservedKey_def startsWith_def scheduledPlanDefinitionPrefix_def)

section \<open>Superseded reconciliations\<close>

text \<open>What the service does between the claim of a generation and the lock: other calls claim generations
  (counted), and anything else leaves the generation alone.\<close>

inductive generation_trace :: "nat \<Rightarrow> Memory process world \<Rightarrow> Memory process world \<Rightarrow> bool" where
  start: "generation_trace 0 w w"
| claim: "generation_trace k w w1 \<Longrightarrow> claimGeneration w1 = (q, w2) \<Longrightarrow> generation_trace (Suc k) w w2"
| other: "generation_trace k w w1 \<Longrightarrow> memGeneration (memory (db w2)) = memGeneration (memory (db w1)) \<Longrightarrow>
    generation_trace k w w2"

lemma claimGeneration_eq:
  "claimGeneration w = (Inr (memGeneration (memory (db w)) + 1),
     w\<lparr>db := (db w)\<lparr>memory := (memory (db w))\<lparr>memGeneration := memGeneration (memory (db w)) + 1\<rparr>\<rparr>\<rparr>)"
  by (simp add: claimGeneration_def bindE_def modifyMemory_def getMemory_def ret_def)

lemma generation_trace_count:
  "generation_trace k w w' \<Longrightarrow> memGeneration (memory (db w')) = memGeneration (memory (db w)) + of_nat k"
  by (induction rule: generation_trace.induct) (auto simp: claimGeneration_eq)



end
