(* ===== verification/Worker_Lifecycle.thy ===== *)
theory Worker_Lifecycle
  imports Service_Properties
begin

text \<open>
  The background worker as a state machine: \<^verbatim>\<open>Start\<close> makes or joins a worker, the worker's deferred function
  ends it, \<^verbatim>\<open>Close\<close> cancels it for good. The steps are the sections the code holds \<^verbatim>\<open>lifecycleMu\<close> for, in any
  order and number, together with everything that leaves the fields of the life cycle alone.
\<close>

definition sameLifecycle :: "Memory \<Rightarrow> Memory \<Rightarrow> bool" where
  "sameLifecycle m m' \<longleftrightarrow> memWorkerDone m' = memWorkerDone m \<and> memClosed m' = memClosed m \<and>
     memChannels m' = memChannels m \<and> memWorkers m' = memWorkers m \<and> (memCanceled m \<longrightarrow> memCanceled m')"

inductive worker_step :: "Platform \<Rightarrow> Memory \<Rightarrow> Memory \<Rightarrow> bool" for P :: Platform where
  start: "worker_step P m (snd (Start P ctxLive config m))"
| ended: "c \<in> memWorkers m \<Longrightarrow> worker_step P m (workerEnd c m)"
| close: "worker_step P m (snd (Close m))"
| other: "sameLifecycle m m' \<Longrightarrow> worker_step P m m'"

inductive_cases worker_stepE: "worker_step P m m'"

abbreviation worker_reach :: "Platform \<Rightarrow> Memory \<Rightarrow> Memory \<Rightarrow> bool" where
  "worker_reach P \<equiv> (worker_step P)\<^sup>*\<^sup>*"

section \<open>The invariant\<close>

definition workerOk :: "Memory \<Rightarrow> bool" where
  "workerOk m \<longleftrightarrow> memWorkers m = set_option (memWorkerDone m) \<and> memWorkers m \<subseteq> {..<memChannels m} \<and>
     (memClosed m \<longrightarrow> memCanceled m)"

lemma workerOk_new: "workerOk (NewService P store canceled)"
  by (simp add: workerOk_def NewService_def Let_def)

lemma workerOk_Start: "workerOk m \<Longrightarrow> workerOk (snd (Start P ctxLive config m))"
  by (auto simp: workerOk_def Start_def Let_def split: option.splits sum.splits)

lemma workerOk_step: "worker_step P m m' \<Longrightarrow> workerOk m \<Longrightarrow> workerOk m'"
proof (induction rule: worker_step.induct)
  case (start m ctxLive config)
  then show ?case by (rule workerOk_Start)
next
  case (ended c m)
  then show ?case by (auto simp: workerOk_def workerEnd_def)
next
  case (close m)
  then show ?case by (auto simp: workerOk_def Close_def)
next
  case (other m m')
  then show ?case by (auto simp: workerOk_def sameLifecycle_def)
qed

lemma workerOk_reach: "worker_reach P m m' \<Longrightarrow> workerOk m \<Longrightarrow> workerOk m'"
  by (induction rule: rtranclp_induct) (auto intro: workerOk_step)

text \<open>A closed service never starts a worker again, whatever else happens.\<close>

lemma Start_refused: "memClosed m \<Longrightarrow> Start P ctxLive config m = (ClosedChannel, m)"
  by (simp add: Start_def Let_def)

lemma closed_step:
  "worker_step P m m' \<Longrightarrow> memClosed m \<Longrightarrow> memClosed m' \<and> memWorkers m' \<subseteq> memWorkers m"
  by (induction rule: worker_step.induct) (auto simp: Start_refused workerEnd_def Close_def sameLifecycle_def)

lemma closed_reach:
  "worker_reach P m m' \<Longrightarrow> memClosed m \<Longrightarrow> memClosed m' \<and> memWorkers m' \<subseteq> memWorkers m"
  by (induction rule: rtranclp_induct) (auto dest: closed_step)

section \<open>Properties\<close>

text \<open>
  C12. A service has at most one live worker. A \<^verbatim>\<open>Start\<close> that returns the channel of a worker returns that
  of the only one, and joins it when there is one already; after \<^verbatim>\<open>Close\<close> no worker is ever started, so
  that the service is quiet for good once the worker it had has returned.
\<close>

theorem single_worker:
  assumes "worker_reach P (NewService P store canceled) m"
  shows "card (memWorkers m) \<le> 1 \<and>
    (fst (Start P ctxLive config m) = WorkerChannel c \<longrightarrow>
       memWorkers (snd (Start P ctxLive config m)) = {c} \<and> (memWorkers m = {c} \<or> memWorkers m = {})) \<and>
    (worker_reach P (snd (Close m)) m' \<longrightarrow>
       memWorkers m' \<subseteq> memWorkers m \<and> Start P ctxLive' config' m' = (ClosedChannel, m'))"
proof -
  have ok: "workerOk m" using workerOk_reach [OF assms workerOk_new] .
  then have w: "memWorkers m = set_option (memWorkerDone m)" by (simp add: workerOk_def)
  have "card (memWorkers m) \<le> 1" by (simp add: w split: option.split) (cases "memWorkerDone m"; simp)
  moreover have "memWorkers (snd (Start P ctxLive config m)) = {c} \<and> (memWorkers m = {c} \<or> memWorkers m = {})"
    if "fst (Start P ctxLive config m) = WorkerChannel c"
    using that w by (auto simp: Start_def Let_def split: option.splits sum.splits if_splits)
  moreover have "memWorkers m' \<subseteq> memWorkers m \<and> Start P ctxLive' config' m' = (ClosedChannel, m')"
    if "worker_reach P (snd (Close m)) m'"
    using closed_reach [OF that] by (auto simp: Close_def Start_refused)
  ultimately show ?thesis by blast
qed

definition exConfig :: WorkerConfig where
  "exConfig = \<lparr>cfgEnabled = True, cfgPollInterval = second, cfgBatchSize = 25, cfgLeaseTTL = minute,
     cfgDispatchTimeout = minute, cfgMaxPendingTriggers = 100\<rparr>"

theorem single_worker_witness:
  "memWorkers (snd (Start exPlatform True exConfig (NewService exPlatform (exStore ''a'') False))) = {0} \<and>
   Start exPlatform True exConfig (snd (Close (NewService exPlatform (exStore ''a'') False))) =
     (ClosedChannel, snd (Close (NewService exPlatform (exStore ''a'') False)))"
proof -
  have "fst (Start exPlatform True exConfig (NewService exPlatform (exStore ''a'') False)) = WorkerChannel 0"
    by (simp add: Start_def NewService_def exPlatform_def exConfig_def ConfigureTriggerBacklogLimit_def
        emptyWorkerConfig_def)
  then show ?thesis
    using single_worker [OF rtranclp.rtrancl_refl, where P = exPlatform] by blast
qed

end
