(* ===== verification/Worker_Rounds.thy ===== *)
theory Worker_Rounds
  imports Worker_Lifecycle Plan_Steps Publication_Steps
begin

text \<open>
  A whole life of the background worker, \<^verbatim>\<open>runWorker\<close> of \<^verbatim>\<open>application/scheduler/service.go\<close>: in Module mode it first
  reconciles the definitions and recovers the plans, then it ticks until it is told to stop, and at last its deferred
  function ends it. Every order on the runs passes through all of it, so that what is proved of the statements of the run
  store holds of the worker.

  The loop is the foundation's: it calls the given function until its context is done. How often is a parameter.
\<close>

section \<open>The worker\<close>

definition workerRound :: "Sdk \<Rightarrow> Service \<Rightarrow> WorkerConfig \<Rightarrow> unit svcop" where
  "workerRound S b config =
     bindE getMemory (\<lambda>m.
     bindE timeNow (\<lambda>now.
     attempt (onTables (Tick S b m now (cfgBatchSize config))) (\<lambda>_. ret ())))"

primrec workerRounds :: "Sdk \<Rightarrow> Service \<Rightarrow> WorkerConfig \<Rightarrow> nat \<Rightarrow> unit svcop" where
  "workerRounds S b config 0 = ret ()"
| "workerRounds S b config (Suc n) = bindE (workerRound S b config) (\<lambda>_. workerRounds S b config n)"

definition runWorker :: "Sdk \<Rightarrow> Service \<Rightarrow> nat \<Rightarrow> WorkerConfig \<Rightarrow> nat \<Rightarrow> nat \<Rightarrow> unit svcop" where
  "runWorker S b bound config rounds done =
     bindE (workerBegin S b bound) (\<lambda>_.
     bindE (workerRounds S b config rounds) (\<lambda>_.
     modifyMemory (workerEnd done)))"

section \<open>Orders on the runs, seen from the process\<close>

text \<open>The tables move along the order; the run store and the fields of the life cycle stay as they are.\<close>

definition workerOrder :: "(database \<Rightarrow> database \<Rightarrow> bool) \<Rightarrow> Memory process \<Rightarrow> Memory process \<Rightarrow> bool" where
  "workerOrder R p p' \<longleftrightarrow> memRuns (memory p') = memRuns (memory p) \<and> memWorkers (memory p') = memWorkers (memory p) \<and>
     memWorkerDone (memory p') = memWorkerDone (memory p) \<and> R (tables p) (tables p')"

definition storeIs :: "Store \<Rightarrow> Memory process \<Rightarrow> bool" where
  "storeIs s p \<longleftrightarrow> memRuns (memory p) = s"

lemma keepsRuns_definitions:
  "keepsRuns (update_definition_snapshots p f)" "keepsRuns (insert_definition_snapshots S r)"
  "keepsRuns (sql_disableDefinitions s now)" "keepsRuns (sql_updateDefinition s snapshot now v)"
  "keepsRuns (insert_definitions S dr)" "keepsRuns (sql_moveCursor s active current incoming revision contentHash now)"
  by (simp_all add: keepsRuns_def sql_unfold sql_disableDefinitions_def sql_updateDefinition_def sql_moveCursor_def)

sublocale run_order \<subseteq> proc: db_order "workerOrder R"
  by unfold_locales (auto simp: workerOrder_def order_refl intro: order_trans)

context run_order
begin

lemmas moves_definitions = keepsRuns_definitions [THEN moves_keeps]

lemma moves_SyncDefinitions: "moves R P (SyncDefinitions S' s snapshot)"
proof -
  have accept: "moves R Q (acceptFencedSnapshot S' s snapshot contentHash now)" for Q contentHash now
    unfolding acceptFencedSnapshot_def by (intro moves_intros moves_pure moves_definitions)
  have "moves R Q (writeDefinition S' s snapshot now v u)" for Q now v u
    unfolding writeDefinition_def by (intro moves_intros moves_pure moves_definitions)
  moreover have "moves R Q (writeSnapshotState S' s snapshot hash now)" for Q hash now
    unfolding writeSnapshotState_def by (intro moves_intros moves_pure moves_definitions)
  ultimately have "moves R Q (writeSnapshot S' s snapshot encoded hash now)" for Q encoded hash now
    unfolding writeSnapshot_def by (intro moves_intros moves_pure moves_definitions moves_foldE)
  then have once: "moves R Q (syncDefinitionsOnce S' s snapshot encoded hash)" for Q encoded hash
    unfolding syncDefinitionsOnce_def by (intro moves_intros moves_pure accept)
  have "moves R (\<lambda>_. True) (syncRounds S' s snapshot encoded hash n)" for encoded hash n
    by (induction n) (simp_all only: syncRounds.simps waitDefinitionPublicationRetry_def, (intro moves_intros moves_pure once | assumption)+)
  then have "moves R (\<lambda>_. True) (SyncDefinitions S' s snapshot)"
    unfolding SyncDefinitions_def by (intro moves_intros moves_pure) (simp_all add: moves_pure split: DeploymentMode.split)
  then show ?thesis by (rule moves_weaken) simp
qed

lemma moves_projectDefinitions: "moves R (\<lambda>_. True) (projectDefinitions S' s persisted)"
proof -
  have "moves R (\<lambda>_. True) (applyPersistedDefinition S' s fenced now d acc)" for fenced now d acc
    unfolding applyPersistedDefinition_def Reconcile_def by (intro moves_intros moves_pure moves_reconcile)
  then show ?thesis
    unfolding projectDefinitions_def DisableMissing_def
    by (intro moves_intros moves_pure moves_foldE moves_ApplyDefinitionSnapshot moves_disable)
qed

lemma moves_hydrateScheduledPlans: "moves R (\<lambda>_. True) (hydrateScheduledPlans S' (planService S' ps rs rt) n)"
proof -
  have project: "moves R (\<lambda>_. True) (projectScheduledPlan S' (planService S' ps rs rt) plan)" for plan
    unfolding projectScheduledPlan_def planService_simps option.case ReconcileScheduledPlan_def
    by (intro moves_intros moves_pure moves_reconcile)
  have "moves R (\<lambda>_. True) (hydrateRounds S' (planService S' ps rs rt) (ListScheduledPlansForRecovery S' ps) n after found)" for after found
  proof (induction n arbitrary: after found)
    case 0
    show ?case by (simp add: moves_pure)
  next
    case (Suc n)
    show ?case
      unfolding hydrateRounds.simps Let_def
      by (intro Suc.IH moves_intros moves_foldE project moves_pure moves_readonly [OF readonly_storeReads(2)])
  qed
  then show ?thesis unfolding hydrateScheduledPlans_def planService_simps option.case .
qed

lemma proc_tables:
  assumes "moves R (\<lambda>_. True) f"
  shows "moves (workerOrder R) P (onTables f)"
  unfolding moves_def
proof (intro allI impI)
  fix w :: "Memory process world"
  obtain r w' where r: "onTables f w = (r, w')" by fastforce
  then obtain v where v: "f (withState (tables (db w)) w) = (r, v)" "tables (db w') = db v" "memory (db w') = memory (db w)"
    by (rule onTables_E)
  have "R (tables (db w)) (db v)" using movesD [OF assms _ v(1)] by simp
  with r v show "workerOrder R (db w) (db (snd (onTables f w)))" by (simp add: workerOrder_def)
qed

lemma proc_pure: "moves (workerOrder R) P (ret x)" "moves (workerOrder R) P (fail e)" "moves (workerOrder R) P (liftE q)"
  "moves (workerOrder R) P getMemory" "moves (workerOrder R) P timeNow" "moves (workerOrder R) P (mapE (\<lambda>d. liftE (h d)) ds)"
  by (intro proc.moves_readonly readonly_intros)+

lemma proc_modify:
  "(\<And>m. memRuns (f m) = memRuns m \<and> memWorkers (f m) = memWorkers m \<and> memWorkerDone (f m) = memWorkerDone m) \<Longrightarrow>
   moves (workerOrder R) P (modifyMemory f)"
  by (simp add: moves_def modifyMemory_def workerOrder_def order_refl)

lemma proc_converge: "moves (workerOrder R) (\<lambda>_. True) (convergeRounds S' (definitionRepository S' ds) n)"
proof (induction n)
  case 0
  show ?case by (simp add: proc_pure)
next
  case (Suc n)
  have "moves (workerOrder R) (\<lambda>_. True) (applyPersistedDefinitions S' persisted)" for persisted
    unfolding applyPersistedDefinitions_def
    by (intro proc.moves_intros proc_pure proc_tables moves_projectDefinitions proc_modify) simp
  then show ?case
    unfolding convergeRounds.simps definitionRepository_def DefinitionRepository.simps
    by (intro proc.moves_intros proc_pure proc_tables moves_pure moves_readonly [OF readonly_snapshot(2)]
        Suc.IH [unfolded definitionRepository_def])
qed

lemma proc_reconcile:
  assumes "serviceDefinitions b = Some (definitionRepository S' ds)"
    and "\<And>P. moves R P (hostSnapshot (serviceHost b))"
  shows "moves (workerOrder R) (\<lambda>_. True) (serviceReconcile S' b)"
proof -
  have "moves (workerOrder R) (\<lambda>_. True) (reconcileSnapshot S' b snapshot)" for snapshot
    unfolding reconcileSnapshot_def convergePersistedDefinitions_def assms(1) option.case definitionRepository_def
      DefinitionRepository.simps
    by (intro proc.moves_intros proc_pure proc_tables moves_SyncDefinitions proc_converge [unfolded definitionRepository_def])
  then have "moves (workerOrder R) (\<lambda>_. True) (reconcileLocked S' b generation)" for generation
    unfolding reconcileLocked_def by (intro proc.moves_intros proc_pure proc_tables assms(2))
  moreover have "moves (workerOrder R) (\<lambda>_. True) claimGeneration"
    unfolding claimGeneration_def by (intro proc.moves_intros proc_pure proc_modify) simp
  ultimately show ?thesis unfolding serviceReconcile_def by (intro proc.moves_bindE)
qed

lemma proc_workerBegin:
  assumes "serviceDefinitions b = Some (definitionRepository S' ds)" "servicePlans b = planService S' ps rs rt"
    and "\<And>P. moves R P (hostSnapshot (serviceHost b))"
  shows "moves (workerOrder R) P (workerBegin S' b bound)"
proof -
  have "moves (workerOrder R) (\<lambda>_. True) (workerBegin S' b bound)"
    unfolding workerBegin_def assms(2)
    by (intro proc.moves_if proc.moves_attempt proc_pure proc_tables moves_hydrateScheduledPlans proc_reconcile [OF assms(1,3)])
  then show ?thesis by (rule proc.moves_weaken) simp
qed

text \<open>A round works with the store of the memory it reads, which no round changes.\<close>

lemma proc_workerRound:
  assumes "admissible s" "dispatchersOutside b" "heartbeatRuns b"
  shows "moves (workerOrder R) (storeIs s) (workerRound S b config)"
  unfolding workerRound_def
proof (rule proc.moves_bindE_read [where Q = "\<lambda>m p. memRuns m = s"])
  show "moves (workerOrder R) (\<lambda>p. memRuns m = s) (bindE timeNow (\<lambda>now.
      attempt (onTables (Tick S b m now (cfgBatchSize config))) (\<lambda>_. ret ())))" for m
  proof (cases "memRuns m = s")
    case True
    then have "moves R (\<lambda>_. True) (Tick S b m now limit)" for now limit
      using moves_Tick [of m b now limit] assms by simp
    then show ?thesis by (intro proc.moves_intros proc_pure proc_tables)
  qed (simp add: moves_def)
qed (auto simp: getMemory_def storeIs_def intro: readonly_intros)

lemma proc_workerRounds:
  assumes "admissible s" "dispatchersOutside b" "heartbeatRuns b"
  shows "storeIs s (db w) \<Longrightarrow> workerOrder R (db w) (db (snd (workerRounds S b config n w)))"
proof (induction n arbitrary: w)
  case 0
  show ?case by (simp add: ret_def proc.order_refl)
next
  case (Suc n)
  obtain q w1 where q: "workerRound S b config w = (q, w1)" by fastforce
  have one: "workerOrder R (db w) (db w1)" using movesD [OF proc_workerRound [OF assms] Suc.prems q] .
  then have "storeIs s (db w1)" using Suc.prems by (simp add: workerOrder_def storeIs_def)
  then have "workerOrder R (db w) (db (snd (workerRounds S b config n w1)))"
    using Suc.IH one by (blast intro: proc.order_trans)
  then show ?case using q one by (cases q) (simp_all add: bindE_def)
qed

end

section \<open>What a worker does\<close>

lemma workerBegin_returns: "fst (workerBegin S b bound w) = Inr ()"
  by (simp add: workerBegin_def attempt_def ret_def split: prod.split)

lemma workerRound_returns: "fst (workerRound S b config w) = Inr ()"
  by (simp add: workerRound_def bindE_def getMemory_def timeNow_def attempt_def ret_def split: prod.split)

lemma workerRounds_returns: "fst (workerRounds S b config n w) = Inr ()"
proof (induction n arbitrary: w)
  case (Suc n)
  obtain w1 where "workerRound S b config w = (Inr (), w1)" using workerRound_returns by (metis prod.collapse)
  then show ?case by (simp add: bindE_def Suc.IH)
qed (simp add: ret_def)

lemma runWorker_eq:
  obtains w1 w2 where "workerBegin S b bound w = (Inr (), w1)" "workerRounds S b config n w1 = (Inr (), w2)"
    "runWorker S b bound config n c w = modifyMemory (workerEnd c) w2"
proof -
  obtain w1 where 1: "workerBegin S b bound w = (Inr (), w1)" using workerBegin_returns by (metis prod.collapse)
  obtain w2 where 2: "workerRounds S b config n w1 = (Inr (), w2)" using workerRounds_returns by (metis prod.collapse)
  show ?thesis using that [OF 1 2] 1 2 by (simp add: runWorker_def bindE_def)
qed

text \<open>What the host must not do while it is asked for its definitions.\<close>

definition hostOutside :: "Service \<Rightarrow> bool" where
  "hostOutside b \<longleftrightarrow> moves (\<lambda>d d'. runs d' = runs d) (\<lambda>_. True) (hostSnapshot (serviceHost b))"

context run_order
begin

lemma proc_runWorker:
  assumes "serviceDefinitions b = Some (definitionRepository S ds)" "servicePlans b = planService S ps rs rt"
    and "hostOutside b" "dispatchersOutside b" "heartbeatRuns b" "admissible (memRuns (memory (db w)))"
    and run: "runWorker S b bound config n c w = (q, w')"
  shows "q = Inr ()" "R (tables (db w)) (tables (db w'))" "memWorkers (memory (db w')) = memWorkers (memory (db w)) - {c}"
proof -
  have host: "moves R P (hostSnapshot (serviceHost b))" for P
    using assms(3) by (auto simp: hostOutside_def moves_def intro: frame)
  obtain w1 w2 where w: "workerBegin S b bound w = (Inr (), w1)" "workerRounds S b config n w1 = (Inr (), w2)"
      "runWorker S b bound config n c w = modifyMemory (workerEnd c) w2"
    by (rule runWorker_eq)
  have begun: "workerOrder R (db w) (db w1)"
    using movesD [OF proc_workerBegin [OF assms(1,2) host, where P = "\<lambda>_. True"] _ w(1)] by simp
  then have "storeIs (memRuns (memory (db w))) (db w1)" by (simp add: workerOrder_def storeIs_def)
  then have "workerOrder R (db w1) (db w2)" using proc_workerRounds [OF assms(6,4,5)] w(2) by (metis snd_conv)
  with begun have "workerOrder R (db w) (db w2)" by (rule proc.order_trans)
  moreover have "q = Inr ()" "tables (db w') = tables (db w2)" "memory (db w') = workerEnd c (memory (db w2))"
    using run w(3) by (auto simp: modifyMemory_def)
  ultimately show "q = Inr ()" "R (tables (db w)) (tables (db w'))"
    "memWorkers (memory (db w')) = memWorkers (memory (db w)) - {c}"
    by (simp_all add: workerOrder_def workerEnd_def)
qed

end

text \<open>
  C7. The background worker keeps to the life of a run, for as long as it lives. Whatever its host, the dispatchers and the
  database answer, and however often its loop ticks: the worker never ends with an error, it makes lifecycle transitions of
  stored runs only, it keeps the backlog within the limit its store is configured with, and when it returns it is no longer
  one of the live workers. The host, the dispatchers and the heartbeat are code of the host; they are assumed not to write
  the table of runs themselves.
\<close>

theorem worker_refines_lifecycle:
  assumes "runWorker S b bound config n c w = (q, w')"
    and "serviceDefinitions b = Some (definitionRepository S ds)" "servicePlans b = planService S ps rs rt"
    and "hostOutside b" "dispatchersOutside b" "heartbeatRuns b"
    and "limitAtMost runtime k (memRuns (memory (db w)))"
  shows "q = Inr () \<and> lifecycleRefined (tables (db w)) (tables (db w')) \<and>
    (withinCapacity runtime k (tables (db w)) \<longrightarrow> withinCapacity runtime k (tables (db w'))) \<and>
    memWorkers (memory (db w')) = memWorkers (memory (db w)) - {c}"
  using refine.proc_runWorker [where admissible = "\<lambda>_. True", OF assms(2-6) _ assms(1)]
    capacity.proc_runWorker [OF assms(2-6) assms(7) assms(1)]
  by simp

text \<open>A Module whose worker is channel 0, with one definition due.\<close>

definition exWorkerService :: Service where
  "exWorkerService = (exService (Inr exReceipt))\<lparr>
     serviceDefinitions := Some (definitionRepository exSdk \<lparr>dsReady = True, dsSourceID = ''rt'', dsMode = DeploymentModeModule\<rparr>),
     servicePlans := exPlanService\<rparr>"

definition exWorkerWorld :: "Memory process world" where
  "exWorkerWorld = withState \<lparr>memory = exMemory\<lparr>memWorkerDone := Some 0, memChannels := 1, memWorkers := {0}\<rparr>, tables = db exDueWorld\<rparr> exDueWorld"

lemma exWorkerService_outside: "hostOutside exWorkerService" "dispatchersOutside exWorkerService" "heartbeatRuns exWorkerService"
proof -
  show "hostOutside exWorkerService"
    by (simp add: hostOutside_def exWorkerService_def exService_def moves_def fail_def)
  show "dispatchersOutside exWorkerService"
    using exService_outside [of "Inr exReceipt"] by (simp add: dispatchersOutside_def exWorkerService_def)
  show "heartbeatRuns exWorkerService"
    using exService_heartbeat [of "Inr exReceipt"] by (simp add: heartbeatRuns_def exWorkerService_def)
qed

theorem worker_refines_lifecycle_witness:
  "withinCapacity ''rt'' 2 (tables (db (snd (runWorker exSdk exWorkerService 2 exConfig 3 0 exWorkerWorld)))) \<and>
   memWorkers (memory (db (snd (runWorker exSdk exWorkerService 2 exConfig 3 0 exWorkerWorld)))) = {}"
proof -
  have "withinCapacity ''rt'' 2 (tables (db exWorkerWorld))"
    by (simp add: withinCapacity_def exWorkerWorld_def exDueWorld_def exWorld_def emptyDatabase_def runKeysOk_def matched_def)
  moreover have "limitAtMost ''rt'' 2 (memRuns (memory (db exWorkerWorld)))"
    by (simp add: exWorkerWorld_def limitAtMost_def exStore_def)
  moreover have "memWorkers (memory (db exWorkerWorld)) = {0}" by (simp add: exWorkerWorld_def)
  moreover have "serviceDefinitions exWorkerService =
      Some (definitionRepository exSdk \<lparr>dsReady = True, dsSourceID = ''rt'', dsMode = DeploymentModeModule\<rparr>)"
    "servicePlans exWorkerService = planService exSdk exPlanStore (exStore ''a'') ''rt''"
    by (simp_all add: exWorkerService_def exPlanService_def)
  ultimately show ?thesis
    using worker_refines_lifecycle [OF prod.collapse [symmetric] _ _ exWorkerService_outside] by auto
qed

end
