(* ===== verification/Go_HTTP.thy ===== *)
theory Go_HTTP
  imports Go_Crypto
begin

text \<open>
  The parts of Go's HTTP packages the Scheduler uses: header maps with canonical keys
  (\<^verbatim>\<open>http.Header\<close>, \<^verbatim>\<open>textproto.CanonicalMIMEHeaderKey\<close>), upper case, and the message authentication code
  \<^verbatim>\<open>hmac.New(sha256.New, key)\<close>.
\<close>

section \<open>Header keys\<close>

definition isLowerASCII :: "char \<Rightarrow> bool" where
  "isLowerASCII c \<longleftrightarrow> CHR ''a'' \<le> c \<and> c \<le> CHR ''z''"

definition asciiUpper :: "char \<Rightarrow> char" where
  "asciiUpper c = (if isLowerASCII c then char_of (of_char c - 32 :: nat) else c)"

text \<open>The bytes of an HTTP token.\<close>

definition tokenByte :: "char \<Rightarrow> bool" where
  "tokenByte c \<longleftrightarrow> (CHR ''0'' \<le> c \<and> c \<le> CHR ''9'') \<or> (CHR ''A'' \<le> c \<and> c \<le> CHR ''Z'') \<or> isLowerASCII c \<or>
     c \<in> set (CHR 0x27 # ''!#$%&*+-.^_`|~'')"

text \<open>Capitals at the beginning and after every hyphen, lower case elsewhere.\<close>

fun canonicalBytes :: "bool \<Rightarrow> string \<Rightarrow> string" where
  "canonicalBytes upper [] = []"
| "canonicalBytes upper (c # s) =
     (if upper then asciiUpper c else asciiLower c) # canonicalBytes (c = CHR ''-'') s"

definition canonicalHeaderKey :: "string \<Rightarrow> string" where
  "canonicalHeaderKey k = (if list_all tokenByte k then canonicalBytes True k else k)"

text \<open>A header map with one value per key, as \<^verbatim>\<open>Set\<close> leaves it.\<close>

type_synonym header = "string \<rightharpoonup> string"

definition setHeader :: "string \<Rightarrow> string \<Rightarrow> header \<Rightarrow> header" where
  "setHeader k v h = h(canonicalHeaderKey k \<mapsto> v)"

text \<open>
  \<^verbatim>\<open>strings.ToUpper\<close> as far as ASCII patterns can tell: the two runes outside ASCII whose upper case is
  ASCII are U+0131 (I) and U+017F (S).
\<close>

fun toUpper :: "string \<Rightarrow> string" where
  "toUpper [] = []"
| "toUpper (a # s) =
     (if a = CHR 0xC4 \<and> take 1 s = [CHR 0xB1] then CHR ''I'' # toUpper (drop 1 s)
      else if a = CHR 0xC5 \<and> take 1 s = [CHR 0xBF] then CHR ''S'' # toUpper (drop 1 s)
      else asciiUpper a # toUpper s)"

section \<open>Message authentication\<close>

definition xorByte :: "nat \<Rightarrow> char \<Rightarrow> char" where
  "xorByte n c = char_of (of_char c XOR n)"

definition hmacKey :: "string \<Rightarrow> string" where
  "hmacKey key = (let k = (if length key > 64 then sha256 key else key) in k @ replicate (64 - length k) (CHR 0x00))"

definition hmacSHA256 :: "string \<Rightarrow> string \<Rightarrow> string" where
  "hmacSHA256 key message =
     (let k = hmacKey key in sha256 (map (xorByte 0x5C) k @ sha256 (map (xorByte 0x36) k @ message)))"

section \<open>Facts about header keys\<close>

lemma char_bounds: "of_char c < (256 :: nat)"
  by (metis of_char_mod_256 mod_less_divisor zero_less_numeral)

lemma asciiLower_asciiUpper: "asciiLower (asciiUpper c) = asciiLower c"
proof -
  have le: "a \<le> b \<longleftrightarrow> (of_char a :: nat) \<le> of_char b" for a b :: char by (simp add: less_eq_char_def)
  have "of_char c < (256 :: nat)" by (rule char_bounds)
  then show ?thesis
    by (auto simp: asciiLower_def asciiUpper_def isLowerASCII_def le of_char_of)
qed

lemma asciiLower_idem: "asciiLower (asciiLower c) = asciiLower c"
proof -
  have le: "a \<le> b \<longleftrightarrow> (of_char a :: nat) \<le> of_char b" for a b :: char by (simp add: less_eq_char_def)
  have "of_char c < (256 :: nat)" by (rule char_bounds)
  then show ?thesis by (auto simp: asciiLower_def le of_char_of)
qed

text \<open>Canonicalisation changes the case of letters only.\<close>

lemma canonicalBytes_lower: "map asciiLower (canonicalBytes u k) = map asciiLower k"
  by (induction u k rule: canonicalBytes.induct) (simp_all add: asciiLower_asciiUpper asciiLower_idem)

lemma canonicalHeaderKey_lower: "map asciiLower (canonicalHeaderKey k) = map asciiLower k"
  by (simp add: canonicalHeaderKey_def canonicalBytes_lower)

text \<open>A key that differs from an ASCII text by case only has the lower case of that text.\<close>

lemma asciiLower_plain:
  assumes "map asciiLower k = map asciiLower p" "plainText p"
  shows "plainText k"
proof -
  have le: "a \<le> b \<longleftrightarrow> (of_char a :: nat) \<le> of_char b" for a b :: char by (simp add: less_eq_char_def)
  have *: "(32 :: nat) < of_char c \<and> of_char c < (128 :: nat)"
    if "asciiLower c = asciiLower d" "(32 :: nat) < of_char d \<and> of_char d < (128 :: nat)" for c d
    using that char_bounds [of c] by (auto simp: asciiLower_def le of_char_of split: if_splits dest!: arg_cong [of _ _ "of_char :: char \<Rightarrow> nat"])
  from assms have "list_all2 (\<lambda>c d. asciiLower c = asciiLower d) k p"
    by (simp add: list_all2_conv_all_nth list_eq_iff_nth_eq) 
  then show ?thesis using assms(2) unfolding plainText_def
    by (induction rule: list_all2_induct) (auto dest!: *)
qed

lemma toLower_plain: "plainText k \<Longrightarrow> toLower k = map asciiLower k"
  by (induction k) (auto simp: plainText_def)

lemma trimmed_lower:
  assumes "map asciiLower k = map asciiLower p" "plainText p"
  shows "toLower (trimSpace k) = map asciiLower p"
  using asciiLower_plain [OF assms] assms(1) by (simp add: trimSpace_plain toLower_plain)

end
