(* ===== verification/HTTP_Executor.thy ===== *)
theory HTTP_Executor
  imports Go_HTTP Scheduler_Service
begin

text \<open>
  The executor of direct HTTP targets, \<^verbatim>\<open>adapter/http/executor.go\<close>, and the adapter that dispatches through
  a Runtime's callback gateway, \<^verbatim>\<open>adapter/schedulersdk/downstream.go\<close>.

  The network and the two parsers of the standard library the executor calls are arguments: \<open>Web\<close> holds the HTTP
  client, URL parsing and resolution, and what the fields of the response struct hold after
  \<^verbatim>\<open>_ = json.Unmarshal(body, &decoded)\<close>. The headers of an operation are listed in the order the loop over
  the Go map visits them, which is not determined.
\<close>

section \<open>Requests and responses\<close>

record HTTPOperation =
  opPath :: string
  opMethod :: string
  opTimeout :: duration
  opMaxResponseBytes :: int
  opHeaders :: "(string \<times> string) list"

record HTTPConnection =
  connBaseURL :: string
  connAuth :: string
  connClientID :: string
  connSecret :: string
  connOperations :: "string \<rightharpoonup> HTTPOperation"

record ClientRequest =
  sentMethod :: string
  sentURL :: string
  sentHeader :: header
  sentBody :: string
  sentTimeouts :: "duration list"

text \<open>The bytes a response body delivers, and the error it ends with instead of the end of the stream.\<close>

record HTTPAnswer =
  ansStatus :: int
  ansBody :: string
  ansReadError :: "goerr option"

record decodedReceipt =
  decReceiptID :: string
  decID :: string
  decStatus :: string
  decSuccess :: "bool option"
  decErrCode :: "int option"
  decErrMsg :: string

record parsedURL =
  urlScheme :: string
  urlHost :: string
  urlRest :: string

record Web =
  webConnection :: "string \<Rightarrow> HTTPConnection dbop"
  webDo :: "ClientRequest \<Rightarrow> HTTPAnswer dbop"
  webParseURL :: "string \<Rightarrow> parsedURL option"
  webResolve :: "parsedURL \<Rightarrow> parsedURL \<Rightarrow> string"
  webNewRequest :: "string \<Rightarrow> string \<Rightarrow> goerr option"
  webDecodeReceipt :: "string \<Rightarrow> decodedReceipt"

text \<open>The error type \<^verbatim>\<open>ExecutionError\<close>, beside errors without a classification.\<close>

datatype executionError =
    PlainError goerr
  | ExecutionError (execStatus: int) (execRetryable: bool) (execMessage: string)

definition executionErr :: "executionError \<Rightarrow> goerr" where
  "executionErr e = (case e of PlainError x \<Rightarrow> x | ExecutionError _ _ message \<Rightarrow> Errorf message)"

definition defaultMaxResponseBytes :: int where
  "defaultMaxResponseBytes = 2 ^ 20"

section \<open>The parts of a dispatch\<close>

text \<open>\<^verbatim>\<open>IsAbs\<close> of a URL is a non-empty scheme.\<close>

definition endpointURL :: "Web \<Rightarrow> string \<Rightarrow> string \<Rightarrow> goerr + string" where
  "endpointURL W base path =
     (let invalid = Errorf ''Scheduler HTTP connection base URL is invalid'' in
      case webParseURL W (trimSpace base) of None \<Rightarrow> Inl invalid | Some parsed \<Rightarrow>
      if urlScheme parsed \<noteq> ''http'' \<and> urlScheme parsed \<noteq> ''https'' \<or> urlHost parsed = [] then Inl invalid else
      let notRelative = Errorf ''Scheduler HTTP operation path must be relative'' in
      case webParseURL W (trimSpace path) of None \<Rightarrow> Inl notRelative | Some relative \<Rightarrow>
      if urlScheme relative \<noteq> [] \<or> urlHost relative \<noteq> [] then Inl notRelative
      else Inr (webResolve W parsed relative))"

definition protectedHeaders :: "string list" where
  "protectedHeaders = [''host'', ''authorization'', ''idempotency-key'', ''x-client-id'', ''x-timestamp'', ''x-signature'',
     ''x-domainry-trigger-id'', ''x-domainry-schedule-window'', ''content-length'']"

definition allowedHeader :: "string \<Rightarrow> bool" where
  "allowedHeader key \<longleftrightarrow> toLower (trimSpace key) \<notin> set protectedHeaders"

definition signature :: "string \<Rightarrow> string \<Rightarrow> string \<Rightarrow> string \<Rightarrow> string \<Rightarrow> string" where
  "signature secret clientID timestamp window body =
     hexEncode (hmacSHA256 secret (clientID @ [CHR 0x0A] @ timestamp @ [CHR 0x0A] @ window @ [CHR 0x0A] @ sha256Hex body))"

definition retryableStatus :: "int \<Rightarrow> bool" where
  "retryableStatus status \<longleftrightarrow> status \<in> {429, 502, 503, 504}"

definition decodeReceipt :: "Web \<Rightarrow> string \<Rightarrow> goerr + DownstreamReceipt" where
  "decodeReceipt W body =
     (let decoded = webDecodeReceipt W body in
      if decSuccess decoded = Some False then Inl (Errorf ''Scheduler HTTP downstream reported failure'') else
      case (case decErrCode decoded of Some code \<Rightarrow> if code \<noteq> 0 then Some code else None | None \<Rightarrow> None) of
        Some code \<Rightarrow>
          (let message0 = trimSpace (decErrMsg decoded);
               message = (if message0 = [] then ''error code '' @ formatInt code else message0)
           in Inl (Errorf (''Scheduler HTTP downstream reported '' @ message)))
      | None \<Rightarrow>
          (let id1 = trimSpace (decReceiptID decoded);
               id2 = (if id1 = [] then trimSpace (decID decoded) else id1);
               ident = (if id2 = [] then ''http-'' @ hexEncode (take 12 (sha256 body)) else id2);
               status0 = trimSpace (decStatus decoded)
           in Inr \<lparr>receiptID = ident, receiptOwner = ''http'',
                   receiptStatus = (if status0 = [] then ''accepted'' else status0), receiptReplay = False, receiptRest = []\<rparr>))"

text \<open>The headers in the order they are set.\<close>

definition triggerHeaders :: "Trigger \<Rightarrow> header" where
  "triggerHeaders trigger =
     setHeader ''X-Domainry-Schedule-Window'' (trgWindowKey trigger)
       (setHeader ''X-Domainry-Trigger-ID'' (trgRunID trigger)
         (setHeader ''Idempotency-Key'' (trgIdempotencyKey trigger)
           (setHeader ''Content-Type'' ''application/json'' Map.empty)))"

definition operationHeaders :: "(string \<times> string) list \<Rightarrow> header \<Rightarrow> header" where
  "operationHeaders hs h = fold (\<lambda>(k, v) h. if allowedHeader k then setHeader k v h else h) hs h"

definition authHeaders :: "HTTPConnection \<Rightarrow> Trigger \<Rightarrow> time \<Rightarrow> header \<Rightarrow> header" where
  "authHeaders connection trigger now h =
     (let timestamp = formatInt ((now - unixEpoch) div second) in
      setHeader ''X-Signature'' (signature (connSecret connection) (connClientID connection) timestamp
          (trgWindowKey trigger) (targetPayload (trgTarget trigger)))
        (setHeader ''X-Timestamp'' timestamp (setHeader ''X-Client-ID'' (connClientID connection) h)))"

definition hmacAuth :: "HTTPConnection \<Rightarrow> bool" where
  "hmacAuth connection \<longleftrightarrow> equalFold (connAuth connection) ''hmac_v1''"

text \<open>\<^verbatim>\<open>io.ReadAll(io.LimitReader(body, limit + 1))\<close>: an error after the limit is not seen.\<close>

definition readLimited :: "int \<Rightarrow> HTTPAnswer \<Rightarrow> goerr + string" where
  "readLimited limit answer =
     (if int (length (ansBody answer)) > limit then Inr (take (nat (limit + 1)) (ansBody answer))
      else case ansReadError answer of Some e \<Rightarrow> Inl e | None \<Rightarrow> Inr (ansBody answer))"

definition responseLimit :: "HTTPOperation \<Rightarrow> int" where
  "responseLimit operation =
     (if opMaxResponseBytes operation \<le> 0 \<or> opMaxResponseBytes operation > defaultMaxResponseBytes
      then defaultMaxResponseBytes else opMaxResponseBytes operation)"

definition judgeResponse :: "Sdk \<Rightarrow> Web \<Rightarrow> HTTPOperation \<Rightarrow> HTTPAnswer \<Rightarrow> executionError + DownstreamReceipt" where
  "judgeResponse S W operation answer =
     (let limit = responseLimit operation; status = ansStatus answer in
      case readLimited limit answer of
        Inl e \<Rightarrow> Inl (ExecutionError status True (''read Scheduler HTTP response: '' @ errorText S e))
      | Inr body \<Rightarrow>
          if int (length body) > limit
          then Inl (ExecutionError status False ''Scheduler HTTP response exceeds configured limit'')
          else if status < 200 \<or> status \<ge> 300
          then Inl (ExecutionError status (retryableStatus status)
                 (''Scheduler HTTP request returned status '' @ formatInt status))
          else case decodeReceipt W body of
                 Inl e \<Rightarrow> Inl (ExecutionError status False (errorText S e))
               | Inr receipt \<Rightarrow> Inr receipt)"

section \<open>The dispatch\<close>

definition requestMethod :: "HTTPOperation \<Rightarrow> string" where
  "requestMethod operation = (let m = toUpper (trimSpace (opMethod operation)) in if m = [] then ''POST'' else m)"

definition allowedMethod :: "string \<Rightarrow> bool" where
  "allowedMethod m \<longleftrightarrow> m = ''POST'' \<or> m = ''PUT'' \<or> m = ''PATCH''"

text \<open>The request of a trigger, or why there is none.\<close>

definition buildRequest :: "Web \<Rightarrow> HTTPConnection \<Rightarrow> HTTPOperation \<Rightarrow> duration \<Rightarrow> Trigger \<Rightarrow> goerr + ClientRequest" where
  "buildRequest W connection operation timeout trigger =
     (case endpointURL W (connBaseURL connection) (opPath operation) of Inl e \<Rightarrow> Inl e | Inr endpoint \<Rightarrow>
      let httpMethod = requestMethod operation in
      if \<not> allowedMethod httpMethod
      then Inl (Errorf (''Scheduler HTTP method '' @ quoted httpMethod @ '' is not allowed'')) else
      case webNewRequest W httpMethod endpoint of
        Some e \<Rightarrow> Inl (Wrapf ''create Scheduler HTTP request: '' e)
      | None \<Rightarrow>
          Inr \<lparr>sentMethod = httpMethod, sentURL = endpoint,
               sentHeader = operationHeaders (opHeaders operation) (triggerHeaders trigger),
               sentBody = targetPayload (trgTarget trigger),
               sentTimeouts = timeout # (if opTimeout operation > 0 then [opTimeout operation] else [])\<rparr>)"

definition signRequest :: "HTTPConnection \<Rightarrow> Trigger \<Rightarrow> ClientRequest \<Rightarrow> ClientRequest dbop" where
  "signRequest connection trigger request =
     (if hmacAuth connection
      then bindE timeNow (\<lambda>now. ret (request\<lparr>sentHeader := authHeaders connection trigger now (sentHeader request)\<rparr>))
      else ret request)"

definition sendRequest :: "Sdk \<Rightarrow> Web \<Rightarrow> HTTPOperation \<Rightarrow> ClientRequest \<Rightarrow> (executionError + DownstreamReceipt) dbop" where
  "sendRequest S W operation request =
     attempt (webDo W request) (\<lambda>a. case a of
       Inl e \<Rightarrow> ret (Inl (ExecutionError 0 True (''Scheduler HTTP request failed: '' @ errorText S e)))
     | Inr answer \<Rightarrow> ret (judgeResponse S W operation answer))"

definition executeTrigger :: "Sdk \<Rightarrow> Web \<Rightarrow> duration \<Rightarrow> Trigger \<Rightarrow> (executionError + DownstreamReceipt) dbop" where
  "executeTrigger S W timeout trigger =
     attempt (webConnection W (targetConnectionKey (trgTarget trigger))) (\<lambda>c. case c of
       Inl e \<Rightarrow> ret (Inl (PlainError (Wrapf ''resolve Scheduler HTTP connection: '' e)))
     | Inr connection \<Rightarrow>
         case connOperations connection (targetOperation (trgTarget trigger)) of
           None \<Rightarrow> ret (Inl (PlainError (Errorf (''Scheduler HTTP operation '' @ quoted (targetOperation (trgTarget trigger)) @
                      '' is not published''))))
         | Some operation \<Rightarrow>
             case buildRequest W connection operation timeout trigger of
               Inl e \<Rightarrow> ret (Inl (PlainError e))
             | Inr request \<Rightarrow>
                 bindE (signRequest connection trigger request) (sendRequest S W operation))"

text \<open>The executor as a dispatcher of the service, which sees the text of an error only.\<close>

definition DispatchHTTP :: "Sdk \<Rightarrow> Web \<Rightarrow> Dispatcher" where
  "DispatchHTTP S W timeout trigger =
     bindE (executeTrigger S W timeout trigger) (\<lambda>r. case r of Inl e \<Rightarrow> fail (executionErr e) | Inr receipt \<Rightarrow> ret receipt)"

section \<open>Dispatch through the callback gateway\<close>

record GatewayRequest =
  gwRuntimeID :: string
  gwExecutionID :: string
  gwDefinitionKey :: string
  gwIdempotencyKey :: string
  gwDueAt :: time
  gwTarget :: TargetRef

type_synonym Gateway = "string \<Rightarrow> duration \<Rightarrow> GatewayRequest \<Rightarrow> DownstreamReceipt dbop"

record remoteDownstream =
  remoteRuntimeID :: string
  remoteGateway :: Gateway

text \<open>An unresolved gateway is \<open>None\<close>; \<open>validApplication\<close> is the SDK's check of the reference.\<close>

definition RemoteDownstreamsByApplication ::
  "(string \<Rightarrow> goerr option) \<Rightarrow> (string \<Rightarrow> goerr + Gateway option) option \<Rightarrow> string \<Rightarrow> goerr + remoteDownstream" where
  "RemoteDownstreamsByApplication validApplication resolve application =
     (let unavailable = Errorf ''Scheduler Dispatch Gateway is unavailable'' in
      case resolve of None \<Rightarrow> Inl unavailable | Some f \<Rightarrow>
      case validApplication application of Some e \<Rightarrow> Inl e | None \<Rightarrow>
      case f application of Inl e \<Rightarrow> Inl e
      | Inr None \<Rightarrow> Inl unavailable
      | Inr (Some gateway) \<Rightarrow> Inr \<lparr>remoteRuntimeID = application, remoteGateway = gateway\<rparr>)"

definition RemoteDownstreams ::
  "(string \<Rightarrow> goerr option) \<Rightarrow> Gateway option \<Rightarrow> string \<Rightarrow> goerr + remoteDownstream" where
  "RemoteDownstreams validApplication gateway =
     RemoteDownstreamsByApplication validApplication (Some (\<lambda>_. Inr gateway))"

definition gatewayRequest :: "string \<Rightarrow> Trigger \<Rightarrow> GatewayRequest" where
  "gatewayRequest runtime trigger =
     \<lparr>gwRuntimeID = runtime, gwExecutionID = trgRunID trigger, gwDefinitionKey = trgDefinitionKey trigger,
      gwIdempotencyKey = trgIdempotencyKey trigger, gwDueAt = trgScheduledFor trigger, gwTarget = trgTarget trigger\<rparr>"

definition DispatchRemote :: "remoteDownstream \<Rightarrow> Dispatcher" where
  "DispatchRemote d timeout trigger =
     bindE (remoteGateway d (remoteRuntimeID d) timeout (gatewayRequest (remoteRuntimeID d) trigger)) (\<lambda>receipt.
     ret \<lparr>receiptID = receiptID receipt, receiptOwner = receiptOwner receipt, receiptStatus = receiptStatus receipt,
          receiptReplay = False, receiptRest = []\<rparr>)"

definition ResolveHTTPConnection :: "string \<Rightarrow> HTTPConnection dbop" where
  "ResolveHTTPConnection key = fail (Errorf ''Scheduler SaaS direct HTTP requires a service-owned connection provider; runtime_callback targets use the Dispatch Gateway'')"

end
