(* ===== verification/HTTP_Properties.thy ===== *)
theory HTTP_Properties
  imports HTTP_Executor Service_Properties
begin

text \<open>
  The properties of the HTTP executor: an operation cannot replace the headers that identify and sign a
  trigger, whatever its header map and the order it is visited in, and a receipt is durable.
\<close>

section \<open>Headers\<close>

lemma protected_kept:
  assumes "map asciiLower p \<in> set protectedHeaders" "plainText p"
  shows "operationHeaders hs h p = h p"
proof -
  have "canonicalHeaderKey k \<noteq> p" if "allowedHeader k" for k
  proof
    assume "canonicalHeaderKey k = p"
    then have "map asciiLower k = map asciiLower p" using canonicalHeaderKey_lower [of k] by simp
    from trimmed_lower [OF this assms(2)] assms(1) that show False by (simp add: allowedHeader_def)
  qed
  then have "setHeader k v g p = g p" if "allowedHeader k" for k v g
    using that by (auto simp: setHeader_def)
  then show ?thesis
    unfolding operationHeaders_def by (induction hs arbitrary: h) auto
qed

lemma canonical_names:
  "canonicalHeaderKey ''X-Domainry-Schedule-Window'' = ''X-Domainry-Schedule-Window''"
  "canonicalHeaderKey ''X-Domainry-Trigger-ID'' = ''X-Domainry-Trigger-Id''"
  "canonicalHeaderKey ''Idempotency-Key'' = ''Idempotency-Key''"
  "canonicalHeaderKey ''Content-Type'' = ''Content-Type''"
  "canonicalHeaderKey ''X-Signature'' = ''X-Signature''"
  "canonicalHeaderKey ''X-Timestamp'' = ''X-Timestamp''"
  "canonicalHeaderKey ''X-Client-ID'' = ''X-Client-Id''"
  by code_simp+

lemma protected_names:
  "\<forall>p \<in> {''X-Domainry-Schedule-Window'', ''X-Domainry-Trigger-Id'', ''Idempotency-Key'', ''X-Signature'', ''X-Timestamp'',
      ''X-Client-Id'', ''Authorization'', ''Host'', ''Content-Length''}.
     map asciiLower p \<in> set protectedHeaders \<and> plainText p"
  by code_simp

text \<open>
  C14. The headers that identify, authorise and sign a request are the Scheduler's. Whatever headers the
  published operation lists, in whatever spelling and order, the request carries the trigger's idempotency
  key, run and window; it has no \<^verbatim>\<open>Authorization\<close>, \<^verbatim>\<open>Host\<close> or \<^verbatim>\<open>Content-Length\<close> header of the operation; and
  it carries the client, the time of signing and the signature over them, the window and the body exactly when
  the connection asks for signing.
\<close>

theorem protected_headers_fixed:
  assumes "buildRequest W connection operation timeout trigger = Inr request"
    and "signRequest connection trigger request w = (Inr sent, w')"
  shows "sentHeader sent ''Idempotency-Key'' = Some (trgIdempotencyKey trigger) \<and>
    sentHeader sent ''X-Domainry-Trigger-Id'' = Some (trgRunID trigger) \<and>
    sentHeader sent ''X-Domainry-Schedule-Window'' = Some (trgWindowKey trigger) \<and>
    sentHeader sent ''Authorization'' = None \<and> sentHeader sent ''Host'' = None \<and>
    sentHeader sent ''Content-Length'' = None \<and>
    (if hmacAuth connection then
       (let timestamp = formatInt ((clock w (reads w) - unixEpoch) div second) in
        sentHeader sent ''X-Client-Id'' = Some (connClientID connection) \<and>
        sentHeader sent ''X-Timestamp'' = Some timestamp \<and>
        sentHeader sent ''X-Signature'' = Some (signature (connSecret connection) (connClientID connection) timestamp
          (trgWindowKey trigger) (sentBody sent)))
     else sentHeader sent ''X-Client-Id'' = None \<and> sentHeader sent ''X-Timestamp'' = None \<and>
       sentHeader sent ''X-Signature'' = None)"
proof -
  have r: "sentHeader request = operationHeaders (opHeaders operation) (triggerHeaders trigger)"
    "sentBody request = targetPayload (trgTarget trigger)"
    using assms(1) by (auto simp: buildRequest_def Let_def split: sum.splits option.splits if_splits)
  have kept: "sentHeader request p = triggerHeaders trigger p"
    if "p \<in> {''X-Domainry-Schedule-Window'', ''X-Domainry-Trigger-Id'', ''Idempotency-Key'', ''X-Signature'', ''X-Timestamp'',
      ''X-Client-Id'', ''Authorization'', ''Host'', ''Content-Length''}" for p
    unfolding r using bspec [OF protected_names that] by (blast intro: protected_kept)
  have s: "sent = (if hmacAuth connection
      then request\<lparr>sentHeader := authHeaders connection trigger (clock w (reads w)) (sentHeader request)\<rparr> else request)"
    using assms(2) by (auto simp: signRequest_def bindE_timeNow ret_def split: if_splits)
  show ?thesis
    unfolding s by (simp add: authHeaders_def Let_def setHeader_def canonical_names kept triggerHeaders_def r(2))
qed

section \<open>Receipts\<close>

lemma readLimited_Inr:
  assumes "readLimited limit answer = Inr body" "int (length body) \<le> limit" "0 < limit"
  shows "body = ansBody answer \<and> ansReadError answer = None \<and> int (length (ansBody answer)) \<le> limit"
  using assms by (auto simp: readLimited_def split: if_splits option.splits)

lemma decodeReceipt_durable:
  assumes "decodeReceipt W body = Inr receipt"
  shows "\<not> isBlank (receiptID receipt) \<and> receiptOwner receipt = ''http'' \<and> \<not> isBlank (receiptStatus receipt)"
proof -
  have "plainText (''http-'' @ hexEncode s)" for s
    using plainText_hexEncode [of s] by (simp add: plainText_def)
  from trimSpace_plain [OF this] have h: "\<not> isBlank (''http-'' @ hexEncode s)" for s
    unfolding isBlank_def by simp
  have a: "\<not> isBlank ''accepted''" by code_simp
  have t: "isBlank (trimSpace v) = (trimSpace v = [])" for v by (simp add: isBlank_def)
  show ?thesis
    using assms h a by (auto simp: decodeReceipt_def Let_def t split: if_splits option.splits)
qed

lemma judgeResponse_Inr:
  assumes "judgeResponse S W operation answer = Inr receipt"
  shows "200 \<le> ansStatus answer \<and> ansStatus answer < 300 \<and> ansReadError answer = None \<and>
    int (length (ansBody answer)) \<le> responseLimit operation \<and> decodeReceipt W (ansBody answer) = Inr receipt"
proof -
  have "0 < responseLimit operation" by (simp add: responseLimit_def defaultMaxResponseBytes_def)
  moreover obtain body where "readLimited (responseLimit operation) answer = Inr body"
    "int (length body) \<le> responseLimit operation" "decodeReceipt W body = Inr receipt"
    "200 \<le> ansStatus answer" "ansStatus answer < 300"
    using assms by (auto simp: judgeResponse_def Let_def split: sum.splits if_splits)
  ultimately show ?thesis using readLimited_Inr by blast
qed


section \<open>Witnesses\<close>

definition exOperation :: HTTPOperation where
  "exOperation = \<lparr>opPath = ''/close'', opMethod = ''post'', opTimeout = second, opMaxResponseBytes = 0,
     opHeaders = [(''x-tenant'', ''t1''), (''idempotency-key'', ''forged''), ('' X-Signature'', ''forged'')]\<rparr>"

definition exConnection :: HTTPConnection where
  "exConnection = \<lparr>connBaseURL = ''https://billing'', connAuth = ''none'', connClientID = ''c'', connSecret = ''s'',
     connOperations = [''close'' \<mapsto> exOperation]\<rparr>"

definition exWeb :: Web where
  "exWeb = \<lparr>webConnection = (\<lambda>_. ret exConnection),
     webDo = (\<lambda>_. ret \<lparr>ansStatus = 202, ansBody = ''{}'', ansReadError = None\<rparr>),
     webParseURL = (\<lambda>u. if take 8 u = ''https://'' then Some \<lparr>urlScheme = ''https'', urlHost = drop 8 u, urlRest = []\<rparr>
       else Some \<lparr>urlScheme = [], urlHost = [], urlRest = u\<rparr>),
     webResolve = (\<lambda>b r. urlScheme b @ ''://'' @ urlHost b @ urlRest r), webNewRequest = (\<lambda>_ _. None),
     webDecodeReceipt = (\<lambda>_. \<lparr>decReceiptID = ''r-7'', decID = [], decStatus = [], decSuccess = None, decErrCode = None,
       decErrMsg = []\<rparr>)\<rparr>"

lemma exWebRequest:
  "\<exists>request. buildRequest exWeb exConnection exOperation minute (runTrigger exRun) = Inr request"
proof -
  have "trimSpace ''https://billing'' = ''https://billing''" "trimSpace ''/close'' = ''/close''"
    "requestMethod exOperation = ''POST''" by code_simp+
  then show ?thesis
    by (simp add: buildRequest_def endpointURL_def exWeb_def exConnection_def exOperation_def Let_def allowedMethod_def)
qed

lemma exUnsigned: "\<not> hmacAuth exConnection"
  by code_simp

theorem protected_headers_fixed_witness:
  "\<exists>request. buildRequest exWeb exConnection exOperation minute (runTrigger exRun) = Inr request \<and>
    sentHeader request ''Idempotency-Key'' = Some (trgRunID (runTrigger exRun)) \<and> sentHeader request ''X-Signature'' = None"
proof -
  obtain request where r: "buildRequest exWeb exConnection exOperation minute (runTrigger exRun) = Inr request"
    using exWebRequest by blast
  have "signRequest exConnection (runTrigger exRun) request (exWorld emptyDatabase exNoon) =
      (Inr request, exWorld emptyDatabase exNoon)"
    using exUnsigned by (simp add: signRequest_def ret_def)
  from protected_headers_fixed [OF r this] exUnsigned r show ?thesis
    by (simp add: exRun_def claimedRun_def Let_def)
qed


end
