(* ===== verification/Schema.thy ===== *)
theory Schema
  imports Database
begin

text \<open>
  The Scheduler's own schema: the table builders and the eight migrations of
  \<^verbatim>\<open>persistence/database/schema/migrations.go\<close>, the engines of \<^verbatim>\<open>persistence/engine.go\<close>, and the two ways the
  migrations are handed over, \<^verbatim>\<open>persistence/schema.go\<close> and \<^verbatim>\<open>persistence/database/store.go\<close>.

  The ORM that parses a driver's name, renders a builder as SQL and runs migrations is the record \<open>Orm\<close>. What
  the rendered statements do to a database is the relational reading of the builders in \<open>Schema_Properties\<close>.
\<close>

section \<open>Builders of tables\<close>

datatype ColumnType = TextKeyType nat | BooleanType | JSONType | BigIntType | TextType | LongTextType

record ColumnDefinition =
  columnName :: string
  columnType :: ColumnType
  columnNotNull :: bool
  columnDefault :: "string option"

definition requiredColumn :: "string \<Rightarrow> ColumnType \<Rightarrow> ColumnDefinition" where
  "requiredColumn name kind = \<lparr>columnName = name, columnType = kind, columnNotNull = True, columnDefault = None\<rparr>"

definition optionalColumn :: "string \<Rightarrow> ColumnType \<Rightarrow> ColumnDefinition" where
  "optionalColumn name kind = \<lparr>columnName = name, columnType = kind, columnNotNull = False, columnDefault = None\<rparr>"

record TableBuilder =
  tableName :: string
  tableIfNotExists :: bool
  tableColumns :: "ColumnDefinition list"
  tablePrimary :: "string list"
  tableUnique :: "string list list"

datatype StatementBuilder = NewTable TableBuilder | NewAddColumn string ColumnDefinition

section \<open>The tables\<close>

definition definitionStatesTable :: TableBuilder where
  "definitionStatesTable = \<lparr>tableName = ''_scheduler_definition_states'', tableIfNotExists = False, tableColumns = [
     requiredColumn ''runtime_id'' (TextKeyType 191), requiredColumn ''definition_key'' (TextKeyType 191),
     requiredColumn ''revision'' (TextKeyType 191), requiredColumn ''enabled'' BooleanType,
     requiredColumn ''definition_json'' JSONType, requiredColumn ''next_run_at'' (TextKeyType 40),
     optionalColumn ''last_run_at'' (TextKeyType 40), optionalColumn ''last_run_status'' (TextKeyType 32),
     requiredColumn ''snapshot_revision'' BigIntType, requiredColumn ''updated_at'' (TextKeyType 40)],
     tablePrimary = [''runtime_id'', ''definition_key''], tableUnique = []\<rparr>"

definition runsTable :: TableBuilder where
  "runsTable = \<lparr>tableName = ''_scheduler_runs'', tableIfNotExists = False, tableColumns = [
     requiredColumn ''runtime_id'' (TextKeyType 191), requiredColumn ''run_id'' (TextKeyType 191),
     requiredColumn ''definition_key'' (TextKeyType 191), requiredColumn ''definition_revision'' (TextKeyType 191),
     requiredColumn ''scheduled_for'' (TextKeyType 40), requiredColumn ''window_key'' (TextKeyType 191),
     requiredColumn ''target_json'' JSONType, optionalColumn ''metadata_json'' JSONType,
     requiredColumn ''status'' (TextKeyType 32), requiredColumn ''attempt'' BigIntType,
     optionalColumn ''lease_owner'' (TextKeyType 191), optionalColumn ''lease_expires_at'' (TextKeyType 40),
     requiredColumn ''fencing_token'' BigIntType, optionalColumn ''next_retry_at'' (TextKeyType 40),
     optionalColumn ''receipt_json'' JSONType, optionalColumn ''last_error'' LongTextType,
     requiredColumn ''created_at'' (TextKeyType 40), requiredColumn ''updated_at'' (TextKeyType 40)],
     tablePrimary = [''runtime_id'', ''run_id''], tableUnique = [[''runtime_id'', ''definition_key'', ''scheduled_for'']]\<rparr>"

definition runEventsTable :: TableBuilder where
  "runEventsTable = \<lparr>tableName = ''_scheduler_run_events'', tableIfNotExists = False, tableColumns = [
     requiredColumn ''runtime_id'' (TextKeyType 191), requiredColumn ''event_id'' (TextKeyType 191), requiredColumn ''run_id'' (TextKeyType 191),
     requiredColumn ''event_type'' (TextKeyType 64), optionalColumn ''message'' LongTextType, optionalColumn ''metadata_json'' JSONType,
     requiredColumn ''created_at'' (TextKeyType 40)],
     tablePrimary = [''runtime_id'', ''event_id''], tableUnique = []\<rparr>"

definition deadLettersTable :: TableBuilder where
  "deadLettersTable = \<lparr>tableName = ''_scheduler_dead_letters'', tableIfNotExists = False, tableColumns = [
     requiredColumn ''runtime_id'' (TextKeyType 191), requiredColumn ''run_id'' (TextKeyType 191), requiredColumn ''definition_key'' (TextKeyType 191),
     requiredColumn ''reason'' LongTextType, requiredColumn ''failed_at'' (TextKeyType 40), optionalColumn ''resolved_at'' (TextKeyType 40)],
     tablePrimary = [''runtime_id'', ''run_id''], tableUnique = []\<rparr>"

definition definitionTable :: TableBuilder where
  "definitionTable = \<lparr>tableName = ''_scheduler_definitions'', tableIfNotExists = True, tableColumns = [
     requiredColumn ''id'' (TextKeyType 255), requiredColumn ''resource_key'' (TextKeyType 255),
     requiredColumn ''object_key'' (TextKeyType 255), requiredColumn ''name'' TextType,
     requiredColumn ''payload_json'' LongTextType, requiredColumn ''schema_version'' (TextKeyType 255),
     requiredColumn ''schema_hash'' (TextKeyType 255), requiredColumn ''source_kind'' (TextKeyType 255),
     requiredColumn ''source_id'' (TextKeyType 255), optionalColumn ''disabled_at'' (TextKeyType 255),
     requiredColumn ''created_at'' (TextKeyType 255), requiredColumn ''updated_at'' (TextKeyType 255)],
     tablePrimary = [''id''], tableUnique = [[''resource_key'']]\<rparr>"

definition commandReceiptTable :: TableBuilder where
  "commandReceiptTable = \<lparr>tableName = ''_scheduler_command_receipts'', tableIfNotExists = True, tableColumns = [
     requiredColumn ''runtime_id'' (TextKeyType 191), requiredColumn ''idempotency_key'' (TextKeyType 191),
     requiredColumn ''action_key'' (TextKeyType 191), requiredColumn ''resource_key'' (TextKeyType 255),
     requiredColumn ''request_hash'' (TextKeyType 64), requiredColumn ''status'' (TextKeyType 32),
     requiredColumn ''http_status'' BigIntType, optionalColumn ''response_json'' LongTextType,
     requiredColumn ''created_at'' (TextKeyType 40), requiredColumn ''updated_at'' (TextKeyType 40)],
     tablePrimary = [''runtime_id'', ''idempotency_key''], tableUnique = []\<rparr>"

definition definitionSnapshotTable :: TableBuilder where
  "definitionSnapshotTable = \<lparr>tableName = ''_scheduler_definition_snapshots'', tableIfNotExists = True, tableColumns = [
     requiredColumn ''source_kind'' (TextKeyType 191), requiredColumn ''source_id'' (TextKeyType 191),
     requiredColumn ''revision'' BigIntType, requiredColumn ''schema_version'' (TextKeyType 255),
     requiredColumn ''schema_hash'' (TextKeyType 64), requiredColumn ''updated_at'' (TextKeyType 40)],
     tablePrimary = [''source_kind'', ''source_id''], tableUnique = []\<rparr>"

definition definitionPublicationTable :: TableBuilder where
  "definitionPublicationTable = \<lparr>tableName = ''_scheduler_definition_publications'', tableIfNotExists = True, tableColumns = [
     requiredColumn ''source_kind'' (TextKeyType 191), requiredColumn ''source_id'' (TextKeyType 191),
     requiredColumn ''active_generation'' BigIntType, requiredColumn ''active_session_sha256'' (TextKeyType 64),
     optionalColumn ''cursor_generation'' BigIntType, optionalColumn ''cursor_session_sha256'' (TextKeyType 64),
     optionalColumn ''cursor_revision'' BigIntType, optionalColumn ''cursor_content_sha256'' (TextKeyType 64),
     requiredColumn ''updated_at'' (TextKeyType 40)],
     tablePrimary = [''source_kind'', ''source_id''], tableUnique = []\<rparr>"

definition scheduledPlanTable :: TableBuilder where
  "scheduledPlanTable = \<lparr>tableName = ''_scheduler_plans'', tableIfNotExists = True, tableColumns = [
     requiredColumn ''runtime_id'' (TextKeyType 191), requiredColumn ''plan_id'' (TextKeyType 191),
     requiredColumn ''client_id'' (TextKeyType 191), requiredColumn ''request_sha256'' (TextKeyType 64),
     requiredColumn ''workspace_id'' (TextKeyType 191), requiredColumn ''user_id'' (TextKeyType 191),
     requiredColumn ''product_key'' (TextKeyType 191), requiredColumn ''name'' TextType,
     requiredColumn ''timezone'' (TextKeyType 128), requiredColumn ''trigger_json'' JSONType,
     requiredColumn ''input_json'' JSONType, requiredColumn ''allowed_actions_json'' JSONType,
     requiredColumn ''target_json'' JSONType, optionalColumn ''source_conversation_id'' (TextKeyType 191),
     optionalColumn ''source_run_id'' (TextKeyType 191), requiredColumn ''status'' (TextKeyType 32),
     requiredColumn ''revision'' BigIntType, requiredColumn ''created_at'' (TextKeyType 40), requiredColumn ''updated_at'' (TextKeyType 40)],
     tablePrimary = [''runtime_id'', ''plan_id''], tableUnique = []\<rparr>"

definition sourceKindColumn :: ColumnDefinition where
  "sourceKindColumn =
     \<lparr>columnName = ''source_kind'', columnType = TextKeyType 32, columnNotNull = True,
      columnDefault = Some ''runtime_definition''\<rparr>"

definition capacityGuardTable :: TableBuilder where
  "capacityGuardTable = \<lparr>tableName = ''_scheduler_capacity_guards'', tableIfNotExists = True, tableColumns = [
     requiredColumn ''runtime_id'' (TextKeyType 191), requiredColumn ''revision'' BigIntType],
     tablePrimary = [''runtime_id''], tableUnique = []\<rparr>"

section \<open>The migrations\<close>

definition SchemaVersion :: nat where
  "SchemaVersion = 8"

record SchemaMigration =
  migrationVersion :: nat
  migrationName :: string
  migrationStatements :: "string list"

definition foundationTables :: "TableBuilder list" where
  "foundationTables = [definitionStatesTable, runsTable, runEventsTable, deadLettersTable]"

text \<open>The statements are built in the order of the code: a failing builder stops it with an error that names the table.\<close>

fun buildTables :: "(StatementBuilder \<Rightarrow> goerr + string) \<Rightarrow> TableBuilder list \<Rightarrow> goerr + string list" where
  "buildTables build [] = Inr []"
| "buildTables build (t # ts) =
     (case build (NewTable t) of
        Inl e \<Rightarrow> Inl (Wrapf (''build Scheduler table '' @ tableName t @ '': '') e)
      | Inr statement \<Rightarrow>
          (case buildTables build ts of Inl e \<Rightarrow> Inl e | Inr statements \<Rightarrow> Inr (statement # statements)))"

definition buildOne :: "(StatementBuilder \<Rightarrow> goerr + string) \<Rightarrow> string \<Rightarrow> StatementBuilder \<Rightarrow> goerr + string" where
  "buildOne build what b =
     (case build b of Inl e \<Rightarrow> Inl (Wrapf (''build Scheduler '' @ what @ '': '') e) | Inr statement \<Rightarrow> Inr statement)"

definition Migrations :: "(StatementBuilder \<Rightarrow> goerr + string) \<Rightarrow> goerr + SchemaMigration list" where
  "Migrations build =
     (case buildTables build foundationTables of Inl e \<Rightarrow> Inl e | Inr statements \<Rightarrow>
      case buildOne build ''definition table'' (NewTable definitionTable) of Inl e \<Rightarrow> Inl e | Inr definitionStatement \<Rightarrow>
      case buildOne build ''command receipt table'' (NewTable commandReceiptTable) of Inl e \<Rightarrow> Inl e | Inr commandReceiptStatement \<Rightarrow>
      case buildOne build ''definition snapshot table'' (NewTable definitionSnapshotTable) of Inl e \<Rightarrow> Inl e | Inr definitionSnapshotStatement \<Rightarrow>
      case buildOne build ''definition publication table'' (NewTable definitionPublicationTable) of Inl e \<Rightarrow> Inl e | Inr definitionPublicationStatement \<Rightarrow>
      case buildOne build ''plan table'' (NewTable scheduledPlanTable) of Inl e \<Rightarrow> Inl e | Inr scheduledPlanStatement \<Rightarrow>
      case buildOne build ''definition state source column'' (NewAddColumn ''_scheduler_definition_states'' sourceKindColumn) of
        Inl e \<Rightarrow> Inl e | Inr definitionStateSource \<Rightarrow>
      case buildOne build ''capacity guard table'' (NewTable capacityGuardTable) of Inl e \<Rightarrow> Inl e | Inr capacityGuardStatement \<Rightarrow>
      Inr [\<lparr>migrationVersion = 1, migrationName = ''scheduler_foundation'', migrationStatements = statements\<rparr>,
           \<lparr>migrationVersion = 2, migrationName = ''scheduler_definition_ownership'', migrationStatements = [definitionStatement]\<rparr>,
           \<lparr>migrationVersion = 3, migrationName = ''scheduler_command_idempotency'', migrationStatements = [commandReceiptStatement]\<rparr>,
           \<lparr>migrationVersion = 4, migrationName = ''scheduler_definition_snapshot_state'', migrationStatements = [definitionSnapshotStatement]\<rparr>,
           \<lparr>migrationVersion = 5, migrationName = ''scheduler_definition_publication_fencing'', migrationStatements = [definitionPublicationStatement]\<rparr>,
           \<lparr>migrationVersion = 6, migrationName = ''scheduler_owned_plans'', migrationStatements = [scheduledPlanStatement]\<rparr>,
           \<lparr>migrationVersion = 7, migrationName = ''scheduler_definition_state_sources'', migrationStatements = [definitionStateSource]\<rparr>,
           \<lparr>migrationVersion = 8, migrationName = ''scheduler_trigger_capacity'', migrationStatements = [capacityGuardStatement]\<rparr>])"

section \<open>Engines\<close>

datatype DialectName = SQLite | Postgres | MySQL | OtherDialect string

record Dialect =
  dialectName :: DialectName
  dialectSchema :: string

record Orm =
  ormParse :: "string \<Rightarrow> goerr + DialectName"
  ormBuild :: "Dialect \<Rightarrow> StatementBuilder \<Rightarrow> goerr + string"
  ormRunnerError :: "Dialect \<Rightarrow> goerr option"
  ormApply :: "Dialect \<Rightarrow> (goerr \<Rightarrow> bool) \<Rightarrow> SchemaMigration list \<Rightarrow> unit dbop"

record Engine =
  engineDialect :: DialectName

definition databaseEngineFactories :: "DialectName \<rightharpoonup> Engine" where
  "databaseEngineFactories =
     [SQLite \<mapsto> \<lparr>engineDialect = SQLite\<rparr>, Postgres \<mapsto> \<lparr>engineDialect = Postgres\<rparr>, MySQL \<mapsto> \<lparr>engineDialect = MySQL\<rparr>]"

definition NewEngine :: "Orm \<Rightarrow> string \<Rightarrow> goerr + Engine" where
  "NewEngine orm driver =
     (case ormParse orm driver of
        Inl e \<Rightarrow> Inl (Wrapf (''Scheduler database driver '' @ quoted driver @ '' is unsupported: '') e)
      | Inr dialect \<Rightarrow>
          (case databaseEngineFactories dialect of
             None \<Rightarrow> Inl (Errorf (''Scheduler database driver '' @ quoted driver @ '' is unsupported''))
           | Some engine \<Rightarrow> Inr engine))"

definition engineRenderer :: "Engine \<Rightarrow> string \<Rightarrow> Dialect" where
  "engineRenderer engine schema = \<lparr>dialectName = engineDialect engine, dialectSchema = schema\<rparr>"

definition Renderer :: "Orm \<Rightarrow> string \<Rightarrow> string \<Rightarrow> goerr + Dialect" where
  "Renderer orm driver databaseSchema =
     (case NewEngine orm driver of Inl e \<Rightarrow> Inl e | Inr engine \<Rightarrow> Inr (engineRenderer engine databaseSchema))"

definition SchemaMigrations :: "Orm \<Rightarrow> string \<Rightarrow> string \<Rightarrow> goerr + SchemaMigration list" where
  "SchemaMigrations orm driver databaseSchema =
     (case NewEngine orm driver of Inl e \<Rightarrow> Inl e | Inr engine \<Rightarrow> Migrations (ormBuild orm (engineRenderer engine databaseSchema)))"

section \<open>Applying the migrations\<close>

text \<open>\<^verbatim>\<open>isMigrationConflict\<close>: a concurrent runner that recorded a version first is recognised by the text of the driver's error.\<close>

definition isMigrationConflict :: "Sdk \<Rightarrow> goerr option \<Rightarrow> bool" where
  "isMigrationConflict S err =
     (case err of
        None \<Rightarrow> False
      | Some e \<Rightarrow>
          let v = toLower (errorText S e)
          in containsStr v ''unique'' \<or> containsStr v ''duplicate'' \<or> containsStr v ''constraint'')"

definition runMigrations :: "Sdk \<Rightarrow> Orm \<Rightarrow> Dialect \<Rightarrow> SchemaMigration list \<Rightarrow> unit dbop" where
  "runMigrations S orm renderer migrations =
     (case ormRunnerError orm renderer of
        Some e \<Rightarrow> fail e
      | None \<Rightarrow> ormApply orm renderer (\<lambda>e. isMigrationConflict S (Some e)) migrations)"

definition EnsureSchema :: "Sdk \<Rightarrow> Orm \<Rightarrow> string \<Rightarrow> string \<Rightarrow> unit dbop" where
  "EnsureSchema S orm driver databaseSchema =
     (case Renderer orm driver databaseSchema of Inl e \<Rightarrow> fail e | Inr renderer \<Rightarrow>
      case SchemaMigrations orm driver databaseSchema of Inl e \<Rightarrow> fail e | Inr migrations \<Rightarrow>
      runMigrations S orm renderer migrations)"

end
