(* ===== verification/Assembly.thy ===== *)
theory Assembly
  imports HTTP_Executor Schema
begin

text \<open>
  The composition of a binding, \<^verbatim>\<open>assembly/module/open.go\<close>: the checks on the host, the migrations, the three
  stores, the HTTP executor, and the service over them.

  What the host provides is the record \<open>Hosting\<close>. The migrations of \<open>Schema\<close> are handed to the
  host's registrar in Module mode and run by the Scheduler in SaaS mode; the registrar and the runner are arguments.
\<close>

record Hosting =
  hostingDatabase :: bool
  hostingDialect :: bool
  hostingWorkerID :: string
  hostingHost :: Host
  hostingConnections :: "string \<Rightarrow> HTTPConnection dbop"

record MigrationHost =
  migrationsRegistrar :: "(string \<Rightarrow> SchemaMigration list \<Rightarrow> unit dbop) option"
  migrationsDriver :: string
  migrationsSchema :: string
  migrationsOrm :: Orm

text \<open>
  \<open>validApplication\<close> is the SDK's check of an application reference; \<open>capabilityError\<close> is the error of building
  the capability documents, if any; \<open>adapterError\<close> that of building the HTTP adapter.
\<close>

definition openStores :: "Sdk \<Rightarrow> Hosting \<Rightarrow> DeploymentMode \<Rightarrow> string \<Rightarrow> goerr + (Store \<times> DefinitionStore \<times> ScheduledPlanStore)" where
  "openStores S h mode runtime =
     (case newStore S (hostingDatabase h) (hostingDialect h) runtime (hostingWorkerID h) of Inl e \<Rightarrow> Inl e | Inr runStore \<Rightarrow>
      case NewDefinitionStore (hostingDatabase h) (hostingDialect h) runtime mode of Inl e \<Rightarrow> Inl e | Inr definitionStore \<Rightarrow>
      case NewScheduledPlanStore (hostingDatabase h) (hostingDialect h) runtime of Inl e \<Rightarrow> Inl e | Inr planStore \<Rightarrow>
      Inr (runStore, definitionStore, planStore))"

definition applyMigrations :: "Sdk \<Rightarrow> MigrationHost \<Rightarrow> DeploymentMode \<Rightarrow> unit dbop" where
  "applyMigrations S M mode =
     (case mode of
        DeploymentModeModule \<Rightarrow>
          (case migrationsRegistrar M of
             None \<Rightarrow> fail (Errorf ''Scheduler Module migration host is required'')
           | Some register \<Rightarrow>
               (case SchemaMigrations (migrationsOrm M) (migrationsDriver M) (migrationsSchema M) of
                  Inl e \<Rightarrow> fail e
                | Inr migrations \<Rightarrow>
                    attempt (register ''scheduler'' migrations) (\<lambda>q. case q of
                      Inl e \<Rightarrow> fail (Wrapf ''apply Scheduler Module migrations: '' e) | Inr _ \<Rightarrow> ret ())))
      | DeploymentModeSaaS \<Rightarrow>
          attempt (EnsureSchema S (migrationsOrm M) (migrationsDriver M) (migrationsSchema M)) (\<lambda>q. case q of
            Inl e \<Rightarrow> fail (Wrapf ''apply Scheduler SaaS migrations: '' e) | Inr _ \<Rightarrow> ret ())
      | DeploymentModeOther m \<Rightarrow> fail (Errorf (''Scheduler deployment mode '' @ quoted m @ '' is unsupported'')))"

definition bindService ::
  "Sdk \<Rightarrow> Platform \<Rightarrow> Web \<Rightarrow> Hosting \<Rightarrow> DeploymentMode \<Rightarrow> string \<Rightarrow> Store \<Rightarrow> DefinitionStore \<Rightarrow> ScheduledPlanStore \<Rightarrow> Service" where
  "bindService S P W h mode runtime runStore definitionStore planStore =
     \<lparr>serviceRuntimeID = runtime, serviceMode = mode, serviceHost = hostingHost h,
      serviceDirectHTTP = DispatchHTTP S (W\<lparr>webConnection := hostingConnections h\<rparr>),
      serviceDefinitions = Some (definitionRepository S definitionStore),
      servicePlans = planService S planStore runStore runtime, servicePlatform = P\<rparr>"

definition openBinding ::
  "Sdk \<Rightarrow> Platform \<Rightarrow> Web \<Rightarrow> (string \<Rightarrow> goerr option) \<Rightarrow> goerr option \<Rightarrow> goerr option \<Rightarrow> Hosting \<Rightarrow> DeploymentMode \<Rightarrow>
   MigrationHost \<Rightarrow> bool \<Rightarrow> string \<Rightarrow> (Service \<times> Memory) dbop" where
  "openBinding S P W validApplication capabilityError adapterError h mode M canceled runtime =
     (case validApplication runtime of Some e \<Rightarrow> fail e | None \<Rightarrow>
      if \<not> hostingDatabase h \<or> \<not> hostingDialect h \<or> isBlank (hostingWorkerID h)
      then fail (Errorf ''Scheduler host is incomplete'') else
      bindE (applyMigrations S M mode) (\<lambda>_.
      bindE (liftE (openStores S h mode runtime)) (\<lambda>(runStore, definitionStore, planStore).
      case capabilityError of
        Some e \<Rightarrow> fail (Wrapf ''build Scheduler capability disclosure: '' e)
      | None \<Rightarrow>
          let service = bindService S P W h mode runtime runStore definitionStore planStore;
              memory = NewService P runStore canceled
          in case (mode, adapterError) of
               (DeploymentModeModule, Some e) \<Rightarrow> fail (Wrapf ''build Scheduler Module HTTP adapter: '' e)
             | _ \<Rightarrow> ret (service, memory))))"

definition OpenModule ::
  "Sdk \<Rightarrow> Platform \<Rightarrow> Web \<Rightarrow> (string \<Rightarrow> goerr option) \<Rightarrow> goerr option \<Rightarrow> goerr option \<Rightarrow> Hosting \<Rightarrow> MigrationHost \<Rightarrow> bool \<Rightarrow> string \<Rightarrow>
   (Service \<times> Memory) dbop" where
  "OpenModule S P W validApplication capabilityError adapterError h M canceled runtime =
     (if migrationsRegistrar M = None then fail (Errorf ''Scheduler Module migration host is required'')
      else openBinding S P W validApplication capabilityError adapterError h DeploymentModeModule M canceled runtime)"

definition OpenSaaS ::
  "Sdk \<Rightarrow> Platform \<Rightarrow> Web \<Rightarrow> (string \<Rightarrow> goerr option) \<Rightarrow> goerr option \<Rightarrow> Hosting \<Rightarrow> MigrationHost \<Rightarrow> bool \<Rightarrow> string \<Rightarrow>
   (Service \<times> Memory) dbop" where
  "OpenSaaS S P W validApplication capabilityError h M canceled runtime =
     openBinding S P W validApplication capabilityError None h DeploymentModeSaaS M canceled runtime"

text \<open>The factory of \<^verbatim>\<open>module/factory.go\<close>, by which a host opens the module. It needs the host's migrations.\<close>

definition factoryOpen :: "string \<Rightarrow> (Service \<times> Memory) dbop" where
  "factoryOpen runtime = fail (Errorf ''Scheduler Module host is required'')"

definition factoryOpenModule ::
  "Sdk \<Rightarrow> Platform \<Rightarrow> Web \<Rightarrow> (string \<Rightarrow> goerr option) \<Rightarrow> goerr option \<Rightarrow> goerr option \<Rightarrow> (Hosting \<times> MigrationHost) option \<Rightarrow> bool \<Rightarrow> string \<Rightarrow>
   (Service \<times> Memory) dbop" where
  "factoryOpenModule S P W validApplication capabilityError adapterError host canceled runtime =
     (case host of
        None \<Rightarrow> fail (Errorf ''Scheduler Module migration host is required'')
      | Some (h, M) \<Rightarrow>
          if migrationsRegistrar M = None then fail (Errorf ''Scheduler Module migration host is required'')
          else OpenModule S P W validApplication capabilityError adapterError h M canceled runtime)"

definition factoryOpenSaaSApplication ::
  "Sdk \<Rightarrow> Platform \<Rightarrow> Web \<Rightarrow> (string \<Rightarrow> goerr option) \<Rightarrow> goerr option \<Rightarrow> (Hosting \<times> MigrationHost) option \<Rightarrow> bool \<Rightarrow> string \<Rightarrow>
   (Service \<times> Memory) dbop" where
  "factoryOpenSaaSApplication S P W validApplication capabilityError host canceled runtime =
     (case host of
        None \<Rightarrow> fail (Errorf ''Scheduler SaaS host is required'')
      | Some (h, M) \<Rightarrow> OpenSaaS S P W validApplication capabilityError h M canceled runtime)"

section \<open>What is bound\<close>

text \<open>A binding is for one Runtime: its three stores have the trimmed Runtime identity.\<close>

lemma openStores_runtime:
  assumes "openStores S h mode runtime = Inr (runStore, definitionStore, planStore)"
  shows "runtimeID runStore = trimSpace runtime" "dsSourceID definitionStore = trimSpace runtime"
    "psRuntimeID planStore = trimSpace runtime" "trimSpace runtime \<noteq> []" "workerID runStore = trimSpace (hostingWorkerID h)"
    "dsMode definitionStore = mode"
  using assms
  by (auto simp: openStores_def newStore_def NewDefinitionStore_def NewScheduledPlanStore_def Let_def
      split: sum.splits if_splits)

lemma NewService_runtime: "runtimeID (memRuns (NewService P store canceled)) = runtimeID store"
  by (simp add: NewService_def Let_def ConfigureTriggerBacklogLimit_def)

lemma openBinding_Inr:
  assumes "openBinding S P W validApplication ce ae h mode M canceled runtime w = (Inr (b, m), w')"
  obtains runStore definitionStore planStore where
    "openStores S h mode runtime = Inr (runStore, definitionStore, planStore)"
    "b = bindService S P W h mode runtime runStore definitionStore planStore" "m = NewService P runStore canceled"
proof -
  obtain stores where o: "openStores S h mode runtime = Inr stores"
    using assms unfolding openBinding_def
    by (auto simp: fail_def liftE_def elim!: bindE_InrE split: option.splits if_splits)
  obtain r d p where s: "stores = (r, d, p)" by (cases stores)
  have "b = bindService S P W h mode runtime r d p \<and> m = NewService P r canceled"
    using assms o s unfolding openBinding_def
    by (auto simp: fail_def liftE_def ret_def Let_def elim!: bindE_InrE
        split: option.splits if_splits DeploymentMode.splits)
  with o s that show thesis by blast
qed

text \<open>
  A module that was opened by its factory is bound to its Runtime in Module mode, and its migrations were handed to the
  host's registrar under the module's name, for a driver with an engine.
\<close>

lemma factoryOpenModule_migrated:
  assumes "factoryOpenModule S P W validApplication ce ae host canceled runtime w = (Inr (b, m), w')"
  obtains h M register migrations v where "host = Some (h, M)" "migrationsRegistrar M = Some register"
    "SchemaMigrations (migrationsOrm M) (migrationsDriver M) (migrationsSchema M) = Inr migrations"
    "register ''scheduler'' migrations w = (Inr (), v)" "serviceMode b = DeploymentModeModule"
proof -
  obtain h M where host: "host = Some (h, M)" "migrationsRegistrar M \<noteq> None"
    and opened: "openBinding S P W validApplication ce ae h DeploymentModeModule M canceled runtime w = (Inr (b, m), w')"
    using assms by (auto simp: factoryOpenModule_def OpenModule_def fail_def split: option.splits if_splits)
  obtain rs ds ps where b: "b = bindService S P W h DeploymentModeModule runtime rs ds ps"
    using opened by (rule openBinding_Inr)
  obtain v where "applyMigrations S M DeploymentModeModule w = (Inr (), v)"
    using opened unfolding openBinding_def by (auto simp: fail_def elim!: bindE_InrE split: option.splits if_splits)
  with host that [OF host(1)] b show thesis
    by (auto simp: applyMigrations_def attempt_def fail_def ret_def bindService_def split: option.splits sum.splits prod.splits)
qed

end
