(* ===== verification/SaaS_Service.thy ===== *)
theory SaaS_Service
  imports Assembly
begin

text \<open>
  The SaaS service, \<^verbatim>\<open>assembly/saas/database_service.go\<close> and \<^verbatim>\<open>scheduled_plan_receipt.go\<close>: one binding per
  application over one database. A binding is opened on first use, restores the definitions and plans the
  application has published, and gets a worker only once something durable is known.

  The options of the service and what it calls are the record \<open>Saas\<close>; its map of applications is
  the memory of the process. An operation of one application runs on that application's own memory.
\<close>

section \<open>State\<close>

record Downstream =
  downDispatch :: Dispatcher
  downConnection :: "string \<Rightarrow> HTTPConnection dbop"

definition downstreamOf :: "remoteDownstream \<Rightarrow> Downstream" where
  "downstreamOf d = \<lparr>downDispatch = DispatchRemote d, downConnection = ResolveHTTPConnection\<rparr>"

record Saas =
  saasSdk :: Sdk
  saasNames :: ProtocolNames
  saasPlatform :: Platform
  saasWeb :: Web
  saasValidApplication :: "string \<Rightarrow> goerr option"
  saasCapabilityError :: "goerr option"
  saasCanonicalObject :: "string \<Rightarrow> goerr + string"
  saasOrm :: Orm
  saasDatabase :: bool
  saasDriver :: string
  saasSchema :: string
  saasWorkerID :: string
  saasWorker :: WorkerConfig
  saasConfigured :: "string list"
  saasDownstreams :: "(string \<Rightarrow> Downstream option dbop) option"
  saasPlanBound :: nat

text \<open>\<open>appStarted\<close> is \<^verbatim>\<open>cancel != nil\<close>, \<open>appDone\<close> the channel \<^verbatim>\<open>Start\<close> returned.\<close>

record Application =
  appReady :: bool
  appStarted :: bool
  appDone :: "doneChannel option"
  appBinding :: Service
  appMemory :: Memory

record SaasMemory =
  saasApplications :: "string \<rightharpoonup> Application"
  saasCanceled :: bool

type_synonym 'a saasop = "(SaasMemory, 'a) procop"

section \<open>Running an operation on one application\<close>

definition updateApplication :: "string \<Rightarrow> (Application \<Rightarrow> Application) \<Rightarrow> SaasMemory \<Rightarrow> SaasMemory" where
  "updateApplication key f m = m\<lparr>saasApplications := (saasApplications m)(key := map_option f (saasApplications m key))\<rparr>"

text \<open>The part of the process an operation of the binding works on, and how its changes are put back.\<close>

definition applicationPart :: "string \<Rightarrow> Memory \<Rightarrow> SaasMemory process \<Rightarrow> Memory process" where
  "applicationPart key absent p =
     \<lparr>memory = (case saasApplications (memory p) key of None \<Rightarrow> absent | Some a \<Rightarrow> appMemory a), tables = tables p\<rparr>"

definition putApplication :: "string \<Rightarrow> Memory process \<Rightarrow> SaasMemory process \<Rightarrow> SaasMemory process" where
  "putApplication key q p =
     \<lparr>memory = updateApplication key (\<lambda>a. a\<lparr>appMemory := memory q\<rparr>) (memory p), tables = tables q\<rparr>"

definition onApplication :: "string \<Rightarrow> (Application \<Rightarrow> 'a svcop) \<Rightarrow> 'a saasop" where
  "onApplication key f =
     bindE getMemory (\<lambda>m. case saasApplications m key of
       None \<Rightarrow> fail (Errorf ''Scheduler application is unavailable for receipt reading'')
     | Some a \<Rightarrow> zoom (applicationPart key (appMemory a)) (putApplication key) (f a))"

section \<open>Opening applications\<close>

definition applicationHosting :: "Saas \<Rightarrow> Downstream \<Rightarrow> Hosting" where
  "applicationHosting opts d =
     \<lparr>hostingDatabase = saasDatabase opts, hostingDialect = True, hostingWorkerID = saasWorkerID opts,
      hostingHost = \<lparr>hostSnapshot = fail (Errorf ''Scheduler SaaS definitions arrive through the fenced publication protocol''),
        hostDispatch = downDispatch d\<rparr>,
      hostingConnections = downConnection d\<rparr>"

definition saasMigrations :: "Saas \<Rightarrow> MigrationHost" where
  "saasMigrations opts = \<lparr>migrationsRegistrar = None, migrationsDriver = saasDriver opts, migrationsSchema = saasSchema opts,
     migrationsOrm = saasOrm opts\<rparr>"

text \<open>A worker configuration of zeros enables the worker with the defaults.\<close>

definition workerConfig :: "WorkerConfig \<Rightarrow> WorkerConfig" where
  "workerConfig c = (if c = emptyWorkerConfig then c\<lparr>cfgEnabled := True\<rparr> else c)"

definition startWorker :: "Saas \<Rightarrow> bool \<Rightarrow> Application \<Rightarrow> Application" where
  "startWorker opts canceled a =
     (if appStarted a then a else
      case Start (saasPlatform opts) (\<not> canceled) (workerConfig (saasWorker opts)) (appMemory a) of
        (done, m) \<Rightarrow> a\<lparr>appStarted := True, appDone := Some done, appMemory := m\<rparr>)"

definition markReady :: "Saas \<Rightarrow> string \<Rightarrow> unit saasop" where
  "markReady opts key =
     modifyMemory (\<lambda>m. updateApplication key (\<lambda>a. startWorker opts (saasCanceled m) (a\<lparr>appReady := True\<rparr>)) m)"

text \<open>
  Hydration of a binding that is not yet in the map, on the memory it was opened with. The bound on the
  rounds of the plan recovery is reached only with more plans than it.
\<close>

definition hydrateBinding :: "Saas \<Rightarrow> Service \<Rightarrow> Memory \<Rightarrow> (bool \<times> Memory) dbop" where
  "hydrateBinding opts b m w =
     (case HydrateDefinitions (saasSdk opts) b (saasPlanBound opts) (withState \<lparr>memory = m, tables = db w\<rparr> w) of
        (q, w') \<Rightarrow> ((case q of Inl e \<Rightarrow> Inl e | Inr found \<Rightarrow> Inr (found = Some True, memory (db w'))),
                    withState (tables (db w')) w'))"

definition openApplication :: "Saas \<Rightarrow> bool \<Rightarrow> string \<Rightarrow> Application dbop" where
  "openApplication opts canceled runtime =
     (case saasDownstreams opts of
        None \<Rightarrow> fail (Errorf ''Scheduler SaaS database service is incomplete'')
      | Some downstreams \<Rightarrow>
          bindE (downstreams runtime) (\<lambda>found. case found of
            None \<Rightarrow> fail (Errorf (''Scheduler SaaS downstream host is unavailable for '' @ trimSpace runtime))
          | Some downstream \<Rightarrow>
              bindE (OpenSaaS (saasSdk opts) (saasPlatform opts) (saasWeb opts) (saasValidApplication opts) (saasCapabilityError opts)
                       (applicationHosting opts downstream) (saasMigrations opts) canceled runtime) (\<lambda>(b, m).
              bindE (hydrateBinding opts b m) (\<lambda>(hydrated, m').
              let a = \<lparr>appReady = hydrated, appStarted = False, appDone = None, appBinding = b, appMemory = m'\<rparr>
              in ret (if hydrated then startWorker opts canceled a else a)))))"

definition applicationKey :: "Saas \<Rightarrow> string \<Rightarrow> goerr + string" where
  "applicationKey opts runtime =
     (case saasValidApplication opts runtime of Some e \<Rightarrow> Inl e | None \<Rightarrow>
      let key = trimSpace runtime in
      if saasConfigured opts \<noteq> [] \<and> key \<notin> set (map trimSpace (saasConfigured opts))
      then Inl (Errorf (''Scheduler SaaS application '' @ quoted key @ '' is not configured''))
      else Inr key)"

text \<open>\<^verbatim>\<open>application\<close>: the key of an application that is in the map afterwards.\<close>

definition application :: "Saas \<Rightarrow> string \<Rightarrow> string saasop" where
  "application opts runtime =
     bindE (liftE (applicationKey opts runtime)) (\<lambda>key.
     bindE getMemory (\<lambda>m. case saasApplications m key of
       Some _ \<Rightarrow> ret key
     | None \<Rightarrow>
         bindE (onTables (openApplication opts (saasCanceled m) runtime)) (\<lambda>a.
         bindE (modifyMemory (\<lambda>m. m\<lparr>saasApplications := (saasApplications m)(key \<mapsto> a)\<rparr>)) (\<lambda>_.
         ret key))))"

text \<open>
  \<^verbatim>\<open>Shutdown\<close> cancels the context of the process and forgets the applications; it closes the binding of each, whose
  memory nobody reaches any more.
\<close>

definition Shutdown :: "unit saasop" where
  "Shutdown = modifyMemory (\<lambda>m. m\<lparr>saasApplications := Map.empty, saasCanceled := True\<rparr>)"

text \<open>The configured applications in order: each is valid and named once, then each is opened.\<close>

fun checkConfigured :: "Saas \<Rightarrow> string list \<Rightarrow> string list \<Rightarrow> goerr option" where
  "checkConfigured opts seen [] = None"
| "checkConfigured opts seen (runtime # rest) =
     (case saasValidApplication opts runtime of Some e \<Rightarrow> Some e | None \<Rightarrow>
      let key = trimSpace runtime in
      if key \<in> set seen
      then Some (Errorf (''Scheduler SaaS application '' @ quoted key @ '' is configured more than once''))
      else checkConfigured opts (key # seen) rest)"

definition NewDatabaseService :: "Saas \<Rightarrow> unit saasop" where
  "NewDatabaseService opts =
     (if \<not> saasDatabase opts \<or> isBlank (saasDriver opts) \<or> isBlank (saasWorkerID opts) \<or> saasDownstreams opts = None
      then fail (Errorf ''Scheduler SaaS database service is incomplete'') else
      case Renderer (saasOrm opts) (saasDriver opts) (saasSchema opts) of
        Inl e \<Rightarrow> fail (Wrapf ''Scheduler SaaS database dialect: '' e) | Inr _ \<Rightarrow>
      case checkConfigured opts [] (saasConfigured opts) of Some e \<Rightarrow> fail e | None \<Rightarrow>
      foldE (\<lambda>runtime _. attempt (application opts runtime) (\<lambda>q. case q of
        Inl e \<Rightarrow> bindE Shutdown (\<lambda>_. fail (Wrapf (''restore Scheduler SaaS application '' @ quoted runtime @ '': '') e))
      | Inr _ \<Rightarrow> ret ())) (saasConfigured opts) ())"

section \<open>Operations\<close>

definition notReady :: goerr where
  "notReady = Errorf ''Scheduler SaaS application requires a current Runtime definition snapshot''"

text \<open>Operations that need no published definitions, and those that do.\<close>

definition withApplication :: "Saas \<Rightarrow> string \<Rightarrow> (Application \<Rightarrow> 'a svcop) \<Rightarrow> 'a saasop" where
  "withApplication opts runtime f = bindE (application opts runtime) (\<lambda>key. onApplication key f)"

definition withReady :: "Saas \<Rightarrow> string \<Rightarrow> (Application \<Rightarrow> 'a svcop) \<Rightarrow> 'a saasop" where
  "withReady opts runtime f =
     withApplication opts runtime (\<lambda>a. if \<not> appReady a then fail notReady else f a)"

definition saasDescriptor :: "Saas \<Rightarrow> string \<Rightarrow> Descriptor saasop" where
  "saasDescriptor opts runtime =
     bindE (application opts runtime) (\<lambda>_.
     ret \<lparr>descProtocolVersion = protocolVersionV1 (saasNames opts), descMode = DeploymentModeSaaS,
          descCapabilities = [''configuration_reconcile'', ''schedule_preview'', ''durable_trigger'', ''manual_trigger'', ''run_evidence'',
            capPublicationFencing (saasNames opts), capPlanRecords (saasNames opts), capPlanDeletionRead (saasNames opts)]\<rparr>)"

definition saasCreateScheduledPlan :: "Saas \<Rightarrow> string \<Rightarrow> ScheduledPlanCreate \<Rightarrow> ScheduledPlanReceipt saasop" where
  "saasCreateScheduledPlan opts runtime inp =
     bindE (application opts runtime) (\<lambda>key.
     bindE (onApplication key (\<lambda>a. onTables (CreateScheduledPlan (saasSdk opts) (saasCanonicalObject opts) (servicePlans (appBinding a)) inp))) (\<lambda>receipt.
     bindE (markReady opts key) (\<lambda>_. ret receipt)))"

definition saasGetScheduledPlan :: "Saas \<Rightarrow> string \<Rightarrow> ScheduledPlanOwner \<Rightarrow> string \<Rightarrow> ScheduledPlan saasop" where
  "saasGetScheduledPlan opts runtime owner ident =
     withApplication opts runtime (\<lambda>a. onTables (GetScheduledPlan (saasSdk opts) (servicePlans (appBinding a)) owner ident))"

definition saasListScheduledPlans :: "Saas \<Rightarrow> string \<Rightarrow> ScheduledPlanList \<Rightarrow> ScheduledPlanPage saasop" where
  "saasListScheduledPlans opts runtime inp =
     withApplication opts runtime (\<lambda>a. onTables (ListScheduledPlans (saasSdk opts) (servicePlans (appBinding a)) inp))"

definition saasUpdateScheduledPlan :: "Saas \<Rightarrow> string \<Rightarrow> ScheduledPlanUpdate \<Rightarrow> ScheduledPlanReceipt saasop" where
  "saasUpdateScheduledPlan opts runtime inp =
     withApplication opts runtime (\<lambda>a. onTables (UpdateScheduledPlan (saasSdk opts) (saasCanonicalObject opts) (servicePlans (appBinding a)) inp))"

definition saasPauseScheduledPlan :: "Saas \<Rightarrow> string \<Rightarrow> ScheduledPlanStatusChange \<Rightarrow> ScheduledPlanReceipt saasop" where
  "saasPauseScheduledPlan opts runtime inp =
     withApplication opts runtime (\<lambda>a. onTables (PauseScheduledPlan (saasSdk opts) (servicePlans (appBinding a)) inp))"

definition saasResumeScheduledPlan :: "Saas \<Rightarrow> string \<Rightarrow> ScheduledPlanStatusChange \<Rightarrow> ScheduledPlanReceipt saasop" where
  "saasResumeScheduledPlan opts runtime inp =
     withApplication opts runtime (\<lambda>a. onTables (ResumeScheduledPlan (saasSdk opts) (servicePlans (appBinding a)) inp))"

definition saasDeleteScheduledPlan :: "Saas \<Rightarrow> string \<Rightarrow> ScheduledPlanStatusChange \<Rightarrow> ScheduledPlanDeleteReceipt saasop" where
  "saasDeleteScheduledPlan opts runtime inp =
     withApplication opts runtime (\<lambda>a. onTables (DeleteScheduledPlan (saasSdk opts) (servicePlans (appBinding a)) inp))"

text \<open>The deletion reader never opens an application.\<close>

definition saasReadScheduledPlanDeletion ::
  "Saas \<Rightarrow> string \<Rightarrow> ScheduledPlanOwner \<Rightarrow> string \<Rightarrow> ScheduledPlanDeleteReceipt saasop" where
  "saasReadScheduledPlanDeletion opts runtime owner ident =
     bindE (onTables envCall) (\<lambda>_.
     case saasValidApplication opts runtime of Some e \<Rightarrow> fail e | None \<Rightarrow>
     let key = trimSpace runtime in
     if saasConfigured opts \<noteq> [] \<and> key \<notin> set (map trimSpace (saasConfigured opts))
     then fail (Errorf ''Scheduler application is unavailable for receipt reading'')
     else onApplication key (\<lambda>a. onTables (ReadScheduledPlanDeletion (saasSdk opts) (servicePlans (appBinding a)) owner ident)))"

text \<open>
  The publication repository of a binding opened by \<open>openBinding\<close> in SaaS mode is the definition store of its Runtime.
\<close>

definition saasDefinitionStore :: "Application \<Rightarrow> DefinitionStore" where
  "saasDefinitionStore a =
     \<lparr>dsReady = True, dsSourceID = trimSpace (serviceRuntimeID (appBinding a)), dsMode = serviceMode (appBinding a)\<rparr>"

definition saasBeginDefinitionPublisherSession :: "Saas \<Rightarrow> string \<Rightarrow> DefinitionPublisherSession saasop" where
  "saasBeginDefinitionPublisherSession opts runtime =
     withApplication opts runtime (\<lambda>a. onTables (BeginDefinitionPublisherSession (saasSdk opts) (saasDefinitionStore a)))"

definition saasReconcile :: "Saas \<Rightarrow> string \<Rightarrow> HostSnapshot \<Rightarrow> unit saasop" where
  "saasReconcile opts runtime snapshot =
     bindE (application opts runtime) (\<lambda>key.
     bindE (onApplication key (\<lambda>a. ReconcileSnapshot (saasSdk opts) (appBinding a) snapshot)) (\<lambda>_.
     markReady opts key))"

definition saasPreview :: "Saas \<Rightarrow> string \<Rightarrow> Schedule \<Rightarrow> time \<Rightarrow> int \<Rightarrow> time list saasop" where
  "saasPreview opts runtime value after count =
     withApplication opts runtime (\<lambda>a. onTables (Preview (servicePlatform (appBinding a)) value after count))"

definition saasTick :: "Saas \<Rightarrow> string \<Rightarrow> time \<Rightarrow> int \<Rightarrow> (int \<times> goerr option) saasop" where
  "saasTick opts runtime now limit =
     withReady opts runtime (\<lambda>a. onTables (Tick (saasSdk opts) (appBinding a) (appMemory a) now limit))"

definition saasTriggerNow :: "Saas \<Rightarrow> string \<Rightarrow> string \<Rightarrow> string \<Rightarrow> (Run option \<times> goerr option) saasop" where
  "saasTriggerNow opts runtime key reason =
     withReady opts runtime (\<lambda>a. onTables (TriggerNow (saasSdk opts) (appBinding a) (appMemory a) key reason))"

definition saasReschedule :: "Saas \<Rightarrow> string \<Rightarrow> string \<Rightarrow> time \<Rightarrow> unit saasop" where
  "saasReschedule opts runtime key nxt =
     withReady opts runtime (\<lambda>a. onTables (serviceReschedule (appMemory a) key nxt))"

definition saasRuns :: "Saas \<Rightarrow> string \<Rightarrow> int \<Rightarrow> Run list saasop" where
  "saasRuns opts runtime limit = withApplication opts runtime (\<lambda>a. onTables (Runs (saasSdk opts) (appMemory a) limit))"

definition saasRun :: "Saas \<Rightarrow> string \<Rightarrow> string \<Rightarrow> Run saasop" where
  "saasRun opts runtime ident = withApplication opts runtime (\<lambda>a. onTables (RunOf (saasSdk opts) (appMemory a) ident))"

definition saasRetryRun :: "Saas \<Rightarrow> string \<Rightarrow> string \<Rightarrow> string \<Rightarrow> Run saasop" where
  "saasRetryRun opts runtime ident reason =
     withReady opts runtime (\<lambda>a. onTables (RetryRun (saasSdk opts) (appMemory a) ident reason))"

definition saasCancelRun :: "Saas \<Rightarrow> string \<Rightarrow> string \<Rightarrow> string \<Rightarrow> Run saasop" where
  "saasCancelRun opts runtime ident reason =
     withReady opts runtime (\<lambda>a. onTables (CancelRun (saasSdk opts) (appMemory a) ident reason))"

definition saasDeadLetters :: "Saas \<Rightarrow> string \<Rightarrow> int \<Rightarrow> DeadLetter list saasop" where
  "saasDeadLetters opts runtime limit = withApplication opts runtime (\<lambda>a. onTables (serviceDeadLetters (appMemory a) limit))"

definition saasDeadLetter :: "Saas \<Rightarrow> string \<Rightarrow> string \<Rightarrow> DeadLetter saasop" where
  "saasDeadLetter opts runtime ident = withApplication opts runtime (\<lambda>a. onTables (serviceDeadLetter (appMemory a) ident))"

definition saasResolveDeadLetter :: "Saas \<Rightarrow> string \<Rightarrow> string \<Rightarrow> string \<Rightarrow> DeadLetter saasop" where
  "saasResolveDeadLetter opts runtime ident reason =
     withReady opts runtime (\<lambda>a. onTables (serviceResolveDeadLetter (saasSdk opts) (appMemory a) ident reason))"

definition saasRequeueDeadLetter :: "Saas \<Rightarrow> string \<Rightarrow> string \<Rightarrow> string \<Rightarrow> Run saasop" where
  "saasRequeueDeadLetter opts runtime ident reason =
     withReady opts runtime (\<lambda>a. onTables (serviceRequeueDeadLetter (saasSdk opts) (appMemory a) ident reason))"

end
