(* ===== verification/SaaS_Server.thy ===== *)
theory SaaS_Server
  imports SaaS_Service
begin

text \<open>
  The private HTTP server of the SaaS deployment, \<^verbatim>\<open>transport/http/saas/server.go\<close>: bearer credentials bound
  to one application each, the routes, the decoding of bodies, and the answers to errors.

  A request is first admitted (\<open>admit\<close>): the credential decides the application, and the path may only name
  the same one. It is then routed to a call of the service (\<open>route\<close>), which is performed by the SaaS service
  (\<open>invoke\<close>). The decoding of bodies and the encoding of results, by \<^verbatim>\<open>encoding/json\<close> into and from SDK
  structs, are the record \<open>Codec\<close>; a decoder returns \<open>None\<close> when \<^verbatim>\<open>Decode\<close> reports an error, which includes a
  body over the limit. The handler of the capability documents is an argument.
\<close>

section \<open>Requests\<close>

record ServerRequest =
  inMethod :: string
  inPath :: string
  inAuthorization :: string
  inQuery :: "string \<Rightarrow> string"
  inBody :: string

record ServerResponse =
  outStatus :: int
  outBody :: string

definition httpError :: "string \<Rightarrow> int \<Rightarrow> ServerResponse" where
  "httpError text status = \<lparr>outStatus = status, outBody = text @ [CHR 0x0A]\<rparr>"

definition httpNotFound :: ServerResponse where
  "httpNotFound = httpError ''404 page not found'' 404"

definition noContent :: ServerResponse where
  "noContent = \<lparr>outStatus = 204, outBody = []\<rparr>"

text \<open>\<^verbatim>\<open>strings.Trim(path, "/")\<close> and \<^verbatim>\<open>strings.Split(path, "/")\<close>.\<close>

definition trimSlashes :: "string \<Rightarrow> string" where
  "trimSlashes s = rev (dropWhile (\<lambda>c. c = CHR ''/'') (rev (dropWhile (\<lambda>c. c = CHR ''/'') s)))"

fun splitSlash :: "string \<Rightarrow> string list" where
  "splitSlash [] = [[]]"
| "splitSlash (c # s) =
     (if c = CHR ''/'' then [] # splitSlash s
      else case splitSlash s of [] \<Rightarrow> [[c]] | p # ps \<Rightarrow> (c # p) # ps)"

text \<open>
  \<^verbatim>\<open>strconv.Atoi\<close>: the number with whether it was accepted; a number out of range gives the nearest
  bound with an error, anything else 0 with an error.
\<close>

definition atoi :: "string \<Rightarrow> int \<times> bool" where
  "atoi s =
     (let neg = (take 1 s = ''-''); ds = (if take 1 s = ''-'' \<or> take 1 s = ''+'' then drop 1 s else s);
          v = (if neg then - int (digitsVal 0 ds) else int (digitsVal 0 ds))
      in if ds = [] \<or> \<not> list_all isDigit ds then (0, False)
         else if v < - (2 ^ 63) then (- (2 ^ 63), False)
         else if 2 ^ 63 \<le> v then (2 ^ 63 - 1, False) else (v, True))"

section \<open>Credentials\<close>

record Server =
  serverCredentials :: "(string \<times> string) list"
  serverCapabilityPrefix :: string
  serverCapability :: "ServerRequest \<Rightarrow> ServerResponse"

text \<open>The loop over the tokens, in the order the Go map is visited; \<open>owners\<close> maps digests to applications.\<close>

fun bindCredentials ::
  "(string \<Rightarrow> goerr option) \<Rightarrow> (string \<rightharpoonup> string) \<Rightarrow> (string \<times> string) list \<Rightarrow> goerr + (string \<times> string) list" where
  "bindCredentials validApplication owners [] = Inr []"
| "bindCredentials validApplication owners ((runtime, rawToken) # rest) =
     (let appl = trimSpace runtime in
      case validApplication appl of
        Some e \<Rightarrow> Inl (Wrapf ''Scheduler SaaS application credential has invalid Runtime identity: '' e)
      | None \<Rightarrow>
          let token = trimSpace rawToken in
          if token = [] then Inl (Errorf (''Scheduler SaaS application credential for '' @ quoted appl @ '' is empty'')) else
          let digest = sha256 token in
          case (case owners digest of Some owner \<Rightarrow> if owner \<noteq> [] \<and> owner \<noteq> appl then Some owner else None | None \<Rightarrow> None) of
            Some owner \<Rightarrow> Inl (Errorf (''Scheduler SaaS bearer credential cannot be shared by Runtime '' @ quoted owner @
                '' and '' @ quoted appl))
          | None \<Rightarrow>
              (case bindCredentials validApplication (owners(digest \<mapsto> appl)) rest of
                 Inl e \<Rightarrow> Inl e | Inr cs \<Rightarrow> Inr ((appl, digest) # cs)))"

definition NewServer ::
  "(string \<Rightarrow> goerr option) \<Rightarrow> bool \<Rightarrow> (string \<times> string) list \<Rightarrow> goerr + string \<times> (ServerRequest \<Rightarrow> ServerResponse) \<Rightarrow> goerr + Server" where
  "NewServer validApplication hasService tokens capability =
     (if \<not> hasService then Inl (Errorf ''Scheduler service is required'') else
      case bindCredentials validApplication Map.empty tokens of Inl e \<Rightarrow> Inl e | Inr credentials \<Rightarrow>
      if credentials = [] then Inl (Errorf ''Scheduler SaaS application credentials are required'') else
      case capability of Inl e \<Rightarrow> Inl e | Inr (prefix, handler) \<Rightarrow>
      Inr \<lparr>serverCredentials = credentials, serverCapabilityPrefix = prefix, serverCapability = handler\<rparr>)"

text \<open>\<^verbatim>\<open>authenticate\<close>: every credential is compared, and the last that matches is taken.\<close>

definition bearerPrefix :: string where
  "bearerPrefix = ''Bearer ''"

definition authenticate :: "Server \<Rightarrow> ServerRequest \<Rightarrow> string option" where
  "authenticate s request =
     (let authorization = inAuthorization request in
      if \<not> startsWith bearerPrefix authorization then None else
      let presented = drop (length bearerPrefix) authorization in
      if presented = [] then None else
      let presentedDigest = sha256 presented in
      fold (\<lambda>(appl, digest) found. if digest = presentedDigest then Some appl else found) (serverCredentials s) None)"

text \<open>Everything before the switch over the resource: an answer, or the application and the path.\<close>

definition admit :: "(string \<Rightarrow> goerr option) \<Rightarrow> Server \<Rightarrow> ServerRequest \<Rightarrow> ServerResponse + string \<times> string list" where
  "admit validApplication s request =
     (let path = inPath request in
      if path = ''/scheduler'' \<or> startsWith ''/scheduler/'' path then Inl httpNotFound else
      case authenticate s request of None \<Rightarrow> Inl (httpError ''unauthorized'' 401) | Some authenticated \<Rightarrow>
      if startsWith (serverCapabilityPrefix s) path then Inl (serverCapability s request) else
      let parts = splitSlash (trimSlashes path) in
      if length parts < 4 \<or> length parts > 6 \<or> parts ! 0 \<noteq> ''v1'' \<or> parts ! 1 \<noteq> ''applications''
      then Inl httpNotFound else
      let requested = trimSpace (parts ! 2) in
      if validApplication requested \<noteq> None then Inl (httpError ''invalid application'' 400)
      else if requested \<noteq> authenticated then Inl (httpError ''forbidden'' 403)
      else Inr (authenticated, parts))"

section \<open>Routes\<close>

datatype ServiceCall =
    CallDescriptor
  | CallReconcile HostSnapshot
  | CallReschedule string time
  | CallCreatePlan ScheduledPlanCreate
  | CallListPlans ScheduledPlanList
  | CallReadDeletion ScheduledPlanOwner string
  | CallGetPlan ScheduledPlanOwner string
  | CallUpdatePlan ScheduledPlanUpdate
  | CallDeletePlan ScheduledPlanStatusChange
  | CallPausePlan ScheduledPlanStatusChange
  | CallResumePlan ScheduledPlanStatusChange
  | CallBeginSession
  | CallPreview Schedule time int
  | CallTick time int
  | CallTriggerNow string string
  | CallRuns int
  | CallRun string
  | CallRetryRun string string
  | CallCancelRun string string
  | CallDeadLetters int
  | CallDeadLetter string
  | CallResolveDeadLetter string string
  | CallRequeueDeadLetter string string

datatype ServiceValue =
    ValueDescriptor Descriptor
  | ValuePlanReceipt ScheduledPlanReceipt
  | ValuePlanPage ScheduledPlanPage
  | ValueDeleteReceipt ScheduledPlanDeleteReceipt
  | ValuePlan ScheduledPlan
  | ValueSession DefinitionPublisherSession
  | ValueNext "time list"
  | ValueProcessed int
  | ValueRun "Run option"
  | ValueRuns "Run list"
  | ValueDeadLetter DeadLetter
  | ValueDeadLetters "DeadLetter list"

record Codec =
  decodeSnapshot :: "string \<Rightarrow> HostSnapshot option"
  decodeReschedule :: "string \<Rightarrow> (time \<times> string) option"
  decodePlanCreate :: "string \<Rightarrow> ScheduledPlanCreate option"
  decodePlanUpdate :: "string \<Rightarrow> ScheduledPlanUpdate option"
  decodeStatusChange :: "string \<Rightarrow> ScheduledPlanStatusChange option"
  decodePreview :: "string \<Rightarrow> (Schedule \<times> time \<times> int) option"
  decodeTick :: "string \<Rightarrow> (time \<times> int) option"
  decodeTrigger :: "string \<Rightarrow> (string \<times> string) option"
  decodeReason :: "string \<Rightarrow> string option"
  encodeValue :: "ServiceValue \<Rightarrow> string"

text \<open>What the switch comes to: an answer, an error, a call, or neither (\<^verbatim>\<open>value == nil\<close>).\<close>

datatype routed = Answered ServerResponse | Failed goerr | Called ServiceCall | Unmatched

definition invalidBody :: ServerResponse where
  "invalidBody = httpError ''invalid Scheduler request'' 400"

definition decoded :: "'a option \<Rightarrow> ('a \<Rightarrow> routed) \<Rightarrow> routed" where
  "decoded r f = (case r of None \<Rightarrow> Answered invalidBody | Some x \<Rightarrow> f x)"

definition queryOwner :: "ServerRequest \<Rightarrow> ScheduledPlanOwner" where
  "queryOwner request = \<lparr>ownerWorkspaceID = inQuery request ''workspace_id'', ownerUserID = inQuery request ''user_id'',
     ownerProductKey = inQuery request ''product_key''\<rparr>"

definition planInvalid :: routed where
  "planInvalid = Failed (Sentinel ErrScheduledPlanInvalid)"

definition routeDefinitions :: "Codec \<Rightarrow> string list \<Rightarrow> ServerRequest \<Rightarrow> routed" where
  "routeDefinitions C parts request =
     (let verb = inMethod request; body = inBody request in
      if length parts = 4 \<and> verb = ''PUT'' then decoded (decodeSnapshot C body) (\<lambda>snapshot. Called (CallReconcile snapshot))
      else if length parts = 6 \<and> parts ! 5 = ''reschedule'' \<and> verb = ''POST''
      then decoded (decodeReschedule C body) (\<lambda>(nextRunAt, _). Called (CallReschedule (parts ! 4) nextRunAt))
      else Unmatched)"

definition routeListPlans :: "ServerRequest \<Rightarrow> routed" where
  "routeListPlans request =
     (let raw = inQuery request ''limit''; (limit, ok) = atoi raw in
      if raw \<noteq> [] \<and> \<not> ok then planInvalid
      else Called (CallListPlans \<lparr>listOwner = queryOwner request, listStatus = inQuery request ''status'',
             listCursor = inQuery request ''cursor'', listLimit = limit\<rparr>))"

definition routePlans :: "Codec \<Rightarrow> string list \<Rightarrow> ServerRequest \<Rightarrow> routed" where
  "routePlans C parts request =
     (let verb = inMethod request; body = inBody request; n = length parts in
      if n = 4 \<and> verb = ''POST'' then decoded (decodePlanCreate C body) (\<lambda>inp. Called (CallCreatePlan inp))
      else if n = 4 \<and> verb = ''GET'' then routeListPlans request
      else if n = 6 \<and> parts ! 5 = ''deletion-receipt'' \<and> verb = ''GET''
      then Called (CallReadDeletion (queryOwner request) (parts ! 4))
      else if n = 5 \<and> verb = ''GET'' then Called (CallGetPlan (queryOwner request) (parts ! 4))
      else if n = 5 \<and> verb = ''PUT'' then
        decoded (decodePlanUpdate C body) (\<lambda>inp. if updatePlanID inp \<noteq> parts ! 4 then planInvalid else Called (CallUpdatePlan inp))
      else if n = 5 \<and> verb = ''DELETE'' then
        decoded (decodeStatusChange C body) (\<lambda>inp. if changePlanID inp \<noteq> parts ! 4 then planInvalid else Called (CallDeletePlan inp))
      else if n = 6 \<and> verb = ''POST'' then
        decoded (decodeStatusChange C body) (\<lambda>inp.
          if changePlanID inp \<noteq> parts ! 4 then planInvalid
          else if parts ! 5 = ''pause'' then Called (CallPausePlan inp)
          else if parts ! 5 = ''resume'' then Called (CallResumePlan inp)
          else Unmatched)
      else Unmatched)"

text \<open>The two resources that list, show and act on items.\<close>

definition routeItems ::
  "Codec \<Rightarrow> (int \<Rightarrow> ServiceCall) \<Rightarrow> (string \<Rightarrow> ServiceCall) \<Rightarrow> (string \<times> (string \<Rightarrow> string \<Rightarrow> ServiceCall)) list \<Rightarrow>
   string list \<Rightarrow> ServerRequest \<Rightarrow> routed" where
  "routeItems C list show acts parts request =
     (let verb = inMethod request; n = length parts in
      if n = 4 \<and> verb = ''GET'' then Called (list (fst (atoi (inQuery request ''limit''))))
      else if n < 5 then Unmatched
      else if n = 5 \<and> verb = ''GET'' then Called (show (parts ! 4))
      else if n = 6 \<and> verb = ''POST'' then
        decoded (decodeReason C (inBody request)) (\<lambda>reason.
          case map_of acts (parts ! 5) of None \<Rightarrow> Unmatched | Some act \<Rightarrow> Called (act (parts ! 4) reason))
      else Unmatched)"

definition route :: "Codec \<Rightarrow> string list \<Rightarrow> ServerRequest \<Rightarrow> routed" where
  "route C parts request =
     (let resource = parts ! 3; verb = inMethod request; body = inBody request in
      if resource = ''descriptor'' then (if verb = ''GET'' then Called CallDescriptor else Unmatched)
      else if resource = ''definitions'' then routeDefinitions C parts request
      else if resource = ''plans'' then routePlans C parts request
      else if resource = ''definition-publication-sessions'' then
        (if length parts \<noteq> 4 \<or> verb \<noteq> ''POST'' then Unmatched else Called CallBeginSession)
      else if resource = ''preview'' then
        (if verb \<noteq> ''POST'' then Unmatched else
         decoded (decodePreview C body) (\<lambda>(rule, after, count). Called (CallPreview rule after count)))
      else if resource = ''ticks'' then
        (if verb \<noteq> ''POST'' then Unmatched else decoded (decodeTick C body) (\<lambda>(now, limit). Called (CallTick now limit)))
      else if resource = ''triggers'' then
        (if verb \<noteq> ''POST'' then Unmatched else
         decoded (decodeTrigger C body) (\<lambda>(key, reason). Called (CallTriggerNow key reason)))
      else if resource = ''runs'' then
        routeItems C CallRuns CallRun [(''retry'', CallRetryRun), (''cancel'', CallCancelRun)] parts request
      else if resource = ''dead-letters'' then
        routeItems C CallDeadLetters CallDeadLetter
          [(''resolve'', CallResolveDeadLetter), (''requeue'', CallRequeueDeadLetter)] parts request
      else if resource = ''binding'' then (if verb = ''DELETE'' then Answered noContent else Unmatched)
      else Answered httpNotFound)"

section \<open>Performing a call\<close>

definition valued :: "('a \<Rightarrow> ServiceValue) \<Rightarrow> 'a saasop \<Rightarrow> ServiceValue option saasop" where
  "valued f m = bindE m (\<lambda>x. ret (Some (f x)))"

definition invoke :: "Saas \<Rightarrow> string \<Rightarrow> ServiceCall \<Rightarrow> ServiceValue option saasop" where
  "invoke opts appl call = (case call of
       CallDescriptor \<Rightarrow> valued ValueDescriptor (saasDescriptor opts appl)
     | CallReconcile snapshot \<Rightarrow> bindE (saasReconcile opts appl snapshot) (\<lambda>_. ret None)
     | CallReschedule key nextRunAt \<Rightarrow> bindE (saasReschedule opts appl key nextRunAt) (\<lambda>_. ret None)
     | CallCreatePlan inp \<Rightarrow> valued ValuePlanReceipt (saasCreateScheduledPlan opts appl inp)
     | CallListPlans inp \<Rightarrow> valued ValuePlanPage (saasListScheduledPlans opts appl inp)
     | CallReadDeletion owner ident \<Rightarrow> valued ValueDeleteReceipt (saasReadScheduledPlanDeletion opts appl owner ident)
     | CallGetPlan owner ident \<Rightarrow> valued ValuePlan (saasGetScheduledPlan opts appl owner ident)
     | CallUpdatePlan inp \<Rightarrow> valued ValuePlanReceipt (saasUpdateScheduledPlan opts appl inp)
     | CallDeletePlan inp \<Rightarrow> valued ValueDeleteReceipt (saasDeleteScheduledPlan opts appl inp)
     | CallPausePlan inp \<Rightarrow> valued ValuePlanReceipt (saasPauseScheduledPlan opts appl inp)
     | CallResumePlan inp \<Rightarrow> valued ValuePlanReceipt (saasResumeScheduledPlan opts appl inp)
     | CallBeginSession \<Rightarrow> valued ValueSession (saasBeginDefinitionPublisherSession opts appl)
     | CallPreview rule after count \<Rightarrow> valued ValueNext (saasPreview opts appl rule after count)
     | CallTick now limit \<Rightarrow>
         bindE (saasTick opts appl now limit) (\<lambda>(processed, e). case e of
           Some x \<Rightarrow> fail x | None \<Rightarrow> ret (Some (ValueProcessed processed)))
     | CallTriggerNow key reason \<Rightarrow>
         bindE (saasTriggerNow opts appl key reason) (\<lambda>(run, e). case e of
           Some x \<Rightarrow> fail x | None \<Rightarrow> ret (Some (ValueRun run)))
     | CallRuns limit \<Rightarrow> valued ValueRuns (saasRuns opts appl limit)
     | CallRun ident \<Rightarrow> valued (\<lambda>r. ValueRun (Some r)) (saasRun opts appl ident)
     | CallRetryRun ident reason \<Rightarrow> valued (\<lambda>r. ValueRun (Some r)) (saasRetryRun opts appl ident reason)
     | CallCancelRun ident reason \<Rightarrow> valued (\<lambda>r. ValueRun (Some r)) (saasCancelRun opts appl ident reason)
     | CallDeadLetters limit \<Rightarrow> valued ValueDeadLetters (saasDeadLetters opts appl limit)
     | CallDeadLetter ident \<Rightarrow> valued ValueDeadLetter (saasDeadLetter opts appl ident)
     | CallResolveDeadLetter ident reason \<Rightarrow> valued ValueDeadLetter (saasResolveDeadLetter opts appl ident reason)
     | CallRequeueDeadLetter ident reason \<Rightarrow> valued (\<lambda>r. ValueRun (Some r)) (saasRequeueDeadLetter opts appl ident reason))"

text \<open>The answer to an error of the service.\<close>

definition errorResponse :: "goerr \<Rightarrow> ServerResponse" where
  "errorResponse e =
     (if errorsIs e ErrScheduledPlanDeletionReadUnsupported then httpError ''Scheduler plan deletion reading is unavailable'' 501
      else if errorsIs e ErrTriggerBacklogFull then httpError ''Scheduler trigger backlog is full'' 429
      else if errorsIs e ErrScheduledPlanInvalid then httpError ''Scheduler plan is invalid'' 400
      else if errorsIs e ErrScheduledPlanConflict then httpError ''Scheduler plan idempotency conflict'' 409
      else if errorsIs e ErrScheduledPlanNotFound then httpError ''Scheduler plan was not found'' 404
      else if errorsIs e ErrDefinitionPublicationRequired then httpError ''Scheduler definition publisher session required'' 400
      else if errorsIs e ErrDefinitionPublicationSessionMismatch \<or> errorsIs e ErrDefinitionSnapshotStale \<or>
        errorsIs e ErrDefinitionSnapshotConflict then httpError ''Scheduler definition publication rejected'' 409
      else httpError ''Scheduler request failed'' 502)"

definition ServeHTTP :: "Saas \<Rightarrow> Codec \<Rightarrow> Server \<Rightarrow> ServerRequest \<Rightarrow> ServerResponse saasop" where
  "ServeHTTP opts C s request =
     (case admit (saasValidApplication opts) s request of
        Inl response \<Rightarrow> ret response
      | Inr (appl, parts) \<Rightarrow>
          (case route C parts request of
             Answered response \<Rightarrow> ret response
           | Failed e \<Rightarrow> ret (errorResponse e)
           | Unmatched \<Rightarrow> ret (httpError ''method not allowed'' 405)
           | Called call \<Rightarrow>
               attempt (invoke opts appl call) (\<lambda>q. case q of
                 Inl e \<Rightarrow> ret (errorResponse e)
               | Inr None \<Rightarrow> ret noContent
               | Inr (Some v) \<Rightarrow> ret \<lparr>outStatus = 200, outBody = encodeValue C v @ [CHR 0x0A]\<rparr>)))"

end
