(* ===== verification/SaaS_Credentials.thy ===== *)
theory SaaS_Credentials
  imports SaaS_Server
begin

text \<open>
  Credentials: a token admits requests of one application only, whatever order the tokens were read in.
\<close>

section \<open>The table of credentials\<close>

lemma bindCredentials_Inr:
  "bindCredentials V owners tokens = Inr cs \<Longrightarrow> (\<forall>d x. owners d = Some x \<longrightarrow> x \<noteq> []) \<Longrightarrow>
    (\<forall>r. V r = None \<longrightarrow> r \<noteq> []) \<Longrightarrow>
   (\<forall>runtime token. (runtime, token) \<in> set tokens \<longrightarrow> (trimSpace runtime, sha256 (trimSpace token)) \<in> set cs) \<and>
   (\<forall>a d. (a, d) \<in> set cs \<longrightarrow> V a = None \<and> (\<forall>x. owners d = Some x \<longrightarrow> x = a)) \<and>
   (\<forall>a b d. (a, d) \<in> set cs \<longrightarrow> (b, d) \<in> set cs \<longrightarrow> a = b) \<and>
   (\<forall>a d. (a, d) \<in> set cs \<longrightarrow> (\<exists>runtime token. (runtime, token) \<in> set tokens \<and> a = trimSpace runtime \<and>
      d = sha256 (trimSpace token)))"
proof (induction V owners tokens arbitrary: cs rule: bindCredentials.induct)
  case (1 V owners)
  then show ?case by simp
next
  case (2 V owners runtime rawToken rest)
  let ?a = "trimSpace runtime" and ?d = "sha256 (trimSpace rawToken)"
  have v: "V ?a = None" and t: "trimSpace rawToken \<noteq> []"
    and o: "owners ?d = None \<or> owners ?d = Some ?a \<or> owners ?d = Some []"
    using 2(2) by (auto simp: Let_def split: option.splits if_splits)
  have o': "\<forall>x. owners ?d = Some x \<longrightarrow> x = ?a" using o 2(3) by auto
  obtain cs' where cs': "bindCredentials V (owners(?d \<mapsto> ?a)) rest = Inr cs'" "cs = (?a, ?d) # cs'"
    using 2(2) v t o' by (auto simp: Let_def split: option.splits if_splits sum.splits)
  have "?a \<noteq> []" using v 2(4) by blast
  then have own: "\<forall>d x. (owners(?d \<mapsto> ?a)) d = Some x \<longrightarrow> x \<noteq> []" using 2(3) by auto
  have sel: "(case owners ?d of None \<Rightarrow> None | Some owner \<Rightarrow> if owner \<noteq> [] \<and> owner \<noteq> ?a then Some owner else None) = None"
    using o' by (auto split: option.split)
  note IH = 2(1) [OF refl v refl _ refl sel cs'(1) own 2(4)]
  then have IH': "(\<forall>runtime token. (runtime, token) \<in> set rest \<longrightarrow> (trimSpace runtime, sha256 (trimSpace token)) \<in> set cs') \<and>
     (\<forall>a d. (a, d) \<in> set cs' \<longrightarrow> V a = None \<and> (\<forall>x. (owners(?d \<mapsto> ?a)) d = Some x \<longrightarrow> x = a)) \<and>
     (\<forall>a b d. (a, d) \<in> set cs' \<longrightarrow> (b, d) \<in> set cs' \<longrightarrow> a = b) \<and>
     (\<forall>a d. (a, d) \<in> set cs' \<longrightarrow> (\<exists>runtime token. (runtime, token) \<in> set rest \<and> a = trimSpace runtime \<and>
        d = sha256 (trimSpace token)))" using t by blast
  have keep: "x = a" if "(a, d) \<in> set cs'" "owners d = Some x" for a d x
    using IH' that o' by (cases "d = ?d") auto
  have same: "a = ?a" if "(a, ?d) \<in> set cs'" for a using IH' that by fastforce
  show ?case
    unfolding cs'(2)
  proof (intro conjI allI impI)
    fix a d assume "(a, d) \<in> set ((?a, ?d) # cs')"
    then show "V a = None" using IH' v by auto
  next
    fix a d x assume "(a, d) \<in> set ((?a, ?d) # cs')" "owners d = Some x"
    then show "x = a" using keep o' by auto
  next
    fix a b d assume "(a, d) \<in> set ((?a, ?d) # cs')" "(b, d) \<in> set ((?a, ?d) # cs')"
    then show "a = b" using IH' same by auto
  next
    fix a d assume "(a, d) \<in> set ((?a, ?d) # cs')"
    then show "\<exists>rt tok. (rt, tok) \<in> set ((runtime, rawToken) # rest) \<and> a = trimSpace rt \<and> d = sha256 (trimSpace tok)"
      by (metis IH' set_ConsD prod.inject list.set_intros)
  qed (use IH' in auto)
qed

lemma authenticate_Some:
  assumes "authenticate s request = Some a"
  obtains token where "inAuthorization request = bearerPrefix @ token" "token \<noteq> []"
    "(a, sha256 token) \<in> set (serverCredentials s)"
proof -
  have sel: "fold (\<lambda>(appl, digest) found. if digest = d then Some appl else found) cs x = Some a \<Longrightarrow>
      x = Some a \<or> (a, d) \<in> set cs" for d cs x
    by (induction cs arbitrary: x) (force split: if_splits)+
  define token where "token = drop (length bearerPrefix) (inAuthorization request)"
  have "startsWith bearerPrefix (inAuthorization request)" "token \<noteq> []"
    and f: "fold (\<lambda>(appl, digest) found. if digest = sha256 token then Some appl else found) (serverCredentials s) None = Some a"
    using assms by (auto simp: authenticate_def token_def Let_def split: if_splits)
  moreover from this have "inAuthorization request = bearerPrefix @ token"
    unfolding startsWith_def token_def by (metis append_take_drop_id)
  ultimately show thesis using that sel [OF f] by blast
qed

lemma admit_Inr:
  assumes "admit V s request = Inr (a, parts)"
  shows "authenticate s request = Some a" "trimSpace (parts ! 2) = a" "V a = None"
    "parts = splitSlash (trimSlashes (inPath request))" "\<not> startsWith ''/scheduler/'' (inPath request)"
  using assms by (auto simp: admit_def Let_def split: if_splits option.splits)

section \<open>Properties\<close>

text \<open>
  C13. The credential selects the application. A request that is admitted presented a token, and it is
  served as the one application whose configured token that is; the path names the same application, and
  the human surface below \<^verbatim>\<open>/scheduler\<close> is never served. The SDK accepts no empty Runtime identity.
\<close>

theorem credential_selects_application:
  assumes "NewServer V hasService tokens capability = Inr s" "admit V s request = Inr (appl, parts)"
    and "\<And>r. V r = None \<Longrightarrow> r \<noteq> []"
  shows "(\<exists>runtime token presented. (runtime, token) \<in> set tokens \<and> trimSpace runtime = appl \<and>
       inAuthorization request = bearerPrefix @ presented \<and> presented \<noteq> [] \<and>
       sha256 presented = sha256 (trimSpace token)) \<and>
    (\<forall>runtime token. (runtime, token) \<in> set tokens \<longrightarrow> inAuthorization request = bearerPrefix @ trimSpace token \<longrightarrow>
       trimSpace runtime = appl) \<and>
    trimSpace (splitSlash (trimSlashes (inPath request)) ! 2) = appl \<and>
    \<not> startsWith ''/scheduler/'' (inPath request)"
proof -
  have b: "bindCredentials V Map.empty tokens = Inr (serverCredentials s)"
    using assms(1) by (auto simp: NewServer_def split: if_splits sum.splits)
  have e: "\<forall>d x. (Map.empty :: string \<rightharpoonup> string) d = Some x \<longrightarrow> x \<noteq> []" by simp
  note c = bindCredentials_Inr [OF b e] and a = admit_Inr [OF assms(2)]
  obtain token where t: "inAuthorization request = bearerPrefix @ token" "(appl, sha256 token) \<in> set (serverCredentials s)"
    "token \<noteq> []"
    using authenticate_Some [OF a(1)] by blast
  obtain runtime raw where "(runtime, raw) \<in> set tokens" "appl = trimSpace runtime" "sha256 token = sha256 (trimSpace raw)"
    using c assms(3) t(2) by blast
  with t have "\<exists>runtime token presented. (runtime, token) \<in> set tokens \<and> trimSpace runtime = appl \<and>
       inAuthorization request = bearerPrefix @ presented \<and> presented \<noteq> [] \<and>
       sha256 presented = sha256 (trimSpace token)" by metis
  moreover  have "trimSpace runtime = appl"
    if "(runtime, raw) \<in> set tokens" "inAuthorization request = bearerPrefix @ trimSpace raw" for runtime raw
  proof -
    have "token = trimSpace raw" using that(2) t(1) by simp
    moreover have "(trimSpace runtime, sha256 (trimSpace raw)) \<in> set (serverCredentials s)"
      using c assms(3) that(1) by blast
    ultimately show ?thesis using c assms(3) t(2) by blast
  qed
  ultimately show ?thesis using a by blast
qed

theorem credential_selects_application_witness:
  "admit (\<lambda>r. if r = [] then Some (Errorf ''empty'') else None)
     \<lparr>serverCredentials = [(''rt'', sha256 ''secret'')], serverCapabilityPrefix = ''/capability'',
      serverCapability = (\<lambda>_. noContent)\<rparr>
     \<lparr>inMethod = ''GET'', inPath = ''/v1/applications/rt/runs'', inAuthorization = ''Bearer secret'', inQuery = (\<lambda>_. []),
      inBody = []\<rparr> = Inr (''rt'', [''v1'', ''applications'', ''rt'', ''runs'']) \<and>
   trimSpace (splitSlash (trimSlashes ''/v1/applications/rt/runs'') ! 2) = ''rt''"
proof -
  let ?V = "\<lambda>r. if r = [] then Some (Errorf ''empty'') else None"
  let ?s = "\<lparr>serverCredentials = [(''rt'', sha256 ''secret'')],
    serverCapabilityPrefix = ''/capability'', serverCapability = (\<lambda>_. noContent)\<rparr>"
  let ?r = "\<lparr>inMethod = ''GET'', inPath = ''/v1/applications/rt/runs'', inAuthorization = ''Bearer secret'',
    inQuery = (\<lambda>_. []), inBody = []\<rparr>"
  have t: "trimSpace ''rt'' = ''rt''" "trimSpace ''secret'' = ''secret''" by code_simp+
  have s: "NewServer ?V True [(''rt'', ''secret'')] (Inr (''/capability'', \<lambda>_. noContent)) = Inr ?s"
    by (simp add: NewServer_def Let_def t)
  have a: "admit ?V ?s ?r = Inr (''rt'', [''v1'', ''applications'', ''rt'', ''runs''])"
    by (simp add: admit_def authenticate_def startsWith_def bearerPrefix_def trimSlashes_def Let_def t)
  have v: "?V r = None \<Longrightarrow> r \<noteq> []" for r by auto
  from credential_selects_application [OF s a v] a show ?thesis by simp
qed

end
