(* ===== verification/Tenant_Steps.thy ===== *)
theory Tenant_Steps
  imports Service_Dispatch Plan_Steps Publication_Steps
begin

text \<open>
  One database holds the rows of many Runtimes. \<open>tenantOnly rt\<close> relates two databases that differ only in rows of
  the Runtime \<open>rt\<close>, and in no command receipt; every statement of a store that is bound to \<open>rt\<close>, and so every
  operation of the store and of the service over it, moves the database along this order, whichever calls fail.
\<close>

section \<open>The order\<close>

definition foreign :: "('r \<Rightarrow> string) \<Rightarrow> string \<Rightarrow> 'r list \<Rightarrow> 'r list" where
  "foreign owner rt rows = filter (\<lambda>r. owner r \<noteq> rt) rows"

definition tenantOnly :: "string \<Rightarrow> database \<Rightarrow> database \<Rightarrow> bool" where
  "tenantOnly rt d d' \<longleftrightarrow>
     foreign ds_runtime_id rt (definition_states d') = foreign ds_runtime_id rt (definition_states d) \<and>
     foreign r_runtime_id rt (runs d') = foreign r_runtime_id rt (runs d) \<and>
     foreign ev_runtime_id rt (run_events d') = foreign ev_runtime_id rt (run_events d) \<and>
     foreign dl_runtime_id rt (dead_letters d') = foreign dl_runtime_id rt (dead_letters d) \<and>
     foreign df_source_id rt (definitions d') = foreign df_source_id rt (definitions d) \<and>
     foreign sn_source_id rt (definition_snapshots d') = foreign sn_source_id rt (definition_snapshots d) \<and>
     foreign pb_source_id rt (definition_publications d') = foreign pb_source_id rt (definition_publications d) \<and>
     foreign pl_runtime_id rt (plans d') = foreign pl_runtime_id rt (plans d) \<and>
     foreign cg_runtime_id rt (capacity_guards d') = foreign cg_runtime_id rt (capacity_guards d) \<and>
     command_receipts d' = command_receipts d"

interpretation tenant: db_order "tenantOnly rt" for rt
  by unfold_locales (auto simp: tenantOnly_def)

lemma foreign_updateWhere:
  "(\<And>r. p r \<Longrightarrow> owner r = rt \<and> owner (f r) = rt) \<Longrightarrow> foreign owner rt (updateWhere p f rows) = foreign owner rt rows"
  unfolding foreign_def by (rule filter_updateWhere) simp

lemma foreign_append: "owner r = rt \<Longrightarrow> foreign owner rt (rows @ [r]) = foreign owner rt rows"
  by (simp add: foreign_def)

section \<open>Statements\<close>

lemma tenant_statement: "(\<And>d. tenantOnly rt d (snd (f d))) \<Longrightarrow> moves (tenantOnly rt) P (sqlCall f)"
  by (rule tenant.moves_sqlCall) (metis snd_conv)

lemma tenant_updates:
  "(\<And>r. p r \<Longrightarrow> ds_runtime_id r = rt \<and> ds_runtime_id (f r) = rt) \<Longrightarrow> moves (tenantOnly rt) P (sqlCall (update_definition_states p f))"
  "(\<And>r. p2 r \<Longrightarrow> r_runtime_id r = rt \<and> r_runtime_id (f2 r) = rt) \<Longrightarrow> moves (tenantOnly rt) P (sqlCall (update_runs p2 f2))"
  "(\<And>r. p3 r \<Longrightarrow> dl_runtime_id r = rt \<and> dl_runtime_id (f3 r) = rt) \<Longrightarrow> moves (tenantOnly rt) P (sqlCall (update_dead_letters p3 f3))"
  "(\<And>r. p4 r \<Longrightarrow> df_source_id r = rt \<and> df_source_id (f4 r) = rt) \<Longrightarrow> moves (tenantOnly rt) P (sqlCall (update_definitions p4 f4))"
  "(\<And>r. p5 r \<Longrightarrow> sn_source_id r = rt \<and> sn_source_id (f5 r) = rt) \<Longrightarrow> moves (tenantOnly rt) P (sqlCall (update_definition_snapshots p5 f5))"
  "(\<And>r. p6 r \<Longrightarrow> pb_source_id r = rt \<and> pb_source_id (f6 r) = rt) \<Longrightarrow> moves (tenantOnly rt) P (sqlCall (update_definition_publications p6 f6))"
  "(\<And>r. p7 r \<Longrightarrow> pl_runtime_id r = rt \<and> pl_runtime_id (f7 r) = rt) \<Longrightarrow> moves (tenantOnly rt) P (sqlCall (update_plans p7 f7))"
  "(\<And>r. p8 r \<Longrightarrow> cg_runtime_id r = rt \<and> cg_runtime_id (f8 r) = rt) \<Longrightarrow> moves (tenantOnly rt) P (sqlCall (update_capacity_guards p8 f8))"
  by (rule tenant_statement, simp add: tenantOnly_def sql_unfold foreign_updateWhere)+

lemma tenant_inserts:
  "ds_runtime_id r1 = rt \<Longrightarrow> moves (tenantOnly rt) P (sqlCall (insert_definition_states S r1))"
  "r_runtime_id r2 = rt \<Longrightarrow> moves (tenantOnly rt) P (sqlCall (insert_runs S r2))"
  "ev_runtime_id r3 = rt \<Longrightarrow> moves (tenantOnly rt) P (sqlCall (insert_run_events S r3))"
  "dl_runtime_id r4 = rt \<Longrightarrow> moves (tenantOnly rt) P (sqlCall (insert_dead_letters S r4))"
  "df_source_id r5 = rt \<Longrightarrow> moves (tenantOnly rt) P (sqlCall (insert_definitions S r5))"
  "sn_source_id r6 = rt \<Longrightarrow> moves (tenantOnly rt) P (sqlCall (insert_definition_snapshots S r6))"
  "pb_source_id r7 = rt \<Longrightarrow> moves (tenantOnly rt) P (sqlCall (insert_ignore_publications r7))"
  "pl_runtime_id r8 = rt \<Longrightarrow> moves (tenantOnly rt) P (sqlCall (insert_ignore_plans r8))"
  "cg_runtime_id r9 = rt \<Longrightarrow> moves (tenantOnly rt) P (sqlCall (insert_ignore_capacity_guards r9))"
  by (rule tenant_statement, simp add: tenantOnly_def sql_unfold foreign_append)+

lemma tenant_pure: "moves (tenantOnly rt) P (ret x)" "moves (tenantOnly rt) P (fail e)" "moves (tenantOnly rt) P (liftE q)"
  "moves (tenantOnly rt) P timeNow" "moves (tenantOnly rt) P envCall" "moves (tenantOnly rt) P (sqlQuery qq)"
  "moves (tenantOnly rt) P randRead"
  by (intro tenant.moves_readonly readonly_intros)+

section \<open>The execution store\<close>

abbreviation tenantRuns :: "Store \<Rightarrow> database \<Rightarrow> database \<Rightarrow> bool" where
  "tenantRuns s \<equiv> tenantOnly (runtimeID s)"

lemma tenant_cursor_statements:
  "moves (tenantRuns s) P (sqlCall (sql_reconcileChanged s d raw nxt kind enabled now))"
  "moves (tenantRuns s) P (sqlCall (sql_reconcileStable s d raw kind enabled now))"
  "moves (tenantRuns s) P (sqlCall (sql_reconcileInsert S s d raw nxt kind enabled now))"
  unfolding sql_reconcileChanged_def sql_reconcileStable_def sql_reconcileInsert_def
  by (intro tenant_updates tenant_inserts; simp add: definitionSourceIdentity_def definitionIdentity_def Let_def)+

lemma tenant_reconcile: "moves (tenantRuns s) P (reconcileWith S s d nxt kind enabled)"
  unfolding reconcileWith_def reconcileSame_def reconcileNew_def
  by (intro tenant.moves_intros tenant_pure tenant_cursor_statements)

lemma tenant_disable: "moves (tenantRuns s) P (disableMissingWith s active revision)"
  unfolding disableMissingWith_def
  by (intro tenant.moves_intros tenant_pure tenant_updates) simp_all

lemma tenant_event: "moves (tenantRuns s) P (eventWith S s run kind message)"
  unfolding eventWith_def by (intro tenant.moves_intros tenant_pure tenant_inserts) simp

lemma tenant_lock: "moves (tenantRuns s) P (lockTriggerCapacity s)"
  unfolding lockTriggerCapacity_def
  by (intro tenant.moves_intros tenant_pure tenant_inserts tenant_updates) simp_all

lemma tenant_claimCursor: "moves (tenantRuns s) P (claimCursor S s due now)"
  unfolding claimCursor_def advanceCursorWith_def
  by (intro tenant.moves_intros tenant_pure tenant_updates) (simp_all add: definitionIdentity_def Let_def)

lemma tenant_run_statements:
  "moves (tenantRuns s) P (sqlCall (insert_runs S (runRow S s due ttl now)))"
  "moves (tenantRuns s) P (sqlCall (sql_takeExpired s ident ttl now))"
  "moves (tenantRuns s) P (sqlCall (sql_renew s run ttl now))"
  "moves (tenantRuns s) P (sqlCall (sql_finish s run status receipt lastError now))"
  "moves (tenantRuns s) P (sqlCall (sql_fail s run terminal failure retryAt now))"
  "moves (tenantRuns s) P (sqlCall (sql_retry s ident now))"
  "moves (tenantRuns s) P (sqlCall (sql_cancel s ident now))"
  "moves (tenantRuns s) P (sqlCall (sql_resolve s ident now))"
  unfolding sql_takeExpired_def sql_renew_def sql_finish_def sql_fail_def sql_retry_def sql_cancel_def sql_resolve_def
  by (intro tenant_updates tenant_inserts; simp add: runRow_def expiredLease_def runIdentity_def liveLease_def)+

lemmas tenant_store_intros = tenant.moves_bindE tenant.moves_if tenant.moves_let tenant.moves_case_option
  tenant.moves_case_sum tenant.moves_case_prod tenant.moves_transaction tenant.moves_attempt tenant_pure tenant_lock
  tenant_event tenant_run_statements

lemma tenant_takeExpired: "moves (tenantRuns s) P (takeExpired S s ident ttl now)"
  unfolding takeExpired_def by (intro tenant_store_intros tenant.moves_readonly readonly_reads)

lemma tenant_claim_tx: "moves (tenantRuns s) P (claim_tx S s due ttl now)"
  unfolding claim_tx_def claimInsert_tx_def
  by (intro tenant_store_intros tenant_claimCursor tenant.moves_readonly [OF readonly_reads(2)])

lemma tenant_case_claimEnd:
  "moves R P a \<Longrightarrow> moves R P b \<Longrightarrow> moves R P c \<Longrightarrow>
    moves R P (case outcome of LeaseAcquired \<Rightarrow> a | RunExists \<Rightarrow> b | CursorMoved \<Rightarrow> c)"
  by (cases outcome) simp_all

lemma tenant_Claim: "moves (tenantRuns s) P (Claim S s due ttl)"
  unfolding Claim_def
  by (intro tenant_store_intros tenant_case_claimEnd tenant_claim_tx tenant_takeExpired
      tenant.moves_readonly [OF readonly_reads(4)])

lemma tenant_Renew: "moves (tenantRuns s) P (Renew s run ttl)"
  unfolding Renew_def by (intro tenant_store_intros)

lemma tenant_Accept: "moves (tenantRuns s) P (Accept S s run receipt)"
  unfolding Accept_def finish_def finish_tx_def by (intro tenant_store_intros)

lemma tenant_Fail: "moves (tenantRuns s) P (Fail S s run failure retryAt)"
  unfolding Fail_def fail_tx_def insertDeadLetter_def
  by (intro tenant_store_intros tenant.moves_readonly [OF readonly_reads(3)] tenant_inserts) simp

lemma tenant_Retry: "moves (tenantRuns s) P (Retry S s ident reason)"
  unfolding Retry_def retry_tx_def
  by (intro tenant_store_intros tenant.moves_readonly [OF readonly_reads(2)] tenant.moves_readonly [OF readonly_reads(4)])

lemma tenant_Cancel: "moves (tenantRuns s) P (Cancel S s ident reason)"
  unfolding Cancel_def cancel_tx_def
  by (intro tenant_store_intros tenant.moves_readonly [OF readonly_reads(4)])

lemma tenant_ResolveDeadLetter: "moves (tenantRuns s) P (ResolveDeadLetter S s ident reason)"
  unfolding ResolveDeadLetter_def resolve_tx_def
  by (intro tenant_store_intros tenant.moves_readonly [OF readonly_reads(5)])

lemma tenant_RequeueDeadLetter: "moves (tenantRuns s) P (RequeueDeadLetter S s ident reason)"
  unfolding RequeueDeadLetter_def
  by (intro tenant_store_intros tenant_Retry tenant.moves_readonly [OF readonly_reads(5)])

lemma tenant_Reschedule: "moves (tenantRuns s) P (Reschedule s key nxt)"
  unfolding Reschedule_def by (intro tenant_store_intros tenant_updates) simp

lemma tenant_Due: "moves (tenantRuns s) (\<lambda>_. True) (Due S s now limit)"
proof -
  have "moves (tenantRuns s) Q (dueState S s now l state result)" for Q l state result
    unfolding dueState_def fastForwardMisfire_def
    by (intro tenant_store_intros tenant_updates) (simp add: definitionIdentity_def Let_def)
  moreover have "readonly (dueStates S s at l)" "readonly (retryTrigger S s row result)" for at l row result
    unfolding dueStates_def scanDueRow_def retryTrigger_def by (intro readonly_intros)+
  ultimately show ?thesis
    unfolding Due_def by (intro tenant_store_intros tenant.moves_foldE tenant.moves_readonly [OF \<open>readonly (dueStates _ _ _ _)\<close>]
        tenant.moves_readonly [OF \<open>readonly (retryTrigger _ _ _ _)\<close>])
qed

lemma tenant_ApplyDefinitionSnapshot: "moves (tenantRuns s) P (ApplyDefinitionSnapshot S s snapshot now)"
proof -
  have "moves (tenantRuns s) Q (lockDefinitionSnapshotCursor s snapshot fence)" for Q fence
    unfolding lockDefinitionSnapshotCursor_def
    by (intro tenant_store_intros tenant_updates) (simp add: publicationIdentity_def)
  moreover have "moves (tenantRuns s) Q (applyDefinition S s now d active)" for Q d active
    unfolding applyDefinition_def by (intro tenant_store_intros tenant_reconcile)
  ultimately show ?thesis
    unfolding ApplyDefinitionSnapshot_def applySnapshot_tx_def
    by (intro tenant_store_intros tenant.moves_foldE tenant_disable)
qed

section \<open>The definition store\<close>

abbreviation tenantDefinitions :: "DefinitionStore \<Rightarrow> database \<Rightarrow> database \<Rightarrow> bool" where
  "tenantDefinitions s \<equiv> tenantOnly (dsSourceID s)"

lemma tenant_definition_statements:
  "moves (tenantDefinitions s) P (sqlCall (insert_ignore_publications (newPublication s hash now)))"
  "moves (tenantDefinitions s) P (sqlCall (sql_activateSession s generation hash now))"
  "moves (tenantDefinitions s) P (sqlCall (sql_moveCursor s active current incoming revision contentHash now))"
  "moves (tenantDefinitions s) P (sqlCall (sql_disableDefinitions s now))"
  "moves (tenantDefinitions s) P (sqlCall (sql_updateDefinition s snapshot now v))"
  "moves (tenantDefinitions s) P (sqlCall (insert_definitions S (definitionRow s snapshot now v)))"
  unfolding sql_activateSession_def sql_moveCursor_def sql_disableDefinitions_def sql_updateDefinition_def
  by (intro tenant_updates tenant_inserts; simp add: newPublication_def publicationIdentity_def cursorUnmoved_def
      withCursor_def definitionOwned_def definitionRow_def)+

lemmas tenant_definition_intros = tenant.moves_bindE tenant.moves_if tenant.moves_let tenant.moves_case_option
  tenant.moves_case_sum tenant.moves_case_prod tenant.moves_transaction tenant.moves_attempt tenant_pure
  tenant_definition_statements

lemma tenant_BeginSession: "moves (tenantDefinitions s) (\<lambda>_. True) (BeginDefinitionPublisherSession S s)"
proof -
  have once: "moves (tenantDefinitions s) Q (beginSessionOnce S s)" for Q
    unfolding beginSessionOnce_def
    by (intro tenant_definition_intros tenant.moves_readonly [OF readonly_publication(1)]
        tenant.moves_readonly [OF readonly_publication(2)])
  have "moves (tenantDefinitions s) (\<lambda>_. True) (beginSessionRounds S s n)" for n
    by (induction n) (simp_all only: beginSessionRounds.simps waitDefinitionPublicationRetry_def,
      (intro tenant_definition_intros once)+)
  then show ?thesis unfolding BeginDefinitionPublisherSession_def by (intro tenant_definition_intros)
qed

lemma tenant_writeSnapshot: "moves (tenantDefinitions s) P (writeSnapshot S s snapshot encoded hash now)"
proof -
  have "moves (tenantDefinitions s) Q (writeSnapshotState S s snapshot hash now)" for Q
    unfolding writeSnapshotState_def
    by (intro tenant_definition_intros tenant_updates tenant_inserts) (simp_all add: snapshotIdentity_def)
  moreover have "moves (tenantDefinitions s) (\<lambda>_. True) (writeDefinition S s snapshot now v u)" for v u
    unfolding writeDefinition_def by (intro tenant_definition_intros)
  ultimately show ?thesis
    unfolding writeSnapshot_def by (intro tenant_definition_intros tenant.moves_foldE)
qed

lemma tenant_syncOnce: "moves (tenantDefinitions s) P (syncDefinitionsOnce S s snapshot encoded hash)"
  unfolding syncDefinitionsOnce_def acceptFencedSnapshot_def
  by (intro tenant_definition_intros tenant_writeSnapshot)

lemma tenant_syncRounds: "moves (tenantDefinitions s) (\<lambda>_. True) (syncRounds S s snapshot encoded hash n)"
  by (induction n) (simp_all only: syncRounds.simps waitDefinitionPublicationRetry_def,
    (intro tenant_definition_intros tenant_syncOnce | assumption)+)

lemma tenant_SyncDefinitions: "moves (tenantDefinitions s) (\<lambda>_. True) (SyncDefinitions S s snapshot)"
  unfolding SyncDefinitions_def
  by (intro tenant_definition_intros) (simp_all add: tenant_pure tenant_syncRounds split: DeploymentMode.split)

section \<open>The plan store and the plan service\<close>

text \<open>A plan service whose two stores are bound to the same Runtime.\<close>

lemma tenant_plan_statements:
  "moves (tenantOnly (psRuntimeID s)) P (sqlCall (insert_ignore_plans (planRow s rec json)))"
  "moves (tenantOnly (psRuntimeID s)) P (sqlCall (sql_replacePlan s plan json expected))"
  unfolding sql_replacePlan_def
  by (intro tenant_inserts tenant_updates; simp add: planRow_def planIdentity_def replaced_def Let_def split: prod.split)+

lemma tenant_storeCreate: "moves (tenantOnly (psRuntimeID s)) P (storeCreateScheduledPlan S s rec)"
  unfolding storeCreateScheduledPlan_def
  by (intro tenant.moves_intros tenant_plan_statements tenant_pure tenant.moves_readonly [OF readonly_getScheduledPlan])

lemma tenant_storeReplace: "moves (tenantOnly (psRuntimeID s)) P (storeReplaceScheduledPlan S s plan expected)"
  unfolding storeReplaceScheduledPlan_def
  by (intro tenant.moves_intros tenant_plan_statements tenant_pure tenant.moves_readonly [OF readonly_getScheduledPlan])

lemma tenant_project:
  "moves (tenantRuns rs) P (projectScheduledPlan S (planService S s rs rt) plan)"
  unfolding projectScheduledPlan_def planService_simps option.case ReconcileScheduledPlan_def
  by (intro tenant.moves_intros tenant_pure tenant_reconcile)

end
