(* ===== verification/Tenant_Service.thy ===== *)
theory Tenant_Service
  imports Tenant_Steps Publication_Readback
begin

text \<open>
  The operations of one service stay with its Runtime. \<open>tenantBound\<close> is what the assembly provides: the three stores
  of the service are bound to one Runtime, and what it calls outside the repository leaves the rows of every other
  Runtime alone. The heartbeat does only what it is given.
\<close>

section \<open>The hypotheses\<close>

definition tenantBound :: "Sdk \<Rightarrow> string \<Rightarrow> Service \<Rightarrow> bool" where
  "tenantBound S rt b \<longleftrightarrow>
     (\<exists>rs ds ps runtime. servicePlans b = planService S ps rs runtime \<and>
        serviceDefinitions b = Some (definitionRepository S ds) \<and>
        runtimeID rs = rt \<and> dsSourceID ds = rt \<and> psRuntimeID ps = rt) \<and>
     (\<forall>timeout trigger. moves (tenantOnly rt) (\<lambda>_. True) (hostDispatch (serviceHost b) timeout trigger) \<and>
        moves (tenantOnly rt) (\<lambda>_. True) (serviceDirectHTTP b timeout trigger)) \<and>
     moves (tenantOnly rt) (\<lambda>_. True) (hostSnapshot (serviceHost b)) \<and>
     (\<forall>rule after count. moves (tenantOnly rt) (\<lambda>_. True) (previewSchedule (servicePlatform b) rule after count)) \<and>
     heartbeatRuns b"

lemma tenantBound_stores:
  assumes "tenantBound S rt b"
  obtains rs ds ps runtime where "servicePlans b = planService S ps rs runtime"
    "serviceDefinitions b = Some (definitionRepository S ds)" "runtimeID rs = rt" "dsSourceID ds = rt" "psRuntimeID ps = rt"
  using assms unfolding tenantBound_def by blast

lemma tenantBound_calls:
  assumes "tenantBound S rt b"
  shows "moves (tenantOnly rt) (\<lambda>_. True) (dispatcherFor b trigger timeout trigger')"
    "moves (tenantOnly rt) (\<lambda>_. True) (previewSchedule (servicePlatform b) rule after count)" "heartbeatRuns b"
    "moves (tenantOnly rt) (\<lambda>_. True) (hostSnapshot (serviceHost b))"
  using assms by (simp_all add: tenantBound_def dispatcherFor_def)

section \<open>Dispatching\<close>

lemma tenant_dispatchClaimed:
  assumes b: "tenantBound S' rt b" and m: "runtimeID (memRuns m) = rt"
  shows "moves (tenantOnly rt) (\<lambda>_. True) (dispatchClaimed S b m run d)"
proof -
  have beat: "moves (tenantOnly rt) (\<lambda>_. True) (heartbeat m run)"
    unfolding heartbeat_def using tenant_Renew [of "memRuns m"] m
    by (intro tenant.moves_bindE tenant.moves_case_prod tenant.moves_if tenant_pure) auto
  have "db_order (tenantOnly rt)" by (rule tenant.db_order_axioms)
  then have "moves (tenantOnly rt) (\<lambda>_. True) (dispatchWork b m run d)"
    using tenantBound_calls(1,3) [OF b] beat unfolding dispatchWork_def heartbeatRuns_def
    by (intro tenant.moves_let tenant.moves_if tenant.moves_attempt tenant_pure) auto
  moreover have "moves (tenantOnly rt) (\<lambda>_. True) (reportFailure S m run d e)" for e
    unfolding reportFailure_def using tenant_Fail [of "memRuns m"] m
    by (intro tenant.moves_bindE tenant.moves_attempt tenant_pure) auto
  moreover have "moves (tenantOnly rt) P (Accept S (memRuns m) run receipt)" for P receipt
    using tenant_Accept [of "memRuns m"] m by auto
  ultimately show ?thesis
    unfolding dispatchClaimed_def
    by (intro tenant.moves_bindE tenant.moves_case_prod tenant.moves_case_option tenant.moves_case_sum tenant.moves_if
        tenant_pure)
qed

lemma tenant_claim:
  "runtimeID s = rt \<Longrightarrow> moves (tenantOnly rt) P (Claim S s due ttl)"
  using tenant_Claim [of s] by auto

lemma tenant_dispatch:
  assumes "tenantBound S' rt b" "runtimeID (memRuns m) = rt"
  shows "moves (tenantOnly rt) (\<lambda>_. True) (dispatch S b m item)"
  unfolding dispatch_def
proof (intro tenant.moves_bindE tenant_claim assms(2))
  fix claim :: "(Run \<times> bool) option"
  show "moves (tenantOnly rt) (\<lambda>_. True) (case claim of None \<Rightarrow> ret () | Some (run, True) \<Rightarrow>
      dispatchClaimed S b m run (dueDefinition item) | Some (run, False) \<Rightarrow> ret ())"
    using tenant_dispatchClaimed [OF assms] tenant_pure(1) by (auto split: option.split bool.split)
qed

lemma tenant_Tick:
  assumes "tenantBound S' rt b" "runtimeID (memRuns m) = rt"
  shows "moves (tenantOnly rt) (\<lambda>_. True) (Tick S b m now limit)"
proof -
  have "moves (tenantOnly rt) (\<lambda>_. True) (tickItem S b m item acc)" for item acc
    unfolding tickItem_def
    by (intro tenant.moves_case_prod tenant.moves_attempt tenant_dispatch [OF assms] tenant.moves_case_sum tenant_pure)
  moreover have "moves (tenantOnly rt) (\<lambda>_. True) (Due S (memRuns m) now' limit')" for now' limit'
    using tenant_Due [of "memRuns m"] assms(2) by auto
  ultimately show ?thesis
    unfolding Tick_def by (intro tenant.moves_bindE tenant.moves_if tenant_pure tenant.moves_let tenant.moves_foldE)
qed

lemma tenant_TriggerNow:
  assumes "tenantBound S' rt b" "runtimeID (memRuns m) = rt"
  shows "moves (tenantOnly rt) (\<lambda>_. True) (TriggerNow S b m key reason)"
proof -
  obtain ds where "serviceDefinitions b = Some (definitionRepository S' ds)"
    using tenantBound_stores [OF assms(1)] by metis
  then have "readonly (publishedDefinition S b m k)" for k
    unfolding publishedDefinition_def by (auto simp: definitionRepository_def intro!: readonly_intros)
  then show ?thesis
    unfolding TriggerNow_def
    by (intro tenant.moves_let tenant.moves_bindE tenant.moves_case_option tenant.moves_case_prod tenant_pure tenant.moves_if
        tenant_claim assms tenant.moves_attempt tenant_dispatchClaimed [OF assms] tenant.moves_case_sum tenant.moves_readonly)
qed

section \<open>Plans\<close>

lemma tenant_plan_parts:
  assumes "runtimeID rs = rt" "psRuntimeID ps = rt"
  shows "moves (tenantOnly rt) P (projectScheduledPlan S (planService S ps rs runtime) plan)"
    and "moves (tenantOnly rt) P (storeCreateScheduledPlan S ps rec)"
    and "moves (tenantOnly rt) (\<lambda>_. True) (storePlan S (planService S ps rs runtime) (planRepository S ps) plan expected)"
proof -
  show project: "moves (tenantOnly rt) P (projectScheduledPlan S (planService S ps rs runtime) plan)" for P plan
    using tenant_project [of rs] assms(1) by auto
  show "moves (tenantOnly rt) P (storeCreateScheduledPlan S ps rec)"
    using tenant_storeCreate [of ps] assms(2) by auto
  have "moves (tenantOnly rt) Q (storeReplaceScheduledPlan S ps plan expected)" for Q
    using tenant_storeReplace [of ps] assms(2) by auto
  then show "moves (tenantOnly rt) (\<lambda>_. True) (storePlan S (planService S ps rs runtime) (planRepository S ps) plan expected)"
    unfolding storePlan_def planService_simps by (intro tenant.moves_bindE project tenant_pure)
qed

lemma tenant_mutation:
  assumes "\<And>current. moves (tenantOnly rt) (\<lambda>_. True) (f (planRepository S ps) current)"
  shows "moves (tenantOnly rt) (\<lambda>_. True)
    (bindE (scheduledPlanForMutation S (planService S ps rs runtime) owner ident v) (\<lambda>(repo, current). f repo current))"
proof (rule tenant.moves_bindE_read [where Q = "\<lambda>x d. fst x = planRepository S ps"])
  show "moves (tenantOnly rt) (\<lambda>d. fst x = planRepository S ps) (case x of (repo, current) \<Rightarrow> f repo current)" for x
    using assms [of "snd x"] by (cases x) (auto simp: moves_def)
qed (use forMutation_readable [of S ps rs runtime] in \<open>auto intro: readonly_intros\<close>)

lemma tenant_plan_operations:
  assumes bound: "runtimeID rs = rt" "psRuntimeID ps = rt"
  shows "moves (tenantOnly rt) (\<lambda>_. True) (CreateScheduledPlan S canonicalObject (planService S ps rs runtime) c)"
    and "moves (tenantOnly rt) (\<lambda>_. True) (UpdateScheduledPlan S canonicalObject (planService S ps rs runtime) u)"
    and "moves (tenantOnly rt) (\<lambda>_. True) (changeScheduledPlanStatus S (planService S ps rs runtime) change desired)"
    and "moves (tenantOnly rt) (\<lambda>_. True) (DeleteScheduledPlan S (planService S ps rs runtime) change)"
    and "moves (tenantOnly rt) (\<lambda>_. True) (hydrateScheduledPlans S (planService S ps rs runtime) n)"
proof -
  note intros = tenant.moves_intros tenant_plan_parts [OF bound] tenant_pure tenant.moves_readonly [OF readonly_storeReads(1)]
  show "moves (tenantOnly rt) (\<lambda>_. True) (CreateScheduledPlan S canonicalObject (planService S ps rs runtime) c)"
    unfolding CreateScheduledPlan_def planService_simps option.case by (intro intros)
  show "moves (tenantOnly rt) (\<lambda>_. True) (UpdateScheduledPlan S canonicalObject (planService S ps rs runtime) u)"
    unfolding UpdateScheduledPlan_def by (rule tenant_mutation) (intro intros)
  show "moves (tenantOnly rt) (\<lambda>_. True) (changeScheduledPlanStatus S (planService S ps rs runtime) change desired)"
    unfolding changeScheduledPlanStatus_def by (rule tenant_mutation) (intro intros)
  show "moves (tenantOnly rt) (\<lambda>_. True) (DeleteScheduledPlan S (planService S ps rs runtime) change)"
    unfolding DeleteScheduledPlan_def planService_simps option.case by (intro intros)
  have "moves (tenantOnly rt) (\<lambda>_. True)
      (hydrateRounds S (planService S ps rs runtime) (ListScheduledPlansForRecovery S ps) n after found)" for after found
    by (induction n arbitrary: after found) (simp_all only: hydrateRounds.simps,
      (intro intros tenant.moves_foldE tenant.moves_readonly [OF readonly_storeReads(2)] | assumption)+)
  then show "moves (tenantOnly rt) (\<lambda>_. True) (hydrateScheduledPlans S (planService S ps rs runtime) n)"
    unfolding hydrateScheduledPlans_def planService_simps option.case by simp
qed

lemma readonly_plan_reads:
  "readonly (GetScheduledPlan S (planService S ps rs runtime) owner ident)"
  "readonly (ListScheduledPlans S (planService S ps rs runtime) inp)"
  "readonly (ReadScheduledPlanDeletion S (planService S ps rs runtime) owner ident)"
proof -
  have "readonly (storeListScheduledPlans S ps q)" for q
    unfolding storeListScheduledPlans_def by (intro readonly_intros)
  then show "readonly (ListScheduledPlans S (planService S ps rs runtime) inp)"
    unfolding ListScheduledPlans_def planService_simps option.case by (intro readonly_intros)
qed (unfold GetScheduledPlan_def ReadScheduledPlanDeletion_def planService_simps option.case, (intro readonly_intros)+)

section \<open>Projecting definitions\<close>

text \<open>The order on the memory of a service: a memory of the Runtime stays one, and only its rows change.\<close>

definition ofRuntime :: "string \<Rightarrow> Memory \<Rightarrow> bool" where
  "ofRuntime rt m \<longleftrightarrow> runtimeID (memRuns m) = rt"

definition serviceTenant :: "string \<Rightarrow> Memory process \<Rightarrow> Memory process \<Rightarrow> bool" where
  "serviceTenant rt p p' \<longleftrightarrow> (ofRuntime rt (memory p) \<longrightarrow>
     ofRuntime rt (memory p') \<and> tenantOnly rt (tables p) (tables p'))"

interpretation svc: db_order "serviceTenant rt" for rt
  by unfold_locales (auto simp: serviceTenant_def tenant.order_refl intro: tenant.order_trans)

lemma svc_onTables:
  assumes "\<And>m. ofRuntime rt m \<Longrightarrow> Q m \<Longrightarrow> moves (tenantOnly rt) (\<lambda>_. True) f"
  shows "moves (serviceTenant rt) (\<lambda>p. Q (memory p)) (onTables f)"
  unfolding moves_def
proof (intro allI impI)
  fix w :: "Memory process world"
  assume "Q (memory (db w))"
  obtain r w' where r: "onTables f w = (r, w')" by fastforce
  then obtain v where v: "f (withState (tables (db w)) w) = (r, v)" "tables (db w') = db v" "memory (db w') = memory (db w)"
    by (rule onTables_E)
  have "tenantOnly rt (tables (db w)) (db v)" if "ofRuntime rt (memory (db w))"
    using movesD [OF assms [OF that \<open>Q _\<close>] _ v(1)] by simp
  with r v show "serviceTenant rt (db w) (db (snd (onTables f w)))" by (simp add: serviceTenant_def)
qed

lemmas svc_tables = svc_onTables [where Q = "\<lambda>_. True", simplified]

lemma svc_pure: "moves (serviceTenant rt) P (ret x)" "moves (serviceTenant rt) P (fail e)" "moves (serviceTenant rt) P (liftE q)"
  "moves (serviceTenant rt) P getMemory" "moves (serviceTenant rt) P (mapE (\<lambda>d. liftE (h d)) ds)"
  by (intro svc.moves_readonly readonly_intros)+

lemma svc_modify: "(\<And>m. memRuns (f m) = memRuns m) \<Longrightarrow> moves (serviceTenant rt) P (modifyMemory f)"
  by (simp add: moves_def modifyMemory_def serviceTenant_def ofRuntime_def tenant.order_refl)

text \<open>An operation that reads the memory first and then works on the tables.\<close>

lemma svc_getMemory:
  assumes "\<And>m. moves (serviceTenant rt) (\<lambda>p. memory p = m) (f m)"
  shows "moves (serviceTenant rt) P (bindE getMemory f)"
  by (rule svc.moves_bindE_read [where Q = "\<lambda>m p. memory p = m"])
    (auto simp: assms getMemory_def intro: readonly_intros)

lemma svc_projected:
  "moves (serviceTenant rt) (\<lambda>p. memory p = m) (onTables (projectDefinitions S (memRuns m) persisted))"
proof (rule svc_onTables [where Q = "\<lambda>n. n = m"], unfold ofRuntime_def)
  fix n assume rt: "runtimeID (memRuns n) = rt" "n = m"
  have "moves (tenantOnly rt) P (Reconcile S (memRuns m) d nxt)" for P d nxt
    using tenant_reconcile [of "memRuns m"] rt unfolding Reconcile_def by auto
  then have "moves (tenantOnly rt) (\<lambda>_. True) (applyPersistedDefinition S (memRuns m) fenced now d acc)" for fenced now d acc
    unfolding applyPersistedDefinition_def by (intro tenant.moves_intros tenant_pure)
  moreover have "moves (tenantOnly rt) P (ApplyDefinitionSnapshot S (memRuns m) persisted now)"
    "moves (tenantOnly rt) P (DisableMissing (memRuns m) active revision)" for P now active revision
    using tenant_ApplyDefinitionSnapshot [of "memRuns m"] tenant_disable [of "memRuns m"] rt
    unfolding DisableMissing_def by auto
  ultimately show "moves (tenantOnly rt) (\<lambda>_. True) (projectDefinitions S (memRuns m) persisted)"
    unfolding projectDefinitions_def by (intro tenant.moves_intros tenant_pure tenant.moves_foldE)
qed

lemma svc_apply: "moves (serviceTenant rt) P (applyPersistedDefinitions S persisted)"
  unfolding applyPersistedDefinitions_def
  by (rule svc_getMemory) (intro svc.moves_bindE svc_projected svc.moves_case_option svc_pure svc_modify, simp)

lemma svc_converge:
  assumes "tenantBound S' rt b"
  shows "moves (serviceTenant rt) P (convergePersistedDefinitions S b)"
proof -
  obtain ds where ds: "serviceDefinitions b = Some (definitionRepository S' ds)" using tenantBound_stores [OF assms] by metis
  have env: "moves (serviceTenant rt) (\<lambda>_. True) (onTables envCall)" by (rule svc_tables) (rule tenant_pure)
  have "moves (serviceTenant rt) (\<lambda>_. True) (convergeRounds S (definitionRepository S' ds) n)" for n
    by (induction n) (simp_all only: convergeRounds.simps definitionRepository_def DefinitionRepository.simps,
      (intro svc.moves_intros svc_pure svc_apply env svc.moves_readonly [OF readonly_onTables [OF readonly_snapshot(2)]]
       | assumption)+)
  then show ?thesis
    unfolding convergePersistedDefinitions_def ds by (auto intro: svc.moves_weaken)
qed

lemma svc_reconcile:
  assumes "tenantBound S rt b"
  shows "moves (serviceTenant rt) P (ReconcileSnapshot S b snapshot)"
proof -
  obtain ds where ds: "serviceDefinitions b = Some (definitionRepository S ds)" "dsSourceID ds = rt"
    using tenantBound_stores [OF assms] by metis
  have "moves (serviceTenant rt) (\<lambda>_. True) (onTables (SyncDefinitions S ds persisted))" for persisted
    by (rule svc_tables) (use tenant_SyncDefinitions [of ds] ds(2) in auto)
  then have sync: "moves (serviceTenant rt) (\<lambda>_. True) (onTables (repoSyncDefinitions (definitionRepository S ds) persisted))" for persisted
    by (simp add: definitionRepository_def)
  have "moves (serviceTenant rt) (\<lambda>_. True) (reconcileSnapshot S b snapshot)"
    unfolding reconcileSnapshot_def ds(1) option.case
    by (intro svc.moves_intros svc_pure sync svc_converge [OF assms])
  then show ?thesis unfolding ReconcileSnapshot_def by (rule svc.moves_weaken) simp
qed

lemma svc_hydrate:
  assumes "tenantBound S rt b"
  shows "moves (serviceTenant rt) P (HydrateDefinitions S b bound)"
proof -
  obtain rs ps runtime where bound: "servicePlans b = planService S ps rs runtime" "runtimeID rs = rt" "psRuntimeID ps = rt"
    using tenantBound_stores [OF assms] by metis
  have plans: "moves (serviceTenant rt) (\<lambda>_. True) (onTables (hydrateScheduledPlans S (servicePlans b) bound))"
    unfolding bound(1) by (rule svc_tables) (rule tenant_plan_operations [OF bound(2,3)])
  have "moves (serviceTenant rt) Q claimGeneration" for Q
    unfolding claimGeneration_def by (intro svc.moves_bindE svc_pure svc_modify) simp
  then show ?thesis
    unfolding HydrateDefinitions_def hydrateLocked_def
    by (intro svc.moves_intros svc_pure svc_converge [OF assms] plans)
qed

end
