(* ===== verification/SaaS_Isolation.thy ===== *)
theory SaaS_Isolation
  imports SaaS_Credentials Tenant_Service Service_Properties
begin

text \<open>
  Applications of the SaaS deployment are isolated. Every operation of the service for one application leaves the
  rows of every other Runtime and the memory of every other application as they were, whatever calls fail, and keeps
  the invariant this rests on: each open application is bound to the Runtime whose key it has. With the admission of requests
  this makes the bearer credential the only way to reach an application.
\<close>

section \<open>What is assumed of the outside\<close>

text \<open>
  The downstream host of an application, the HTTP client, the migrations and the schedule preview leave the rows of
  other Runtimes, and the command receipts, alone.
\<close>

definition tenantDownstream :: "string \<Rightarrow> Downstream \<Rightarrow> bool" where
  "tenantDownstream rt d \<longleftrightarrow>
     (\<forall>timeout trigger. moves (tenantOnly rt) (\<lambda>_. True) (downDispatch d timeout trigger)) \<and>
     (\<forall>key. moves (tenantOnly rt) (\<lambda>_. True) (downConnection d key))"

definition downstreamsIsolated :: "Saas \<Rightarrow> bool" where
  "downstreamsIsolated opts \<longleftrightarrow> (\<forall>f runtime. saasDownstreams opts = Some f \<longrightarrow>
     moves (tenantOnly (trimSpace runtime)) (\<lambda>_. True) (f runtime) \<and>
     (\<forall>w d w'. f runtime w = (Inr (Some d), w') \<longrightarrow> tenantDownstream (trimSpace runtime) d))"

definition platformIsolated :: "Saas \<Rightarrow> bool" where
  "platformIsolated opts \<longleftrightarrow> (\<forall>rt.
     (\<forall>request. moves (tenantOnly rt) (\<lambda>_. True) (webDo (saasWeb opts) request)) \<and>
     (\<forall>rule after count. moves (tenantOnly rt) (\<lambda>_. True) (previewSchedule (saasPlatform opts) rule after count)) \<and>
     (\<forall>renderer conflict migrations.
        moves (tenantOnly rt) (\<lambda>_. True) (ormApply (saasOrm opts) renderer conflict migrations))) \<and>
     (\<forall>b. servicePlatform b = saasPlatform opts \<longrightarrow> heartbeatRuns b)"

section \<open>The invariant and the order\<close>

text \<open>A binding of the Runtime: it publishes, fenced, to the store of the Runtime's definitions.\<close>

definition publisherStore :: "string \<Rightarrow> DefinitionStore" where
  "publisherStore key = \<lparr>dsReady = True, dsSourceID = key, dsMode = DeploymentModeSaaS\<rparr>"

definition runtimeBinding :: "Saas \<Rightarrow> string \<Rightarrow> Service \<Rightarrow> bool" where
  "runtimeBinding opts key b \<longleftrightarrow> trimSpace (serviceRuntimeID b) = key \<and> serviceMode b = DeploymentModeSaaS \<and>
     serviceDefinitions b = Some (definitionRepository (saasSdk opts) (publisherStore key))"

definition boundApplication :: "Saas \<Rightarrow> string \<Rightarrow> Application \<Rightarrow> bool" where
  "boundApplication opts key a \<longleftrightarrow> tenantBound (saasSdk opts) key (appBinding a) \<and> ofRuntime key (appMemory a) \<and>
     runtimeBinding opts key (appBinding a)"

definition allBound :: "Saas \<Rightarrow> SaasMemory \<Rightarrow> bool" where
  "allBound opts m \<longleftrightarrow> (\<forall>key a. saasApplications m key = Some a \<longrightarrow> boundApplication opts key a)"

definition othersSame :: "string \<Rightarrow> SaasMemory \<Rightarrow> SaasMemory \<Rightarrow> bool" where
  "othersSame key m m' \<longleftrightarrow> (\<forall>k. k \<noteq> key \<longrightarrow> saasApplications m' k = saasApplications m k)"

definition saasTenant :: "Saas \<Rightarrow> string \<Rightarrow> SaasMemory process \<Rightarrow> SaasMemory process \<Rightarrow> bool" where
  "saasTenant opts key p p' \<longleftrightarrow> (allBound opts (memory p) \<longrightarrow>
     allBound opts (memory p') \<and> othersSame key (memory p) (memory p') \<and> tenantOnly key (tables p) (tables p'))"

interpretation saas: db_order "saasTenant opts key" for opts key
proof
  show "saasTenant opts key d d" for d by (simp add: saasTenant_def othersSame_def tenant.order_refl)
  show "saasTenant opts key a b \<Longrightarrow> saasTenant opts key b c \<Longrightarrow> saasTenant opts key a c" for a b c
    using tenant.order_trans by (fastforce simp: saasTenant_def othersSame_def)
qed

section \<open>Running on one application\<close>

lemma saas_onTables:
  assumes "moves (tenantOnly key) (\<lambda>_. True) f"
  shows "moves (saasTenant opts key) P (onTables f)"
  unfolding moves_def
proof (intro allI impI)
  fix w :: "SaasMemory process world"
  obtain r w' where r: "onTables f w = (r, w')" by fastforce
  then obtain v where v: "f (withState (tables (db w)) w) = (r, v)" "tables (db w') = db v" "memory (db w') = memory (db w)"
    by (rule onTables_E)
  have "tenantOnly key (tables (db w)) (db v)" using movesD [OF assms _ v(1)] by simp
  with r v show "saasTenant opts key (db w) (db (snd (onTables f w)))" by (simp add: saasTenant_def othersSame_def)
qed

lemma saas_onApplication:
  assumes f: "\<And>a. boundApplication opts key a \<Longrightarrow> moves (serviceTenant key) (\<lambda>p. memory p = appMemory a) (f a)"
  shows "moves (saasTenant opts key) P (onApplication key f)"
  unfolding moves_def
proof (intro allI impI)
  fix w :: "SaasMemory process world"
  show "saasTenant opts key (db w) (db (snd (onApplication key f w)))"
  proof (cases "saasApplications (memory (db w)) key")
    case None
    then show ?thesis by (simp add: onApplication_def fail_def saas.order_refl)
  next
    case (Some a)
    let ?p = "\<lparr>memory = appMemory a, tables = tables (db w)\<rparr>"
    obtain r v where v: "f a (withState ?p w) = (r, v)" by fastforce
    have w': "db (snd (onApplication key f w)) = putApplication key (db v) (db w)"
      using v Some by (simp add: onApplication_def zoom_def applicationPart_def)
    show ?thesis
      unfolding w' saasTenant_def
    proof
      assume bound: "allBound opts (memory (db w))"
      with Some have a: "boundApplication opts key a" by (simp add: allBound_def)
      then have "ofRuntime key (memory (db v)) \<and> tenantOnly key (tables (db w)) (tables (db v))"
        using movesD [OF f [OF a] _ v] by (auto simp: serviceTenant_def boundApplication_def)
      with a bound Some show "allBound opts (memory (putApplication key (db v) (db w))) \<and>
          othersSame key (memory (db w)) (memory (putApplication key (db v) (db w))) \<and>
          tenantOnly key (tables (db w)) (tables (putApplication key (db v) (db w)))"
        by (auto simp: putApplication_def updateApplication_def allBound_def boundApplication_def othersSame_def)
    qed
  qed
qed

lemma Start_runtime: "runtimeID (memRuns (snd (Start P live config m))) = runtimeID (memRuns m)"
  by (auto simp: Start_def Let_def ConfigureTriggerBacklogLimit_def split: option.split sum.split)

lemma startWorker_bound: "boundApplication opts key a \<Longrightarrow> boundApplication opts key (startWorker opts canceled a)"
  using Start_runtime [of "saasPlatform opts" "\<not> canceled" "workerConfig (saasWorker opts)" "appMemory a"]
  by (auto simp: startWorker_def boundApplication_def ofRuntime_def split: prod.split)

lemma boundApplication_ready [simp]: "boundApplication opts key (a\<lparr>appReady := x\<rparr>) = boundApplication opts key a"
  by (simp add: boundApplication_def)

lemma boundApplication_made [simp]:
  "boundApplication opts key \<lparr>appReady = r, appStarted = st, appDone = dn, appBinding = b, appMemory = m\<rparr> \<longleftrightarrow>
    tenantBound (saasSdk opts) key b \<and> ofRuntime key m \<and> runtimeBinding opts key b"
  by (simp add: boundApplication_def)

lemma saas_markReady: "moves (saasTenant opts key) P (markReady opts key)"
  by (auto simp: moves_def markReady_def modifyMemory_def saasTenant_def updateApplication_def allBound_def othersSame_def
      tenant.order_refl intro!: startWorker_bound split: if_splits)

section \<open>Opening an application\<close>

lemma tenant_DispatchHTTP:
  assumes "\<And>request. moves (tenantOnly rt) (\<lambda>_. True) (webDo W request)" "\<And>key. moves (tenantOnly rt) (\<lambda>_. True) (connect key)"
  shows "moves (tenantOnly rt) (\<lambda>_. True) (DispatchHTTP S (W\<lparr>webConnection := connect\<rparr>) timeout trigger)"
  unfolding DispatchHTTP_def executeTrigger_def signRequest_def sendRequest_def
  by (intro tenant.moves_intros tenant_pure) (simp_all add: assms)

lemma bindService_bound:
  assumes "platformIsolated opts" "tenantDownstream rt d" "runtimeID rs = rt" "dsSourceID ds = rt" "psRuntimeID ps = rt"
  shows "tenantBound (saasSdk opts) rt (bindService (saasSdk opts) (saasPlatform opts) (saasWeb opts) (applicationHosting opts d)
    DeploymentModeSaaS runtime rs ds ps)"
  using assms tenant_DispatchHTTP [of rt "saasWeb opts" "downConnection d"]
  unfolding tenantBound_def bindService_def applicationHosting_def platformIsolated_def tenantDownstream_def
  by (auto intro: tenant_pure)

lemma tenant_openBinding:
  assumes "\<And>renderer conflict ms. moves (tenantOnly rt) (\<lambda>_. True) (ormApply (migrationsOrm M) renderer conflict ms)"
    and "\<And>register owner ms. migrationsRegistrar M = Some register \<Longrightarrow> moves (tenantOnly rt) (\<lambda>_. True) (register owner ms)"
  shows "moves (tenantOnly rt) (\<lambda>_. True) (openBinding S P W valid ce ae h mode M canceled runtime)"
proof -
  have "moves (tenantOnly rt) (\<lambda>_. True) (EnsureSchema S (migrationsOrm M) driver schema)" for driver schema
    using assms(1) unfolding EnsureSchema_def runMigrations_def
    by (auto intro!: tenant.moves_intros tenant_pure split: sum.split option.split)
  then have "moves (tenantOnly rt) (\<lambda>_. True) (applyMigrations S M mode)"
    using assms(2) unfolding applyMigrations_def
    by (cases mode) (auto intro!: tenant.moves_intros tenant_pure split: sum.split option.split)
  then show ?thesis
    unfolding openBinding_def
    by (intro tenant.moves_intros tenant_pure) (simp_all add: tenant_pure split: DeploymentMode.split option.split)
qed

text \<open>An operation that moves the database along the order and, when it succeeds, returns a value with a property.\<close>

definition tenantReturns :: "string \<Rightarrow> ('a \<Rightarrow> bool) \<Rightarrow> 'a dbop \<Rightarrow> bool" where
  "tenantReturns rt Q m \<longleftrightarrow>
     (\<forall>w q w'. m w = (q, w') \<longrightarrow> tenantOnly rt (db w) (db w') \<and> (\<forall>x. q = Inr x \<longrightarrow> Q x))"

lemma tenantReturns_bindE:
  assumes m: "tenantReturns rt Q m" and f: "\<And>x. Q x \<Longrightarrow> tenantReturns rt Q' (f x)"
  shows "tenantReturns rt Q' (bindE m f)"
  unfolding tenantReturns_def
proof (intro allI impI)
  fix w q w' assume run: "bindE m f w = (q, w')"
  obtain p v where p: "m w = (p, v)" by fastforce
  with m have v: "tenantOnly rt (db w) (db v)" and Q: "\<And>x. p = Inr x \<Longrightarrow> Q x" by (auto simp: tenantReturns_def)
  show "tenantOnly rt (db w) (db w') \<and> (\<forall>x. q = Inr x \<longrightarrow> Q' x)"
  proof (cases p)
    case (Inl e)
    with run p v show ?thesis by (auto simp: bindE_def)
  next
    case (Inr x)
    with run p have "f x v = (q, w')" by (simp add: bindE_def)
    with f [OF Q [OF Inr]] have "tenantOnly rt (db v) (db w') \<and> (\<forall>x. q = Inr x \<longrightarrow> Q' x)"
      by (simp add: tenantReturns_def)
    with tenant.order_trans [OF v] show ?thesis by blast
  qed
qed

lemma tenantReturns_moves:
  assumes "moves (tenantOnly rt) (\<lambda>_. True) m" "\<And>w x w'. m w = (Inr x, w') \<Longrightarrow> Q x"
  shows "tenantReturns rt Q m"
  using assms(2) movesD [OF assms(1)] unfolding tenantReturns_def by blast

lemma tenantReturns_pure: "Q x \<Longrightarrow> tenantReturns rt Q (ret x)" "tenantReturns rt Q (fail e)"
  by (auto simp: tenantReturns_def ret_def fail_def tenant.order_refl)

lemma hydrateBinding_tenant:
  assumes "tenantBound (saasSdk opts) rt b" "ofRuntime rt m"
  shows "tenantReturns rt (\<lambda>(h, m'). ofRuntime rt m') (hydrateBinding opts b m)"
  unfolding tenantReturns_def
proof (intro allI impI)
  fix w q w' assume "hydrateBinding opts b m w = (q, w')"
  moreover obtain r v where v: "HydrateDefinitions (saasSdk opts) b (saasPlanBound opts) (withState \<lparr>memory = m, tables = db w\<rparr> w) = (r, v)"
    by fastforce
  moreover have "serviceTenant rt \<lparr>memory = m, tables = db w\<rparr> (db v)"
    using movesD [OF svc_hydrate [OF assms(1), where P = "\<lambda>_. True"] _ v] by simp
  ultimately show "tenantOnly rt (db w) (db w') \<and> (\<forall>x. q = Inr x \<longrightarrow> (case x of (h, m') \<Rightarrow> ofRuntime rt m'))"
    using assms(2) by (auto simp: hydrateBinding_def serviceTenant_def split: sum.splits)
qed

lemma openStores_publisher:
  "openStores S h DeploymentModeSaaS runtime = Inr (rs, ds, ps) \<Longrightarrow> ds = publisherStore (trimSpace runtime)"
  by (auto simp: openStores_def NewDefinitionStore_def publisherStore_def Let_def split: sum.splits if_splits)

lemma OpenSaaS_tenant:
  assumes p: "platformIsolated opts" and x: "tenantDownstream (trimSpace runtime) x"
  shows "tenantReturns (trimSpace runtime) (\<lambda>(b, m). tenantBound (saasSdk opts) (trimSpace runtime) b \<and>
      ofRuntime (trimSpace runtime) m \<and> runtimeBinding opts (trimSpace runtime) b)
    (OpenSaaS (saasSdk opts) (saasPlatform opts) (saasWeb opts) (saasValidApplication opts) (saasCapabilityError opts)
      (applicationHosting opts x) (saasMigrations opts) canceled runtime)"
  unfolding OpenSaaS_def
proof (rule tenantReturns_moves)
  show "moves (tenantOnly (trimSpace runtime)) (\<lambda>_. True) (openBinding (saasSdk opts) (saasPlatform opts) (saasWeb opts)
      (saasValidApplication opts) (saasCapabilityError opts) None (applicationHosting opts x) DeploymentModeSaaS
      (saasMigrations opts) canceled runtime)"
    using p by (intro tenant_openBinding) (simp_all add: platformIsolated_def saasMigrations_def)
next
  fix w w' and bm :: "Service \<times> Memory"
  assume opened: "openBinding (saasSdk opts) (saasPlatform opts) (saasWeb opts) (saasValidApplication opts)
    (saasCapabilityError opts) None (applicationHosting opts x) DeploymentModeSaaS (saasMigrations opts) canceled runtime w = (Inr bm, w')"
  obtain b m where bm: "bm = (b, m)" by (cases bm)
  from opened [unfolded bm] obtain rs ds ps where stores:
    "openStores (saasSdk opts) (applicationHosting opts x) DeploymentModeSaaS runtime = Inr (rs, ds, ps)"
    "b = bindService (saasSdk opts) (saasPlatform opts) (saasWeb opts) (applicationHosting opts x) DeploymentModeSaaS runtime rs ds ps"
    "m = NewService (saasPlatform opts) rs canceled"
    by (rule openBinding_Inr)
  show "case bm of (b, m) \<Rightarrow> tenantBound (saasSdk opts) (trimSpace runtime) b \<and> ofRuntime (trimSpace runtime) m \<and>
      runtimeBinding opts (trimSpace runtime) b"
    using bindService_bound [OF p x] openStores_runtime [OF stores(1)] openStores_publisher [OF stores(1)]
    by (simp add: bm stores(2,3) ofRuntime_def NewService_runtime) (simp add: bindService_def runtimeBinding_def)
qed

lemma openApplication_tenant:
  assumes d: "downstreamsIsolated opts" and p: "platformIsolated opts"
  shows "tenantReturns (trimSpace runtime) (boundApplication opts (trimSpace runtime)) (openApplication opts canceled runtime)"
proof (cases "saasDownstreams opts")
  case (Some f)
  let ?rt = "trimSpace runtime"
  have f: "tenantReturns ?rt (\<lambda>found. \<forall>x. found = Some x \<longrightarrow> tenantDownstream ?rt x) (f runtime)"
    using d Some by (intro tenantReturns_moves) (auto simp: downstreamsIsolated_def)
  show ?thesis
    unfolding openApplication_def Some option.case
  proof (rule tenantReturns_bindE [OF f])
    fix found assume "\<forall>x. found = Some x \<longrightarrow> tenantDownstream ?rt x"
    then show "tenantReturns ?rt (boundApplication opts ?rt) (case found of
        None \<Rightarrow> fail (Errorf (''Scheduler SaaS downstream host is unavailable for '' @ ?rt))
      | Some downstream \<Rightarrow> bindE (OpenSaaS (saasSdk opts) (saasPlatform opts) (saasWeb opts) (saasValidApplication opts)
          (saasCapabilityError opts) (applicationHosting opts downstream) (saasMigrations opts) canceled runtime) (\<lambda>(b, m).
          bindE (hydrateBinding opts b m) (\<lambda>(hydrated, m').
          let a = \<lparr>appReady = hydrated, appStarted = False, appDone = None, appBinding = b, appMemory = m'\<rparr>
          in ret (if hydrated then startWorker opts canceled a else a))))"
      by (cases found) (auto simp: Let_def intro!: tenantReturns_pure startWorker_bound
          tenantReturns_bindE [OF OpenSaaS_tenant [OF p]] tenantReturns_bindE [OF hydrateBinding_tenant])
  qed
qed (simp add: openApplication_def tenantReturns_pure)

lemma saas_added:
  assumes f: "tenantReturns key (boundApplication opts key) f"
  shows "moves (saasTenant opts key) P (bindE (onTables f) (\<lambda>a.
    bindE (modifyMemory (\<lambda>m. m\<lparr>saasApplications := (saasApplications m)(key \<mapsto> a)\<rparr>)) (\<lambda>_. ret x)))"
  unfolding moves_def
proof (intro allI impI)
  fix w :: "SaasMemory process world"
  obtain r w' where r: "onTables f w = (r, w')" by fastforce
  then obtain v where v: "f (withState (tables (db w)) w) = (r, v)" "tables (db w') = db v" "memory (db w') = memory (db w)"
    by (rule onTables_E)
  have "tenantOnly key (tables (db w)) (db v)" "\<And>a. r = Inr a \<Longrightarrow> boundApplication opts key a"
    using f [unfolded tenantReturns_def, rule_format, OF v(1)] by auto
  with r v(2,3) show "saasTenant opts key (db w) (db (snd (bindE (onTables f) (\<lambda>a.
      bindE (modifyMemory (\<lambda>m. m\<lparr>saasApplications := (saasApplications m)(key \<mapsto> a)\<rparr>)) (\<lambda>_. ret x)) w)))"
    by (cases r) (auto simp: bindE_def modifyMemory_def ret_def saasTenant_def othersSame_def allBound_def)
qed

lemma application_key: "application opts runtime w = (Inr key, w') \<Longrightarrow> key = trimSpace runtime"
  by (auto simp: application_def applicationKey_def liftE_def ret_def Let_def elim!: bindE_InrE split: option.splits if_splits)

lemma saas_pure: "moves (saasTenant opts key) P (ret x)" "moves (saasTenant opts key) P (fail e)"
  "moves (saasTenant opts key) P (onTables envCall)"
  by (intro saas.moves_readonly readonly_intros)+

lemma saas_application:
  assumes "downstreamsIsolated opts" "platformIsolated opts"
  shows "moves (saasTenant opts (trimSpace runtime)) P (application opts runtime)"
proof (cases "applicationKey opts runtime")
  case (Inl e)
  then show ?thesis by (simp add: application_def bindE_def liftE_def moves_def saas.order_refl)
next
  case (Inr key)
  then have key: "key = trimSpace runtime" by (auto simp: applicationKey_def Let_def split: option.splits if_splits)
  have "application opts runtime = bindE getMemory (\<lambda>m. case saasApplications m key of
       Some _ \<Rightarrow> ret key
     | None \<Rightarrow> bindE (onTables (openApplication opts (saasCanceled m) runtime)) (\<lambda>a.
         bindE (modifyMemory (\<lambda>m. m\<lparr>saasApplications := (saasApplications m)(key \<mapsto> a)\<rparr>)) (\<lambda>_. ret key)))"
    by (rule ext) (simp add: application_def Inr bindE_def [of "liftE _"] liftE_def)
  moreover have "moves (saasTenant opts key) P (bindE getMemory (\<lambda>m. case saasApplications m key of
       Some _ \<Rightarrow> ret key
     | None \<Rightarrow> bindE (onTables (openApplication opts (saasCanceled m) runtime)) (\<lambda>a.
         bindE (modifyMemory (\<lambda>m. m\<lparr>saasApplications := (saasApplications m)(key \<mapsto> a)\<rparr>)) (\<lambda>_. ret key))))"
    by (rule saas.moves_bindE [OF saas.moves_readonly [OF readonly_getMemory]])
      (intro saas.moves_case_option saas_pure saas_added openApplication_tenant [OF assms, of runtime, folded key])
  ultimately show ?thesis by (simp add: key)
qed

text \<open>The rest of an operation runs on the application with the key of the request.\<close>

lemma saas_opened:
  assumes "downstreamsIsolated opts" "platformIsolated opts"
    and "moves (saasTenant opts (trimSpace runtime)) (\<lambda>_. True) (f (trimSpace runtime))"
  shows "moves (saasTenant opts (trimSpace runtime)) P (bindE (application opts runtime) f)"
  unfolding moves_def
proof (intro allI impI)
  fix w :: "SaasMemory process world"
  obtain r w' where r: "application opts runtime w = (r, w')" by fastforce
  have "saasTenant opts (trimSpace runtime) (db w) (db w')"
    using movesD [OF saas_application [OF assms(1,2), where P = "\<lambda>_. True"] _ r] by simp
  moreover have "saasTenant opts (trimSpace runtime) (db w') (db (snd (f (trimSpace runtime) w')))"
    using assms(3) by (simp add: moves_def)
  ultimately show "saasTenant opts (trimSpace runtime) (db w) (db (snd (bindE (application opts runtime) f w)))"
    using r application_key [of opts runtime w _ w']
    by (cases r) (auto simp: bindE_def intro: saas.order_trans)
qed

section \<open>Operations\<close>

lemma saas_withApplication:
  assumes "downstreamsIsolated opts" "platformIsolated opts"
    and "\<And>a. boundApplication opts (trimSpace runtime) a \<Longrightarrow> moves (tenantOnly (trimSpace runtime)) (\<lambda>_. True) (f a)"
  shows "moves (saasTenant opts (trimSpace runtime)) P (withApplication opts runtime (\<lambda>a. onTables (f a)))"
    and "moves (saasTenant opts (trimSpace runtime)) P (withReady opts runtime (\<lambda>a. onTables (f a)))"
  unfolding withReady_def withApplication_def
  by (intro saas_opened saas_onApplication assms(1,2) svc.moves_if svc_pure
      svc.moves_weaken [OF svc_tables [OF assms(3)]], auto)+

text \<open>What the operations do to the database when they run on the binding of an application.\<close>

lemma bound_memory_operations:
  assumes "boundApplication opts rt a"
  defines "m \<equiv> appMemory a" and "S \<equiv> saasSdk opts"
  shows "moves (tenantOnly rt) (\<lambda>_. True) (Tick S (appBinding a) m now limit)"
    "moves (tenantOnly rt) (\<lambda>_. True) (TriggerNow S (appBinding a) m key reason)"
    "moves (tenantOnly rt) (\<lambda>_. True) (serviceReschedule m key nxt)"
    "moves (tenantOnly rt) (\<lambda>_. True) (RetryRun S m ident reason)"
    "moves (tenantOnly rt) (\<lambda>_. True) (CancelRun S m ident reason)"
    "moves (tenantOnly rt) (\<lambda>_. True) (serviceResolveDeadLetter S m ident reason)"
    "moves (tenantOnly rt) (\<lambda>_. True) (serviceRequeueDeadLetter S m ident reason)"
    "moves (tenantOnly rt) (\<lambda>_. True) (Preview (servicePlatform (appBinding a)) rule after count)"
    "moves (tenantOnly rt) (\<lambda>_. True) (BeginDefinitionPublisherSession S (saasDefinitionStore a))"
proof -
  have b: "tenantBound S rt (appBinding a)" "runtimeID (memRuns m) = rt" "dsSourceID (saasDefinitionStore a) = rt"
    using assms by (simp_all add: boundApplication_def ofRuntime_def saasDefinitionStore_def runtimeBinding_def)
  show "moves (tenantOnly rt) (\<lambda>_. True) (Tick S (appBinding a) m now limit)"
    "moves (tenantOnly rt) (\<lambda>_. True) (TriggerNow S (appBinding a) m key reason)"
    by (rule tenant_Tick [OF b(1,2)], rule tenant_TriggerNow [OF b(1,2)])
  show "moves (tenantOnly rt) (\<lambda>_. True) (Preview (servicePlatform (appBinding a)) rule after count)"
    unfolding Preview_def by (intro tenant.moves_intros tenant_pure tenantBound_calls(2) [OF b(1)])
  show "moves (tenantOnly rt) (\<lambda>_. True) (BeginDefinitionPublisherSession S (saasDefinitionStore a))"
    using tenant_BeginSession [of "saasDefinitionStore a"] by (simp add: b(3))
qed (use assms tenant_Reschedule [of "memRuns m"] tenant_Retry [of "memRuns m"] tenant_Cancel [of "memRuns m"]
      tenant_ResolveDeadLetter [of "memRuns m"] tenant_RequeueDeadLetter [of "memRuns m"] in
    \<open>simp_all add: boundApplication_def ofRuntime_def serviceReschedule_def RetryRun_def CancelRun_def
      serviceResolveDeadLetter_def serviceRequeueDeadLetter_def\<close>)

lemma bound_plan_operations:
  assumes "boundApplication opts rt a"
  defines "b \<equiv> servicePlans (appBinding a)" and "S \<equiv> saasSdk opts"
  shows "moves (tenantOnly rt) (\<lambda>_. True) (CreateScheduledPlan S canonicalObject b c)"
    "moves (tenantOnly rt) (\<lambda>_. True) (UpdateScheduledPlan S canonicalObject b u)"
    "moves (tenantOnly rt) (\<lambda>_. True) (PauseScheduledPlan S b change)"
    "moves (tenantOnly rt) (\<lambda>_. True) (ResumeScheduledPlan S b change)"
    "moves (tenantOnly rt) (\<lambda>_. True) (DeleteScheduledPlan S b change)"
    "moves (tenantOnly rt) (\<lambda>_. True) (GetScheduledPlan S b owner ident)"
    "moves (tenantOnly rt) (\<lambda>_. True) (ListScheduledPlans S b inp)"
    "moves (tenantOnly rt) (\<lambda>_. True) (ReadScheduledPlanDeletion S b owner ident)"
proof -
  obtain ps rs runtime where b: "b = planService S ps rs runtime" "runtimeID rs = rt" "psRuntimeID ps = rt"
    using assms tenantBound_stores unfolding boundApplication_def by metis
  show "moves (tenantOnly rt) (\<lambda>_. True) (CreateScheduledPlan S canonicalObject b c)"
    "moves (tenantOnly rt) (\<lambda>_. True) (UpdateScheduledPlan S canonicalObject b u)"
    "moves (tenantOnly rt) (\<lambda>_. True) (PauseScheduledPlan S b change)"
    "moves (tenantOnly rt) (\<lambda>_. True) (ResumeScheduledPlan S b change)"
    "moves (tenantOnly rt) (\<lambda>_. True) (DeleteScheduledPlan S b change)"
    unfolding b(1) PauseScheduledPlan_def ResumeScheduledPlan_def
    by (rule tenant_plan_operations [OF b(2,3)])+
  show "moves (tenantOnly rt) (\<lambda>_. True) (GetScheduledPlan S b owner ident)"
    "moves (tenantOnly rt) (\<lambda>_. True) (ListScheduledPlans S b inp)"
    "moves (tenantOnly rt) (\<lambda>_. True) (ReadScheduledPlanDeletion S b owner ident)"
    unfolding b(1) by (intro tenant.moves_readonly readonly_plan_reads)+
qed

lemma bound_reads:
  "moves (tenantOnly rt) (\<lambda>_. True) (Runs S m limit)" "moves (tenantOnly rt) (\<lambda>_. True) (RunOf S m ident)"
  "moves (tenantOnly rt) (\<lambda>_. True) (serviceDeadLetters m limit)" "moves (tenantOnly rt) (\<lambda>_. True) (serviceDeadLetter m ident)"
  unfolding Runs_def RunOf_def serviceDeadLetters_def serviceDeadLetter_def
  by (intro tenant.moves_readonly readonly_reads)+

lemma saas_invoke:
  assumes iso: "downstreamsIsolated opts" "platformIsolated opts"
  shows "moves (saasTenant opts (trimSpace appl)) (\<lambda>_. True) (invoke opts appl call)"
proof -
  note ops = saas_withApplication(1) [OF iso] saas_withApplication(2) [OF iso] bound_memory_operations bound_plan_operations bound_reads
  have valued: "moves (saasTenant opts (trimSpace appl)) (\<lambda>_. True) (valued f m)"
    if "moves (saasTenant opts (trimSpace appl)) (\<lambda>_. True) m" for f and m :: "'a saasop"
    using that unfolding valued_def by (intro saas.moves_bindE saas_pure)
  have plans: "moves (saasTenant opts (trimSpace appl)) (\<lambda>_. True) (saasCreateScheduledPlan opts appl inp)" for inp
    unfolding saasCreateScheduledPlan_def
    by (intro saas_opened [OF iso] saas.moves_bindE saas_markReady saas_pure saas_onApplication
        svc.moves_weaken [OF svc_tables [OF bound_plan_operations(1)]]) simp_all
  have reconcile: "moves (saasTenant opts (trimSpace appl)) (\<lambda>_. True) (saasReconcile opts appl snapshot)" for snapshot
    unfolding saasReconcile_def
    by (intro saas_opened [OF iso] saas.moves_bindE saas_markReady saas_onApplication svc_reconcile)
      (simp add: boundApplication_def)
  have deletion: "moves (saasTenant opts (trimSpace appl)) (\<lambda>_. True) (saasReadScheduledPlanDeletion opts appl owner ident)" for owner ident
    unfolding saasReadScheduledPlanDeletion_def
    by (intro saas.moves_intros saas_pure saas_onApplication svc.moves_weaken [OF svc_tables [OF bound_plan_operations(8)]]) simp_all
  have descriptor: "moves (saasTenant opts (trimSpace appl)) (\<lambda>_. True) (saasDescriptor opts appl)"
    unfolding saasDescriptor_def by (intro saas_opened [OF iso] saas_pure)
  show ?thesis
    unfolding invoke_def
    by (cases call) (simp_all only: ServiceCall.case, (intro valued plans reconcile deletion descriptor saas.moves_bindE saas.moves_case_prod
        saas.moves_case_option saas_pure;
       (unfold saasGetScheduledPlan_def saasListScheduledPlans_def saasUpdateScheduledPlan_def saasPauseScheduledPlan_def
        saasResumeScheduledPlan_def saasDeleteScheduledPlan_def saasBeginDefinitionPublisherSession_def saasPreview_def
        saasTick_def saasTriggerNow_def saasReschedule_def saasRuns_def saasRun_def saasRetryRun_def saasCancelRun_def
        saasDeadLetters_def saasDeadLetter_def saasResolveDeadLetter_def saasRequeueDeadLetter_def)?; intro ops; assumption?)+)
qed

section \<open>Requests\<close>

lemma trimSpace_admitted: "admit V s request = Inr (appl, parts) \<Longrightarrow> trimSpace appl = appl"
  using admit_Inr(2) by (metis trimSpace_idem)

lemma ServeHTTP_tenant:
  assumes "downstreamsIsolated opts" "platformIsolated opts" "authenticate s request \<noteq> Some k"
  obtains key where "key \<noteq> k" "saasTenant opts key (db w) (db (snd (ServeHTTP opts C s request w)))"
proof (cases "admit (saasValidApplication opts) s request")
  case (Inl response)
  obtain key where "key \<noteq> k" using that ex_new_if_finite by (metis list.distinct(1))
  with Inl that show thesis by (simp add: ServeHTTP_def ret_def saas.order_refl)
next
  case (Inr x)
  obtain appl parts where x: "x = (appl, parts)" by (cases x)
  have appl: "appl \<noteq> k" "trimSpace appl = appl"
    using assms(3) admit_Inr(1) trimSpace_admitted Inr x by metis+
  have "moves (saasTenant opts appl) (\<lambda>_. True) (invoke opts appl call)" for call
    using saas_invoke [OF assms(1,2)] appl(2) by metis
  then have "moves (saasTenant opts appl) (\<lambda>_. True) (ServeHTTP opts C s request)"
    unfolding ServeHTTP_def Inr x sum.case prod.case
    by (cases "route C parts request") (auto intro!: saas.moves_attempt saas.moves_case_sum saas.moves_case_option saas_pure)
  then have "saasTenant opts appl (db w) (db (snd (ServeHTTP opts C s request w)))" by (simp add: moves_def)
  with appl(1) that show thesis by blast
qed

text \<open>A sequence of requests, and everything the database holds of one Runtime.\<close>

primrec serveAll :: "Saas \<Rightarrow> Codec \<Rightarrow> Server \<Rightarrow> ServerRequest list \<Rightarrow> SaasMemory process world \<Rightarrow> SaasMemory process world" where
  "serveAll opts C s [] w = w"
| "serveAll opts C s (request # requests) w = serveAll opts C s requests (snd (ServeHTTP opts C s request w))"

definition rowsOf :: "string \<Rightarrow> database \<Rightarrow> database" where
  "rowsOf k d =
     \<lparr>definition_states = filter (\<lambda>r. ds_runtime_id r = k) (definition_states d), runs = filter (\<lambda>r. r_runtime_id r = k) (runs d),
      run_events = filter (\<lambda>r. ev_runtime_id r = k) (run_events d), dead_letters = filter (\<lambda>r. dl_runtime_id r = k) (dead_letters d),
      definitions = filter (\<lambda>r. df_source_id r = k) (definitions d),
      command_receipts = filter (\<lambda>r. cr_runtime_id r = k) (command_receipts d),
      definition_snapshots = filter (\<lambda>r. sn_source_id r = k) (definition_snapshots d),
      definition_publications = filter (\<lambda>r. pb_source_id r = k) (definition_publications d),
      plans = filter (\<lambda>r. pl_runtime_id r = k) (plans d), capacity_guards = filter (\<lambda>r. cg_runtime_id r = k) (capacity_guards d)\<rparr>"

lemma foreign_rows: "k \<noteq> rt \<Longrightarrow> foreign owner rt rows' = foreign owner rt rows \<Longrightarrow>
    filter (\<lambda>r. owner r = k) rows' = filter (\<lambda>r. owner r = k) rows"
proof -
  assume "k \<noteq> rt" "foreign owner rt rows' = foreign owner rt rows"
  moreover have "filter (\<lambda>r. owner r = k) xs = filter (\<lambda>r. owner r = k) (foreign owner rt xs)" if "k \<noteq> rt" for xs
    using that by (auto simp: foreign_def intro: filter_cong)
  ultimately show ?thesis by metis
qed

lemma tenantOnly_rowsOf: "k \<noteq> rt \<Longrightarrow> tenantOnly rt d d' \<Longrightarrow> rowsOf k d' = rowsOf k d"
  unfolding tenantOnly_def rowsOf_def by (auto intro: foreign_rows)

interpretation bound: db_order "\<lambda>p p'. allBound opts (memory p) \<longrightarrow> allBound opts (memory p')" for opts
  by unfold_locales auto

lemma NewDatabaseService_bound:
  assumes "downstreamsIsolated opts" "platformIsolated opts" "saasApplications (memory (db w)) = Map.empty"
  shows "allBound opts (memory (db (snd (NewDatabaseService opts w))))"
proof -
  have "moves (\<lambda>p p'. allBound opts (memory p) \<longrightarrow> allBound opts (memory p')) (\<lambda>_. True) (application opts runtime)" for runtime
    using saas_application [OF assms(1,2), of runtime "\<lambda>_. True"] by (auto simp: moves_def saasTenant_def)
  moreover have "moves (\<lambda>p p'. allBound opts (memory p) \<longrightarrow> allBound opts (memory p')) (\<lambda>_. True) Shutdown"
    by (simp add: moves_def Shutdown_def modifyMemory_def allBound_def)
  ultimately have "moves (\<lambda>p p'. allBound opts (memory p) \<longrightarrow> allBound opts (memory p')) (\<lambda>_. True) (NewDatabaseService opts)"
    unfolding NewDatabaseService_def
    by (intro bound.moves_intros bound.moves_foldE bound.moves_readonly [OF readonly_basic(1)] bound.moves_readonly [OF readonly_basic(2)])
  then have "allBound opts (memory (db w)) \<longrightarrow> allBound opts (memory (db (snd (NewDatabaseService opts w))))"
    by (simp add: moves_def)
  moreover have "allBound opts (memory (db w))" using assms(3) by (simp add: allBound_def)
  ultimately show ?thesis by blast
qed

lemma serveAll_bound:
  assumes "downstreamsIsolated opts" "platformIsolated opts" "allBound opts (memory (db w))"
  shows "allBound opts (memory (db (serveAll opts C s requests w)))"
  using assms(3)
proof (induction requests arbitrary: w)
  case (Cons request requests)
  obtain k where "authenticate s request \<noteq> Some k" by (metis list.distinct(1) option.inject)
  then obtain key where "saasTenant opts key (db w) (db (snd (ServeHTTP opts C s request w)))"
    using ServeHTTP_tenant [OF assms(1,2)] by blast
  with Cons.prems Cons.IH show ?case by (simp add: saasTenant_def)
qed simp

lemma serveAll_tenant:
  assumes iso: "downstreamsIsolated opts" "platformIsolated opts"
    and "allBound opts (memory (db w))" "\<forall>request \<in> set requests. authenticate s request \<noteq> Some k"
  shows "rowsOf k (tables (db (serveAll opts C s requests w))) = rowsOf k (tables (db w)) \<and>
    saasApplications (memory (db (serveAll opts C s requests w))) k = saasApplications (memory (db w)) k"
  using assms(3,4)
proof (induction requests arbitrary: w)
  case (Cons request requests)
  obtain key where key: "key \<noteq> k" "saasTenant opts key (db w) (db (snd (ServeHTTP opts C s request w)))"
    using ServeHTTP_tenant [OF iso, of s request k w C] Cons.prems(2) by auto
  with Cons.prems(1) have "allBound opts (memory (db (snd (ServeHTTP opts C s request w))))"
    "rowsOf k (tables (db (snd (ServeHTTP opts C s request w)))) = rowsOf k (tables (db w))"
    "saasApplications (memory (db (snd (ServeHTTP opts C s request w)))) k = saasApplications (memory (db w)) k"
    by (auto simp: saasTenant_def othersSame_def intro: tenantOnly_rowsOf)
  with Cons.IH [of "snd (ServeHTTP opts C s request w)"] Cons.prems(2) show ?case by simp
qed simp

text \<open>
  C1. Tenants are isolated. Once the SaaS service has been started, no sequence of requests, however they fail, changes a row or the
  binding of an application that none of them presented the credential of: the table rows of its Runtime are the same,
  in the same order, and so are its definitions in memory, its worker and its readiness. The hypotheses are on code outside
  the repository: downstream hosts, the HTTP client, the migrations and the schedule library leave the rows of other Runtimes
  alone, and the heartbeat does only what it is given.
\<close>

theorem tenants_isolated:
  assumes "downstreamsIsolated opts" "platformIsolated opts"
    and "saasApplications (memory (db w0)) = Map.empty" "NewDatabaseService opts w0 = (Inr (), w)"
    and "\<forall>request \<in> set requests. authenticate s request \<noteq> Some k"
  shows "let before = db (serveAll opts C s earlier w); after = db (serveAll opts C s (earlier @ requests) w) in
    rowsOf k (tables after) = rowsOf k (tables before) \<and> saasApplications (memory after) k = saasApplications (memory before) k"
proof -
  have all: "serveAll opts C s (earlier @ requests) w = serveAll opts C s requests (serveAll opts C s earlier w)"
    by (induction earlier arbitrary: w) simp_all
  have "allBound opts (memory (db w))" using NewDatabaseService_bound [OF assms(1-3)] assms(4) by simp
  then have "allBound opts (memory (db (serveAll opts C s earlier w)))" by (rule serveAll_bound [OF assms(1,2)])
  with serveAll_tenant [OF assms(1,2)] assms(5) show ?thesis unfolding all Let_def by blast
qed

section \<open>Example\<close>

text \<open>A service without configured applications, whose downstream hosts accept every trigger.\<close>

definition exSaas :: Saas where
  "exSaas = \<lparr>saasSdk = exSdk,
     saasNames = \<lparr>protocolVersionV1 = ''v1'', capPublicationFencing = ''fencing'', capPlanRecords = ''plans'',
       capPlanDeletionRead = ''deletions'', capTriggerBacklog = ''backlog''\<rparr>, saasPlatform = exPlatform,
     saasWeb = \<lparr>webConnection = (\<lambda>_. fail (Errorf ''no connection'')), webDo = (\<lambda>_. fail (Errorf ''offline'')),
       webParseURL = (\<lambda>_. None), webResolve = (\<lambda>_ _. []), webNewRequest = (\<lambda>_ _. None),
       webDecodeReceipt = (\<lambda>_. \<lparr>decReceiptID = [], decID = [], decStatus = [], decSuccess = None, decErrCode = None, decErrMsg = []\<rparr>)\<rparr>,
     saasValidApplication = (\<lambda>r. if r = [] then Some (Errorf ''empty'') else None), saasCapabilityError = None,
     saasCanonicalObject = Inr,
     saasOrm = \<lparr>ormParse = (\<lambda>_. Inr SQLite), ormBuild = (\<lambda>_ _. Inr []), ormRunnerError = (\<lambda>_. None), ormApply = (\<lambda>_ _ _. ret ())\<rparr>,
     saasDatabase = True, saasDriver = ''sqlite'', saasSchema = [], saasWorkerID = ''a'', saasWorker = emptyWorkerConfig,
     saasConfigured = [], saasDownstreams = Some (\<lambda>_. ret (Some
       \<lparr>downDispatch = (\<lambda>_ _. ret exReceipt), downConnection = ResolveHTTPConnection\<rparr>)), saasPlanBound = 1\<rparr>"

lemma exSaas_isolated: "downstreamsIsolated exSaas" "platformIsolated exSaas"
proof -
  show "downstreamsIsolated exSaas"
    by (auto simp: downstreamsIsolated_def exSaas_def tenantDownstream_def ResolveHTTPConnection_def tenant_pure elim!: ret_InrE)
  have "heartbeatRuns b" if "servicePlatform b = exPlatform" for b
    using exService_heartbeat [of "Inr exReceipt"] that by (simp add: heartbeatRuns_def exService_def)
  then show "platformIsolated exSaas"
    by (auto simp: platformIsolated_def exSaas_def exPlatform_def intro: tenant_pure)
qed

definition exServer :: Server where
  "exServer = \<lparr>serverCredentials = [(''app'', sha256 ''secret'')], serverCapabilityPrefix = ''/capability'',
     serverCapability = (\<lambda>_. noContent)\<rparr>"

definition exTickRequest :: ServerRequest where
  "exTickRequest = \<lparr>inMethod = ''POST'', inPath = ''/v1/applications/app/ticks'', inAuthorization = ''Bearer secret'',
     inQuery = (\<lambda>_. []), inBody = ''{}''\<rparr>"

definition exSaasWorld :: "SaasMemory process world" where
  "exSaasWorld = withState \<lparr>memory = \<lparr>saasApplications = Map.empty, saasCanceled = False\<rparr>, tables = exLeased\<rparr>
     (exWorld exLeased exNoon)"

definition exCodec :: Codec where
  "exCodec = \<lparr>decodeSnapshot = (\<lambda>_. None), decodeReschedule = (\<lambda>_. None), decodePlanCreate = (\<lambda>_. None),
     decodePlanUpdate = (\<lambda>_. None), decodeStatusChange = (\<lambda>_. None), decodePreview = (\<lambda>_. None),
     decodeTick = (\<lambda>_. Some (exNoon, 5)), decodeTrigger = (\<lambda>_. None), decodeReason = (\<lambda>_. None), encodeValue = (\<lambda>_. ''{}'')\<rparr>"

lemma exNotBlank: "\<not> isBlank ''sqlite''" "\<not> isBlank ''a''"
  by code_simp+

theorem tenants_isolated_witness:
  "rowsOf ''rt'' (tables (db (serveAll exSaas exCodec exServer [exTickRequest] exSaasWorld))) = rowsOf ''rt'' exLeased \<and>
   runs (rowsOf ''rt'' exLeased) = runs exLeased \<and> authenticate exServer exTickRequest = Some ''app''"
proof -
  have start: "NewDatabaseService exSaas exSaasWorld = (Inr (), exSaasWorld)"
    by (simp add: NewDatabaseService_def exSaas_def ret_def exNotBlank Renderer_def NewEngine_def databaseEngineFactories_def)
  have auth: "authenticate exServer exTickRequest = Some ''app''"
    by (simp add: authenticate_def startsWith_def bearerPrefix_def exServer_def exTickRequest_def Let_def)
  have "saasApplications (memory (db exSaasWorld)) = Map.empty" by (simp add: exSaasWorld_def)
  from tenants_isolated [OF exSaas_isolated this start, where requests = "[exTickRequest]" and s = exServer and k = "''rt''"
      and earlier = "[]" and C = exCodec] auth
  show ?thesis by (simp add: Let_def exSaasWorld_def) (simp add: rowsOf_def exLeased_def exStore_def runRow_def)
qed

end
