(* ===== verification/Remote_Binding.thy ===== *)
theory Remote_Binding
  imports Scheduler_Service Scheduler_Examples
begin

text \<open>
  The Runtime's side of the SaaS deployment, \<^verbatim>\<open>remote/factory.go\<close> and \<^verbatim>\<open>remote/scheduled_plan_receipt.go\<close>: a binding
  that sends every operation to the Scheduler over a transport. The transport is the record \<open>Transport\<close> of the SDK's
  interface, over any state; the optional interfaces it may implement are options. The publisher session the Scheduler
  issued when the binding was opened is the only one it publishes under.
\<close>

section \<open>The transport\<close>

record 'd PlanTransport =
  sendCreatePlan :: "string \<Rightarrow> ScheduledPlanCreate \<Rightarrow> ('d, ScheduledPlanReceipt) go"
  sendGetPlan :: "string \<Rightarrow> ScheduledPlanOwner \<times> string \<Rightarrow> ('d, ScheduledPlan) go"
  sendListPlans :: "string \<Rightarrow> ScheduledPlanList \<Rightarrow> ('d, ScheduledPlanPage) go"
  sendUpdatePlan :: "string \<Rightarrow> ScheduledPlanUpdate \<Rightarrow> ('d, ScheduledPlanReceipt) go"
  sendPausePlan :: "string \<Rightarrow> ScheduledPlanStatusChange \<Rightarrow> ('d, ScheduledPlanReceipt) go"
  sendResumePlan :: "string \<Rightarrow> ScheduledPlanStatusChange \<Rightarrow> ('d, ScheduledPlanReceipt) go"
  sendDeletePlan :: "string \<Rightarrow> ScheduledPlanStatusChange \<Rightarrow> ('d, ScheduledPlanDeleteReceipt) go"

record 'd Transport =
  bindTransport :: "(string \<Rightarrow> ('d, unit) go) option"
  sendDescriptor :: "string \<Rightarrow> ('d, Descriptor) go"
  sendBeginSession :: "(string \<Rightarrow> ('d, DefinitionPublisherSession) go) option"
  sendReconcile :: "string \<Rightarrow> HostSnapshot \<Rightarrow> ('d, unit) go"
  sendPreview :: "string \<Rightarrow> Schedule \<Rightarrow> time \<Rightarrow> int \<Rightarrow> ('d, time list) go"
  sendTick :: "string \<Rightarrow> time \<Rightarrow> int \<Rightarrow> ('d, int) go"
  sendTriggerNow :: "string \<Rightarrow> string \<Rightarrow> string \<Rightarrow> ('d, Run) go"
  sendReschedule :: "string \<Rightarrow> string \<Rightarrow> time \<Rightarrow> string \<Rightarrow> ('d, unit) go"
  sendRuns :: "string \<Rightarrow> int \<Rightarrow> ('d, Run list) go"
  sendRun :: "string \<Rightarrow> string \<Rightarrow> ('d, Run) go"
  sendRetryRun :: "string \<Rightarrow> string \<Rightarrow> string \<Rightarrow> ('d, Run) go"
  sendCancelRun :: "string \<Rightarrow> string \<Rightarrow> string \<Rightarrow> ('d, Run) go"
  sendDeadLetters :: "string \<Rightarrow> int \<Rightarrow> ('d, DeadLetter list) go"
  sendDeadLetter :: "string \<Rightarrow> string \<Rightarrow> ('d, DeadLetter) go"
  sendResolveDeadLetter :: "string \<Rightarrow> string \<Rightarrow> string \<Rightarrow> ('d, DeadLetter) go"
  sendRequeueDeadLetter :: "string \<Rightarrow> string \<Rightarrow> string \<Rightarrow> ('d, Run) go"
  planTransport :: "'d PlanTransport option"
  sendPlanDeletion :: "(string \<Rightarrow> ScheduledPlanOwner \<times> string \<Rightarrow> ('d, ScheduledPlanDeleteReceipt) go) option"

text \<open>What the SDK decides: the validation of its values, the capabilities of a descriptor and their names.\<close>

record RemoteSdk =
  remoteValidApplication :: "string \<Rightarrow> goerr option"
  remoteValidDescriptor :: "Descriptor \<Rightarrow> goerr option"
  remoteValidSession :: "DefinitionPublisherSession \<Rightarrow> goerr option"
  remoteValidSnapshot :: "HostSnapshot \<Rightarrow> goerr option"
  remoteSupports :: "Descriptor \<Rightarrow> string \<Rightarrow> bool"
  remoteNames :: ProtocolNames

section \<open>Opening\<close>

record 'd remoteBinding =
  rbApplication :: string
  rbTransport :: "'d Transport"
  rbSnapshot :: "('d, HostSnapshot) go"
  rbDescriptor :: Descriptor
  rbPublication :: DefinitionPublisherSession

text \<open>\<^verbatim>\<open>Factory\<close>: a transport given, or the opening of an HTTP transport.\<close>

record 'd remoteFactory =
  facTransport :: "'d Transport option"
  facOpenHTTP :: "('d, 'd Transport) go option"

definition NewFactory :: "'d Transport list \<Rightarrow> 'd remoteFactory" where
  "NewFactory given = \<lparr>facTransport = (case given of [] \<Rightarrow> None | t # _ \<Rightarrow> Some t), facOpenHTTP = None\<rparr>"

definition NewHTTPFactory :: "('d, 'd Transport) go \<Rightarrow> 'd remoteFactory" where
  "NewHTTPFactory openHTTP = \<lparr>facTransport = None, facOpenHTTP = Some openHTTP\<rparr>"

definition OpenFactory :: "'d remoteFactory \<Rightarrow> string \<Rightarrow> ('d, 'd remoteBinding) go" where
  "OpenFactory f appl = fail (Errorf ''Scheduler SaaS requires Runtime host capabilities'')"

definition selectTransport :: "'d remoteFactory \<Rightarrow> ('d, 'd Transport option) go" where
  "selectTransport f =
     (case facTransport f of
        Some t \<Rightarrow> ret (Some t)
      | None \<Rightarrow> (case facOpenHTTP f of None \<Rightarrow> ret None | Some openHTTP \<Rightarrow> bindE openHTTP (\<lambda>t. ret (Some t))))"

definition beginSession ::
  "RemoteSdk \<Rightarrow> 'd Transport \<Rightarrow> string \<Rightarrow> ('d, DefinitionPublisherSession) go" where
  "beginSession R t appl =
     (case sendBeginSession t of None \<Rightarrow> fail (Sentinel ErrDefinitionPublicationCapabilityRequired) | Some begin \<Rightarrow>
      attempt (begin appl) (\<lambda>q. case q of
        Inl e \<Rightarrow> fail (Wrapf ''begin Scheduler definition publisher session: '' e)
      | Inr session \<Rightarrow>
          (case remoteValidSession R session of
             Some e \<Rightarrow> fail (Wrapf ''begin Scheduler definition publisher session: '' e)
           | None \<Rightarrow> ret session)))"

text \<open>\<open>host\<close> is \<open>None\<close> when the host, its definitions or its dispatcher is nil.\<close>

definition remoteOpenSaaS ::
  "RemoteSdk \<Rightarrow> 'd remoteFactory \<Rightarrow> string \<Rightarrow> ('d, HostSnapshot) go option \<Rightarrow> ('d, 'd remoteBinding) go" where
  "remoteOpenSaaS R f appl host =
     (case remoteValidApplication R appl of Some e \<Rightarrow> fail e | None \<Rightarrow>
      bindE (selectTransport f) (\<lambda>selected. case selected of
        None \<Rightarrow> fail (Errorf ''Scheduler SaaS transport is required'')
      | Some t \<Rightarrow>
          (case host of None \<Rightarrow> fail (Errorf ''Scheduler SaaS Runtime host is incomplete'') | Some snapshot \<Rightarrow>
           attempt (case bindTransport t of None \<Rightarrow> ret () | Some binder \<Rightarrow> binder appl) (\<lambda>q. case q of
             Inl e \<Rightarrow> fail (Wrapf ''bind Scheduler SaaS transport application: '' e)
           | Inr _ \<Rightarrow>
               attempt (sendDescriptor t appl) (\<lambda>q. case q of
                 Inl e \<Rightarrow> fail (Wrapf ''read Scheduler SaaS descriptor: '' e)
               | Inr descriptor \<Rightarrow>
                   (case remoteValidDescriptor R descriptor of Some e \<Rightarrow> fail e | None \<Rightarrow>
                    if descMode descriptor \<noteq> DeploymentModeSaaS
                    then fail (Errorf ''Scheduler remote descriptor mode must be saas'')
                    else if \<not> remoteSupports R descriptor (capPublicationFencing (remoteNames R))
                    then fail (Sentinel ErrDefinitionPublicationCapabilityRequired)
                    else bindE (beginSession R t appl) (\<lambda>session.
                      ret \<lparr>rbApplication = appl, rbTransport = t, rbSnapshot = snapshot, rbDescriptor = descriptor,
                           rbPublication = session\<rparr>)))))))"

section \<open>Operations\<close>

definition remoteReconcile :: "RemoteSdk \<Rightarrow> 'd remoteBinding \<Rightarrow> ('d, unit) go" where
  "remoteReconcile R b =
     attempt (rbSnapshot b) (\<lambda>q. case q of
       Inl e \<Rightarrow> fail (Wrapf ''read Runtime Scheduler definitions: '' e)
     | Inr snapshot \<Rightarrow>
         let snapshot = snapshot\<lparr>hostSession := None\<rparr> in
         (case remoteValidSnapshot R snapshot of Some e \<Rightarrow> fail e | None \<Rightarrow>
          sendReconcile (rbTransport b) (rbApplication b) (snapshot\<lparr>hostSession := Some (rbPublication b)\<rparr>)))"

definition remotePreview :: "'d remoteBinding \<Rightarrow> Schedule \<Rightarrow> time \<Rightarrow> int \<Rightarrow> ('d, time list) go" where
  "remotePreview b rule after count = sendPreview (rbTransport b) (rbApplication b) rule after count"

definition remoteTick :: "'d remoteBinding \<Rightarrow> time \<Rightarrow> int \<Rightarrow> ('d, int) go" where
  "remoteTick b now limit = sendTick (rbTransport b) (rbApplication b) now limit"

definition remoteTriggerNow :: "'d remoteBinding \<Rightarrow> string \<Rightarrow> string \<Rightarrow> ('d, Run) go" where
  "remoteTriggerNow b key reason = sendTriggerNow (rbTransport b) (rbApplication b) key reason"

definition remoteReschedule :: "'d remoteBinding \<Rightarrow> string \<Rightarrow> time \<Rightarrow> string \<Rightarrow> ('d, unit) go" where
  "remoteReschedule b key nxt reason = sendReschedule (rbTransport b) (rbApplication b) key nxt reason"

definition remoteRuns :: "'d remoteBinding \<Rightarrow> int \<Rightarrow> ('d, Run list) go" where
  "remoteRuns b limit = sendRuns (rbTransport b) (rbApplication b) limit"

definition remoteRun :: "'d remoteBinding \<Rightarrow> string \<Rightarrow> ('d, Run) go" where
  "remoteRun b ident = sendRun (rbTransport b) (rbApplication b) ident"

definition remoteRetryRun :: "'d remoteBinding \<Rightarrow> string \<Rightarrow> string \<Rightarrow> ('d, Run) go" where
  "remoteRetryRun b ident reason = sendRetryRun (rbTransport b) (rbApplication b) ident reason"

definition remoteCancelRun :: "'d remoteBinding \<Rightarrow> string \<Rightarrow> string \<Rightarrow> ('d, Run) go" where
  "remoteCancelRun b ident reason = sendCancelRun (rbTransport b) (rbApplication b) ident reason"

definition remoteDeadLetters :: "'d remoteBinding \<Rightarrow> int \<Rightarrow> ('d, DeadLetter list) go" where
  "remoteDeadLetters b limit = sendDeadLetters (rbTransport b) (rbApplication b) limit"

definition remoteDeadLetter :: "'d remoteBinding \<Rightarrow> string \<Rightarrow> ('d, DeadLetter) go" where
  "remoteDeadLetter b ident = sendDeadLetter (rbTransport b) (rbApplication b) ident"

definition remoteResolveDeadLetter :: "'d remoteBinding \<Rightarrow> string \<Rightarrow> string \<Rightarrow> ('d, DeadLetter) go" where
  "remoteResolveDeadLetter b ident reason = sendResolveDeadLetter (rbTransport b) (rbApplication b) ident reason"

definition remoteRequeueDeadLetter :: "'d remoteBinding \<Rightarrow> string \<Rightarrow> string \<Rightarrow> ('d, Run) go" where
  "remoteRequeueDeadLetter b ident reason = sendRequeueDeadLetter (rbTransport b) (rbApplication b) ident reason"

text \<open>The seven plan operations start with the same guard.\<close>

definition withPlans :: "RemoteSdk \<Rightarrow> 'd remoteBinding \<Rightarrow> ('d PlanTransport \<Rightarrow> ('d, 'a) go) \<Rightarrow> ('d, 'a) go" where
  "withPlans R b f =
     (case planTransport (rbTransport b) of
        Some pt \<Rightarrow> if remoteSupports R (rbDescriptor b) (capPlanRecords (remoteNames R)) then f pt
          else fail (Errorf ''Scheduler SaaS plan records are unavailable'')
      | None \<Rightarrow> fail (Errorf ''Scheduler SaaS plan records are unavailable''))"

definition remoteCreatePlan :: "RemoteSdk \<Rightarrow> 'd remoteBinding \<Rightarrow> ScheduledPlanCreate \<Rightarrow> ('d, ScheduledPlanReceipt) go" where
  "remoteCreatePlan R b inp = withPlans R b (\<lambda>pt. sendCreatePlan pt (rbApplication b) inp)"

definition remoteGetPlan :: "RemoteSdk \<Rightarrow> 'd remoteBinding \<Rightarrow> ScheduledPlanOwner \<times> string \<Rightarrow> ('d, ScheduledPlan) go" where
  "remoteGetPlan R b lookup = withPlans R b (\<lambda>pt. sendGetPlan pt (rbApplication b) lookup)"

definition remoteListPlans :: "RemoteSdk \<Rightarrow> 'd remoteBinding \<Rightarrow> ScheduledPlanList \<Rightarrow> ('d, ScheduledPlanPage) go" where
  "remoteListPlans R b inp = withPlans R b (\<lambda>pt. sendListPlans pt (rbApplication b) inp)"

definition remoteUpdatePlan :: "RemoteSdk \<Rightarrow> 'd remoteBinding \<Rightarrow> ScheduledPlanUpdate \<Rightarrow> ('d, ScheduledPlanReceipt) go" where
  "remoteUpdatePlan R b inp = withPlans R b (\<lambda>pt. sendUpdatePlan pt (rbApplication b) inp)"

definition remotePausePlan :: "RemoteSdk \<Rightarrow> 'd remoteBinding \<Rightarrow> ScheduledPlanStatusChange \<Rightarrow> ('d, ScheduledPlanReceipt) go" where
  "remotePausePlan R b inp = withPlans R b (\<lambda>pt. sendPausePlan pt (rbApplication b) inp)"

definition remoteResumePlan :: "RemoteSdk \<Rightarrow> 'd remoteBinding \<Rightarrow> ScheduledPlanStatusChange \<Rightarrow> ('d, ScheduledPlanReceipt) go" where
  "remoteResumePlan R b inp = withPlans R b (\<lambda>pt. sendResumePlan pt (rbApplication b) inp)"

definition remoteDeletePlan :: "RemoteSdk \<Rightarrow> 'd remoteBinding \<Rightarrow> ScheduledPlanStatusChange \<Rightarrow> ('d, ScheduledPlanDeleteReceipt) go" where
  "remoteDeletePlan R b inp = withPlans R b (\<lambda>pt. sendDeletePlan pt (rbApplication b) inp)"

definition remoteReadPlanDeletion ::
  "RemoteSdk \<Rightarrow> 'd remoteBinding \<Rightarrow> ScheduledPlanOwner \<times> string \<Rightarrow> ('d, ScheduledPlanDeleteReceipt) go" where
  "remoteReadPlanDeletion R b lookup =
     (case sendPlanDeletion (rbTransport b) of
        Some reader \<Rightarrow> if remoteSupports R (rbDescriptor b) (capPlanDeletionRead (remoteNames R)) then reader (rbApplication b) lookup
          else fail (Sentinel ErrScheduledPlanDeletionReadUnsupported)
      | None \<Rightarrow> fail (Sentinel ErrScheduledPlanDeletionReadUnsupported))"

section \<open>The handle\<close>

text \<open>
  \<open>handleWaiting\<close> are the channels whose goroutine still waits, each with the context it was started with; a context is
  its number among the contexts, and \<open>canceled\<close> are those that are done.
\<close>

record remoteHandle =
  handleClosed :: bool
  handleChannels :: nat
  handleWaiting :: "(nat \<times> nat) list"

definition remoteStart :: "nat option \<Rightarrow> nat set \<Rightarrow> remoteHandle \<Rightarrow> doneChannel \<times> remoteHandle" where
  "remoteStart ctx canceled h =
     (case ctx of
        None \<Rightarrow> (ClosedChannel, h)
      | Some c \<Rightarrow>
          if c \<in> canceled \<or> handleClosed h then (ClosedChannel, h)
          else (WorkerChannel (handleChannels h),
                h\<lparr>handleChannels := Suc (handleChannels h), handleWaiting := (handleChannels h, c) # handleWaiting h\<rparr>))"

text \<open>The goroutines that may go on after their context or the handle is done close their channels.\<close>

definition remoteWake :: "nat set \<Rightarrow> remoteHandle \<Rightarrow> remoteHandle" where
  "remoteWake canceled h =
     h\<lparr>handleWaiting := filter (\<lambda>(n, c). c \<notin> canceled \<and> \<not> handleClosed h) (handleWaiting h)\<rparr>"

definition remoteClose :: "remoteHandle \<Rightarrow> remoteHandle" where
  "remoteClose h = h\<lparr>handleClosed := True\<rparr>"

section \<open>Fencing\<close>

text \<open>
  A binding is opened only against a fenced SaaS Scheduler, and under the session that Scheduler issued: the identity is
  valid, the host complete, the descriptor valid, of mode \<^verbatim>\<open>saas\<close> and with publication fencing, and the session it will
  publish under is the validated answer to its own request.
\<close>

theorem remote_open_fenced:
  assumes "remoteOpenSaaS R f appl host w = (Inr b, w')"
  shows "remoteValidApplication R appl = None \<and> rbApplication b = appl \<and> host = Some (rbSnapshot b) \<and>
    remoteValidDescriptor R (rbDescriptor b) = None \<and> descMode (rbDescriptor b) = DeploymentModeSaaS \<and>
    remoteSupports R (rbDescriptor b) (capPublicationFencing (remoteNames R)) \<and>
    remoteValidSession R (rbPublication b) = None \<and>
    (\<exists>begin w1. sendBeginSession (rbTransport b) = Some begin \<and> begin appl w1 = (Inr (rbPublication b), w'))"
proof -
  obtain t snapshot descriptor w1 session where steps: "remoteValidApplication R appl = None" "host = Some snapshot"
      "remoteValidDescriptor R descriptor = None" "descMode descriptor = DeploymentModeSaaS"
      "remoteSupports R descriptor (capPublicationFencing (remoteNames R))" "beginSession R t appl w1 = (Inr session, w')"
      "b = \<lparr>rbApplication = appl, rbTransport = t, rbSnapshot = snapshot, rbDescriptor = descriptor, rbPublication = session\<rparr>"
    using assms unfolding remoteOpenSaaS_def
    by (auto simp: attempt_def fail_def ret_def elim!: bindE_InrE split: option.splits sum.splits prod.splits if_splits)
  from steps(6) show ?thesis
    using steps(1-5,7) unfolding beginSession_def
    by (auto simp: attempt_def fail_def ret_def split: option.splits sum.splits prod.splits)
qed

text \<open>
  The binding publishes under the issued session only. Two transports that agree on snapshots that carry this session and
  pass validation without it cannot be told apart by a reconciliation, whatever session the Runtime's own snapshot
  carries; and an invalid snapshot, or one that cannot be read, is never sent.
\<close>

theorem remote_publishes_issued_session:
  assumes "\<And>snapshot. hostSession snapshot = Some (rbPublication b) \<Longrightarrow>
      remoteValidSnapshot R (snapshot\<lparr>hostSession := None\<rparr>) = None \<Longrightarrow>
      sendReconcile t (rbApplication b) snapshot = sendReconcile (rbTransport b) (rbApplication b) snapshot"
  shows "remoteReconcile R (b\<lparr>rbTransport := t\<rparr>) w = remoteReconcile R b w"
  using assms by (auto simp: remoteReconcile_def attempt_def Let_def fail_def split: prod.split sum.split option.split)

text \<open>
  Once the handle is closed every waiting channel may be closed, none is made any more, and closing again changes nothing.
\<close>

lemma remote_close_final:
  assumes "handleClosed h"
  shows "remoteStart ctx canceled h = (ClosedChannel, h)" "handleWaiting (remoteWake canceled h) = []" "remoteClose h = h"
  using assms by (auto simp: remoteStart_def remoteWake_def remoteClose_def split: option.split)

section \<open>Witnesses\<close>

definition exIssued :: DefinitionPublisherSession where
  "exIssued = \<lparr>sessionGeneration = 3, sessionNonce = ''n''\<rparr>"

text \<open>A Scheduler whose state is the last snapshot it was sent.\<close>

definition exTransport :: "HostSnapshot Transport" where
  "exTransport = \<lparr>bindTransport = None,
     sendDescriptor = (\<lambda>_. ret \<lparr>descProtocolVersion = ''v1'', descMode = DeploymentModeSaaS, descCapabilities = [''fencing'']\<rparr>),
     sendBeginSession = Some (\<lambda>_. ret exIssued),
     sendReconcile = (\<lambda>_ snapshot w. (Inr (), w\<lparr>db := snapshot\<rparr>)),
     sendPreview = (\<lambda>_ _ _ _. ret []), sendTick = (\<lambda>_ _ _. ret 0), sendTriggerNow = (\<lambda>_ _ _. fail (Errorf [])),
     sendReschedule = (\<lambda>_ _ _ _. ret ()), sendRuns = (\<lambda>_ _. ret []), sendRun = (\<lambda>_ _. fail (Errorf [])),
     sendRetryRun = (\<lambda>_ _ _. fail (Errorf [])), sendCancelRun = (\<lambda>_ _ _. fail (Errorf [])), sendDeadLetters = (\<lambda>_ _. ret []),
     sendDeadLetter = (\<lambda>_ _. fail (Errorf [])), sendResolveDeadLetter = (\<lambda>_ _ _. fail (Errorf [])),
     sendRequeueDeadLetter = (\<lambda>_ _ _. fail (Errorf [])), planTransport = None, sendPlanDeletion = None\<rparr>"

definition exRemoteSdk :: RemoteSdk where
  "exRemoteSdk = \<lparr>remoteValidApplication = (\<lambda>_. None), remoteValidDescriptor = (\<lambda>_. None), remoteValidSession = (\<lambda>_. None),
     remoteValidSnapshot = (\<lambda>s. if hostRevision s < 1 then Some (Errorf ''revision'') else None),
     remoteSupports = (\<lambda>d capability. capability \<in> set (descCapabilities d)),
     remoteNames = \<lparr>protocolVersionV1 = ''v1'', capPublicationFencing = ''fencing'', capPlanRecords = ''plans'',
       capPlanDeletionRead = ''deletions'', capTriggerBacklog = ''backlog''\<rparr>\<rparr>"

definition exHostSnapshot :: HostSnapshot where
  "exHostSnapshot = \<lparr>hostRevision = 7, hostDefinitions = [], hostSession = Some \<lparr>sessionGeneration = 9, sessionNonce = ''forged''\<rparr>\<rparr>"

definition exRemoteWorld :: "HostSnapshot world" where
  "exRemoteWorld = \<lparr>db = exHostSnapshot, clock = (\<lambda>_. 0), reads = 0, fault = (\<lambda>_. None), calls = 0, entropy = (\<lambda>_. []), draws = 0\<rparr>"

definition exRemote :: "HostSnapshot remoteBinding" where
  "exRemote = \<lparr>rbApplication = ''app'', rbTransport = exTransport, rbSnapshot = ret exHostSnapshot,
     rbDescriptor = \<lparr>descProtocolVersion = ''v1'', descMode = DeploymentModeSaaS, descCapabilities = [''fencing'']\<rparr>, rbPublication = exIssued\<rparr>"

lemma exRemote_open:
  "remoteOpenSaaS exRemoteSdk (NewFactory [exTransport]) ''app'' (Some (ret exHostSnapshot)) exRemoteWorld = (Inr exRemote, exRemoteWorld)"
  by (simp add: remoteOpenSaaS_def selectTransport_def NewFactory_def beginSession_def exTransport_def exRemoteSdk_def
      go_unfold exRemote_def)

theorem remote_open_fenced_witness:
  "rbPublication exRemote = exIssued \<and> descMode (rbDescriptor exRemote) = DeploymentModeSaaS"
  using remote_open_fenced [OF exRemote_open] by (simp add: exRemote_def)

text \<open>A transport that would lose every snapshot with another session makes no difference.\<close>

theorem remote_publishes_issued_session_witness:
  "hostSession (db (snd (remoteReconcile exRemoteSdk (exRemote\<lparr>rbTransport := exTransport\<lparr>sendReconcile :=
     (\<lambda>a s. if hostSession s = Some exIssued then sendReconcile exTransport a s else fail (Errorf ''lost''))\<rparr>\<rparr>) exRemoteWorld))) =
   Some exIssued"
proof -
  have "remoteReconcile exRemoteSdk (exRemote\<lparr>rbTransport := exTransport\<lparr>sendReconcile :=
      (\<lambda>a s. if hostSession s = Some exIssued then sendReconcile exTransport a s else fail (Errorf ''lost''))\<rparr>\<rparr>) exRemoteWorld =
    remoteReconcile exRemoteSdk exRemote exRemoteWorld"
    by (rule remote_publishes_issued_session) (simp add: exRemote_def)
  then show ?thesis
    by (simp add: remoteReconcile_def exRemote_def exTransport_def exRemoteSdk_def exHostSnapshot_def go_unfold Let_def)
qed

end
