(* ===== verification/Module_Adapter.thy ===== *)
theory Module_Adapter
  imports Command_Receipts Assembly
begin

text \<open>
  The HTTP adapter a Module host mounts, \<^verbatim>\<open>transport/http/module/adapter.go\<close>: the handlers of the thirteen Scheduler
  actions, the projection of results to JSON, and the construction that wraps the handlers of commands in the receipt
  middleware of \<open>Command_Receipts\<close>.

  The SDK decides the action keys, the routes and the schedule previews: they are the record \<open>AdapterSdk\<close>. So are the
  decoding of the request structs and the encoding of the two SDK structs among the results; every other result is encoded
  here. The matching of a request against the registered patterns by \<^verbatim>\<open>http.ServeMux\<close> is an argument of \<open>serveAdapter\<close>.
\<close>

section \<open>JSON\<close>

definition jsonArray :: "string list \<Rightarrow> string" where
  "jsonArray xs = ''['' @ jsonJoin xs @ '']''"

definition jsonBool :: "bool \<Rightarrow> string" where
  "jsonBool b = (if b then ''true'' else ''false'')"

text \<open>Fields of a struct; an \<^verbatim>\<open>omitempty\<close> field that is empty is left out.\<close>

definition field :: "string \<Rightarrow> string \<Rightarrow> (string \<times> string) list" where
  "field key encoded = [(key, encoded)]"

definition textOmit :: "string \<Rightarrow> string \<Rightarrow> (string \<times> string) list" where
  "textOmit key v = (if v = [] then [] else [(key, jsonString v)])"

definition intOmit :: "string \<Rightarrow> int \<Rightarrow> (string \<times> string) list" where
  "intOmit key v = (if v = 0 then [] else [(key, formatInt v)])"

definition writeJSON :: "int \<Rightarrow> string option \<Rightarrow> HTTPResponse" where
  "writeJSON status encoded =
     \<lparr>respStatus = status, respHeader = jsonHeader,
      respBody = (case encoded of None \<Rightarrow> [] | Some t \<Rightarrow> t @ [CHR 0x0A])\<rparr>"

section \<open>Projections\<close>

record ManagementDefinition =
  mdKey :: string
  mdName :: string
  mdDescription :: string
  mdI18n :: "(string \<times> string) list"
  mdStatus :: string
  mdScheduleType :: string
  mdScheduleExpression :: string
  mdIntervalSeconds :: int
  mdTimeOfDay :: string
  mdDayOfWeek :: string
  mdDayOfMonth :: int
  mdTimezone :: string
  mdTargetType :: string
  mdTargetKey :: string
  mdTargetObject :: string
  mdRunAsRole :: string
  mdConnectionKey :: string
  mdMaxAttempts :: int
  mdTimeoutSeconds :: int
  mdMissedWindowPolicy :: string
  mdMaxCatchupWindows :: int
  mdRetryDelaySeconds :: int
  mdRetryMaxDelay :: int
  mdPayloadJSON :: string
  mdNextRunAt :: string

definition projectTarget :: "TargetRef \<Rightarrow> string \<times> string" where
  "projectTarget v =
     (if trimSpace (targetType v) = ''runtime_operation'' then (trimSpace (targetOwner v), trimSpace (targetOperation v))
      else (trimSpace (targetType v), trimSpace (targetOperation v)))"

definition projectDefinition :: "Definition \<Rightarrow> ManagementDefinition" where
  "projectDefinition v =
     (let rule = defSchedule v; policy = defPolicy v; (kind, key) = projectTarget (defTarget v) in
      \<lparr>mdKey = defKey v, mdName = defName v, mdDescription = defDescription v, mdI18n = defI18n v, mdStatus = defStatus v,
       mdScheduleType = scheduleType rule, mdScheduleExpression = scheduleExpression rule,
       mdIntervalSeconds = scheduleIntervalSeconds rule, mdTimeOfDay = scheduleTimeOfDay rule,
       mdDayOfWeek = scheduleDayOfWeek rule, mdDayOfMonth = scheduleDayOfMonth rule, mdTimezone = scheduleTimezone rule,
       mdTargetType = kind, mdTargetKey = key, mdTargetObject = targetObjectKey (defTarget v),
       mdRunAsRole = targetRunAsRole (defTarget v), mdConnectionKey = targetConnectionKey (defTarget v),
       mdMaxAttempts = policyMaxAttempts policy, mdTimeoutSeconds = policyTimeout policy sdiv second,
       mdMissedWindowPolicy = policyMisfire policy, mdMaxCatchupWindows = policyMaxCatchupWindows policy,
       mdRetryDelaySeconds = policyRetryInitial policy sdiv second, mdRetryMaxDelay = policyRetryMax policy sdiv second,
       mdPayloadJSON = targetPayload (defTarget v),
       mdNextRunAt = (if defInitialNextRunAt v = 0 then [] else formatRFC3339 (defInitialNextRunAt v))\<rparr>)"

definition projectDownstreamReceipt :: "DownstreamReceipt \<Rightarrow> (string \<times> string) list" where
  "projectDownstreamReceipt v =
     (if isBlank (receiptID v) then [] else
      field ''downstream_receipt'' (jsonObject (field ''id'' (jsonString (receiptID v)) @ textOmit ''owner'' (receiptOwner v) @
        field ''status'' (jsonString (receiptStatus v)) @ field ''replay'' (jsonBool (receiptReplay v)))))"

definition projectRun :: "Run \<Rightarrow> string" where
  "projectRun v = (let t = runTrigger v; l = runLease v in
     jsonObject (field ''id'' (jsonString (trgRunID t)) @ textOmit ''definition_key'' (trgDefinitionKey t) @
       field ''status'' (jsonString (runStatus v)) @ intOmit ''attempt'' (trgAttempt t) @
       textOmit ''scheduled_for'' (formatTime (trgScheduledFor t)) @ textOmit ''window_key'' (trgWindowKey t) @
       textOmit ''error_message'' (runLastError v) @ textOmit ''lease_owner'' (leaseOwner l) @
       textOmit ''lease_expires_at'' (formatTime (leaseExpiresAt l)) @ intOmit ''fencing_token'' (leaseToken l) @
       textOmit ''correlation_id'' (receiptID (runReceipt v)) @ projectDownstreamReceipt (runReceipt v) @
       textOmit ''created_at'' (formatTime (runCreatedAt v)) @ textOmit ''updated_at'' (formatTime (runUpdatedAt v))))"

definition projectDeadLetter :: "DeadLetter \<Rightarrow> string" where
  "projectDeadLetter v =
     jsonObject (field ''id'' (jsonString (dlRunID v)) @ field ''run_id'' (jsonString (dlRunID v)) @
       textOmit ''definition_key'' (dlDefinitionKey v) @ field ''status'' (jsonString (dlStatus v)) @
       textOmit ''reason'' (dlReason v) @ textOmit ''failed_at'' (formatTime (dlFailedAt v)) @
       textOmit ''resolved_at'' (formatTime (dlResolvedAt v)))"

text \<open>The zero \<^verbatim>\<open>Run\<close> that \<^verbatim>\<open>TriggerNow\<close> returns when the claim found the cursor moved.\<close>

definition zeroRun :: Run where
  "zeroRun = \<lparr>runTrigger = \<lparr>trgRunID = [], trgDefinitionKey = [], trgDefinitionRev = [], trgScheduledFor = 0, trgWindowKey = [],
       trgTarget = \<lparr>targetType = [], targetOwner = [], targetOperation = [], targetConnectionKey = [], targetDispatchMode = [],
         targetPayload = [], targetObjectKey = [], targetRunAsRole = [], targetRest = []\<rparr>,
       trgIdempotencyKey = [], trgAttempt = 0, trgMetadata = []\<rparr>,
     runLease = \<lparr>leaseOwner = [], leaseToken = 0, leaseExpiresAt = 0\<rparr>, runStatus = [],
     runReceipt = \<lparr>receiptID = [], receiptOwner = [], receiptStatus = [], receiptReplay = False, receiptRest = []\<rparr>,
     runLastError = [], runCreatedAt = 0, runUpdatedAt = 0\<rparr>"

section \<open>Requests\<close>

text \<open>
  What a decoder makes of a body: a value, the end of the input before a value, an error, or a value with more
  input after it.
\<close>

datatype 'a jsonInput = Decoded 'a | DecodedEOF | DecodeError | TrailingInput

record AdapterSdk =
  actDefinitionsList :: string
  actDefinitionsGet :: string
  actAuthoringContractGet :: string
  actDefinitionsValidate :: string
  actSchedulesPreview :: string
  actDefinitionsSimulate :: string
  actStateGet :: string
  actDefinitionsRun :: string
  actDefinitionsReschedule :: string
  actRunsRetry :: string
  actRunsCancel :: string
  actDeadLettersResolve :: string
  actDeadLettersRequeue :: string
  validationCode :: "goerr \<Rightarrow> string"
  validationParams :: "goerr \<Rightarrow> (string \<times> string) list option"
  previewDefinitionData :: "string \<Rightarrow> time \<Rightarrow> int \<Rightarrow> time list dbop"
  previewData :: "string \<Rightarrow> time \<Rightarrow> int \<Rightarrow> time list dbop"
  managementContract :: "string option"
  encodeManagement :: "ManagementDefinition \<Rightarrow> string option"
  decodeDefinitionData :: "string \<Rightarrow> string jsonInput"
  decodeScheduleData :: "string \<Rightarrow> string jsonInput"
  decodeNextRunAt :: "string \<Rightarrow> string jsonInput"
  decodeNote :: "string \<Rightarrow> string jsonInput"

text \<open>What the router adds to a request: the path values, and the declared length of the body.\<close>

record RoutedRequest =
  pathValue :: "string \<Rightarrow> string"
  contentLength :: int

definition operationReason :: "HTTPRequest \<Rightarrow> string" where
  "operationReason r = trimSpace (reqReason r)"

definition firstNonEmpty :: "string list \<Rightarrow> string" where
  "firstNonEmpty vs = (case filter (\<lambda>v. v \<noteq> []) (map trimSpace vs) of [] \<Rightarrow> [] | v # _ \<Rightarrow> v)"

definition decodeJSON :: "(string \<Rightarrow> 'a jsonInput) \<Rightarrow> 'a \<Rightarrow> bool \<Rightarrow> HTTPRequest \<Rightarrow> HTTPResponse + 'a" where
  "decodeJSON decoder zero required r =
     (let invalid = Inl (writeError 400 ''backend.invalid_json'') in
      case reqBody r of
        None \<Rightarrow> if required then Inl (writeError 400 ''backend.request_body_required'') else Inr zero
      | Some (Inl _) \<Rightarrow> invalid
      | Some (Inr v) \<Rightarrow>
          (case decoder (take (nat (maxRequestBytes + 1)) v) of
             Decoded x \<Rightarrow> Inr x
           | DecodedEOF \<Rightarrow> if \<not> required then Inr zero else invalid
           | DecodeError \<Rightarrow> invalid
           | TrailingInput \<Rightarrow> invalid))"

definition optionalNote :: "AdapterSdk \<Rightarrow> RoutedRequest \<Rightarrow> HTTPRequest \<Rightarrow> HTTPResponse + string" where
  "optionalNote A x r =
     (if reqBody r = None \<or> contentLength x = 0 then Inr [] else
      case decodeJSON (decodeNote A) [] False r of Inl response \<Rightarrow> Inl response | Inr note \<Rightarrow> Inr (trimSpace note))"

definition encodeParams :: "(string \<times> string) list option \<Rightarrow> string" where
  "encodeParams params = (case params of None \<Rightarrow> ''null'' | Some ps \<Rightarrow> jsonObject (map (\<lambda>(k, v). (k, jsonString v)) (sort_key fst ps)))"

definition writeServiceError :: "Sdk \<Rightarrow> AdapterSdk \<Rightarrow> goerr \<Rightarrow> HTTPResponse" where
  "writeServiceError S A e =
     (let code = validationCode A e in
      if code \<noteq> [] then writeJSON 400 (Some (jsonObject [(''code'', jsonString code), (''params'', encodeParams (validationParams A e))]))
      else if errorsIs e ErrTriggerBacklogFull then writeError 429 ''backend.scheduler.trigger_backlog_full''
      else if errorsIs e ContextCanceled \<or> errorsIs e ContextDeadlineExceeded
      then writeError 503 ''backend.scheduler.request_cancelled''
      else writeJSON 500 (Some (jsonObject [(''code'', jsonString ''backend.scheduler.request_failed''),
        (''message'', jsonString (errorText S e))])))"

definition writeCommandResult :: "Sdk \<Rightarrow> AdapterSdk \<Rightarrow> string \<Rightarrow> goerr option \<Rightarrow> HTTPResponse" where
  "writeCommandResult S A encoded e = (case e of Some x \<Rightarrow> writeServiceError S A x | None \<Rightarrow> writeJSON 200 (Some encoded))"

text \<open>A handler that calls the service and answers with a projection of the result.\<close>

definition answered :: "Sdk \<Rightarrow> AdapterSdk \<Rightarrow> 'a dbop \<Rightarrow> ('a \<Rightarrow> HTTPResponse) \<Rightarrow> HTTPResponse dbop" where
  "answered S A m f = attempt m (\<lambda>q. case q of Inl e \<Rightarrow> ret (writeServiceError S A e) | Inr v \<Rightarrow> ret (f v))"

section \<open>Handlers\<close>

definition repositoryOf :: "Service \<Rightarrow> DefinitionSnapshot dbop" where
  "repositoryOf b = (case serviceDefinitions b of None \<Rightarrow> fail repositoryUnavailable | Some repo \<Rightarrow> repoDefinitionSnapshot repo)"

definition definitionFor :: "Service \<Rightarrow> string \<Rightarrow> Definition option dbop" where
  "definitionFor b key =
     bindE (repositoryOf b) (\<lambda>snapshot.
     ret (find (\<lambda>d. trimSpace (defKey d) = trimSpace key) (snapDefinitions snapshot)))"

definition definitionNotFound :: HTTPResponse where
  "definitionNotFound = writeError 404 ''backend.scheduler.definition_not_found''"

text \<open>All encodings succeed or the encoder reports an error and writes nothing.\<close>

definition encodedAll :: "string option list \<Rightarrow> string list option" where
  "encodedAll xs = (if None \<in> set xs then None else Some (map the xs))"

definition listDefinitions :: "Sdk \<Rightarrow> AdapterSdk \<Rightarrow> Service \<Rightarrow> HTTPResponse dbop" where
  "listDefinitions S A b =
     answered S A (repositoryOf b) (\<lambda>snapshot.
       let items = map (\<lambda>d. encodeManagement A (projectDefinition d)) (snapDefinitions snapshot) in
       writeJSON 200 (map_option (\<lambda>encoded. jsonObject [(''count'', formatInt (int (length items))),
         (''items'', jsonArray encoded)]) (encodedAll items)))"

definition getDefinition :: "Sdk \<Rightarrow> AdapterSdk \<Rightarrow> Service \<Rightarrow> RoutedRequest \<Rightarrow> HTTPResponse dbop" where
  "getDefinition S A b x =
     answered S A (definitionFor b (pathValue x ''definitionID'')) (\<lambda>found. case found of
       None \<Rightarrow> definitionNotFound
     | Some d \<Rightarrow> writeJSON 200 (encodeManagement A (projectDefinition d)))"

definition getAuthoringContract :: "AdapterSdk \<Rightarrow> HTTPResponse dbop" where
  "getAuthoringContract A = ret (writeJSON 200 (managementContract A))"

definition formatTimes :: "time list \<Rightarrow> string" where
  "formatTimes ts = jsonArray (map (\<lambda>t. jsonString (formatRFC3339 t)) ts)"

text \<open>The two previews of data in a request body: the next three instants.\<close>

definition previewBody ::
  "Sdk \<Rightarrow> AdapterSdk \<Rightarrow> (string \<Rightarrow> string jsonInput) \<Rightarrow> string \<Rightarrow> (string \<Rightarrow> time \<Rightarrow> int \<Rightarrow> time list dbop) \<Rightarrow> HTTPRequest \<Rightarrow> HTTPResponse dbop" where
  "previewBody S A decoder zero preview r =
     (case decodeJSON decoder zero True r of
        Inl response \<Rightarrow> ret response
      | Inr request \<Rightarrow>
          bindE timeNow (\<lambda>now. answered S A (preview request now 3) (\<lambda>nxt.
            writeJSON 200 (Some (jsonObject [(''next_runs'', formatTimes nxt)])))))"

definition previewDefinition :: "Sdk \<Rightarrow> AdapterSdk \<Rightarrow> HTTPRequest \<Rightarrow> HTTPResponse dbop" where
  "previewDefinition S A r = previewBody S A (decodeDefinitionData A) ''null'' (previewDefinitionData A) r"

definition handlePreviewSchedule :: "Sdk \<Rightarrow> AdapterSdk \<Rightarrow> HTTPRequest \<Rightarrow> HTTPResponse dbop" where
  "handlePreviewSchedule S A r = previewBody S A (decodeScheduleData A) ''{}'' (previewData A) r"

definition simulateDefinition :: "Sdk \<Rightarrow> AdapterSdk \<Rightarrow> Service \<Rightarrow> RoutedRequest \<Rightarrow> HTTPResponse dbop" where
  "simulateDefinition S A b x =
     attempt (definitionFor b (pathValue x ''definitionID'')) (\<lambda>q. case q of
       Inl e \<Rightarrow> ret (writeServiceError S A e)
     | Inr None \<Rightarrow> ret definitionNotFound
     | Inr (Some d) \<Rightarrow>
         bindE timeNow (\<lambda>now. answered S A (Preview (servicePlatform b) (defSchedule d) now 1) (\<lambda>nxt.
           let nextRun = (case nxt of [] \<Rightarrow> [] | t # _ \<Rightarrow> formatRFC3339 t); (kind, key) = projectTarget (defTarget d) in
           writeJSON 200 (Some (jsonObject [(''message'', jsonString ''Scheduler definition is valid''),
             (''next_run_at'', jsonString nextRun), (''status'', jsonString ''valid''), (''target_key'', jsonString key),
             (''target_type'', jsonString kind)])))))"

definition getState :: "Sdk \<Rightarrow> AdapterSdk \<Rightarrow> Memory \<Rightarrow> HTTPResponse dbop" where
  "getState S A m =
     answered S A (bindE (Runs S m 500) (\<lambda>rs. bindE (serviceDeadLetters m 500) (\<lambda>ls. ret (rs, ls)))) (\<lambda>(rs, ls).
       writeJSON 200 (Some (jsonObject [(''dead_letters'', jsonArray (map projectDeadLetter ls)), (''provisioned'', jsonBool True),
         (''runs'', jsonArray (map projectRun rs))])))"

definition runDefinition :: "Sdk \<Rightarrow> AdapterSdk \<Rightarrow> Service \<Rightarrow> Memory \<Rightarrow> RoutedRequest \<Rightarrow> HTTPRequest \<Rightarrow> HTTPResponse dbop" where
  "runDefinition S A b m x r =
     attempt (TriggerNow S b m (trimSpace (pathValue x ''definitionID'')) (operationReason r)) (\<lambda>q. case q of
       Inl e \<Rightarrow> ret (writeCommandResult S A [] (Some e))
     | Inr (_, Some e) \<Rightarrow> ret (writeCommandResult S A [] (Some e))
     | Inr (found, None) \<Rightarrow>
         let run = (case found of None \<Rightarrow> zeroRun | Some v \<Rightarrow> v) in
         if isBlank (trgRunID (runTrigger run)) then ret (writeCommandResult S A (projectRun run) None) else
         attempt (RunOf S m (trgRunID (runTrigger run))) (\<lambda>c.
           ret (writeCommandResult S A (projectRun (case c of Inl _ \<Rightarrow> run | Inr current \<Rightarrow> current)) None)))"

definition rescheduleDefinition :: "Sdk \<Rightarrow> AdapterSdk \<Rightarrow> Memory \<Rightarrow> RoutedRequest \<Rightarrow> HTTPRequest \<Rightarrow> HTTPResponse dbop" where
  "rescheduleDefinition S A m x r =
     (case decodeJSON (decodeNextRunAt A) [] True r of Inl response \<Rightarrow> ret response | Inr text \<Rightarrow>
      case parseRFC3339 (trimSpace text) of
        None \<Rightarrow> ret (writeError 400 ''backend.scheduler.next_run_at_invalid'')
      | Some nextRunAt \<Rightarrow>
          let key = trimSpace (pathValue x ''definitionID'') in
          answered S A (serviceReschedule m key nextRunAt) (\<lambda>_.
            writeCommandResult S A (jsonObject [(''definition_key'', jsonString key),
              (''next_run_at'', jsonString (formatRFC3339 nextRunAt)), (''status'', jsonString ''rescheduled'')]) None))"

definition handleRetryRun :: "Sdk \<Rightarrow> AdapterSdk \<Rightarrow> Memory \<Rightarrow> RoutedRequest \<Rightarrow> HTTPRequest \<Rightarrow> HTTPResponse dbop" where
  "handleRetryRun S A m x r =
     answered S A (RetryRun S m (trimSpace (pathValue x ''runID'')) (operationReason r)) (\<lambda>v. writeCommandResult S A (projectRun v) None)"

definition handleCancelRun :: "Sdk \<Rightarrow> AdapterSdk \<Rightarrow> Memory \<Rightarrow> RoutedRequest \<Rightarrow> HTTPRequest \<Rightarrow> HTTPResponse dbop" where
  "handleCancelRun S A m x r =
     answered S A (CancelRun S m (trimSpace (pathValue x ''runID'')) (operationReason r)) (\<lambda>v. writeCommandResult S A (projectRun v) None)"

definition handleResolveDeadLetter :: "Sdk \<Rightarrow> AdapterSdk \<Rightarrow> Memory \<Rightarrow> RoutedRequest \<Rightarrow> HTTPRequest \<Rightarrow> HTTPResponse dbop" where
  "handleResolveDeadLetter S A m x r =
     (case optionalNote A x r of Inl response \<Rightarrow> ret response | Inr note \<Rightarrow>
      answered S A (serviceResolveDeadLetter S m (trimSpace (pathValue x ''deadLetterID'')) (firstNonEmpty [note, operationReason r]))
        (\<lambda>v. writeCommandResult S A (projectDeadLetter v) None))"

definition handleRequeueDeadLetter :: "Sdk \<Rightarrow> AdapterSdk \<Rightarrow> Memory \<Rightarrow> RoutedRequest \<Rightarrow> HTTPRequest \<Rightarrow> HTTPResponse dbop" where
  "handleRequeueDeadLetter S A m x r =
     (case optionalNote A x r of Inl response \<Rightarrow> ret response | Inr note \<Rightarrow>
      answered S A (serviceRequeueDeadLetter S m (trimSpace (pathValue x ''deadLetterID'')) (firstNonEmpty [note, operationReason r]))
        (\<lambda>v. writeCommandResult S A (projectRun v) None))"

type_synonym handler = "HTTPRequest \<Rightarrow> HTTPResponse dbop"

definition handlers :: "Sdk \<Rightarrow> AdapterSdk \<Rightarrow> Service \<Rightarrow> Memory \<Rightarrow> RoutedRequest \<Rightarrow> (string \<times> handler) list" where
  "handlers S A b m x =
     [(actDefinitionsList A, \<lambda>_. listDefinitions S A b), (actDefinitionsGet A, \<lambda>_. getDefinition S A b x),
      (actAuthoringContractGet A, \<lambda>_. getAuthoringContract A), (actDefinitionsValidate A, previewDefinition S A),
      (actSchedulesPreview A, handlePreviewSchedule S A), (actDefinitionsSimulate A, \<lambda>_. simulateDefinition S A b x),
      (actStateGet A, \<lambda>_. getState S A m), (actDefinitionsRun A, runDefinition S A b m x),
      (actDefinitionsReschedule A, rescheduleDefinition S A m x), (actRunsRetry A, handleRetryRun S A m x),
      (actRunsCancel A, handleCancelRun S A m x), (actDeadLettersResolve A, handleResolveDeadLetter S A m x),
      (actDeadLettersRequeue A, handleRequeueDeadLetter S A m x)]"

definition schedulerCommandActions :: "AdapterSdk \<Rightarrow> string list" where
  "schedulerCommandActions A = [actDefinitionsRun A, actDefinitionsReschedule A, actRunsRetry A, actRunsCancel A,
     actDeadLettersResolve A, actDeadLettersRequeue A]"

section \<open>The adapter\<close>

text \<open>A declared action with its projected route, or the error of projecting it.\<close>

record declaredRoute =
  routeAction :: string
  routePattern :: string
  routeError :: "goerr option"

text \<open>The loop over the declared routes; \<open>left\<close> are the action keys whose handlers are not yet registered.\<close>

fun registerRoutes :: "string list \<Rightarrow> string list \<Rightarrow> declaredRoute list \<Rightarrow> goerr + declaredRoute list \<times> string list" where
  "registerRoutes operations left [] = Inr ([], left)"
| "registerRoutes operations left (declared # rest) =
     (case routeError declared of
        Some e \<Rightarrow> Inl (Wrapf (''project Scheduler Action '' @ quoted (routeAction declared) @ '': '') e)
      | None \<Rightarrow>
          if routeAction declared \<notin> set left
          then Inl (Errorf (''Scheduler Action '' @ quoted (routeAction declared) @ '' has no HTTP handler''))
          else if routePattern declared \<notin> set operations
          then Inl (Errorf (''Scheduler Action '' @ quoted (routeAction declared) @ '' has no OpenAPI operation''))
          else case registerRoutes operations (filter (\<lambda>k. k \<noteq> routeAction declared) left) rest of
                 Inl e \<Rightarrow> Inl e | Inr (routes, left') \<Rightarrow> Inr (declared # routes, left'))"

definition actionKeys :: "AdapterSdk \<Rightarrow> string list" where
  "actionKeys A = [actDefinitionsList A, actDefinitionsGet A, actAuthoringContractGet A, actDefinitionsValidate A,
     actSchedulesPreview A, actDefinitionsSimulate A, actStateGet A, actDefinitionsRun A, actDefinitionsReschedule A,
     actRunsRetry A, actRunsCancel A, actDeadLettersResolve A, actDeadLettersRequeue A]"

definition NewAdapter ::
  "AdapterSdk \<Rightarrow> bool \<Rightarrow> bool \<Rightarrow> goerr + declaredRoute list \<times> string list \<Rightarrow> (declaredRoute list \<Rightarrow> goerr option) \<Rightarrow>
   goerr + declaredRoute list" where
  "NewAdapter A hasRepository hasReceipts contract validate =
     (if \<not> hasRepository then Inl (Errorf ''Scheduler HTTP binding is unavailable'')
      else if \<not> hasReceipts then Inl (Errorf ''Scheduler command receipt store is unavailable'') else
      case contract of Inl e \<Rightarrow> Inl e | Inr (declared, operations) \<Rightarrow>
      case registerRoutes operations (actionKeys A) declared of Inl e \<Rightarrow> Inl e | Inr (routes, left) \<Rightarrow>
      if left \<noteq> [] \<or> length operations \<noteq> length routes
      then Inl (Errorf (''Scheduler HTTP implementations differ from the Action contract: ['' @
             concat (map (\<lambda>k. k) (case sort left of [] \<Rightarrow> [] | k # ks \<Rightarrow> k # map (\<lambda>k. '' '' @ k) ks)) @ '']''))
      else case validate routes of Some e \<Rightarrow> Inl e | None \<Rightarrow> Inr routes)"

text \<open>The handler that is registered for a route: a command runs under the receipt middleware.\<close>

definition routeHandler ::
  "Sdk \<Rightarrow> AdapterSdk \<Rightarrow> (string \<Rightarrow> goerr + string) \<Rightarrow> CommandReceiptStore \<Rightarrow> Service \<Rightarrow> Memory \<Rightarrow> string \<Rightarrow> RoutedRequest \<Rightarrow> handler" where
  "routeHandler S A canonical store b m action x =
     (case map_of (handlers S A b m x) action of
        None \<Rightarrow> (\<lambda>_. fail (Errorf ''no handler''))
      | Some h \<Rightarrow>
          if action \<in> set (schedulerCommandActions A)
          then withCommandReceipt (ClaimCommand S store) (CompleteCommand store) canonical action h else h)"

text \<open>
  \<open>match\<close> is the request matching of \<^verbatim>\<open>http.ServeMux\<close>: the pattern of the route with the path values, or the mux's own answer.
\<close>

definition serveAdapter ::
  "Sdk \<Rightarrow> AdapterSdk \<Rightarrow> (string \<Rightarrow> goerr + string) \<Rightarrow> CommandReceiptStore \<Rightarrow> Service \<Rightarrow> Memory \<Rightarrow> declaredRoute list \<Rightarrow>
   (string list \<Rightarrow> HTTPRequest \<Rightarrow> HTTPResponse + string \<times> RoutedRequest) \<Rightarrow> handler" where
  "serveAdapter S A canonical store b m routes match r =
     (case match (map routePattern routes) r of
        Inl response \<Rightarrow> ret response
      | Inr (pattern, x) \<Rightarrow>
          (case find (\<lambda>d. routePattern d = pattern) routes of
             None \<Rightarrow> fail (Errorf ''no route'')
           | Some d \<Rightarrow> routeHandler S A canonical store b m (routeAction d) x r))"

end
