(* ===== verification/Module_Properties.thy ===== *)
theory Module_Properties
  imports Module_Adapter Command_Properties Tenant_Service Service_Properties
begin

text \<open>
  The mounted adapter. Every action of the contract has exactly one route and every route a handler; a request changes
  the database only through a command action with an idempotency key; and a command that ran under a key never runs
  under that key again, whichever service call it makes.
\<close>

section \<open>Routes\<close>

text \<open>The action and the path values a request is routed to.\<close>

definition routedTo ::
  "declaredRoute list \<Rightarrow> (string list \<Rightarrow> HTTPRequest \<Rightarrow> HTTPResponse + string \<times> RoutedRequest) \<Rightarrow> HTTPRequest \<Rightarrow>
   (string \<times> RoutedRequest) option" where
  "routedTo routes match r =
     (case match (map routePattern routes) r of
        Inl _ \<Rightarrow> None
      | Inr (pattern, x) \<Rightarrow> map_option (\<lambda>d. (routeAction d, x)) (find (\<lambda>d. routePattern d = pattern) routes))"

lemma serveAdapter_routed:
  "routedTo routes match r = Some (action, x) \<Longrightarrow>
    serveAdapter S A canonical store b m routes match r = routeHandler S A canonical store b m action x r"
  by (auto simp: routedTo_def serveAdapter_def split: sum.splits prod.splits option.splits)

lemma serveAdapter_unrouted:
  "routedTo routes match r = None \<Longrightarrow> readonly (serveAdapter S A canonical store b m routes match r)"
  by (auto simp: routedTo_def serveAdapter_def intro!: readonly_intros split: sum.splits)

lemma handlers_keys: "map fst (handlers S A b m x) = actionKeys A"
  by (simp add: handlers_def actionKeys_def)

lemma handlers_defined: "action \<in> set (actionKeys A) \<longleftrightarrow> (\<exists>h. map_of (handlers S A b m x) action = Some h)"
  by (metis handlers_keys list.set_map map_of_eq_None_iff not_None_eq)

lemma registerRoutes_routes:
  "registerRoutes operations left declared = Inr (routes, left') \<Longrightarrow>
    routes = declared \<and> distinct (map routeAction routes) \<and> set (map routeAction routes) \<subseteq> set left \<and>
    set left' = set left - set (map routeAction routes) \<and> set (map routePattern routes) \<subseteq> set operations"
proof (induction declared arbitrary: left left' routes)
  case (Cons declared rest)
  then obtain routes2 where step: "registerRoutes operations (filter (\<lambda>k. k \<noteq> routeAction declared) left) rest = Inr (routes2, left')"
      "routes = declared # routes2" "routeAction declared \<in> set left" "routePattern declared \<in> set operations"
    by (auto split: option.splits if_splits sum.splits)
  show ?case using Cons.IH [OF step(1)] step(2-4) by auto
qed simp

text \<open>
  An adapter is built only when the routes and the implementations agree: the routes are those the contract declares,
  every action has exactly one of them, every route has an OpenAPI operation and a handler, and no operation is left over.
\<close>

theorem adapter_complete:
  assumes "NewAdapter A hasRepository hasReceipts contract validate = Inr routes"
  shows "\<exists>operations. contract = Inr (routes, operations) \<and> hasRepository \<and> hasReceipts \<and>
    distinct (map routeAction routes) \<and> set (map routeAction routes) = set (actionKeys A) \<and>
    set (map routePattern routes) \<subseteq> set operations \<and> length operations = length routes \<and> validate routes = None \<and>
    (\<forall>d \<in> set routes. \<forall>S b m x. map_of (handlers S A b m x) (routeAction d) \<noteq> None)"
proof -
  obtain declared operations where new: "contract = Inr (declared, operations)" "hasRepository" "hasReceipts"
      "registerRoutes operations (actionKeys A) declared = Inr (routes, [])" "length operations = length routes"
      "validate routes = None"
    using assms by (auto simp: NewAdapter_def split: if_splits sum.splits option.splits prod.splits)
  note routes = registerRoutes_routes [OF new(4)]
  moreover from routes have "set (map routeAction routes) = set (actionKeys A)" by auto
  moreover from this have "\<forall>d \<in> set routes. \<forall>S b m x. map_of (handlers S A b m x) (routeAction d) \<noteq> None"
    using handlers_defined by (metis (no_types, lifting) image_eqI list.set_map option.distinct(1))
  ultimately show ?thesis using new by auto
qed

section \<open>Handlers\<close>

text \<open>The previews of the SDK and of the platform compute; they do not write.\<close>

definition previewsRead :: "AdapterSdk \<Rightarrow> Service \<Rightarrow> bool" where
  "previewsRead A b \<longleftrightarrow>
     (\<forall>data after count. readonly (previewDefinitionData A data after count) \<and> readonly (previewData A data after count)) \<and>
     (\<forall>rule after count. readonly (previewSchedule (servicePlatform b) rule after count)) \<and>
     (\<forall>repo. serviceDefinitions b = Some repo \<longrightarrow> readonly (repoDefinitionSnapshot repo))"

lemma readonly_answered [readonly_intros]: "readonly m \<Longrightarrow> readonly (answered S A m f)"
  unfolding answered_def by (intro readonly_intros)

lemma readonly_queries:
  assumes "previewsRead A b"
  shows "readonly (listDefinitions S A b)" "readonly (getDefinition S A b x)" "readonly (getAuthoringContract A)"
    "readonly (previewDefinition S A r)" "readonly (handlePreviewSchedule S A r)" "readonly (simulateDefinition S A b x)"
    "readonly (getState S A m)"
proof -
  have repository: "readonly (repositoryOf b)"
    unfolding repositoryOf_def using assms by (auto simp: previewsRead_def intro!: readonly_intros)
  then have found: "readonly (definitionFor b key)" for key
    unfolding definitionFor_def by (intro readonly_intros)
  have preview: "readonly (previewDefinitionData A data after count)" "readonly (previewData A data after count)"
      "readonly (Preview (servicePlatform b) rule after count)" for data rule after count
    using assms by (auto simp: previewsRead_def Preview_def intro!: readonly_intros)
  show "readonly (listDefinitions S A b)" unfolding listDefinitions_def by (intro readonly_intros repository)
  show "readonly (getDefinition S A b x)" unfolding getDefinition_def by (intro readonly_intros found)
  show "readonly (getAuthoringContract A)" unfolding getAuthoringContract_def by (intro readonly_intros)
  show "readonly (previewDefinition S A r)" "readonly (handlePreviewSchedule S A r)"
    unfolding previewDefinition_def handlePreviewSchedule_def previewBody_def by (intro readonly_intros preview)+
  show "readonly (simulateDefinition S A b x)"
    unfolding simulateDefinition_def by (intro readonly_intros found preview)
  have "readonly (Runs S m 500)" "readonly (serviceDeadLetters m 500)"
    unfolding Runs_def serviceDeadLetters_def ListRuns_def DeadLetters_def by (intro readonly_intros)+
  then show "readonly (getState S A m)" unfolding getState_def by (intro readonly_intros)
qed

lemma readonly_query:
  assumes "previewsRead A b" "map_of (handlers S A b m x) action = Some h" "action \<notin> set (schedulerCommandActions A)"
  shows "readonly (h r)"
  using assms(2,3) readonly_queries [OF assms(1)]
  by (auto simp: handlers_def schedulerCommandActions_def split: if_splits)

text \<open>A command without a key the store accepts is answered before anything is claimed.\<close>

lemma withReceipt_keyless:
  "trimSpace (reqIdempotencyKey r) = [] \<or> length (trimSpace (reqIdempotencyKey r)) > 191 \<Longrightarrow>
    readonly (withCommandReceipt claim complete canonical a h r)"
  unfolding withCommandReceipt_def Let_def by (auto intro!: readonly_intros)

text \<open>
  C35. A request that changes the database is routed to one of the six command actions and carries an idempotency key of
  at most 191 bytes: every other request only reads.
\<close>

theorem adapter_changes_by_commands:
  assumes "previewsRead A b" "db (snd (serveAdapter S A canonical store b m routes match r w)) \<noteq> db w"
  shows "\<exists>action x. routedTo routes match r = Some (action, x) \<and>
    action \<in> {actDefinitionsRun A, actDefinitionsReschedule A, actRunsRetry A, actRunsCancel A,
      actDeadLettersResolve A, actDeadLettersRequeue A} \<and>
    trimSpace (reqIdempotencyKey r) \<noteq> [] \<and> length (trimSpace (reqIdempotencyKey r)) \<le> 191"
proof -
  have changed: "\<not> readonly (serveAdapter S A canonical store b m routes match r)"
    using assms(2) by (auto simp: readonly_def)
  then obtain action x where routedTo: "routedTo routes match r = Some (action, x)"
    using serveAdapter_unrouted by (metis option.exhaust surj_pair)
  note changed = changed [unfolded serveAdapter_routed [OF routedTo]]
  then obtain h where h: "map_of (handlers S A b m x) action = Some h"
    unfolding routeHandler_def by (auto intro: readonly_intros split: option.splits)
  then have command: "action \<in> set (schedulerCommandActions A)"
    using changed readonly_query [OF assms(1) h] by (auto simp: routeHandler_def split: if_splits)
  then have "trimSpace (reqIdempotencyKey r) \<noteq> [] \<and> length (trimSpace (reqIdempotencyKey r)) \<le> 191"
    using changed h withReceipt_keyless [of r] by (simp add: routeHandler_def) (metis not_less)
  with routedTo command show ?thesis by (auto simp: schedulerCommandActions_def)
qed

section \<open>Commands\<close>

text \<open>No handler of the adapter touches the command receipts.\<close>

lemma tenant_answered: "moves (tenantOnly rt) P m \<Longrightarrow> moves (tenantOnly rt) P (answered S A m f)"
  unfolding answered_def by (intro tenant.moves_attempt tenant.moves_case_sum tenant_pure)

lemma tenant_commands:
  assumes b: "tenantBound S' rt b" and m: "ofRuntime rt m"
  shows "moves (tenantOnly rt) (\<lambda>_. True) (runDefinition S A b m x r)"
    "moves (tenantOnly rt) (\<lambda>_. True) (rescheduleDefinition S A m x r)"
    "moves (tenantOnly rt) (\<lambda>_. True) (handleRetryRun S A m x r)"
    "moves (tenantOnly rt) (\<lambda>_. True) (handleCancelRun S A m x r)"
    "moves (tenantOnly rt) (\<lambda>_. True) (handleResolveDeadLetter S A m x r)"
    "moves (tenantOnly rt) (\<lambda>_. True) (handleRequeueDeadLetter S A m x r)"
proof -
  have rt: "rt = runtimeID (memRuns m)" using m by (simp add: ofRuntime_def)
  have "moves (tenantOnly rt) (\<lambda>_. True) (TriggerNow S b m key reason)" for key reason
    using tenant_TriggerNow [OF b] rt by simp
  moreover have "moves (tenantOnly rt) P (RunOf S m ident)" for P ident
    unfolding RunOf_def by (intro tenant.moves_readonly readonly_reads)
  ultimately show "moves (tenantOnly rt) (\<lambda>_. True) (runDefinition S A b m x r)"
    unfolding runDefinition_def
    by (intro tenant.moves_attempt tenant.moves_case_sum tenant.moves_case_prod tenant.moves_case_option tenant.moves_let
        tenant.moves_if tenant_pure)
  show "moves (tenantOnly rt) (\<lambda>_. True) (rescheduleDefinition S A m x r)"
    unfolding rescheduleDefinition_def serviceReschedule_def rt
    by (intro tenant.moves_case_sum tenant.moves_case_option tenant.moves_let tenant_pure tenant_answered tenant_Reschedule)
  show "moves (tenantOnly rt) (\<lambda>_. True) (handleRetryRun S A m x r)" "moves (tenantOnly rt) (\<lambda>_. True) (handleCancelRun S A m x r)"
    unfolding handleRetryRun_def handleCancelRun_def RetryRun_def CancelRun_def rt
    by (intro tenant_answered tenant_Retry tenant_Cancel)+
  show "moves (tenantOnly rt) (\<lambda>_. True) (handleResolveDeadLetter S A m x r)"
    "moves (tenantOnly rt) (\<lambda>_. True) (handleRequeueDeadLetter S A m x r)"
    unfolding handleResolveDeadLetter_def handleRequeueDeadLetter_def serviceResolveDeadLetter_def serviceRequeueDeadLetter_def rt
    by (intro tenant.moves_case_sum tenant_pure tenant_answered tenant_ResolveDeadLetter tenant_RequeueDeadLetter)+
qed

lemma command_keeps_receipts:
  assumes "tenantBound S' rt b" "ofRuntime rt m" "map_of (handlers S A b m x) action = Some h"
    and "action \<in> set (schedulerCommandActions A)" "distinct (actionKeys A)"
  shows "command_receipts (db (snd (h r w))) = command_receipts (db w)"
proof -
  have "moves (tenantOnly rt) (\<lambda>_. True) (h r)"
    using assms(3-5) tenant_commands [OF assms(1,2)]
    by (auto simp: handlers_def schedulerCommandActions_def actionKeys_def split: if_splits)
  then show ?thesis by (simp add: moves_def tenantOnly_def)
qed

text \<open>
  C2. A management command runs at most once per idempotency key, through the whole adapter. If the answer to the first
  request to a command route depended on the service or its state at all, a later request to any command route with the
  same key changes nothing and depends on neither, whatever calls fail and whatever happens to the other tables in between.
\<close>

theorem adapter_command_once:
  assumes "receiptKeys (db w)" "distinct (actionKeys A)"
    and service: "tenantBound S' rt b" "ofRuntime rt m"
    and first: "routedTo routes match r = Some (action, x)" "action \<in> set (schedulerCommandActions A)"
      "serveAdapter S A canonical store b m routes match r w = (q, w1)"
    and between: "command_receipts (db w2) = command_receipts (db w1)"
    and second: "routedTo routes match r' = Some (action', x')" "action' \<in> set (schedulerCommandActions A)"
      "trimSpace (reqIdempotencyKey r') = trimSpace (reqIdempotencyKey r)"
  shows "(\<forall>b' m'. serveAdapter S A canonical store b' m' routes match r w = (q, w1)) \<or>
    (\<forall>b' m'. serveAdapter S A canonical store b' m' routes match r' w2 = serveAdapter S A canonical store b m routes match r' w2) \<and>
    db (snd (serveAdapter S A canonical store b m routes match r' w2)) = db w2"
proof -
  have command: "\<exists>h. map_of (handlers S A b m x) action = Some h \<and>
      routeHandler S A canonical store b m action x = withCommandReceipt (ClaimCommand S store) (CompleteCommand store) canonical action h"
    if "action \<in> set (schedulerCommandActions A)" for b m x action
  proof -
    have "action \<in> set (actionKeys A)" using that by (auto simp: schedulerCommandActions_def actionKeys_def)
    then obtain h where "map_of (handlers S A b m x) action = Some h" using handlers_defined by blast
    with that show ?thesis by (simp add: routeHandler_def)
  qed
  obtain h where h: "map_of (handlers S A b m x) action = Some h"
      "receiptRequest S store canonical action h r w = (q, w1)"
    using command [OF first(2), of b m x] first(3) unfolding serveAdapter_routed [OF first(1)] by auto
  note receipts = command_keeps_receipts [OF service h(1) first(2) assms(2)]
  have table: "receiptKeys d' = receiptKeys d" "heldReceipt store k c d' = heldReceipt store k c d"
    if "command_receipts d' = command_receipts d" for d d' k c
    using that by (simp_all add: receiptKeys_def heldReceipt_def)
  consider "\<forall>g. receiptRequest S store canonical action g r w = (q, w1)"
    | c where "receiptKeys (db w1)" "heldReceipt store (trimSpace (reqIdempotencyKey r)) c (db w1)"
    using receipts.withReceipt_runs_or_holds [OF assms(1) _ _ h(2)] table [OF receipts] by blast
  then show ?thesis
  proof cases
    case 1
    then show ?thesis unfolding serveAdapter_routed [OF first(1)] using command [OF first(2)] by metis
  next
    case (2 c)
    then have held: "receiptKeys (db w2)" "heldReceipt store (trimSpace (reqIdempotencyKey r')) c (db w2)"
      using table [OF between] second(3) by simp_all
    show ?thesis
      unfolding serveAdapter_routed [OF second(1)]
      using receipts.withReceipt_held [OF held] command [OF second(2)] by metis
  qed
qed

section \<open>Witnesses\<close>

text \<open>An adapter with one route per action; the router sends every request to the path's last segment.\<close>

definition exAdapter :: AdapterSdk where
  "exAdapter = \<lparr>actDefinitionsList = ''a'', actDefinitionsGet = ''b'', actAuthoringContractGet = ''c'',
     actDefinitionsValidate = ''d'', actSchedulesPreview = ''e'', actDefinitionsSimulate = ''f'', actStateGet = ''g'',
     actDefinitionsRun = ''run'', actDefinitionsReschedule = ''h'', actRunsRetry = ''i'', actRunsCancel = ''j'',
     actDeadLettersResolve = ''k'', actDeadLettersRequeue = ''l'', validationCode = (\<lambda>_. []), validationParams = (\<lambda>_. None),
     previewDefinitionData = (\<lambda>_ t _. ret [t]), previewData = (\<lambda>_ t _. ret [t]), managementContract = None,
     encodeManagement = (\<lambda>_. None), decodeDefinitionData = (\<lambda>_. DecodeError), decodeScheduleData = (\<lambda>_. DecodeError),
     decodeNextRunAt = (\<lambda>_. DecodeError), decodeNote = (\<lambda>_. DecodeError)\<rparr>"

definition exRoutes :: "declaredRoute list" where
  "exRoutes = map (\<lambda>k. \<lparr>routeAction = k, routePattern = k, routeError = None\<rparr>) (actionKeys exAdapter)"

definition exMatch :: "string list \<Rightarrow> HTTPRequest \<Rightarrow> HTTPResponse + string \<times> RoutedRequest" where
  "exMatch patterns r = Inr (''run'', \<lparr>pathValue = (\<lambda>_. ''nightly''), contentLength = 0\<rparr>)"

definition exBound :: Service where
  "exBound = (exService (Inr exReceipt))\<lparr>serviceMode := DeploymentModeSaaS, servicePlans := planService exSdk exPlanStore (exStore ''a'') ''rt'',
     serviceDefinitions := Some (definitionRepository exSdk exPublisher)\<rparr>"

lemma exBound_tenant: "tenantBound exSdk ''rt'' exBound" "ofRuntime ''rt'' exMemory"
proof -
  have "heartbeatRuns exBound"
    using exService_heartbeat [of "Inr exReceipt"] by (simp add: heartbeatRuns_def exBound_def)
  moreover have "moves (tenantOnly ''rt'') (\<lambda>_. True) (previewSchedule exPlatform rule after count)" for rule after count
    unfolding exPlatform_def by (simp add: tenant_pure)
  ultimately show "tenantBound exSdk ''rt'' exBound"
    unfolding tenantBound_def
    by (intro conjI exI [of _ "exStore ''a''"] exI [of _ exPublisher] exI [of _ exPlanStore] exI [of _ "''rt''"])
      (simp_all add: exBound_def exService_def exStore_def exPublisher_def exPlanStore_def tenant_pure)
qed (simp add: ofRuntime_def exStore_def)

lemma exRoutes_keys: "distinct (actionKeys exAdapter)" "''run'' \<in> set (schedulerCommandActions exAdapter)"
    "routedTo exRoutes exMatch exRequest = Some (''run'', \<lparr>pathValue = (\<lambda>_. ''nightly''), contentLength = 0\<rparr>)"
  by (simp_all add: actionKeys_def exAdapter_def schedulerCommandActions_def routedTo_def exMatch_def exRoutes_def)

theorem adapter_complete_witness:
  "distinct (map routeAction exRoutes) \<and> length exRoutes = 13"
proof -
  have "NewAdapter exAdapter True True (Inr (exRoutes, actionKeys exAdapter)) (\<lambda>_. None) = Inr exRoutes"
    by (simp add: NewAdapter_def exRoutes_def actionKeys_def exAdapter_def)
  from adapter_complete [OF this] show ?thesis by (simp add: exRoutes_def actionKeys_def)
qed

text \<open>Two services whose repositories answer differently are answered differently by the same first request.\<close>

definition exFailing :: "goerr \<Rightarrow> Service" where
  "exFailing e = exBound\<lparr>serviceDefinitions := Some \<lparr>repoSyncDefinitions = (\<lambda>_. fail e), repoDefinitionSnapshot = fail e\<rparr>\<rparr>"

lemma exFailing_run:
  "runDefinition exSdk exAdapter (exFailing e) m x r = ret (writeServiceError exSdk exAdapter (Wrapf ''load Scheduler definitions: '' e))"
  by (rule ext) (simp add: runDefinition_def TriggerNow_def publishedDefinition_def exFailing_def exBound_def exService_def
      go_unfold Let_def writeCommandResult_def)

lemma exFailing_request:
  "fst (serveAdapter exSdk exAdapter Inr exReceipts (exFailing e) m exRoutes exMatch exRequest (exWorld emptyDatabase exNoon)) =
    Inr (writeServiceError exSdk exAdapter (Wrapf ''load Scheduler definitions: '' e))"
proof -
  have "trimSpace ''run'' = ''run''" by code_simp
  then have hash: "schedulerCommandRequestHash Inr exRequest ''run'' = Inr (sha256Hex (''run'' @ [CHR 0x0A] @ ''POST'' @ [CHR 0x0A] @
      ''/runs/cancel'' @ [CHR 0x0A] @ ''why'' @ [CHR 0x0A] @ [] @ [CHR 0x0A] @ []))"
    by (simp add: schedulerCommandRequestHash_def exRequest_def Let_def)
  note trimmed = requestHash_trimmed [OF hash]
  have "map_of (handlers exSdk exAdapter (exFailing e) m \<lparr>pathValue = (\<lambda>_. ''nightly''), contentLength = 0\<rparr>) ''run'' =
      Some (\<lambda>_. ret (writeServiceError exSdk exAdapter (Wrapf ''load Scheduler definitions: '' e)))"
    using exFailing_run [of e m] by (simp add: handlers_def exAdapter_def fun_eq_iff)
  then show ?thesis
    unfolding serveAdapter_routed [OF exRoutes_keys(3)] routeHandler_def
    using hash trimmed exRoutes_keys(2) \<open>trimSpace ''run'' = ''run''\<close>
    by (simp add: withCommandReceipt_def ClaimCommand_def CompleteCommand_def go_unfold sql_unfold
        exReceipts_def exWorld_def emptyDatabase_def Let_def trimReceipt_def claimRow_def receiptIdentity_def)
qed

theorem adapter_command_once_witness:
  "let serve = serveAdapter exSdk exAdapter Inr exReceipts exBound exMemory exRoutes exMatch exRequest;
     w1 = snd (serve (exWorld emptyDatabase exNoon)) in db (snd (serve w1)) = db w1"
proof -
  let ?serve = "\<lambda>b m. serveAdapter exSdk exAdapter Inr exReceipts b m exRoutes exMatch exRequest"
  let ?w = "exWorld emptyDatabase exNoon"
  have "receiptKeys (db ?w)" by (simp add: exReceipts_held exWorld_def)
  then consider "\<forall>b' m'. ?serve b' m' ?w = (fst (?serve exBound exMemory ?w), snd (?serve exBound exMemory ?w))"
    | "db (snd (?serve exBound exMemory (snd (?serve exBound exMemory ?w)))) = db (snd (?serve exBound exMemory ?w))"
    using adapter_command_once [OF _ exRoutes_keys(1) exBound_tenant exRoutes_keys(3,2) _ refl exRoutes_keys(3,2) refl,
        of ?w exSdk Inr exReceipts "fst (?serve exBound exMemory ?w)" "snd (?serve exBound exMemory ?w)"] by auto
  then show ?thesis
  proof cases
    case 1
    then have "Inr (writeServiceError exSdk exAdapter (Wrapf ''load Scheduler definitions: '' (Errorf []))) =
      (Inr (writeServiceError exSdk exAdapter (Wrapf ''load Scheduler definitions: '' (Sentinel ContextCanceled))) :: goerr + HTTPResponse)"
      using exFailing_request by (metis fst_conv)
    then show ?thesis by (simp add: writeServiceError_def exAdapter_def writeError_def writeJSON_def)
  qed (simp add: Let_def)
qed

theorem adapter_changes_by_commands_witness:
  "db (snd (serveAdapter exSdk exAdapter Inr exReceipts exBound exMemory exRoutes exMatch (exRequest\<lparr>reqIdempotencyKey := []\<rparr>)
     (exWorld emptyDatabase exNoon))) = emptyDatabase"
proof (rule ccontr)
  have "previewsRead exAdapter exBound"
    by (auto simp: previewsRead_def exAdapter_def exBound_def exService_def exPlatform_def definitionRepository_def intro!: readonly_intros)
  moreover assume "db (snd (serveAdapter exSdk exAdapter Inr exReceipts exBound exMemory exRoutes exMatch
      (exRequest\<lparr>reqIdempotencyKey := []\<rparr>) (exWorld emptyDatabase exNoon))) \<noteq> emptyDatabase"
  then have "db (snd (serveAdapter exSdk exAdapter Inr exReceipts exBound exMemory exRoutes exMatch
      (exRequest\<lparr>reqIdempotencyKey := []\<rparr>) (exWorld emptyDatabase exNoon))) \<noteq> db (exWorld emptyDatabase exNoon)"
    by (simp add: exWorld_def)
  ultimately show False using adapter_changes_by_commands by fastforce
qed

end
