(* ===== verification/SaaS_Publication.thy ===== *)
theory SaaS_Publication
  imports SaaS_Isolation Remote_Binding Publication_Properties Module_Properties
begin

text \<open>
  Publication from end to end: the binding of a Runtime process (\<open>Remote_Binding\<close>) over the service of the Scheduler
  process (\<open>SaaS_Service\<close>) over the definition store (\<open>Definition_Store\<close>). The transport between the two processes is
  assumed to deliver: its calls are the service's.
\<close>

definition transportDelivers :: "Saas \<Rightarrow> SaasMemory process Transport \<Rightarrow> bool" where
  "transportDelivers opts t \<longleftrightarrow> bindTransport t = None \<and> sendDescriptor t = saasDescriptor opts \<and>
     sendBeginSession t = Some (saasBeginDefinitionPublisherSession opts) \<and> sendReconcile t = saasReconcile opts"

text \<open>An application of the service that is open, in a service whose applications are bound to their Runtimes.\<close>

definition serving :: "Saas \<Rightarrow> string \<Rightarrow> SaasMemory process \<Rightarrow> bool" where
  "serving opts runtime p \<longleftrightarrow> applicationKey opts runtime = Inr (trimSpace runtime) \<and> allBound opts (memory p) \<and>
     saasApplications (memory p) (trimSpace runtime) \<noteq> None"

lemma servingE:
  assumes "serving opts runtime p"
  obtains a where "saasApplications (memory p) (trimSpace runtime) = Some a"
    "runtimeBinding opts (trimSpace runtime) (appBinding a)"
  using assms by (auto simp: serving_def allBound_def boundApplication_def)

lemma application_serving:
  assumes "serving opts runtime (db w)"
  shows "application opts runtime w = (Inr (trimSpace runtime), w)"
  using assms by (auto simp: serving_def application_def bindE_def [of "liftE _"] liftE_def ret_def)

lemma saasDefinitionStore_bound:
  "runtimeBinding opts key (appBinding a) \<Longrightarrow> saasDefinitionStore a = publisherStore key"
  by (simp add: runtimeBinding_def saasDefinitionStore_def publisherStore_def)

text \<open>An operation on the tables of an open application.\<close>

lemma withApplication_tables:
  assumes "serving opts runtime (db w)" "withApplication opts runtime (\<lambda>a. onTables (f a)) w = (q, w')"
  obtains a v where "saasApplications (memory (db w)) (trimSpace runtime) = Some a"
    "runtimeBinding opts (trimSpace runtime) (appBinding a)"
    "f a (withState (tables (db w)) w) = (q, v)" "tables (db w') = db v"
    "saasApplications (memory (db w')) = saasApplications (memory (db w))"
proof -
  obtain a where a: "saasApplications (memory (db w)) (trimSpace runtime) = Some a"
      "runtimeBinding opts (trimSpace runtime) (appBinding a)"
    using servingE [OF assms(1)] .
  obtain r v where v: "f a (withState (tables (db w)) w) = (r, v)" by fastforce
  have "withApplication opts runtime (\<lambda>a. onTables (f a)) w = onApplication (trimSpace runtime) (\<lambda>a. onTables (f a)) w"
    by (simp add: withApplication_def bindE_def application_serving [OF assms(1)])
  then have "q = r" "tables (db w') = db v" "saasApplications (memory (db w')) = saasApplications (memory (db w))"
    using assms(2) a(1) v
    by (auto simp: onApplication_def zoom_def applicationPart_def putApplication_def updateApplication_def onTables_eq)
  with that a v show thesis by blast
qed

lemma saasBegin_session:
  assumes "serving opts runtime (db w)" "saasBeginDefinitionPublisherSession opts runtime w = (Inr p, w')"
  obtains v v' where "BeginDefinitionPublisherSession (saasSdk opts) (publisherStore (trimSpace runtime)) v = (Inr p, v')"
    "db v = tables (db w)" "db v' = tables (db w')"
proof -
  obtain a v where v: "runtimeBinding opts (trimSpace runtime) (appBinding a)"
      "BeginDefinitionPublisherSession (saasSdk opts) (saasDefinitionStore a) (withState (tables (db w)) w) = (Inr p, v)"
      "tables (db w') = db v"
    using assms(2) unfolding saasBeginDefinitionPublisherSession_def
    by (rule withApplication_tables [OF assms(1)]) blast
  show thesis using that [OF v(2) [unfolded saasDefinitionStore_bound [OF v(1)]]] v(3) by simp
qed

section \<open>Opening over a transport that delivers\<close>

lemma remoteOpen_session:
  assumes "transportDelivers opts t" "serving opts runtime (db w)"
    and "remoteOpenSaaS R (NewFactory [t]) runtime host w = (Inr b, w')"
  shows "rbTransport b = t" "rbApplication b = runtime" "host = Some (rbSnapshot b)"
    "saasBeginDefinitionPublisherSession opts runtime w = (Inr (rbPublication b), w')"
proof -
  have "sendDescriptor t runtime w' = (q, v) \<Longrightarrow> w' = w \<Longrightarrow> v = w" for q v w'
    using assms(1) application_serving [OF assms(2)]
    by (auto simp: transportDelivers_def saasDescriptor_def bindE_def ret_def)
  then have "rbTransport b = t \<and> rbApplication b = runtime \<and> host = Some (rbSnapshot b) \<and>
      saasBeginDefinitionPublisherSession opts runtime w = (Inr (rbPublication b), w')"
    using assms(1,3) unfolding remoteOpenSaaS_def selectTransport_def NewFactory_def beginSession_def transportDelivers_def
    by (auto simp: attempt_def fail_def ret_def bindE_def split: option.splits sum.splits prod.splits if_splits)
  then show "rbTransport b = t" "rbApplication b = runtime" "host = Some (rbSnapshot b)"
    "saasBeginDefinitionPublisherSession opts runtime w = (Inr (rbPublication b), w')" by simp_all
qed

text \<open>
  The handshake succeeds: what the service discloses of itself is what the client asks for, when both sides use the same
  names and the client reads capabilities from the list.
\<close>

lemma remoteOpen_succeeds:
  assumes "transportDelivers opts t" "serving opts runtime (db w)"
    and "saasBeginDefinitionPublisherSession opts runtime w = (Inr p, w')"
    and "remoteValidApplication R runtime = None" "\<And>d. remoteValidDescriptor R d = None" "remoteValidSession R p = None"
    and "remoteNames R = saasNames opts" "\<And>d name. remoteSupports R d name \<longleftrightarrow> name \<in> set (descCapabilities d)"
  shows "\<exists>b. remoteOpenSaaS R (NewFactory [t]) runtime (Some snapshot) w = (Inr b, w') \<and> rbPublication b = p \<and>
    rbTransport b = t \<and> rbApplication b = runtime \<and> rbSnapshot b = snapshot"
  using assms application_serving [OF assms(2)]
  unfolding remoteOpenSaaS_def selectTransport_def NewFactory_def beginSession_def transportDelivers_def saasDescriptor_def
  by (simp add: attempt_def ret_def bindE_def)

section \<open>A superseded publication\<close>

text \<open>How the SDK derives a fence from a session: it keeps the generation, and equal fences are the same.\<close>

definition fencesExact :: "Sdk \<Rightarrow> bool" where
  "fencesExact S \<longleftrightarrow> (\<forall>a b. fenceEqual S a b \<longrightarrow> a = b) \<and>
     (\<forall>session fence. sessionFence S session = Inr fence \<longrightarrow> fenceGeneration fence = sessionGeneration session)"

lemma persistedSnapshot_fence:
  assumes "persistedSnapshot S b snapshot = Inr persisted" "serviceMode b = DeploymentModeSaaS" "hostSession snapshot = Some session"
    and "fencesExact S"
  obtains fence where "snapFence persisted = Some fence" "fenceGeneration fence = sessionGeneration session"
  using assms by (auto simp: persistedSnapshot_def Let_def fencesExact_def split: sum.splits)

lemma stale_reconcile_refused:
  assumes bound: "runtimeBinding opts key b" and exact: "fencesExact (saasSdk opts)"
    and session: "hostSession snapshot = Some session"
    and stale: "sessionGeneration session < activeBefore (publisherStore key) (tables (db w))"
    and run: "reconcileSnapshot (saasSdk opts) b snapshot w = (q, w')"
  shows "isl q" "db w' = db w"
proof -
  let ?S = "saasSdk opts" and ?ds = "publisherStore key"
  have b: "serviceMode b = DeploymentModeSaaS" "serviceDefinitions b = Some (definitionRepository ?S ?ds)"
    using bound by (simp_all add: runtimeBinding_def)
  obtain r w1 where r: "mapE (\<lambda>d. liftE (checkDefinition ?S d)) (hostDefinitions snapshot) w = (r, w1)" by fastforce
  have "readonly (mapE (\<lambda>d. liftE (checkDefinition ?S d)) (hostDefinitions snapshot))" by (intro readonly_intros)
  then have same: "db w1 = db w" using r by (rule readonlyD)
  have "isl q \<and> db w' = db w"
  proof (cases r)
    case (Inl e)
    then show ?thesis using run r same by (auto simp: reconcileSnapshot_def b(2) bindE_def)
  next
    case (Inr ds)
    show ?thesis
    proof (cases "persistedSnapshot ?S b snapshot")
      case (Inl e)
      then show ?thesis using run r same Inr by (auto simp: reconcileSnapshot_def b(2) bindE_def liftE_def)
    next
      case persisted: (Inr persisted)
      obtain fence where fence: "snapFence persisted = Some fence" "fenceGeneration fence = sessionGeneration session"
        using persistedSnapshot_fence [OF persisted b(1) session exact] .
      obtain q1 w2 where sync: "onTables (SyncDefinitions ?S ?ds persisted) w1 = (q1, w2)" by fastforce
      then obtain v where v: "SyncDefinitions ?S ?ds persisted (withState (tables (db w1)) w1) = (q1, v)"
          "tables (db w2) = db v" "memory (db w2) = memory (db w1)"
        by (rule onTables_E)
      have "isl q1" "db v = tables (db w1)"
        using stale_sync_refused [OF fence(1) _ _ v(1)] fence(2) stale same exact by (auto simp: fencesExact_def)
      moreover then have "db w2 = db w" using v(2,3) same by (intro process.equality) simp_all
      ultimately obtain e where "q1 = Inl e" "db w2 = db w" by (auto simp: isl_def)
      then show ?thesis
        using run r Inr persisted sync
        by (auto simp: reconcileSnapshot_def b(2) bindE_def liftE_def attempt_def fail_def definitionRepository_def)
    qed
  qed
  then show "isl q" "db w' = db w" by simp_all
qed

lemma saasReconcile_stale:
  assumes "serving opts runtime (db w)" "fencesExact (saasSdk opts)" "hostSession snapshot = Some session"
    and "sessionGeneration session < activeBefore (publisherStore (trimSpace runtime)) (tables (db w))"
    and run: "saasReconcile opts runtime snapshot w = (q, w')"
  shows "isl q" "db w' = db w"
proof -
  let ?key = "trimSpace runtime"
  obtain a where a: "saasApplications (memory (db w)) ?key = Some a" "runtimeBinding opts ?key (appBinding a)"
    using servingE [OF assms(1)] .
  let ?p = "\<lparr>memory = appMemory a, tables = tables (db w)\<rparr>"
  obtain r v where v: "reconcileSnapshot (saasSdk opts) (appBinding a) snapshot (withState ?p w) = (r, v)" by fastforce
  have refused: "isl r" "db v = ?p"
    using stale_reconcile_refused [OF a(2) assms(2,3) _ v] assms(4) by simp_all
  have "putApplication ?key ?p (db w) = db w"
    using a(1) by (simp add: putApplication_def updateApplication_def fun_upd_idem)
  then show "isl q" "db w' = db w"
    using run a(1) v refused
    by (auto simp: saasReconcile_def ReconcileSnapshot_def bindE_def application_serving [OF assms(1)] onApplication_def
        zoom_def applicationPart_def getMemory_def isl_def)
qed

text \<open>
  C3. A superseded Runtime process cannot publish, from end to end. A Runtime process opens its binding to the Scheduler
  service over a transport that delivers, and later another process opens one for the same Runtime; in between and after,
  any publisher sessions and snapshots may be recorded by any process. Then the second process has the higher
  generation, and whatever definitions the first one reads and tries to publish from then on, its reconciliation ends with
  an error and leaves the service's memory and the database exactly as they were.
\<close>

theorem stale_runtime_fenced:
  assumes transport: "transportDelivers opts t" and exact: "fencesExact (saasSdk opts)"
    and first: "serving opts runtime (db w)" "publicationKeys (tables (db w))"
      "remoteOpenSaaS R (NewFactory [t]) runtime host w = (Inr b, w1)"
    and between: "publish_reach (saasSdk opts) (tables (db w1)) (tables (db w2))"
    and second: "serving opts runtime (db w2)" "remoteOpenSaaS R' (NewFactory [t]) runtime host' w2 = (Inr b', w3)"
    and later: "publish_reach (saasSdk opts) (tables (db w3)) (tables (db w4))" "serving opts runtime (db w4)"
    and host: "readonly (rbSnapshot b)"
    and run: "remoteReconcile R b w4 = (q, w5)"
  shows "sessionGeneration (rbPublication b) < sessionGeneration (rbPublication b') \<and> isl q \<and> db w5 = db w4"
proof -
  let ?s = "publisherStore (trimSpace runtime)" and ?S = "saasSdk opts"
  note o1 = remoteOpen_session [OF transport first(1,3)] and o2 = remoteOpen_session [OF transport second]
  obtain v v1 where s1: "BeginDefinitionPublisherSession ?S ?s v = (Inr (rbPublication b), v1)" "db v = tables (db w)" "db v1 = tables (db w1)"
    using saasBegin_session [OF first(1) o1(4)] .
  obtain u u1 where s2: "BeginDefinitionPublisherSession ?S ?s u = (Inr (rbPublication b'), u1)" "db u = tables (db w2)" "db u1 = tables (db w3)"
    using saasBegin_session [OF second(1) o2(4)] .
  note b1 = session_begun [OF first(2) [folded s1(2)] s1(1), unfolded s1(3)]
  note k2 = active_kept [OF between b1(1)]
  note b2 = session_begun [OF k2(1) [folded s2(2)] s2(1), unfolded s2(2,3)]
  have less: "sessionGeneration (rbPublication b) < sessionGeneration (rbPublication b')"
    using b1(2) k2(2) [of ?s] b2(3) by linarith
  have stale: "sessionGeneration (rbPublication b) < activeBefore ?s (tables (db w4))"
    using less b2(2) active_kept(2) [OF later(1) b2(1), of ?s] by linarith
  obtain r w6 where r: "rbSnapshot b w4 = (r, w6)" by fastforce
  have same: "db w6 = db w4" using host r by (rule readonlyD)
  have send: "isl q' \<and> db w' = db w4" if "sendReconcile t runtime (s\<lparr>hostSession := Some (rbPublication b)\<rparr>) w6 = (q', w')" for s q' w'
    using saasReconcile_stale [of opts runtime w6 "s\<lparr>hostSession := Some (rbPublication b)\<rparr>" "rbPublication b" q' w']
      later(2) exact stale that transport same by (simp add: transportDelivers_def)
  have "isl q \<and> db w5 = db w4"
    using run r same send o1(1,2)
    by (auto simp: remoteReconcile_def attempt_def Let_def fail_def split: sum.splits option.splits prod.splits)
  with less show ?thesis by blast
qed

section \<open>Witness\<close>

text \<open>A service with one open application, and a transport to it.\<close>

definition exServingWorld :: "database \<Rightarrow> SaasMemory process world" where
  "exServingWorld d = withState \<lparr>memory = \<lparr>saasApplications = [''rt'' \<mapsto>
     \<lparr>appReady = False, appStarted = False, appDone = None, appBinding = exBound, appMemory = exMemory\<rparr>], saasCanceled = False\<rparr>,
     tables = d\<rparr> (exWorld d exNoon)"

definition exDelivering :: "SaasMemory process Transport" where
  "exDelivering = \<lparr>bindTransport = None, sendDescriptor = saasDescriptor exSaas,
     sendBeginSession = Some (saasBeginDefinitionPublisherSession exSaas), sendReconcile = saasReconcile exSaas,
     sendPreview = saasPreview exSaas, sendTick = (\<lambda>_ _ _. ret 0), sendTriggerNow = (\<lambda>_ _ _. fail (Errorf [])),
     sendReschedule = (\<lambda>_ _ _ _. ret ()), sendRuns = (\<lambda>_ _. ret []), sendRun = (\<lambda>_ _. fail (Errorf [])),
     sendRetryRun = (\<lambda>_ _ _. fail (Errorf [])), sendCancelRun = (\<lambda>_ _ _. fail (Errorf [])), sendDeadLetters = (\<lambda>_ _. ret []),
     sendDeadLetter = (\<lambda>_ _. fail (Errorf [])), sendResolveDeadLetter = (\<lambda>_ _ _. fail (Errorf [])),
     sendRequeueDeadLetter = (\<lambda>_ _ _. fail (Errorf [])), planTransport = None, sendPlanDeletion = None\<rparr>"

lemma exDelivering: "transportDelivers exSaas exDelivering"
  by (simp add: transportDelivers_def exDelivering_def)

lemma exServing_tables: "tables (db (exServingWorld d)) = d"
  "withState d (exServingWorld d) = exWorld d exNoon"
  by (simp_all add: exServingWorld_def withState_same [of "exWorld d exNoon", simplified])

lemma exServing: "serving exSaas ''rt'' (db (exServingWorld d))"
proof -
  have "runtimeBinding exSaas ''rt'' exBound"
    by (simp add: runtimeBinding_def exBound_def exService_def exSaas_def publisherStore_def exPublisher_def exPublication_trimmed)
  moreover have "tenantBound (saasSdk exSaas) ''rt'' exBound" "ofRuntime ''rt'' exMemory"
    using exBound_tenant by (simp_all add: exSaas_def)
  ultimately have "allBound exSaas (memory (db (exServingWorld d)))"
    by (simp add: allBound_def exServingWorld_def)
  moreover have "applicationKey exSaas ''rt'' = Inr ''rt''"
    by (simp add: applicationKey_def exSaas_def exPublication_trimmed)
  ultimately show ?thesis by (simp add: serving_def exPublication_trimmed exServingWorld_def)
qed

lemma exServing_begin:
  assumes "BeginDefinitionPublisherSession exSdk exPublisher (exWorld d exNoon) = (Inr p, v)"
  shows "\<exists>w1. saasBeginDefinitionPublisherSession exSaas ''rt'' (exServingWorld d) = (Inr p, w1) \<and> tables (db w1) = db v"
proof -
  obtain q w1 where q: "saasBeginDefinitionPublisherSession exSaas ''rt'' (exServingWorld d) = (q, w1)" by fastforce
  obtain a v' where v': "runtimeBinding exSaas ''rt'' (appBinding a)"
      "BeginDefinitionPublisherSession (saasSdk exSaas) (saasDefinitionStore a) (exWorld d exNoon) = (q, v')" "tables (db w1) = db v'"
    using q unfolding saasBeginDefinitionPublisherSession_def
    by (rule withApplication_tables [OF exServing]) (simp add: exServing_tables exPublication_trimmed)
  moreover have "saasDefinitionStore a = exPublisher" "saasSdk exSaas = exSdk"
    using saasDefinitionStore_bound [OF v'(1)] by (simp_all add: publisherStore_def exPublisher_def exSaas_def)
  ultimately show ?thesis using assms q by simp
qed

lemma exServing_open:
  assumes "BeginDefinitionPublisherSession exSdk exPublisher (exWorld d exNoon) = (Inr p, v)"
  shows "\<exists>b w1. remoteOpenSaaS exRemoteSdk (NewFactory [exDelivering]) ''rt'' (Some (ret exHostSnapshot)) (exServingWorld d) = (Inr b, w1) \<and>
    rbPublication b = p \<and> rbSnapshot b = ret exHostSnapshot \<and> tables (db w1) = db v"
proof -
  obtain w1 where w1: "saasBeginDefinitionPublisherSession exSaas ''rt'' (exServingWorld d) = (Inr p, w1)" "tables (db w1) = db v"
    using exServing_begin [OF assms] by blast
  have "\<exists>b. remoteOpenSaaS exRemoteSdk (NewFactory [exDelivering]) ''rt'' (Some (ret exHostSnapshot)) (exServingWorld d) = (Inr b, w1) \<and>
      rbPublication b = p \<and> rbTransport b = exDelivering \<and> rbApplication b = ''rt'' \<and> rbSnapshot b = ret exHostSnapshot"
    by (rule remoteOpen_succeeds [OF exDelivering exServing w1(1)]) (simp_all add: exRemoteSdk_def exSaas_def)
  with w1(2) show ?thesis by blast
qed

theorem stale_runtime_fenced_witness:
  "\<exists>b. sessionGeneration (rbPublication b) = 1 \<and>
     isl (fst (remoteReconcile exRemoteSdk b (exServingWorld (exSession 2)))) \<and>
     db (snd (remoteReconcile exRemoteSdk b (exServingWorld (exSession 2)))) = db (exServingWorld (exSession 2))"
proof -
  obtain b w1 where b: "remoteOpenSaaS exRemoteSdk (NewFactory [exDelivering]) ''rt'' (Some (ret exHostSnapshot)) (exServingWorld emptyDatabase) = (Inr b, w1)"
      "rbPublication b = \<lparr>sessionGeneration = 1, sessionNonce = exNonce\<rparr>" "rbSnapshot b = ret exHostSnapshot" "tables (db w1) = exSession 1"
    using exBegin_first exServing_open by (metis (no_types, lifting))
  obtain b' w3 where b': "remoteOpenSaaS exRemoteSdk (NewFactory [exDelivering]) ''rt'' (Some (ret exHostSnapshot)) (exServingWorld (exSession 1)) = (Inr b', w3)"
      "tables (db w3) = exSession 2"
    using exBegin_second exServing_open by (metis (no_types, lifting))
  have exact: "fencesExact (saasSdk exSaas)" by (simp add: fencesExact_def exSaas_def exSdk_def)
  have "readonly (rbSnapshot b)" unfolding b(3) by (intro readonly_intros)
  then show ?thesis
    using stale_runtime_fenced [OF exDelivering exact exServing _ b(1) _ exServing b'(1) _ exServing _ prod.collapse [symmetric], of "exSession 2"]
      b b'(2) by (intro exI [of _ b]) (simp add: exServing_tables exSession_keys)
qed

end
