(* ===== verification/Candidate_Validation.thy ===== *)
theory Candidate_Validation
  imports Scheduler_Examples
begin

text \<open>
  The validation of authored job definitions, \<^verbatim>\<open>capability/contract.go\<close>, and the schema published for them,
  \<^verbatim>\<open>capability/source.go\<close>: a candidate names its schedule by the shape of its fields, and is handed to the SDK's
  validator as flat data. The decoder of the fragment and the SDK's validator
  are the record \<open>CandidateSdk\<close>. The projection of the declared actions to routes and the idempotency overrides are here too;
  \<open>Capability_Contract\<close> makes the documents of them.
\<close>

section \<open>The candidate\<close>

text \<open>\<^verbatim>\<open>*int\<close> fields are options; the localised texts are carried by the struct and read by nothing here.\<close>

record scheduledJobScheduleSource =
  srcType :: string
  srcExpression :: string
  srcIntervalSeconds :: "int option"
  srcTimeOfDay :: string
  srcDayOfWeek :: string
  srcDayOfMonth :: "int option"
  srcTimezone :: string

record scheduledJobSource =
  jobKey :: string
  jobName :: string
  jobStatus :: string
  jobTargetType :: string
  jobTargetKey :: string
  jobTargetObject :: string
  jobRunAsRole :: string
  jobConnectionKey :: string
  jobPayloadJSON :: string
  jobSchedule :: scheduledJobScheduleSource
  jobBusinessCalendarKey :: string
  jobNonWorkingDayPolicy :: string
  jobMissedWindowPolicy :: string
  jobMaxCatchupWindows :: int
  jobMaxAttempts :: int
  jobRetryDelaySeconds :: int
  jobRetryMaxDelaySeconds :: int
  jobTimeoutSeconds :: int
  jobDescription :: string
  jobI18n :: "(string \<times> string) list"

definition inferredType :: "scheduledJobScheduleSource \<Rightarrow> goerr + string" where
  "inferredType v =
     (let expression = trimSpace (srcExpression v) \<noteq> []; interval = srcIntervalSeconds v \<noteq> None;
          timeOfDay = trimSpace (srcTimeOfDay v) \<noteq> []; dayOfWeek = trimSpace (srcDayOfWeek v) \<noteq> [];
          dayOfMonth = srcDayOfMonth v \<noteq> None; timezone = trimSpace (srcTimezone v) \<noteq> [] in
      if expression \<and> \<not> interval \<and> \<not> timeOfDay \<and> \<not> dayOfWeek \<and> \<not> dayOfMonth then Inr ''cron''
      else if interval \<and> \<not> expression \<and> \<not> timeOfDay \<and> \<not> dayOfWeek \<and> \<not> dayOfMonth \<and> \<not> timezone then Inr ''interval''
      else if timeOfDay \<and> \<not> expression \<and> \<not> interval \<and> \<not> dayOfWeek \<and> \<not> dayOfMonth then Inr ''daily_at''
      else if timeOfDay \<and> dayOfWeek \<and> \<not> expression \<and> \<not> interval \<and> \<not> dayOfMonth then Inr ''weekly_at''
      else if timeOfDay \<and> dayOfMonth \<and> \<not> expression \<and> \<not> interval \<and> \<not> dayOfWeek then Inr ''monthly_at''
      else Inl (Errorf ''schedule must identify exactly one cron, interval, daily, weekly, or monthly source shape''))"

text \<open>The values of \<^verbatim>\<open>map[string]any\<close>; the map is the list of its assignments, each key assigned once.\<close>

datatype dataValue = TextValue string | IntValue int

definition textEntry :: "string \<Rightarrow> string \<Rightarrow> (string \<times> dataValue) list" where
  "textEntry key v = (if v \<noteq> [] then [(key, TextValue v)] else [])"

definition intEntry :: "string \<Rightarrow> int \<Rightarrow> (string \<times> dataValue) list" where
  "intEntry key v = (if v \<noteq> 0 then [(key, IntValue v)] else [])"

definition pointerEntry :: "string \<Rightarrow> int option \<Rightarrow> (string \<times> dataValue) list" where
  "pointerEntry key v = (case v of None \<Rightarrow> [] | Some n \<Rightarrow> [(key, IntValue n)])"

definition scheduleData :: "scheduledJobScheduleSource \<Rightarrow> (string \<times> dataValue) list" where
  "scheduleData v =
     textEntry ''schedule_expression'' (srcExpression v) @ pointerEntry ''interval_seconds'' (srcIntervalSeconds v) @
     textEntry ''time_of_day'' (srcTimeOfDay v) @ textEntry ''day_of_week'' (srcDayOfWeek v) @
     pointerEntry ''day_of_month'' (srcDayOfMonth v) @ textEntry ''timezone'' (srcTimezone v)"

definition runtimeData :: "scheduledJobSource \<Rightarrow> string \<Rightarrow> (string \<times> dataValue) list" where
  "runtimeData v kind =
     (let targetKey = trimSpace (jobTargetKey v);
          targetKey = (if jobTargetType v = ''workflow'' then ''scheduled:'' @ targetKey else targetKey) in
      [(''key'', TextValue (jobKey v)), (''name'', TextValue (jobName v)), (''status'', TextValue (jobStatus v)),
       (''target_type'', TextValue (jobTargetType v)), (''target_key'', TextValue targetKey),
       (''schedule_type'', TextValue kind), (''missed_window_policy'', TextValue (jobMissedWindowPolicy v)),
       (''max_attempts'', IntValue (jobMaxAttempts v)), (''timeout_seconds'', IntValue (jobTimeoutSeconds v))] @
      textEntry ''target_object'' (jobTargetObject v) @ textEntry ''run_as_role'' (jobRunAsRole v) @
      textEntry ''connection_key'' (jobConnectionKey v) @ textEntry ''payload_json'' (jobPayloadJSON v) @
      textEntry ''business_calendar_key'' (jobBusinessCalendarKey v) @
      textEntry ''non_working_day_policy'' (jobNonWorkingDayPolicy v) @
      intEntry ''max_catchup_windows'' (jobMaxCatchupWindows v) @ intEntry ''retry_delay_seconds'' (jobRetryDelaySeconds v) @
      intEntry ''retry_max_delay_seconds'' (jobRetryMaxDelaySeconds v) @ textEntry ''description'' (jobDescription v) @
      scheduleData (jobSchedule v))"

definition validScheduledJobStatus :: "string \<Rightarrow> bool" where
  "validScheduledJobStatus v \<longleftrightarrow> trimSpace v \<in> {''archived'', ''draft'', ''enabled'', ''paused'', ''disabled''}"

definition scheduledJobSourceField :: "string \<Rightarrow> string" where
  "scheduledJobSourceField v =
     (if v = ''schedule_type'' then ''schedule.type''
      else if v = ''schedule_expression'' then ''schedule.expression''
      else if v \<in> {''interval_seconds'', ''time_of_day'', ''day_of_week'', ''day_of_month'', ''timezone''} then ''schedule.'' @ v
      else v)"

section \<open>Validation\<close>

type_synonym stringMap = "(string \<times> string) list"

record Diagnostic =
  diagOwner :: string
  diagRuleKey :: string
  diagFieldPath :: string
  diagMessage :: string
  diagParams :: "stringMap option"

text \<open>The diagnostics all have severity error.\<close>

definition invalidResult :: "Sdk \<Rightarrow> string \<Rightarrow> string \<Rightarrow> stringMap option \<Rightarrow> goerr option \<Rightarrow> Diagnostic list" where
  "invalidResult S rule fieldPath params e =
     (let message = (case e of None \<Rightarrow> rule | Some x \<Rightarrow> if trimSpace (errorText S x) \<noteq> [] then errorText S x else rule) in
      [\<lparr>diagOwner = ''scheduler'', diagRuleKey = rule, diagFieldPath = fieldPath, diagMessage = message, diagParams = params\<rparr>])"

record CandidateSdk =
  decodeCandidate :: "string \<Rightarrow> string \<Rightarrow> goerr + scheduledJobSource"
  validateDefinitionData :: "(string \<times> dataValue) list \<Rightarrow> goerr option"
  candidateCode :: "goerr \<Rightarrow> string"
  candidateParams :: "goerr \<Rightarrow> stringMap option"

record ValidationRequest =
  valKind :: string
  valKey :: string
  valFragment :: string

text \<open>\<^verbatim>\<open>*modulecapability.Error\<close>: a status and a code.\<close>

type_synonym capabilityError = "int \<times> string"

definition paramOf :: "stringMap option \<Rightarrow> string \<Rightarrow> string" where
  "paramOf params key = (case params of None \<Rightarrow> [] | Some ps \<Rightarrow> (case map_of ps key of None \<Rightarrow> [] | Some v \<Rightarrow> v))"

definition definitionDiagnostics :: "Sdk \<Rightarrow> CandidateSdk \<Rightarrow> goerr \<Rightarrow> Diagnostic list" where
  "definitionDiagnostics S C e =
     (let rule = (if candidateCode C e = [] then ''scheduler.candidate_invalid'' else candidateCode C e);
          params = candidateParams C e; value = trimSpace (paramOf params ''field'');
          fieldPath = ''$.candidate.value'' @ (if value \<noteq> [] then ''.'' @ scheduledJobSourceField value else []) in
      invalidResult S rule fieldPath params (Some e))"

definition validateCandidate :: "Sdk \<Rightarrow> CandidateSdk \<Rightarrow> ValidationRequest \<Rightarrow> capabilityError + Diagnostic list" where
  "validateCandidate S C request =
     (case decodeCandidate C (valKey request) (valFragment request) of
        Inl e \<Rightarrow> Inr (invalidResult S ''scheduler.candidate_invalid'' ''$.candidate.value'' None (Some e))
      | Inr candidate \<Rightarrow>
          if valKind request \<noteq> ''scheduler.definition'' then Inl (400, ''module_capability.validation_scope_invalid'')
          else if trimSpace (jobKey candidate) = []
          then Inr (invalidResult S ''scheduler.key_required'' ''$.candidate.value.key'' None (Some (Errorf ''scheduled job key is required'')))
          else if jobKey candidate \<noteq> valKey request
          then Inr (invalidResult S ''scheduler.key_mismatch'' ''$.candidate.value.key''
                 (Some [(''expected'', valKey request), (''actual'', jobKey candidate)])
                 (Some (Errorf ''scheduled job key differs from fragment key'')))
          else if \<not> validScheduledJobStatus (jobStatus candidate)
          then Inr (invalidResult S ''scheduler.status_invalid'' ''$.candidate.value.status''
                 (Some [(''allowed'', ''disabled,draft,enabled,paused''), (''actual'', jobStatus candidate)])
                 (Some (Errorf ''scheduled job status is invalid'')))
          else (case inferredType (jobSchedule candidate) of
             Inl e \<Rightarrow> Inr (invalidResult S ''scheduler.schedule_shape_invalid'' ''$.candidate.value.schedule'' None (Some e))
           | Inr kind \<Rightarrow>
               let given = srcType (jobSchedule candidate) in
               if given \<noteq> [] \<and> given \<noteq> kind
               then Inr (invalidResult S ''scheduler.schedule_type_derived_mismatch'' ''$.candidate.value.schedule.type''
                      (Some [(''expected'', kind), (''actual'', given)])
                      (Some (Errorf ''schedule type must match the compiler-derived source shape'')))
               else (case validateDefinitionData C (runtimeData candidate kind) of
                       None \<Rightarrow> Inr []
                     | Some e \<Rightarrow> Inr (definitionDiagnostics S C e))))"

section \<open>The HTTP contract\<close>

text \<open>
  \<^verbatim>\<open>modulehttp.Route\<close> as far as it is read here. \<open>project\<close> is \<^verbatim>\<open>modulehttp.RouteFromAction\<close> of the SDK.
\<close>

record contractRoute =
  ctrPattern :: string
  ctrActionKey :: string
  ctrCapabilityKey :: string
  ctrWrites :: bool

fun projectActions :: "('a \<Rightarrow> string) \<Rightarrow> ('a \<Rightarrow> goerr + contractRoute) \<Rightarrow> 'a list \<Rightarrow> goerr + contractRoute list" where
  "projectActions actionKey project [] = Inr []"
| "projectActions actionKey project (action # rest) =
     (case project action of
        Inl e \<Rightarrow> Inl (Wrapf (''project Scheduler Action '' @ quoted (actionKey action) @ '': '') e)
      | Inr route \<Rightarrow> (case projectActions actionKey project rest of Inl e \<Rightarrow> Inl e | Inr routes \<Rightarrow> Inr (route # routes)))"

definition schedulerHTTPContract ::
  "('a \<Rightarrow> string) \<Rightarrow> ('a \<Rightarrow> goerr + contractRoute) \<Rightarrow> goerr + 'a list \<Rightarrow> goerr + 'o \<Rightarrow> goerr + contractRoute list \<times> 'o" where
  "schedulerHTTPContract actionKey project actions operations =
     (case actions of Inl e \<Rightarrow> Inl e | Inr as \<Rightarrow>
      case operations of Inl e \<Rightarrow> Inl e | Inr ops \<Rightarrow>
      case projectActions actionKey project as of Inl e \<Rightarrow> Inl e | Inr routes \<Rightarrow> Inr (routes, ops))"

record OperationExtension =
  extPermission :: string
  extIdempotencyMode :: string
  extKeySource :: string

definition schedulerOperationOverrides :: "string \<Rightarrow> contractRoute list \<Rightarrow> (string \<rightharpoonup> OperationExtension)" where
  "schedulerOperationOverrides operationsCategory routes =
     fold (\<lambda>route result.
       if ctrCapabilityKey route = operationsCategory \<and> ctrWrites route
       then result(ctrPattern route \<mapsto> \<lparr>extPermission = ctrActionKey route, extIdempotencyMode = ''caller_key_required'',
              extKeySource = ''Idempotency-Key''\<rparr>)
       else result) routes Map.empty"

section \<open>The published schema\<close>

text \<open>
  A variant of the schedule: its closed set of properties, and those that are required. The schemas of the single
  properties come from the management schema of the SDK, keyed by the management names.
\<close>

record 'p scheduleVariant =
  variantProperties :: "(string \<times> 'p) list"
  variantRequired :: "string list"

definition scheduleProperties :: "(string \<Rightarrow> 'p) \<Rightarrow> (string \<times> 'p) list" where
  "scheduleProperties property =
     [(''expression'', property ''schedule_expression''), (''interval_seconds'', property ''interval_seconds''),
      (''time_of_day'', property ''time_of_day''), (''day_of_week'', property ''day_of_week''),
      (''day_of_month'', property ''day_of_month''), (''timezone'', property ''timezone'')]"

definition variant :: "(string \<Rightarrow> 'p) \<Rightarrow> string list \<Rightarrow> 'p scheduleVariant" where
  "variant property keys =
     \<lparr>variantProperties = map (\<lambda>key. (key, the (map_of (scheduleProperties property) key))) keys, variantRequired = keys\<rparr>"

text \<open>The timezone is allowed by the calendar variants and required by none.\<close>

definition scheduleOneOf :: "(string \<Rightarrow> 'p) \<Rightarrow> 'p scheduleVariant list" where
  "scheduleOneOf property =
     map (\<lambda>w. w\<lparr>variantRequired := filter (\<lambda>key. key \<noteq> ''timezone'') (variantRequired w)\<rparr>)
       [variant property [''expression'', ''timezone''], variant property [''interval_seconds''],
        variant property [''time_of_day'', ''timezone''], variant property [''time_of_day'', ''day_of_week'', ''timezone''],
        variant property [''time_of_day'', ''day_of_month'', ''timezone'']]"

datatype 'p sourceProperty = ManagementProperty 'p | ScheduleProperty "'p scheduleVariant list"

record 'p sourceSchema =
  schemaProperties :: "(string \<times> 'p sourceProperty) list"
  schemaRequired :: "string list"

definition managementKeys :: "string list" where
  "managementKeys = [''key'', ''name'', ''status'', ''target_type'', ''target_key'', ''target_object'', ''run_as_role'',
     ''connection_key'', ''payload_json'', ''schedule_type'', ''schedule_expression'', ''interval_seconds'', ''time_of_day'',
     ''day_of_week'', ''day_of_month'', ''timezone'', ''business_calendar_key'', ''non_working_day_policy'', ''missed_window_policy'',
     ''max_catchup_windows'', ''max_attempts'', ''retry_delay_seconds'', ''retry_max_delay_seconds'', ''timeout_seconds'',
     ''description'', ''i18n'']"

text \<open>The capabilities of the management domain: a key and the properties of its input schema, if it has one.\<close>

definition schedulerManagementBusinessJobCapability ::
  "(string \<times> (string \<times> 'p) list option) list \<Rightarrow> goerr + (string \<times> 'p) list" where
  "schedulerManagementBusinessJobCapability capabilities =
     (case map_of capabilities ''scheduler.business_job'' of
        None \<Rightarrow> Inl (Errorf ''Scheduler management business job capability is absent'')
      | Some None \<Rightarrow> Inl (Errorf ''Scheduler management business job input schema is absent'')
      | Some (Some properties) \<Rightarrow> Inr properties)"

definition sourceSchemaOf :: "(string \<Rightarrow> 'p) \<Rightarrow> 'p sourceSchema" where
  "sourceSchemaOf property =
     (let managed = map (\<lambda>key. (key, ManagementProperty (property key))) in
      \<lparr>schemaProperties =
         managed [''key'', ''name'', ''status'', ''target_type'', ''target_key'', ''target_object'', ''run_as_role'', ''connection_key'',
           ''payload_json''] @
         [(''schedule'', ScheduleProperty (scheduleOneOf property))] @
         managed [''business_calendar_key'', ''non_working_day_policy'', ''missed_window_policy'', ''max_catchup_windows'',
           ''max_attempts'', ''retry_delay_seconds'', ''retry_max_delay_seconds'', ''timeout_seconds'', ''description'', ''i18n''],
       schemaRequired = [''key'', ''name'', ''status'', ''target_type'', ''target_key'', ''schedule'', ''missed_window_policy'',
         ''max_attempts'', ''timeout_seconds'']\<rparr>)"

definition schedulerBlueprintSourceCapability ::
  "(string \<times> (string \<times> 'p) list option) list \<Rightarrow> goerr + 'p sourceSchema" where
  "schedulerBlueprintSourceCapability capabilities =
     (case schedulerManagementBusinessJobCapability capabilities of Inl e \<Rightarrow> Inl e | Inr properties \<Rightarrow>
      case find (\<lambda>key. map_of properties key = None) managementKeys of
        Some key \<Rightarrow> Inl (Errorf (''Scheduler management business job schema has no '' @ quoted key @ '' property''))
      | None \<Rightarrow> Inr (sourceSchemaOf (\<lambda>key. the (map_of properties key))))"

section \<open>The shapes of a schedule\<close>

text \<open>
  The specification of the inference: every type has fields it needs and fields it allows. The fields of a
  source are those that are set: text that is not blank, numbers that are given.
\<close>

datatype sourceField = FieldExpression | FieldInterval | FieldTimeOfDay | FieldDayOfWeek | FieldDayOfMonth | FieldTimezone

definition fieldSet :: "scheduledJobScheduleSource \<Rightarrow> sourceField \<Rightarrow> bool" where
  "fieldSet v f = (case f of FieldExpression \<Rightarrow> \<not> isBlank (srcExpression v) | FieldInterval \<Rightarrow> srcIntervalSeconds v \<noteq> None |
     FieldTimeOfDay \<Rightarrow> \<not> isBlank (srcTimeOfDay v) | FieldDayOfWeek \<Rightarrow> \<not> isBlank (srcDayOfWeek v) |
     FieldDayOfMonth \<Rightarrow> srcDayOfMonth v \<noteq> None | FieldTimezone \<Rightarrow> \<not> isBlank (srcTimezone v))"

definition sourceShapes :: "(string \<times> sourceField set \<times> sourceField set) list" where
  "sourceShapes =
     [(''cron'', {FieldExpression}, {FieldTimezone}), (''interval'', {FieldInterval}, {}),
      (''daily_at'', {FieldTimeOfDay}, {FieldTimezone}), (''weekly_at'', {FieldTimeOfDay, FieldDayOfWeek}, {FieldTimezone}),
      (''monthly_at'', {FieldTimeOfDay, FieldDayOfMonth}, {FieldTimezone})]"

definition shapeFits :: "scheduledJobScheduleSource \<Rightarrow> string \<Rightarrow> bool" where
  "shapeFits v kind \<longleftrightarrow> (\<exists>needed allowed. (kind, needed, allowed) \<in> set sourceShapes \<and>
     (\<forall>f. (f \<in> needed \<longrightarrow> fieldSet v f) \<and> (fieldSet v f \<longrightarrow> f \<in> needed \<union> allowed)))"

lemma all_sourceField:
  "(\<forall>f. P f) \<longleftrightarrow> P FieldExpression \<and> P FieldInterval \<and> P FieldTimeOfDay \<and> P FieldDayOfWeek \<and> P FieldDayOfMonth \<and> P FieldTimezone"
  by (metis sourceField.exhaust)

lemma inferred_shape: "inferredType v = Inr kind \<longleftrightarrow> shapeFits v kind"
proof -
  have fits: "shapeFits v kind \<longleftrightarrow> (\<exists>(k, needed, allowed) \<in> set sourceShapes. kind = k \<and>
      (\<forall>f. (f \<in> needed \<longrightarrow> fieldSet v f) \<and> (fieldSet v f \<longrightarrow> f \<in> needed \<union> allowed)))"
    unfolding shapeFits_def by auto
  obtain e i t w m z where set: "fieldSet v FieldExpression = e" "fieldSet v FieldInterval = i" "fieldSet v FieldTimeOfDay = t"
      "fieldSet v FieldDayOfWeek = w" "fieldSet v FieldDayOfMonth = m" "fieldSet v FieldTimezone = z" by blast
  note read = this [unfolded fieldSet_def isBlank_def sourceField.case not_not]
  show ?thesis
    unfolding fits sourceShapes_def inferredType_def read Let_def
    by (cases e; cases i; cases t; cases w; cases m; cases z) (simp_all add: all_sourceField set eq_commute)
qed

text \<open>
  The inferred type is the one shape the source has: \<^verbatim>\<open>inferredType\<close> returns a type exactly when the fields that are set
  are all the type needs and none it does not allow, it fails exactly when no type fits, and at most one type fits.
\<close>

theorem inferred_type_is_the_shape:
  "(inferredType v = Inr kind \<longleftrightarrow> shapeFits v kind) \<and> (isl (inferredType v) \<longleftrightarrow> (\<nexists>k. shapeFits v k)) \<and>
   (\<exists>\<^sub>\<le>\<^sub>1 k. shapeFits v k)"
  unfolding inferred_shape [symmetric] Uniq_def by (cases "inferredType v") auto

text \<open>The published variants and the fields of a source, by their names in the schema.\<close>

definition fieldKey :: "sourceField \<Rightarrow> string" where
  "fieldKey f = (case f of FieldExpression \<Rightarrow> ''expression'' | FieldInterval \<Rightarrow> ''interval_seconds'' | FieldTimeOfDay \<Rightarrow> ''time_of_day'' |
     FieldDayOfWeek \<Rightarrow> ''day_of_week'' | FieldDayOfMonth \<Rightarrow> ''day_of_month'' | FieldTimezone \<Rightarrow> ''timezone'')"

definition sourceFieldKeys :: "scheduledJobScheduleSource \<Rightarrow> string set" where
  "sourceFieldKeys v = fieldKey ` {f. fieldSet v f}"

definition variantAccepts :: "string set \<Rightarrow> 'p scheduleVariant \<Rightarrow> bool" where
  "variantAccepts keys w \<longleftrightarrow> set (variantRequired w) \<subseteq> keys \<and> keys \<subseteq> fst ` set (variantProperties w)"

lemma sourceFieldKeys_mem:
  "''expression'' \<in> sourceFieldKeys v \<longleftrightarrow> fieldSet v FieldExpression" "''interval_seconds'' \<in> sourceFieldKeys v \<longleftrightarrow> fieldSet v FieldInterval"
  "''time_of_day'' \<in> sourceFieldKeys v \<longleftrightarrow> fieldSet v FieldTimeOfDay" "''day_of_week'' \<in> sourceFieldKeys v \<longleftrightarrow> fieldSet v FieldDayOfWeek"
  "''day_of_month'' \<in> sourceFieldKeys v \<longleftrightarrow> fieldSet v FieldDayOfMonth" "''timezone'' \<in> sourceFieldKeys v \<longleftrightarrow> fieldSet v FieldTimezone"
proof -
  have "key \<in> sourceFieldKeys v \<longleftrightarrow> \<not> (\<forall>f. fieldSet v f \<longrightarrow> key \<noteq> fieldKey f)" for key
    by (auto simp: sourceFieldKeys_def)
  then show "''expression'' \<in> sourceFieldKeys v \<longleftrightarrow> fieldSet v FieldExpression" "''interval_seconds'' \<in> sourceFieldKeys v \<longleftrightarrow> fieldSet v FieldInterval"
    "''time_of_day'' \<in> sourceFieldKeys v \<longleftrightarrow> fieldSet v FieldTimeOfDay" "''day_of_week'' \<in> sourceFieldKeys v \<longleftrightarrow> fieldSet v FieldDayOfWeek"
    "''day_of_month'' \<in> sourceFieldKeys v \<longleftrightarrow> fieldSet v FieldDayOfMonth" "''timezone'' \<in> sourceFieldKeys v \<longleftrightarrow> fieldSet v FieldTimezone"
    by (simp_all add: all_sourceField fieldKey_def)
qed

lemma sourceFieldKeys_within: "sourceFieldKeys v \<subseteq> K \<longleftrightarrow> (\<forall>f. fieldSet v f \<longrightarrow> fieldKey f \<in> K)"
  by (auto simp: sourceFieldKeys_def)

lemma scheduleOneOf_accepts:
  "map (variantAccepts (sourceFieldKeys v)) (scheduleOneOf property) =
    [fieldSet v FieldExpression \<and> \<not> fieldSet v FieldInterval \<and> \<not> fieldSet v FieldTimeOfDay \<and> \<not> fieldSet v FieldDayOfWeek \<and> \<not> fieldSet v FieldDayOfMonth,
     fieldSet v FieldInterval \<and> \<not> fieldSet v FieldExpression \<and> \<not> fieldSet v FieldTimeOfDay \<and> \<not> fieldSet v FieldDayOfWeek \<and> \<not> fieldSet v FieldDayOfMonth \<and>
       \<not> fieldSet v FieldTimezone,
     fieldSet v FieldTimeOfDay \<and> \<not> fieldSet v FieldExpression \<and> \<not> fieldSet v FieldInterval \<and> \<not> fieldSet v FieldDayOfWeek \<and> \<not> fieldSet v FieldDayOfMonth,
     fieldSet v FieldTimeOfDay \<and> fieldSet v FieldDayOfWeek \<and> \<not> fieldSet v FieldExpression \<and> \<not> fieldSet v FieldInterval \<and> \<not> fieldSet v FieldDayOfMonth,
     fieldSet v FieldTimeOfDay \<and> fieldSet v FieldDayOfMonth \<and> \<not> fieldSet v FieldExpression \<and> \<not> fieldSet v FieldInterval \<and> \<not> fieldSet v FieldDayOfWeek]"
  by (simp add: scheduleOneOf_def variant_def variantAccepts_def sourceFieldKeys_within all_sourceField fieldKey_def
      sourceFieldKeys_mem)

lemma length_filter_map: "length (filter P xs) = length (filter (\<lambda>b. b) (map P xs))"
  by (induction xs) simp_all


section \<open>Verdicts\<close>

lemma invalidResult_one: "\<exists>diag. invalidResult S rule path params e = [diag] \<and> diagOwner diag = ''scheduler'' \<and> diagRuleKey diag = rule"
  by (simp add: invalidResult_def Let_def)

text \<open>
  A definition is accepted, with no diagnostics, exactly when it decodes, its key is set and is the key of the fragment, its
  status is known, its fields have the shape of one schedule type, a type given beside them agrees, and the SDK accepts
  the flat data; otherwise there is exactly one diagnostic, and another validation scope is refused.
\<close>

theorem candidate_verdict:
  "(validateCandidate S C request = Inr [] \<longleftrightarrow>
     (\<exists>job kind. decodeCandidate C (valKey request) (valFragment request) = Inr job \<and>
        valKind request = ''scheduler.definition'' \<and> \<not> isBlank (jobKey job) \<and> jobKey job = valKey request \<and>
        validScheduledJobStatus (jobStatus job) \<and> shapeFits (jobSchedule job) kind \<and>
        srcType (jobSchedule job) \<in> {[], kind} \<and> validateDefinitionData C (runtimeData job kind) = None)) \<and>
   (isl (validateCandidate S C request) \<longleftrightarrow>
     valKind request \<noteq> ''scheduler.definition'' \<and> \<not> isl (decodeCandidate C (valKey request) (valFragment request))) \<and>
   (isl (validateCandidate S C request) \<or> length (projr (validateCandidate S C request)) \<le> 1)"
proof (cases "decodeCandidate C (valKey request) (valFragment request)")
  case (Inl e)
  then show ?thesis by (simp add: validateCandidate_def invalidResult_def Let_def)
next
  case (Inr job)
  show ?thesis
  proof (cases "valKind request = ''scheduler.definition'' \<and> \<not> isBlank (jobKey job) \<and> jobKey job = valKey request \<and>
      validScheduledJobStatus (jobStatus job)")
    case False
    with Inr show ?thesis by (auto simp: validateCandidate_def invalidResult_def isBlank_def Let_def)
  next
    case True
    with Inr show ?thesis
      unfolding inferred_shape [symmetric]
      by (auto simp: validateCandidate_def invalidResult_def definitionDiagnostics_def isBlank_def Let_def
          split: sum.split option.split)
  qed
qed

text \<open>Every key of the data is assigned once, so the list is the map the code builds.\<close>

lemma entry_keys:
  "map fst (textEntry key v) = map fst (filter snd [(key, v \<noteq> [])])"
  "map fst (intEntry key n) = map fst (filter snd [(key, n \<noteq> 0)])"
  "map fst (pointerEntry key q) = map fst (filter snd [(key, q \<noteq> None)])"
  by (auto simp: textEntry_def intEntry_def pointerEntry_def split: option.splits)

lemma key_list: "k # map fst (filter snd xs) = map fst (filter snd ((k, True) # xs))"
  by simp

lemma runtimeData_distinct: "distinct (map fst (runtimeData v kind))"
proof -
  have "\<exists>flags. map fst (runtimeData v kind) = map fst (filter snd flags) \<and> map fst flags =
      [''key'', ''name'', ''status'', ''target_type'', ''target_key'', ''schedule_type'', ''missed_window_policy'', ''max_attempts'',
       ''timeout_seconds'', ''target_object'', ''run_as_role'', ''connection_key'', ''payload_json'', ''business_calendar_key'',
       ''non_working_day_policy'', ''max_catchup_windows'', ''retry_delay_seconds'', ''retry_max_delay_seconds'', ''description'',
       ''schedule_expression'', ''interval_seconds'', ''time_of_day'', ''day_of_week'', ''day_of_month'', ''timezone'']"
    unfolding runtimeData_def scheduleData_def Let_def map_append entry_keys list.map fst_conv append.simps
      map_append [symmetric] filter_append [symmetric] key_list
    by (rule exI, rule conjI [OF refl]) (simp only: list.map fst_conv append.simps)
  moreover have "distinct
      [''key'', ''name'', ''status'', ''target_type'', ''target_key'', ''schedule_type'', ''missed_window_policy'', ''max_attempts'',
       ''timeout_seconds'', ''target_object'', ''run_as_role'', ''connection_key'', ''payload_json'', ''business_calendar_key'',
       ''non_working_day_policy'', ''max_catchup_windows'', ''retry_delay_seconds'', ''retry_max_delay_seconds'', ''description'',
       ''schedule_expression'', ''interval_seconds'', ''time_of_day'', ''day_of_week'', ''day_of_month'', ''timezone'']"
    by code_simp
  ultimately show ?thesis by (metis distinct_map_filter)
qed

text \<open>
  A pattern of the contract gets the override that demands a caller's idempotency key exactly when it is the pattern of a
  write route of the operations category.
\<close>

lemma overrides_are_writes:
  "dom (schedulerOperationOverrides category routes) =
     ctrPattern ` {route \<in> set routes. ctrCapabilityKey route = category \<and> ctrWrites route}"
proof -
  define step where "step = (\<lambda>(route :: contractRoute) result. if ctrCapabilityKey route = category \<and> ctrWrites route
      then result(ctrPattern route \<mapsto> \<lparr>extPermission = ctrActionKey route, extIdempotencyMode = ''caller_key_required'',
             extKeySource = ''Idempotency-Key''\<rparr>) else result)"
  have "dom (fold step routes m) = dom m \<union> ctrPattern ` {route \<in> set routes. ctrCapabilityKey route = category \<and> ctrWrites route}" for m
    by (induction routes arbitrary: m) (auto simp: step_def)
  then show ?thesis unfolding schedulerOperationOverrides_def step_def [symmetric] by simp
qed

end
