(* ===== verification/Capability_Contract.thy ===== *)
theory Capability_Contract
  imports Candidate_Validation
begin

text \<open>
  The capability documents the module publishes: \<^verbatim>\<open>openContract\<close> of \<^verbatim>\<open>capability/contract.go\<close>, opened by
  \<^verbatim>\<open>capability.Open\<close>, and the three reads of them in \<^verbatim>\<open>application/scheduler/service.go\<close>. The routes of the Scheduler are
  grouped by capability, each of the two categories becomes a document, and the authoring document carries the
  validation contract and the published source schema.

  The foundation's projection of routes to a document, its static binding and the encoding of the source capability are
  the record \<open>ContractSdk\<close>.
\<close>

section \<open>Documents\<close>

record 'o categoryRequest =
  catOwner :: string
  catKey :: string
  catName :: string
  catDescription :: string
  catChains :: "string list"
  catScopes :: "string list"
  catRoutes :: "contractRoute list"
  catOperations :: 'o
  catWorkspaceScope :: string
  catOverrides :: "string \<rightharpoonup> OperationExtension"
  catComponents :: "(string \<times> (string \<times> string) list) list"

record validationScopeContract =
  scopeKind :: string
  scopeDescription :: string
  scopeCoverage :: string
  scopeCollections :: "string list"

record sourceProjection =
  projectionKind :: string
  projectionKey :: string
  projectionPayload :: string

record 'd categoryDocument =
  docCategory :: 'd
  docValidationContracts :: "validationScopeContract list"
  docProjections :: "sourceProjection list"

record moduleSummary =
  sumKey :: string
  sumSourceOwner :: string
  sumModuleVersion :: string
  sumValidationRevision :: string
  sumDeploymentModes :: "DeploymentMode list"
  sumName :: string
  sumDescription :: string
  sumProvided :: "string list"
  sumRequired :: "string list"
  sumOptional :: "string list"
  sumConflicting :: "string list"
  sumChains :: "string list"
  sumScopes :: "string list"

record ('a, 'o, 'p, 'd, 'b) ContractSdk =
  ctActions :: "goerr + 'a list"
  ctActionKey :: "'a \<Rightarrow> string"
  ctProject :: "'a \<Rightarrow> goerr + contractRoute"
  ctOperations :: "goerr + 'o"
  ctAuthoringCategory :: string
  ctOperationsCategory :: string
  ctCategoryFromRoutes :: "'o categoryRequest \<Rightarrow> goerr + 'd categoryDocument"
  ctCoverageAll :: string
  ctManagement :: "(string \<times> (string \<times> 'p) list option) list"
  ctMarshalSource :: "'p sourceSchema \<Rightarrow> goerr + string"
  ctProtocolVersion :: string
  ctNewBinding :: "moduleSummary \<Rightarrow> 'd categoryDocument list \<Rightarrow> goerr + 'b"

section \<open>Opening the contract\<close>

definition groupRoutes :: "contractRoute list \<Rightarrow> string \<Rightarrow> contractRoute list" where
  "groupRoutes routes =
     fold (\<lambda>route groups. groups(ctrCapabilityKey route := groups (ctrCapabilityKey route) @ [route])) routes (\<lambda>_. [])"

record categoryDefinition =
  cdKey :: string
  cdName :: string
  cdDescription :: string
  cdChains :: "string list"
  cdScopes :: "string list"

definition categoryDefinitions :: "string \<Rightarrow> string \<Rightarrow> categoryDefinition list" where
  "categoryDefinitions authoring operations =
     [\<lparr>cdKey = authoring, cdName = ''Scheduler authoring'',
       cdDescription = ''Read, validate, preview, and simulate published Scheduler definitions.'',
       cdChains = [''workflow_or_report_target_to_scheduler_job'', ''integration_connection_to_scheduler_http_target''],
       cdScopes = [''scheduler.definition'']\<rparr>,
      \<lparr>cdKey = operations, cdName = ''Scheduler operations'',
       cdDescription = ''Inspect durable Scheduler execution evidence and issue idempotent run, reschedule, retry, cancel, resolve, and requeue commands.'',
       cdChains = [''scheduler_job_to_durable_run'', ''scheduler_dead_letter_to_operator_recovery''], cdScopes = []\<rparr>]"

definition categoryRequestOf ::
  "(string \<Rightarrow> contractRoute list) \<Rightarrow> 'o \<Rightarrow> (string \<rightharpoonup> OperationExtension) \<Rightarrow> categoryDefinition \<Rightarrow> 'o categoryRequest" where
  "categoryRequestOf groups operations overrides def =
     \<lparr>catOwner = ''scheduler'', catKey = cdKey def, catName = cdName def, catDescription = cdDescription def,
      catChains = cdChains def, catScopes = cdScopes def, catRoutes = groups (cdKey def), catOperations = operations,
      catWorkspaceScope = ''authenticated_workspace'', catOverrides = overrides,
      catComponents = [(''securitySchemes'', [(''BearerAuth'',
        CHR 0x7B # CHR 0x22 # ''type'' @ CHR 0x22 # CHR 0x3A # CHR 0x22 # ''http'' @ CHR 0x22 # CHR 0x2C # CHR 0x22 # ''scheme'' @
        CHR 0x22 # CHR 0x3A # CHR 0x22 # ''bearer'' @ CHR 0x22 # CHR 0x2C # CHR 0x22 # ''bearerFormat'' @ CHR 0x22 # CHR 0x3A #
        CHR 0x22 # ''JWT'' @ [CHR 0x22, CHR 0x7D])])]\<rparr>"

definition schedulerBlueprintSourceProjectionKind :: string where
  "schedulerBlueprintSourceProjectionKind = ''scheduler.blueprint_source_capability''"

text \<open>What is added to the authoring document. The key is that of the source capability.\<close>

definition authoringDocument ::
  "('a, 'o, 'p, 'd, 'b) ContractSdk \<Rightarrow> 'd categoryDocument \<Rightarrow> goerr + 'd categoryDocument" where
  "authoringDocument C document =
     (case schedulerBlueprintSourceCapability (ctManagement C) of Inl e \<Rightarrow> Inl e | Inr value \<Rightarrow>
      case ctMarshalSource C value of Inl e \<Rightarrow> Inl e | Inr payload \<Rightarrow>
      Inr (document\<lparr>docValidationContracts := [\<lparr>scopeKind = ''scheduler.definition'',
             scopeDescription = ''Validate one complete scheduled job definition, including its nested schedule.'',
             scopeCoverage = ctCoverageAll C, scopeCollections = [''scheduled_jobs'']\<rparr>],
           docProjections := docProjections document @
             [\<lparr>projectionKind = schedulerBlueprintSourceProjectionKind, projectionKey = ''scheduler.business_job'',
               projectionPayload = payload\<rparr>]\<rparr>))"

fun categoryDocuments ::
  "('a, 'o, 'p, 'd, 'b) ContractSdk \<Rightarrow> (string \<Rightarrow> contractRoute list) \<Rightarrow> 'o \<Rightarrow> (string \<rightharpoonup> OperationExtension) \<Rightarrow>
   categoryDefinition list \<Rightarrow> goerr + 'd categoryDocument list" where
  "categoryDocuments C groups operations overrides [] = Inr []"
| "categoryDocuments C groups operations overrides (def # defs) =
     (case ctCategoryFromRoutes C (categoryRequestOf groups operations overrides def) of
        Inl e \<Rightarrow> Inl (Wrapf (''project Scheduler category '' @ quoted (cdKey def) @ '': '') e)
      | Inr document \<Rightarrow>
          (case (if cdKey def = ctAuthoringCategory C then authoringDocument C document else Inr document) of
             Inl e \<Rightarrow> Inl e
           | Inr document \<Rightarrow>
               (case categoryDocuments C groups operations overrides defs of
                  Inl e \<Rightarrow> Inl e | Inr documents \<Rightarrow> Inr (document # documents))))"

definition schedulerSummary :: "string \<Rightarrow> moduleSummary" where
  "schedulerSummary version =
     \<lparr>sumKey = ''scheduler'', sumSourceOwner = ''scheduler'', sumModuleVersion = version,
      sumValidationRevision = ''scheduler-authoring-validation-v1'',
      sumDeploymentModes = [DeploymentModeModule, DeploymentModeSaaS], sumName = ''Scheduler'',
      sumDescription = ''Owns clocks, recurring schedule evaluation, durable trigger claims, retry evidence, runs, and dead letters while downstream modules retain business execution semantics.'',
      sumProvided = [''scheduler.business_job'', ''scheduler.schedule'', ''scheduler.job.simulate'', ''scheduler.job.run'',
        ''scheduler.definition.reschedule'', ''scheduler.run.retry'', ''scheduler.run.cancel'', ''scheduler.dead_letter.resolve'',
        ''scheduler.dead_letter.requeue'', ''scheduler.run_evidence''],
      sumRequired = [], sumOptional = [''integration'', ''report'', ''workflow''], sumConflicting = [],
      sumChains = [''workflow_or_report_target_to_scheduler_job'', ''integration_connection_to_scheduler_http_target'',
        ''scheduler_job_to_durable_run'', ''scheduler_dead_letter_to_operator_recovery''],
      sumScopes = [''scheduler.definition'']\<rparr>"

definition openContract :: "('a, 'o, 'p, 'd, 'b) ContractSdk \<Rightarrow> goerr + 'b" where
  "openContract C =
     (case schedulerHTTPContract (ctActionKey C) (ctProject C) (ctActions C) (ctOperations C) of Inl e \<Rightarrow> Inl e
      | Inr (routes, operations) \<Rightarrow>
          (case categoryDocuments C (groupRoutes routes) operations (schedulerOperationOverrides (ctOperationsCategory C) routes)
                  (categoryDefinitions (ctAuthoringCategory C) (ctOperationsCategory C)) of
             Inl e \<Rightarrow> Inl e
           | Inr documents \<Rightarrow> ctNewBinding C (schedulerSummary (ctProtocolVersion C)) documents))"

section \<open>Reading the documents\<close>

record ('s, 'd, 'q, 'r) capabilityBinding =
  bindingSummary :: "goerr + 's"
  bindingCategory :: "string \<Rightarrow> goerr + 'd"
  bindingValidate :: "'q \<Rightarrow> goerr + 'r"

definition bindingUnavailable :: goerr where
  "bindingUnavailable = Errorf ''Scheduler capability binding is unavailable''"

definition CapabilitySummary :: "('s, 'd, 'q, 'r) capabilityBinding option \<Rightarrow> goerr + 's" where
  "CapabilitySummary b = (case b of None \<Rightarrow> Inl bindingUnavailable | Some c \<Rightarrow> bindingSummary c)"

definition CapabilityCategory :: "('s, 'd, 'q, 'r) capabilityBinding option \<Rightarrow> string \<Rightarrow> goerr + 'd" where
  "CapabilityCategory b key = (case b of None \<Rightarrow> Inl bindingUnavailable | Some c \<Rightarrow> bindingCategory c key)"

definition ValidateCapabilityCandidate :: "('s, 'd, 'q, 'r) capabilityBinding option \<Rightarrow> 'q \<Rightarrow> goerr + 'r" where
  "ValidateCapabilityCandidate b request = (case b of None \<Rightarrow> Inl bindingUnavailable | Some c \<Rightarrow> bindingValidate c request)"

section \<open>What is published\<close>

text \<open>Grouping keeps the order of the routes.\<close>

lemma groupRoutes_filter: "groupRoutes routes key = filter (\<lambda>r. ctrCapabilityKey r = key) routes"
proof -
  have "fold (\<lambda>route groups. groups(ctrCapabilityKey route := groups (ctrCapabilityKey route) @ [route])) routes g key =
      g key @ filter (\<lambda>r. ctrCapabilityKey r = key) routes" for g
    by (induction routes arbitrary: g) auto
  then show ?thesis by (simp add: groupRoutes_def)
qed

lemma overrides_iff:
  "schedulerOperationOverrides category routes pattern \<noteq> None \<longleftrightarrow>
     (\<exists>r \<in> set routes. ctrPattern r = pattern \<and> ctrCapabilityKey r = category \<and> ctrWrites r)"
proof -
  have "fold (\<lambda>route result. if ctrCapabilityKey route = category \<and> ctrWrites route
       then result(ctrPattern route \<mapsto> ext route) else result) routes m pattern \<noteq> None \<longleftrightarrow>
     m pattern \<noteq> None \<or> (\<exists>r \<in> set routes. ctrPattern r = pattern \<and> ctrCapabilityKey r = category \<and> ctrWrites r)"
    for ext and m :: "string \<rightharpoonup> OperationExtension"
    by (induction routes arbitrary: m) auto
  then show ?thesis by (simp add: schedulerOperationOverrides_def)
qed

lemma schedulerSummary_categories:
  "sumChains (schedulerSummary version) = concat (map cdChains (categoryDefinitions a o'))"
  "sumScopes (schedulerSummary version) = concat (map cdScopes (categoryDefinitions a o'))"
  by (simp_all add: schedulerSummary_def categoryDefinitions_def)

lemma authoringDocument_Inr:
  "authoringDocument C d = Inr d' \<Longrightarrow> docCategory d' = docCategory d \<and>
     map scopeKind (docValidationContracts d') = [''scheduler.definition''] \<and> docProjections d' \<noteq> []"
  by (auto simp: authoringDocument_def split: sum.splits)

text \<open>
  What a contract that opened publishes. The two categories get the routes of their own capability, in the order of the
  actions; the writes of the operations category, and only they, require the caller's idempotency key; the assembly chains
  and the validation scopes of the module are those of its categories; and the one validation contract names the scope
  that \<open>validateCandidate\<close> accepts.
\<close>

theorem contract_published:
  assumes "openContract C = Inr b" "ctAuthoringCategory C \<noteq> ctOperationsCategory C"
  shows "\<exists>routes ops authored operated d1 d2. schedulerHTTPContract (ctActionKey C) (ctProject C) (ctActions C) (ctOperations C) = Inr (routes, ops) \<and>
    ctCategoryFromRoutes C authored = Inr d1 \<and> ctCategoryFromRoutes C operated = Inr d2 \<and>
    catRoutes authored = filter (\<lambda>r. ctrCapabilityKey r = ctAuthoringCategory C) routes \<and>
    catRoutes operated = filter (\<lambda>r. ctrCapabilityKey r = ctOperationsCategory C) routes \<and>
    (\<forall>pattern. catOverrides operated pattern \<noteq> None \<longleftrightarrow> (\<exists>r \<in> set (catRoutes operated). ctrPattern r = pattern \<and> ctrWrites r)) \<and>
    (\<exists>d1'. ctNewBinding C (schedulerSummary (ctProtocolVersion C)) [d1', d2] = Inr b \<and> docCategory d1' = docCategory d1 \<and>
       map scopeKind (docValidationContracts d1') = sumScopes (schedulerSummary (ctProtocolVersion C)))"
proof -
  let ?a = "ctAuthoringCategory C" and ?o = "ctOperationsCategory C"
  obtain routes ops where http: "schedulerHTTPContract (ctActionKey C) (ctProject C) (ctActions C) (ctOperations C) = Inr (routes, ops)"
    using assms(1) unfolding openContract_def by (auto split: sum.splits)
  define overrides where "overrides = schedulerOperationOverrides ?o routes"
  define authored where "authored = categoryRequestOf (groupRoutes routes) ops overrides (categoryDefinitions ?a ?o ! 0)"
  define operated where "operated = categoryRequestOf (groupRoutes routes) ops overrides (categoryDefinitions ?a ?o ! 1)"
  have "\<exists>d1 d1' d2. ctCategoryFromRoutes C authored = Inr d1 \<and> authoringDocument C d1 = Inr d1' \<and>
      ctCategoryFromRoutes C operated = Inr d2 \<and> ctNewBinding C (schedulerSummary (ctProtocolVersion C)) [d1', d2] = Inr b"
    using assms unfolding openContract_def http authored_def operated_def overrides_def
    by (auto simp: categoryDefinitions_def split: sum.splits if_splits)
  then obtain d1 d1' d2 where d: "ctCategoryFromRoutes C authored = Inr d1" "authoringDocument C d1 = Inr d1'"
      "ctCategoryFromRoutes C operated = Inr d2" "ctNewBinding C (schedulerSummary (ctProtocolVersion C)) [d1', d2] = Inr b" by blast
  have routes: "catRoutes authored = filter (\<lambda>r. ctrCapabilityKey r = ?a) routes"
      "catRoutes operated = filter (\<lambda>r. ctrCapabilityKey r = ?o) routes"
    by (simp_all add: authored_def operated_def categoryRequestOf_def categoryDefinitions_def groupRoutes_filter)
  have "catOverrides operated pattern \<noteq> None \<longleftrightarrow> (\<exists>r \<in> set (catRoutes operated). ctrPattern r = pattern \<and> ctrWrites r)" for pattern
    using overrides_iff [of ?o routes pattern] routes(2) by (auto simp: operated_def overrides_def categoryRequestOf_def)
  with http d routes authoringDocument_Inr [OF d(2)] show ?thesis
    by (intro exI [of _ routes] exI [of _ ops] exI [of _ authored] exI [of _ operated] exI [of _ d1] exI [of _ d2])
      (auto simp: schedulerSummary_def)
qed

end
