(* ===== verification/Server_Process.thy ===== *)
theory Server_Process
  imports SaaS_Isolation
begin

text \<open>
  The SaaS server process, \<^verbatim>\<open>cmd/scheduler-server/main.go\<close>: the configuration from the environment, the owned database, and
  the start of the service and of its HTTP server. The environment is a function; the parser of durations and what the
  drivers answer are arguments, and nothing is assumed of them. Signals, listening and the shutdown deadline are not
  modelled.
\<close>

section \<open>Configuration\<close>

record configuration =
  cfHTTPAddress :: string
  cfSqlDriver :: string
  cfStoreDriver :: string
  cfDatabaseDSN :: string
  cfDatabaseSchema :: string
  cfWorkerID :: string
  cfRuntimeID :: string
  cfBearerToken :: string
  cfRuntimeEndpoint :: string
  cfRuntimeSigningSecret :: string
  cfDatabaseMaxOpen :: int
  cfDatabaseMaxIdle :: int
  cfWorkerBatchSize :: int
  cfMaxPendingTriggers :: int
  cfDatabaseConnLifetime :: duration
  cfDatabaseLockTimeout :: duration
  cfWorkerPollInterval :: duration
  cfGatewayTimeout :: duration
  cfDispatchTimeout :: duration
  cfGatewayAttempts :: int

definition env :: "(string \<Rightarrow> string) \<Rightarrow> string \<Rightarrow> string \<Rightarrow> string" where
  "env getenv key fallback = (let v = trimSpace (getenv key) in if v \<noteq> [] then v else fallback)"

definition defaultConfiguration :: "(string \<Rightarrow> string) \<Rightarrow> configuration" where
  "defaultConfiguration getenv =
     \<lparr>cfHTTPAddress = env getenv ''SCHEDULER_HTTP_ADDRESS'' '':8080'', cfSqlDriver = [], cfStoreDriver = [],
      cfDatabaseDSN = trimSpace (getenv ''SCHEDULER_DATABASE_DSN''), cfDatabaseSchema = trimSpace (getenv ''SCHEDULER_DATABASE_SCHEMA''),
      cfWorkerID = trimSpace (getenv ''SCHEDULER_WORKER_ID''), cfRuntimeID = trimSpace (getenv ''SCHEDULER_RUNTIME_ID''),
      cfBearerToken = trimSpace (getenv ''SCHEDULER_SAAS_TOKEN''),
      cfRuntimeEndpoint = trimSpace (getenv ''SCHEDULER_RUNTIME_ENDPOINT''),
      cfRuntimeSigningSecret = trimSpace (getenv ''SCHEDULER_RUNTIME_SIGNING_SECRET''),
      cfDatabaseMaxOpen = 20, cfDatabaseMaxIdle = 10, cfWorkerBatchSize = 100, cfMaxPendingTriggers = 10000,
      cfDatabaseConnLifetime = 30 * minute, cfDatabaseLockTimeout = 5 * second, cfWorkerPollInterval = second,
      cfGatewayTimeout = 10 * second, cfDispatchTimeout = 5 * minute, cfGatewayAttempts = 3\<rparr>"

definition selectDriver :: "string \<Rightarrow> configuration \<Rightarrow> goerr + configuration" where
  "selectDriver driver c =
     (if driver = ''sqlite''
      then Inr (c\<lparr>cfStoreDriver := ''sqlite'', cfSqlDriver := ''sqlite'',
             cfDatabaseDSN := (if cfDatabaseDSN c = [] then ''scheduler.db'' else cfDatabaseDSN c)\<rparr>)
      else if driver \<in> {''postgres'', ''postgresql'', ''pgx''} then Inr (c\<lparr>cfStoreDriver := ''postgres'', cfSqlDriver := ''pgx''\<rparr>)
      else if driver = ''mysql'' then Inr (c\<lparr>cfStoreDriver := ''mysql'', cfSqlDriver := ''mysql''\<rparr>)
      else Inl (Errorf ''SCHEDULER_DATABASE_DRIVER must be sqlite, postgres or mysql''))"

text \<open>An optional setting: absent, parsed and in range, or refused.\<close>

definition setting ::
  "string \<Rightarrow> (string \<Rightarrow> 'v option) \<Rightarrow> ('v \<Rightarrow> bool) \<Rightarrow> string \<Rightarrow> ('v \<Rightarrow> configuration \<Rightarrow> configuration) \<Rightarrow> configuration \<Rightarrow> goerr + configuration" where
  "setting raw parse ok message assign c =
     (if trimSpace raw = [] then Inr c else
      case parse (trimSpace raw) of None \<Rightarrow> Inl (Errorf message) | Some v \<Rightarrow> if ok v then Inr (assign v c) else Inl (Errorf message))"

definition parseAtoi :: "string \<Rightarrow> int option" where
  "parseAtoi s = (let (v, ok) = atoi s in if ok then Some v else None)"

definition configurationFromEnvironment :: "(string \<Rightarrow> duration option) \<Rightarrow> (string \<Rightarrow> string) \<Rightarrow> goerr + configuration" where
  "configurationFromEnvironment parseDuration getenv =
     (case selectDriver (toLower (env getenv ''SCHEDULER_DATABASE_DRIVER'' ''sqlite'')) (defaultConfiguration getenv) of Inl e \<Rightarrow> Inl e | Inr c \<Rightarrow>
      case setting (getenv ''SCHEDULER_WORKER_BATCH_SIZE'') parseAtoi (\<lambda>v. \<not> v \<le> 0)
             ''SCHEDULER_WORKER_BATCH_SIZE must be positive'' (\<lambda>v. cfWorkerBatchSize_update (\<lambda>_. v)) c of Inl e \<Rightarrow> Inl e | Inr c \<Rightarrow>
      case setting (getenv ''SCHEDULER_MAX_PENDING_TRIGGERS'') parseAtoi (\<lambda>v. \<not> (v < 1 \<or> v > 1000000))
             ''SCHEDULER_MAX_PENDING_TRIGGERS must be between 1 and 1000000'' (\<lambda>v. cfMaxPendingTriggers_update (\<lambda>_. v)) c of Inl e \<Rightarrow> Inl e | Inr c \<Rightarrow>
      case setting (getenv ''SCHEDULER_DISPATCH_TIMEOUT'') parseDuration (\<lambda>v. \<not> (v \<le> 0 \<or> v > 30 * minute))
             ''SCHEDULER_DISPATCH_TIMEOUT must be between 1ns and 30m'' (\<lambda>v. cfDispatchTimeout_update (\<lambda>_. v)) c of Inl e \<Rightarrow> Inl e | Inr c \<Rightarrow>
      if cfDatabaseDSN c = [] \<or> cfWorkerID c = [] \<or> cfRuntimeID c = [] \<or> cfBearerToken c = [] \<or> cfRuntimeEndpoint c = [] \<or>
         cfRuntimeSigningSecret c = []
      then Inl (Errorf ''Scheduler SaaS database, worker, Runtime identity, bearer token and Runtime callback configuration are required'')
      else Inr c)"

section \<open>The owned database\<close>

text \<open>What is done to the handle, in order.\<close>

datatype handleEvent =
    HandleOpened string string
  | HandleInitialized string duration int int
  | HandleLimited int int
  | HandleLifetime duration
  | HandlePinged
  | HandleClosed

record databaseDriver =
  drvResolveDSN :: "string \<Rightarrow> duration \<Rightarrow> int \<Rightarrow> int \<Rightarrow> goerr + string"
  drvOpenError :: "string \<Rightarrow> string \<Rightarrow> goerr option"
  drvInitError :: "goerr option"
  drvPingError :: "goerr option"

definition memoryDSN :: "string \<Rightarrow> bool" where
  "memoryDSN dsn \<longleftrightarrow> (let normalized = toLower (trimSpace dsn) in normalized = '':memory:'' \<or> containsStr normalized ''mode=memory'')"

definition openOwnedDatabase :: "databaseDriver \<Rightarrow> configuration \<Rightarrow> (goerr + unit) \<times> handleEvent list" where
  "openOwnedDatabase D c =
     (let sqlite = (cfStoreDriver c = ''sqlite'');
          resolved = (if \<not> sqlite then Inr (cfDatabaseDSN c)
            else if memoryDSN (cfDatabaseDSN c) then Inl (Errorf ''Scheduler SQLite requires a file database'')
            else case drvResolveDSN D (cfDatabaseDSN c) (cfDatabaseLockTimeout c) (cfDatabaseMaxOpen c) (cfDatabaseMaxIdle c) of
                   Inl e \<Rightarrow> Inl (Wrapf ''configure Scheduler SQLite database: '' e) | Inr dsn \<Rightarrow> Inr dsn) in
      case resolved of Inl e \<Rightarrow> (Inl e, []) | Inr dsn \<Rightarrow>
      case drvOpenError D (cfSqlDriver c) dsn of Some e \<Rightarrow> (Inl (Wrapf ''open Scheduler SaaS database: '' e), []) | None \<Rightarrow>
      let opened = [HandleOpened (cfSqlDriver c) dsn] in
      case (if sqlite then drvInitError D else None) of
        Some e \<Rightarrow> (Inl (Wrapf ''initialize Scheduler SQLite database: '' e), opened @ [HandleClosed])
      | None \<Rightarrow>
          let ready = opened @ (if sqlite
                then [HandleInitialized dsn (cfDatabaseLockTimeout c) (cfDatabaseMaxOpen c) (cfDatabaseMaxIdle c)]
                else [HandleLimited (cfDatabaseMaxOpen c) (cfDatabaseMaxIdle c)]) @ [HandleLifetime (cfDatabaseConnLifetime c)] in
          case drvPingError D of
            Some e \<Rightarrow> (Inl (Wrapf ''ping Scheduler SaaS database: '' e), ready @ [HandleClosed])
          | None \<Rightarrow> (Inr (), ready @ [HandlePinged]))"

section \<open>Starting\<close>

definition processWorkerConfig :: "configuration \<Rightarrow> WorkerConfig" where
  "processWorkerConfig c = \<lparr>cfgEnabled = True, cfgPollInterval = cfWorkerPollInterval c, cfgBatchSize = cfWorkerBatchSize c, cfgLeaseTTL = 0,
     cfgDispatchTimeout = cfDispatchTimeout c, cfgMaxPendingTriggers = cfMaxPendingTriggers c\<rparr>"

text \<open>\<open>base\<close> holds what the SDK and the libraries provide; the configuration decides the rest.\<close>

definition serviceOptions :: "Saas \<Rightarrow> configuration \<Rightarrow> Gateway \<Rightarrow> Saas" where
  "serviceOptions base c gateway =
     base\<lparr>saasDatabase := True, saasDriver := cfStoreDriver c, saasSchema := cfDatabaseSchema c, saasWorkerID := cfWorkerID c, saasWorker := processWorkerConfig c,
          saasConfigured := [cfRuntimeID c],
          saasDownstreams := Some (\<lambda>appl. case RemoteDownstreams (saasValidApplication base) (Some gateway) appl of
            Inl e \<Rightarrow> fail e | Inr d \<Rightarrow> ret (Some (downstreamOf d)))\<rparr>"

text \<open>\<open>newGateway\<close> is \<^verbatim>\<open>dispatchgateway.NewRemote\<close>, called with the endpoint, the Runtime, the secret, the timeout and the attempts.\<close>

definition newDispatchGateway ::
  "(string \<Rightarrow> string \<Rightarrow> string \<Rightarrow> duration \<Rightarrow> int \<Rightarrow> goerr + Gateway) \<Rightarrow> configuration \<Rightarrow> goerr + Gateway" where
  "newDispatchGateway newGateway c =
     newGateway (cfRuntimeEndpoint c) (cfRuntimeID c) (cfRuntimeSigningSecret c) (cfGatewayTimeout c) (cfGatewayAttempts c)"

record startup =
  stParseDuration :: "string \<Rightarrow> duration option"
  stGetenv :: "string \<Rightarrow> string"
  stDriver :: databaseDriver
  stNewGateway :: "string \<Rightarrow> string \<Rightarrow> string \<Rightarrow> duration \<Rightarrow> int \<Rightarrow> goerr + Gateway"
  stBase :: Saas
  stCapability :: "goerr + string \<times> (ServerRequest \<Rightarrow> ServerResponse)"

text \<open>\<^verbatim>\<open>run\<close> up to the listening server; the deferred \<^verbatim>\<open>Shutdown\<close> runs when the server cannot be made.\<close>

definition runProcess :: "startup \<Rightarrow> (configuration \<times> Saas \<times> Server) saasop" where
  "runProcess P =
     (case configurationFromEnvironment (stParseDuration P) (stGetenv P) of Inl e \<Rightarrow> fail e | Inr c \<Rightarrow>
      case fst (openOwnedDatabase (stDriver P) c) of Inl e \<Rightarrow> fail e | Inr _ \<Rightarrow>
      case newDispatchGateway (stNewGateway P) c of Inl e \<Rightarrow> fail e | Inr gateway \<Rightarrow>
      let opts = serviceOptions (stBase P) c gateway in
      bindE (NewDatabaseService opts) (\<lambda>_.
        case NewServer (saasValidApplication opts) True [(cfRuntimeID c, cfBearerToken c)] (stCapability P) of
          Inl e \<Rightarrow> bindE Shutdown (\<lambda>_. fail e)
        | Inr server \<Rightarrow> ret (c, opts, server)))"

text \<open>
  The handlers of the process: the two probes, and the Scheduler for everything else. \<open>redirected\<close> is the answer \<^verbatim>\<open>http.ServeMux\<close>
  itself gives to a path that is not clean.
\<close>

definition serveProcess ::
  "(ServerRequest \<Rightarrow> ServerResponse option) \<Rightarrow> Saas \<Rightarrow> Codec \<Rightarrow> Server \<Rightarrow> ServerRequest \<Rightarrow> ServerResponse saasop" where
  "serveProcess redirected opts C s request =
     (case redirected request of Some response \<Rightarrow> ret response | None \<Rightarrow>
      if inMethod request \<in> {''GET'', ''HEAD''} \<and> inPath request \<in> {''/live'', ''/ready''} then ret noContent
      else ServeHTTP opts C s request)"

text \<open>
  The rest of \<^verbatim>\<open>run\<close>: requests are served until the process is told to stop, and \<^verbatim>\<open>httpServer.Shutdown\<close> answers, or
  until the server stops by itself. The deferred calls then shut the service down and close the database handle.
\<close>

datatype processEnd = SignalReceived "goerr option" | ServeStopped goerr

definition processResult :: "processEnd \<Rightarrow> goerr option" where
  "processResult ending =
     (case ending of
        SignalReceived shutdownError \<Rightarrow> shutdownError
      | ServeStopped e \<Rightarrow> if errorsIs e ErrServerClosed then None else Some e)"

primrec serveRequests ::
  "(ServerRequest \<Rightarrow> ServerResponse option) \<Rightarrow> Saas \<Rightarrow> Codec \<Rightarrow> Server \<Rightarrow> ServerRequest list \<Rightarrow> unit saasop" where
  "serveRequests redirected opts C s [] = ret ()"
| "serveRequests redirected opts C s (request # requests) =
     attempt (serveProcess redirected opts C s request) (\<lambda>_. serveRequests redirected opts C s requests)"

definition runServer ::
  "startup \<Rightarrow> (ServerRequest \<Rightarrow> ServerResponse option) \<Rightarrow> Codec \<Rightarrow> ServerRequest list \<Rightarrow> processEnd \<Rightarrow> unit saasop" where
  "runServer P redirected C requests ending =
     bindE (runProcess P) (\<lambda>(c, opts, server).
     bindE (serveRequests redirected opts C server requests) (\<lambda>_.
     bindE Shutdown (\<lambda>_.
     case processResult ending of None \<Rightarrow> ret () | Some e \<Rightarrow> fail e)))"

text \<open>What \<^verbatim>\<open>run\<close> does to the database handle, the deferred \<^verbatim>\<open>Close\<close> included.\<close>

definition runHandle :: "startup \<Rightarrow> handleEvent list" where
  "runHandle P =
     (case configurationFromEnvironment (stParseDuration P) (stGetenv P) of Inl _ \<Rightarrow> [] | Inr c \<Rightarrow>
      case openOwnedDatabase (stDriver P) c of (Inl _, events) \<Rightarrow> events | (Inr _, events) \<Rightarrow> events @ [HandleClosed])"

section \<open>Properties\<close>

lemma one_of_three: "(if a then x else if b then y else if c then z else u) = v \<Longrightarrow> v \<noteq> u \<Longrightarrow> v = x \<or> v = y \<or> v = z"
  by (auto split: if_splits)

lemma selectDriver_Inr:
  assumes "selectDriver driver c = Inr c'"
  shows "(cfStoreDriver c', cfSqlDriver c') \<in> {(''sqlite'', ''sqlite''), (''postgres'', ''pgx''), (''mysql'', ''mysql'')} \<and>
    cfWorkerBatchSize c' = cfWorkerBatchSize c \<and> cfMaxPendingTriggers c' = cfMaxPendingTriggers c \<and>
    cfDispatchTimeout c' = cfDispatchTimeout c"
  using one_of_three [OF assms [unfolded selectDriver_def] sum.distinct(2)] unfolding sum.inject
  by (elim disjE) simp_all

lemma setting_Inr: "setting raw parse ok message assign c = Inr c' \<Longrightarrow> c' = c \<or> (\<exists>v. ok v \<and> c' = assign v c)"
  unfolding setting_def by (auto split: option.splits if_splits)

text \<open>
  Only a usable configuration is accepted: one of the three supported driver pairs, a positive batch, a backlog limit between
  one and a million, a dispatch timeout above zero and at most thirty minutes, and every identity, credential and
  address present. The bounds hold whatever the parser of durations accepts.
\<close>

theorem configuration_bounds:
  assumes "configurationFromEnvironment parseDuration getenv = Inr c"
  shows "(cfStoreDriver c, cfSqlDriver c) \<in> {(''sqlite'', ''sqlite''), (''postgres'', ''pgx''), (''mysql'', ''mysql'')} \<and>
    0 < cfWorkerBatchSize c \<and> 1 \<le> cfMaxPendingTriggers c \<and> cfMaxPendingTriggers c \<le> 1000000 \<and>
    0 < cfDispatchTimeout c \<and> cfDispatchTimeout c \<le> 30 * minute \<and>
    [] \<notin> {cfDatabaseDSN c, cfWorkerID c, cfRuntimeID c, cfBearerToken c, cfRuntimeEndpoint c, cfRuntimeSigningSecret c}"
proof -
  let ?d = "defaultConfiguration getenv"
  obtain c1 c2 c3 where steps: "selectDriver (toLower (env getenv ''SCHEDULER_DATABASE_DRIVER'' ''sqlite'')) ?d = Inr c1"
      "setting (getenv ''SCHEDULER_WORKER_BATCH_SIZE'') parseAtoi (\<lambda>v. \<not> v \<le> 0)
         ''SCHEDULER_WORKER_BATCH_SIZE must be positive'' (\<lambda>v. cfWorkerBatchSize_update (\<lambda>_. v)) c1 = Inr c2"
      "setting (getenv ''SCHEDULER_MAX_PENDING_TRIGGERS'') parseAtoi (\<lambda>v. \<not> (v < 1 \<or> v > 1000000))
         ''SCHEDULER_MAX_PENDING_TRIGGERS must be between 1 and 1000000'' (\<lambda>v. cfMaxPendingTriggers_update (\<lambda>_. v)) c2 = Inr c3"
      "setting (getenv ''SCHEDULER_DISPATCH_TIMEOUT'') parseDuration (\<lambda>v. \<not> (v \<le> 0 \<or> v > 30 * minute))
         ''SCHEDULER_DISPATCH_TIMEOUT must be between 1ns and 30m'' (\<lambda>v. cfDispatchTimeout_update (\<lambda>_. v)) c3 = Inr c"
      "[] \<notin> {cfDatabaseDSN c, cfWorkerID c, cfRuntimeID c, cfBearerToken c, cfRuntimeEndpoint c, cfRuntimeSigningSecret c}"
    using assms unfolding configurationFromEnvironment_def by (auto split: sum.splits if_split_asm)
  have d: "cfWorkerBatchSize ?d = 100" "cfMaxPendingTriggers ?d = 10000" "cfDispatchTimeout ?d = 5 * minute" "0 < minute"
    by (simp_all add: defaultConfiguration_def minute_def second_def)
  note c1 = selectDriver_Inr [OF steps(1)]
  have c2: "cfStoreDriver c2 = cfStoreDriver c1" "cfSqlDriver c2 = cfSqlDriver c1" "0 < cfWorkerBatchSize c2"
      "cfMaxPendingTriggers c2 = 10000" "cfDispatchTimeout c2 = 5 * minute"
    using setting_Inr [OF steps(2)] c1 d by auto
  have c3: "cfStoreDriver c3 = cfStoreDriver c1" "cfSqlDriver c3 = cfSqlDriver c1" "0 < cfWorkerBatchSize c3"
      "1 \<le> cfMaxPendingTriggers c3" "cfMaxPendingTriggers c3 \<le> 1000000" "cfDispatchTimeout c3 = 5 * minute"
    using setting_Inr [OF steps(3)] c2 by auto
  then show ?thesis using setting_Inr [OF steps(4)] c1 d(4) steps(5) by auto
qed

text \<open>
  A database handle is never leaked: when opening fails, either no handle was opened or the last thing done to it is to close it;
  when it succeeds the handle is open and answered a ping, and a SQLite database is a file.
\<close>

theorem database_handle_owned:
  "case openOwnedDatabase D c of
     (Inl _, events) \<Rightarrow> events = [] \<or> last events = HandleClosed
   | (Inr _, events) \<Rightarrow> HandleClosed \<notin> set events \<and> last events = HandlePinged \<and>
       (\<exists>dsn. hd events = HandleOpened (cfSqlDriver c) dsn) \<and> \<not> (cfStoreDriver c = ''sqlite'' \<and> memoryDSN (cfDatabaseDSN c))"
  unfolding openOwnedDatabase_def Let_def by (auto split: sum.splits option.splits)

lemma bindCredentials_single:
  "bindCredentials V Map.empty [(runtime, token)] = Inr cs \<Longrightarrow> cs = [(trimSpace runtime, sha256 (trimSpace token))]"
  by (auto simp: Let_def split: option.splits if_splits)

text \<open>
  A process that started serves one Runtime: its service is configured for the Runtime, worker and store of a usable
  configuration, with the configured limits, and every request it authenticates is authenticated as that Runtime.
\<close>

lemma process_serves_one_runtime:
  assumes "runProcess P w = (Inr (c, opts, server), w')"
  shows "configurationFromEnvironment (stParseDuration P) (stGetenv P) = Inr c \<and>
    saasConfigured opts = [cfRuntimeID c] \<and> saasWorkerID opts = cfWorkerID c \<and> saasDriver opts = cfStoreDriver c \<and>
    cfgMaxPendingTriggers (saasWorker opts) = cfMaxPendingTriggers c \<and> cfgDispatchTimeout (saasWorker opts) = cfDispatchTimeout c \<and>
    (\<forall>request k. authenticate server request = Some k \<longrightarrow> k = trimSpace (cfRuntimeID c))"
proof -
  obtain gateway w1 where steps: "configurationFromEnvironment (stParseDuration P) (stGetenv P) = Inr c"
      "opts = serviceOptions (stBase P) c gateway"
      "NewServer (saasValidApplication opts) True [(cfRuntimeID c, cfBearerToken c)] (stCapability P) = Inr server"
    using assms unfolding runProcess_def Let_def
    by (auto simp: fail_def ret_def elim!: bindE_InrE split: sum.splits)
  have "serverCredentials server = [(trimSpace (cfRuntimeID c), sha256 (trimSpace (cfBearerToken c)))]"
    using steps(3) bindCredentials_single unfolding NewServer_def by (auto split: if_splits sum.splits)
  then have "authenticate server request = Some k \<Longrightarrow> k = trimSpace (cfRuntimeID c)" for request k
    by (auto simp: authenticate_def Let_def split: if_splits)
  then show ?thesis using steps(1,2) by (auto simp: serviceOptions_def processWorkerConfig_def)
qed

lemma Shutdown_leaves: "Shutdown w = (Inr (), w') \<Longrightarrow> saasApplications (memory (db w')) = Map.empty \<and> saasCanceled (memory (db w'))"
  by (auto simp: Shutdown_def modifyMemory_def)

lemma Shutdown_returns: "\<exists>w'. Shutdown w = (Inr (), w')"
  by (simp add: Shutdown_def modifyMemory_def)

lemma restore_failed:
  assumes "foldE (\<lambda>runtime _. attempt (application opts runtime) (\<lambda>q. case q of
      Inl e \<Rightarrow> bindE Shutdown (\<lambda>_. fail (Wrapf (text runtime) e)) | Inr _ \<Rightarrow> ret ())) runtimes () w = (Inl e, w')"
  shows "saasApplications (memory (db w')) = Map.empty"
  using assms
proof (induction runtimes arbitrary: w)
  case (Cons runtime runtimes)
  obtain q v where q: "application opts runtime w = (q, v)" by fastforce
  obtain v' where v': "Shutdown v = (Inr (), v')" using Shutdown_returns by blast
  show ?case
    using Cons.prems Cons.IH [of v] q v' Shutdown_leaves [OF v']
    by (cases q) (auto simp: bindE_def attempt_def fail_def ret_def)
qed (simp add: ret_def)

lemma NewDatabaseService_failed:
  assumes "NewDatabaseService opts w = (Inl e, w')" "saasApplications (memory (db w)) = Map.empty"
  shows "saasApplications (memory (db w')) = Map.empty"
  using assms unfolding NewDatabaseService_def
  by (auto simp: fail_def dest: restore_failed split: if_splits sum.splits option.splits)

lemma runProcess_failed:
  assumes "runProcess P w = (Inl e, w')" "saasApplications (memory (db w)) = Map.empty"
  shows "saasApplications (memory (db w')) = Map.empty"
proof (cases "configurationFromEnvironment (stParseDuration P) (stGetenv P)")
  case (Inr c)
  show ?thesis
  proof (cases "newDispatchGateway (stNewGateway P) c")
    case gateway: (Inr g)
    obtain q v where q: "NewDatabaseService (serviceOptions (stBase P) c g) w = (q, v)" by fastforce
    obtain v' where v': "Shutdown v = (Inr (), v')" using Shutdown_returns by blast
    show ?thesis
      using assms q v' Shutdown_leaves [OF v'] NewDatabaseService_failed Inr gateway
      by (cases q) (auto simp: runProcess_def bindE_def fail_def ret_def Let_def split: sum.splits)
  qed (use assms Inr in \<open>auto simp: runProcess_def fail_def split: sum.splits\<close>)
qed (use assms in \<open>auto simp: runProcess_def fail_def\<close>)

lemma serveRequests_returns: "\<exists>w'. serveRequests redirected opts C s requests w = (Inr (), w')"
  by (induction requests arbitrary: w) (auto simp: ret_def attempt_def split: prod.split)


section \<open>Witnesses\<close>

definition exEnv :: "string \<Rightarrow> string" where
  "exEnv key = (if key = ''SCHEDULER_MAX_PENDING_TRIGGERS'' then ''50'' else
     if key \<in> {''SCHEDULER_DATABASE_DRIVER'', ''SCHEDULER_WORKER_BATCH_SIZE'', ''SCHEDULER_DISPATCH_TIMEOUT''} then [] else ''x'')"

lemma exEnv_configuration:
  "configurationFromEnvironment (\<lambda>_. None) exEnv = Inr (projr (configurationFromEnvironment (\<lambda>_. None) exEnv))"
  "cfMaxPendingTriggers (projr (configurationFromEnvironment (\<lambda>_. None) exEnv)) = 50"
  by code_simp+

theorem configuration_bounds_witness:
  "\<exists>c. configurationFromEnvironment (\<lambda>_. None) exEnv = Inr c \<and> cfMaxPendingTriggers c = 50 \<and> cfDispatchTimeout c \<le> 30 * minute"
  using configuration_bounds [OF exEnv_configuration(1)] exEnv_configuration by blast

text \<open>A process whose database opens and whose dispatch gateway cannot be made.\<close>

definition exStartup :: startup where
  "exStartup = \<lparr>stParseDuration = (\<lambda>_. None), stGetenv = exEnv,
     stDriver = \<lparr>drvResolveDSN = (\<lambda>dsn _ _ _. Inr dsn), drvOpenError = (\<lambda>_ _. None), drvInitError = None, drvPingError = None\<rparr>,
     stNewGateway = (\<lambda>_ _ _ _ _. Inl (Errorf ''endpoint'')), stBase = exSaas, stCapability = Inl (Errorf ''capability'')\<rparr>"

lemma exEnv_dsn: "memoryDSN (cfDatabaseDSN (projr (configurationFromEnvironment (\<lambda>_. None) exEnv))) = False"
  by code_simp


end
