(* ===== verification/Schema_Properties.thy ===== *)
theory Schema_Properties
  imports Schema
begin

text \<open>
  What the migrations do. The first part reads the builders relationally: a table has columns, keys and rows of named
  cells; \<^verbatim>\<open>CREATE TABLE\<close>, \<^verbatim>\<open>CREATE TABLE IF NOT EXISTS\<close> and \<^verbatim>\<open>ALTER TABLE ADD COLUMN\<close> act on a map of such tables.
  Declared lengths of text columns are not checked. The second part shows that the migrations bring every earlier version
  of the schema to the last one and keep the rows.
\<close>

section \<open>Relational reading of the builders\<close>

datatype cell = NullCell | TextCell string | IntCell int | BoolCell bool

type_synonym tuple = "(string \<times> cell) list"

record relation =
  relColumns :: "ColumnDefinition list"
  relKeys :: "string list list"
  relRows :: "tuple list"

type_synonym relational = "string \<rightharpoonup> relation"

fun typeFits :: "ColumnType \<Rightarrow> cell \<Rightarrow> bool" where
  "typeFits (TextKeyType n) c = (case c of TextCell _ \<Rightarrow> True | _ \<Rightarrow> False)"
| "typeFits TextType c = (case c of TextCell _ \<Rightarrow> True | _ \<Rightarrow> False)"
| "typeFits LongTextType c = (case c of TextCell _ \<Rightarrow> True | _ \<Rightarrow> False)"
| "typeFits JSONType c = (case c of TextCell _ \<Rightarrow> True | _ \<Rightarrow> False)"
| "typeFits BigIntType c = (case c of IntCell _ \<Rightarrow> True | _ \<Rightarrow> False)"
| "typeFits BooleanType c = (case c of BoolCell _ \<Rightarrow> True | _ \<Rightarrow> False)"

definition cellFits :: "ColumnDefinition \<Rightarrow> cell \<Rightarrow> bool" where
  "cellFits col c = (if c = NullCell then \<not> columnNotNull col else typeFits (columnType col) c)"

definition rowFits :: "ColumnDefinition list \<Rightarrow> tuple \<Rightarrow> bool" where
  "rowFits cols row \<longleftrightarrow> map fst row = map columnName cols \<and> list_all2 cellFits cols (map snd row)"

definition rowKey :: "tuple \<Rightarrow> string list \<Rightarrow> cell option list" where
  "rowKey row key = map (map_of row) key"

definition rowsClash :: "string list list \<Rightarrow> tuple \<Rightarrow> tuple \<Rightarrow> bool" where
  "rowsClash ks row row' \<longleftrightarrow> (\<exists>key \<in> set ks. rowKey row key = rowKey row' key)"

definition relationOk :: "relation \<Rightarrow> bool" where
  "relationOk r \<longleftrightarrow> (\<forall>row \<in> set (relRows r). rowFits (relColumns r) row) \<and>
     sorted_wrt (\<lambda>row row'. \<not> rowsClash (relKeys r) row row') (relRows r)"

definition defaultCell :: "ColumnDefinition \<Rightarrow> cell" where
  "defaultCell c = (case columnDefault c of None \<Rightarrow> NullCell | Some v \<Rightarrow> TextCell v)"

definition createdTable :: "TableBuilder \<Rightarrow> relation" where
  "createdTable t = \<lparr>relColumns = tableColumns t, relKeys = tablePrimary t # tableUnique t, relRows = []\<rparr>"

definition addedColumn :: "ColumnDefinition \<Rightarrow> relation \<Rightarrow> relation" where
  "addedColumn c r = r\<lparr>relColumns := relColumns r @ [c],
     relRows := map (\<lambda>row. row @ [(columnName c, defaultCell c)]) (relRows r)\<rparr>"

fun execStatement :: "StatementBuilder \<Rightarrow> relational \<Rightarrow> relational option" where
  "execStatement (NewTable t) \<sigma> =
     (case \<sigma> (tableName t) of
        Some r \<Rightarrow> if tableIfNotExists t then Some \<sigma> else None
      | None \<Rightarrow> Some (\<sigma>(tableName t \<mapsto> createdTable t)))"
| "execStatement (NewAddColumn name c) \<sigma> =
     (case \<sigma> name of
        None \<Rightarrow> None
      | Some r \<Rightarrow>
          if columnName c \<in> set (map columnName (relColumns r)) then None
          else if columnNotNull c \<and> columnDefault c = None \<and> relRows r \<noteq> [] then None
          else Some (\<sigma>(name \<mapsto> addedColumn c r)))"

fun execStatements :: "StatementBuilder list \<Rightarrow> relational \<Rightarrow> relational option" where
  "execStatements [] \<sigma> = Some \<sigma>"
| "execStatements (b # bs) \<sigma> = (case execStatement b \<sigma> of None \<Rightarrow> None | Some \<sigma>' \<Rightarrow> execStatements bs \<sigma>')"

text \<open>What each version of \<open>Migrations\<close> builds, and the empty schema of a version.\<close>

definition migrationBuilders :: "StatementBuilder list list" where
  "migrationBuilders = [map NewTable foundationTables, [NewTable definitionTable], [NewTable commandReceiptTable],
     [NewTable definitionSnapshotTable], [NewTable definitionPublicationTable], [NewTable scheduledPlanTable],
     [NewAddColumn ''_scheduler_definition_states'' sourceKindColumn], [NewTable capacityGuardTable]]"

definition schemaAt :: "nat \<Rightarrow> relational" where
  "schemaAt v = (case execStatements (concat (take v migrationBuilders)) Map.empty of None \<Rightarrow> Map.empty | Some \<sigma> \<Rightarrow> \<sigma>)"

definition hasShape :: "relation \<Rightarrow> relation \<Rightarrow> bool" where
  "hasShape declared r \<longleftrightarrow> relColumns r = relColumns declared \<and> relKeys r = relKeys declared \<and> relationOk r"

definition conforms :: "relational \<Rightarrow> relational \<Rightarrow> bool" where
  "conforms declared \<sigma> \<longleftrightarrow> (\<forall>name r. declared name = Some r \<longrightarrow> (\<exists>q. \<sigma> name = Some q \<and> hasShape r q))"

section \<open>The migrations that are handed over\<close>

lemma buildTables_Inr:
  "buildTables build ts = Inr out \<Longrightarrow> map (\<lambda>t. build (NewTable t)) ts = map Inr out"
  by (induction ts arbitrary: out) (auto split: sum.splits)

lemma buildOne_Inr: "buildOne build what b = Inr out \<longleftrightarrow> build b = Inr out"
  by (simp add: buildOne_def split: sum.splits)

lemma buildTables_Inl:
  "isl (buildTables build ts) \<longleftrightarrow> (\<exists>t \<in> set ts. isl (build (NewTable t)))"
  by (induction ts) (auto simp: isl_def split: sum.splits)

lemma buildOne_isl: "isl (buildOne build what b) \<longleftrightarrow> isl (build b)"
  by (auto simp: buildOne_def isl_def split: sum.splits)

text \<open>
  \<open>Migrations\<close> builds every statement of every version, in order, or fails because a builder of the schema failed.
\<close>

lemma Migrations_Inr:
  assumes "Migrations build = Inr ms"
  shows "map migrationVersion ms = [1..<Suc SchemaVersion]"
    "map (\<lambda>m. map Inr (migrationStatements m)) ms = map (map build) migrationBuilders"
proof -
  show "map migrationVersion ms = [1..<Suc SchemaVersion]"
    using assms unfolding Migrations_def SchemaVersion_def by (auto simp: upt_rec split: sum.splits)
  show "map (\<lambda>m. map Inr (migrationStatements m)) ms = map (map build) migrationBuilders"
    using assms unfolding Migrations_def migrationBuilders_def
    by (auto simp: buildOne_Inr comp_def dest!: buildTables_Inr split: sum.splits)
qed

lemma isl_case: "isl (case a of Inl e \<Rightarrow> Inl e | Inr x \<Rightarrow> f x) \<longleftrightarrow> isl a \<or> isl (f (projr a))"
  by (cases a) auto

lemma Migrations_isl:
  "isl (Migrations build) \<longleftrightarrow> (\<exists>b \<in> set (concat migrationBuilders). isl (build b))"
  unfolding Migrations_def isl_case buildTables_Inl buildOne_isl migrationBuilders_def by auto

section \<open>Upgrading\<close>

fun createdNames :: "StatementBuilder list \<Rightarrow> string set" where
  "createdNames [] = {}"
| "createdNames (NewTable t # bs) = insert (tableName t) (createdNames bs)"
| "createdNames (NewAddColumn name c # bs) = createdNames bs"

text \<open>No statement touches a table that a later one creates.\<close>

fun freshNames :: "StatementBuilder list \<Rightarrow> bool" where
  "freshNames [] = True"
| "freshNames (NewTable t # bs) = (tableName t \<notin> createdNames bs \<and> freshNames bs)"
| "freshNames (NewAddColumn name c # bs) = (name \<notin> createdNames bs \<and> freshNames bs)"

definition keysDeclared :: "ColumnDefinition list \<Rightarrow> string list list \<Rightarrow> bool" where
  "keysDeclared cols ks \<longleftrightarrow> (\<forall>key \<in> set ks. set key \<subseteq> set (map columnName cols))"

fun soundStatement :: "StatementBuilder \<Rightarrow> bool" where
  "soundStatement (NewTable t) = keysDeclared (tableColumns t) (tablePrimary t # tableUnique t)"
| "soundStatement (NewAddColumn name c) = (cellFits c (defaultCell c) \<and> (columnNotNull c \<longrightarrow> columnDefault c \<noteq> None))"

definition keysSound :: "relational \<Rightarrow> bool" where
  "keysSound \<delta> \<longleftrightarrow> (\<forall>name r. \<delta> name = Some r \<longrightarrow> keysDeclared (relColumns r) (relKeys r))"

text \<open>A database in which a table that is still to be created is absent, or is there in the declared shape and may stay.\<close>

definition adoptable :: "StatementBuilder list \<Rightarrow> relational \<Rightarrow> bool" where
  "adoptable bs \<sigma> \<longleftrightarrow> (\<forall>t r. NewTable t \<in> set bs \<longrightarrow> \<sigma> (tableName t) = Some r \<longrightarrow>
     tableIfNotExists t \<and> hasShape (createdTable t) r)"

definition rowsExtend :: "tuple list \<Rightarrow> tuple list \<Rightarrow> bool" where
  "rowsExtend rows rows' = list_all2 (\<lambda>row row'. \<exists>extra. row' = row @ extra) rows rows'"

definition keepsRows :: "relational \<Rightarrow> relational \<Rightarrow> bool" where
  "keepsRows \<sigma> \<sigma>' \<longleftrightarrow> (\<forall>name r. \<sigma> name = Some r \<longrightarrow> (\<exists>r'. \<sigma>' name = Some r' \<and>
     rowsExtend (relRows r) (relRows r')))"

lemma rowsExtend_refl: "rowsExtend rows rows"
  by (simp add: rowsExtend_def list_all2_refl)

lemma rowsExtend_trans: "rowsExtend a b \<Longrightarrow> rowsExtend b c \<Longrightarrow> rowsExtend a c"
  unfolding rowsExtend_def by (rule list_all2_trans) auto

lemma keepsRows_refl: "keepsRows \<sigma> \<sigma>"
  by (auto simp: keepsRows_def rowsExtend_refl)

lemma keepsRows_trans: "keepsRows a b \<Longrightarrow> keepsRows b c \<Longrightarrow> keepsRows a c"
  unfolding keepsRows_def by (meson rowsExtend_trans)

lemma keepsRows_update:
  assumes "\<And>r. \<sigma> name = Some r \<Longrightarrow> rowsExtend (relRows r) (relRows r')"
  shows "keepsRows \<sigma> (\<sigma>(name \<mapsto> r'))"
  using assms by (auto simp: keepsRows_def rowsExtend_refl)

lemma conforms_update:
  assumes "conforms \<delta> \<sigma>" "hasShape r q"
  shows "conforms (\<delta>(name \<mapsto> r)) (\<sigma>(name \<mapsto> q))"
  using assms by (auto simp: conforms_def)

lemma conformsE:
  assumes "conforms \<delta> \<sigma>" "\<delta> name = Some r"
  obtains q where "\<sigma> name = Some q" "hasShape r q"
  using assms unfolding conforms_def by blast

lemma createdTable_shape: "hasShape (createdTable t) (createdTable t)"
  by (simp add: hasShape_def createdTable_def relationOk_def)

text \<open>Adding a column keeps the rows valid and their keys apart.\<close>

lemma rowKey_extend:
  assumes "map fst row = map columnName cols" "set key \<subseteq> set (map columnName cols)"
  shows "rowKey (row @ extra) key = rowKey row key"
proof -
  have "map_of (row @ extra) k = map_of row k" if "k \<in> set key" for k
  proof -
    have "k \<in> set (map fst row)" using assms that by auto
    then have "map_of row k \<noteq> None" by (simp add: map_of_eq_None_iff)
    then show ?thesis by (auto simp: map_of_append map_add_def split: option.splits)
  qed
  then show ?thesis by (simp add: rowKey_def)
qed

lemma addedColumn_shape:
  assumes shape: "hasShape d r" and keys: "keysDeclared (relColumns d) (relKeys d)" and fits: "cellFits c (defaultCell c)"
  shows "hasShape (addedColumn c d) (addedColumn c r)"
proof -
  let ?cols = "relColumns d" and ?ext = "\<lambda>row. row @ [(columnName c, defaultCell c)]"
  have cols: "relColumns r = ?cols" "relKeys r = relKeys d" and ok: "relationOk r"
    using shape by (simp_all add: hasShape_def)
  have rows: "rowFits ?cols row" if "row \<in> set (relRows r)" for row
    using ok that cols by (simp add: relationOk_def)
  have "rowFits (?cols @ [c]) (?ext row)" if "row \<in> set (relRows r)" for row
    using rows [OF that] fits by (simp add: rowFits_def list_all2_appendI)
  moreover have "rowsClash (relKeys d) (?ext row) (?ext row') = rowsClash (relKeys d) row row'"
    if "row \<in> set (relRows r)" "row' \<in> set (relRows r)" for row row'
    using rows [OF that(1)] rows [OF that(2)] keys rowKey_extend
    unfolding rowsClash_def rowFits_def keysDeclared_def by (metis (no_types, lifting))
  then have "sorted_wrt (\<lambda>a b. \<not> rowsClash (relKeys d) (?ext a) (?ext b)) (relRows r)"
    using ok cols by (auto simp: relationOk_def intro: sorted_wrt_mono_rel [rotated])
  ultimately show ?thesis
    using cols by (auto simp: hasShape_def addedColumn_def relationOk_def sorted_wrt_map)
qed

lemma adoptable_Cons: "adoptable (b # bs) \<sigma> \<Longrightarrow> adoptable bs \<sigma>"
  by (auto simp: adoptable_def)

lemma adoptable_head:
  "adoptable (NewTable t # bs) \<sigma> \<Longrightarrow> \<sigma> (tableName t) = Some r \<Longrightarrow> tableIfNotExists t \<and> hasShape (createdTable t) r"
  unfolding adoptable_def by (meson list.set_intros(1))

lemma createdNames_iff: "name \<in> createdNames bs \<longleftrightarrow> (\<exists>t. NewTable t \<in> set bs \<and> tableName t = name)"
  by (induction bs rule: createdNames.induct) auto

lemma adoptable_update: "adoptable bs \<sigma> \<Longrightarrow> name \<notin> createdNames bs \<Longrightarrow> adoptable bs (\<sigma>(name \<mapsto> r))"
  by (auto simp: adoptable_def createdNames_iff)

lemma execStatement_create:
  assumes run: "execStatement (NewTable t) \<delta> = Some \<delta>'" and c: "conforms \<delta> \<sigma>" "keysSound \<delta>"
    and s: "soundStatement (NewTable t)" "adoptable (NewTable t # bs) \<sigma>" "freshNames (NewTable t # bs)"
  shows "\<exists>\<sigma>'. execStatement (NewTable t) \<sigma> = Some \<sigma>' \<and> conforms \<delta>' \<sigma>' \<and> keysSound \<delta>' \<and> adoptable bs \<sigma>' \<and> keepsRows \<sigma> \<sigma>'"
proof (cases "\<delta> (tableName t)")
  case (Some r)
  with c(1) obtain q where "\<sigma> (tableName t) = Some q" by (rule conformsE)
  moreover have "tableIfNotExists t" "\<delta>' = \<delta>" using Some run by (auto split: if_splits)
  ultimately show ?thesis using c adoptable_Cons [OF s(2)] by (simp add: keepsRows_refl)
next
  case None
  with run have d': "\<delta>' = \<delta>(tableName t \<mapsto> createdTable t)" by simp
  have k': "keysSound \<delta>'" using c(2) s(1) by (auto simp: d' keysSound_def createdTable_def)
  show ?thesis
  proof (cases "\<sigma> (tableName t)")
    case None
    moreover have "conforms \<delta>' (\<sigma>(tableName t \<mapsto> createdTable t))"
      unfolding d' by (rule conforms_update [OF c(1) createdTable_shape])
    moreover have "keepsRows \<sigma> (\<sigma>(tableName t \<mapsto> createdTable t))" by (rule keepsRows_update) (simp add: None)
    moreover have "adoptable bs (\<sigma>(tableName t \<mapsto> createdTable t))"
      using s(3) by (intro adoptable_update [OF adoptable_Cons [OF s(2)]]) simp
    ultimately show ?thesis using k' by simp
  next
    case (Some q)
    then have q: "tableIfNotExists t" "hasShape (createdTable t) q" using adoptable_head [OF s(2)] by simp_all
    then have "conforms \<delta>' (\<sigma>(tableName t \<mapsto> q))" unfolding d' by (intro conforms_update [OF c(1)])
    then have "conforms \<delta>' \<sigma>" using Some by (simp add: map_upd_triv)
    then show ?thesis using Some q(1) k' adoptable_Cons [OF s(2)] by (simp add: keepsRows_refl)
  qed
qed

lemma execStatement_extend:
  assumes run: "execStatement (NewAddColumn name c) \<delta> = Some \<delta>'" and c: "conforms \<delta> \<sigma>" "keysSound \<delta>"
    and s: "soundStatement (NewAddColumn name c)" "adoptable (NewAddColumn name c # bs) \<sigma>" "freshNames (NewAddColumn name c # bs)"
  shows "\<exists>\<sigma>'. execStatement (NewAddColumn name c) \<sigma> = Some \<sigma>' \<and> conforms \<delta>' \<sigma>' \<and> keysSound \<delta>' \<and> adoptable bs \<sigma>' \<and> keepsRows \<sigma> \<sigma>'"
proof -
  obtain d where d: "\<delta> name = Some d" "columnName c \<notin> set (map columnName (relColumns d))" "\<delta>' = \<delta>(name \<mapsto> addedColumn c d)"
    using run by (auto split: option.splits if_splits)
  obtain q where q: "\<sigma> name = Some q" "hasShape d q" using c(1) d(1) by (rule conformsE)
  have keys: "keysDeclared (relColumns d) (relKeys d)" using c(2) d(1) by (auto simp: keysSound_def)
  let ?\<sigma> = "\<sigma>(name \<mapsto> addedColumn c q)"
  have "execStatement (NewAddColumn name c) \<sigma> = Some ?\<sigma>"
    using q d(2) s(1) by (auto simp: hasShape_def)
  moreover have "conforms \<delta>' ?\<sigma>"
    unfolding d(3) using addedColumn_shape [OF q(2) keys] s(1) by (intro conforms_update [OF c(1)]) simp
  moreover have "keysSound \<delta>'"
    using c(2) keys by (auto simp: d(3) keysSound_def keysDeclared_def addedColumn_def)
  moreover have "keepsRows \<sigma> ?\<sigma>"
    by (rule keepsRows_update) (simp add: q(1) addedColumn_def rowsExtend_def list_all2_map2 list_all2_same)
  ultimately show ?thesis
    using adoptable_update [OF adoptable_Cons [OF s(2)]] s(3) by auto
qed

lemma execStatements_upgrade:
  assumes "execStatements bs \<delta> = Some \<delta>'" "conforms \<delta> \<sigma>" "keysSound \<delta>" "\<forall>b \<in> set bs. soundStatement b"
    "adoptable bs \<sigma>" "freshNames bs"
  shows "\<exists>\<sigma>'. execStatements bs \<sigma> = Some \<sigma>' \<and> conforms \<delta>' \<sigma>' \<and> keepsRows \<sigma> \<sigma>'"
  using assms
proof (induction bs arbitrary: \<delta> \<sigma>)
  case Nil
  then show ?case by (simp add: keepsRows_refl)
next
  case (Cons b bs)
  from Cons.prems(1) obtain \<delta>1 where d: "execStatement b \<delta> = Some \<delta>1" "execStatements bs \<delta>1 = Some \<delta>'"
    by (auto split: option.splits)
  have "\<exists>\<sigma>1. execStatement b \<sigma> = Some \<sigma>1 \<and> conforms \<delta>1 \<sigma>1 \<and> keysSound \<delta>1 \<and> adoptable bs \<sigma>1 \<and> keepsRows \<sigma> \<sigma>1"
    using d(1) Cons.prems(2-6) execStatement_create execStatement_extend by (cases b) auto
  then obtain \<sigma>1 where s: "execStatement b \<sigma> = Some \<sigma>1" "conforms \<delta>1 \<sigma>1" "keysSound \<delta>1" "adoptable bs \<sigma>1" "keepsRows \<sigma> \<sigma>1"
    by blast
  have "freshNames bs" using Cons.prems(6) by (cases b) auto
  with Cons.IH [OF d(2) s(2,3) _ s(4)] Cons.prems(4) obtain \<sigma>' where
    "execStatements bs \<sigma>1 = Some \<sigma>'" "conforms \<delta>' \<sigma>'" "keepsRows \<sigma>1 \<sigma>'" by auto
  with s(1,5) keepsRows_trans show ?case by auto
qed

text \<open>The same facts about the Scheduler's own migrations.\<close>

lemma execStatements_append:
  "execStatements (as @ bs) \<sigma> = (case execStatements as \<sigma> of None \<Rightarrow> None | Some \<sigma>' \<Rightarrow> execStatements bs \<sigma>')"
  by (induction as arbitrary: \<sigma>) (auto split: option.splits)

lemmas table_defs = definitionStatesTable_def runsTable_def runEventsTable_def deadLettersTable_def definitionTable_def
  commandReceiptTable_def definitionSnapshotTable_def definitionPublicationTable_def scheduledPlanTable_def
  sourceKindColumn_def capacityGuardTable_def requiredColumn_def optionalColumn_def

lemma tableName_simps [simp]:
    "tableName definitionStatesTable = ''_scheduler_definition_states''"
    "tableName runsTable = ''_scheduler_runs''"
    "tableName runEventsTable = ''_scheduler_run_events''"
    "tableName deadLettersTable = ''_scheduler_dead_letters''"
    "tableName definitionTable = ''_scheduler_definitions''"
    "tableName commandReceiptTable = ''_scheduler_command_receipts''"
    "tableName definitionSnapshotTable = ''_scheduler_definition_snapshots''"
    "tableName definitionPublicationTable = ''_scheduler_definition_publications''"
    "tableName scheduledPlanTable = ''_scheduler_plans''"
    "tableName capacityGuardTable = ''_scheduler_capacity_guards''"
  by (simp_all add: table_defs)

lemma migrations_sound: "\<forall>b \<in> set (concat migrationBuilders). soundStatement b"
  by (simp add: migrationBuilders_def foundationTables_def table_defs keysDeclared_def cellFits_def defaultCell_def)

lemma migrations_fresh: "freshNames (concat migrationBuilders)"
  by (simp add: migrationBuilders_def foundationTables_def table_defs)

lemma migrations_run: "execStatements (concat migrationBuilders) Map.empty \<noteq> None"
  by (simp add: migrationBuilders_def foundationTables_def table_defs createdTable_def)

lemma freshNames_append: "freshNames (as @ bs) \<Longrightarrow> freshNames bs"
  by (induction as rule: freshNames.induct) auto

lemma schemaAt_run:
  "execStatements (concat (take v migrationBuilders)) Map.empty = Some (schemaAt v)"
  "execStatements (concat (drop v migrationBuilders)) (schemaAt v) = Some (schemaAt SchemaVersion)"
proof -
  have split: "concat migrationBuilders = concat (take v migrationBuilders) @ concat (drop v migrationBuilders)"
    by (metis append_take_drop_id concat_append)
  have all: "take SchemaVersion migrationBuilders = migrationBuilders" by (simp add: SchemaVersion_def migrationBuilders_def)
  show first: "execStatements (concat (take v migrationBuilders)) Map.empty = Some (schemaAt v)"
    using migrations_run unfolding split execStatements_append by (auto simp: schemaAt_def split: option.splits)
  show "execStatements (concat (drop v migrationBuilders)) (schemaAt v) = Some (schemaAt SchemaVersion)"
    using migrations_run unfolding schemaAt_def [of SchemaVersion] all split execStatements_append first
    by (auto split: option.splits)
qed

lemma execStatements_keysSound:
  assumes "execStatements bs \<delta> = Some \<delta>'" "keysSound \<delta>" "\<forall>b \<in> set bs. soundStatement b"
  shows "keysSound \<delta>'"
  using assms
proof (induction bs arbitrary: \<delta>)
  case (Cons b bs)
  then obtain \<delta>1 where d: "execStatement b \<delta> = Some \<delta>1" "execStatements bs \<delta>1 = Some \<delta>'" by (auto split: option.splits)
  have "keysSound \<delta>1"
  proof (cases b)
    case (NewTable t)
    then show ?thesis using d(1) Cons.prems(2,3) by (auto simp: keysSound_def createdTable_def split: option.splits if_splits)
  next
    case (NewAddColumn name c)
    then obtain r where "\<delta> name = Some r" "\<delta>1 = \<delta>(name \<mapsto> addedColumn c r)" using d(1) by (auto split: option.splits if_splits)
    then show ?thesis using Cons.prems(2) unfolding keysSound_def keysDeclared_def addedColumn_def by (simp, blast)
  qed
  with Cons d(2) show ?case by simp
qed simp

lemma schemaAt_keysSound: "keysSound (schemaAt v)"
proof (rule execStatements_keysSound [OF schemaAt_run(1)])
  show "keysSound Map.empty" by (simp add: keysSound_def)
  show "\<forall>b \<in> set (concat (take v migrationBuilders)). soundStatement b"
    using migrations_sound by (auto dest: in_set_takeD)
qed

section \<open>What running the migrations does\<close>

fun runSql :: "(string \<Rightarrow> relational \<Rightarrow> relational option) \<Rightarrow> string list \<Rightarrow> relational \<Rightarrow> relational option" where
  "runSql exec [] \<sigma> = Some \<sigma>"
| "runSql exec (s # ss) \<sigma> = (case exec s \<sigma> of None \<Rightarrow> None | Some \<sigma>' \<Rightarrow> runSql exec ss \<sigma>')"

lemma runSql_builders:
  assumes "map Inr ss = map build bs" "\<And>b s. b \<in> set bs \<Longrightarrow> build b = Inr s \<Longrightarrow> exec s = execStatement b"
  shows "runSql exec ss \<sigma> = execStatements bs \<sigma>"
  using assms
proof (induction bs arbitrary: ss \<sigma>)
  case (Cons b bs)
  then obtain s rest where ss: "ss = s # rest" "build b = Inr s" "map Inr rest = map build bs" by (cases ss) auto
  have head: "exec s = execStatement b" using Cons.prems(2) ss(2) by simp
  have "runSql exec rest \<sigma>' = execStatements bs \<sigma>'" for \<sigma>'
    using Cons.prems(2) by (intro Cons.IH [OF ss(3)]) simp
  then show ?case by (simp add: head ss(1) split: option.split)
qed simp

lemma Migrations_statements_from:
  assumes "Migrations build = Inr ms"
  shows "map Inr (concat (map migrationStatements (drop v ms))) = map build (concat (drop v migrationBuilders))"
proof -
  have "map (\<lambda>m. map Inr (migrationStatements m)) (drop v ms) = map (map build) (drop v migrationBuilders)"
    using Migrations_Inr(2) [OF assms] by (metis drop_map)
  then have "concat (map (\<lambda>m. map Inr (migrationStatements m)) (drop v ms)) = concat (map (map build) (drop v migrationBuilders))"
    by simp
  then show ?thesis by (simp add: map_concat comp_def)
qed

text \<open>
  C16. The migrations upgrade a database of any earlier version and lose nothing. Let \<open>exec\<close> run the SQL that the builders
  of the schema are rendered to. Then the eight migrations are numbered 1 to 8, and a database that has the tables of the
  first \<open>v\<close> versions, with the declared columns, types, nullability and keys, and in which a table still to be created is
  absent or is one of that shape whose creation is conditional, can run the migrations after \<open>v\<close>: none of their
  statements fails, the result has every table of version 8, and every row is still there with its cells, followed by
  those of added columns.
\<close>

theorem migrations_upgrade:
  assumes "Migrations build = Inr ms"
    and "\<And>b s. b \<in> set (concat migrationBuilders) \<Longrightarrow> build b = Inr s \<Longrightarrow> exec s = execStatement b"
    and "conforms (schemaAt v) \<sigma>" "adoptable (concat (drop v migrationBuilders)) \<sigma>"
  shows "map migrationVersion ms = [1..<Suc SchemaVersion] \<and>
    (\<exists>\<sigma>'. runSql exec (concat (map migrationStatements (drop v ms))) \<sigma> = Some \<sigma>' \<and>
       conforms (schemaAt SchemaVersion) \<sigma>' \<and> keepsRows \<sigma> \<sigma>')"
proof -
  let ?bs = "concat (drop v migrationBuilders)"
  have split: "concat migrationBuilders = concat (take v migrationBuilders) @ ?bs"
    by (metis append_take_drop_id concat_append)
  have sound: "\<forall>b \<in> set ?bs. soundStatement b" and fresh: "freshNames ?bs"
    using migrations_sound migrations_fresh freshNames_append unfolding split by auto
  have "runSql exec (concat (map migrationStatements (drop v ms))) \<sigma> = execStatements ?bs \<sigma>"
    using assms(2) by (intro runSql_builders [OF Migrations_statements_from [OF assms(1)]]) (simp add: split)
  then show ?thesis
    using execStatements_upgrade [OF schemaAt_run(2) assms(3) schemaAt_keysSound sound assms(4) fresh]
      Migrations_Inr(1) [OF assms(1)] by simp
qed

text \<open>A database of version 1 with one definition state, and a rendering that names the statements.\<close>

definition exRender :: "StatementBuilder \<Rightarrow> goerr + string" where
  "exRender b = (case b of NewTable t \<Rightarrow> Inr (tableName t) | NewAddColumn name c \<Rightarrow> Inr (name @ CHR ''.'' # columnName c))"

definition exExec :: "string \<Rightarrow> relational \<Rightarrow> relational option" where
  "exExec s = (case find (\<lambda>b. exRender b = Inr s) (concat migrationBuilders) of None \<Rightarrow> (\<lambda>_. None) | Some b \<Rightarrow> execStatement b)"

definition exStateTuple :: tuple where
  "exStateTuple = [(''runtime_id'', TextCell ''app''), (''definition_key'', TextCell ''nightly''), (''revision'', TextCell ''r1''),
     (''enabled'', BoolCell True), (''definition_json'', TextCell ''{}''), (''next_run_at'', TextCell ''2026''),
     (''last_run_at'', NullCell), (''last_run_status'', NullCell), (''snapshot_revision'', IntCell 1), (''updated_at'', TextCell ''2026'')]"

definition exVersion1 :: relational where
  "exVersion1 = (schemaAt 1)(''_scheduler_definition_states'' \<mapsto> (createdTable definitionStatesTable)\<lparr>relRows := [exStateTuple]\<rparr>)"

lemma exRender_unique: "distinct (map exRender (concat migrationBuilders))"
  by (simp add: migrationBuilders_def foundationTables_def table_defs exRender_def)

lemma exExec_reads:
  assumes "b \<in> set (concat migrationBuilders)" "exRender b = Inr s"
  shows "exExec s = execStatement b"
proof -
  have "find (\<lambda>b. exRender b = Inr s) (concat migrationBuilders) = Some c \<Longrightarrow> c = b" for c
    using assms exRender_unique by (metis (mono_tags, lifting) distinct_map find_Some_iff inj_onD nth_mem)
  moreover have "find (\<lambda>b. exRender b = Inr s) (concat migrationBuilders) \<noteq> None"
    using assms by (auto simp: find_None_iff)
  ultimately show ?thesis by (auto simp: exExec_def)
qed

lemma exRender_total: "isl (exRender b) = False"
  by (cases b) (simp_all add: exRender_def)

lemma schemaAt_1: "schemaAt 1 = [''_scheduler_definition_states'' \<mapsto> createdTable definitionStatesTable,
    ''_scheduler_runs'' \<mapsto> createdTable runsTable, ''_scheduler_run_events'' \<mapsto> createdTable runEventsTable,
    ''_scheduler_dead_letters'' \<mapsto> createdTable deadLettersTable]"
  by (simp add: schemaAt_def migrationBuilders_def foundationTables_def)

lemma exVersion1_conforms: "conforms (schemaAt 1) exVersion1"
proof -
  have "conforms (schemaAt 1) (schemaAt 1)"
    unfolding schemaAt_1 conforms_def by (auto simp: createdTable_shape split: if_splits)
  moreover have "hasShape (createdTable definitionStatesTable) ((createdTable definitionStatesTable)\<lparr>relRows := [exStateTuple]\<rparr>)"
    by (simp add: hasShape_def relationOk_def createdTable_def rowFits_def definitionStatesTable_def requiredColumn_def optionalColumn_def
        exStateTuple_def cellFits_def)
  ultimately have "conforms ((schemaAt 1)(''_scheduler_definition_states'' \<mapsto> createdTable definitionStatesTable)) exVersion1"
    unfolding exVersion1_def by (rule conforms_update)
  then show ?thesis unfolding schemaAt_1 by (simp add: fun_upd_twist)
qed

lemma exVersion1_adoptable: "adoptable (concat (drop 1 migrationBuilders)) exVersion1"
  unfolding adoptable_def exVersion1_def schemaAt_1 migrationBuilders_def by (auto split: if_splits)

theorem migrations_upgrade_witness:
  "\<exists>ms \<sigma>'. Migrations exRender = Inr ms \<and>
     runSql exExec (concat (map migrationStatements (drop 1 ms))) exVersion1 = Some \<sigma>' \<and>
     conforms (schemaAt SchemaVersion) \<sigma>' \<and> keepsRows exVersion1 \<sigma>' \<and>
     exVersion1 ''_scheduler_definition_states'' = Some ((createdTable definitionStatesTable)\<lparr>relRows := [exStateTuple]\<rparr>)"
proof -
  obtain ms where ms: "Migrations exRender = Inr ms"
    using Migrations_isl [of exRender] exRender_total by (cases "Migrations exRender") auto
  show ?thesis
    using migrations_upgrade [OF ms exExec_reads exVersion1_conforms exVersion1_adoptable] ms
    by (auto simp: exVersion1_def)
qed

end
