(* ===== verification/Schema_Tables.thy ===== *)
theory Schema_Tables
  imports Schema_Properties
begin

text \<open>
  The database of this development is what the migrations create. A locale states what a table of typed rows owes the
  declaration of its table; each of the ten tables is an interpretation. The keys of \<open>Database\<close> are the declared ones, and
  its inserts are refused exactly when the declared keys refuse them.
\<close>

section \<open>The rows of the model in the migrated tables\<close>

definition textOrNull :: "string option \<Rightarrow> cell" where
  "textOrNull v = (case v of None \<Rightarrow> NullCell | Some x \<Rightarrow> TextCell x)"

definition intOrNull :: "int option \<Rightarrow> cell" where
  "intOrNull v = (case v of None \<Rightarrow> NullCell | Some x \<Rightarrow> IntCell x)"

lemma orNull_fits [simp]:
  "typeFits kind (TextCell []) \<Longrightarrow> cellFits (optionalColumn name kind) (textOrNull v)"
  "typeFits kind (IntCell 0) \<Longrightarrow> cellFits (optionalColumn name kind) (intOrNull n)"
  by (cases kind; cases v; cases n; simp add: cellFits_def optionalColumn_def textOrNull_def intOrNull_def)+

lemma required_fits [simp]:
  "typeFits kind c \<Longrightarrow> c \<noteq> NullCell \<Longrightarrow> cellFits (requiredColumn name kind) c"
  by (simp add: cellFits_def requiredColumn_def)

lemma sourceKindColumn_simps [simp]: "cellFits sourceKindColumn (TextCell v)" "columnName sourceKindColumn = ''source_kind''"
  by (simp_all add: sourceKindColumn_def cellFits_def)

lemma columnName_simps [simp]: "columnName (requiredColumn name kind) = name" "columnName (optionalColumn name kind) = name"
  by (simp_all add: requiredColumn_def optionalColumn_def)

definition stateCells :: "definition_state_row \<Rightarrow> tuple" where
  "stateCells r =
     [(''runtime_id'', TextCell (ds_runtime_id r)), (''definition_key'', TextCell (ds_definition_key r)),
      (''revision'', TextCell (ds_revision r)), (''enabled'', BoolCell (ds_enabled r)),
      (''definition_json'', TextCell (ds_definition_json r)), (''next_run_at'', TextCell (ds_next_run_at r)),
      (''last_run_at'', textOrNull (ds_last_run_at r)), (''last_run_status'', textOrNull (ds_last_run_status r)),
      (''snapshot_revision'', IntCell (ds_snapshot_revision r)), (''updated_at'', TextCell (ds_updated_at r)),
      (''source_kind'', TextCell (ds_source_kind r))]"

definition runCells :: "run_row \<Rightarrow> tuple" where
  "runCells r =
     [(''runtime_id'', TextCell (r_runtime_id r)), (''run_id'', TextCell (r_run_id r)),
      (''definition_key'', TextCell (r_definition_key r)),
      (''definition_revision'', TextCell (r_definition_revision r)), (''scheduled_for'', TextCell (r_scheduled_for r)),
      (''window_key'', TextCell (r_window_key r)), (''target_json'', TextCell (r_target_json r)),
      (''metadata_json'', textOrNull (r_metadata_json r)), (''status'', TextCell (r_status r)),
      (''attempt'', IntCell (r_attempt r)), (''lease_owner'', textOrNull (r_lease_owner r)),
      (''lease_expires_at'', textOrNull (r_lease_expires_at r)), (''fencing_token'', IntCell (r_fencing_token r)),
      (''next_retry_at'', textOrNull (r_next_retry_at r)), (''receipt_json'', textOrNull (r_receipt_json r)),
      (''last_error'', textOrNull (r_last_error r)), (''created_at'', TextCell (r_created_at r)),
      (''updated_at'', TextCell (r_updated_at r))]"

definition eventCells :: "event_row \<Rightarrow> tuple" where
  "eventCells r =
     [(''runtime_id'', TextCell (ev_runtime_id r)), (''event_id'', TextCell (ev_event_id r)),
      (''run_id'', TextCell (ev_run_id r)), (''event_type'', TextCell (ev_event_type r)),
      (''message'', textOrNull (ev_message r)), (''metadata_json'', textOrNull (ev_metadata_json r)),
      (''created_at'', TextCell (ev_created_at r))]"

definition deadLetterCells :: "dead_letter_row \<Rightarrow> tuple" where
  "deadLetterCells r =
     [(''runtime_id'', TextCell (dl_runtime_id r)), (''run_id'', TextCell (dl_run_id r)),
      (''definition_key'', TextCell (dl_definition_key r)), (''reason'', TextCell (dl_reason r)),
      (''failed_at'', TextCell (dl_failed_at r)), (''resolved_at'', textOrNull (dl_resolved_at r))]"

definition definitionCells :: "definition_row \<Rightarrow> tuple" where
  "definitionCells r =
     [(''id'', TextCell (df_id r)), (''resource_key'', TextCell (df_resource_key r)),
      (''object_key'', TextCell (df_object_key r)), (''name'', TextCell (df_name r)),
      (''payload_json'', TextCell (df_payload_json r)), (''schema_version'', TextCell (df_schema_version r)),
      (''schema_hash'', TextCell (df_schema_hash r)), (''source_kind'', TextCell (df_source_kind r)),
      (''source_id'', TextCell (df_source_id r)), (''disabled_at'', textOrNull (df_disabled_at r)),
      (''created_at'', TextCell (df_created_at r)), (''updated_at'', TextCell (df_updated_at r))]"

definition receiptCells :: "command_receipt_row \<Rightarrow> tuple" where
  "receiptCells r =
     [(''runtime_id'', TextCell (cr_runtime_id r)), (''idempotency_key'', TextCell (cr_idempotency_key r)),
      (''action_key'', TextCell (cr_action_key r)), (''resource_key'', TextCell (cr_resource_key r)),
      (''request_hash'', TextCell (cr_request_hash r)), (''status'', TextCell (cr_status r)),
      (''http_status'', IntCell (cr_http_status r)), (''response_json'', textOrNull (cr_response_json r)),
      (''created_at'', TextCell (cr_created_at r)), (''updated_at'', TextCell (cr_updated_at r))]"

definition snapshotCells :: "snapshot_row \<Rightarrow> tuple" where
  "snapshotCells r =
     [(''source_kind'', TextCell (sn_source_kind r)), (''source_id'', TextCell (sn_source_id r)),
      (''revision'', IntCell (sn_revision r)), (''schema_version'', TextCell (sn_schema_version r)),
      (''schema_hash'', TextCell (sn_schema_hash r)), (''updated_at'', TextCell (sn_updated_at r))]"

definition publicationCells :: "publication_row \<Rightarrow> tuple" where
  "publicationCells r =
     [(''source_kind'', TextCell (pb_source_kind r)), (''source_id'', TextCell (pb_source_id r)),
      (''active_generation'', IntCell (pb_active_generation r)),
      (''active_session_sha256'', TextCell (pb_active_session_sha256 r)),
      (''cursor_generation'', intOrNull (pb_cursor_generation r)),
      (''cursor_session_sha256'', textOrNull (pb_cursor_session_sha256 r)),
      (''cursor_revision'', intOrNull (pb_cursor_revision r)),
      (''cursor_content_sha256'', textOrNull (pb_cursor_content_sha256 r)),
      (''updated_at'', TextCell (pb_updated_at r))]"

definition planCells :: "plan_row \<Rightarrow> tuple" where
  "planCells r =
     [(''runtime_id'', TextCell (pl_runtime_id r)), (''plan_id'', TextCell (pl_plan_id r)),
      (''client_id'', TextCell (pl_client_id r)), (''request_sha256'', TextCell (pl_request_sha256 r)),
      (''workspace_id'', TextCell (pl_workspace_id r)), (''user_id'', TextCell (pl_user_id r)),
      (''product_key'', TextCell (pl_product_key r)), (''name'', TextCell (pl_name r)),
      (''timezone'', TextCell (pl_timezone r)), (''trigger_json'', TextCell (pl_trigger_json r)),
      (''input_json'', TextCell (pl_input_json r)), (''allowed_actions_json'', TextCell (pl_allowed_actions_json r)),
      (''target_json'', TextCell (pl_target_json r)),
      (''source_conversation_id'', textOrNull (pl_source_conversation_id r)),
      (''source_run_id'', textOrNull (pl_source_run_id r)), (''status'', TextCell (pl_status r)),
      (''revision'', IntCell (pl_revision r)), (''created_at'', TextCell (pl_created_at r)),
      (''updated_at'', TextCell (pl_updated_at r))]"

definition guardCells :: "guard_row \<Rightarrow> tuple" where
  "guardCells r =
     [(''runtime_id'', TextCell (cg_runtime_id r)), (''revision'', IntCell (cg_revision r))]"

definition storedRows :: "relation \<Rightarrow> ('r \<Rightarrow> tuple) \<Rightarrow> 'r list \<Rightarrow> relation" where
  "storedRows declared cells rows = declared\<lparr>relRows := map cells rows\<rparr>"

text \<open>An \<^verbatim>\<open>INSERT\<close> by the declared columns and keys.\<close>

definition insertRow :: "string \<Rightarrow> tuple \<Rightarrow> relational \<Rightarrow> relational option" where
  "insertRow name row \<sigma> =
     (case \<sigma> name of
        None \<Rightarrow> None
      | Some r \<Rightarrow>
          if \<not> rowFits (relColumns r) row \<or> (\<exists>q \<in> set (relRows r). rowsClash (relKeys r) q row) then None
          else Some (\<sigma>(name \<mapsto> r\<lparr>relRows := relRows r @ [row]\<rparr>)))"

text \<open>
  What a table of the model owes its declaration: every row fits the declared columns, and two rows clash in the model
  exactly when they agree on a declared key.
\<close>

locale stored_table =
  fixes declared :: relation and cells :: "'r \<Rightarrow> tuple" and clash :: "'r \<Rightarrow> 'r \<Rightarrow> bool"
  assumes row_fits: "rowFits (relColumns declared) (cells r)"
    and clash_iff: "rowsClash (relKeys declared) (cells r) (cells q) \<longleftrightarrow> clash r q"
begin

lemma stored_shape: "hasShape declared (storedRows declared cells rows) \<longleftrightarrow> sorted_wrt (\<lambda>a b. \<not> clash a b) rows"
  by (simp add: hasShape_def storedRows_def relationOk_def row_fits clash_iff sorted_wrt_map)

lemma insert_stored:
  assumes "\<sigma> name = Some (storedRows declared cells rows)"
  shows "insertRow name (cells r) \<sigma> =
    (if \<exists>q \<in> set rows. clash q r then None else Some (\<sigma>(name \<mapsto> storedRows declared cells (rows @ [r]))))"
  using assms by (simp add: insertRow_def storedRows_def row_fits clash_iff)

end

text \<open>The table of definition states after version 7 added its column.\<close>

definition migratedStates :: relation where
  "migratedStates = addedColumn sourceKindColumn (createdTable definitionStatesTable)"

lemmas stored_defs = rowFits_def rowsClash_def rowKey_def createdTable_def migratedStates_def addedColumn_def

interpretation states_rows: stored_table "migratedStates" stateCells "\<lambda>a b. definition_state_key a = definition_state_key b"
  by unfold_locales (auto simp: stored_defs stateCells_def definitionStatesTable_def definition_state_key_def)

interpretation run_rows: stored_table "createdTable runsTable" runCells "\<lambda>a b. run_key a = run_key b \<or> run_window a = run_window b"
  by unfold_locales (auto simp: stored_defs runCells_def runsTable_def run_key_def run_window_def)

interpretation event_rows: stored_table "createdTable runEventsTable" eventCells "\<lambda>a b. event_key a = event_key b"
  by unfold_locales (auto simp: stored_defs eventCells_def runEventsTable_def event_key_def)

interpretation dead_rows: stored_table "createdTable deadLettersTable" deadLetterCells "\<lambda>a b. dead_letter_key a = dead_letter_key b"
  by unfold_locales (auto simp: stored_defs deadLetterCells_def deadLettersTable_def dead_letter_key_def)

interpretation definition_rows: stored_table "createdTable definitionTable" definitionCells "\<lambda>a b. df_id a = df_id b \<or> df_resource_key a = df_resource_key b"
  by unfold_locales (auto simp: stored_defs definitionCells_def definitionTable_def )

interpretation receipt_rows: stored_table "createdTable commandReceiptTable" receiptCells "\<lambda>a b. command_receipt_key a = command_receipt_key b"
  by unfold_locales (auto simp: stored_defs receiptCells_def commandReceiptTable_def command_receipt_key_def)

interpretation snapshot_rows: stored_table "createdTable definitionSnapshotTable" snapshotCells "\<lambda>a b. snapshot_key a = snapshot_key b"
  by unfold_locales (auto simp: stored_defs snapshotCells_def definitionSnapshotTable_def snapshot_key_def)

interpretation publication_rows: stored_table "createdTable definitionPublicationTable" publicationCells "\<lambda>a b. publication_key a = publication_key b"
  by unfold_locales (auto simp: stored_defs publicationCells_def definitionPublicationTable_def publication_key_def)

interpretation plan_rows: stored_table "createdTable scheduledPlanTable" planCells "\<lambda>a b. plan_key a = plan_key b"
  by unfold_locales (auto simp: stored_defs planCells_def scheduledPlanTable_def plan_key_def)

interpretation guard_rows: stored_table "createdTable capacityGuardTable" guardCells "\<lambda>a b. cg_runtime_id a = cg_runtime_id b"
  by unfold_locales (auto simp: stored_defs guardCells_def capacityGuardTable_def )

section \<open>The database as migrated tables\<close>

definition relationalOf :: "database \<Rightarrow> relational" where
  "relationalOf d = [
     ''_scheduler_definition_states'' \<mapsto> storedRows migratedStates stateCells (definition_states d),
     ''_scheduler_runs'' \<mapsto> storedRows (createdTable runsTable) runCells (runs d),
     ''_scheduler_run_events'' \<mapsto> storedRows (createdTable runEventsTable) eventCells (run_events d),
     ''_scheduler_dead_letters'' \<mapsto> storedRows (createdTable deadLettersTable) deadLetterCells (dead_letters d),
     ''_scheduler_definitions'' \<mapsto> storedRows (createdTable definitionTable) definitionCells (definitions d),
     ''_scheduler_command_receipts'' \<mapsto> storedRows (createdTable commandReceiptTable) receiptCells (command_receipts d),
     ''_scheduler_definition_snapshots'' \<mapsto> storedRows (createdTable definitionSnapshotTable) snapshotCells (definition_snapshots d),
     ''_scheduler_definition_publications'' \<mapsto> storedRows (createdTable definitionPublicationTable) publicationCells (definition_publications d),
     ''_scheduler_plans'' \<mapsto> storedRows (createdTable scheduledPlanTable) planCells (plans d),
     ''_scheduler_capacity_guards'' \<mapsto> storedRows (createdTable capacityGuardTable) guardCells (capacity_guards d)]"

lemma states_columns: "relRows (createdTable definitionStatesTable) = []"
  "''source_kind'' \<notin> columnName ` set (relColumns (createdTable definitionStatesTable))"
  by (simp_all add: createdTable_def definitionStatesTable_def)

lemma schemaAt_last: "schemaAt SchemaVersion = [
    ''_scheduler_definition_states'' \<mapsto> migratedStates,
    ''_scheduler_runs'' \<mapsto> createdTable runsTable,
    ''_scheduler_run_events'' \<mapsto> createdTable runEventsTable,
    ''_scheduler_dead_letters'' \<mapsto> createdTable deadLettersTable,
    ''_scheduler_definitions'' \<mapsto> createdTable definitionTable,
    ''_scheduler_command_receipts'' \<mapsto> createdTable commandReceiptTable,
    ''_scheduler_definition_snapshots'' \<mapsto> createdTable definitionSnapshotTable,
    ''_scheduler_definition_publications'' \<mapsto> createdTable definitionPublicationTable,
    ''_scheduler_plans'' \<mapsto> createdTable scheduledPlanTable,
    ''_scheduler_capacity_guards'' \<mapsto> createdTable capacityGuardTable]"
  by (rule ext) (simp add: schemaAt_def SchemaVersion_def migrationBuilders_def foundationTables_def migratedStates_def states_columns)

lemma distinct_apart: "distinct (map k rows) \<longleftrightarrow> sorted_wrt (\<lambda>a b. k a \<noteq> k b) rows"
  by (induction rows) auto

lemma apart_two: "sorted_wrt (\<lambda>a b. \<not> (P a b \<or> Q a b)) rows \<longleftrightarrow>
    sorted_wrt (\<lambda>a b. \<not> P a b) rows \<and> sorted_wrt (\<lambda>a b. \<not> Q a b) rows"
  by (induction rows) auto

lemma conforms_upd:
  "\<delta> name = None \<Longrightarrow> conforms (\<delta>(name \<mapsto> r)) \<sigma> \<longleftrightarrow> (\<exists>q. \<sigma> name = Some q \<and> hasShape r q) \<and> conforms \<delta> \<sigma>"
  by (auto simp: conforms_def)

lemma conforms_empty: "conforms Map.empty \<sigma>"
  by (simp add: conforms_def)

lemmas stored_shapes = states_rows.stored_shape run_rows.stored_shape event_rows.stored_shape dead_rows.stored_shape
  definition_rows.stored_shape receipt_rows.stored_shape snapshot_rows.stored_shape publication_rows.stored_shape
  plan_rows.stored_shape guard_rows.stored_shape


section \<open>Inserts\<close>

text \<open>An insert that failed, or that did nothing because its key was taken.\<close>

definition refused :: "goerr + int \<Rightarrow> bool" where
  "refused q \<longleftrightarrow> isl q \<or> q = Inr 0"

definition insertsBy :: "string \<Rightarrow> ('r \<Rightarrow> tuple) \<Rightarrow> ('r \<Rightarrow> int sql) \<Rightarrow> bool" where
  "insertsBy name cells ins \<longleftrightarrow> (\<forall>r d. insertRow name (cells r) (relationalOf d) =
     (if refused (fst (ins r d)) then None else Some (relationalOf (snd (ins r d)))))"

context stored_table
begin

lemma inserts_by:
  assumes "\<And>d. relationalOf d name = Some (storedRows declared cells (tab d))"
    and "\<And>r d. refused (fst (ins r d)) \<longleftrightarrow> (\<exists>q \<in> set (tab d). clash q r)"
    and "\<And>r d. \<not> refused (fst (ins r d)) \<Longrightarrow>
      relationalOf (snd (ins r d)) = (relationalOf d)(name \<mapsto> storedRows declared cells (tab d @ [r]))"
  shows "insertsBy name cells ins"
  using assms by (simp add: insertsBy_def insert_stored)

end

lemmas insert_unfold = relationalOf_def refused_def sql_unfold image_iff

lemma states_insert: "insertsBy ''_scheduler_definition_states'' stateCells (insert_definition_states S)"
  by (rule states_rows.inserts_by [where tab = definition_states]) (auto simp: insert_unfold split: if_splits)

lemma run_insert: "insertsBy ''_scheduler_runs'' runCells (insert_runs S)"
  by (rule run_rows.inserts_by [where tab = runs]) (auto simp: insert_unfold split: if_splits)

lemma event_insert: "insertsBy ''_scheduler_run_events'' eventCells (insert_run_events S)"
  by (rule event_rows.inserts_by [where tab = run_events]) (auto simp: insert_unfold split: if_splits)

lemma dead_insert: "insertsBy ''_scheduler_dead_letters'' deadLetterCells (insert_dead_letters S)"
  by (rule dead_rows.inserts_by [where tab = dead_letters]) (auto simp: insert_unfold split: if_splits)

lemma definition_insert: "insertsBy ''_scheduler_definitions'' definitionCells (insert_definitions S)"
  by (rule definition_rows.inserts_by [where tab = definitions]) (auto simp: insert_unfold split: if_splits)

lemma receipt_insert: "insertsBy ''_scheduler_command_receipts'' receiptCells (insert_command_receipts S)"
  by (rule receipt_rows.inserts_by [where tab = command_receipts]) (auto simp: insert_unfold split: if_splits)

lemma snapshot_insert: "insertsBy ''_scheduler_definition_snapshots'' snapshotCells (insert_definition_snapshots S)"
  by (rule snapshot_rows.inserts_by [where tab = definition_snapshots]) (auto simp: insert_unfold split: if_splits)

lemma publication_insert: "insertsBy ''_scheduler_definition_publications'' publicationCells (insert_ignore_publications)"
  by (rule publication_rows.inserts_by [where tab = definition_publications]) (auto simp: insert_unfold split: if_splits)

lemma plan_insert: "insertsBy ''_scheduler_plans'' planCells (insert_ignore_plans)"
  by (rule plan_rows.inserts_by [where tab = plans]) (auto simp: insert_unfold split: if_splits)

lemma guard_insert: "insertsBy ''_scheduler_capacity_guards'' guardCells (insert_ignore_capacity_guards)"
  by (rule guard_rows.inserts_by [where tab = capacity_guards]) (auto simp: insert_unfold split: if_splits)


end
