(* ===== verification/Spec2Isabelle.thy ===== *)
theory Spec2Isabelle
  imports Go_Time_Order Run_Properties Cursor_Properties Command_Properties Publication_Digest Plan_Projection
    Service_Properties Service_Reconcile Worker_Rounds HTTP_Properties SaaS_Isolation SaaS_Publication Module_Properties
    Capability_Contract Remote_Binding Server_Process Schema_Tables
begin

text \<open>
  A verification development of the Scheduler (\<^verbatim>\<open>domainry-scheduler\<close>), a Go service that owns clocks, durable triggers, leases,
  retries and dead letters for a Runtime, either embedded in the Runtime's process (module) or as a multi-tenant
  server (SaaS). Paths below are relative to \<^verbatim>\<open>src/\<close>; \<^verbatim>\<open>persistence/\<close> is \<^verbatim>\<open>internal/infrastructure/persistence/database/\<close>.

  \<^bold>\<open>The program and how its parts interact.\<close>
  A Runtime publishes job definitions. The \<^emph>\<open>definition store\<close> keeps the published snapshot behind publisher sessions; the
  \<^emph>\<open>service\<close> reads it back, checks it and projects it into the \<^emph>\<open>run store\<close>, whose definition states carry the cursors of the
  schedules. A tick asks the run store for due windows and retries, claims each under a lease with a fencing token,
  dispatches it to a host or by HTTP under a heartbeat that renews the lease, and accepts the receipt or reports the
  failure; used-up runs become dead letters. \<^emph>\<open>Scheduled plans\<close> are one-off or recurring definitions of end users, with their own
  store and life cycle, projected into the same run store. Operators use the \<^emph>\<open>module adapter\<close>, whose commands are made
  idempotent by the \<^emph>\<open>command receipts\<close>; Runtimes use the \<^emph>\<open>SaaS server\<close>, which serves one service per application out of the
  \<^emph>\<open>SaaS database service\<close>, through the \<^emph>\<open>remote binding\<close>. The \<^emph>\<open>capability\<close> package validates authored definitions; the \<^emph>\<open>server process\<close>
  reads the environment and starts all of it.

  \<^bold>\<open>The model.\<close>
  A Go function is a function on a \<open>world\<close> (theory \<open>Go_Prelude\<close>): the state it shares (a \<open>database\<close> for the stores, a \<open>process\<close> of
  memory and database for the services, \<open>Go_Process\<close>), a clock, an entropy source, and an oracle that lets any database call fail.
  It returns \<open>Inl\<close> an error value or \<open>Inr\<close> a result; \<open>bindE\<close> is the early return on an error, \<open>attempt\<close> the call whose error is
  inspected, \<open>transaction\<close> restores the database when its body fails. Loops over rounds are bounded as in the code.

  Language and libraries:
  \<^item> \<open>Go_Prelude\<close>: errors, strings, effects, and the locale \<open>db_order\<close>: an order on states that every step respects is
    respected by every composition of steps (\<open>moves\<close>). \<open>Go_Time\<close>, \<open>Go_Time_Order\<close>: instants, RFC 3339 texts, their round trip and
    order. \<open>Go_Crypto\<close>: SHA-256, hexadecimal and base64. \<open>Go_JSON\<close>: the string encoder. \<open>Go_HTTP\<close>: canonical headers, HMAC.
    \<open>Go_Process\<close>: memory beside the database.
  \<^item> \<open>Scheduler_Types\<close>: the SDK's structs and, as the record \<open>Sdk\<close>, its functions. \<open>Database\<close>: the tables of
    \<^verbatim>\<open>persistence/schema/migrations.go\<close> with their keys, and the statements on them. \<open>Scheduler_Examples\<close>: the values of the witnesses.
  \<^item> \<open>Schema\<close>: \<^verbatim>\<open>persistence/schema/migrations.go\<close> as builders, the engines and \<^verbatim>\<open>EnsureSchema\<close> of \<^verbatim>\<open>persistence/store.go\<close>,
    \<^verbatim>\<open>persistence/migration/coordinator.go\<close> and the files above them. \<open>Schema_Properties\<close>: the builders read relationally; the migrations
    upgrade every earlier version and keep the rows. \<open>Schema_Tables\<close>: the typed rows, keys and inserts of \<open>Database\<close> are those of
    the migrated tables; each table is an interpretation of the locale \<open>stored_table\<close>.

  Components, each with the file it translates, operation by operation:
  \<^item> \<open>Run_Store\<close>: \<^verbatim>\<open>persistence/scheduler/run_store.go\<close>. \<open>Run_Steps\<close>, \<open>Run_Lifecycle\<close>, \<open>Run_Leases\<close>, \<open>Run_Reports\<close>, \<open>Run_Properties\<close>: the
    step relation of interleaved workers, the lifecycle specification it refines, fencing, capacity, leases, failure
    reports. \<open>Cursor_Properties\<close>: the cursors of the schedules.
  \<^item> \<open>Definition_Store\<close>: \<^verbatim>\<open>persistence/scheduler/definition_store.go\<close>. \<open>Publication_Steps\<close>, \<open>Publication_Properties\<close>, \<open>Publication_Readback\<close>,
    \<open>Publication_Digest\<close>: sessions and cursors only advance, superseded publishers are fenced, publication is atomic, is read
    back, and does not depend on the order of the definitions.
  \<^item> \<open>Plan_Store\<close>: \<^verbatim>\<open>persistence/scheduler/scheduled_plan_store.go\<close>; \<open>Scheduled_Plans\<close>: \<^verbatim>\<open>internal/application/scheduler/scheduled_plans.go\<close> and
    \<^verbatim>\<open>scheduled_plan_receipt.go\<close>. \<open>Plan_Properties\<close>, \<open>Plan_Steps\<close>, \<open>Plan_Projection\<close>: compare-and-swap, pages, the life cycle of a plan,
    stopped plans, the recovery loop.
  \<^item> \<open>Command_Receipts\<close>, \<open>Command_Properties\<close>: \<^verbatim>\<open>persistence/scheduler/command_receipt_store.go\<close> and the middleware of the module adapter.
  \<^item> \<open>Scheduler_Service\<close>: \<^verbatim>\<open>internal/application/scheduler/service.go\<close> and the retry policy. \<open>Service_Dispatch\<close>, \<open>Service_Properties\<close>: ticks
    and dispatch refine the lifecycle, a run succeeds only with a receipt. \<open>Service_Reconcile\<close>: memory and projection agree,
    overtaken and invalid snapshots change nothing. \<open>Worker_Lifecycle\<close>: the state machine of Start and Close. \<open>Worker_Rounds\<close>: a whole
    life of the worker, reconciliation, plan recovery and any number of ticks, refines the lifecycle of the runs.
  \<^item> \<open>HTTP_Executor\<close>, \<open>HTTP_Properties\<close>: \<^verbatim>\<open>internal/adapter/http/executor.go\<close> and \<^verbatim>\<open>internal/adapter/schedulersdk/downstream.go\<close>.
  \<^item> \<open>Assembly\<close>: \<^verbatim>\<open>internal/assembly/module/open.go\<close> and \<^verbatim>\<open>module/factory.go\<close>. \<open>SaaS_Service\<close>: \<^verbatim>\<open>internal/assembly/saas/\<close>. \<open>SaaS_Server\<close>, \<open>SaaS_Credentials\<close>:
    \<^verbatim>\<open>internal/transport/http/saas/server.go\<close>.
  \<^item> \<open>Tenant_Steps\<close>, \<open>Tenant_Service\<close>, \<open>SaaS_Isolation\<close>: every statement, operation and request touches the rows of its own
    Runtime only; the composition of server, service and stores isolates the applications. \<open>SaaS_Publication\<close>: the composition of
    remote binding, service and definition store fences a superseded Runtime process.
  \<^item> \<open>Module_Adapter\<close>, \<open>Module_Properties\<close>: \<^verbatim>\<open>internal/transport/http/module/adapter.go\<close>: routes, handlers, commands at most once.
  \<^item> \<open>Candidate_Validation\<close>, \<open>Capability_Contract\<close>: \<^verbatim>\<open>capability/contract.go\<close> and \<^verbatim>\<open>source.go\<close>. \<open>Remote_Binding\<close>: \<^verbatim>\<open>remote/\<close>. \<open>Server_Process\<close>:
    \<^verbatim>\<open>cmd/scheduler-server/main.go\<close>.

  \<^bold>\<open>Interfaces.\<close>
  \<open>db_order\<close> is extended by the contracts of the statements (\<open>run_order\<close>, \<open>publication_order\<close> and the orders of the plan table)
  and interpreted on the lifecycle, the fencing, the capacity, the publication and the tenant orders. A \<open>run_order\<close> gives an order on
  the process (\<open>sublocale\<close> in \<open>Worker_Rounds\<close>), through which the worker passes. \<open>stored_table\<close> is what a table owes its declaration.
  \<open>command_receipt_interface\<close> is what the middleware relies on; the database store interprets it.

  \<^bold>\<open>What the database is assumed to do.\<close>
  Transactions are atomic and serial; statements outside a transaction are atomic. A failing call has no effect; an ambiguous commit
  and the aborted state of a PostgreSQL transaction are not modelled. An update reports the rows it matched, an
  ignored insert reports none, \<^verbatim>\<open>RowsAffected\<close> itself does not fail. Texts are compared byte by byte, NULL
  compares as unknown, ties of an order keep table order. Column widths are not enforced, and \<^verbatim>\<open>int\<close>, \<^verbatim>\<open>int64\<close> and BIGINT values
  are unbounded integers except where the code checks or wraps them (the 64-bit generation of a service is a word).

  \<^bold>\<open>What is an argument.\<close>
  Code of other repositories: the SDK's validation, normalisation, schedule arithmetic, constants and JSON structs (\<open>Sdk\<close>, \<open>AdapterSdk\<close>,
  \<open>CandidateSdk\<close>, \<open>RemoteSdk\<close>, \<open>Platform\<close>, \<open>Codec\<close>), the foundation's capability projection (\<open>ContractSdk\<close>), the ORM (\<open>Orm\<close>), hosts, dispatchers, gateway, transport and drivers. Where a theorem
  needs something of them it is a named hypothesis: \<open>dispatchersOutside\<close> (dispatchers do not write the Scheduler's tables),
  \<open>heartbeatRuns\<close> (the heartbeat runs the work and the beats and nothing else), \<open>tenantBound\<close>, \<open>downstreamsIsolated\<close> and
  \<open>platformIsolated\<close> (what is called for one Runtime leaves the rows of others alone), \<open>previewsRead\<close> (previews only compute), \<open>hostOutside\<close> (reading a host's definitions does not write runs),
  \<open>transportDelivers\<close> (the calls of a transport are the service's), \<open>fencesExact\<close> (a fence keeps the generation of its session); each
  has a witness with concrete functions. Of the standard library, URL parsing, the decoding of JSON, the matching of
  \<^verbatim>\<open>http.ServeMux\<close> and \<^verbatim>\<open>time.ParseDuration\<close> are arguments without hypotheses. A Go map that is iterated is a list in the order of the iteration.

  \<^bold>\<open>Bounds.\<close>
  The retry rounds of publication, sessions and convergence are the constants of the code. The recovery loop over plans takes
  a bound; more rounds than there are plans are proved to be enough. The settings a worker changes are read once per dispatch.
  The number of ticks of a worker is any number.

  \<^bold>\<open>Not modelled.\<close>
  The ORM, drivers and dialects, which are calls into other repositories: how a builder is rendered and how a runner applies the
  statements and keeps its ledger; goroutines other than as interleaved steps, and mutexes other than as the serial order they
  enforce; the references and examples of the source capability; the timeouts of the HTTP server; accessors that copy a field or a
  map; panics of handlers beyond their being errors.
\<close>

end
